(* ===== verification/Prelude.thy ===== *)
theory Prelude
  imports Complex_Main
begin

text \<open>
  Shared vocabulary of the development: results that may be a thrown error, the extended
  numbers that JavaScript numbers and decimal.js values both range over, and the generic lemmas
  the components use about them.

  \<^item> \<open>'a result\<close> is \<open>error + 'a\<close>: \<open>Inl\<close> is a thrown JavaScript exception, \<open>Inr\<close> a normal return.
  \<^item> \<open>xnum\<close> is a rational number, one of the two infinities or NaN. The sign of zero is not tracked.
  \<^item> the arithmetic \<open>xadd\<close>, \<open>xsub\<close>, \<open>xmul\<close>, \<open>xdiv\<close> takes the rounding of the exact result as an
    argument: binary64 rounding for JavaScript numbers, the library's rounding for Decimals.
\<close>

named_theorems err_simps \<open>unfolding of the error monad\<close>
named_theorems xnum_simps \<open>evaluation of extended-number arithmetic on finite values\<close>

section \<open>Results that may throw\<close>

datatype error =
    Throw string      \<comment> \<open>an error thrown by the SDK, with its message (interpolated values left out)\<close>
  | TypeError         \<comment> \<open>a property read on undefined, BigInt of undefined, ...\<close>
  | RangeError        \<comment> \<open>a Buffer write outside the buffer or of a value that does not fit\<close>
  | BNError           \<comment> \<open>bn.js: toNumber of a value above 53 bits\<close>

type_synonym 'a result = "error + 'a"

definition bindE :: "'a result \<Rightarrow> ('a \<Rightarrow> 'b result) \<Rightarrow> 'b result" where
  "bindE m f = (case m of Inl e \<Rightarrow> Inl e | Inr x \<Rightarrow> f x)"

lemma bindE_simps [simp, err_simps]:
  "bindE (Inl e) f = Inl e"
  "bindE (Inr x) f = f x"
  by (simp_all add: bindE_def)

lemma bindE_Inr_iff: "bindE m f = Inr y \<longleftrightarrow> (\<exists>x. m = Inr x \<and> f x = Inr y)"
  by (cases m) auto

lemma bindE_Inl_iff: "bindE m f = Inl e \<longleftrightarrow> m = Inl e \<or> (\<exists>x. m = Inr x \<and> f x = Inl e)"
  by (cases m) auto

lemma bindE_assoc: "bindE (bindE m f) g = bindE m (\<lambda>x. bindE (f x) g)"
  by (cases m) auto

text \<open>A value that must be defined: reading a property of \<open>undefined\<close> is a TypeError.\<close>

definition deref :: "'a option \<Rightarrow> 'a result" where
  "deref v = (case v of None \<Rightarrow> Inl TypeError | Some x \<Rightarrow> Inr x)"

lemma deref_simps [simp, err_simps]: "deref None = Inl TypeError" "deref (Some x) = Inr x"
  by (simp_all add: deref_def)

lemma deref_Inr_iff [simp]: "deref v = Inr x \<longleftrightarrow> v = Some x"
  by (cases v) auto

definition guardE :: "bool \<Rightarrow> error \<Rightarrow> 'a result \<Rightarrow> 'a result" where
  "guardE c e m = (if c then m else Inl e)"

text \<open>A \<open>for ... of\<close> loop whose body may throw, over an accumulator.\<close>

fun foldE :: "('b \<Rightarrow> 'a \<Rightarrow> 'b result) \<Rightarrow> 'b \<Rightarrow> 'a list \<Rightarrow> 'b result" where
  "foldE f s [] = Inr s"
| "foldE f s (x # xs) = bindE (f s x) (\<lambda>s'. foldE f s' xs)"

fun mapE :: "('a \<Rightarrow> 'b result) \<Rightarrow> 'a list \<Rightarrow> 'b list result" where
  "mapE f [] = Inr []"
| "mapE f (x # xs) = bindE (f x) (\<lambda>y. bindE (mapE f xs) (\<lambda>ys. Inr (y # ys)))"

lemma foldE_append: "foldE f s (xs @ ys) = bindE (foldE f s xs) (\<lambda>t. foldE f t ys)"
  by (induction xs arbitrary: s) (auto simp: bindE_assoc)

lemma foldE_pure: "(\<And>s x. x \<in> set xs \<Longrightarrow> f s x = Inr (g s x)) \<Longrightarrow> foldE f s xs = Inr (foldl g s xs)"
  by (induction xs arbitrary: s) auto

lemma foldE_inv:
  assumes "foldE f s xs = Inr t" and "P s"
    and "\<And>s x s'. x \<in> set xs \<Longrightarrow> P s \<Longrightarrow> f s x = Inr s' \<Longrightarrow> P s'"
  shows "P t"
  using assms
proof (induction xs arbitrary: s)
  case Nil
  then show ?case by simp
next
  case (Cons x xs)
  then obtain s' where s': "f s x = Inr s'" "foldE f s' xs = Inr t"
    by (auto simp: bindE_Inr_iff)
  with Cons.prems have "P s'" by auto
  then show ?case
    using Cons.IH [OF s'(2)] Cons.prems(3) by auto
qed

lemma foldE_total:
  assumes "\<And>s x. x \<in> set xs \<Longrightarrow> \<exists>s'. f s x = Inr s'"
  shows "\<exists>t. foldE f s xs = Inr t"
  using assms
proof (induction xs arbitrary: s)
  case Nil
  then show ?case by simp
next
  case (Cons x xs)
  then obtain s' where "f s x = Inr s'" by (meson list.set_intros(1))
  with Cons show ?case by simp
qed

lemma mapE_Inr_length: "mapE f xs = Inr ys \<Longrightarrow> length ys = length xs"
  by (induction xs arbitrary: ys) (auto simp: bindE_Inr_iff)

lemma mapE_pure: "(\<And>x. x \<in> set xs \<Longrightarrow> f x = Inr (g x)) \<Longrightarrow> mapE f xs = Inr (map g xs)"
  by (induction xs) auto

lemma mapE_same: "(\<And>x. x \<in> set xs \<Longrightarrow> f x = Inr x) \<Longrightarrow> mapE f xs = Inr xs"
  by (induction xs) auto

lemma mapE_Inr_nth: "mapE f xs = Inr ys \<Longrightarrow> i < length xs \<Longrightarrow> f (xs ! i) = Inr (ys ! i)"
  by (induction xs arbitrary: ys i) (auto simp: bindE_Inr_iff nth_Cons split: nat.splits)

lemma mapE_Inr_set: "mapE f xs = Inr ys \<Longrightarrow> y \<in> set ys \<Longrightarrow> \<exists>x\<in>set xs. f x = Inr y"
  by (induction xs arbitrary: ys) (auto simp: bindE_Inr_iff)

lemma mapE_total: "(\<And>x. x \<in> set xs \<Longrightarrow> \<exists>y. f x = Inr y) \<Longrightarrow> \<exists>ys. mapE f xs = Inr ys"
proof (induction xs)
  case (Cons x xs)
  then obtain y ys where "f x = Inr y" "mapE f xs = Inr ys" by (meson list.set_intros)
  then show ?case by simp
qed simp

section \<open>Extended numbers\<close>

datatype xnum = Fin rat | PosInf | NegInf | NaN

fun isFinite :: "xnum \<Rightarrow> bool" where
  "isFinite (Fin _) = True"
| "isFinite _ = False"

fun isNaN :: "xnum \<Rightarrow> bool" where
  "isNaN NaN = True"
| "isNaN _ = False"

lemma isFinite_iff: "isFinite x \<longleftrightarrow> (\<exists>q. x = Fin q)"
  by (cases x) auto

text \<open>The value of a finite number; used in statements only.\<close>

fun val :: "xnum \<Rightarrow> rat" where
  "val (Fin q) = q"
| "val _ = 0"

lemma Fin_val [simp]: "isFinite x \<Longrightarrow> Fin (val x) = x"
  by (cases x) auto

fun xneg :: "xnum \<Rightarrow> xnum" where
  "xneg (Fin a) = Fin (- a)"
| "xneg PosInf = NegInf"
| "xneg NegInf = PosInf"
| "xneg NaN = NaN"

definition inf_of_sign :: "rat \<Rightarrow> xnum" where
  "inf_of_sign s = (if s > 0 then PosInf else if s < 0 then NegInf else NaN)"

fun xsgn :: "xnum \<Rightarrow> rat" where
  "xsgn (Fin a) = sgn a"
| "xsgn PosInf = 1"
| "xsgn NegInf = -1"
| "xsgn NaN = 0"

fun xadd :: "(rat \<Rightarrow> xnum) \<Rightarrow> xnum \<Rightarrow> xnum \<Rightarrow> xnum" where
  "xadd r (Fin a) (Fin b) = r (a + b)"
| "xadd r NaN _ = NaN"
| "xadd r _ NaN = NaN"
| "xadd r PosInf NegInf = NaN"
| "xadd r NegInf PosInf = NaN"
| "xadd r PosInf _ = PosInf"
| "xadd r _ PosInf = PosInf"
| "xadd r NegInf _ = NegInf"
| "xadd r _ NegInf = NegInf"

definition xsub :: "(rat \<Rightarrow> xnum) \<Rightarrow> xnum \<Rightarrow> xnum \<Rightarrow> xnum" where
  "xsub r x y = xadd r x (xneg y)"

definition xmul :: "(rat \<Rightarrow> xnum) \<Rightarrow> xnum \<Rightarrow> xnum \<Rightarrow> xnum" where
  "xmul r x y = (case (x, y) of
      (Fin a, Fin b) \<Rightarrow> r (a * b)
    | _ \<Rightarrow> (if isNaN x \<or> isNaN y then NaN else inf_of_sign (xsgn x * xsgn y)))"

text \<open>
  Division of a finite non-zero number by zero is an infinity, \<open>0/0\<close> is NaN; the divisor zero
  counts as \<open>+0\<close>.
\<close>

definition xdiv :: "(rat \<Rightarrow> xnum) \<Rightarrow> xnum \<Rightarrow> xnum \<Rightarrow> xnum" where
  "xdiv r x y = (case (x, y) of
      (Fin a, Fin b) \<Rightarrow> (if b = 0 then inf_of_sign (sgn a) else r (a / b))
    | (Fin a, NaN) \<Rightarrow> NaN
    | (Fin a, _) \<Rightarrow> Fin 0
    | (NaN, _) \<Rightarrow> NaN
    | (_, Fin b) \<Rightarrow> inf_of_sign (xsgn x * (if b = 0 then 1 else sgn b))
    | _ \<Rightarrow> NaN)"

text \<open>Comparisons are false on NaN.\<close>

fun xlt :: "xnum \<Rightarrow> xnum \<Rightarrow> bool" where
  "xlt (Fin a) (Fin b) = (a < b)"
| "xlt NaN _ = False"
| "xlt _ NaN = False"
| "xlt NegInf y = (y \<noteq> NegInf)"
| "xlt _ NegInf = False"
| "xlt PosInf _ = False"
| "xlt (Fin _) PosInf = True"

definition xeq :: "xnum \<Rightarrow> xnum \<Rightarrow> bool" where
  "xeq x y \<longleftrightarrow> \<not> isNaN x \<and> x = y"

definition xle :: "xnum \<Rightarrow> xnum \<Rightarrow> bool" where
  "xle x y \<longleftrightarrow> xlt x y \<or> xeq x y"

abbreviation xgt :: "xnum \<Rightarrow> xnum \<Rightarrow> bool" where "xgt x y \<equiv> xlt y x"
abbreviation xge :: "xnum \<Rightarrow> xnum \<Rightarrow> bool" where "xge x y \<equiv> xle y x"

text \<open>\<open>Decimal.min\<close>, \<open>Decimal.max\<close>, \<open>Math.min\<close>, \<open>Math.max\<close>: NaN if any argument is NaN.\<close>

definition xmin :: "xnum \<Rightarrow> xnum \<Rightarrow> xnum" where
  "xmin x y = (if isNaN x \<or> isNaN y then NaN else if xlt y x then y else x)"

definition xmax :: "xnum \<Rightarrow> xnum \<Rightarrow> xnum" where
  "xmax x y = (if isNaN x \<or> isNaN y then NaN else if xlt x y then y else x)"

fun xmin_list :: "xnum list \<Rightarrow> xnum" where
  "xmin_list [] = PosInf"
| "xmin_list [x] = x"
| "xmin_list (x # y # ys) = xmin_list (xmin x y # ys)"

lemma xsub_Fin [simp, xnum_simps]: "xsub r (Fin a) (Fin b) = r (a - b)"
  by (simp add: xsub_def)

lemma xmul_Fin [simp, xnum_simps]: "xmul r (Fin a) (Fin b) = r (a * b)"
  by (simp add: xmul_def)

lemma xdiv_Fin [simp, xnum_simps]:
  "xdiv r (Fin a) (Fin b) = (if b = 0 then inf_of_sign (sgn a) else r (a / b))"
  by (simp add: xdiv_def)

lemma xeq_Fin [simp, xnum_simps]: "xeq (Fin a) (Fin b) \<longleftrightarrow> a = b"
  by (simp add: xeq_def)

lemma xle_Fin [simp, xnum_simps]: "xle (Fin a) (Fin b) \<longleftrightarrow> a \<le> b"
  by (auto simp: xle_def)

lemma xmin_Fin [simp, xnum_simps]: "xmin (Fin a) (Fin b) = Fin (min a b)"
  by (auto simp: xmin_def min_def)

lemma xmax_Fin [simp, xnum_simps]: "xmax (Fin a) (Fin b) = Fin (max a b)"
  by (auto simp: xmax_def max_def)

lemma inf_of_sign_not_finite [simp]: "\<not> isFinite (inf_of_sign s)"
  by (simp add: inf_of_sign_def)

lemma xle_refl_iff [simp]: "xle x x \<longleftrightarrow> \<not> isNaN x"
  by (cases x) (auto simp: xle_def xeq_def)

lemma xle_trans: "xle x y \<Longrightarrow> xle y z \<Longrightarrow> xle x z"
  by (cases x; cases y; cases z) (auto simp: xle_def xeq_def)

lemma xmin_le: "\<not> isNaN x \<Longrightarrow> \<not> isNaN y \<Longrightarrow> xle (xmin x y) x \<and> xle (xmin x y) y"
  by (cases x; cases y) (auto simp: xmin_def xle_def xeq_def)

lemma xmax_ge: "\<not> isNaN x \<Longrightarrow> \<not> isNaN y \<Longrightarrow> xle x (xmax x y) \<and> xle y (xmax x y)"
  by (cases x; cases y) (auto simp: xmax_def xle_def xeq_def)

lemma xmin_cases: "\<not> isNaN x \<Longrightarrow> \<not> isNaN y \<Longrightarrow> xmin x y = x \<or> xmin x y = y"
  by (auto simp: xmin_def)

lemma xmin_list_not_NaN:
  "\<forall>x\<in>set xs. \<not> isNaN x \<Longrightarrow> \<not> isNaN (xmin_list xs)"
  by (induction xs rule: xmin_list.induct) (auto simp: xmin_def)

lemma xmin_list_le:
  "\<forall>x\<in>set xs. \<not> isNaN x \<Longrightarrow> z \<in> set xs \<Longrightarrow> xle (xmin_list xs) z"
proof (induction xs arbitrary: z rule: xmin_list.induct)
  case (3 u v ys)
  have nn: "\<forall>x\<in>set (xmin u v # ys). \<not> isNaN x" using "3.prems"(1) by (simp add: xmin_def)
  have IH: "\<And>w. w \<in> set (xmin u v # ys) \<Longrightarrow> xle (xmin_list (xmin u v # ys)) w"
    using "3.IH" nn by blast
  from "3.prems"(2) consider "z = u" | "z = v" | "z \<in> set ys" by auto
  then show ?case
  proof cases
    case 1
    then show ?thesis using IH [of "xmin u v"] xmin_le [of u v] "3.prems"(1) by (auto intro: xle_trans)
  next
    case 2
    then show ?thesis using IH [of "xmin u v"] xmin_le [of u v] "3.prems"(1) by (auto intro: xle_trans)
  next
    case 3
    then show ?thesis using IH [of z] by simp
  qed
qed simp_all

lemma xmin_list_in:
  "xs \<noteq> [] \<Longrightarrow> \<forall>x\<in>set xs. \<not> isNaN x \<Longrightarrow> xmin_list xs \<in> set xs"
proof (induction xs rule: xmin_list.induct)
  case (3 u v ys)
  have nn: "\<forall>x\<in>set (xmin u v # ys). \<not> isNaN x" using "3.prems"(2) by (simp add: xmin_def)
  with "3.IH" have "xmin_list (xmin u v # ys) \<in> set (xmin u v # ys)" by blast
  moreover have "xmin u v = u \<or> xmin u v = v" using "3.prems"(2) by (intro xmin_cases) auto
  ultimately show ?case by auto
qed simp_all

lemma xmin_list_ge:
  "xs \<noteq> [] \<Longrightarrow> \<forall>x\<in>set xs. \<not> isNaN x \<and> xle b x \<Longrightarrow> xle b (xmin_list xs)"
  using xmin_list_in [of xs] by blast

section \<open>Array access\<close>

text \<open>\<open>xs[i]\<close> in JavaScript: \<open>undefined\<close> outside the array.\<close>

definition arr_get :: "'a list \<Rightarrow> nat \<Rightarrow> 'a option" where
  "arr_get xs i = (if i < length xs then Some (xs ! i) else None)"

lemma arr_get_Some [simp]: "arr_get xs i = Some x \<longleftrightarrow> i < length xs \<and> xs ! i = x"
  by (auto simp: arr_get_def)

lemma arr_get_None [simp]: "arr_get xs i = None \<longleftrightarrow> length xs \<le> i"
  by (auto simp: arr_get_def)

text \<open>\<open>xs[k - 1]\<close>: for \<open>k = 0\<close> the index is \<open>-1\<close>, which is \<open>undefined\<close>.\<close>

definition arr_get_pred :: "'a list \<Rightarrow> nat \<Rightarrow> 'a option" where
  "arr_get_pred xs k = (if k = 0 then None else arr_get xs (k - 1))"

text \<open>\<open>findIndex\<close>: \<open>None\<close> stands for the result \<open>-1\<close>.\<close>

fun findIndex :: "('a \<Rightarrow> bool) \<Rightarrow> 'a list \<Rightarrow> nat option" where
  "findIndex P [] = None"
| "findIndex P (x # xs) = (if P x then Some 0 else map_option Suc (findIndex P xs))"

lemma findIndex_Some:
  "findIndex P xs = Some i \<longleftrightarrow> i < length xs \<and> P (xs ! i) \<and> (\<forall>j<i. \<not> P (xs ! j))"
proof (induction xs arbitrary: i)
  case Nil
  then show ?case by simp
next
  case (Cons x xs)
  then show ?case by (cases i) (auto simp: less_Suc_eq_0_disj)
qed

lemma findIndex_None: "findIndex P xs = None \<longleftrightarrow> (\<forall>x\<in>set xs. \<not> P x)"
  by (induction xs) auto

lemma find_eq_findIndex: "List.find P xs = map_option ((!) xs) (findIndex P xs)"
  by (induction xs) (auto simp: option.map_comp comp_def)

lemma find_append:
  "List.find P (xs @ ys) = (case List.find P xs of None \<Rightarrow> List.find P ys | Some x \<Rightarrow> Some x)"
  by (induction xs) auto

end
