(* ===== verification/Rounding.thy ===== *)
theory Rounding
  imports Prelude
begin

text \<open>
  Rounding of rational numbers to a bounded number of significant digits in a base, with a
  rounding mode and a smallest exponent. JavaScript numbers are the instance base 2, 53 digits,
  ties to even (\<open>b64\<close>); the instances in base 10 describe the documented behaviour of decimal.js.

  The locale \<open>rounding_mode\<close> is the interface of a mode (a monotone map to the integers that
  fixes them); inside it, rounding is proved monotone, idempotent and exact on representable
  numbers once for all modes, bases and precisions.
\<close>

section \<open>Digits and logarithms\<close>

function dlen :: "int \<Rightarrow> int \<Rightarrow> nat" where
  "dlen b n = (if b \<le> 1 \<or> n \<le> 0 then 0 else Suc (dlen b (n div b)))"
  by pat_completeness auto
termination
proof (relation "measure (\<lambda>(b, n). nat n)")
  fix b n :: int
  assume a: "\<not> (b \<le> 1 \<or> n \<le> 0)"
  then have "n div b < n" by (intro int_div_less_self) simp_all
  with a show "((b, n div b), b, n) \<in> measure (\<lambda>(b, n). nat n)" by simp
qed simp

declare dlen.simps [simp del]

lemma dlen_bounds: "2 \<le> b \<Longrightarrow> 0 < n \<Longrightarrow> 0 < dlen b n \<and> b ^ (dlen b n - 1) \<le> n \<and> n < b ^ dlen b n"
proof (induction b n rule: dlen.induct)
  case (1 b n)
  show ?case
  proof (cases "n div b \<le> 0")
    case True
    then have "n div b = 0" using "1.prems" by (simp add: div_int_pos_iff order_antisym pos_imp_zdiv_nonneg_iff)
    then have "n < b" using "1.prems" by (simp add: div_eq_0_iff zdiv_eq_0_iff)
    moreover have "dlen b n = 1"
      using "1.prems" True by (simp add: dlen.simps [of b n] dlen.simps [of b "n div b"])
    ultimately show ?thesis using "1.prems" by simp
  next
    case False
    define m where "m = n div b"
    have m: "0 < m" using False m_def by simp
    have IH: "0 < dlen b m \<and> b ^ (dlen b m - 1) \<le> m \<and> m < b ^ dlen b m"
      using "1.IH" "1.prems" m unfolding m_def by simp
    have d: "dlen b n = Suc (dlen b m)"
      using "1.prems" by (simp add: dlen.simps [of b n] m_def)
    have bm: "b * m \<le> n" "n < b * (m + 1)"
    proof -
      have "b * m + n mod b = n" by (simp add: m_def)
      moreover have "0 \<le> n mod b" "n mod b < b" using "1.prems" by simp_all
      ultimately show "b * m \<le> n" "n < b * (m + 1)" by (simp_all add: distrib_left)
    qed
    have "b ^ dlen b m = b * b ^ (dlen b m - 1)"
      using IH by (metis Suc_pred' power_Suc)
    also have "\<dots> \<le> b * m" using IH "1.prems" by simp
    finally have lo: "b ^ dlen b m \<le> n" using bm by simp
    have "b * (m + 1) \<le> b * b ^ dlen b m" using IH "1.prems" by (intro mult_left_mono) simp_all
    with bm have "n < b ^ Suc (dlen b m)" by simp
    with lo d show ?thesis by simp
  qed
qed

text \<open>\<open>ilog b x\<close> is the integer \<open>e\<close> with \<open>b\<^sup>e \<le> x < b\<^bsup>e+1\<^esup>\<close>, for \<open>0 < x\<close>.\<close>

definition ilog :: "nat \<Rightarrow> rat \<Rightarrow> int" where
  "ilog b x = (if 1 \<le> x then int (dlen (int b) \<lfloor>x\<rfloor>) - 1 else - int (dlen (int b) (\<lceil>1 / x\<rceil> - 1)))"

lemma power_int_nat: "(of_nat b :: rat) powi int k = of_int (int b ^ k)"
  by simp

lemma ilog_bounds:
  assumes b: "2 \<le> b" and x: "0 < x"
  shows "(of_nat b :: rat) powi ilog b x \<le> x \<and> x < of_nat b powi (ilog b x + 1)"
proof (cases "1 \<le> x")
  case True
  define n where "n = \<lfloor>x\<rfloor>"
  have n: "0 < n" using True by (simp add: n_def)
  have nx: "of_int n \<le> x" "x < of_int n + 1"
    using floor_correct [of x] by (simp_all add: n_def)
  have d: "0 < dlen (int b) n \<and> int b ^ (dlen (int b) n - 1) \<le> n \<and> n < int b ^ dlen (int b) n"
    using b n by (intro dlen_bounds) simp_all
  have e: "ilog b x = int (dlen (int b) n - 1)" using True d by (simp add: ilog_def n_def)
  have e1: "ilog b x + 1 = int (dlen (int b) n)" using e d by simp
  have "(of_nat b :: rat) powi ilog b x = of_int (int b ^ (dlen (int b) n - 1))"
    unfolding e by (rule power_int_nat)
  also have "\<dots> \<le> of_int n" using d by (simp only: of_int_le_iff)
  finally have lo: "(of_nat b :: rat) powi ilog b x \<le> x" using nx(1) by simp
  have "x < of_int (n + 1)" using nx(2) by simp
  also have "\<dots> \<le> of_int (int b ^ dlen (int b) n)" using d by (simp only: of_int_le_iff) simp
  also have "\<dots> = (of_nat b :: rat) powi (ilog b x + 1)"
    unfolding e1 by (rule power_int_nat [symmetric])
  finally show ?thesis using lo by simp
next
  case False
  define m where "m = \<lceil>1 / x\<rceil> - 1"
  have gt: "1 < 1 / x" using False x by (simp add: field_simps)
  then have m: "0 < m" unfolding m_def by linarith
  have mx: "of_int m < 1 / x" "1 / x \<le> of_int m + 1"
    unfolding m_def by linarith+
  define k where "k = dlen (int b) m"
  have d: "0 < k \<and> int b ^ (k - 1) \<le> m \<and> m < int b ^ k"
    unfolding k_def using b m by (intro dlen_bounds) simp_all
  have e: "ilog b x = - int k" using False by (simp add: ilog_def m_def k_def)
  have e1: "ilog b x + 1 = - int (k - 1)" using e d by simp
  have bp: "(0 :: rat) < of_nat b" using b by simp
  have "1 / x \<le> of_int (m + 1)" using mx(2) by simp
  also have "\<dots> \<le> of_int (int b ^ k)" using d by (simp only: of_int_le_iff) simp
  finally have "1 / x \<le> of_nat b ^ k" by simp
  then have lo: "(of_nat b :: rat) powi ilog b x \<le> x"
    using x bp by (simp add: e power_int_minus field_simps)
  have "(of_int (int b ^ (k - 1)) :: rat) \<le> of_int m" using d by (simp only: of_int_le_iff)
  also note mx(1)
  finally have "(of_nat b :: rat) ^ (k - 1) < 1 / x" by simp
  then have "x < of_nat b powi (ilog b x + 1)"
    using x bp unfolding e1 by (simp add: power_int_minus field_simps)
  with lo show ?thesis by simp
qed

lemma powi_less_cancel:
  fixes a :: rat
  assumes "1 < a" "a powi i < a powi j" shows "i < j"
  using assms power_int_increasing [of j i a] by (meson linorder_not_less order_less_imp_le)

lemma ilog_mono: "2 \<le> b \<Longrightarrow> 0 < x \<Longrightarrow> x \<le> y \<Longrightarrow> ilog b x \<le> ilog b y"
proof -
  assume b: "2 \<le> b" and x: "0 < x" and xy: "x \<le> y"
  have "(of_nat b :: rat) powi ilog b x \<le> y" using ilog_bounds [OF b x] xy by simp
  also have "y < of_nat b powi (ilog b y + 1)" using ilog_bounds [OF b, of y] x xy by simp
  finally have "ilog b x < ilog b y + 1" using b by (intro powi_less_cancel [of "of_nat b"]) simp_all
  then show ?thesis by simp
qed

section \<open>Rounding to significant digits\<close>

text \<open>
  The unit in the last place of \<open>x\<close> in base \<open>b\<close> with \<open>p\<close> digits and smallest exponent \<open>q0\<close>, and
  the rounding of \<open>x\<close> to a multiple of it by the mode \<open>r\<close>.
\<close>

definition ulp_exp :: "nat \<Rightarrow> nat \<Rightarrow> int \<Rightarrow> rat \<Rightarrow> int" where
  "ulp_exp b p q0 x = max (ilog b \<bar>x\<bar> - int p + 1) q0"

definition round_sig :: "(rat \<Rightarrow> int) \<Rightarrow> nat \<Rightarrow> nat \<Rightarrow> int \<Rightarrow> rat \<Rightarrow> rat" where
  "round_sig r b p q0 x =
     (if x = 0 then 0
      else let u = (of_nat b :: rat) powi ulp_exp b p q0 x in of_int (r (x / u)) * u)"

definition round_half_up :: "rat \<Rightarrow> int" where
  "round_half_up x = (if 0 \<le> x then \<lfloor>x + 1 / 2\<rfloor> else - \<lfloor>1 / 2 - x\<rfloor>)"

definition round_half_even :: "rat \<Rightarrow> int" where
  "round_half_even x =
     (let f = \<lfloor>x\<rfloor>; d = x - of_int f
      in if d < 1 / 2 then f else if 1 / 2 < d then f + 1 else if even f then f else f + 1)"

definition round_floor :: "rat \<Rightarrow> int" where
  "round_floor x = \<lfloor>x\<rfloor>"

definition round_ceil :: "rat \<Rightarrow> int" where
  "round_ceil x = \<lceil>x\<rceil>"

locale rounding_mode =
  fixes r :: "rat \<Rightarrow> int" and b p :: nat and q0 :: int
  assumes r_mono: "x \<le> y \<Longrightarrow> r x \<le> r y"
    and r_int: "r (of_int n) = n"
    and base: "2 \<le> b"
    and prec: "1 \<le> p"
begin

lemma base_pos: "(1 :: rat) < of_nat b" "(0 :: rat) < of_nat b"
  using base by simp_all

lemma unit_pos: "(0 :: rat) < of_nat b powi k"
  using base_pos by (simp add: zero_less_power_int)

lemma round_zero [simp]: "round_sig r b p q0 0 = 0"
  by (simp add: round_sig_def)

lemma ulp_exp_mono:
  assumes "0 < x" "x \<le> y" shows "ulp_exp b p q0 x \<le> ulp_exp b p q0 y"
  using assms ilog_mono [OF base, of x y] by (simp add: ulp_exp_def max_def)

lemma powi_multiple:
  assumes "j \<le> i" shows "\<exists>n. (of_nat b :: rat) powi i / of_nat b powi j = of_int n"
proof -
  have "(of_nat b :: rat) powi i / of_nat b powi j = of_nat b powi (i - j)"
    using base_pos by (simp add: power_int_diff)
  also have "i - j = int (nat (i - j))" using assms by simp
  also have "(of_nat b :: rat) powi int (nat (i - j)) = of_int (int b ^ nat (i - j))"
    by (rule power_int_nat)
  finally show ?thesis by blast
qed

lemma r_multiple:
  assumes "x / u = of_int n" "0 < u" shows "of_int (r (x / u)) * u = x"
  using assms by (simp add: r_int field_simps)

lemma round_pos_mono:
  assumes x: "0 < x" and xy: "x \<le> y"
  shows "round_sig r b p q0 x \<le> round_sig r b p q0 y"
proof -
  define u where "u = (of_nat b :: rat) powi ulp_exp b p q0 x"
  define v where "v = (of_nat b :: rat) powi ulp_exp b p q0 y"
  have uv: "0 < u" "0 < v" by (simp_all add: u_def v_def unit_pos)
  have rx: "round_sig r b p q0 x = of_int (r (x / u)) * u"
    using x by (simp add: round_sig_def u_def Let_def)
  have ry: "round_sig r b p q0 y = of_int (r (y / v)) * v"
    using x xy by (simp add: round_sig_def v_def Let_def)
  show ?thesis
  proof (cases "ulp_exp b p q0 x = ulp_exp b p q0 y")
    case True
    then have "u = v" by (simp add: u_def v_def)
    moreover have "r (x / u) \<le> r (y / u)" using xy uv by (intro r_mono divide_right_mono) simp_all
    ultimately show ?thesis unfolding rx ry using uv by (simp add: mult_right_mono)
  next
    case False
    with ulp_exp_mono [OF x xy] have lt: "ulp_exp b p q0 x < ulp_exp b p q0 y" by simp
    define t where "t = (of_nat b :: rat) powi ilog b y"
    have y0: "0 < y" using x xy by simp
    have ey: "ulp_exp b p q0 y = ilog b y - int p + 1"
      using lt y0 x by (auto simp: ulp_exp_def max_def split: if_splits)
    have ile: "ilog b x < ilog b y"
      using lt ey x by (auto simp: ulp_exp_def max_def split: if_splits)
    have "x < of_nat b powi (ilog b x + 1)" using ilog_bounds [OF base x] by simp
    also have "\<dots> \<le> t" unfolding t_def using ile base_pos
      by (intro power_int_increasing) simp_all
    finally have xt: "x \<le> t" by simp
    have ty: "t \<le> y" using ilog_bounds [OF base y0] by (simp add: t_def)
    obtain n where n: "t / u = of_int n"
      using powi_multiple [of "ulp_exp b p q0 x" "ilog b y"] ey lt prec by (auto simp: t_def u_def)
    obtain k where k: "t / v = of_int k"
      using powi_multiple [of "ulp_exp b p q0 y" "ilog b y"] ey prec by (auto simp: t_def v_def)
    have "round_sig r b p q0 x \<le> of_int (r (t / u)) * u"
      unfolding rx using xt uv by (intro mult_right_mono) (simp_all add: r_mono divide_right_mono)
    also have "\<dots> = of_int (r (t / v)) * v" using r_multiple n k uv by simp
    also have "\<dots> \<le> round_sig r b p q0 y"
      unfolding ry using ty uv by (intro mult_right_mono) (simp_all add: r_mono divide_right_mono)
    finally show ?thesis .
  qed
qed

lemma round_nonneg: "0 \<le> x \<Longrightarrow> 0 \<le> round_sig r b p q0 x"
proof (cases "x = 0")
  case False
  assume "0 \<le> x"
  then have "r (of_int 0) \<le> r (x / of_nat b powi ulp_exp b p q0 x)"
    using unit_pos by (intro r_mono) (simp add: less_imp_le)
  then show ?thesis using r_int [of 0] unit_pos False by (simp add: round_sig_def Let_def less_imp_le)
qed simp

lemma representable_fixed:
  assumes z: "z = of_int n * of_nat b powi q" and n: "\<bar>n\<bar> \<le> int b ^ p" and q: "q0 \<le> q"
  shows "round_sig r b p q0 z = z"
proof (cases "z = 0")
  case False
  define w where "w = \<bar>z\<bar>"
  have w: "0 < w" using False by (simp add: w_def)
  have wn: "w = of_int \<bar>n\<bar> * of_nat b powi q"
    using unit_pos [of q] by (simp add: w_def z abs_mult)
  have "(of_int \<bar>n\<bar> :: rat) \<le> of_nat b ^ p"
    using n by (metis of_int_le_iff of_int_of_nat_eq of_int_power)
  then have "w \<le> of_nat b ^ p * of_nat b powi q"
    unfolding wn using unit_pos [of q] by (intro mult_right_mono) simp_all
  also have "\<dots> = of_nat b powi (int p + q)" using base_pos by (simp add: power_int_add)
  finally have wle: "w \<le> of_nat b powi (int p + q)" .
  have "(of_nat b :: rat) powi ilog b w < of_nat b powi (int p + q + 1)"
  proof -
    have "(of_nat b :: rat) powi ilog b w \<le> w" using ilog_bounds [OF base w] by simp
    also note wle
    also have "(of_nat b :: rat) powi (int p + q) < of_nat b powi (int p + q + 1)"
      using base_pos by (intro power_int_strict_increasing) simp_all
    finally show ?thesis .
  qed
  then have le: "ilog b w < int p + q + 1" using base_pos by (intro powi_less_cancel) simp_all
  define k where "k = ulp_exp b p q0 z"
  have k: "k = max (ilog b w - int p + 1) q0" by (simp add: k_def ulp_exp_def w_def)
  obtain m where m: "z / of_nat b powi k = of_int m"
  proof (cases "ilog b w = int p + q")
    case True
    then have "of_nat b powi (int p + q) \<le> w" using ilog_bounds [OF base w] by simp
    with wle have "w = of_nat b powi (int p + q)" by simp
    moreover have "k \<le> int p + q" using k True prec q by simp
    ultimately obtain j where "w / of_nat b powi k = of_int j" using powi_multiple by metis
    moreover have "z = w \<or> z = - w" by (auto simp: w_def abs_if)
    ultimately have "z / of_nat b powi k = of_int j \<or> z / of_nat b powi k = of_int (- j)" by auto
    then show ?thesis using that by blast
  next
    case False
    with le k q have "k \<le> q" by simp
    then obtain j where "(of_nat b :: rat) powi q / of_nat b powi k = of_int j"
      using powi_multiple by blast
    moreover have "z / of_nat b powi k = of_int n * (of_nat b powi q / of_nat b powi k)"
      by (simp add: z)
    ultimately have "z / of_nat b powi k = of_int (n * j)" by simp
    then show ?thesis using that by blast
  qed
  have "round_sig r b p q0 z = of_int (r (z / of_nat b powi k)) * of_nat b powi k"
    using False by (simp add: round_sig_def k_def Let_def)
  also have "\<dots> = z" using m unit_pos by (rule r_multiple)
  finally show ?thesis .
qed simp

lemma int_fixed: "\<bar>n\<bar> \<le> int b ^ p \<Longrightarrow> q0 \<le> 0 \<Longrightarrow> round_sig r b p q0 (of_int n) = of_int n"
  using representable_fixed [of "of_int n" n 0] by simp

end

text \<open>
  A mode that is odd, that is one whose rounding of \<open>- x\<close> is the negation of its rounding of \<open>x\<close>.
  Rounding is then odd too, and monotone on all of the rationals. With a mode that moves no
  number by more than a half, the relative error of a rounding is at most half a unit in the
  last place.
\<close>

locale nearest_mode = rounding_mode +
  assumes r_odd: "r (- x) = - r x"
    and r_near: "\<bar>of_int (r x) - x\<bar> \<le> 1 / 2"
begin

lemma round_odd: "round_sig r b p q0 (- x) = - round_sig r b p q0 x"
  by (simp add: round_sig_def ulp_exp_def r_odd Let_def)

lemma round_mono: "x \<le> y \<Longrightarrow> round_sig r b p q0 x \<le> round_sig r b p q0 y"
proof -
  assume xy: "x \<le> y"
  consider "0 < x" | "x \<le> 0 \<and> 0 \<le> y" | "y < 0" by linarith
  then show ?thesis
  proof cases
    case 1
    then show ?thesis using xy by (rule round_pos_mono)
  next
    case 2
    then have "0 \<le> round_sig r b p q0 (- x)" "0 \<le> round_sig r b p q0 y"
      by (auto intro: round_nonneg)
    then show ?thesis by (simp add: round_odd)
  next
    case 3
    then have "round_sig r b p q0 (- y) \<le> round_sig r b p q0 (- x)"
      using xy by (intro round_pos_mono) simp_all
    then show ?thesis by (simp add: round_odd)
  qed
qed

lemma round_nonpos: "x \<le> 0 \<Longrightarrow> round_sig r b p q0 x \<le> 0"
  using round_mono [of x 0] by simp

lemma r_bound: "\<bar>x\<bar> \<le> of_int n \<Longrightarrow> \<bar>r x\<bar> \<le> n"
  using r_mono [of x "of_int n"] r_mono [of "- x" "of_int n"] r_int [of n] r_odd [of x]
  by (auto simp: abs_le_iff)

lemma round_idem: "round_sig r b p q0 (round_sig r b p q0 x) = round_sig r b p q0 x"
proof (cases "x = 0")
  case False
  define k where "k = ulp_exp b p q0 x"
  have y: "round_sig r b p q0 x = of_int (r (x / of_nat b powi k)) * of_nat b powi k"
    using False by (simp add: round_sig_def k_def Let_def)
  have "ilog b \<bar>x\<bar> - int p + 1 \<le> k" by (simp add: k_def ulp_exp_def)
  then have "(of_nat b :: rat) powi (ilog b \<bar>x\<bar> + 1) \<le> of_nat b powi (int p + k)"
    using base_pos by (intro power_int_increasing) simp_all
  moreover have "\<bar>x\<bar> < of_nat b powi (ilog b \<bar>x\<bar> + 1)"
    using ilog_bounds [OF base, of "\<bar>x\<bar>"] False by simp
  ultimately have "\<bar>x\<bar> \<le> of_nat b powi (int p + k)" by simp
  then have "\<bar>x\<bar> \<le> of_nat b ^ p * of_nat b powi k" using base_pos by (simp add: power_int_add)
  then have "\<bar>x / of_nat b powi k\<bar> \<le> of_int (int b ^ p)"
    using unit_pos [of k] by (simp add: abs_divide divide_le_eq)
  then have "\<bar>r (x / of_nat b powi k)\<bar> \<le> int b ^ p" by (rule r_bound)
  then show ?thesis
    using representable_fixed [OF y, of] by (simp add: k_def ulp_exp_def)
qed simp

lemma round_rel_error:
  assumes "q0 \<le> ilog b \<bar>x\<bar> - int p + 1"
  shows "\<bar>round_sig r b p q0 x - x\<bar> \<le> \<bar>x\<bar> * of_nat b powi (1 - int p) / 2"
proof (cases "x = 0")
  case False
  define e where "e = ilog b \<bar>x\<bar>"
  define u where "u = (of_nat b :: rat) powi (e - int p + 1)"
  have u: "0 < u" by (simp add: u_def unit_pos)
  have rx: "round_sig r b p q0 x = of_int (r (x / u)) * u"
    using False assms by (simp add: round_sig_def ulp_exp_def Let_def u_def e_def max_def)
  have "round_sig r b p q0 x - x = (of_int (r (x / u)) - x / u) * u"
    using u by (simp add: rx field_simps)
  then have "\<bar>round_sig r b p q0 x - x\<bar> = \<bar>of_int (r (x / u)) - x / u\<bar> * u"
    using u by (simp add: abs_mult)
  also have "\<dots> \<le> 1 / 2 * u" using u r_near by (intro mult_right_mono) simp_all
  also have "u = of_nat b powi e * of_nat b powi (1 - int p)"
    using base_pos by (simp add: u_def power_int_add [symmetric] algebra_simps)
  also have "1 / 2 * (of_nat b powi e * of_nat b powi (1 - int p)) \<le> 1 / 2 * (\<bar>x\<bar> * of_nat b powi (1 - int p))"
    using ilog_bounds [OF base, of "\<bar>x\<bar>"] False unit_pos [of "1 - int p"]
    by (intro mult_left_mono mult_right_mono) (simp_all add: e_def)
  finally show ?thesis by simp
qed simp

end

lemma round_half_up_neg: "round_half_up (- x) = - round_half_up x"
proof -
  have "\<lfloor>1 / 2 :: rat\<rfloor> = 0" by (rule floor_unique) simp_all
  then show ?thesis by (auto simp: round_half_up_def add.commute)
qed

lemma round_half_up_near: "\<bar>of_int (round_half_up x) - x\<bar> \<le> 1 / 2"
proof -
  have "of_int \<lfloor>x + 1 / 2\<rfloor> \<le> x + 1 / 2" "x + 1 / 2 < of_int \<lfloor>x + 1 / 2\<rfloor> + 1"
    "of_int \<lfloor>1 / 2 - x\<rfloor> \<le> 1 / 2 - x" "1 / 2 - x < of_int \<lfloor>1 / 2 - x\<rfloor> + 1"
    by linarith+
  then show ?thesis
    by (cases "0 \<le> x") (simp_all only: round_half_up_def if_True if_False of_int_minus abs_le_iff, linarith+)
qed

lemma round_half_up_int: "round_half_up (of_int n) = n"
proof (cases "0 \<le> n")
  case True
  have "\<lfloor>rat_of_int n + 1 / 2\<rfloor> = n" by (rule floor_unique) simp_all
  with True show ?thesis by (simp add: round_half_up_def)
next
  case False
  have "\<lfloor>1 / 2 - rat_of_int n\<rfloor> = - n" by (rule floor_unique) simp_all
  with False show ?thesis by (simp add: round_half_up_def)
qed

lemma round_half_up_mono: "x \<le> y \<Longrightarrow> round_half_up x \<le> round_half_up y"
proof -
  assume xy: "x \<le> y"
  consider "0 \<le> x" | "x < 0 \<and> 0 \<le> y" | "y < 0" by linarith
  then show ?thesis
  proof cases
    case 2
    then have "0 \<le> \<lfloor>1 / 2 - x\<rfloor>" "0 \<le> \<lfloor>y + 1 / 2\<rfloor>" by simp_all
    then have "- \<lfloor>1 / 2 - x\<rfloor> \<le> \<lfloor>y + 1 / 2\<rfloor>" by linarith
    with 2 show ?thesis unfolding round_half_up_def by auto
  qed (use xy in \<open>auto simp: round_half_up_def intro!: floor_mono\<close>)
qed

lemma round_half_even_near: "\<bar>of_int (round_half_even x) - x\<bar> \<le> 1 / 2"
proof -
  have "of_int \<lfloor>x\<rfloor> \<le> x" "x < of_int \<lfloor>x\<rfloor> + 1" by linarith+
  then show ?thesis unfolding round_half_even_def Let_def by (auto split: if_split)
qed

lemma round_half_even_int: "round_half_even (of_int n) = n"
  by (simp add: round_half_even_def)

text \<open>A tie is the only number that a nearest rounding may take to two integers.\<close>

lemma round_half_even_tie: "round_half_even (of_int n + 1 / 2) = (if even n then n else n + 1)"
proof -
  have "\<lfloor>rat_of_int n + 1 / 2\<rfloor> = n" by (rule floor_unique) simp_all
  then show ?thesis by (simp add: round_half_even_def)
qed

lemma round_half_even_eqI: "\<bar>of_int n - x\<bar> < 1 / 2 \<Longrightarrow> round_half_even x = n"
  using round_half_even_near [of x] by linarith

lemma round_half_even_neg: "round_half_even (- x) = - round_half_even x"
proof (cases "\<bar>of_int (round_half_even x) - x\<bar> = 1 / 2")
  case False
  then have "\<bar>of_int (round_half_even x) - x\<bar> < 1 / 2" using round_half_even_near [of x] by simp
  then have "\<bar>of_int (- round_half_even x) - (- x)\<bar> < 1 / 2" by linarith
  then show ?thesis by (rule round_half_even_eqI)
next
  case True
  define n where "n = \<lfloor>x\<rfloor>"
  have "of_int n \<le> x" "x < of_int n + 1" unfolding n_def by linarith+
  then have x: "x = of_int n + 1 / 2"
    using True unfolding round_half_even_def Let_def n_def by (auto split: if_splits)
  have nx: "- x = of_int (- n - 1) + 1 / 2" using x by simp
  show ?thesis unfolding nx round_half_even_tie unfolding x round_half_even_tie by auto
qed

lemma round_half_even_mono: "x \<le> y \<Longrightarrow> round_half_even x \<le> round_half_even y"
proof -
  assume xy: "x \<le> y"
  show ?thesis
  proof (cases "\<lfloor>x\<rfloor> = \<lfloor>y\<rfloor>")
    case True
    then show ?thesis using xy by (auto simp: round_half_even_def Let_def split: if_splits)
  next
    case False
    with xy have "\<lfloor>x\<rfloor> + 1 \<le> \<lfloor>y\<rfloor>" using floor_mono [OF xy] by linarith
    moreover have "round_half_even x \<le> \<lfloor>x\<rfloor> + 1" "\<lfloor>y\<rfloor> \<le> round_half_even y"
      by (auto simp: round_half_even_def Let_def)
    ultimately show ?thesis by linarith
  qed
qed

section \<open>JavaScript numbers\<close>

text \<open>
  The result of an arithmetic operation on JavaScript numbers is the binary64 number nearest to
  the exact result, ties to even; above the largest binary64 number it is an infinity.
\<close>

interpretation b64m: nearest_mode round_half_even 2 53 "- 1074"
  by unfold_locales
    (rule round_half_even_mono round_half_even_int round_half_even_neg round_half_even_near | simp)+

interpretation dec20m: nearest_mode round_half_up 10 20 "- 9000000000000000"
  by unfold_locales
    (rule round_half_up_mono round_half_up_int round_half_up_neg round_half_up_near | simp)+

definition b64r :: "rat \<Rightarrow> rat" where
  "b64r x = round_sig round_half_even 2 53 (- 1074) x"

definition b64 :: "rat \<Rightarrow> xnum" where
  "b64 x = (let y = b64r x in if 2 ^ 1024 \<le> \<bar>y\<bar> then inf_of_sign y else Fin y)"

lemma b64r_mono: "x \<le> y \<Longrightarrow> b64r x \<le> b64r y"
  by (simp add: b64r_def b64m.round_mono)

lemma b64r_zero [simp]: "b64r 0 = 0"
  by (simp add: b64r_def)

lemma b64r_odd: "b64r (- x) = - b64r x"
  by (simp add: b64r_def b64m.round_odd)

lemma b64r_idem [simp]: "b64r (b64r x) = b64r x"
  by (simp add: b64r_def b64m.round_idem)

lemma b64r_int: "\<bar>n\<bar> \<le> 2 ^ 53 \<Longrightarrow> b64r (of_int n) = of_int n"
  unfolding b64r_def by (rule b64m.int_fixed) simp_all

lemma b64r_nonneg: "0 \<le> x \<Longrightarrow> 0 \<le> b64r x"
  using b64r_mono [of 0 x] by simp

lemma b64r_bounded: "\<bar>x\<bar> \<le> 2 ^ 1000 \<Longrightarrow> \<bar>b64r x\<bar> \<le> 2 ^ 1000"
proof -
  have fixed: "b64r (2 ^ 1000) = 2 ^ 1000"
    unfolding b64r_def by (rule b64m.representable_fixed [of _ 1 1000]) simp_all
  assume "\<bar>x\<bar> \<le> 2 ^ 1000"
  then have "x \<le> 2 ^ 1000" "- (2 ^ 1000) \<le> x" by linarith+
  then have "b64r x \<le> b64r (2 ^ 1000)" "b64r (- (2 ^ 1000)) \<le> b64r x"
    by (auto intro: b64r_mono)
  then show ?thesis unfolding b64r_odd fixed by linarith
qed

lemma b64_eq_Fin: "\<bar>x\<bar> \<le> 2 ^ 1000 \<Longrightarrow> b64 x = Fin (b64r x)"
proof -
  assume "\<bar>x\<bar> \<le> 2 ^ 1000"
  then have "\<bar>b64r x\<bar> \<le> 2 ^ 1000" by (rule b64r_bounded)
  moreover have "(2 :: rat) ^ 1000 < 2 ^ 1024" by (rule power_strict_increasing) simp_all
  ultimately show ?thesis by (simp add: b64_def Let_def)
qed

lemma b64_FinD: "b64 x = Fin y \<Longrightarrow> y = b64r x"
  by (auto simp: b64_def Let_def inf_of_sign_def split: if_splits)

lemma b64_int: "\<bar>n\<bar> \<le> 2 ^ 53 \<Longrightarrow> b64 (of_int n) = Fin (of_int n)"
proof -
  assume n: "\<bar>n\<bar> \<le> 2 ^ 53"
  have "(of_int \<bar>n\<bar> :: rat) \<le> of_int (2 ^ 53)" using n by (simp only: of_int_le_iff)
  also have "\<dots> \<le> 2 ^ 1000" by simp
  finally have "\<bar>of_int n :: rat\<bar> \<le> 2 ^ 1000" by simp
  then show ?thesis using b64r_int [OF n] by (simp add: b64_eq_Fin)
qed

text \<open>
  \<open>Number.prototype.toString\<close>, as a value: the decimal number with the fewest significant digits
  that reads back as the same binary64 number, the nearest of them. \<open>new Decimal(x)\<close> of a
  JavaScript number is this value, since decimal.js parses \<open>x.toString()\<close>.
\<close>

definition repr_candidates :: "rat \<Rightarrow> nat \<Rightarrow> rat list" where
  "repr_candidates x k =
     (let u = (10 :: rat) powi (ilog 10 \<bar>x\<bar> - int k + 1); f = \<lfloor>x / u\<rfloor>;
          lo = of_int f * u; hi = of_int (f + 1) * u
      in if x - lo < hi - x \<or> (x - lo = hi - x \<and> even f) then [lo, hi] else [hi, lo])"

definition num_repr :: "rat \<Rightarrow> rat" where
  "num_repr x =
     (if x = 0 then 0
      else case List.find (\<lambda>y. b64 y = Fin x) (concat (map (repr_candidates x) [1..<18])) of
             Some y \<Rightarrow> y | None \<Rightarrow> x)"

fun dec_of_num :: "xnum \<Rightarrow> xnum" where
  "dec_of_num (Fin x) = Fin (num_repr x)"
| "dec_of_num y = y"

fun num_of_dec :: "xnum \<Rightarrow> xnum" where
  "num_of_dec (Fin x) = b64 x"
| "num_of_dec y = y"

lemma num_repr_0 [simp]: "num_repr 0 = 0"
  by (simp add: num_repr_def)

lemma num_repr_reads_back: "b64 x = Fin x \<Longrightarrow> b64 (num_repr x) = Fin x"
  by (auto simp: num_repr_def find_Some_iff split: option.splits)

lemma num_repr_nonneg:
  assumes "b64 x = Fin x" "0 \<le> x" shows "0 \<le> num_repr x"
proof (rule ccontr)
  assume "\<not> 0 \<le> num_repr x"
  then have "b64r (num_repr x) \<le> b64r 0" by (intro b64r_mono) simp
  moreover have "b64r (num_repr x) = x" using num_repr_reads_back [OF assms(1)] b64_FinD by metis
  ultimately have "x = 0" using assms(2) by simp
  then show False using \<open>\<not> 0 \<le> num_repr x\<close> by simp
qed

lemma b64_fixed_b64r: "b64 x = Fin y \<Longrightarrow> b64 y = Fin y"
proof -
  assume a: "b64 x = Fin y"
  then have y: "y = b64r x" by (rule b64_FinD)
  have "\<not> 2 ^ 1024 \<le> \<bar>y\<bar>" using a y by (auto simp: b64_def Let_def inf_of_sign_def split: if_splits)
  then show ?thesis unfolding y by (simp add: b64_def)
qed

section \<open>Evaluation\<close>

text \<open>
  Code equations that keep the powers in the integers, so that closed instances evaluate by
  \<open>code_simp\<close>.
\<close>

definition bpow :: "nat \<Rightarrow> int \<Rightarrow> rat" where
  "bpow b q = (if 0 \<le> q then of_int (int b ^ nat q) else Fract 1 (int b ^ nat (- q)))"

lemma powi_eq_bpow: "of_nat b powi q = bpow b q"
  by (simp add: bpow_def power_int_def Fract_of_int_quotient power_inverse field_simps)

lemma round_sig_code [code]:
  "round_sig r b p q0 x =
     (if x = 0 then 0 else let u = bpow b (ulp_exp b p q0 x) in of_int (r (x / u)) * u)"
  by (simp add: round_sig_def powi_eq_bpow)

lemma b64_code [code]:
  "b64 x = (let y = b64r x in
     if \<bar>y\<bar> \<le> 1267650600228229401496703205376 then Fin y
     else if of_int (2 ^ 1024) \<le> \<bar>y\<bar> then inf_of_sign y else Fin y)"
proof -
  have "(1267650600228229401496703205376 :: rat) < 2 ^ 1024" by simp
  then show ?thesis by (auto simp: b64_def Let_def)
qed

lemma repr_candidates_code [code]:
  "repr_candidates x k =
     (let u = bpow 10 (ilog 10 \<bar>x\<bar> - int k + 1); f = \<lfloor>x / u\<rfloor>;
          lo = of_int f * u; hi = of_int (f + 1) * u
      in if x - lo < hi - x \<or> (x - lo = hi - x \<and> even f) then [lo, hi] else [hi, lo])"
  by (simp add: repr_candidates_def powi_eq_bpow [symmetric])

end
