(* ===== verification/Decimal_Lib.thy ===== *)
theory Decimal_Lib
  imports Rounding
begin

text \<open>
  decimal.js and bn.js as parameters. The SDK never configures the library's default constructor, so every
  arithmetic result is the exact result rounded to \<open>Decimal.precision\<close> significant digits with
  \<open>Decimal.rounding\<close>, and \<open>round\<close> and \<open>toFixed(0)\<close> round to an integer with the same mode. These
  roundings are fields of the record \<open>num_lib\<close>; every definition that computes with
  Decimals takes such a record. BN integers are \<open>int\<close>; two conversions depend on the libraries'
  code and are fields too: \<open>d_toBN n\<close> is \<open>new BN(d.toString())\<close> for an integral Decimal \<open>d\<close> of value
  \<open>n\<close> (decimal.js switches to exponential notation at \<open>10\<^sup>2\<^sup>1\<close>, which bn.js does not read), and
  \<open>bn_toNumber\<close> is \<open>BN.toNumber\<close> (limited to 53 bits). What the library's documentation promises about them is the
  locale \<open>decimal_laws\<close>; \<open>decimal_js\<close> is a concrete record with the documented defaults (20
  significant digits, half up) that satisfies it.
\<close>

record num_lib =
  d_round :: "rat \<Rightarrow> rat"
  d_rint :: "rat \<Rightarrow> int"
  d_toBN :: "int \<Rightarrow> int result"
  bn_toNumber :: "int \<Rightarrow> int result"

type_synonym decimal = xnum
type_synonym number = xnum

definition dadd :: "num_lib \<Rightarrow> decimal \<Rightarrow> decimal \<Rightarrow> decimal" where
  "dadd L = xadd (\<lambda>q. Fin (d_round L q))"

definition dsub :: "num_lib \<Rightarrow> decimal \<Rightarrow> decimal \<Rightarrow> decimal" where
  "dsub L = xsub (\<lambda>q. Fin (d_round L q))"

definition dmul :: "num_lib \<Rightarrow> decimal \<Rightarrow> decimal \<Rightarrow> decimal" where
  "dmul L = xmul (\<lambda>q. Fin (d_round L q))"

definition ddiv :: "num_lib \<Rightarrow> decimal \<Rightarrow> decimal \<Rightarrow> decimal" where
  "ddiv L = xdiv (\<lambda>q. Fin (d_round L q))"

text \<open>\<open>x.pow(n)\<close> for a natural number \<open>n\<close>.\<close>

definition dpow :: "num_lib \<Rightarrow> rat \<Rightarrow> nat \<Rightarrow> decimal" where
  "dpow L a n = Fin (d_round L (a ^ n))"

fun dfloor :: "decimal \<Rightarrow> decimal" where
  "dfloor (Fin a) = Fin (of_int \<lfloor>a\<rfloor>)"
| "dfloor x = x"

fun dceil :: "decimal \<Rightarrow> decimal" where
  "dceil (Fin a) = Fin (of_int \<lceil>a\<rceil>)"
| "dceil x = x"

fun dround :: "num_lib \<Rightarrow> decimal \<Rightarrow> decimal" where
  "dround L (Fin a) = Fin (of_int (d_rint L a))"
| "dround L x = x"

lemma dec_Fin [simp]:
  "dadd L (Fin a) (Fin b) = Fin (d_round L (a + b))"
  "dsub L (Fin a) (Fin b) = Fin (d_round L (a - b))"
  "dmul L (Fin a) (Fin b) = Fin (d_round L (a * b))"
  "b \<noteq> 0 \<Longrightarrow> ddiv L (Fin a) (Fin b) = Fin (d_round L (a / b))"
  "ddiv L (Fin a) (Fin 0) = inf_of_sign (sgn a)"
  by (simp_all add: dadd_def dsub_def dmul_def ddiv_def)

text \<open>Arithmetic on JavaScript numbers.\<close>

abbreviation nadd :: "number \<Rightarrow> number \<Rightarrow> number" where "nadd \<equiv> xadd b64"
abbreviation nsub :: "number \<Rightarrow> number \<Rightarrow> number" where "nsub \<equiv> xsub b64"
abbreviation nmul :: "number \<Rightarrow> number \<Rightarrow> number" where "nmul \<equiv> xmul b64"
abbreviation ndiv :: "number \<Rightarrow> number \<Rightarrow> number" where "ndiv \<equiv> xdiv b64"

text \<open>Integers as Decimals and as numbers (integer-valued JavaScript numbers stay below \<open>2\<^sup>5\<^sup>3\<close>).\<close>

abbreviation dint :: "int \<Rightarrow> xnum" where "dint n \<equiv> Fin (of_int n)"
abbreviation dnat :: "nat \<Rightarrow> xnum" where "dnat n \<equiv> Fin (of_nat n)"

text \<open>
  The laws are stated away from the library's smallest exponents: the relative error for numbers
  of magnitude at least \<open>dec_tiny\<close>.
\<close>

definition dec_tiny :: rat where
  "dec_tiny = of_nat 10 powi (- 1000)"

lemma dec_tiny_pos: "0 < dec_tiny"
  unfolding dec_tiny_def by (rule zero_less_power_int) simp

lemma dec_tiny_le: "k \<le> 1000 \<Longrightarrow> 1 / 10 ^ k \<le> x \<Longrightarrow> dec_tiny \<le> x"
proof -
  assume k: "k \<le> 1000" and x: "1 / 10 ^ k \<le> x"
  have "dec_tiny \<le> of_nat 10 powi (- int k)"
    unfolding dec_tiny_def using k by (intro power_int_increasing) simp_all
  also have "\<dots> = 1 / 10 ^ k" by (simp add: power_int_minus divide_inverse)
  finally show ?thesis using x by simp
qed

locale decimal_laws =
  fixes L :: num_lib
  assumes d_mono: "x \<le> y \<Longrightarrow> d_round L x \<le> d_round L y"
    and d_idem: "d_round L (d_round L x) = d_round L x"
    and d_odd: "d_round L (- x) = - d_round L x"
    and d_repr: "\<bar>n\<bar> \<le> 10 ^ 20 \<Longrightarrow> - 1000 \<le> k \<Longrightarrow>
      d_round L (of_int n * 10 powi k) = of_int n * 10 powi k"
    and d_err: "dec_tiny \<le> \<bar>x\<bar> \<Longrightarrow> \<bar>d_round L x - x\<bar> \<le> \<bar>x\<bar> * 5 / 10 ^ 20"
    and rint_near: "\<bar>of_int (d_rint L x) - x\<bar> \<le> 1 / 2"
    and rint_mono: "x \<le> y \<Longrightarrow> d_rint L x \<le> d_rint L y"
begin

lemma d_int: "\<bar>n\<bar> \<le> 10 ^ 20 \<Longrightarrow> d_round L (of_int n) = of_int n"
  using d_repr [of n 0] by simp

lemma d_nat: "n \<le> 10 ^ 20 \<Longrightarrow> d_round L (of_nat n) = of_nat n"
  using d_int [of "int n"] by simp

lemma d_zero [simp]: "d_round L 0 = 0"
  using d_int [of 0] by simp

lemma d_one [simp]: "d_round L 1 = 1"
  using d_int [of 1] by simp

lemma d_nonneg: "0 \<le> x \<Longrightarrow> 0 \<le> d_round L x"
  using d_mono [of 0 x] by simp

lemma d_nonpos: "x \<le> 0 \<Longrightarrow> d_round L x \<le> 0"
  using d_mono [of x 0] by simp

lemma d_ge_one: "1 \<le> x \<Longrightarrow> 1 \<le> d_round L x"
  using d_mono [of 1 x] by simp

lemma d_le_one: "x \<le> 1 \<Longrightarrow> d_round L x \<le> 1"
  using d_mono [of x 1] by simp

lemma d_le_fixed: "x \<le> y \<Longrightarrow> d_round L y = y \<Longrightarrow> d_round L x \<le> y"
  using d_mono [of x y] by simp

lemma d_ge_fixed: "y \<le> x \<Longrightarrow> d_round L y = y \<Longrightarrow> y \<le> d_round L x"
  using d_mono [of y x] by simp

lemma d_pow10: "d_round L (10 ^ n) = 10 ^ n"
  using d_repr [of 1 "int n"] by simp

lemma d_tiny: "d_round L dec_tiny = dec_tiny"
proof -
  have "d_round L (of_int 1 * 10 powi (- 1000)) = of_int 1 * 10 powi (- 1000)"
    by (rule d_repr) simp_all
  then show ?thesis by (simp only: dec_tiny_def of_nat_numeral of_int_1 mult_1)
qed

lemma d_pos: "dec_tiny \<le> x \<Longrightarrow> 0 < d_round L x"
  using d_mono [of dec_tiny x] dec_tiny_pos d_tiny by simp

lemma d_err_le: "1 / 10 ^ k \<le> \<bar>x\<bar> \<Longrightarrow> k \<le> 1000 \<Longrightarrow> \<bar>d_round L x - x\<bar> \<le> \<bar>x\<bar> * 5 / 10 ^ 20"
  by (rule d_err) (rule dec_tiny_le)

lemma rint_int [simp]: "d_rint L (of_int n) = n"
  using rint_near [of "of_int n"] by linarith

lemma rint_eqI: "\<bar>x - of_int n\<bar> < 1 / 2 \<Longrightarrow> d_rint L x = n"
  using rint_near [of x] by linarith

lemma rint_nonneg: "0 \<le> x \<Longrightarrow> 0 \<le> d_rint L x"
  using rint_mono [of 0 x] rint_int [of 0] by simp

end

text \<open>What the documentation of bn.js and of \<open>Decimal.toString\<close> promises.\<close>

locale bn_laws =
  fixes L :: num_lib
  assumes toBN_small: "\<bar>n\<bar> < 10 ^ 21 \<Longrightarrow> d_toBN L n = Inr n"
    and toNumber_safe: "\<bar>n\<bar> < 2 ^ 53 \<Longrightarrow> bn_toNumber L n = Inr n"
    and toNumber_unsafe: "2 ^ 53 \<le> \<bar>n\<bar> \<Longrightarrow> bn_toNumber L n = Inl BNError"

locale numlib_laws = decimal_laws L + bn_laws L for L

definition decimal_js :: num_lib where
  "decimal_js =
     \<lparr>d_round = round_sig round_half_up 10 20 (- 9000000000000000),
      d_rint = round_half_up,
      d_toBN = (\<lambda>n. if \<bar>n\<bar> < 10 ^ 21 then Inr n else Inl (Throw ''Invalid character'')),
      bn_toNumber = (\<lambda>n. if \<bar>n\<bar> < 2 ^ 53 then Inr n else Inl BNError)\<rparr>"

lemma ilog_ge: "2 \<le> b \<Longrightarrow> of_nat b powi e \<le> x \<Longrightarrow> e \<le> ilog b x"
proof -
  assume b: "2 \<le> b" and le: "of_nat b powi e \<le> x"
  have "(0 :: rat) < of_nat b powi e" using b by (simp add: zero_less_power_int)
  with le have "0 < x" by simp
  then have "of_nat b powi e < (of_nat b :: rat) powi (ilog b x + 1)"
    using ilog_bounds [OF b] le by fastforce
  then have "e < ilog b x + 1" using b by (intro powi_less_cancel [of "of_nat b"]) simp_all
  then show ?thesis by simp
qed

interpretation djs: numlib_laws decimal_js
proof
  fix x y :: rat
  show "x \<le> y \<Longrightarrow> d_round decimal_js x \<le> d_round decimal_js y"
    by (simp add: decimal_js_def dec20m.round_mono)
  show "d_round decimal_js (d_round decimal_js x) = d_round decimal_js x"
    by (simp add: decimal_js_def dec20m.round_idem)
  show "d_round decimal_js (- x) = - d_round decimal_js x"
    by (simp add: decimal_js_def dec20m.round_odd)
  show "x \<le> y \<Longrightarrow> d_rint decimal_js x \<le> d_rint decimal_js y"
    by (simp add: decimal_js_def round_half_up_mono)
  show "\<bar>of_int (d_rint decimal_js x) - x\<bar> \<le> 1 / 2"
    using round_half_up_near [of x] by (simp add: decimal_js_def)
  show "\<bar>d_round decimal_js x - x\<bar> \<le> \<bar>x\<bar> * 5 / 10 ^ 20" if "dec_tiny \<le> \<bar>x\<bar>"
  proof -
    have "- 1000 \<le> ilog 10 \<bar>x\<bar>" by (rule ilog_ge) (simp, rule that [unfolded dec_tiny_def])
    then have "\<bar>round_sig round_half_up 10 20 (- 9000000000000000) x - x\<bar>
      \<le> \<bar>x\<bar> * of_nat 10 powi (1 - int 20) / 2"
      by (intro dec20m.round_rel_error) simp
    also have "(of_nat 10 :: rat) powi (1 - int 20) = 10 / 10 ^ 20"
      by (simp add: power_int_def power_one_over)
    finally show ?thesis by (simp add: decimal_js_def)
  qed
next
  fix n k :: int
  show "\<bar>n\<bar> \<le> 10 ^ 20 \<Longrightarrow> - 1000 \<le> k \<Longrightarrow>
    d_round decimal_js (of_int n * 10 powi k) = of_int n * 10 powi k"
    using dec20m.representable_fixed [of "of_int n * 10 powi k" n k] by (simp add: decimal_js_def)
qed (simp_all add: decimal_js_def)

lemma numlib_laws_js: "numlib_laws decimal_js" and decimal_laws_js: "decimal_laws decimal_js"
  by (rule djs.numlib_laws_axioms djs.decimal_laws_axioms)+

text \<open>\<open>new BN(d.toString())\<close>: a Decimal that is not an integer has no BN reading.\<close>

fun bn_of_dec :: "num_lib \<Rightarrow> decimal \<Rightarrow> int result" where
  "bn_of_dec L (Fin a) = (if of_int \<lfloor>a\<rfloor> = a then d_toBN L \<lfloor>a\<rfloor> else Inl (Throw ''Invalid character''))"
| "bn_of_dec L _ = Inl (Throw ''Invalid character'')"

end
