(* ===== verification/Fraction.thy ===== *)
theory Fraction
  imports Decimal_Lib
begin

text \<open>
  \<open>src/ts-client/src/classes/fraction.ts\<close>: scaled fractions (\<open>...Sf\<close> fields of the accounts), a BN
  between 0 and \<open>2\<^sup>2\<^sup>5\<^sup>6 - 1\<close> that stands for itself divided by \<open>2\<^sup>6\<^sup>0\<close>.
\<close>

section \<open>The class\<close>

datatype fraction = Fraction (valueSf: int)

definition MAX_SIZE_F :: nat where "MAX_SIZE_F = 128"
definition MAX_SIZE_BF :: nat where "MAX_SIZE_BF = 256"
definition FRACTIONS :: nat where "FRACTIONS = 60"

text \<open>\<open>Math.pow(2, 60)\<close>, a JavaScript number.\<close>

definition MULTIPLIER_NUMBER :: number where "MULTIPLIER_NUMBER = Fin (2 ^ FRACTIONS)"

definition MAX_BN :: int where "MAX_BN = 2 ^ MAX_SIZE_BF - 1"
definition MIN_BN :: int where "MIN_BN = 0"

definition new_Fraction :: "int \<Rightarrow> fraction result" where
  "new_Fraction v = (if v < MIN_BN \<or> v > MAX_BN then Inl (Throw ''Number out of range'') else Inr (Fraction v))"

text \<open>
  \<open>Decimal.div\<close> converts the number \<open>MULTIPLIER_NUMBER\<close> through its string, \<open>fromDecimal\<close> does so
  explicitly.
\<close>

definition toDecimal :: "num_lib \<Rightarrow> fraction \<Rightarrow> decimal" where
  "toDecimal L f = ddiv L (dint (valueSf f)) (dec_of_num MULTIPLIER_NUMBER)"

definition fromDecimal :: "num_lib \<Rightarrow> decimal \<Rightarrow> fraction result" where
  "fromDecimal L n =
     (let scaledDecimal = dround L (dmul L n (dec_of_num MULTIPLIER_NUMBER))
      in bindE (bn_of_dec L scaledDecimal) new_Fraction)"

definition fromBps :: "num_lib \<Rightarrow> decimal \<Rightarrow> fraction result" where
  "fromBps L n = fromDecimal L (ddiv L n (dint 10000))"

definition fromPercent :: "num_lib \<Rightarrow> number \<Rightarrow> fraction result" where
  "fromPercent L n = fromDecimal L (ddiv L (dec_of_num n) (dint 100))"

definition getValue :: "fraction \<Rightarrow> int" where
  "getValue f = valueSf f"

definition frac_gt :: "fraction \<Rightarrow> fraction \<Rightarrow> bool" where "frac_gt f x \<longleftrightarrow> valueSf f > getValue x"
definition frac_lt :: "fraction \<Rightarrow> fraction \<Rightarrow> bool" where "frac_lt f x \<longleftrightarrow> valueSf f < getValue x"
definition frac_gte :: "fraction \<Rightarrow> fraction \<Rightarrow> bool" where "frac_gte f x \<longleftrightarrow> valueSf f \<ge> getValue x"
definition frac_lte :: "fraction \<Rightarrow> fraction \<Rightarrow> bool" where "frac_lte f x \<longleftrightarrow> valueSf f \<le> getValue x"
definition frac_eq :: "fraction \<Rightarrow> fraction \<Rightarrow> bool" where "frac_eq f x \<longleftrightarrow> valueSf f = getValue x"

definition ZERO_FRACTION :: fraction where "ZERO_FRACTION = Fraction 0"

text \<open>\<open>new Fraction(v).toDecimal()\<close> of a BN.\<close>

definition sf_to_decimal :: "num_lib \<Rightarrow> int \<Rightarrow> decimal result" where
  "sf_to_decimal L v = bindE (new_Fraction v) (\<lambda>f. Inr (toDecimal L f))"

section \<open>The multiplier\<close>

text \<open>
  \<open>2\<^sup>6\<^sup>0 = 1152921504606846976\<close> has 19 digits, and the shortest decimal that reads back as it is
  \<open>1152921504606847000\<close>: this is the divisor the class really uses.
\<close>

definition mult_repr :: rat where "mult_repr = 1152921504606847000"

lemma b64r_multiplier_neighbours:
  "b64r 1152921504606846848 = 1152921504606846848" "b64r 1152921504606847232 = 1152921504606847232"
  using b64m.representable_fixed [of 1152921504606846848 "9007199254740991" 7]
    b64m.representable_fixed [of 1152921504606847232 "4503599627370497" 8]
  by (simp_all add: b64r_def)

lemma b64_not_multiplier:
  assumes "y \<le> 1152921504606846848 \<or> 1152921504606847232 \<le> y"
  shows "b64 y \<noteq> Fin 1152921504606846976"
proof
  assume "b64 y = Fin 1152921504606846976"
  then have "b64r y = 1152921504606846976" using b64_FinD by metis
  with assms show False
    using b64r_mono [of y 1152921504606846848] b64r_mono [of 1152921504606847232 y]
      b64r_multiplier_neighbours by auto
qed

lemma b64_mult_repr: "b64 1152921504606847000 = Fin 1152921504606846976"
  by code_simp

lemma repr_candidates_multiplier_16:
  "repr_candidates 1152921504606846976 16 = [1152921504606847000, 1152921504606846000]"
  by code_simp

lemma num_repr_multiplier: "num_repr (2 ^ 60) = 1152921504606847000"
proof -
  have split: "[1..<18 :: nat] = [1..<16] @ [16, 17]" by code_simp
  have "\<forall>y\<in>set (concat (map (repr_candidates 1152921504606846976) [1..<16])).
      y \<le> 1152921504606846848 \<or> 1152921504606847232 \<le> y"
    by code_simp
  then have "List.find (\<lambda>y. b64 y = Fin 1152921504606846976)
      (concat (map (repr_candidates 1152921504606846976) [1..<16])) = None"
    using b64_not_multiplier by (auto simp: find_None_iff)
  then have "num_repr 1152921504606846976 = 1152921504606847000"
    unfolding num_repr_def split
    by (simp add: repr_candidates_multiplier_16 b64_mult_repr find_append)
  then show ?thesis by simp
qed

lemma MULTIPLIER_dec: "dec_of_num MULTIPLIER_NUMBER = Fin mult_repr"
  by (simp add: MULTIPLIER_NUMBER_def FRACTIONS_def num_repr_multiplier mult_repr_def del: power_numeral)

lemma mult_repr_pos: "0 < mult_repr"
  by (simp add: mult_repr_def)

lemma toDecimal_eq: "toDecimal L (Fraction v) = Fin (d_round L (of_int v / mult_repr))"
  using mult_repr_pos by (simp add: toDecimal_def MULTIPLIER_dec)

lemma new_Fraction_Inr: "new_Fraction v = Inr f \<longleftrightarrow> 0 \<le> v \<and> v < 2 ^ 256 \<and> f = Fraction v"
  by (auto simp: new_Fraction_def MIN_BN_def MAX_BN_def MAX_SIZE_BF_def)

lemma new_Fraction_ok: "0 \<le> v \<Longrightarrow> v < 2 ^ 256 \<Longrightarrow> new_Fraction v = Inr (Fraction v)"
  by (simp add: new_Fraction_Inr)

lemma sf_to_decimal_ok:
  "0 \<le> v \<Longrightarrow> v < 2 ^ 256 \<Longrightarrow> sf_to_decimal L v = Inr (Fin (d_round L (of_int v / mult_repr)))"
  by (simp add: sf_to_decimal_def new_Fraction_ok toDecimal_eq)

lemma sf_to_decimal_Inr:
  "sf_to_decimal L v = Inr d \<longleftrightarrow> 0 \<le> v \<and> v < 2 ^ 256 \<and> d = Fin (d_round L (of_int v / mult_repr))"
  by (auto simp: sf_to_decimal_def bindE_Inr_iff new_Fraction_Inr toDecimal_eq)

section \<open>Accuracy and round trips\<close>

context decimal_laws
begin

lemma toDecimal_err:
  assumes "0 \<le> v"
  shows "\<bar>d_round L (of_int v / mult_repr) - of_int v / mult_repr\<bar> \<le> of_int v / mult_repr * 5 / 10 ^ 20"
proof (cases "v = 0")
  case False
  with assms have v: "(1 :: rat) \<le> of_int v" by simp
  then have "1 / 10 ^ 19 \<le> \<bar>of_int v / mult_repr\<bar>" by (simp add: mult_repr_def)
  from d_err_le [OF this] assms show ?thesis by (simp add: mult_repr_def)
qed simp

lemma toDecimal_nonneg: "0 \<le> v \<Longrightarrow> 0 \<le> d_round L (of_int v / mult_repr)"
  by (rule d_nonneg) (simp add: mult_repr_def)

lemma toDecimal_pos: "0 < v \<Longrightarrow> 0 < d_round L (of_int v / mult_repr)"
proof -
  assume "0 < v"
  then have "(1 :: rat) \<le> of_int v" by simp
  then have "1 / 10 ^ 19 \<le> of_int v / mult_repr" by (simp add: mult_repr_def)
  then show ?thesis by (intro d_pos dec_tiny_le [of 19]) simp_all
qed

lemma toDecimal_mono: "v \<le> w \<Longrightarrow> d_round L (of_int v / mult_repr) \<le> d_round L (of_int w / mult_repr)"
  by (rule d_mono) (simp add: mult_repr_def divide_right_mono)

lemma scaled_back:
  assumes v: "0 \<le> v" "v \<le> 4 * 10 ^ 18"
  shows "d_rint L (d_round L (d_round L (of_int v / mult_repr) * mult_repr)) = v"
proof (rule rint_eqI, cases "v = 0")
  case False
  define w where "w = (of_int v :: rat)"
  have w: "1 \<le> w" "w \<le> 4 * 10 ^ 18" using v False by (simp_all add: w_def)
  define a where "a = d_round L (w / mult_repr)"
  have "\<bar>a - w / mult_repr\<bar> \<le> w / mult_repr * 5 / 10 ^ 20"
    using toDecimal_err [OF v(1)] by (simp add: a_def w_def)
  then have "\<bar>a * mult_repr - w\<bar> \<le> w * 5 / 10 ^ 20"
    by (simp add: mult_repr_def abs_le_iff field_simps)
  also have "\<dots> \<le> 1 / 5" using w by simp
  finally have am: "\<bar>a * mult_repr - w\<bar> \<le> 1 / 5" .
  then have am_pos: "4 / 5 \<le> a * mult_repr" "a * mult_repr \<le> w + 1 / 5" using w by linarith+
  then have "1 / 10 ^ 1 \<le> \<bar>a * mult_repr\<bar>" by simp
  from d_err_le [OF this]
  have "\<bar>d_round L (a * mult_repr) - a * mult_repr\<bar> \<le> a * mult_repr * 5 / 10 ^ 20"
    using am_pos by simp
  also have "\<dots> < 1 / 4" using am_pos(2) w(2) by (simp add: mult.commute)
  finally show "\<bar>d_round L (d_round L (of_int v / mult_repr) * mult_repr) - of_int v\<bar> < 1 / 2"
    using am unfolding a_def w_def by linarith
qed simp

end

text \<open>
  C34. Reading a scaled fraction as a Decimal and scaling it back is the identity for every
  scaled value up to \<open>4 * 10\<^sup>1\<^sup>8\<close> (about 3.47 in units): with at least 20 significant digits, both
  roundings together stay below one half.
\<close>

theorem fraction_roundtrip:
  assumes "numlib_laws L" and "0 \<le> v" and "v \<le> 4 * 10 ^ 18"
  shows "fromDecimal L (toDecimal L (Fraction v)) = Inr (Fraction v)"
proof -
  from assms(1) have dl: "decimal_laws L" and bl: "bn_laws L" by (simp_all add: numlib_laws_def)
  have scaled: "d_rint L (d_round L (d_round L (of_int v / mult_repr) * mult_repr)) = v"
    by (rule decimal_laws.scaled_back [OF dl assms(2,3)])
  have "\<bar>v\<bar> < 10 ^ 21" using assms by simp
  then have "d_toBN L v = Inr v" by (rule bn_laws.toBN_small [OF bl])
  moreover have "v < 2 ^ 256" using assms(3) by simp
  ultimately show ?thesis
    using assms(2) by (simp add: fromDecimal_def toDecimal_eq MULTIPLIER_dec scaled new_Fraction_ok)
qed

theorem fraction_roundtrip_witness:
  "fromDecimal decimal_js (toDecimal decimal_js (Fraction 1234567890123)) = Inr (Fraction 1234567890123)"
  by (rule fraction_roundtrip [OF numlib_laws_js]) simp_all

text \<open>
  The Decimal of a scaled fraction is below its true value \<open>v / 2\<^sup>6\<^sup>0\<close> by a relative error
  between \<open>2 * 10\<^sup>-\<^sup>1\<^sup>7\<close> and \<open>3 * 10\<^sup>-\<^sup>1\<^sup>7\<close>, because the divisor is the printed form of the number
  \<open>2\<^sup>6\<^sup>0\<close>. In particular the scaled fraction of 1 is read as a Decimal below 1.
\<close>

lemma toDecimal_below_true_value:
  assumes "decimal_laws L" and "0 < v"
  shows "\<exists>x. toDecimal L (Fraction v) = Fin x \<and>
    of_int v / 2 ^ 60 * (1 - 3 / 10 ^ 17) < x \<and> x < of_int v / 2 ^ 60 * (1 - 2 / 10 ^ 17)"
proof -
  define w where "w = (of_int v :: rat)"
  have w: "0 < w" using assms(2) by (simp add: w_def)
  define x where "x = d_round L (w / mult_repr)"
  have "\<bar>x - w / mult_repr\<bar> \<le> w / mult_repr * 5 / 10 ^ 20"
    using decimal_laws.toDecimal_err [OF assms(1), of v] assms(2) by (simp add: x_def w_def)
  then have "w / mult_repr * (1 - 5 / 10 ^ 20) \<le> x" "x \<le> w / mult_repr * (1 + 5 / 10 ^ 20)"
    by (simp_all add: abs_le_iff field_simps)
  moreover have "w / 2 ^ 60 * (1 - 3 / 10 ^ 17) < w / mult_repr * (1 - 5 / 10 ^ 20)"
    "w / mult_repr * (1 + 5 / 10 ^ 20) < w / 2 ^ 60 * (1 - 2 / 10 ^ 17)"
    using w by (simp_all add: mult_repr_def field_simps)
  ultimately show ?thesis by (auto simp: toDecimal_eq x_def w_def)
qed

lemma toDecimal_below_true_value_sample:
  "\<exists>x. toDecimal decimal_js (Fraction (2 ^ 60)) = Fin x \<and> x < 1"
  using toDecimal_below_true_value [OF decimal_laws_js, of "2 ^ 60"] by auto

text \<open>
  \<open>fromDecimal\<close> of a negative amount of at least one unit in the last place always throws the
  range error of the constructor.
\<close>

lemma fromDecimal_negative_throws:
  assumes "numlib_laws L" and "n \<le> - (1 / 10 ^ 18)" and "- 800 \<le> n"
  shows "fromDecimal L (Fin n) = Inl (Throw ''Number out of range'')"
proof -
  from assms(1) have dl: "decimal_laws L" and bl: "bn_laws L" by (simp_all add: numlib_laws_def)
  define p where "p = d_round L (n * mult_repr)"
  have nm: "n * mult_repr \<le> - 1" "- (93 * 10 ^ 19) \<le> n * mult_repr"
    using assms(2,3) by (simp_all add: mult_repr_def)
  have fix1: "d_round L (- 1) = - 1" "d_round L (- (93 * 10 ^ 19)) = - (93 * 10 ^ 19)"
    using decimal_laws.d_repr [OF dl, of "- 1" 0] decimal_laws.d_repr [OF dl, of "- 93" 19] by simp_all
  then have p: "p \<le> - 1" "- (93 * 10 ^ 19) \<le> p"
    using decimal_laws.d_mono [OF dl nm(1)] decimal_laws.d_mono [OF dl nm(2)] by (simp_all add: p_def)
  have "\<bar>of_int (d_rint L p) - p\<bar> \<le> 1 / 2" by (rule decimal_laws.rint_near [OF dl])
  moreover have "- 930000000000000000000 \<le> p" using p(2) by simp
  ultimately have "rat_of_int (d_rint L p) < 0" "- 1000000000000000000000 < rat_of_int (d_rint L p)"
    using p(1) by linarith+
  then have "rat_of_int (d_rint L p) < of_int 0" "rat_of_int (- (10 ^ 21)) < of_int (d_rint L p)"
    by simp_all
  then have ri: "d_rint L p < 0" "- (10 ^ 21) < d_rint L p" by (simp_all only: of_int_less_iff)
  then have "d_toBN L (d_rint L p) = Inr (d_rint L p)" by (intro bn_laws.toBN_small [OF bl]) linarith
  then show ?thesis
    using ri(1) by (simp add: fromDecimal_def MULTIPLIER_dec p_def [symmetric] new_Fraction_def MIN_BN_def)
qed

lemma fromDecimal_negative_throws_sample:
  "fromDecimal decimal_js (Fin (- 5)) = Inl (Throw ''Number out of range'')"
  by (rule fromDecimal_negative_throws [OF numlib_laws_js]) simp_all

end
