(* ===== verification/Utils.thy ===== *)
theory Utils
  imports Fraction
begin

text \<open>
  The numeric helpers of the SDK: \<open>src/ts-client/src/utils/constants.ts\<close> (the constants of time and
  scale), \<open>utils/slots.ts\<close> (slot conversion), \<open>classes/curve.ts\<close> (padding of curve points) and
  \<open>classes/utils.ts\<close> (reward scores, the borrow-rate curve, lamport conversion, clamping). JavaScript numbers that
  may be fractional are \<open>number\<close> with binary64 arithmetic; Decimals take the library record \<open>L\<close>.
  Decimal strings in API objects (\<open>balance\<close>, \<open>score\<close>, ...) are given by the Decimal they denote.
\<close>

section \<open>Constants\<close>

definition INITIAL_COLLATERAL_RATE :: decimal where "INITIAL_COLLATERAL_RATE = Fin 1"
definition U64_MAX :: int where "U64_MAX = 18446744073709551615"
definition ONE_HUNDRED_PCT_IN_BPS :: nat where "ONE_HUNDRED_PCT_IN_BPS = 10000"
definition SLOTS_PER_SECOND :: nat where "SLOTS_PER_SECOND = 2"
definition SLOTS_PER_MINUTE :: nat where "SLOTS_PER_MINUTE = SLOTS_PER_SECOND * 60"
definition SLOTS_PER_HOUR :: nat where "SLOTS_PER_HOUR = SLOTS_PER_MINUTE * 60"
definition SLOTS_PER_DAY :: nat where "SLOTS_PER_DAY = SLOTS_PER_HOUR * 24"
definition SLOTS_PER_YEAR :: nat where "SLOTS_PER_YEAR = SLOTS_PER_DAY * 365"

lemmas slot_constants =
  SLOTS_PER_SECOND_def SLOTS_PER_MINUTE_def SLOTS_PER_HOUR_def SLOTS_PER_DAY_def SLOTS_PER_YEAR_def

section \<open>Slots\<close>

text \<open>\<open>Math.trunc\<close>.\<close>

fun ntrunc :: "number \<Rightarrow> number" where
  "ntrunc (Fin a) = Fin (of_int (if 0 \<le> a then \<lfloor>a\<rfloor> else \<lceil>a\<rceil>))"
| "ntrunc x = x"

definition toSeconds :: "number \<Rightarrow> number" where
  "toSeconds slots = ntrunc (ndiv slots (dnat SLOTS_PER_SECOND))"

definition toHours :: "number \<Rightarrow> number" where
  "toHours slots = ntrunc (ndiv slots (dnat SLOTS_PER_HOUR))"

definition toDays :: "number \<Rightarrow> number" where
  "toDays slots = ntrunc (ndiv slots (dnat SLOTS_PER_DAY))"

section \<open>Reward scores\<close>

record obligation_farm_score =
  fs_balance :: decimal
  fs_debt :: decimal
  fs_score :: decimal

record reward_rate =
  beginningSlot :: number
  rewardRate :: decimal

record reward_stat =
  rs_lastSlot :: number
  rs_rewardRates :: "reward_rate list"
  rewardsPerShare :: decimal
  totalBalance :: decimal

definition getLatestRewardRate :: "reward_rate list \<Rightarrow> number \<Rightarrow> reward_rate" where
  "getLatestRewardRate rewardRates slot =
     foldl (\<lambda>v1 v2. if xgt (beginningSlot v1) (beginningSlot v2) then v1 else v2)
       \<lparr>beginningSlot = Fin 0, rewardRate = Fin 0\<rparr>
       (filter (\<lambda>rr. xge slot (beginningSlot rr)) rewardRates)"

definition calculateNewScore ::
    "num_lib \<Rightarrow> reward_stat \<Rightarrow> obligation_farm_score \<Rightarrow> decimal \<Rightarrow> number \<Rightarrow> number \<Rightarrow> decimal" where
  "calculateNewScore L rewardStat pool rate endSlot startSlot =
     (let newRewardsPerShare =
        (if \<not> xeq (totalBalance rewardStat) (Fin 0)
         then dadd L (rewardsPerShare rewardStat)
                (ddiv L
                  (ddiv L (dmul L (dsub L (dec_of_num endSlot) (dec_of_num startSlot)) rate)
                     (totalBalance rewardStat))
                  (dnat SLOTS_PER_YEAR))
         else Fin 0)
      in dadd L (fs_score pool) (dsub L (dmul L newRewardsPerShare (fs_balance pool)) (fs_debt pool)))"

text \<open>\<open>Date.now()\<close> is an argument.\<close>

definition estimateCurrentScore ::
    "num_lib \<Rightarrow> number \<Rightarrow> reward_stat \<Rightarrow> obligation_farm_score \<Rightarrow> number \<Rightarrow> number \<Rightarrow> decimal" where
  "estimateCurrentScore L now rewardStat rewardScore mostRecentSlot mostRecentSlotTime =
     (let estimatedCurrentSlot =
        nadd mostRecentSlot
          (nmul (dnat SLOTS_PER_SECOND) (nsub (ndiv now (Fin 1000)) mostRecentSlotTime))
      in calculateNewScore L rewardStat rewardScore
           (rewardRate (getLatestRewardRate (rs_rewardRates rewardStat) estimatedCurrentSlot))
           estimatedCurrentSlot (rs_lastSlot rewardStat))"

section \<open>The borrow-rate curve\<close>

definition interpolate :: "number \<Rightarrow> number \<Rightarrow> number \<Rightarrow> number \<Rightarrow> number \<Rightarrow> number result" where
  "interpolate x x0 x1 y0 y1 =
     (if xgt x x1 then Inl (Throw ''Cannot do extrapolation'')
      else Inr (nadd y0 (ndiv (nmul (nsub x x0) (nsub y1 y0)) (nsub x1 x0))))"

text \<open>
  The loop of \<open>getBorrowRate\<close>: it returns the rate of a point hit exactly, or leaves the ends of the
  first segment that reaches the utilization; both ends stay \<open>(0, 0)\<close> when there is none.
\<close>

datatype curve_hit = Knot number | Segment number number number number

fun curve_scan :: "number \<Rightarrow> number \<times> number \<Rightarrow> (number \<times> number) list \<Rightarrow> curve_hit" where
  "curve_scan u prev [] = Segment (Fin 0) (Fin 0) (Fin 0) (Fin 0)"
| "curve_scan u prev ((pointUtilization, pointRate) # ps) =
     (if xeq pointUtilization u then Knot pointRate
      else if xle u pointUtilization then Segment (fst prev) (snd prev) pointUtilization pointRate
      else curve_scan u (pointUtilization, pointRate) ps)"

definition getBorrowRate :: "number \<Rightarrow> (number \<times> number) list \<Rightarrow> number result" where
  "getBorrowRate currentUtilization curve =
     (if length curve < 2 then Inl (Throw ''Invalid borrow rate curve, only one point'')
      else
        let u = (if xgt currentUtilization (Fin 1) then Fin 1 else currentUtilization)
        in case curve_scan u (hd curve) (tl curve) of
             Knot r \<Rightarrow> Inr r
           | Segment x0 y0 x1 y1 \<Rightarrow>
               if xeq x0 (Fin 0) \<and> xeq y0 (Fin 0) \<and> xeq x1 (Fin 0) \<and> xeq y1 (Fin 0)
               then Inl (Throw ''Invalid borrow rate curve, could not identify the interpolation points.'')
               else if xge x0 x1 \<or> xgt y0 y1
               then Inl (Throw ''Invalid borrow rate curve, curve is not uniformly increasing'')
               else interpolate u x0 x1 y0 y1)"

section \<open>Curve points\<close>

record curve_point =
  utilizationRateBps :: nat
  borrowRateBps :: nat

definition CURVE_POINTS_LENGTH :: nat where "CURVE_POINTS_LENGTH = 11"

text \<open>
  \<open>Array(11 - points.length)\<close> throws a RangeError for more than 11 points; padding an empty array fills
  it with \<open>undefined\<close>, hence the optional points of the result.
\<close>

definition padPoints :: "curve_point list \<Rightarrow> curve_point option list result" where
  "padPoints points =
     (if CURVE_POINTS_LENGTH < length points then Inl RangeError
      else Inr (map Some points @
                replicate (CURVE_POINTS_LENGTH - length points) (arr_get_pred points (length points))))"

definition newFlat :: "nat \<Rightarrow> curve_point option list result" where
  "newFlat rate =
     padPoints [\<lparr>utilizationRateBps = 0, borrowRateBps = rate\<rparr>,
                \<lparr>utilizationRateBps = 10000, borrowRateBps = rate\<rparr>]"

section \<open>Conversions and clamping\<close>

definition parseTokenSymbol :: "nat list \<Rightarrow> string" where
  "parseTokenSymbol tokenSymbol = map char_of (filter (\<lambda>x. 0 < x) tokenSymbol)"

text \<open>\<open>10 ** decimals\<close>, a JavaScript number.\<close>

definition npow10 :: "nat \<Rightarrow> number" where
  "npow10 d = b64 (10 ^ d)"

definition numberToLamportsDecimal :: "num_lib \<Rightarrow> decimal \<Rightarrow> nat \<Rightarrow> decimal" where
  "numberToLamportsDecimal L amount decimals = dmul L amount (dec_of_num (npow10 decimals))"

definition lamportsToNumberDecimal :: "num_lib \<Rightarrow> decimal \<Rightarrow> nat \<Rightarrow> decimal" where
  "lamportsToNumberDecimal L amount decimals = ddiv L amount (dec_of_num (npow10 decimals))"

definition lamportsToDecimal :: "num_lib \<Rightarrow> decimal \<Rightarrow> nat \<Rightarrow> decimal" where
  "lamportsToDecimal L amount decimals = ddiv L amount (dpow L 10 decimals)"

definition valueOrZero :: "decimal \<Rightarrow> decimal" where
  "valueOrZero value = (if isNaN value \<or> \<not> isFinite value then Fin 0 else value)"

definition positiveOrZero :: "decimal \<Rightarrow> decimal" where
  "positiveOrZero value = xmax value (Fin 0)"

text \<open>The element comparison, \<open>eq\<close> of BN and Decimal values and \<open>===\<close> of the others, is an argument.\<close>

definition sameLengthArrayEquals :: "('a \<Rightarrow> 'a \<Rightarrow> bool) \<Rightarrow> 'a list \<Rightarrow> 'a list \<Rightarrow> bool result" where
  "sameLengthArrayEquals eqv left right =
     (if length left \<noteq> length right then Inl (Throw ''Not same length'')
      else Inr (list_all (\<lambda>i. eqv (left ! i) (right ! i)) [0..<length left]))"

definition bpsToPct :: "num_lib \<Rightarrow> decimal \<Rightarrow> decimal" where
  "bpsToPct L bps = ddiv L bps (Fin 100)"

definition truncateDecimals :: "num_lib \<Rightarrow> decimal \<Rightarrow> nat \<Rightarrow> decimal" where
  "truncateDecimals L num maxDecimals =
     (let factor = dpow L 10 maxDecimals in ddiv L (dfloor (dmul L num factor)) factor)"

section \<open>Rounding facts about bounded numbers\<close>

lemma b64r_rel: "1 / 10 ^ 25 \<le> x \<Longrightarrow> \<bar>b64r x - x\<bar> \<le> x / 2 ^ 53"
proof -
  assume x: "1 / 10 ^ 25 \<le> x"
  have "(of_nat 2 :: rat) powi (- 100) = 1 / 2 ^ 100" by (simp add: power_int_def power_one_over)
  also have "\<dots> \<le> 1 / 10 ^ 25" by simp
  finally have "of_nat 2 powi (- 100) \<le> x" using x by linarith
  then have "- 100 \<le> ilog 2 x" by (intro ilog_ge) simp_all
  moreover have x0: "0 < x" using x by (rule less_le_trans [rotated]) simp
  ultimately have "\<bar>round_sig round_half_even 2 53 (- 1074) x - x\<bar> \<le> \<bar>x\<bar> * of_nat 2 powi (1 - int 53) / 2"
    by (intro b64m.round_rel_error) simp
  also have "(of_nat 2 :: rat) powi (1 - int 53) = 2 / 2 ^ 53" by (simp add: power_int_def power_one_over)
  finally show ?thesis using x0 by (simp add: b64r_def)
qed

lemma b64r_le_rel: "1 / 10 ^ 25 \<le> x \<Longrightarrow> b64r x \<le> x * (1 + 1 / 2 ^ 53)"
proof -
  assume "1 / 10 ^ 25 \<le> x"
  from b64r_rel [OF this] have "b64r x \<le> x + x / 2 ^ 53" by linarith
  also have "\<dots> = x * (1 + 1 / 2 ^ 53)" by (simp add: algebra_simps)
  finally show ?thesis .
qed

lemma b64r_ge_rel: "1 / 10 ^ 25 \<le> x \<Longrightarrow> x * (1 - 1 / 2 ^ 53) \<le> b64r x"
proof -
  assume "1 / 10 ^ 25 \<le> x"
  from b64r_rel [OF this] have "x - x / 2 ^ 53 \<le> b64r x" by linarith
  moreover have "x - x / 2 ^ 53 = x * (1 - 1 / 2 ^ 53)" by (simp add: algebra_simps)
  ultimately show ?thesis by simp
qed

lemma b64r_nat: "n \<le> 2 ^ 53 \<Longrightarrow> b64r (of_nat n) = of_nat n"
  using b64r_int [of "int n"] by simp

lemma b64r_one [simp]: "b64r 1 = 1"
  using b64r_int [of 1] by simp

lemma b64_zero [simp]: "b64 0 = Fin 0"
  using b64_int [of 0] by simp

lemma b64_small: "\<bar>x\<bar> \<le> 10 ^ 100 \<Longrightarrow> b64 x = Fin (b64r x)"
proof -
  assume "\<bar>x\<bar> \<le> 10 ^ 100"
  also have "(10 :: rat) ^ 100 \<le> 2 ^ 1000" by simp
  finally show ?thesis by (rule b64_eq_Fin)
qed

lemma b64_mono: "x \<le> y \<Longrightarrow> xle (b64 x) (b64 y)"
proof -
  assume "x \<le> y"
  then have le: "b64r x \<le> b64r y" by (rule b64r_mono)
  obtain M :: rat where M: "2 ^ 1024 = M" "0 < M" by simp
  show ?thesis
    unfolding b64_def Let_def M(1) inf_of_sign_def
    using le M(2) by (auto simp: xle_def xeq_def)
qed

lemma b64_nonneg: "0 \<le> q \<Longrightarrow> xle (Fin 0) (b64 q)"
  using b64r_nonneg [of q] by (auto simp: b64_def Let_def inf_of_sign_def xle_def xeq_def)

lemma b64r_le_nat: "x \<le> of_nat n \<Longrightarrow> n \<le> 2 ^ 53 \<Longrightarrow> b64r x \<le> of_nat n"
  using b64r_mono [of x "of_nat n"] by (simp add: b64r_nat)

lemma xlt_irrefl [simp]: "\<not> xlt x x"
  by (cases x) auto

lemma ilog_pow10: "ilog 10 (10 ^ d) = int d"
proof -
  have b: "(of_nat 10 :: rat) powi ilog 10 (10 ^ d) \<le> 10 ^ d"
    "(10 :: rat) ^ d < of_nat 10 powi (ilog 10 (10 ^ d) + 1)"
    using ilog_bounds [of 10 "10 ^ d"] by simp_all
  have "ilog 10 (10 ^ d) < int d + 1"
  proof (rule powi_less_cancel [of "of_nat 10"])
    have "(of_nat 10 :: rat) powi ilog 10 (10 ^ d) \<le> 10 ^ d" by (rule b(1))
    also have "(10 :: rat) ^ d < 10 ^ d * 10" by simp
    finally show "(of_nat 10 :: rat) powi ilog 10 (10 ^ d) < of_nat 10 powi (int d + 1)"
      by (simp add: power_int_add)
  qed simp
  moreover have "int d < ilog 10 (10 ^ d) + 1"
    by (rule powi_less_cancel [of "of_nat 10"]) (use b(2) in simp_all)
  ultimately show ?thesis by linarith
qed

lemma b64_pow10: "d \<le> 22 \<Longrightarrow> b64 (10 ^ d) = Fin (10 ^ d)"
proof -
  assume d: "d \<le> 22"
  then have "(5 :: int) ^ d \<le> 5 ^ 22" by (intro power_increasing) simp_all
  also have "\<dots> \<le> 2 ^ 53" by simp
  finally have "b64r (10 ^ d) = 10 ^ d"
    unfolding b64r_def
    by (intro b64m.representable_fixed [of _ "5 ^ d" "int d"]) (simp_all flip: power_mult_distrib)
  moreover have "(10 :: rat) ^ d \<le> 10 ^ 100" using d by (intro power_increasing) simp_all
  ultimately show ?thesis using b64_small [of "10 ^ d"] by simp
qed

lemma num_repr_pow10: "d \<le> 22 \<Longrightarrow> num_repr (10 ^ d) = 10 ^ d"
proof -
  assume "d \<le> 22"
  note fixed = b64_pow10 [OF this]
  have "repr_candidates (10 ^ d) 1 = [10 ^ d, 2 * 10 ^ d]"
    by (simp add: repr_candidates_def ilog_pow10 Let_def)
  moreover have "[1..<18 :: nat] = 1 # [2..<18]" by (simp add: upt_conv_Cons)
  ultimately show ?thesis by (simp add: num_repr_def fixed)
qed

lemma dec_of_npow10: "d \<le> 22 \<Longrightarrow> dec_of_num (npow10 d) = Fin (10 ^ d)"
  by (simp add: npow10_def b64_pow10 num_repr_pow10)

lemma trunc_div:
  assumes k: "0 < k" "k \<le> 2 ^ 20" and s: "s < 2 ^ 53"
  shows "ntrunc (ndiv (dnat s) (dnat k)) = dnat (s div k)"
proof -
  define x where "x = (of_nat s / of_nat k :: rat)"
  define q where "q = s div k"
  have x0: "0 \<le> x" by (simp add: x_def)
  have xs: "x \<le> of_nat s" using k by (simp add: x_def divide_le_eq mult_le_cancel_left1)
  also have "rat_of_nat s \<le> of_nat (2 ^ 53)" using s by (simp only: of_nat_le_iff)
  finally have xle: "x \<le> 2 ^ 53" by simp
  have lo: "of_nat q \<le> x" using k by (simp add: x_def q_def le_divide_eq flip: of_nat_mult)
  have "s + 1 \<le> (q + 1) * k" using k dividend_less_div_times [of k s] by (simp add: q_def)
  then have "rat_of_nat (s + 1) \<le> of_nat ((q + 1) * k)" by (simp only: of_nat_le_iff)
  then have hi: "x \<le> of_nat q + 1 - 1 / of_nat k" using k by (simp add: x_def field_simps)
  have "q < 2 ^ 53" using s div_le_dividend [of s k] unfolding q_def by linarith
  then have qfix: "b64r (of_nat q) = of_nat q" by (simp add: b64r_nat)
  have r_lo: "of_nat q \<le> b64r x" using b64r_mono [OF lo] qfix by simp
  have r_hi: "b64r x < of_nat q + 1"
  proof (cases "s = 0")
    case True
    then show ?thesis by (simp add: x_def)
  next
    case False
    have "1 / 10 ^ 25 \<le> (1 :: rat) / 2 ^ 20" by simp
    also have "\<dots> \<le> 1 / of_nat k"
    proof -
      have "rat_of_nat k \<le> of_nat (2 ^ 20)" using k(2) by (simp only: of_nat_le_iff)
      then show ?thesis using k(1) by (simp add: frac_le)
    qed
    also have "\<dots> \<le> x" using False k by (simp add: x_def divide_right_mono)
    finally have "\<bar>b64r x - x\<bar> \<le> x / 2 ^ 53" by (rule b64r_rel)
    moreover have "x / 2 ^ 53 < 1 / of_nat k"
    proof -
      have "rat_of_nat s < of_nat (2 ^ 53)" using s by (simp only: of_nat_less_iff)
      then show ?thesis using k by (simp add: x_def field_simps)
    qed
    ultimately show ?thesis using hi by linarith
  qed
  have "\<lfloor>b64r x\<rfloor> = int q" by (rule floor_unique) (use r_lo r_hi in simp_all)
  moreover have "b64 x = Fin (b64r x)" by (rule b64_small) (use x0 xle in simp)
  moreover have "0 \<le> b64r x" by (rule b64r_nonneg [OF x0])
  ultimately show ?thesis using k by (simp flip: x_def add: q_def)
qed
text \<open>
  For a slot count below \<open>2\<^sup>5\<^sup>3\<close> the truncated floating-point quotients are the exact integer
  quotients: seconds, hours and days never round up to the next unit.
\<close>

lemma slot_conversions_exact:
  assumes "s < 2 ^ 53"
  shows "toSeconds (dnat s) = dnat (s div 2) \<and> toHours (dnat s) = dnat (s div 7200) \<and>
    toDays (dnat s) = dnat (s div 172800)"
  using trunc_div [OF _ _ assms, of SLOTS_PER_SECOND] trunc_div [OF _ _ assms, of SLOTS_PER_HOUR]
    trunc_div [OF _ _ assms, of SLOTS_PER_DAY]
  by (simp add: toSeconds_def toHours_def toDays_def slot_constants)

lemma slot_conversions_exact_sample:
  "toHours (dnat 123456789) = dnat (123456789 div 7200)"
  using slot_conversions_exact [of 123456789] by simp

text \<open>Numbers with at most 20 significant digits stay exact when scaled by a power of ten.\<close>

lemma scale_pow10:
  assumes "decimal_laws L" "\<bar>n\<bar> \<le> 10 ^ 20" "- 1000 \<le> k"
  shows "d_round L (of_int n * 10 powi k * 10 ^ d) = of_int n * 10 powi k * 10 ^ d"
proof -
  have eq: "of_int n * 10 powi k * 10 ^ d = (of_int n * 10 powi (k + int d) :: rat)"
    by (simp add: power_int_add)
  have "d_round L (of_int n * 10 powi (k + int d)) = of_int n * 10 powi (k + int d)"
    by (rule decimal_laws.d_repr [OF assms(1,2)]) (use assms(3) in linarith)
  then show ?thesis by (simp only: eq)
qed

text \<open>
  C35. Converting an amount with at most 20 significant digits to lamports and back is the identity, for
  every mint with at most 22 decimals.
\<close>

theorem lamports_roundtrip:
  assumes "decimal_laws L" and "d \<le> 22" and "\<bar>n\<bar> \<le> 10 ^ 20" and "- 1000 \<le> k"
  shows "lamportsToNumberDecimal L (numberToLamportsDecimal L (Fin (of_int n * 10 powi k)) d) d
    = Fin (of_int n * 10 powi k)"
  using scale_pow10 [OF assms(1,3,4), of d] decimal_laws.d_repr [OF assms(1,3,4)]
  by (simp add: lamportsToNumberDecimal_def numberToLamportsDecimal_def dec_of_npow10 [OF assms(2)])

theorem lamports_roundtrip_witness:
  "lamportsToNumberDecimal decimal_js (numberToLamportsDecimal decimal_js (Fin (1234567 * 10 powi (- 6))) 9) 9
    = Fin (1234567 * 10 powi (- 6))"
  using lamports_roundtrip [OF decimal_laws_js, of 9 1234567 "- 6"] by simp

lemma floor_scaled_digits:
  assumes "\<bar>n\<bar> \<le> 10 ^ 20"
  shows "\<exists>m j. \<bar>m\<bar> \<le> 10 ^ 20 \<and> 0 \<le> j \<and> of_int \<lfloor>of_int n * (10 :: rat) powi k\<rfloor> = (of_int m * 10 powi j :: rat)"
proof (cases "0 \<le> k")
  case True
  then obtain j where j: "k = int j" using zero_le_imp_eq_int by blast
  have "of_int n * (10 :: rat) powi k = of_int (n * 10 ^ j)" by (simp add: j)
  then have "of_int \<lfloor>of_int n * (10 :: rat) powi k\<rfloor> = (of_int n * 10 powi k :: rat)"
    by (simp only: floor_of_int)
  then show ?thesis using assms True by blast
next
  case False
  define c where "c = (10 :: rat) powi k"
  have c: "0 < c" "c \<le> 1"
    using False power_int_increasing [of k 0 "10 :: rat"] by (simp_all add: c_def zero_less_power_int)
  have "\<bar>of_int n * c\<bar> \<le> \<bar>of_int n\<bar> * 1" using c unfolding abs_mult by (intro mult_left_mono) simp_all
  also have "\<bar>rat_of_int n\<bar> = of_int \<bar>n\<bar>" by simp
  finally have "\<bar>of_int n * c\<bar> \<le> of_int \<bar>n\<bar>" by simp
  then have "- \<bar>n\<bar> \<le> \<lfloor>of_int n * c\<rfloor>" "\<lfloor>of_int n * c\<rfloor> \<le> \<bar>n\<bar>"
    unfolding le_floor_iff floor_le_iff by (simp_all add: abs_le_iff)
  then have "\<bar>\<lfloor>of_int n * c\<rfloor>\<bar> \<le> 10 ^ 20" using assms by linarith
  then show ?thesis unfolding c_def by (intro exI [of _ "\<lfloor>of_int n * (10 :: rat) powi k\<rfloor>"] exI [of _ 0]) simp
qed

text \<open>
  \<open>truncateDecimals\<close> of an amount with at most 20 significant digits is exactly the largest
  multiple of \<open>10\<^sup>-\<^sup>d\<close> that is not above it: it floors and never rounds up.
\<close>

lemma truncateDecimals_exact:
  assumes "decimal_laws L" and "\<bar>n\<bar> \<le> 10 ^ 20" and "- 900 \<le> k" and "d \<le> 100"
    and "q = of_int n * 10 powi k"
  shows "truncateDecimals L (Fin q) d = Fin (of_int \<lfloor>q * 10 ^ d\<rfloor> / 10 ^ d)"
proof -
  have q: "q * 10 ^ d = of_int n * 10 powi (k + int d)" by (simp add: assms(5) power_int_add)
  obtain m j where m: "\<bar>m\<bar> \<le> 10 ^ 20" "0 \<le> j" "of_int \<lfloor>q * 10 ^ d\<rfloor> = (of_int m * 10 powi j :: rat)"
    using floor_scaled_digits [OF assms(2), of "k + int d"] unfolding q by blast
  have "of_int \<lfloor>q * 10 ^ d\<rfloor> / 10 ^ d = (of_int m * 10 powi (j - int d) :: rat)"
    by (simp add: m(3) power_int_diff)
  then have "d_round L (of_int \<lfloor>q * 10 ^ d\<rfloor> / 10 ^ d) = of_int \<lfloor>q * 10 ^ d\<rfloor> / 10 ^ d"
    using decimal_laws.d_repr [OF assms(1) m(1), of "j - int d"] m(2) assms(4) by simp
  moreover have "d_round L (q * 10 ^ d) = q * 10 ^ d"
    using scale_pow10 [OF assms(1,2), of k d] assms(3) by (simp add: assms(5))
  ultimately show ?thesis
    by (simp add: truncateDecimals_def dpow_def decimal_laws.d_pow10 [OF assms(1)])
qed

lemma truncateDecimals_exact_sample:
  "truncateDecimals decimal_js (Fin (12399 / 10000)) 2 = Fin (123 / 100)"
proof -
  have q: "(12399 / 10000 :: rat) = of_int 12399 * 10 powi (- 4)" by (simp add: power_int_def power_one_over)
  have "\<lfloor>(12399 / 10000 :: rat) * 10 ^ 2\<rfloor> = 123" by (rule floor_unique) simp_all
  then show ?thesis using truncateDecimals_exact [OF decimal_laws_js _ _ _ q, of 2] by simp
qed

text \<open>Clamping.\<close>

lemma positiveOrZero_Fin [simp]: "positiveOrZero (Fin q) = Fin (max q 0)"
  by (simp add: positiveOrZero_def)

lemma valueOrZero_Fin [simp]: "valueOrZero (Fin q) = Fin q"
  by (simp add: valueOrZero_def)

lemma valueOrZero_finite [simp]: "isFinite (valueOrZero v)"
  by (cases v) (simp_all add: valueOrZero_def)

lemma sameLengthArrayEquals_eq:
  "length xs = length ys \<Longrightarrow> sameLengthArrayEquals eqv xs ys = Inr (list_all2 eqv xs ys)"
  by (auto simp: sameLengthArrayEquals_def list_all_iff list_all2_conv_all_nth)

text \<open>Padding keeps the points and repeats the last one up to the fixed length.\<close>

lemma padPoints_ok:
  "points \<noteq> [] \<Longrightarrow> length points \<le> 11 \<Longrightarrow>
    padPoints points = Inr (map Some (points @ replicate (11 - length points) (last points)))"
  by (simp add: padPoints_def CURVE_POINTS_LENGTH_def arr_get_pred_def arr_get_def last_conv_nth)

definition num_points :: "(rat \<times> rat) list \<Rightarrow> (number \<times> number) list" where
  "num_points ps = map (\<lambda>(x, y). (Fin x, Fin y)) ps"

fun segments_ok :: "(rat \<times> rat) list \<Rightarrow> bool" where
  "segments_ok ((x0, y0) # (x1, y1) # ps) \<longleftrightarrow>
     x0 + 1 / 20000 \<le> x1 \<and> (y0 = y1 \<or> y0 + 1 / 20000 \<le> y1) \<and> segments_ok ((x1, y1) # ps)"
| "segments_ok _ \<longleftrightarrow> True"

definition curve_ok :: "(rat \<times> rat) list \<Rightarrow> bool" where
  "curve_ok ps \<longleftrightarrow> 2 \<le> length ps \<and> fst (hd ps) = 0 \<and> fst (last ps) = 1 \<and> segments_ok ps \<and>
     0 \<le> snd (hd ps) \<and> snd (last ps) \<le> 10 ^ 6 \<and> (\<forall>(x, y)\<in>set ps. b64r y = y)"

lemma b64_nonneg_small: "0 \<le> x \<Longrightarrow> x \<le> 10 ^ 12 \<Longrightarrow> b64 x = Fin (b64r x)"
proof -
  assume "0 \<le> x" "x \<le> 10 ^ 12"
  moreover have "(10 :: rat) ^ 12 \<le> 10 ^ 100" by (intro power_increasing) simp_all
  ultimately show ?thesis by (intro b64_small) linarith
qed

text \<open>At the right end of a segment the interpolation overshoots by at most three roundings.\<close>

lemma slope_upper:
  assumes dx: "1 / 40000 \<le> dx" and d: "1 / 20000 \<le> d"
  shows "b64r (b64r (dx * b64r d) / dx) \<le> d * (1 + 1 / 2 ^ 53) ^ 3"
proof -
  define e :: rat where "e = 1 / 2 ^ 53"
  have e: "0 < e" "e \<le> 1 / 1000" by (simp_all add: e_def)
  define dy where "dy = b64r d"
  define pm where "pm = b64r (dx * dy)"
  have d': "1 / 10 ^ 25 \<le> d" using d by simp
  have dy: "d * (1 - e) \<le> dy" "dy \<le> d * (1 + e)"
    using b64r_ge_rel [OF d'] b64r_le_rel [OF d'] by (simp_all add: dy_def e_def)
  have "(1 / 20000) * (1 - 1 / 1000) \<le> d * (1 - e)" using d e by (intro mult_mono) simp_all
  with dy(1) have dy_lo: "1 / 40000 \<le> dy" by simp
  have "(1 / 40000) * (1 / 40000) \<le> dx * dy" using dx dy_lo by (intro mult_mono) simp_all
  then have dxdy: "1 / 10 ^ 25 \<le> dx * dy" by simp
  have pm: "dx * dy * (1 - e) \<le> pm" "pm \<le> dx * dy * (1 + e)"
    using b64r_ge_rel [OF dxdy] b64r_le_rel [OF dxdy] by (simp_all add: pm_def e_def)
  have dxp: "0 < dx" using dx by simp
  have quot: "dy * (1 - e) \<le> pm / dx" "pm / dx \<le> dy * (1 + e)"
    using pm dxp by (simp_all add: le_divide_eq divide_le_eq mult.commute mult.left_commute)
  have "(1 / 40000) * (1 - 1 / 1000) \<le> dy * (1 - e)" using dy_lo e by (intro mult_mono) simp_all
  then have "(1 / 40000) * (1 - 1 / 1000) \<le> pm / dx" using quot(1) by (rule order_trans)
  moreover have "(1 :: rat) / 10 ^ 25 \<le> (1 / 40000) * (1 - 1 / 1000)" by simp
  ultimately have "1 / 10 ^ 25 \<le> pm / dx" by (rule order_trans [rotated])
  then have "b64r (pm / dx) \<le> pm / dx * (1 + e)" unfolding e_def by (rule b64r_le_rel)
  also have "\<dots> \<le> dy * (1 + e) * (1 + e)" using quot(2) e by (intro mult_right_mono) simp_all
  also have "\<dots> \<le> d * (1 + e) * (1 + e) * (1 + e)" using dy(2) e by (intro mult_right_mono) simp_all
  also have "\<dots> = d * (1 + e) ^ 3" by (simp add: power3_eq_cube)
  finally show ?thesis by (simp add: pm_def dy_def e_def)
qed

lemma overshoot_bound:
  assumes "0 \<le> y0" "y0 + 1 / 20000 \<le> y1" "q \<le> (y1 - y0) * (1 + 1 / 2 ^ 53) ^ 3"
  shows "b64r (y0 + q) \<le> y1 * (1 + 1 / 2 ^ 50)"
proof -
  define c :: rat where "c = (1 + 1 / 2 ^ 53) ^ 3"
  have c: "1 \<le> c" "c * (1 + 1 / 2 ^ 53) \<le> 1 + 1 / 2 ^ 50" by (simp_all add: c_def power3_eq_cube)
  have "y0 * 1 \<le> y0 * c" using assms(1) c by (intro mult_left_mono) simp_all
  then have "y0 + q \<le> y0 * c + (y1 - y0) * c" using assms(3) by (simp add: c_def)
  also have "\<dots> = y1 * c" by (simp add: algebra_simps)
  finally have "b64r (y0 + q) \<le> b64r (y1 * c)" by (rule b64r_mono)
  also have "\<dots> \<le> y1 * c * (1 + 1 / 2 ^ 53)"
  proof (rule b64r_le_rel)
    have "(1 / 20000) * 1 \<le> y1 * c" using assms c by (intro mult_mono) simp_all
    then show "1 / 10 ^ 25 \<le> y1 * c" by simp
  qed
  also have "\<dots> = y1 * (c * (1 + 1 / 2 ^ 53))" by simp
  also have "\<dots> \<le> y1 * (1 + 1 / 2 ^ 50)" using assms c by (intro mult_left_mono) simp_all
  finally show ?thesis .
qed

lemma num_points_simps [simp]:
  "num_points xs = [] \<longleftrightarrow> xs = []" "length (num_points xs) = length xs"
  by (simp_all add: num_points_def)

lemma interpolate_bounds:
  assumes u: "0 \<le> x0" "x0 \<le> u" "u \<le> x1" "x1 \<le> 1" "x0 + 1 / 20000 \<le> x1"
    and y: "0 \<le> y0" "y0 = y1 \<or> y0 + 1 / 20000 \<le> y1" "y1 \<le> 10 ^ 6" "b64r y0 = y0"
  shows "\<exists>r. interpolate (Fin u) (Fin x0) (Fin x1) (Fin y0) (Fin y1) = Inr (Fin r) \<and>
    y0 \<le> r \<and> r \<le> y1 * (1 + 1 / 2 ^ 50)"
proof -
  define dx where "dx = b64r (x1 - x0)"
  define dy where "dy = b64r (y1 - y0)"
  define du where "du = b64r (u - x0)"
  have "(1 / 20000 :: rat) * (1 - 1 / 1000) \<le> (x1 - x0) * (1 - 1 / 2 ^ 53)"
    using u by (intro mult_mono) simp_all
  moreover have "(x1 - x0) * (1 - 1 / 2 ^ 53) \<le> dx" using b64r_ge_rel [of "x1 - x0"] u(5) by (simp add: dx_def)
  ultimately have dx_lo: "1 / 40000 \<le> dx" by simp
  have dx_hi: "dx \<le> 1" using b64r_le_nat [of "x1 - x0" 1] u by (simp add: dx_def)
  have du: "0 \<le> du" "du \<le> dx"
    using b64r_nonneg [of "u - x0"] b64r_mono [of "u - x0" "x1 - x0"] u by (simp_all add: du_def dx_def)
  have dy0: "0 \<le> dy" using y b64r_nonneg [of "y1 - y0"] by (auto simp: dy_def)
  have dy6: "dy \<le> 10 ^ 6" using b64r_le_nat [of "y1 - y0" "10 ^ 6"] y by (simp add: dy_def)
  define p where "p = b64r (du * dy)"
  have du_dy: "0 \<le> du * dy" "du * dy \<le> dx * dy" using du dy0 by (simp_all add: mult_right_mono)
  have "dx * dy \<le> 1 * 10 ^ 6" using dx_hi dx_lo dy0 dy6 by (intro mult_mono) simp_all
  then have p6: "du * dy \<le> 10 ^ 6" "p \<le> 10 ^ 6"
    using du_dy b64r_le_nat [of "du * dy" "10 ^ 6"] by (simp_all add: p_def)
  have p: "0 \<le> p" "p \<le> b64r (dx * dy)" using b64r_nonneg b64r_mono du_dy by (simp_all add: p_def)
  define q where "q = b64r (p / dx)"
  have pdx: "0 \<le> p / dx" "p / dx \<le> 40000 * 10 ^ 6"
  proof -
    show "0 \<le> p / dx" using p dx_lo by simp
    have "p / dx \<le> 10 ^ 6 / (1 / 40000)" using p p6 dx_lo by (intro frac_le) simp_all
    then show "p / dx \<le> 40000 * 10 ^ 6" by simp
  qed
  have q: "0 \<le> q" "q \<le> 40000 * 10 ^ 6" "q \<le> b64r (b64r (dx * dy) / dx)"
    using b64r_nonneg [OF pdx(1)] b64r_le_nat [of "p / dx" "40000 * 10 ^ 6"] pdx
      b64r_mono [of "p / dx" "b64r (dx * dy) / dx"] p dx_lo
    by (simp_all add: q_def divide_right_mono)
  have "interpolate (Fin u) (Fin x0) (Fin x1) (Fin y0) (Fin y1) = Inr (Fin (b64r (y0 + q)))"
  proof -
    have small: "b64 (u - x0) = Fin du" "b64 (y1 - y0) = Fin dy" "b64 (x1 - x0) = Fin dx"
      "b64 (du * dy) = Fin p" "b64 (p / dx) = Fin q" "b64 (y0 + q) = Fin (b64r (y0 + q))"
      using u y du_dy p6 pdx q(1,2) by (auto simp: du_def dy_def dx_def p_def q_def intro!: b64_nonneg_small)
    have "dx \<noteq> 0" using dx_lo by auto
    with u show ?thesis by (simp add: interpolate_def small)
  qed
  moreover have "y0 \<le> b64r (y0 + q)" using b64r_mono [of y0 "y0 + q"] q y(4) by simp
  moreover have "b64r (y0 + q) \<le> y1 * (1 + 1 / 2 ^ 50)"
  proof (cases "y0 = y1")
    case True
    then have "q = 0" using q by (simp add: dy_def)
    with True y show ?thesis by (simp add: algebra_simps)
  next
    case False
    with y have y1: "y0 + 1 / 20000 \<le> y1" by simp
    then have "q \<le> (y1 - y0) * (1 + 1 / 2 ^ 53) ^ 3"
      using q(3) slope_upper [OF dx_lo, of "y1 - y0"] by (simp add: dy_def)
    then show ?thesis by (rule overshoot_bound [OF y(1) y1])
  qed
  ultimately show ?thesis by blast
qed

lemma segments_ok_mono: "segments_ok (p # ps) \<Longrightarrow> snd p \<le> snd (last (p # ps)) \<and> fst p \<le> fst (last (p # ps))"
proof (induction ps arbitrary: p)
  case (Cons p' ps)
  from Cons.prems have "segments_ok (p' # ps)" by (cases p; cases p') auto
  from Cons.IH [OF this] Cons.prems show ?case by (cases p; cases p') (auto split: if_splits)
qed simp

text \<open>
  On well-formed points the loop either hits a point or stops on a segment that contains the
  utilization; the rates it leaves lie between the first and the last rate.
\<close>

lemma curve_scan_cases:
  assumes "segments_ok (p # ps)" "fst p \<le> u" "u \<le> fst (last (p # ps))" "ps \<noteq> []"
  shows "(\<exists>r. curve_scan (Fin u) (Fin (fst p), Fin (snd p)) (num_points ps) = Knot (Fin r) \<and>
      snd p \<le> r \<and> r \<le> snd (last ps) \<and> (\<exists>x. (x, r) \<in> set ps)) \<or>
    (\<exists>x0 y0 x1 y1. curve_scan (Fin u) (Fin (fst p), Fin (snd p)) (num_points ps)
        = Segment (Fin x0) (Fin y0) (Fin x1) (Fin y1) \<and>
      fst p \<le> x0 \<and> x0 \<le> u \<and> u \<le> x1 \<and> x1 \<le> fst (last ps) \<and> x0 + 1 / 20000 \<le> x1 \<and>
      snd p \<le> y0 \<and> (y0 = y1 \<or> y0 + 1 / 20000 \<le> y1) \<and> y1 \<le> snd (last ps) \<and>
      (x0, y0) \<in> set (p # ps))"
  using assms
proof (induction ps arbitrary: p)
  case (Cons p' ps)
  obtain x y x' y' where pp: "p = (x, y)" "p' = (x', y')" by (cases p; cases p')
  have seg: "segments_ok (p' # ps)" "x + 1 / 20000 \<le> x'" "y = y' \<or> y + 1 / 20000 \<le> y'"
    using Cons.prems(1) by (simp_all add: pp)
  note last = segments_ok_mono [OF seg(1)]
  consider "x' = u" | "u < x'" | "x' < u" by linarith
  then show ?case
  proof cases
    case 1
    then show ?thesis using seg last by (auto simp: pp num_points_def)
  next
    case 2
    then show ?thesis using seg last Cons.prems(2) by (auto simp: pp num_points_def)
  next
    case 3
    then have ps: "ps \<noteq> []" using Cons.prems(3) by (auto simp: pp)
    with 3 Cons.prems(3) have IH: "fst p' \<le> u" "u \<le> fst (last (p' # ps))" by (simp_all add: pp)
    have "curve_scan (Fin u) (Fin x, Fin y) (num_points (p' # ps))
        = curve_scan (Fin u) (Fin (fst p'), Fin (snd p')) (num_points ps)"
      using 3 by (simp add: pp num_points_def)
    then show ?thesis using Cons.IH [OF seg(1) IH ps] seg ps by (fastforce simp: pp)
  qed
qed simp

text \<open>
  On a well-formed curve (utilizations from 0 to 1 at least half a basis point apart,
  non-decreasing rates) \<open>getBorrowRate\<close> returns for every non-negative utilization, values
  above 1 and infinity included, and the rate lies between the first and the last rate of the curve, up to
  a relative rounding error of \<open>2\<^sup>-\<^sup>5\<^sup>0\<close> above.
\<close>

lemma getBorrowRate_bounds:
  assumes "curve_ok ps" and "xle (Fin 0) u"
  shows "\<exists>r. getBorrowRate u (num_points ps) = Inr (Fin r) \<and>
    snd (hd ps) \<le> r \<and> r \<le> snd (last ps) * (1 + 1 / 2 ^ 50)"
proof -
  obtain p p' ps' where ps: "ps = p # p' # ps'"
    using assms(1) by (cases ps; cases "tl ps") (auto simp: curve_ok_def)
  define v where "v = (if xgt u (Fin 1) then 1 else val u)"
  have u: "(if xgt u (Fin 1) then Fin 1 else u) = Fin v" and v: "0 \<le> v" "v \<le> 1"
    using assms(2) by (cases u; auto simp: v_def xle_def xeq_def)+
  have ok: "segments_ok (p # p' # ps')" "fst p = 0" "fst (last (p # p' # ps')) = 1" "0 \<le> snd p"
    "snd (last (p' # ps')) \<le> 10 ^ 6" "\<And>x y. (x, y) \<in> set (p # p' # ps') \<Longrightarrow> b64r y = y"
    using assms(1) by (auto simp: curve_ok_def ps)
  have pts: "num_points ps = (Fin (fst p), Fin (snd p)) # num_points (p' # ps')" "2 \<le> length (num_points ps)"
    by (simp_all add: ps num_points_def split_beta)
  have nn: "0 \<le> snd (last (p' # ps'))" using segments_ok_mono [OF ok(1)] ok(4) by simp
  from curve_scan_cases [OF ok(1), of v] ok(2,3) v
  consider (knot) r where "curve_scan (Fin v) (Fin (fst p), Fin (snd p)) (num_points (p' # ps')) = Knot (Fin r)"
      "snd p \<le> r" "r \<le> snd (last (p' # ps'))"
    | (seg) x0 y0 x1 y1 where
      "curve_scan (Fin v) (Fin (fst p), Fin (snd p)) (num_points (p' # ps')) = Segment (Fin x0) (Fin y0) (Fin x1) (Fin y1)"
      "0 \<le> x0" "x0 \<le> v" "v \<le> x1" "x1 \<le> 1" "x0 + 1 / 20000 \<le> x1"
      "snd p \<le> y0" "y0 = y1 \<or> y0 + 1 / 20000 \<le> y1" "y1 \<le> snd (last (p' # ps'))" "(x0, y0) \<in> set (p # p' # ps')"
    by fastforce
  then show ?thesis
  proof cases
    case knot
    have "r \<le> snd (last (p' # ps')) * (1 + 1 / 2 ^ 50)"
      using knot(3) nn by (simp add: distrib_left)
    with knot(1,2) show ?thesis using pts by (simp add: getBorrowRate_def u ps)
  next
    case seg
    obtain r where r: "interpolate (Fin v) (Fin x0) (Fin x1) (Fin y0) (Fin y1) = Inr (Fin r)"
      "y0 \<le> r" "r \<le> y1 * (1 + 1 / 2 ^ 50)"
      using interpolate_bounds [of x0 v x1 y0 y1] seg ok by auto
    have "\<not> y1 < y0" using seg(8) by auto
    then have "getBorrowRate u (num_points ps) = Inr (Fin r)"
      using pts seg(1,6) r(1) by (simp add: getBorrowRate_def u)
    moreover have "y1 * (1 + 1 / 2 ^ 50) \<le> snd (last (p' # ps')) * (1 + 1 / 2 ^ 50)"
      using seg(9) by (intro mult_right_mono) simp_all
    ultimately show ?thesis using r(2,3) seg(7) by (simp add: ps)
  qed
qed

lemma getBorrowRate_short: "length curve < 2 \<Longrightarrow>
    getBorrowRate u curve = Inl (Throw ''Invalid borrow rate curve, only one point'')"
  by (simp add: getBorrowRate_def)

text \<open>A point that no earlier point reaches is hit exactly.\<close>

lemma curve_scan_knot:
  "(\<forall>(a, b)\<in>set ps. a < x) \<Longrightarrow>
    curve_scan (Fin x) prev (num_points (ps @ (x, r) # qs)) = Knot (Fin r)"
  by (induction ps arbitrary: prev) (auto simp: num_points_def)

text \<open>
  At the utilization of a point of the curve the rate is exactly the rate of that point, when
  the utilizations increase up to it.
\<close>

lemma getBorrowRate_knot:
  assumes "\<forall>(a, b)\<in>set (p # ps). a < x" and "x \<le> 1"
  shows "getBorrowRate (Fin x) (num_points (p # ps @ (x, r) # qs)) = Inr (Fin r)"
proof -
  have "num_points (p # ps @ (x, r) # qs) = (Fin (fst p), Fin (snd p)) # num_points (ps @ (x, r) # qs)"
    "2 \<le> length (num_points (p # ps @ (x, r) # qs))"
    by (simp_all add: num_points_def split_beta)
  then show ?thesis using assms curve_scan_knot [of ps x _ r qs] by (simp add: getBorrowRate_def)
qed

lemma getBorrowRate_knot_sample:
  "getBorrowRate (Fin (3 / 4)) (num_points [(0, 0), (3 / 4, 1 / 16), (1, 2)]) = Inr (Fin (1 / 16))"
  using getBorrowRate_knot [of "(0, 0)" "[]" "3 / 4" "1 / 16" "[(1, 2)]"] by simp

end
