(* ===== verification/Pubkey.thy ===== *)
theory Pubkey
  imports Prelude "HOL-Library.AList" "HOL-Library.Word"
begin

text \<open>
  \<open>src/ts-client/src/utils/pubkey.ts\<close>: the collections keyed by public keys. A \<open>PublicKey\<close> of
  \<open>@solana/web3.js\<close> is a 256-bit number (its field \<open>_bn\<close>) and \<open>equals\<close> is equality of that number.

  The locale \<open>pubkey_map\<close> is the contract of a map keyed by public keys; the list-backed
  \<open>PublicKeyMap\<close> and the hash map \<open>PubkeyHashMap\<close> both implement it, and the facts the rest of the
  development uses about such maps are proved once inside it.
\<close>

type_synonym pubkey = "256 word"

section \<open>Keys\<close>

text \<open>\<open>PublicKey.default\<close> (32 zero bytes) and the base58 key \<open>nu11111...\<close>.\<close>

definition default_pubkey :: pubkey where
  "default_pubkey = 0"

definition NULL_PUBKEY :: pubkey where
  "NULL_PUBKEY = of_nat ((45 * 58 + 52) * 58 ^ 41)"

definition isNotNullPubkey :: "pubkey \<Rightarrow> bool" where
  "isNotNullPubkey k \<longleftrightarrow> k \<noteq> NULL_PUBKEY \<and> k \<noteq> default_pubkey"

definition hashCode :: "pubkey \<Rightarrow> nat" where
  "hashCode k = 13 * 7 + unat k mod 2 ^ 32"

section \<open>PublicKeySet\<close>

type_synonym pk_set = "pubkey list"

definition pks_indexOf :: "pk_set \<Rightarrow> pubkey \<Rightarrow> nat option" where
  "pks_indexOf s item = findIndex (\<lambda>existingItem. existingItem = item) s"

definition pks_contains :: "pk_set \<Rightarrow> pubkey \<Rightarrow> bool" where
  "pks_contains s item \<longleftrightarrow> pks_indexOf s item \<noteq> None"

definition pks_add :: "pk_set \<Rightarrow> pubkey \<Rightarrow> pk_set" where
  "pks_add s item = (if \<not> pks_contains s item then s @ [item] else s)"

definition pks_new :: "pubkey list \<Rightarrow> pk_set" where
  "pks_new items = foldl pks_add [] items"

definition pks_remove :: "pk_set \<Rightarrow> pubkey \<Rightarrow> bool \<times> pk_set" where
  "pks_remove s item = (case pks_indexOf s item of
      None \<Rightarrow> (False, s)
    | Some i \<Rightarrow> (True, take i s @ drop (Suc i) s))"

definition pks_size :: "pk_set \<Rightarrow> nat" where "pks_size s = length s"
definition pks_isEmpty :: "pk_set \<Rightarrow> bool" where "pks_isEmpty s \<longleftrightarrow> pks_size s = 0"
definition pks_toArray :: "pk_set \<Rightarrow> pubkey list" where "pks_toArray s = s"

lemma pks_contains_iff [simp]: "pks_contains s k \<longleftrightarrow> k \<in> set s"
  by (auto simp: pks_contains_def pks_indexOf_def findIndex_None)

lemma pks_add_set: "set (pks_add s k) = insert k (set s)"
  by (auto simp: pks_add_def)

lemma pks_add_distinct: "distinct s \<Longrightarrow> distinct (pks_add s k)"
  by (auto simp: pks_add_def)

lemma pks_new_set: "set (foldl pks_add s ks) = set s \<union> set ks"
  by (induction ks arbitrary: s) (auto simp: pks_add_set)

lemma pks_new_distinct: "distinct s \<Longrightarrow> distinct (foldl pks_add s ks)"
  by (induction ks arbitrary: s) (auto simp: pks_add_distinct)

lemma take_drop_remove1:
  assumes "findIndex (\<lambda>y. y = x) xs = Some i"
  shows "take i xs @ drop (Suc i) xs = remove1 x xs"
  using assms
proof (induction xs arbitrary: i)
  case (Cons y xs)
  then show ?case by (auto split: if_splits)
qed simp

lemma pks_remove_eq: "pks_remove s k = (k \<in> set s, remove1 k s)"
proof (cases "pks_indexOf s k")
  case None
  then have "k \<notin> set s" by (auto simp: pks_indexOf_def findIndex_None)
  with None show ?thesis by (simp add: pks_remove_def remove1_idem)
next
  case (Some i)
  then have "k \<in> set s" by (auto simp: pks_indexOf_def findIndex_Some)
  with Some show ?thesis by (simp add: pks_remove_def pks_indexOf_def take_drop_remove1)
qed

section \<open>The contract of a map keyed by public keys\<close>

locale pubkey_map =
  fixes empty :: "'m"
    and put :: "'m \<Rightarrow> pubkey \<Rightarrow> 'v \<Rightarrow> 'm"
    and lookup :: "'m \<Rightarrow> pubkey \<Rightarrow> 'v option"
    and member :: "'m \<Rightarrow> pubkey \<Rightarrow> bool"
    and del :: "'m \<Rightarrow> pubkey \<Rightarrow> 'm"
    and entries :: "'m \<Rightarrow> (pubkey \<times> 'v) list"
    and invar :: "'m \<Rightarrow> bool"
  assumes invar_empty: "invar empty"
    and invar_put: "invar m \<Longrightarrow> invar (put m k v)"
    and invar_del: "invar m \<Longrightarrow> invar (del m k)"
    and lookup_empty: "lookup empty k = None"
    and lookup_put: "invar m \<Longrightarrow> lookup (put m k v) k' = (if k' = k then Some v else lookup m k')"
    and lookup_del: "invar m \<Longrightarrow> lookup (del m k) k' = (if k' = k then None else lookup m k')"
    and member_iff: "invar m \<Longrightarrow> member m k \<longleftrightarrow> lookup m k \<noteq> None"
    and entries_distinct: "invar m \<Longrightarrow> distinct (map fst (entries m))"
    and entries_lookup: "invar m \<Longrightarrow> (k, v) \<in> set (entries m) \<longleftrightarrow> lookup m k = Some v"
begin

lemma lookup_map_of: "invar m \<Longrightarrow> lookup m k = map_of (entries m) k"
proof -
  assume m: "invar m"
  show ?thesis
  proof (cases "lookup m k")
    case None
    then have "k \<notin> fst ` set (entries m)" using entries_lookup [OF m] by force
    then show ?thesis using None by (metis map_of_eq_None_iff)
  next
    case (Some v)
    then have "(k, v) \<in> set (entries m)" using entries_lookup [OF m] by simp
    then show ?thesis using Some entries_distinct [OF m] by simp
  qed
qed

lemma keys_eq_dom: "invar m \<Longrightarrow> set (map fst (entries m)) = {k. lookup m k \<noteq> None}"
  using entries_lookup [of m] by force

lemma length_entries: "invar m \<Longrightarrow> length (entries m) = card {k. lookup m k \<noteq> None}"
  using distinct_card [OF entries_distinct [of m]] keys_eq_dom [of m] by simp

text \<open>Filling a map from a list of keys and values, as the loops of the SDK do.\<close>

lemma invar_foldl_put: "invar m \<Longrightarrow> invar (foldl (\<lambda>m (k, v). put m k v) m kvs)"
  by (induction kvs arbitrary: m) (auto simp: invar_put)

lemma lookup_foldl_put:
  "invar m \<Longrightarrow> lookup (foldl (\<lambda>m (k, v). put m k v) m kvs) k =
    (case map_of (rev kvs) k of None \<Rightarrow> lookup m k | Some v \<Rightarrow> Some v)"
  by (induction kvs arbitrary: m)
    (auto simp: invar_put lookup_put map_of_append map_add_def split: option.splits)

end

section \<open>PublicKeyMap\<close>

type_synonym 'v pk_map = "(pubkey \<times> 'v) list"

definition pkm_findIndex :: "'v pk_map \<Rightarrow> pubkey \<Rightarrow> nat option" where
  "pkm_findIndex m key = findIndex (\<lambda>entry. fst entry = key) m"

definition pkm_set :: "'v pk_map \<Rightarrow> pubkey \<Rightarrow> 'v \<Rightarrow> 'v pk_map" where
  "pkm_set m key v = (case pkm_findIndex m key of
      Some i \<Rightarrow> m[i := (fst (m ! i), v)]
    | None \<Rightarrow> m @ [(key, v)])"

definition pkm_get :: "'v pk_map \<Rightarrow> pubkey \<Rightarrow> 'v option" where
  "pkm_get m key = map_option (\<lambda>i. snd (m ! i)) (pkm_findIndex m key)"

definition pkm_has :: "'v pk_map \<Rightarrow> pubkey \<Rightarrow> bool" where
  "pkm_has m key \<longleftrightarrow> pkm_findIndex m key \<noteq> None"

definition pkm_delete :: "'v pk_map \<Rightarrow> pubkey \<Rightarrow> 'v pk_map" where
  "pkm_delete m key = (case pkm_findIndex m key of
      Some i \<Rightarrow> take i m @ drop (Suc i) m
    | None \<Rightarrow> m)"

definition pkm_keys :: "'v pk_map \<Rightarrow> pubkey list" where "pkm_keys m = map fst m"
definition pkm_values :: "'v pk_map \<Rightarrow> 'v list" where "pkm_values m = map snd m"
definition pkm_entries :: "'v pk_map \<Rightarrow> (pubkey \<times> 'v) list" where
  "pkm_entries m = map (\<lambda>e. (fst e, snd e)) m"
definition pkm_isEmpty :: "'v pk_map \<Rightarrow> bool" where "pkm_isEmpty m \<longleftrightarrow> length m = 0"

lemma pkm_get_map_of: "pkm_get m k = map_of m k"
  unfolding pkm_get_def pkm_findIndex_def
  by (induction m) (auto simp: option.map_comp comp_def)

lemma pkm_set_update: "pkm_set m k v = AList.update k v m"
proof (induction m)
  case Nil
  then show ?case by (simp add: pkm_set_def pkm_findIndex_def)
next
  case (Cons e m)
  then show ?case
    by (cases e; cases "pkm_findIndex m k") (auto simp: pkm_set_def pkm_findIndex_def)
qed

lemma pkm_delete_eq: "distinct (map fst m) \<Longrightarrow> pkm_delete m k = AList.delete k m"
proof (induction m)
  case Nil
  then show ?case by (simp add: pkm_delete_def pkm_findIndex_def)
next
  case (Cons e m)
  then show ?case
    by (cases e; cases "pkm_findIndex m k") (auto simp: pkm_delete_def pkm_findIndex_def)
qed

interpretation pkm: pubkey_map "[]" pkm_set pkm_get pkm_has pkm_delete pkm_entries
  "\<lambda>m. distinct (map fst m)"
proof
  fix m :: "'v pk_map" and k k' :: pubkey and v
  assume m: "distinct (map fst m)"
  show "distinct (map fst (pkm_set m k v))"
    using m by (simp add: pkm_set_update distinct_update)
  show "distinct (map fst (pkm_delete m k))"
    using m by (simp add: pkm_delete_eq distinct_delete)
  show "pkm_get (pkm_set m k v) k' = (if k' = k then Some v else pkm_get m k')"
    by (simp add: pkm_get_map_of pkm_set_update update_conv')
  show "pkm_get (pkm_delete m k) k' = (if k' = k then None else pkm_get m k')"
    using m by (simp add: pkm_get_map_of pkm_delete_eq delete_conv')
  show "pkm_has m k \<longleftrightarrow> pkm_get m k \<noteq> None"
    by (simp add: pkm_has_def pkm_get_def)
  show "distinct (map fst (pkm_entries m))"
    using m by (simp add: pkm_entries_def)
  show "(k, v) \<in> set (pkm_entries m) \<longleftrightarrow> pkm_get m k = Some v"
    using m by (simp add: pkm_entries_def pkm_get_map_of)
qed (simp_all add: pkm_get_map_of)

section \<open>PubkeyHashMap\<close>

text \<open>
  The JavaScript \<open>Map\<close> of buckets keeps its keys in insertion order: an association list, updated
  in place by \<open>AList.update\<close>. A bucket is a list of entries.
\<close>

record 'v pubkey_hash_map =
  buckets :: "(nat \<times> (pubkey \<times> 'v) list) list"
  hm_size :: nat

definition hm_empty :: "'v pubkey_hash_map" where
  "hm_empty = \<lparr>buckets = [], hm_size = 0\<rparr>"

definition hm_set :: "'v pubkey_hash_map \<Rightarrow> pubkey \<Rightarrow> 'v \<Rightarrow> 'v pubkey_hash_map" where
  "hm_set m key v =
     (let hash = hashCode key in
      case map_of (buckets m) hash of
        None \<Rightarrow> m\<lparr>buckets := AList.update hash [(key, v)] (buckets m), hm_size := hm_size m + 1\<rparr>
      | Some bucket \<Rightarrow>
          (case findIndex (\<lambda>entry. fst entry = key) bucket of
             Some i \<Rightarrow> m\<lparr>buckets := AList.update hash (bucket[i := (fst (bucket ! i), v)]) (buckets m)\<rparr>
           | None \<Rightarrow> m\<lparr>buckets := AList.update hash (bucket @ [(key, v)]) (buckets m),
                       hm_size := hm_size m + 1\<rparr>))"

definition hm_get :: "'v pubkey_hash_map \<Rightarrow> pubkey \<Rightarrow> 'v option" where
  "hm_get m key =
     (case map_of (buckets m) (hashCode key) of
        None \<Rightarrow> None
      | Some bucket \<Rightarrow> map_option snd (List.find (\<lambda>entry. fst entry = key) bucket))"

definition hm_has :: "'v pubkey_hash_map \<Rightarrow> pubkey \<Rightarrow> bool" where
  "hm_has m key =
     (case map_of (buckets m) (hashCode key) of
        None \<Rightarrow> False
      | Some bucket \<Rightarrow> List.find (\<lambda>entry. fst entry = key) bucket \<noteq> None)"

definition hm_delete :: "'v pubkey_hash_map \<Rightarrow> pubkey \<Rightarrow> bool \<times> 'v pubkey_hash_map" where
  "hm_delete m key =
     (let hash = hashCode key in
      case map_of (buckets m) hash of
        None \<Rightarrow> (False, m)
      | Some bucket \<Rightarrow>
          (case findIndex (\<lambda>entry. fst entry = key) bucket of
             None \<Rightarrow> (False, m)
           | Some i \<Rightarrow>
               (let bucket' = take i bucket @ drop (Suc i) bucket in
                (True, m\<lparr>buckets := (if length bucket' = 0 then AList.delete hash (buckets m)
                                       else AList.update hash bucket' (buckets m)),
                          hm_size := hm_size m - 1\<rparr>))))"

definition hm_clear :: "'v pubkey_hash_map \<Rightarrow> 'v pubkey_hash_map" where
  "hm_clear m = m\<lparr>buckets := [], hm_size := 0\<rparr>"

definition hm_isEmpty :: "'v pubkey_hash_map \<Rightarrow> bool" where
  "hm_isEmpty m \<longleftrightarrow> hm_size m = 0"

text \<open>The iteration order of \<open>entries\<close>, \<open>keys\<close>, \<open>values\<close> and \<open>forEach\<close>: bucket by bucket.\<close>

definition hm_entries :: "'v pubkey_hash_map \<Rightarrow> (pubkey \<times> 'v) list" where
  "hm_entries m = concat (map snd (buckets m))"

definition hm_keys :: "'v pubkey_hash_map \<Rightarrow> pubkey list" where
  "hm_keys m = map fst (hm_entries m)"

definition hm_values :: "'v pubkey_hash_map \<Rightarrow> 'v list" where
  "hm_values m = map snd (hm_entries m)"

definition hm_new :: "(pubkey \<times> 'v) list \<Rightarrow> 'v pubkey_hash_map" where
  "hm_new es = foldl (\<lambda>m (k, v). hm_set m k v) hm_empty es"

text \<open>
  The representation invariant: hashes are distinct, every bucket is a non-empty list of entries
  of its hash with distinct keys, and \<open>size\<close> counts the entries.
\<close>

definition bucket_ok :: "nat \<times> (pubkey \<times> 'v) list \<Rightarrow> bool" where
  "bucket_ok hb \<longleftrightarrow> snd hb \<noteq> [] \<and> distinct (map fst (snd hb)) \<and>
     (\<forall>e\<in>set (snd hb). hashCode (fst e) = fst hb)"

definition hm_inv :: "'v pubkey_hash_map \<Rightarrow> bool" where
  "hm_inv m \<longleftrightarrow> distinct (map fst (buckets m)) \<and> (\<forall>hb\<in>set (buckets m). bucket_ok hb) \<and>
     hm_size m = length (hm_entries m)"

lemma bucket_ok_map_of:
  "hm_inv m \<Longrightarrow> map_of (buckets m) h = Some b \<Longrightarrow> bucket_ok (h, b)"
  by (auto simp: hm_inv_def dest: map_of_SomeD)

lemma find_entry_map_of: "map_option snd (List.find (\<lambda>e. fst e = k) b) = map_of b k"
  by (induction b) auto

lemma hm_get_map_of:
  "hm_get m k = (case map_of (buckets m) (hashCode k) of None \<Rightarrow> None | Some b \<Rightarrow> map_of b k)"
  by (simp add: hm_get_def find_entry_map_of split: option.splits)

lemma length_concat_update:
  assumes "distinct (map fst bs)"
  shows "length (concat (map snd (AList.update h b bs))) + (case map_of bs h of None \<Rightarrow> 0 | Some b' \<Rightarrow> length b')
    = length (concat (map snd bs)) + length b"
  using assms
proof (induction bs)
  case (Cons e bs)
  then show ?case by (cases e) (auto split: option.splits simp: map_of_eq_None_iff dest: map_of_SomeD)
qed simp

lemma length_concat_delete:
  assumes "distinct (map fst bs)"
  shows "length (concat (map snd (AList.delete h bs))) + (case map_of bs h of None \<Rightarrow> 0 | Some b' \<Rightarrow> length b')
    = length (concat (map snd bs))"
  using assms
proof (induction bs)
  case (Cons e bs)
  then show ?case by (cases e) (auto split: option.splits)
qed simp

text \<open>The bucket of a hash, empty if there is none; updating it is updating an association list.\<close>

definition bucket_of :: "'v pubkey_hash_map \<Rightarrow> nat \<Rightarrow> (pubkey \<times> 'v) list" where
  "bucket_of m h = (case map_of (buckets m) h of None \<Rightarrow> [] | Some b \<Rightarrow> b)"

lemma bucket_of_ok:
  assumes "hm_inv m"
  shows "distinct (map fst (bucket_of m h))" "e \<in> set (bucket_of m h) \<Longrightarrow> hashCode (fst e) = h"
  using bucket_ok_map_of [OF assms, of h]
  by (cases "map_of (buckets m) h"; simp add: bucket_of_def bucket_ok_def)+

lemma hm_get_bucket: "hm_get m k = map_of (bucket_of m (hashCode k)) k"
  by (simp add: hm_get_map_of bucket_of_def split: option.splits)

lemma buckets_hm_set:
  "buckets (hm_set m k v) =
     AList.update (hashCode k) (AList.update k v (bucket_of m (hashCode k))) (buckets m)"
  using pkm_set_update [of "bucket_of m (hashCode k)" k v]
  by (auto simp: hm_set_def bucket_of_def pkm_set_def pkm_findIndex_def Let_def split: option.splits)

lemma size_hm_set:
  "hm_size (hm_set m k v) = hm_size m + (if k \<in> fst ` set (bucket_of m (hashCode k)) then 0 else 1)"
proof -
  have "findIndex (\<lambda>e. fst e = k) b = None \<Longrightarrow> k \<notin> fst ` set b"
    "findIndex (\<lambda>e. fst e = k) b = Some i \<Longrightarrow> k \<in> fst ` set b" for b :: "(pubkey \<times> 'a) list" and i
    by (auto simp: findIndex_None findIndex_Some intro: imageI nth_mem)
  then show ?thesis
    by (simp add: hm_set_def bucket_of_def Let_def split: option.splits)
qed

lemma length_update: "length (AList.update k v b) = length b + (if k \<in> fst ` set b then 0 else 1)"
  by (induction b) auto

lemma set_update_buckets:
  "hb \<in> set (AList.update h b bs) \<Longrightarrow> hb = (h, b) \<or> hb \<in> set bs"
  by (induction bs) (auto split: if_splits)

lemma set_delete_subset: "e \<in> set (AList.delete k b) \<Longrightarrow> e \<in> set b"
  by (induction b) (auto split: if_splits)

lemma hm_inv_set:
  assumes m: "hm_inv m" shows "hm_inv (hm_set m k v)"
proof -
  define h where "h = hashCode k"
  define b where "b = bucket_of m h"
  have d: "distinct (map fst (buckets m))" using m by (simp add: hm_inv_def)
  have b': "distinct (map fst (AList.update k v b))"
    using bucket_of_ok(1) [OF m] by (simp add: b_def distinct_update)
  have "bucket_ok (h, AList.update k v b)"
    using b' bucket_of_ok(2) [OF m, of _ h]
    by (auto simp: bucket_ok_def b_def h_def dest: set_update_buckets)
  then have "\<forall>hb\<in>set (buckets (hm_set m k v)). bucket_ok hb"
    using m by (auto simp: buckets_hm_set h_def b_def hm_inv_def dest!: set_update_buckets)
  moreover have "distinct (map fst (buckets (hm_set m k v)))"
    using d by (simp add: buckets_hm_set distinct_update)
  moreover have "length (concat (map snd (AList.update h (AList.update k v b) (buckets m)))) + length b
      = length (concat (map snd (buckets m))) + length (AList.update k v b)"
    using length_concat_update [OF d, of h "AList.update k v b"]
    by (simp add: b_def bucket_of_def split: option.splits)
  then have "hm_size (hm_set m k v) = length (hm_entries (hm_set m k v))"
    using m by (simp add: hm_entries_def buckets_hm_set size_hm_set hm_inv_def length_update
        flip: h_def b_def)
  ultimately show ?thesis by (simp add: hm_inv_def)
qed

lemma hm_get_set:
  "hm_get (hm_set m k v) k' = (if k' = k then Some v else hm_get m k')"
proof -
  have "bucket_of (hm_set m k v) h = (if h = hashCode k then AList.update k v (bucket_of m h) else bucket_of m h)" for h
    by (simp add: bucket_of_def buckets_hm_set update_conv')
  then show ?thesis by (simp add: hm_get_bucket update_conv')
qed

text \<open>Deletion.\<close>

lemma hm_delete_absent: "hm_get m k = None \<Longrightarrow> hm_delete m k = (False, m)"
proof -
  assume "hm_get m k = None"
  then have "findIndex (\<lambda>e. fst e = k) b = None" if "map_of (buckets m) (hashCode k) = Some b" for b
    using that by (auto simp: hm_get_map_of findIndex_None map_of_eq_None_iff)
  then show ?thesis by (auto simp: hm_delete_def Let_def split: option.splits)
qed

lemma hm_delete_present:
  assumes m: "hm_inv m" and g: "hm_get m k = Some v"
  defines "h \<equiv> hashCode k" and "b \<equiv> AList.delete k (bucket_of m (hashCode k))"
  shows "hm_delete m k =
    (True, m\<lparr>buckets := (if length b = 0 then AList.delete h (buckets m) else AList.update h b (buckets m)),
             hm_size := hm_size m - 1\<rparr>)"
proof -
  obtain bk where bk: "map_of (buckets m) h = Some bk" and v: "map_of bk k = Some v"
    using g by (auto simp: hm_get_map_of h_def split: option.splits)
  have d: "distinct (map fst bk)" using bucket_ok_map_of [OF m bk] by (simp add: bucket_ok_def)
  have "(k, v) \<in> set bk" using v by (rule map_of_SomeD)
  then have "findIndex (\<lambda>e. fst e = k) bk \<noteq> None"
    unfolding findIndex_None by (metis fst_conv)
  then obtain i where i: "findIndex (\<lambda>e. fst e = k) bk = Some i" by auto
  have "take i bk @ drop (Suc i) bk = AList.delete k bk"
    using pkm_delete_eq [OF d, of k] i by (simp add: pkm_delete_def pkm_findIndex_def)
  then show ?thesis
    using bk i by (simp add: hm_delete_def h_def [symmetric] b_def bucket_of_def Let_def)
qed

lemma bucket_of_delete:
  assumes m: "hm_inv m" and g: "hm_get m k = Some v"
  shows "bucket_of (snd (hm_delete m k)) h =
    (if h = hashCode k then AList.delete k (bucket_of m h) else bucket_of m h)"
  using hm_delete_present [OF assms]
  by (auto simp: bucket_of_def update_conv' delete_conv')

lemma hm_get_delete:
  assumes "hm_inv m"
  shows "hm_get (snd (hm_delete m k)) k' = (if k' = k then None else hm_get m k')"
proof (cases "hm_get m k")
  case None
  then show ?thesis by (simp add: hm_delete_absent)
next
  case (Some v)
  show ?thesis
    unfolding hm_get_bucket bucket_of_delete [OF assms Some] by (simp add: delete_conv')
qed

lemma length_delete_present:
  "distinct (map fst b) \<Longrightarrow> k \<in> fst ` set b \<Longrightarrow> length b = Suc (length (AList.delete k b))"
  by (induction b) auto

lemma hm_inv_delete:
  assumes m: "hm_inv m" shows "hm_inv (snd (hm_delete m k))"
proof (cases "hm_get m k")
  case None
  with m show ?thesis by (simp add: hm_delete_absent)
next
  case (Some v)
  define h where "h = hashCode k"
  define bk where "bk = bucket_of m h"
  define b where "b = AList.delete k bk"
  have del: "snd (hm_delete m k) = m\<lparr>buckets := (if length b = 0 then AList.delete h (buckets m)
      else AList.update h b (buckets m)), hm_size := hm_size m - 1\<rparr>"
    using hm_delete_present [OF m Some] by (simp add: h_def b_def bk_def)
  have d: "distinct (map fst (buckets m))" using m by (simp add: hm_inv_def)
  have bd: "distinct (map fst bk)" and bh: "\<And>e. e \<in> set bk \<Longrightarrow> hashCode (fst e) = h"
    using bucket_of_ok(1) [OF m, of h] bucket_of_ok(2) [OF m, of _ h] by (simp_all add: bk_def)
  have mo: "map_of (buckets m) h = Some bk" and kb: "k \<in> fst ` set bk"
  proof -
    obtain b' where b': "map_of (buckets m) h = Some b'" "map_of b' k = Some v"
      using Some by (auto simp: hm_get_map_of h_def split: option.splits)
    then show "map_of (buckets m) h = Some bk" "k \<in> fst ` set bk"
      by (auto simp: bk_def bucket_of_def dest!: map_of_SomeD intro: rev_image_eqI)
  qed
  have len: "length bk = Suc (length b)" using length_delete_present [OF bd kb] by (simp add: b_def)
  have "b \<noteq> [] \<Longrightarrow> bucket_ok (h, b)"
    using bd bh by (auto simp: bucket_ok_def b_def distinct_delete dest: set_delete_subset)
  then have ok: "\<forall>hb\<in>set (buckets (snd (hm_delete m k))). bucket_ok hb"
    using m by (auto simp: del hm_inv_def dest: set_delete_subset set_update_buckets)
  have "distinct (map fst (buckets (snd (hm_delete m k))))"
    using d by (simp add: del distinct_update distinct_delete)
  moreover have "hm_size (snd (hm_delete m k)) = length (hm_entries (snd (hm_delete m k)))"
    using length_concat_update [OF d, of h b] length_concat_delete [OF d, of h] m len
    by (auto simp: del hm_entries_def hm_inv_def mo)
  ultimately show ?thesis using ok by (simp add: hm_inv_def)
qed

lemma hm_inv_empty: "hm_inv hm_empty"
  by (simp add: hm_inv_def hm_empty_def hm_entries_def)

lemma hm_entries_iff:
  assumes m: "hm_inv m"
  shows "(k, v) \<in> set (hm_entries m) \<longleftrightarrow> hm_get m k = Some v"
proof
  assume "(k, v) \<in> set (hm_entries m)"
  then obtain h b where hb: "(h, b) \<in> set (buckets m)" "(k, v) \<in> set b"
    by (auto simp: hm_entries_def)
  then have ok: "bucket_ok (h, b)" using m by (auto simp: hm_inv_def)
  then have "hashCode k = h" using hb by (auto simp: bucket_ok_def)
  moreover have "map_of (buckets m) h = Some b" using hb m by (simp add: hm_inv_def)
  moreover have "map_of b k = Some v" using hb ok by (simp add: bucket_ok_def)
  ultimately show "hm_get m k = Some v" by (simp add: hm_get_map_of)
next
  assume "hm_get m k = Some v"
  then obtain b where "map_of (buckets m) (hashCode k) = Some b" "map_of b k = Some v"
    by (auto simp: hm_get_map_of split: option.splits)
  then have "(hashCode k, b) \<in> set (buckets m)" "(k, v) \<in> set b" by (auto dest: map_of_SomeD)
  then show "(k, v) \<in> set (hm_entries m)" by (force simp: hm_entries_def)
qed

lemma distinct_concat_buckets:
  assumes "distinct (map fst bs)" "\<forall>hb\<in>set bs. bucket_ok hb"
  shows "distinct (map fst (concat (map snd bs)))"
  using assms
proof (induction bs)
  case (Cons hb bs)
  have no: "False" if "e \<in> set (snd hb)" "hb' \<in> set bs" "e' \<in> set (snd hb')" "fst e = fst e'" for e hb' e'
  proof -
    have "hashCode (fst e) = fst hb" "hashCode (fst e') = fst hb'"
      using that Cons.prems(2) unfolding bucket_ok_def by auto
    with that(4) have "fst hb = fst hb'" by simp
    moreover have "fst hb' \<in> fst ` set bs" using that(2) by (rule imageI)
    ultimately show False using Cons.prems(1) by simp
  qed
  have "x \<notin> fst ` set (concat (map snd bs))" if x: "x \<in> fst ` set (snd hb)" for x
  proof
    assume "x \<in> fst ` set (concat (map snd bs))"
    then obtain hb' e' where "hb' \<in> set bs" "e' \<in> set (snd hb')" "x = fst e'" by auto
    moreover obtain e where "e \<in> set (snd hb)" "x = fst e" using x by (rule imageE) auto
    ultimately show False using no [of e hb' e'] by simp
  qed
  then have "fst ` set (snd hb) \<inter> fst ` set (concat (map snd bs)) = {}" by (simp only: disjoint_iff) simp
  with Cons show ?case by (simp add: bucket_ok_def)
qed simp

interpretation hm: pubkey_map hm_empty hm_set hm_get hm_has "\<lambda>m k. snd (hm_delete m k)" hm_entries hm_inv
proof
  fix m :: "'v pubkey_hash_map" and k k' :: pubkey and v
  assume m: "hm_inv m"
  show "hm_inv (hm_set m k v)" using m by (rule hm_inv_set)
  show "hm_inv (snd (hm_delete m k))" using m by (rule hm_inv_delete)
  show "hm_get (hm_set m k v) k' = (if k' = k then Some v else hm_get m k')" by (rule hm_get_set)
  show "hm_get (snd (hm_delete m k)) k' = (if k' = k then None else hm_get m k')"
    using m by (rule hm_get_delete)
  show "hm_has m k \<longleftrightarrow> hm_get m k \<noteq> None" by (auto simp: hm_has_def hm_get_def split: option.splits)
  show "distinct (map fst (hm_entries m))"
    using m by (simp add: hm_inv_def hm_entries_def distinct_concat_buckets)
  show "(k, v) \<in> set (hm_entries m) \<longleftrightarrow> hm_get m k = Some v" using m by (rule hm_entries_iff)
next
  show "hm_inv hm_empty" by (rule hm_inv_empty)
qed (simp add: hm_get_def hm_empty_def)

lemma hm_keys_iff: "hm_inv m \<Longrightarrow> k \<in> set (hm_keys m) \<longleftrightarrow> hm_get m k \<noteq> None"
  using hm.keys_eq_dom [of m] by (auto simp: hm_keys_def)

lemma hm_values_iff: "hm_inv m \<Longrightarrow> v \<in> set (hm_values m) \<longleftrightarrow> (\<exists>k. hm_get m k = Some v)"
  by (force simp: hm_values_def image_iff simp flip: hm_entries_iff)

section \<open>Properties\<close>

text \<open>
  A script of operations on a hash map and its effect on a mathematical map from keys to values:
  what the class promises its users.
\<close>

datatype 'v map_op = Set pubkey 'v | Delete pubkey | Clear

fun hm_step :: "'v pubkey_hash_map \<Rightarrow> 'v map_op \<Rightarrow> 'v pubkey_hash_map" where
  "hm_step m (Set k v) = hm_set m k v"
| "hm_step m (Delete k) = snd (hm_delete m k)"
| "hm_step m Clear = hm_clear m"

fun abs_step :: "(pubkey \<rightharpoonup> 'v) \<Rightarrow> 'v map_op \<Rightarrow> (pubkey \<rightharpoonup> 'v)" where
  "abs_step f (Set k v) = f(k \<mapsto> v)"
| "abs_step f (Delete k) = f(k := None)"
| "abs_step f Clear = Map.empty"

lemma hm_step_refines:
  assumes "hm_inv m"
  shows "hm_inv (hm_step m c)" "hm_get (hm_step m c) = abs_step (hm_get m) c"
proof -
  have "hm_inv (hm_clear m)" by (simp add: hm_clear_def hm_inv_def hm_entries_def)
  then show "hm_inv (hm_step m c)"
    using assms by (cases c) (simp_all add: hm_inv_set hm_inv_delete)
  have "hm_get (hm_clear m) = Map.empty" by (simp add: fun_eq_iff hm_clear_def hm_get_def)
  then show "hm_get (hm_step m c) = abs_step (hm_get m) c"
    using assms by (cases c) (simp_all add: fun_eq_iff hm_get_set hm_get_delete)
qed

lemma hm_run_refines:
  "hm_inv m \<Longrightarrow> hm_inv (foldl hm_step m cs) \<and> hm_get (foldl hm_step m cs) = foldl abs_step (hm_get m) cs"
  by (induction cs arbitrary: m) (auto simp: hm_step_refines)

text \<open>
  C5. From the empty hash map, after any sequence of \<open>set\<close>, \<open>delete\<close> and \<open>clear\<close>: \<open>get\<close> answers as the
  mathematical map does that went through the same updates; \<open>has\<close> agrees with \<open>get\<close>; iteration
  visits every key exactly once with its current value; and \<open>size\<close> is the number of keys. Keys
  whose hashes collide are kept apart.
\<close>

theorem hash_map_refines_map:
  fixes cs :: "'v map_op list"
  shows "let m = foldl hm_step hm_empty cs; f = foldl abs_step Map.empty cs in
    hm_get m = f \<and> (\<forall>k. hm_has m k = (f k \<noteq> None)) \<and> distinct (hm_keys m) \<and>
    set (hm_entries m) = {(k, v). f k = Some v} \<and> hm_size m = card (dom f)"
proof -
  define m where "m = foldl hm_step hm_empty cs"
  define f where "f = foldl abs_step Map.empty cs"
  have e: "hm_get (hm_empty :: 'v pubkey_hash_map) = Map.empty"
    by (auto simp: hm_get_def hm_empty_def)
  have inv: "hm_inv m" and g: "hm_get m = f"
    using hm_run_refines [OF hm_inv_empty, of cs] by (simp_all add: m_def f_def e)
  have "\<forall>k. hm_has m k = (f k \<noteq> None)" using hm.member_iff [OF inv] by (simp add: g)
  moreover have "distinct (hm_keys m)" using hm.entries_distinct [OF inv] by (simp add: hm_keys_def)
  moreover have "set (hm_entries m) = {(k, v). f k = Some v}" using hm_entries_iff [OF inv] by (auto simp: g)
  moreover have "hm_size m = card (dom f)"
    using hm.length_entries [OF inv] inv by (simp add: hm_inv_def g dom_def)
  ultimately show ?thesis using g by (simp add: m_def f_def)
qed

text \<open>
  \<open>delete\<close> of the hash map returns true exactly for the keys that are present, and
  decreases \<open>size\<close> by one exactly then.
\<close>

lemma hash_map_delete_result:
  assumes "hm_inv m"
  shows "fst (hm_delete m k) = (hm_get m k \<noteq> None) \<and>
    hm_size m = hm_size (snd (hm_delete m k)) + (if hm_get m k = None then 0 else 1)"
proof (cases "hm_get m k")
  case None
  then show ?thesis by (simp add: hm_delete_absent)
next
  case (Some v)
  then have "(k, v) \<in> set (hm_entries m)" using hm_entries_iff [OF assms] by simp
  then have "0 < hm_size m" using assms by (auto simp: hm_inv_def)
  then show ?thesis using hm_delete_present [OF assms Some] Some by simp
qed

lemma hash_map_delete_result_sample:
  "fst (hm_delete (hm_set hm_empty 5 (1 :: nat)) 5) = (hm_get (hm_set hm_empty 5 (1 :: nat)) 5 \<noteq> None) \<and>
    hm_size (hm_set hm_empty 5 (1 :: nat)) = hm_size (snd (hm_delete (hm_set hm_empty 5 (1 :: nat)) 5)) + 1"
  using hash_map_delete_result [OF hm_inv_set [OF hm_inv_empty], of 5 "1 :: nat" 5]
  by (simp add: hm_get_set)

text \<open>
  A \<open>PublicKeySet\<close> built from an array holds exactly the keys of the array, each once;
  removing a key reports whether it was there and removes it for good.
\<close>

lemma pubkey_set_correct:
  "set (pks_toArray (pks_new ks)) = set ks \<and> distinct (pks_toArray (pks_new ks)) \<and>
    pks_remove (pks_new ks) k = (k \<in> set ks, remove1 k (pks_new ks)) \<and>
    \<not> pks_contains (snd (pks_remove (pks_new ks) k)) k"
proof -
  have d: "distinct (pks_new ks)" by (simp add: pks_new_def pks_new_distinct)
  have s: "set (pks_new ks) = set ks" by (simp add: pks_new_def pks_new_set)
  have "k \<notin> set (remove1 k (pks_new ks))" using d by simp
  then show ?thesis using d s by (simp add: pks_toArray_def pks_remove_eq)
qed

end
