(* ===== verification/Reserve.thy ===== *)
theory Reserve
  imports Utils Pubkey
begin

text \<open>
  \<open>src/ts-client/src/classes/reserve.ts\<close>, the class \<open>KaminoReserve\<close>: the reserve account with
  its configuration, the getters, utilization, borrow and supply rates, borrow fees, and interest
  compounded over the elapsed slots. The methods that read the market of the reserve are in \<open>Market\<close>.

  Account fields are words of the declared width (\<open>u64\<close>, \<open>u128\<close>, ...); BN amounts are read with
  \<open>uint\<close> (\<open>sint\<close> for the signed withdrawal caps). The padding of the accounts is left out; the configuration keeps
  its reserved fields, which its encoding carries. Slots, fees in
  basis points and decimals are integer-valued numbers, exact in JavaScript, and are \<open>nat\<close>.
\<close>

declare of_int_uint [simp del] of_nat_unat [simp del] of_int_sint [simp del]

section \<open>The reserve account\<close>

type_synonym u8 = "8 word"
type_synonym u16 = "16 word"
type_synonym u32 = "32 word"
type_synonym u64 = "64 word"
type_synonym u128 = "128 word"

record price_heuristic =
  ph_lower :: u64
  ph_upper :: u64
  ph_exp :: u64

record scope_configuration =
  priceFeed :: pubkey
  priceChain :: "u16 list"
  twapChain :: "u16 list"

record switchboard_configuration =
  priceAggregator :: pubkey
  twapAggregator :: pubkey

record token_info =
  ti_name :: "u8 list"
  heuristic :: price_heuristic
  maxTwapDivergenceBps :: u64
  maxAgePriceSeconds :: u64
  maxAgeTwapSeconds :: u64
  scopeConfiguration :: scope_configuration
  switchboardConfiguration :: switchboard_configuration
  pythPrice :: pubkey
  blockPriceUsage :: u8
  ti_reserved :: "u8 list"
  ti_padding :: "u64 list"

record withdrawal_caps =
  configCapacity :: u64      \<comment> \<open>signed\<close>
  currentTotal :: u64        \<comment> \<open>signed\<close>
  lastIntervalStartTimestamp :: u64
  configIntervalLengthSeconds :: u64

record reserve_fees =
  borrowFeeSf :: u64
  flashLoanFeeSf :: u64
  rf_padding :: "u8 list"

text \<open>Curve points hold u32 fields; \<open>curve_point\<close> of \<open>Utils\<close> holds the numbers.\<close>

record reserve_config =
  rc_status :: u8
  assetTier :: u8
  hostFixedInterestRateBps :: u16
  reserved2 :: "u8 list"
  reserved3 :: "u8 list"
  protocolTakeRatePct :: u8
  protocolLiquidationFeePct :: u8
  loanToValuePct :: u8
  liquidationThresholdPct :: u8
  minLiquidationBonusBps :: u16
  maxLiquidationBonusBps :: u16
  badDebtLiquidationBonusBps :: u16
  deleveragingMarginCallPeriodSecs :: u64
  deleveragingThresholdDecreaseBpsPerDay :: u64
  rc_fees :: reserve_fees
  borrowRateCurve :: "curve_point list"
  borrowFactorPct :: u64
  depositLimit :: u64
  borrowLimit :: u64
  tokenInfo :: token_info
  depositWithdrawalCap :: withdrawal_caps
  debtWithdrawalCap :: withdrawal_caps
  rc_elevationGroups :: "u8 list"
  disableUsageAsCollOutsideEmode :: u8
  utilizationLimitBlockBorrowingAbovePct :: u8
  autodeleverageEnabled :: u8
  reserved1 :: "u8 list"
  borrowLimitOutsideElevationGroup :: u64
  borrowLimitAgainstThisCollateralInElevationGroup :: "u64 list"
  deleveragingBonusIncreaseBpsPerDay :: u64

record reserve_liquidity =
  rl_mintPubkey :: pubkey
  rl_supplyVault :: pubkey
  feeVault :: pubkey
  availableAmount :: u64
  borrowedAmountSf :: u128
  marketPriceSf :: u128
  marketPriceLastUpdatedTs :: u64
  mintDecimals :: u64
  depositLimitCrossedTimestamp :: u64
  borrowLimitCrossedTimestamp :: u64
  cumulativeBorrowRateBsf :: "u64 list"
  accumulatedProtocolFeesSf :: u128
  accumulatedReferrerFeesSf :: u128
  pendingReferrerFeesSf :: u128
  absoluteReferralRateSf :: u128
  rl_tokenProgram :: pubkey

record reserve_collateral =
  rcol_mintPubkey :: pubkey
  rcol_mintTotalSupply :: u64
  rcol_supplyVault :: pubkey

record last_update =
  lu_slot :: u64
  stale :: u8
  priceStatus :: u8

record reserve =
  version :: u64
  lastUpdate :: last_update
  r_lendingMarket :: pubkey
  farmCollateral :: pubkey
  farmDebt :: pubkey
  liquidity :: reserve_liquidity
  collateral :: reserve_collateral
  config :: reserve_config
  borrowedAmountOutsideElevationGroup :: u64
  borrowedAmountsAgainstThisReserveInElevationGroups :: "u64 list"

abbreviation lastUpdateSlot :: "reserve \<Rightarrow> u64" where
  "lastUpdateSlot r \<equiv> lu_slot (lastUpdate r)"

section \<open>The class\<close>

datatype reserve_status = Active | Obsolete | Hidden

record reserve_data =
  rd_status :: reserve_status
  mintAddress :: pubkey
  borrowCurve :: "(number \<times> number) list"
  loanToValue :: number
  maxLiquidationBonus :: number
  minLiquidationBonus :: number
  liquidationThreshold :: number
  protocolTakeRate :: number
  reserveDepositLimit :: decimal
  reserveBorrowLimit :: decimal
  rd_symbol :: string
  rd_decimals :: nat
  accumulatedProtocolFees :: decimal
  rd_mintTotalSupply :: decimal
  rd_depositLimitCrossedTimestamp :: nat
  rd_borrowLimitCrossedTimestamp :: nat
  rd_borrowFactor :: nat

text \<open>
  The object: the account, its address, the oracle price (\<open>tokenOraclePrice.price\<close>), the derived
  \<open>stats\<close> and the recent slot duration. The connection and the raw buffer are not kept.
\<close>

record kamino_reserve =
  r_state :: reserve
  r_address :: pubkey
  r_symbol :: string
  oraclePrice :: decimal
  stats :: reserve_data
  recentSlotDurationMs :: number

datatype action_type =
    ADeposit | ABorrow | AWithdraw | ARepay | AMint | ARedeem | ADepositCollateral | ALiquidate
  | ADepositAndBorrow | ARepayAndWithdraw | ARefreshObligation | ARequestElevationGroup
  | AWithdrawReferrerFees | ARepayAndWithdrawV2 | ADepositAndWithdraw

text \<open>\<open>new Fraction(sf).toDecimal()\<close> for a field of at most 128 bits, which is always in range.\<close>

definition sf_dec :: "num_lib \<Rightarrow> u128 \<Rightarrow> decimal" where
  "sf_dec L w = toDecimal L (Fraction (uint w))"

definition getTokenSymbol :: "reserve \<Rightarrow> string" where
  "getTokenSymbol st = parseTokenSymbol (map unat (ti_name (tokenInfo (config st))))"

definition getBorrowedAmount :: "num_lib \<Rightarrow> reserve \<Rightarrow> decimal" where
  "getBorrowedAmount L st = sf_dec L (borrowedAmountSf (liquidity st))"

definition getLiquidityAvailableAmount :: "reserve \<Rightarrow> decimal" where
  "getLiquidityAvailableAmount st = dint (uint (availableAmount (liquidity st)))"

definition getReserveMarketPrice :: "num_lib \<Rightarrow> reserve \<Rightarrow> decimal" where
  "getReserveMarketPrice L st = sf_dec L (marketPriceSf (liquidity st))"

definition getOracleMarketPrice :: "kamino_reserve \<Rightarrow> decimal" where
  "getOracleMarketPrice r = oraclePrice r"

definition getAccumulatedProtocolFees :: "num_lib \<Rightarrow> reserve \<Rightarrow> decimal" where
  "getAccumulatedProtocolFees L st = sf_dec L (accumulatedProtocolFeesSf (liquidity st))"

definition getAccumulatedReferrerFees :: "num_lib \<Rightarrow> reserve \<Rightarrow> decimal" where
  "getAccumulatedReferrerFees L st = sf_dec L (accumulatedReferrerFeesSf (liquidity st))"

definition getPendingReferrerFees :: "num_lib \<Rightarrow> reserve \<Rightarrow> decimal" where
  "getPendingReferrerFees L st = sf_dec L (pendingReferrerFeesSf (liquidity st))"

definition getFlashLoanFee :: "num_lib \<Rightarrow> reserve \<Rightarrow> decimal" where
  "getFlashLoanFee L st =
     (if uint (flashLoanFeeSf (rc_fees (config st))) = U64_MAX then Fin 0
      else toDecimal L (Fraction (uint (flashLoanFeeSf (rc_fees (config st))))))"

definition getBorrowFee :: "num_lib \<Rightarrow> reserve \<Rightarrow> decimal" where
  "getBorrowFee L st = toDecimal L (Fraction (uint (borrowFeeSf (rc_fees (config st)))))"

definition getFixedHostInterestRate :: "num_lib \<Rightarrow> reserve \<Rightarrow> decimal" where
  "getFixedHostInterestRate L st = ddiv L (dint (uint (hostFixedInterestRateBps (config st)))) (Fin 10000)"

definition getTotalSupply :: "num_lib \<Rightarrow> reserve \<Rightarrow> decimal" where
  "getTotalSupply L st =
     dsub L (dsub L (dsub L
       (dadd L (getLiquidityAvailableAmount st) (getBorrowedAmount L st))
       (getAccumulatedProtocolFees L st))
       (getAccumulatedReferrerFees L st))
       (getPendingReferrerFees L st)"

text \<open>The limbs of the cumulative rate, least significant first.\<close>

definition cumulative_sf :: "u64 list \<Rightarrow> int" where
  "cumulative_sf limbs = sum_list (map (\<lambda>(i, w). uint w * 2 ^ (i * 64)) (List.enumerate 0 limbs))"

definition getCumulativeBorrowRate :: "num_lib \<Rightarrow> reserve \<Rightarrow> decimal result" where
  "getCumulativeBorrowRate L st = sf_to_decimal L (cumulative_sf (cumulativeBorrowRateBsf (liquidity st)))"

definition getCollateralExchangeRate :: "num_lib \<Rightarrow> reserve \<Rightarrow> decimal" where
  "getCollateralExchangeRate L st =
     (let totalSupply = getTotalSupply L st; mintTotalSupply = rcol_mintTotalSupply (collateral st)
      in if uint mintTotalSupply = 0 \<or> xeq totalSupply (Fin 0) then INITIAL_COLLATERAL_RATE
         else ddiv L (dint (uint mintTotalSupply)) totalSupply)"

definition getMintFactor :: "num_lib \<Rightarrow> reserve \<Rightarrow> decimal result" where
  "getMintFactor L st =
     bindE (bn_toNumber L (uint (mintDecimals (liquidity st)))) (\<lambda>d. Inr (dpow L 10 (nat d)))"

definition getDepositTvl :: "num_lib \<Rightarrow> kamino_reserve \<Rightarrow> decimal result" where
  "getDepositTvl L r =
     bindE (getMintFactor L (r_state r)) (\<lambda>f.
       Inr (ddiv L (dmul L (getTotalSupply L (r_state r)) (getOracleMarketPrice r)) f))"

definition getBorrowTvl :: "num_lib \<Rightarrow> kamino_reserve \<Rightarrow> decimal result" where
  "getBorrowTvl L r =
     bindE (getMintFactor L (r_state r)) (\<lambda>f.
       Inr (ddiv L (dmul L (getBorrowedAmount L (r_state r)) (getOracleMarketPrice r)) f))"

definition depositLimitCrossed :: "num_lib \<Rightarrow> reserve \<Rightarrow> bool" where
  "depositLimitCrossed L st \<longleftrightarrow> xgt (getTotalSupply L st) (dint (uint (depositLimit (config st))))"

definition borrowLimitCrossed :: "num_lib \<Rightarrow> reserve \<Rightarrow> bool" where
  "borrowLimitCrossed L st \<longleftrightarrow> xgt (getBorrowedAmount L st) (dint (uint (borrowLimit (config st))))"

text \<open>\<open>Math.max(slot - lastUpdate.slot.toNumber(), 0)\<close>.\<close>

definition slots_elapsed :: "num_lib \<Rightarrow> reserve \<Rightarrow> nat \<Rightarrow> nat result" where
  "slots_elapsed L st slot =
     bindE (bn_toNumber L (uint (lastUpdateSlot st))) (\<lambda>s. Inr (nat (max (int slot - s) 0)))"

definition getDepositWithdrawalCapCapacity :: "reserve \<Rightarrow> decimal" where
  "getDepositWithdrawalCapCapacity st = dint (sint (configCapacity (depositWithdrawalCap (config st))))"

definition getDepositWithdrawalCapCurrent :: "num_lib \<Rightarrow> reserve \<Rightarrow> nat \<Rightarrow> decimal result" where
  "getDepositWithdrawalCapCurrent L st slot =
     bindE (slots_elapsed L st slot) (\<lambda>slotsElapsed.
       Inr (if slotsElapsed > SLOTS_PER_DAY then Fin 0
            else dint (sint (currentTotal (depositWithdrawalCap (config st))))))"

definition getDebtWithdrawalCapCapacity :: "reserve \<Rightarrow> decimal" where
  "getDebtWithdrawalCapCapacity st = dint (sint (configCapacity (debtWithdrawalCap (config st))))"

definition getBorrowLimitOutsideElevationGroup :: "reserve \<Rightarrow> decimal" where
  "getBorrowLimitOutsideElevationGroup st = dint (uint (borrowLimitOutsideElevationGroup (config st)))"

definition getBorrowedAmountOutsideElevationGroup :: "reserve \<Rightarrow> decimal" where
  "getBorrowedAmountOutsideElevationGroup st = dint (uint (borrowedAmountOutsideElevationGroup st))"

definition getBorrowLimitAgainstCollateralInElevationGroup :: "reserve \<Rightarrow> nat \<Rightarrow> decimal result" where
  "getBorrowLimitAgainstCollateralInElevationGroup st i =
     bindE (deref (arr_get (borrowLimitAgainstThisCollateralInElevationGroup (config st)) i)) (\<lambda>w. Inr (dint (uint w)))"

definition getBorrowedAmountAgainstCollateralInElevationGroup :: "reserve \<Rightarrow> nat \<Rightarrow> decimal result" where
  "getBorrowedAmountAgainstCollateralInElevationGroup st i =
     bindE (deref (arr_get (borrowedAmountsAgainstThisReserveInElevationGroups st) i)) (\<lambda>w. Inr (dint (uint w)))"

definition getDebtWithdrawalCapCurrent :: "num_lib \<Rightarrow> reserve \<Rightarrow> nat \<Rightarrow> decimal result" where
  "getDebtWithdrawalCapCurrent L st slot =
     bindE (slots_elapsed L st slot) (\<lambda>slotsElapsed.
       Inr (if slotsElapsed > SLOTS_PER_DAY then Fin 0
            else dint (sint (currentTotal (debtWithdrawalCap (config st))))))"

definition getBorrowFactor :: "num_lib \<Rightarrow> reserve \<Rightarrow> decimal" where
  "getBorrowFactor L st = ddiv L (dint (uint (borrowFactorPct (config st)))) (Fin 100)"

definition getLiquidityMint :: "reserve \<Rightarrow> pubkey" where
  "getLiquidityMint st = rl_mintPubkey (liquidity st)"

definition getLiquidityTokenProgram :: "reserve \<Rightarrow> pubkey" where
  "getLiquidityTokenProgram st = rl_tokenProgram (liquidity st)"

definition getCTokenMint :: "reserve \<Rightarrow> pubkey" where
  "getCTokenMint st = rcol_mintPubkey (collateral st)"

section \<open>Utilization and rates\<close>

definition calculateUtilizationRatio :: "num_lib \<Rightarrow> reserve \<Rightarrow> number" where
  "calculateUtilizationRatio L st =
     (let totalBorrows = getBorrowedAmount L st; totalSupply = getTotalSupply L st
      in if xeq totalSupply (Fin 0) then Fin 0 else num_of_dec (ddiv L totalBorrows totalSupply))"

fun truncateBorrowCurve :: "curve_point list \<Rightarrow> (number \<times> number) list" where
  "truncateBorrowCurve [] = []"
| "truncateBorrowCurve (p # ps) =
     (ndiv (dnat (utilizationRateBps p)) (dnat ONE_HUNDRED_PCT_IN_BPS),
      ndiv (dnat (borrowRateBps p)) (dnat ONE_HUNDRED_PCT_IN_BPS)) #
     (if utilizationRateBps p = ONE_HUNDRED_PCT_IN_BPS then [] else truncateBorrowCurve ps)"

definition slotAdjustmentFactor :: "kamino_reserve \<Rightarrow> number" where
  "slotAdjustmentFactor r = ndiv (ndiv (Fin 1000) (dnat SLOTS_PER_SECOND)) (recentSlotDurationMs r)"

definition calculateBorrowRate :: "num_lib \<Rightarrow> kamino_reserve \<Rightarrow> number result" where
  "calculateBorrowRate L r =
     bindE (getBorrowRate (calculateUtilizationRatio L (r_state r))
              (truncateBorrowCurve (borrowRateCurve (config (r_state r))))) (\<lambda>b.
       Inr (nmul b (slotAdjustmentFactor r)))"

definition approximateCompoundedInterest :: "num_lib \<Rightarrow> decimal \<Rightarrow> nat \<Rightarrow> decimal" where
  "approximateCompoundedInterest L rate elapsedSlots =
     (let base = ddiv L rate (dnat SLOTS_PER_YEAR); b1 = dadd L base (Fin 1)
      in if elapsedSlots = 0 then Fin 1
         else if elapsedSlots = 1 then b1
         else if elapsedSlots = 2 then dmul L b1 b1
         else if elapsedSlots = 3 then dmul L (dmul L b1 b1) b1
         else if elapsedSlots = 4 then (let pow2 = dmul L b1 b1 in dmul L pow2 pow2)
         else
           let e = elapsedSlots; expMinus1 = e - 1; expMinus2 = e - 2;
               basePow2 = dmul L base base; basePow3 = dmul L basePow2 base;
               firstTerm = dmul L base (dnat e);
               secondTerm = ddiv L (dmul L (dmul L basePow2 (dnat e)) (dnat expMinus1)) (Fin 2);
               thirdTerm = ddiv L (dmul L (dmul L (dmul L basePow3 (dnat e)) (dnat expMinus1)) (dnat expMinus2)) (Fin 6)
           in dadd L (dadd L (dadd L (Fin 1) firstTerm) secondTerm) thirdTerm)"

record compound_result =
  newDebt :: decimal
  netNewDebt :: decimal
  variableProtocolFee :: decimal
  fixedHostFee :: decimal
  absoluteReferralFee :: decimal
  maxReferralFees :: decimal
  newAccProtocolFees :: decimal
  pendingReferralFees :: decimal

definition compoundInterest :: "num_lib \<Rightarrow> kamino_reserve \<Rightarrow> nat \<Rightarrow> nat \<Rightarrow> compound_result result" where
  "compoundInterest L r slotsElapsed referralFeeBps =
     bindE (calculateBorrowRate L r) (\<lambda>currentBorrowRate.
       let st = r_state r;
           takeRate = ddiv L (dint (uint (protocolTakeRatePct (config st)))) (Fin 100);
           referralRate = ddiv L (dnat referralFeeBps) (Fin 10000);
           fixedHostInterestRate = getFixedHostInterestRate L st;
           compoundedInterestRate = approximateCompoundedInterest L
             (dadd L (dec_of_num currentBorrowRate) fixedHostInterestRate) slotsElapsed;
           compoundedFixedRate = approximateCompoundedInterest L fixedHostInterestRate slotsElapsed;
           previousDebt = getBorrowedAmount L st;
           debt = dmul L previousDebt compoundedInterestRate;
           hostFee = dsub L (dmul L previousDebt compoundedFixedRate) previousDebt;
           netDebt = dsub L (dsub L debt previousDebt) hostFee;
           variableFee = dmul L netDebt takeRate;
           absReferralFee = dmul L takeRate referralRate;
           maxReferral = dmul L netDebt absReferralFee;
           accFees = dadd L (dsub L (dadd L variableFee hostFee) maxReferral) (getAccumulatedProtocolFees L st);
           pendingFees = dadd L (getPendingReferrerFees L st) maxReferral
       in Inr \<lparr>newDebt = debt, netNewDebt = netDebt, variableProtocolFee = variableFee, fixedHostFee = hostFee,
               absoluteReferralFee = absReferralFee, maxReferralFees = maxReferral,
               newAccProtocolFees = accFees, pendingReferralFees = pendingFees\<rparr>)"

text \<open>The pair \<open>(totalBorrow, totalSupply)\<close>.\<close>

definition getEstimatedDebtAndSupply ::
    "num_lib \<Rightarrow> kamino_reserve \<Rightarrow> nat \<Rightarrow> nat \<Rightarrow> (decimal \<times> decimal) result" where
  "getEstimatedDebtAndSupply L r slot referralFeeBps =
     (let st = r_state r in
      bindE (slots_elapsed L st slot) (\<lambda>slotsElapsed.
        if slotsElapsed = 0 then Inr (getBorrowedAmount L st, getTotalSupply L st)
        else bindE (compoundInterest L r slotsElapsed referralFeeBps) (\<lambda>c.
          Inr (newDebt c,
               dsub L (dsub L (dsub L
                 (dadd L (getLiquidityAvailableAmount st) (newDebt c))
                 (newAccProtocolFees c))
                 (getAccumulatedReferrerFees L st))
                 (pendingReferralFees c)))))"

definition getEstimatedTotalSupply :: "num_lib \<Rightarrow> kamino_reserve \<Rightarrow> nat \<Rightarrow> nat \<Rightarrow> decimal result" where
  "getEstimatedTotalSupply L r slot referralFeeBps =
     bindE (getEstimatedDebtAndSupply L r slot referralFeeBps) (\<lambda>(_, totalSupply). Inr totalSupply)"

text \<open>The triple \<open>(accumulatedProtocolFees, compoundedVariableProtocolFee, compoundedFixedHostFee)\<close>.\<close>

definition getEstimatedAccumulatedProtocolFees ::
    "num_lib \<Rightarrow> kamino_reserve \<Rightarrow> nat \<Rightarrow> nat \<Rightarrow> (decimal \<times> decimal \<times> decimal) result" where
  "getEstimatedAccumulatedProtocolFees L r slot referralFeeBps =
     bindE (slots_elapsed L (r_state r) slot) (\<lambda>slotsElapsed.
       if slotsElapsed = 0 then Inr (getAccumulatedProtocolFees L (r_state r), Fin 0, Fin 0)
       else bindE (compoundInterest L r slotsElapsed referralFeeBps) (\<lambda>c.
         Inr (newAccProtocolFees c, variableProtocolFee c, fixedHostFee c)))"

definition getEstimatedUtilizationRatio :: "num_lib \<Rightarrow> kamino_reserve \<Rightarrow> nat \<Rightarrow> nat \<Rightarrow> number result" where
  "getEstimatedUtilizationRatio L r slot referralFeeBps =
     bindE (getEstimatedDebtAndSupply L r slot referralFeeBps) (\<lambda>(borrowed, supply).
       Inr (if xeq supply (Fin 0) then Fin 0 else num_of_dec (ddiv L borrowed supply)))"

definition getEstimatedCollateralExchangeRate :: "num_lib \<Rightarrow> kamino_reserve \<Rightarrow> nat \<Rightarrow> nat \<Rightarrow> decimal result" where
  "getEstimatedCollateralExchangeRate L r slot referralFeeBps =
     bindE (getEstimatedTotalSupply L r slot referralFeeBps) (\<lambda>totalSupply.
       let mintTotalSupply = rcol_mintTotalSupply (collateral (r_state r))
       in Inr (if uint mintTotalSupply = 0 \<or> xeq totalSupply (Fin 0) then INITIAL_COLLATERAL_RATE
               else ddiv L (dint (uint mintTotalSupply)) totalSupply))"

definition calculateEstimatedBorrowRate :: "num_lib \<Rightarrow> kamino_reserve \<Rightarrow> nat \<Rightarrow> nat \<Rightarrow> number result" where
  "calculateEstimatedBorrowRate L r slot referralFeeBps =
     bindE (getEstimatedUtilizationRatio L r slot referralFeeBps) (\<lambda>u.
       bindE (getBorrowRate u (truncateBorrowCurve (borrowRateCurve (config (r_state r))))) (\<lambda>b.
         Inr (nmul b (slotAdjustmentFactor r))))"

definition calculateBorrowAPR :: "num_lib \<Rightarrow> kamino_reserve \<Rightarrow> nat \<Rightarrow> nat \<Rightarrow> number result" where
  "calculateBorrowAPR L r slot referralFeeBps =
     bindE (calculateEstimatedBorrowRate L r slot referralFeeBps) (\<lambda>borrowRate.
       Inr (nadd borrowRate (num_of_dec (getFixedHostInterestRate L (r_state r)))))"

text \<open>\<open>1 - protocolTakeRatePct / 100\<close>.\<close>

definition supply_share :: "reserve \<Rightarrow> number" where
  "supply_share st = nsub (Fin 1) (ndiv (dint (uint (protocolTakeRatePct (config st)))) (Fin 100))"

definition calculateSupplyAPR :: "num_lib \<Rightarrow> kamino_reserve \<Rightarrow> nat \<Rightarrow> nat \<Rightarrow> number result" where
  "calculateSupplyAPR L r slot referralFeeBps =
     bindE (calculateEstimatedBorrowRate L r slot referralFeeBps) (\<lambda>borrowRate.
       Inr (nmul (nmul (calculateUtilizationRatio L (r_state r)) borrowRate) (supply_share (r_state r))))"

definition getEstimatedCumulativeBorrowRate :: "num_lib \<Rightarrow> kamino_reserve \<Rightarrow> nat \<Rightarrow> nat \<Rightarrow> decimal result" where
  "getEstimatedCumulativeBorrowRate L r currentSlot referralFeeBps =
     bindE (calculateBorrowAPR L r currentSlot referralFeeBps) (\<lambda>apr.
     bindE (slots_elapsed L (r_state r) currentSlot) (\<lambda>slotsElapsed.
     bindE (getCumulativeBorrowRate L (r_state r)) (\<lambda>previous.
       Inr (dmul L previous (approximateCompoundedInterest L (dec_of_num apr) slotsElapsed)))))"

section \<open>Simulated rates\<close>

text \<open>\<open>outflowAmount!\<close>: decimal.js rejects \<open>undefined\<close> as an argument.\<close>

definition dec_arg :: "decimal option \<Rightarrow> decimal result" where
  "dec_arg a = (case a of None \<Rightarrow> Inl (Throw ''[DecimalError] Invalid argument'') | Some d \<Rightarrow> Inr d)"

definition calcSimulatedUtilizationRatio ::
    "num_lib \<Rightarrow> kamino_reserve \<Rightarrow> decimal \<Rightarrow> action_type \<Rightarrow> nat \<Rightarrow> nat \<Rightarrow> decimal option \<Rightarrow> number result" where
  "calcSimulatedUtilizationRatio L r amount action slot referralFeeBps outflowAmount =
     bindE (getEstimatedDebtAndSupply L r slot referralFeeBps) (\<lambda>(borrowed, supply).
       let ratio = (\<lambda>b s. num_of_dec (ddiv L b s)) in
       case action of
         ADeposit \<Rightarrow> Inr (ratio borrowed (dadd L supply amount))
       | AWithdraw \<Rightarrow>
           (let newSupply = dsub L supply amount
            in Inr (if xeq newSupply (Fin 0) then Fin 0 else ratio borrowed newSupply))
       | ABorrow \<Rightarrow> Inr (ratio (dadd L borrowed amount) supply)
       | ARepay \<Rightarrow> Inr (ratio (dsub L borrowed amount) supply)
       | ADepositAndBorrow \<Rightarrow>
           bindE (dec_arg outflowAmount) (\<lambda>out. Inr (ratio (dadd L borrowed out) (dadd L supply amount)))
       | ARepayAndWithdraw \<Rightarrow>
           bindE (dec_arg outflowAmount) (\<lambda>out.
             let newSupply = dsub L supply out
             in Inr (if xeq newSupply (Fin 0) then Fin 0 else ratio (dsub L borrowed amount) newSupply))
       | AMint \<Rightarrow> Inr (ratio borrowed (dadd L supply amount))
       | ARedeem \<Rightarrow> Inr (ratio borrowed (dsub L supply amount))
       | _ \<Rightarrow> Inl (Throw ''Invalid action type for simulatedUtilizationRatio''))"

definition calcSimulatedBorrowRate ::
    "num_lib \<Rightarrow> kamino_reserve \<Rightarrow> decimal \<Rightarrow> action_type \<Rightarrow> nat \<Rightarrow> nat \<Rightarrow> decimal option \<Rightarrow> number result" where
  "calcSimulatedBorrowRate L r amount action slot referralFeeBps outflowAmount =
     bindE (calcSimulatedUtilizationRatio L r amount action slot referralFeeBps outflowAmount) (\<lambda>u.
       bindE (getBorrowRate u (truncateBorrowCurve (borrowRateCurve (config (r_state r))))) (\<lambda>b.
         Inr (nmul b (slotAdjustmentFactor r))))"

definition calcSimulatedBorrowAPR ::
    "num_lib \<Rightarrow> kamino_reserve \<Rightarrow> decimal \<Rightarrow> action_type \<Rightarrow> nat \<Rightarrow> nat \<Rightarrow> decimal option \<Rightarrow> number result" where
  "calcSimulatedBorrowAPR L r amount action slot referralFeeBps outflowAmount =
     bindE (calcSimulatedBorrowRate L r amount action slot referralFeeBps outflowAmount) (\<lambda>b.
       Inr (nadd b (num_of_dec (getFixedHostInterestRate L (r_state r)))))"

definition calcSimulatedSupplyAPR ::
    "num_lib \<Rightarrow> kamino_reserve \<Rightarrow> decimal \<Rightarrow> action_type \<Rightarrow> nat \<Rightarrow> nat \<Rightarrow> decimal option \<Rightarrow> number result" where
  "calcSimulatedSupplyAPR L r amount action slot referralFeeBps outflowAmount =
     bindE (calcSimulatedUtilizationRatio L r amount action slot referralFeeBps outflowAmount) (\<lambda>u.
     bindE (calcSimulatedBorrowRate L r amount action slot referralFeeBps outflowAmount) (\<lambda>b.
       Inr (nmul (nmul u b) (supply_share (r_state r)))))"

section \<open>Fees\<close>

datatype fee_calculation = Inclusive | Exclusive

record fees =
  protocolFees :: decimal
  referrerFees :: decimal

definition calculateFees ::
    "num_lib \<Rightarrow> decimal \<Rightarrow> decimal \<Rightarrow> fee_calculation \<Rightarrow> nat \<Rightarrow> bool \<Rightarrow> fees result" where
  "calculateFees L amountLamports borrowFeeRate feeCalculation referralFeeBps hasReferrer =
     (let referralFeeRate = ddiv L (dnat referralFeeBps) (dnat ONE_HUNDRED_PCT_IN_BPS)
      in if xgt borrowFeeRate (Fin 0) \<and> xgt amountLamports (Fin 0) then
           let needToAssessReferralFee = (xgt referralFeeRate (Fin 0) \<and> hasReferrer);
               minimumFee = Fin 1;
               borrowFeeAmount =
                 (if feeCalculation = Exclusive then dmul L amountLamports borrowFeeRate
                  else dmul L amountLamports (ddiv L borrowFeeRate (dadd L borrowFeeRate (Fin 1))));
               borrowFee = xmax borrowFeeAmount minimumFee
           in if xge borrowFee amountLamports
              then Inl (Throw ''Borrow amount is too small to receive liquidity after fees'')
              else
                let referralFee =
                      (if needToAssessReferralFee
                       then if xeq referralFeeRate (Fin 1) then borrowFee
                            else dfloor (dmul L borrowFee referralFeeRate)
                       else Fin 0)
                in Inr \<lparr>protocolFees = dsub L borrowFee referralFee, referrerFees = referralFee\<rparr>
         else Inr \<lparr>protocolFees = Fin 0, referrerFees = Fin 0\<rparr>)"

definition calculateFlashLoanFees :: "num_lib \<Rightarrow> reserve \<Rightarrow> decimal \<Rightarrow> nat \<Rightarrow> bool \<Rightarrow> fees result" where
  "calculateFlashLoanFees L st flashLoanAmountLamports referralFeeBps hasReferrer =
     calculateFees L flashLoanAmountLamports (getFlashLoanFee L st) Exclusive referralFeeBps hasReferrer"

section \<open>Construction\<close>

definition formatReserveData :: "num_lib \<Rightarrow> reserve \<Rightarrow> reserve \<Rightarrow> reserve_data result" where
  "formatReserveData L st parsedData =
     bindE (getMintFactor L st) (\<lambda>mintFactor.
     bindE (bn_toNumber L (uint (mintDecimals (liquidity st)))) (\<lambda>decimals.
     bindE (bn_toNumber L (uint (depositLimitCrossedTimestamp (liquidity parsedData)))) (\<lambda>depositTs.
     bindE (bn_toNumber L (uint (borrowLimitCrossedTimestamp (liquidity parsedData)))) (\<lambda>borrowTs.
     bindE (bn_toNumber L (uint (borrowFactorPct (config parsedData)))) (\<lambda>bf.
       let c = config parsedData in
       Inr \<lparr>rd_status = (if rc_status c = 1 then Obsolete else if rc_status c = 2 then Hidden else Active),
            mintAddress = rl_mintPubkey (liquidity parsedData),
            borrowCurve = truncateBorrowCurve (borrowRateCurve c),
            loanToValue = ndiv (dint (uint (loanToValuePct c))) (Fin 100),
            maxLiquidationBonus = ndiv (dint (uint (maxLiquidationBonusBps c))) (Fin 10000),
            minLiquidationBonus = ndiv (dint (uint (minLiquidationBonusBps c))) (Fin 10000),
            liquidationThreshold = ndiv (dint (uint (liquidationThresholdPct c))) (Fin 100),
            protocolTakeRate = ndiv (dint (uint (protocolTakeRatePct c))) (Fin 100),
            reserveDepositLimit = dint (uint (depositLimit c)),
            reserveBorrowLimit = dint (uint (borrowLimit c)),
            rd_symbol = parseTokenSymbol (map unat (ti_name (tokenInfo c))),
            rd_decimals = nat decimals,
            accumulatedProtocolFees = ddiv L (getAccumulatedProtocolFees L st) mintFactor,
            rd_mintTotalSupply = ddiv L (dint (uint (rcol_mintTotalSupply (collateral parsedData)))) mintFactor,
            rd_depositLimitCrossedTimestamp = nat depositTs,
            rd_borrowLimitCrossedTimestamp = nat borrowTs,
            rd_borrowFactor = nat bf\<rparr>)))))"

definition r_initialize :: "num_lib \<Rightarrow> pubkey \<Rightarrow> reserve \<Rightarrow> decimal \<Rightarrow> number \<Rightarrow> kamino_reserve result" where
  "r_initialize L address st tokenOraclePrice slotDurationMs =
     bindE (formatReserveData L st st) (\<lambda>d.
       Inr \<lparr>r_state = st, r_address = address,
            r_symbol = parseTokenSymbol (map unat (ti_name (tokenInfo (config st)))),
            oraclePrice = tokenOraclePrice, stats = d, recentSlotDurationMs = slotDurationMs\<rparr>)"

section \<open>Curves of reserves\<close>

text \<open>
  The points of a reserve are well-formed when the utilizations increase strictly from 0 to 10000 basis points and the rates do
  not decrease; whatever follows the point at 10000 is padding.
\<close>

fun points_from :: "curve_point \<Rightarrow> curve_point list \<Rightarrow> bool" where
  "points_from p [] \<longleftrightarrow> utilizationRateBps p = 10000"
| "points_from p (q # ps) \<longleftrightarrow> utilizationRateBps p = 10000 \<or>
     (utilizationRateBps p < utilizationRateBps q \<and> borrowRateBps p \<le> borrowRateBps q \<and>
      borrowRateBps q < 2 ^ 32 \<and> points_from q ps)"

fun valid_points :: "curve_point list \<Rightarrow> bool" where
  "valid_points (p # ps) \<longleftrightarrow> utilizationRateBps p = 0 \<and> borrowRateBps p < 2 ^ 32 \<and> points_from p ps"
| "valid_points [] \<longleftrightarrow> False"

definition bps_val :: "nat \<Rightarrow> rat" where
  "bps_val n = b64r (of_nat n / 10000)"

fun rat_curve :: "curve_point list \<Rightarrow> (rat \<times> rat) list" where
  "rat_curve [] = []"
| "rat_curve (p # ps) = (bps_val (utilizationRateBps p), bps_val (borrowRateBps p)) #
     (if utilizationRateBps p = 10000 then [] else rat_curve ps)"

lemma bps_err: "n < 2 ^ 32 \<Longrightarrow> \<bar>bps_val n - of_nat n / 10000\<bar> \<le> 1 / 10 ^ 9"
proof (cases "n = 0")
  case False
  assume n: "n < 2 ^ 32"
  have "rat_of_nat n \<le> of_nat (2 ^ 32)" using n by (simp only: of_nat_le_iff)
  then have hi: "of_nat n / 10000 \<le> (10 ^ 6 :: rat)" by simp
  have "rat_of_nat 1 \<le> of_nat n" using False by (simp only: of_nat_le_iff)
  then have "1 / 10 ^ 25 \<le> (of_nat n / 10000 :: rat)" by simp
  from b64r_rel [OF this] have "\<bar>bps_val n - of_nat n / 10000\<bar> \<le> of_nat n / 10000 / 2 ^ 53"
    by (simp add: bps_val_def)
  also have "\<dots> \<le> 10 ^ 6 / 2 ^ 53" using hi by (intro divide_right_mono) simp_all
  also have "\<dots> \<le> 1 / 10 ^ 9" by simp
  finally show ?thesis .
qed (simp add: bps_val_def)

lemma bps_val_step: "m < n \<Longrightarrow> n < 2 ^ 32 \<Longrightarrow> bps_val m + 1 / 20000 \<le> bps_val n"
proof -
  assume mn: "m < n" "n < 2 ^ 32"
  have "rat_of_nat (m + 1) \<le> of_nat n" using mn by (simp only: of_nat_le_iff)
  then have "rat_of_nat m / 10000 + 1 / 10000 \<le> of_nat n / 10000" by linarith
  moreover have "\<bar>bps_val m - of_nat m / 10000\<bar> \<le> 1 / 1000000000"
    "\<bar>bps_val n - of_nat n / 10000\<bar> \<le> 1 / 1000000000"
    using bps_err [of m] bps_err [of n] mn by simp_all
  ultimately show ?thesis by linarith
qed

lemma bps_val_bounds: "n < 2 ^ 32 \<Longrightarrow> 0 \<le> bps_val n \<and> bps_val n \<le> 10 ^ 6"
proof -
  assume n: "n < 2 ^ 32"
  have "rat_of_nat n \<le> of_nat (2 ^ 32)" using n by (simp only: of_nat_le_iff)
  then show ?thesis using b64r_nonneg [of "of_nat n / 10000"] b64r_le_nat [of "of_nat n / 10000" "10 ^ 6"]
    by (simp add: bps_val_def)
qed

lemma bps_val_fixed [simp]: "b64r (bps_val n) = bps_val n"
  by (simp add: bps_val_def)

lemma bps_val_const [simp]: "bps_val 0 = 0" "bps_val 10000 = 1"
  by (simp_all add: bps_val_def)

lemma ndiv_bps: "n < 2 ^ 32 \<Longrightarrow> ndiv (dnat n) (dnat ONE_HUNDRED_PCT_IN_BPS) = Fin (bps_val n)"
proof -
  assume n: "n < 2 ^ 32"
  have "rat_of_nat n \<le> of_nat (2 ^ 32)" using n by (simp only: of_nat_le_iff)
  then have "b64 (of_nat n / 10000) = Fin (bps_val n)"
    unfolding bps_val_def by (intro b64_nonneg_small) simp_all
  then show ?thesis by (simp add: ONE_HUNDRED_PCT_IN_BPS_def)
qed

lemma points_from_util: "points_from p ps \<Longrightarrow> utilizationRateBps p \<le> 10000"
  by (induction ps arbitrary: p) fastforce+

lemma truncate_step:
  assumes "utilizationRateBps p < 2 ^ 32" "borrowRateBps p < 2 ^ 32"
  shows "truncateBorrowCurve (p # ps) = (Fin (bps_val (utilizationRateBps p)), Fin (bps_val (borrowRateBps p))) #
    (if utilizationRateBps p = 10000 then [] else truncateBorrowCurve ps)"
  by (simp only: truncateBorrowCurve.simps ndiv_bps [OF assms(1)] ndiv_bps [OF assms(2)]) (simp add: ONE_HUNDRED_PCT_IN_BPS_def)

lemma truncate_rat_curve:
  "borrowRateBps p < 2 ^ 32 \<Longrightarrow> points_from p ps \<Longrightarrow>
    truncateBorrowCurve (p # ps) = num_points (rat_curve (p # ps))"
proof (induction ps arbitrary: p)
  case Nil
  then show ?case by (simp add: num_points_def truncate_step del: truncateBorrowCurve.simps(2))
next
  case (Cons q ps)
  have u: "utilizationRateBps p < 2 ^ 32" using points_from_util [OF Cons.prems(2)] by simp
  show ?case
  proof (cases "utilizationRateBps p = 10000")
    case True
    then show ?thesis using Cons.prems(1) u by (simp add: num_points_def truncate_step del: truncateBorrowCurve.simps(2))
  next
    case False
    then have "truncateBorrowCurve (q # ps) = num_points (rat_curve (q # ps))"
      using Cons.prems by (intro Cons.IH) simp_all
    then show ?thesis
      using Cons.prems(1) u False by (simp add: num_points_def truncate_step [of p] del: truncateBorrowCurve.simps(2))
  qed
qed

lemma rat_curve_ok:
  "borrowRateBps p < 2 ^ 32 \<Longrightarrow> points_from p ps \<Longrightarrow>
    segments_ok (rat_curve (p # ps)) \<and> fst (last (rat_curve (p # ps))) = 1 \<and>
    snd (last (rat_curve (p # ps))) \<le> 10 ^ 6 \<and> (\<forall>(x, y)\<in>set (rat_curve (p # ps)). b64r y = y)"
proof (induction ps arbitrary: p)
  case Nil
  then show ?case using bps_val_bounds by simp
next
  case (Cons q ps)
  show ?case
  proof (cases "utilizationRateBps p = 10000")
    case True
    then show ?thesis using Cons.prems bps_val_bounds by simp
  next
    case False
    then have q: "utilizationRateBps p < utilizationRateBps q" "borrowRateBps p \<le> borrowRateBps q"
      "borrowRateBps q < 2 ^ 32" "points_from q ps"
      using Cons.prems by simp_all
    have uq: "utilizationRateBps q < 2 ^ 32" using points_from_util [OF q(4)] by simp
    have x: "bps_val (utilizationRateBps p) + 1 / 20000 \<le> bps_val (utilizationRateBps q)"
      by (rule bps_val_step [OF q(1) uq])
    have y: "bps_val (borrowRateBps p) = bps_val (borrowRateBps q) \<or>
        bps_val (borrowRateBps p) + 1 / 20000 \<le> bps_val (borrowRateBps q)"
      using q(2,3) bps_val_step [of "borrowRateBps p" "borrowRateBps q"] by (cases "borrowRateBps p = borrowRateBps q") auto
    have rq: "rat_curve (q # ps) = (bps_val (utilizationRateBps q), bps_val (borrowRateBps q)) #
        (if utilizationRateBps q = 10000 then [] else rat_curve ps)" by simp
    have "rat_curve (p # q # ps) = (bps_val (utilizationRateBps p), bps_val (borrowRateBps p)) # rat_curve (q # ps)"
      using False by simp
    with Cons.IH [OF q(3,4)] x y show ?thesis unfolding rq by simp
  qed
qed

lemma valid_points_curve:
  assumes "valid_points (p # ps)"
  shows "truncateBorrowCurve (p # ps) = num_points (rat_curve (p # ps))"
    and "curve_ok (rat_curve (p # ps))"
    and "snd (hd (rat_curve (p # ps))) = bps_val (borrowRateBps p)"
proof -
  have p: "utilizationRateBps p = 0" "borrowRateBps p < 2 ^ 32" "points_from p ps" using assms by simp_all
  show "truncateBorrowCurve (p # ps) = num_points (rat_curve (p # ps))"
    by (rule truncate_rat_curve [OF p(2,3)])
  obtain q qs where ps: "ps = q # qs" using p by (cases ps) simp_all
  show "curve_ok (rat_curve (p # ps))"
    unfolding curve_ok_def using rat_curve_ok [OF p(2,3)] bps_val_bounds [OF p(2)] p(1)
    by (simp add: ps)
  show "snd (hd (rat_curve (p # ps))) = bps_val (borrowRateBps p)" by simp
qed



end
