(* ===== verification/Reserve_Rates.thy ===== *)
theory Reserve_Rates
  imports Reserve
begin

text \<open>
  Properties of the computations of \<open>Reserve\<close>: interest, fees and utilization, and the sample
  reserve the witnesses use.
\<close>

section \<open>A sample reserve\<close>

text \<open>
  A reserve with six decimals, 600 tokens available, 400 borrowed, a borrow fee of about one percent and two elevation groups,
  on which the witnesses evaluate the definitions.
\<close>

definition sample_config :: reserve_config where
  "sample_config =
     \<lparr>rc_status = 0, assetTier = 0, hostFixedInterestRateBps = 50,
      reserved2 = replicate 2 0, reserved3 = replicate 8 0, protocolTakeRatePct = 10,
      protocolLiquidationFeePct = 2, loanToValuePct = 75, liquidationThresholdPct = 80,
      minLiquidationBonusBps = 200, maxLiquidationBonusBps = 500, badDebtLiquidationBonusBps = 99,
      deleveragingMarginCallPeriodSecs = 259200, deleveragingThresholdDecreaseBpsPerDay = 24,
      rc_fees = \<lparr>borrowFeeSf = 11529215046068469, flashLoanFeeSf = 3458764513820540, rf_padding = replicate 8 0\<rparr>,
      borrowRateCurve =
        [\<lparr>utilizationRateBps = 0, borrowRateBps = 100\<rparr>, \<lparr>utilizationRateBps = 8000, borrowRateBps = 1000\<rparr>] @
        replicate 9 \<lparr>utilizationRateBps = 10000, borrowRateBps = 10000\<rparr>,
      borrowFactorPct = 125, depositLimit = 2000000000, borrowLimit = 1500000000,
      tokenInfo =
        \<lparr>ti_name = [85, 83, 68, 67] @ replicate 28 0,
         heuristic = \<lparr>ph_lower = 0, ph_upper = 0, ph_exp = 0\<rparr>,
         maxTwapDivergenceBps = 0, maxAgePriceSeconds = 180, maxAgeTwapSeconds = 240,
         scopeConfiguration = \<lparr>priceFeed = 7, priceChain = [3, 65535, 65535, 65535], twapChain = [52, 65535, 65535, 65535]\<rparr>,
         switchboardConfiguration = \<lparr>priceAggregator = 0, twapAggregator = 0\<rparr>,
         pythPrice = 0, blockPriceUsage = 0, ti_reserved = replicate 7 0, ti_padding = replicate 19 0\<rparr>,
      depositWithdrawalCap =
        \<lparr>configCapacity = 900000000, currentTotal = 100000000, lastIntervalStartTimestamp = 0, configIntervalLengthSeconds = 86400\<rparr>,
      debtWithdrawalCap =
        \<lparr>configCapacity = 800000000, currentTotal = 100000000, lastIntervalStartTimestamp = 0, configIntervalLengthSeconds = 86400\<rparr>,
      rc_elevationGroups = [1, 2] @ replicate 18 0, disableUsageAsCollOutsideEmode = 0,
      utilizationLimitBlockBorrowingAbovePct = 90, autodeleverageEnabled = 0, reserved1 = [0],
      borrowLimitOutsideElevationGroup = 1000000000,
      borrowLimitAgainstThisCollateralInElevationGroup = [300000000, 200000000] @ replicate 30 0,
      deleveragingBonusIncreaseBpsPerDay = 100\<rparr>"

definition sample_state :: reserve where
  "sample_state =
     \<lparr>version = 1, lastUpdate = \<lparr>lu_slot = 1000, stale = 0, priceStatus = 63\<rparr>, r_lendingMarket = 1, farmCollateral = 0, farmDebt = 0,
      liquidity =
        \<lparr>rl_mintPubkey = 11, rl_supplyVault = 13, feeVault = 14, availableAmount = 600000000, borrowedAmountSf = 461168601842738790400000000,
         marketPriceSf = 1152921504606846976, marketPriceLastUpdatedTs = 0, mintDecimals = 6, depositLimitCrossedTimestamp = 0, borrowLimitCrossedTimestamp = 0,
         cumulativeBorrowRateBsf = [1152921504606846976, 0, 0, 0], accumulatedProtocolFeesSf = 0, accumulatedReferrerFeesSf = 0,
         pendingReferrerFeesSf = 0, absoluteReferralRateSf = 0, rl_tokenProgram = 5\<rparr>,
      collateral = \<lparr>rcol_mintPubkey = 12, rcol_mintTotalSupply = 900000000, rcol_supplyVault = 15\<rparr>,
      config = sample_config, borrowedAmountOutsideElevationGroup = 300000000,
      borrowedAmountsAgainstThisReserveInElevationGroups = [100000000, 0] @ replicate 30 0\<rparr>"

definition sample_reserve :: kamino_reserve where
  "sample_reserve =
     (case r_initialize decimal_js 101 sample_state (Fin 1) (Fin 450) of
        Inr r \<Rightarrow> r | Inl _ \<Rightarrow> undefined)"

section \<open>Compounded interest\<close>

context decimal_laws
begin

lemma compound_ge_one:
  assumes "0 \<le> r"
  shows "\<exists>c. approximateCompoundedInterest L (Fin r) n = Fin c \<and> 1 \<le> c"
proof -
  define base where "base = d_round L (r / of_nat SLOTS_PER_YEAR)"
  have base: "0 \<le> base" unfolding base_def by (intro d_nonneg) (simp add: assms)
  define b1 where "b1 = d_round L (base + 1)"
  have b1: "1 \<le> b1" unfolding b1_def using base by (intro d_ge_one) simp
  have fold: "ddiv L (Fin r) (dnat SLOTS_PER_YEAR) = Fin base" "dadd L (Fin base) (Fin 1) = Fin b1"
    by (simp_all add: base_def b1_def slot_constants)
  have mul1: "1 \<le> x \<Longrightarrow> 1 \<le> y \<Longrightarrow> 1 \<le> d_round L (x * y)" for x y
    using mult_mono [of 1 x 1 y] by (intro d_ge_one) simp
  have mul0: "0 \<le> x \<Longrightarrow> 0 \<le> d_round L (x * of_nat k)" for x k by (intro d_nonneg) simp
  show ?thesis
  proof (cases "n \<le> 4")
    case True
    then consider "n = 0" | "n = 1" | "n = 2" | "n = 3" | "n = 4" by linarith
    then show ?thesis
      by cases (simp_all add: approximateCompoundedInterest_def fold Let_def b1 mul1 b1 [unfolded b1_def])
  next
    case False
    define t1 where "t1 = d_round L (base * of_nat n)"
    define p2 where "p2 = d_round L (base * base)"
    define p3 where "p3 = d_round L (p2 * base)"
    define t2 where "t2 = d_round L (d_round L (d_round L (p2 * of_nat n) * of_nat (n - 1)) / 2)"
    define t3 where "t3 = d_round L (d_round L (d_round L (d_round L (p3 * of_nat n) * of_nat (n - 1)) * of_nat (n - 2)) / 6)"
    have p2: "0 \<le> p2" unfolding p2_def using base by (intro d_nonneg) simp
    have p3: "0 \<le> p3" unfolding p3_def using base p2 by (intro d_nonneg) simp
    have t: "0 \<le> t1" "0 \<le> t2" "0 \<le> t3"
      unfolding t1_def t2_def t3_def using base p2 p3 by (auto intro!: d_nonneg mult_nonneg_nonneg divide_nonneg_pos)
    have "approximateCompoundedInterest L (Fin r) n = Fin (d_round L (d_round L (d_round L (1 + t1) + t2) + t3))"
      using False
      by (simp add: approximateCompoundedInterest_def fold Let_def t1_def t2_def t3_def p2_def p3_def)
    moreover have "1 \<le> d_round L (1 + t1)" using t by (intro d_ge_one) simp
    then have "1 \<le> d_round L (d_round L (1 + t1) + t2)" using t by (intro d_ge_one) simp
    then have "1 \<le> d_round L (d_round L (d_round L (1 + t1) + t2) + t3)" using t by (intro d_ge_one) simp
    ultimately show ?thesis by blast
  qed
qed

lemma sf_dec_Fin: "sf_dec L w = Fin (d_round L (of_int (uint w) / mult_repr))"
  by (simp add: sf_dec_def toDecimal_eq)

lemma sf_dec_nonneg: "\<exists>q. sf_dec L w = Fin q \<and> 0 \<le> q \<and> d_round L q = q"
  unfolding sf_dec_Fin using toDecimal_nonneg [of "uint w"] d_idem by auto

lemma host_rate_nonneg: "\<exists>q. getFixedHostInterestRate L st = Fin q \<and> 0 \<le> q"
  by (auto simp: getFixedHostInterestRate_def intro!: d_nonneg)

lemma borrowed_nonneg: "\<exists>q. getBorrowedAmount L st = Fin q \<and> 0 \<le> q \<and> d_round L q = q"
  by (simp add: getBorrowedAmount_def sf_dec_nonneg)

text \<open>Interest on a non-negative rate never lowers the debt, and everything it computes is finite.\<close>

lemma compoundInterest_debt:
  assumes "calculateBorrowRate L r = Inr (Fin b)" "0 \<le> num_repr b"
  shows "\<exists>c q q'. compoundInterest L r n bps = Inr c \<and> getBorrowedAmount L (r_state r) = Fin q \<and>
    newDebt c = Fin q' \<and> q \<le> q' \<and> isFinite (newAccProtocolFees c) \<and> isFinite (pendingReferralFees c)"
proof -
  obtain q where q: "getBorrowedAmount L (r_state r) = Fin q" "0 \<le> q" "d_round L q = q"
    using borrowed_nonneg by blast
  obtain h where h: "getFixedHostInterestRate L (r_state r) = Fin h" "0 \<le> h" using host_rate_nonneg by blast
  obtain a p where fees: "getAccumulatedProtocolFees L (r_state r) = Fin a" "getPendingReferrerFees L (r_state r) = Fin p"
    using sf_dec_nonneg by (metis getAccumulatedProtocolFees_def getPendingReferrerFees_def)
  have "0 \<le> d_round L (num_repr b + h)" using assms(2) h(2) by (intro d_nonneg) simp
  then obtain c where c: "approximateCompoundedInterest L (Fin (d_round L (num_repr b + h))) n = Fin c" "1 \<le> c"
    using compound_ge_one by blast
  obtain f where f: "approximateCompoundedInterest L (Fin h) n = Fin f" "1 \<le> f"
    using compound_ge_one [OF h(2)] by blast
  have "q * 1 \<le> q * c" using q c by (intro mult_left_mono) simp_all
  then have "q \<le> d_round L (q * c)" using d_mono [of q "q * c"] q(3) by simp
  then show ?thesis
    using assms(1) by (simp add: compoundInterest_def q(1) h(1) c(1) f(1) fees Let_def)
qed

end

text \<open>A reserve on which rates can be computed: well-formed curve, no negative supply, a plausible slot duration.\<close>

definition rates_ok :: "num_lib \<Rightarrow> kamino_reserve \<Rightarrow> bool" where
  "rates_ok L r \<longleftrightarrow> valid_points (borrowRateCurve (config (r_state r))) \<and> xle (Fin 0) (getTotalSupply L (r_state r)) \<and>
     (case recentSlotDurationMs r of Fin s \<Rightarrow> 1 \<le> s \<and> s \<le> 10 ^ 6 | _ \<Rightarrow> False)"

context decimal_laws
begin

lemma utilization_nonneg:
  assumes "xle (Fin 0) (getTotalSupply L st)"
  shows "xle (Fin 0) (calculateUtilizationRatio L st)"
proof -
  obtain q where q: "getBorrowedAmount L st = Fin q" "0 \<le> q" using borrowed_nonneg by blast
  show ?thesis
  proof (cases "getTotalSupply L st")
    case (Fin t)
    have "0 \<le> d_round L (q / t)" if "t \<noteq> 0" using assms q that by (intro d_nonneg) (simp add: Fin)
    then show ?thesis using assms by (auto simp: calculateUtilizationRatio_def Fin q(1) Let_def b64_nonneg)
  qed (use assms in \<open>auto simp: calculateUtilizationRatio_def q(1) ddiv_def xdiv_def xle_def xeq_def Let_def\<close>)
qed

end

lemma curve_last_le:
  assumes "valid_points pts" shows "snd (last (rat_curve pts)) \<le> 10 ^ 6 \<and> 0 \<le> snd (last (rat_curve pts))"
proof -
  obtain p ps where pts: "pts = p # ps" using assms by (cases pts) simp_all
  have p: "borrowRateBps p < 2 ^ 32" "points_from p ps" using assms by (simp_all add: pts)
  have "bps_val (borrowRateBps p) \<le> snd (last (rat_curve (p # ps)))"
    using segments_ok_mono [of "(bps_val (utilizationRateBps p), bps_val (borrowRateBps p))"] rat_curve_ok [OF p] by simp
  then show ?thesis using rat_curve_ok [OF p] bps_val_bounds [OF p(1)] by (simp add: pts)
qed

lemma rate_at_utilization:
  assumes "valid_points pts" "xle (Fin 0) u"
  shows "\<exists>b. getBorrowRate u (truncateBorrowCurve pts) = Inr (Fin b) \<and> 0 \<le> b \<and> b \<le> 2 * 10 ^ 6"
proof -
  obtain p ps where pts: "pts = p # ps" using assms(1) by (cases pts) simp_all
  note v = valid_points_curve [OF assms(1) [unfolded pts]]
  have p0: "0 \<le> bps_val (borrowRateBps p)" using assms(1) bps_val_bounds [of "borrowRateBps p"] by (simp add: pts)
  have last: "snd (last (rat_curve (p # ps))) * (1 + 1 / 2 ^ 50) \<le> 10 ^ 6 * 2"
    using curve_last_le [OF assms(1)] unfolding pts by (intro mult_mono) simp_all
  obtain b where b: "getBorrowRate u (num_points (rat_curve (p # ps))) = Inr (Fin b)"
    "snd (hd (rat_curve (p # ps))) \<le> b" "b \<le> snd (last (rat_curve (p # ps))) * (1 + 1 / 2 ^ 50)"
    using getBorrowRate_bounds [OF v(2) assms(2)] by blast
  have "0 \<le> b" using p0 b(2) unfolding v(3) by linarith
  moreover have "b \<le> 2 * 10 ^ 6" using last b(3) by linarith
  ultimately show ?thesis unfolding pts v(1) using b(1) by blast
qed

lemma slot_factor:
  assumes "recentSlotDurationMs r = Fin s" "1 \<le> s" "s \<le> 10 ^ 6"
  shows "\<exists>f. slotAdjustmentFactor r = Fin f \<and> 0 \<le> f \<and> f \<le> 500"
proof -
  have s: "0 \<le> 500 / s" "500 / s \<le> 500" using assms by (simp_all add: divide_le_eq)
  then have "b64 (500 / s) = Fin (b64r (500 / s))" by (intro b64_nonneg_small) simp_all
  moreover have "b64 500 = Fin 500" using b64_int [of 500] by simp
  ultimately show ?thesis using assms s b64r_nonneg [OF s(1)] b64r_le_nat [of "500 / s" 500]
    by (simp add: slotAdjustmentFactor_def slot_constants)
qed

text \<open>The borrow rate before and after scaling by the slot duration.\<close>

lemma scaled_rate:
  assumes "valid_points pts" "xle (Fin 0) u" "recentSlotDurationMs r = Fin s" "1 \<le> s" "s \<le> 10 ^ 6"
  shows "\<exists>b. bindE (getBorrowRate u (truncateBorrowCurve pts)) (\<lambda>b. Inr (nmul b (slotAdjustmentFactor r)))
      = Inr (Fin b) \<and> 0 \<le> b \<and> b64 b = Fin b"
proof -
  obtain b where b: "getBorrowRate u (truncateBorrowCurve pts) = Inr (Fin b)" "0 \<le> b" "b \<le> 2 * 10 ^ 6"
    using rate_at_utilization [OF assms(1,2)] by blast
  obtain f where f: "slotAdjustmentFactor r = Fin f" "0 \<le> f" "f \<le> 500" using slot_factor [OF assms(3-5)] by blast
  have bf: "0 \<le> b * f" using b f by simp
  have "b * f \<le> (2 * 10 ^ 6) * 500" using b f by (intro mult_mono) simp_all
  then have "b64 (b * f) = Fin (b64r (b * f))" using bf by (intro b64_nonneg_small) simp_all
  moreover from this have "b64 (b64r (b * f)) = Fin (b64r (b * f))" by (rule b64_fixed_b64r)
  ultimately show ?thesis using b(1) f(1) b64r_nonneg [OF bf] by simp
qed

lemma rates_ok_slot: "rates_ok L r \<Longrightarrow> \<exists>s. recentSlotDurationMs r = Fin s \<and> 1 \<le> s \<and> s \<le> 10 ^ 6"
  by (auto simp: rates_ok_def split: xnum.splits)

lemma calculateBorrowRate_ok:
  assumes "decimal_laws L" "rates_ok L r"
  shows "\<exists>b. calculateBorrowRate L r = Inr (Fin b) \<and> 0 \<le> b \<and> b64 b = Fin b"
proof -
  obtain s where "recentSlotDurationMs r = Fin s" "1 \<le> s" "s \<le> 10 ^ 6" using rates_ok_slot [OF assms(2)] by blast
  moreover have "xle (Fin 0) (calculateUtilizationRatio L (r_state r))" "valid_points (borrowRateCurve (config (r_state r)))"
    using decimal_laws.utilization_nonneg [OF assms(1)] assms(2) by (simp_all add: rates_ok_def)
  ultimately show ?thesis unfolding calculateBorrowRate_def by (intro scaled_rate)
qed

text \<open>The estimate succeeds and does not lose debt.\<close>

lemma estimated_debt:
  assumes "numlib_laws L" and "rates_ok L r" and "uint (lastUpdateSlot (r_state r)) < 2 ^ 53"
  shows "\<exists>d s. getEstimatedDebtAndSupply L r slot referralFeeBps = Inr (Fin d, Fin s) \<and>
    xle (getBorrowedAmount L (r_state r)) (Fin d)"
proof -
  have dl: "decimal_laws L" and bl: "bn_laws L" using assms(1) by (simp_all add: numlib_laws_def)
  define n where "n = nat (max (int slot - uint (lastUpdateSlot (r_state r))) 0)"
  have "bn_toNumber L (uint (lastUpdateSlot (r_state r))) = Inr (uint (lastUpdateSlot (r_state r)))"
    by (rule bn_laws.toNumber_safe [OF bl]) (use assms(3) in simp)
  then have n: "slots_elapsed L (r_state r) slot = Inr n" by (simp add: slots_elapsed_def n_def)
  obtain b where b: "calculateBorrowRate L r = Inr (Fin b)" "0 \<le> b" "b64 b = Fin b"
    using calculateBorrowRate_ok [OF dl assms(2)] by blast
  have "0 \<le> num_repr b" by (rule num_repr_nonneg [OF b(3,2)])
  from decimal_laws.compoundInterest_debt [OF dl b(1) this]
  obtain c q q' where c: "compoundInterest L r n referralFeeBps = Inr c" "getBorrowedAmount L (r_state r) = Fin q"
    "newDebt c = Fin q'" "q \<le> q'" "isFinite (newAccProtocolFees c)" "isFinite (pendingReferralFees c)"
    by blast
  then obtain x y where xy: "newAccProtocolFees c = Fin x" "pendingReferralFees c = Fin y" by (auto simp: isFinite_iff)
  show ?thesis
    using n c(1-4) xy
    by (cases "n = 0")
      (simp_all add: getEstimatedDebtAndSupply_def Let_def getTotalSupply_def getLiquidityAvailableAmount_def
        getAccumulatedProtocolFees_def getAccumulatedReferrerFees_def getPendingReferrerFees_def
        decimal_laws.sf_dec_Fin [OF dl])
qed

text \<open>
  C12. For a reserve with a well-formed curve and a supply that is not negative, the estimate of debt
  and supply at any slot succeeds with finite amounts, and the estimated debt is at least
  the debt of the last refresh: interest never lowers the debt.
\<close>

theorem estimated_debt_never_lowered:
  assumes "numlib_laws L" and "rates_ok L r" and "uint (lastUpdateSlot (r_state r)) < 2 ^ 53"
  shows "\<exists>d s. getEstimatedDebtAndSupply L r slot referralFeeBps = Inr (Fin d, Fin s) \<and>
    xle (getBorrowedAmount L (r_state r)) (Fin d)"
  by (rule estimated_debt [OF assms])

lemmas sample_defs = sample_state_def sample_config_def

lemma sample_supply: "\<exists>t. getTotalSupply decimal_js sample_state = Fin t \<and> 600000000 \<le> t"
proof -
  obtain q where q: "getBorrowedAmount decimal_js sample_state = Fin q" "0 \<le> q"
    using djs.borrowed_nonneg by blast
  have z: "sf_dec decimal_js 0 = Fin 0" by (simp add: djs.sf_dec_Fin)
  have m: "600000000 \<le> d_round decimal_js (600000000 + q)"
    using djs.d_mono [of 600000000 "600000000 + q"] djs.d_int [of 600000000] q(2) by simp
  have "getTotalSupply decimal_js sample_state = Fin (d_round decimal_js (600000000 + q))"
    unfolding getTotalSupply_def getAccumulatedProtocolFees_def getAccumulatedReferrerFees_def
      getPendingReferrerFees_def getLiquidityAvailableAmount_def q(1)
    by (simp add: sample_state_def z djs.d_idem)
  with m show ?thesis by simp
qed

lemma sample_init: "\<exists>d. r_initialize decimal_js 101 sample_state (Fin 1) (Fin 450) =
    Inr \<lparr>r_state = sample_state, r_address = 101, r_symbol = ''USDC'', oraclePrice = Fin 1, stats = d,
         recentSlotDurationMs = Fin 450\<rparr>"
proof -
  have tn: "bn_toNumber decimal_js n = Inr n" if "\<bar>n\<bar> < 2 ^ 53" for n
    using that by (rule djs.toNumber_safe)
  have sym: "parseTokenSymbol (map unat (ti_name (tokenInfo (config sample_state)))) = ''USDC''"
  proof -
    have "map unat (ti_name (tokenInfo (config sample_state))) = [85, 83, 68, 67] @ replicate 28 0"
      by (simp add: sample_defs)
    then show ?thesis by (simp add: parseTokenSymbol_def, code_simp)
  qed
  show ?thesis
    unfolding r_initialize_def sym formatReserveData_def getMintFactor_def
    by (simp add: sample_defs tn Let_def)
qed

lemma sample_reserve_simps:
  "r_state sample_reserve = sample_state" "recentSlotDurationMs sample_reserve = Fin 450"
  using sample_init by (auto simp: sample_reserve_def)

lemma replicate_9: "replicate 9 x = x # replicate 8 x"
  by (simp add: numeral_eq_Suc)

lemma points_from_end [simp]: "utilizationRateBps p = 10000 \<Longrightarrow> points_from p ps"
  by (cases ps) simp_all

lemma sample_points: "valid_points (borrowRateCurve (config sample_state))"
  by (simp add: sample_defs replicate_9)

lemma sample_rates_ok: "rates_ok decimal_js sample_reserve"
  using sample_supply by (auto simp: rates_ok_def sample_reserve_simps sample_points)

theorem estimated_debt_never_lowered_witness:
  "\<exists>d s. getEstimatedDebtAndSupply decimal_js sample_reserve 5000 100 = Inr (Fin d, Fin s) \<and>
    xle (getBorrowedAmount decimal_js (r_state sample_reserve)) (Fin d)"
  by (rule estimated_debt_never_lowered [OF numlib_laws_js sample_rates_ok])
    (simp add: sample_reserve_simps sample_state_def)

section \<open>Fees\<close>

text \<open>The fee before it is split: the rate applied to the amount, at least one lamport.\<close>

definition borrow_fee :: "num_lib \<Rightarrow> rat \<Rightarrow> rat \<Rightarrow> fee_calculation \<Rightarrow> rat" where
  "borrow_fee L amount rate fc =
     max (if fc = Exclusive then d_round L (amount * rate)
          else d_round L (amount * d_round L (rate / d_round L (rate + 1)))) 1"

context decimal_laws
begin

lemma borrow_fee_fixed: "d_round L (borrow_fee L amount rate fc) = borrow_fee L amount rate fc"
  by (auto simp: borrow_fee_def d_idem max_def)

lemma rate_plus_one: "0 < rate \<Longrightarrow> d_round L (rate + 1) \<noteq> 0"
  using d_ge_one [of "rate + 1"] by auto

lemma referral_share:
  assumes "1 \<le> fee" "d_round L fee = fee" "0 \<le> x" "x \<le> 1"
  shows "0 \<le> (of_int \<lfloor>d_round L (fee * x)\<rfloor> :: rat)" "of_int \<lfloor>d_round L (fee * x)\<rfloor> \<le> fee"
proof -
  have "fee * x \<le> fee * 1" using assms by (intro mult_left_mono) simp_all
  then have "d_round L (fee * x) \<le> fee" using d_le_fixed [of "fee * x" fee] assms(2) by simp
  moreover have "of_int \<lfloor>d_round L (fee * x)\<rfloor> \<le> d_round L (fee * x)" by simp
  ultimately show "of_int \<lfloor>d_round L (fee * x)\<rfloor> \<le> fee" by linarith
  show "0 \<le> (of_int \<lfloor>d_round L (fee * x)\<rfloor> :: rat)" using assms by (simp add: d_nonneg)
qed

end

text \<open>
  Borrow fees on a positive amount with a positive rate: the call throws exactly when the fee (at least one
  lamport) reaches the amount; otherwise the fee is split without loss, the referrer gets a
  non-negative part of at most the whole fee, nothing without a referrer, and the protocol the rest.
\<close>

lemma calculateFees_split:
  assumes "decimal_laws L" and "0 < amount" and "0 < rate" and "referralFeeBps \<le> 10000"
  shows "(case calculateFees L (Fin amount) (Fin rate) fc referralFeeBps hasReferrer of
      Inl e \<Rightarrow> e = Throw ''Borrow amount is too small to receive liquidity after fees'' \<and>
        amount \<le> borrow_fee L amount rate fc
    | Inr f \<Rightarrow> borrow_fee L amount rate fc < amount \<and>
        (\<exists>ref. referrerFees f = Fin ref \<and> 0 \<le> ref \<and> ref \<le> borrow_fee L amount rate fc \<and>
           protocolFees f = Fin (d_round L (borrow_fee L amount rate fc - ref)) \<and>
           0 \<le> d_round L (borrow_fee L amount rate fc - ref) \<and> (\<not> hasReferrer \<longrightarrow> ref = 0)))"
proof -
  define fee where "fee = borrow_fee L amount rate fc"
  define x where "x = d_round L (of_nat referralFeeBps / 10000)"
  have fee1: "1 \<le> fee" by (simp add: fee_def borrow_fee_def)
  have fixed: "d_round L fee = fee" unfolding fee_def by (rule decimal_laws.borrow_fee_fixed [OF assms(1)])
  have "rat_of_nat referralFeeBps \<le> of_nat 10000" using assms(4) by (simp only: of_nat_le_iff)
  then have x: "0 \<le> x" "x \<le> 1"
    unfolding x_def using decimal_laws.d_nonneg [OF assms(1)] decimal_laws.d_le_one [OF assms(1)] by simp_all
  note ref = decimal_laws.referral_share [OF assms(1) fee1 fixed x]
  have amt: "xmax (if fc = Exclusive then dmul L (Fin amount) (Fin rate)
      else dmul L (Fin amount) (ddiv L (Fin rate) (dadd L (Fin rate) (Fin 1)))) (Fin 1) = Fin fee"
    using decimal_laws.rate_plus_one [OF assms(1,3)] by (simp add: fee_def borrow_fee_def)
  have pos: "0 \<le> y \<Longrightarrow> y \<le> fee \<Longrightarrow> 0 \<le> d_round L (fee - y)" for y
    using decimal_laws.d_nonneg [OF assms(1)] by simp
  have calc: "calculateFees L (Fin amount) (Fin rate) fc referralFeeBps hasReferrer =
      (if amount \<le> fee then Inl (Throw ''Borrow amount is too small to receive liquidity after fees'')
       else let ref = (if 0 < x \<and> hasReferrer then if x = 1 then fee else of_int \<lfloor>d_round L (fee * x)\<rfloor> else 0)
            in Inr \<lparr>protocolFees = Fin (d_round L (fee - ref)), referrerFees = Fin ref\<rparr>)"
    unfolding calculateFees_def amt Let_def using assms(2,3)
    by (simp add: ONE_HUNDRED_PCT_IN_BPS_def x_def [symmetric])
  show ?thesis
    unfolding fee_def [symmetric] calc using ref pos fee1 fixed by (auto simp: Let_def)
qed

lemma calculateFees_split_sample:
  "calculateFees decimal_js (Fin 100) (Fin (1 / 10)) Exclusive 2000 True
    = Inr \<lparr>protocolFees = Fin 8, referrerFees = Fin 2\<rparr> \<and>
  borrow_fee decimal_js 100 (1 / 10) Exclusive < 100"
proof -
  have "calculateFees decimal_js (Fin 100) (Fin (1 / 10)) Exclusive 2000 True
    = Inr \<lparr>protocolFees = Fin 8, referrerFees = Fin 2\<rparr>"
  proof -
    have r: "d_round decimal_js (1 / 5) = 1 / 5" by code_simp
    show ?thesis
      using djs.d_int [of 10] djs.d_int [of 2] djs.d_int [of 8]
      by (simp add: calculateFees_def ONE_HUNDRED_PCT_IN_BPS_def Let_def r)
  qed
  with calculateFees_split [OF decimal_laws_js, of 100 "1 / 10" 2000 Exclusive True] show ?thesis by simp
qed

section \<open>Simulated utilization\<close>

text \<open>
  With a positive estimated supply, simulating a borrow never lowers and simulating
  a deposit never raises the estimated utilization of a reserve.
\<close>

lemma simulated_utilization_direction:
  assumes "decimal_laws L" and "getEstimatedDebtAndSupply L r slot bps = Inr (Fin d, Fin s)"
    and "0 \<le> d" and "0 < s" and "0 \<le> amount" and "d_round L d = d" and "d_round L s = s"
  shows "\<exists>u ub ud. getEstimatedUtilizationRatio L r slot bps = Inr u \<and>
    calcSimulatedUtilizationRatio L r (Fin amount) ABorrow slot bps out = Inr ub \<and>
    calcSimulatedUtilizationRatio L r (Fin amount) ADeposit slot bps out = Inr ud \<and>
    xle u ub \<and> xle ud u"
proof -
  have b: "d \<le> d_round L (d + amount)" "s \<le> d_round L (s + amount)"
    using decimal_laws.d_mono [OF assms(1), of d "d + amount"] decimal_laws.d_mono [OF assms(1), of s "s + amount"]
      assms(5-7) by simp_all
  have "d_round L (d / s) \<le> d_round L (d_round L (d + amount) / s)"
    using b(1) assms(4) by (intro decimal_laws.d_mono [OF assms(1)] divide_right_mono) simp_all
  moreover have "d_round L (d / d_round L (s + amount)) \<le> d_round L (d / s)"
    using b(2) assms(3,4) by (intro decimal_laws.d_mono [OF assms(1)] divide_left_mono) simp_all
  moreover have "d_round L (s + amount) \<noteq> 0" using b(2) assms(4) by linarith
  ultimately show ?thesis
    using assms(2,4) by (simp add: getEstimatedUtilizationRatio_def calcSimulatedUtilizationRatio_def b64_mono)
qed

lemma simulated_utilization_direction_sample:
  "\<exists>u ub ud. getEstimatedUtilizationRatio decimal_js sample_reserve 1000 0 = Inr u \<and>
    calcSimulatedUtilizationRatio decimal_js sample_reserve (Fin 5000000) ABorrow 1000 0 None = Inr ub \<and>
    calcSimulatedUtilizationRatio decimal_js sample_reserve (Fin 5000000) ADeposit 1000 0 None = Inr ud \<and>
    xle u ub \<and> xle ud u"
proof -
  obtain q where q: "getBorrowedAmount decimal_js sample_state = Fin q" "0 \<le> q" "d_round decimal_js q = q"
    using djs.borrowed_nonneg by blast
  obtain t where t: "getTotalSupply decimal_js sample_state = Fin t" "600000000 \<le> t" using sample_supply by blast
  have fixed: "d_round decimal_js t = t"
    using t(1) by (auto simp: getTotalSupply_def getLiquidityAvailableAmount_def getBorrowedAmount_def
      getAccumulatedProtocolFees_def getAccumulatedReferrerFees_def getPendingReferrerFees_def djs.sf_dec_Fin djs.d_idem)
  have "bn_toNumber decimal_js 1000 = Inr 1000" by (rule djs.toNumber_safe) simp
  moreover have "uint (lastUpdateSlot sample_state) = 1000" by (simp add: sample_state_def)
  ultimately have "getEstimatedDebtAndSupply decimal_js sample_reserve 1000 0 = Inr (Fin q, Fin t)"
    by (simp add: getEstimatedDebtAndSupply_def slots_elapsed_def sample_reserve_simps q(1) t(1))
  with fixed show ?thesis
    using simulated_utilization_direction [OF decimal_laws_js, of sample_reserve 1000 0 q t 5000000 None] q t(2) by simp
qed

end
