(* ===== verification/Market.thy ===== *)
theory Market
  imports Reserve_Rates
begin

text \<open>
  \<open>src/ts-client/src/classes/market.ts\<close>, the class \<open>KaminoMarket\<close>: reserve lookup, TVL, leverage
  of a pair, elevation groups, rates by reserve and the token ids of a Scope refresh; and the methods of
  \<open>KaminoReserve\<close> (\<open>classes/reserve.ts\<close>) that read the market: borrow caps, available liquidity and
  the maximal borrow against a collateral reserve. Loading from the chain is not modelled: a market
  is the lending-market account together with the hash map of its reserves.
\<close>

section \<open>The market\<close>

record elevation_group =
  eg_maxLiquidationBonusBps :: u16
  eg_id :: u8
  ltvPct :: u8
  eg_liquidationThresholdPct :: u8
  allowNewLoans :: u8
  eg_maxReservesAsCollateral :: u8
  eg_padding0 :: u8
  eg_debtReserve :: pubkey

record lending_market =
  lm_version :: u64
  bumpSeed :: u64
  lendingMarketOwner :: pubkey
  lendingMarketOwnerCached :: pubkey
  quoteCurrency :: "u8 list"
  referralFeeBps :: u16
  emergencyMode :: u8
  lm_autodeleverageEnabled :: u8
  borrowDisabled :: u8
  priceRefreshTriggerToMaxAgePct :: u8
  liquidationMaxDebtCloseFactorPct :: u8
  insolvencyRiskUnhealthyLtvPct :: u8
  minFullLiquidationValueThreshold :: u64
  maxLiquidatableDebtMarketValueAtOnce :: u64
  globalAllowedBorrowValue :: u64
  riskCouncil :: pubkey
  lm_elevationGroups :: "elevation_group list"
  minNetValueInObligationSf :: u128
  minValueSkipLiquidationLtvChecks :: u64
  lm_name :: "u8 list"
  minValueSkipLiquidationBfChecks :: u64
  individualAutodeleverageMarginCallPeriodSecs :: u64
  minInitialDepositAmount :: u64

record kamino_market =
  m_address :: pubkey
  m_state :: lending_market
  reserves :: "kamino_reserve pubkey_hash_map"
  reservesActive :: "kamino_reserve pubkey_hash_map"
  m_programId :: pubkey
  m_recentSlotDurationMs :: number

record elevation_group_description =
  collateralReserves :: pk_set
  collateralLiquidityMints :: pk_set
  debtReserve :: pubkey
  debtLiquidityMint :: pubkey
  elevationGroup :: nat
  maxReservesAsCollateral :: nat

record debt_cap =
  dc_collateralReserve :: pubkey
  dc_elevationGroup :: nat
  maxDebt :: decimal
  currentValue :: decimal

record borrow_caps =
  utilizationCap :: decimal
  utilizationCurrentValue :: decimal
  netWithdrawalCap :: decimal
  netWithdrawalCurrentValue :: decimal
  netWithdrawalLastUpdateTs :: decimal
  netWithdrawalIntervalDurationSeconds :: decimal
  globalDebtCap :: decimal
  globalTotalBorrowed :: decimal
  debtOutsideEmodeCap :: decimal
  borrowedOutsideEmode :: decimal
  debtAgainstCollateralReserveCaps :: "debt_cap list"

text \<open>\<open>filter\<close> with a predicate that may throw.\<close>

fun filterE :: "('a \<Rightarrow> bool result) \<Rightarrow> 'a list \<Rightarrow> 'a list result" where
  "filterE f [] = Inr []"
| "filterE f (x # xs) = bindE (f x) (\<lambda>b. bindE (filterE f xs) (\<lambda>ys. Inr (if b then x # ys else ys)))"

lemma filterE_pure: "(\<And>x. x \<in> set xs \<Longrightarrow> f x = Inr (P x)) \<Longrightarrow> filterE f xs = Inr (filter P xs)"
  by (induction xs) auto

text \<open>\<open>[...new Set(xs)]\<close>: the elements in order of first occurrence.\<close>

definition js_set :: "'a list \<Rightarrow> 'a list" where
  "js_set xs = rev (remdups (rev xs))"

definition getReservesActive :: "kamino_reserve pubkey_hash_map \<Rightarrow> kamino_reserve pubkey_hash_map" where
  "getReservesActive rs =
     foldl (\<lambda>m (key, r). if rc_status (config (r_state r)) = 0 then hm_set m key r else m) hm_empty (hm_entries rs)"

definition new_KaminoMarket ::
    "lending_market \<Rightarrow> pubkey \<Rightarrow> kamino_reserve pubkey_hash_map \<Rightarrow> number \<Rightarrow> pubkey \<Rightarrow> kamino_market" where
  "new_KaminoMarket st marketAddress rs slotDuration programId =
     \<lparr>m_address = marketAddress, m_state = st, reserves = rs, reservesActive = getReservesActive rs, m_programId = programId,
      m_recentSlotDurationMs = slotDuration\<rparr>"

definition getReserves :: "kamino_market \<Rightarrow> kamino_reserve list" where
  "getReserves mk = hm_values (reserves mk)"

definition getElevationGroup :: "kamino_market \<Rightarrow> nat \<Rightarrow> elevation_group option" where
  "getElevationGroup mk g = arr_get_pred (lm_elevationGroups (m_state mk)) g"

definition getMinNetValueObligation :: "num_lib \<Rightarrow> kamino_market \<Rightarrow> decimal" where
  "getMinNetValueObligation L mk = sf_dec L (minNetValueInObligationSf (m_state mk))"

definition getTotalDepositTVL :: "num_lib \<Rightarrow> kamino_market \<Rightarrow> decimal result" where
  "getTotalDepositTVL L mk =
     foldE (\<lambda>tvl r. bindE (getDepositTvl L r) (\<lambda>t. Inr (dadd L tvl t))) (Fin 0) (hm_values (reserves mk))"

definition getTotalBorrowTVL :: "num_lib \<Rightarrow> kamino_market \<Rightarrow> decimal result" where
  "getTotalBorrowTVL L mk =
     foldE (\<lambda>tvl r. bindE (getBorrowTvl L r) (\<lambda>t. Inr (dadd L tvl t))) (Fin 0) (hm_values (reserves mk))"

definition getReserveByAddress :: "kamino_market \<Rightarrow> pubkey \<Rightarrow> kamino_reserve option" where
  "getReserveByAddress mk address = hm_get (reserves mk) address"

definition getReserveByMint :: "kamino_market \<Rightarrow> pubkey \<Rightarrow> kamino_reserve option" where
  "getReserveByMint mk mint = List.find (\<lambda>r. getLiquidityMint (r_state r) = mint) (hm_values (reserves mk))"

definition getExistingReserveByMint :: "kamino_market \<Rightarrow> pubkey \<Rightarrow> kamino_reserve result" where
  "getExistingReserveByMint mk mint =
     (case getReserveByMint mk mint of
        None \<Rightarrow> Inl (Throw ''reserve with mint not found in market'') | Some r \<Rightarrow> Inr r)"

definition getReserveBySymbol :: "kamino_market \<Rightarrow> string \<Rightarrow> kamino_reserve option" where
  "getReserveBySymbol mk symbol = List.find (\<lambda>r. r_symbol r = symbol) (hm_values (reserves mk))"

definition getReserveMintBySymbol :: "kamino_market \<Rightarrow> string \<Rightarrow> pubkey option" where
  "getReserveMintBySymbol mk symbol = map_option (\<lambda>r. getLiquidityMint (r_state r)) (getReserveBySymbol mk symbol)"

section \<open>Leverage of a pair\<close>

text \<open>Elevation groups that both reserves share, that allow new loans and have a debt limit.\<close>

definition common_groups :: "kamino_market \<Rightarrow> kamino_reserve \<Rightarrow> kamino_reserve \<Rightarrow> u8 list result" where
  "common_groups mk collReserve debtRes =
     filterE (\<lambda>item.
       if item \<in> set (rc_elevationGroups (config (r_state debtRes))) \<and> item \<noteq> 0 then
         bindE (deref (getElevationGroup mk (unat item))) (\<lambda>g.
           if allowNewLoans g \<noteq> 0 then
             bindE (deref (arr_get_pred (borrowLimitAgainstThisCollateralInElevationGroup (config (r_state collReserve))) (unat item)))
               (\<lambda>w. Inr (uint w > 0))
           else Inr False)
       else Inr False)
     (js_set (rc_elevationGroups (config (r_state collReserve))))"

text \<open>The triple \<open>(maxLtv, liquidationLtv, borrowFactor)\<close>.\<close>

definition getMaxAndLiquidationLtvAndBorrowFactorForPair ::
    "num_lib \<Rightarrow> kamino_market \<Rightarrow> pubkey \<Rightarrow> pubkey \<Rightarrow> (number \<times> number \<times> number) result" where
  "getMaxAndLiquidationLtvAndBorrowFactorForPair L mk collTokenMint debtTokenMint =
     (case (getReserveByMint mk collTokenMint, getReserveByMint mk debtTokenMint) of
        (Some collReserve, Some debtRes) \<Rightarrow>
          bindE (common_groups mk collReserve debtRes) (\<lambda>common.
            let groups = filter (\<lambda>e. eg_id e \<in> set common) (lm_elevationGroups (m_state mk));
                cfg = config (r_state collReserve);
                maxCollateralLtv =
                  (if common = [] then unat (loanToValuePct cfg)
                   else foldl (\<lambda>acc e. max acc (unat (ltvPct e))) 0 groups);
                liquidationLtv =
                  (if common = [] then unat (liquidationThresholdPct cfg)
                   else foldl (\<lambda>acc e. max acc (unat (eg_liquidationThresholdPct e))) 0 groups)
            in bindE (if common = []
                      then bindE (bn_toNumber L (uint (borrowFactorPct (config (r_state debtRes)))))
                             (\<lambda>bf. Inr (ndiv (dint bf) (Fin 100)))
                      else Inr (Fin 1)) (\<lambda>borrowFactor.
                 Inr (ndiv (dnat maxCollateralLtv) (Fin 100), ndiv (dnat liquidationLtv) (Fin 100), borrowFactor)))
      | _ \<Rightarrow> Inl (Throw ''Could not find one of the reserves.''))"

definition getMaxLeverageForPair :: "num_lib \<Rightarrow> kamino_market \<Rightarrow> pubkey \<Rightarrow> pubkey \<Rightarrow> number result" where
  "getMaxLeverageForPair L mk collTokenMint debtTokenMint =
     bindE (getMaxAndLiquidationLtvAndBorrowFactorForPair L mk collTokenMint debtTokenMint) (\<lambda>(maxLtv, _, borrowFactor).
       Inr (ndiv (Fin 1) (nsub (Fin 1) (ndiv (nmul maxLtv (Fin 100)) (nmul borrowFactor (Fin 100))))))"

section \<open>Elevation groups\<close>

definition partial_description :: "elevation_group \<Rightarrow> elevation_group_description" where
  "partial_description g =
     \<lparr>collateralReserves = pks_new [], collateralLiquidityMints = pks_new [], debtReserve = eg_debtReserve g,
      debtLiquidityMint = default_pubkey, elevationGroup = unat (eg_id g),
      maxReservesAsCollateral = unat (eg_maxReservesAsCollateral g)\<rparr>"

text \<open>One iteration of the inner loop: reserve \<open>r\<close> lists the elevation group \<open>g\<close>.\<close>

definition fill_group ::
    "kamino_reserve \<Rightarrow> elevation_group_description list \<Rightarrow> u8 \<Rightarrow> elevation_group_description list result" where
  "fill_group r ds g =
     (if g = 0 then Inr ds
      else case arr_get_pred ds (unat g) of
        None \<Rightarrow> Inl (Throw ''Invalid elevation group id'')
      | Some d \<Rightarrow>
          if r_address r = debtReserve d
          then Inr (ds[unat g - 1 := d\<lparr>debtLiquidityMint := getLiquidityMint (r_state r)\<rparr>])
          else Inr (ds[unat g - 1 :=
                 d\<lparr>collateralReserves := pks_add (collateralReserves d) (r_address r),
                   collateralLiquidityMints := pks_add (collateralLiquidityMints d) (getLiquidityMint (r_state r))\<rparr>]))"

definition getMarketElevationGroupDescriptions :: "kamino_market \<Rightarrow> elevation_group_description list result" where
  "getMarketElevationGroupDescriptions mk =
     foldE (\<lambda>ds r. foldE (fill_group r) ds (rc_elevationGroups (config (r_state r))))
       (map partial_description (filter (\<lambda>g. eg_id g \<noteq> 0) (lm_elevationGroups (m_state mk))))
       (hm_values (reserves mk))"

definition getExistingElevationGroup :: "kamino_market \<Rightarrow> nat \<Rightarrow> elevation_group_description option result" where
  "getExistingElevationGroup mk g =
     (if g = 0 then Inr None
      else bindE (getMarketElevationGroupDescriptions mk) (\<lambda>ds.
        case List.find (\<lambda>d. elevationGroup d = g) ds of
          None \<Rightarrow> Inl (Throw ''elevation group not found in market'') | Some d \<Rightarrow> Inr (Some d)))"

definition getElevationGroupsForMintsCombination ::
    "kamino_market \<Rightarrow> pubkey list \<Rightarrow> pubkey option \<Rightarrow> elevation_group_description list result" where
  "getElevationGroupsForMintsCombination mk collLiquidityMints debtMint =
     bindE (getMarketElevationGroupDescriptions mk) (\<lambda>ds.
       Inr (filter (\<lambda>d. list_all (pks_contains (collateralLiquidityMints d)) collLiquidityMints \<and>
                        (case debtMint of None \<Rightarrow> True | Some m \<Rightarrow> m = debtLiquidityMint d)) ds))"

definition getElevationGroupsForReservesCombination ::
    "kamino_market \<Rightarrow> pubkey list \<Rightarrow> pubkey option \<Rightarrow> elevation_group_description list result" where
  "getElevationGroupsForReservesCombination mk collReserves debtRes =
     bindE (getMarketElevationGroupDescriptions mk) (\<lambda>ds.
       Inr (filter (\<lambda>d. list_all (pks_contains (collateralReserves d)) collReserves \<and>
                        (case debtRes of None \<Rightarrow> True | Some m \<Rightarrow> m = debtReserve d)) ds))"

section \<open>Rates by reserve\<close>

definition getCumulativeBorrowRatesByReserve :: "num_lib \<Rightarrow> kamino_market \<Rightarrow> nat \<Rightarrow> decimal pubkey_hash_map result" where
  "getCumulativeBorrowRatesByReserve L mk slot =
     foldE (\<lambda>m r. bindE (getEstimatedCumulativeBorrowRate L r slot (unat (referralFeeBps (m_state mk)))) (\<lambda>d.
              Inr (hm_set m (r_address r) d)))
       hm_empty (hm_values (reserves mk))"

definition getCollateralExchangeRatesByReserve :: "num_lib \<Rightarrow> kamino_market \<Rightarrow> nat \<Rightarrow> decimal pubkey_hash_map result" where
  "getCollateralExchangeRatesByReserve L mk slot =
     foldE (\<lambda>m r. bindE (getEstimatedCollateralExchangeRate L r slot (unat (referralFeeBps (m_state mk)))) (\<lambda>d.
              Inr (hm_set m (r_address r) d)))
       hm_empty (hm_values (reserves mk))"

section \<open>Scope refresh\<close>

definition U16_MAX :: u16 where "U16_MAX = 65535"

text \<open>
  The \<open>while\<close> loop over a price chain. Past the end of the array the entry is \<open>undefined\<close>, which is
  not \<open>U16_MAX\<close>: the loop goes on forever, which is the value \<open>None\<close> of the partial function.
\<close>

partial_function (option) chain_loop :: "u16 list \<Rightarrow> nat \<Rightarrow> u16 option list \<Rightarrow> u16 option list option" where
  "chain_loop chain x tokenIds =
     (if arr_get chain x = Some U16_MAX then Some tokenIds
      else chain_loop chain (x + 1) (tokenIds @ [arr_get chain x]))"

text \<open>\<open>None\<close> when a loop does not end.\<close>

fun scope_token_ids :: "kamino_market \<Rightarrow> pubkey list \<Rightarrow> u16 option list \<Rightarrow> u16 option list result option" where
  "scope_token_ids mk [] tokenIds = Some (Inr tokenIds)"
| "scope_token_ids mk (a # as) tokenIds =
     (case getReserveByAddress mk a of
        None \<Rightarrow> Some (Inl (Throw ''Reserve not found for reserve''))
      | Some r \<Rightarrow>
          let sc = scopeConfiguration (tokenInfo (config (r_state r)))
          in if priceFeed sc = default_pubkey then scope_token_ids mk as tokenIds
             else case chain_loop (priceChain sc) 0 tokenIds of
                    None \<Rightarrow> None
                  | Some ids \<Rightarrow>
                      (case chain_loop (twapChain sc) 0 ids of
                         None \<Rightarrow> None
                       | Some ids' \<Rightarrow> scope_token_ids mk as ids'))"

definition getTokenIdsForScopeRefresh :: "kamino_market \<Rightarrow> pubkey list \<Rightarrow> u16 option list result option" where
  "getTokenIdsForScopeRefresh mk rs = scope_token_ids mk rs []"

section \<open>Borrow caps of a reserve\<close>

definition group_caps :: "kamino_market \<Rightarrow> elevation_group_description \<Rightarrow> debt_cap list result" where
  "group_caps mk d =
     mapE (\<lambda>a.
       bindE (deref (hm_get (reserves mk) a)) (\<lambda>collRes.
       bindE (deref (arr_get_pred (borrowLimitAgainstThisCollateralInElevationGroup (config (r_state collRes))) (elevationGroup d))) (\<lambda>limit.
       bindE (deref (arr_get_pred (borrowedAmountsAgainstThisReserveInElevationGroups (r_state collRes)) (elevationGroup d))) (\<lambda>counter.
         Inr \<lparr>dc_collateralReserve = r_address collRes, dc_elevationGroup = elevationGroup d,
              maxDebt = dint (uint limit), currentValue = dint (uint counter)\<rparr>))))
     (pks_toArray (collateralReserves d))"

definition getBorrowCapForReserve :: "num_lib \<Rightarrow> kamino_market \<Rightarrow> kamino_reserve \<Rightarrow> borrow_caps result" where
  "getBorrowCapForReserve L mk r =
     (let st = r_state r; cfg = config st; cap = utilizationLimitBlockBorrowingAbovePct cfg; wc = debtWithdrawalCap cfg in
      bindE (getMarketElevationGroupDescriptions mk) (\<lambda>ds.
      bindE (mapE (group_caps mk) (filter (\<lambda>d. debtReserve d = r_address r) ds)) (\<lambda>capss.
        Inr \<lparr>utilizationCap = dec_of_num (if uint cap > 0 then ndiv (dint (uint cap)) (Fin 100) else Fin 1),
             utilizationCurrentValue = dec_of_num (calculateUtilizationRatio L st),
             netWithdrawalCap = dint (sint (configCapacity wc)),
             netWithdrawalCurrentValue = dint (sint (currentTotal wc)),
             netWithdrawalLastUpdateTs = dint (uint (lastIntervalStartTimestamp wc)),
             netWithdrawalIntervalDurationSeconds = dint (uint (configIntervalLengthSeconds wc)),
             globalDebtCap = dint (uint (borrowLimit cfg)),
             globalTotalBorrowed = getBorrowedAmount L st,
             debtOutsideEmodeCap = dint (uint (borrowLimitOutsideElevationGroup cfg)),
             borrowedOutsideEmode = getBorrowedAmountOutsideElevationGroup st,
             debtAgainstCollateralReserveCaps = concat capss\<rparr>)))"

definition remaining_in_group :: "num_lib \<Rightarrow> borrow_caps \<Rightarrow> pubkey list \<Rightarrow> nat \<Rightarrow> decimal" where
  "remaining_in_group L caps collReserves g =
     (let capsGivenEgroup = filter (\<lambda>x. dc_elevationGroup x = g) (debtAgainstCollateralReserveCaps caps)
      in if capsGivenEgroup \<noteq> []
         then xmin_list (map (\<lambda>x. if dc_collateralReserve x \<in> set collReserves
                                  then dsub L (maxDebt x) (currentValue x) else dint U64_MAX) capsGivenEgroup)
         else Fin 0)"

definition liquidityGivenUtilizationCap :: "num_lib \<Rightarrow> borrow_caps \<Rightarrow> reserve \<Rightarrow> decimal" where
  "liquidityGivenUtilizationCap L caps st =
     dmul L (getTotalSupply L st) (dsub L (utilizationCap caps) (dec_of_num (calculateUtilizationRatio L st)))"

definition remainingDailyCap :: "num_lib \<Rightarrow> borrow_caps \<Rightarrow> decimal" where
  "remainingDailyCap L caps =
     (if xeq (netWithdrawalIntervalDurationSeconds caps) (Fin 0) then dint U64_MAX
      else dsub L (netWithdrawalCap caps) (netWithdrawalCurrentValue caps))"

definition getLiquidityAvailableForDebtReserveGivenCaps ::
    "num_lib \<Rightarrow> kamino_market \<Rightarrow> kamino_reserve \<Rightarrow> nat list \<Rightarrow> pubkey list \<Rightarrow> decimal list result" where
  "getLiquidityAvailableForDebtReserveGivenCaps L mk r elevationGroups collReserves =
     bindE (getBorrowCapForReserve L mk r) (\<lambda>caps.
       let liquidityAvailable = getLiquidityAvailableAmount (r_state r);
           underUtilizationCap = liquidityGivenUtilizationCap L caps (r_state r);
           dailyCap = remainingDailyCap L caps;
           remainingGlobalCap = dsub L (globalDebtCap caps) (globalTotalBorrowed caps);
           remainingOutsideEmodeCap = dsub L (debtOutsideEmodeCap caps) (borrowedOutsideEmode caps)
       in Inr (map (\<lambda>g.
            if g = 0
            then xmin_list [positiveOrZero liquidityAvailable, positiveOrZero remainingOutsideEmodeCap,
                   positiveOrZero dailyCap, positiveOrZero remainingGlobalCap, positiveOrZero underUtilizationCap]
            else xmin_list [positiveOrZero liquidityAvailable, positiveOrZero (remaining_in_group L caps collReserves g),
                   positiveOrZero dailyCap, positiveOrZero remainingGlobalCap, positiveOrZero underUtilizationCap])
          elevationGroups))"

section \<open>Maximal borrow against a collateral reserve\<close>

text \<open>The elevation group with the greatest LTV among the common ones whose debt reserve is this reserve; 0 for none.\<close>

definition emode_group :: "kamino_market \<Rightarrow> kamino_reserve \<Rightarrow> kamino_reserve \<Rightarrow> u8 result" where
  "emode_group mk r collReserve =
     (let groups = lm_elevationGroups (m_state mk);
          find_group = (\<lambda>i. List.find (\<lambda>g. eg_id g = i) groups) in
      bindE (filterE (\<lambda>item.
               if item \<in> set (rc_elevationGroups (config (r_state r))) \<and> item \<noteq> 0
               then bindE (deref (arr_get_pred groups (unat item))) (\<lambda>g. Inr (eg_debtReserve g = r_address r))
               else Inr False)
             (rc_elevationGroups (config (r_state collReserve)))) (\<lambda>common.
        case common of
          [] \<Rightarrow> Inr 0
        | c # cs \<Rightarrow>
            bindE (foldE (\<lambda>prev curr.
                     bindE (deref (find_group prev)) (\<lambda>p.
                     bindE (deref (find_group curr)) (\<lambda>q. Inr (if ltvPct p > ltvPct q then prev else curr)))) c cs) (\<lambda>best.
              bindE (deref (find_group best)) (\<lambda>g. Inr (eg_id g)))))"

definition getMaxBorrowAmountWithCollReserve ::
    "num_lib \<Rightarrow> kamino_market \<Rightarrow> kamino_reserve \<Rightarrow> kamino_reserve \<Rightarrow> nat \<Rightarrow> decimal result" where
  "getMaxBorrowAmountWithCollReserve L mk r collReserve slot =
     bindE (emode_group mk r collReserve) (\<lambda>eModeGroup.
     bindE (getDebtWithdrawalCapCurrent L (r_state r) slot) (\<lambda>capCurrent.
       let st = r_state r; cfg = config st;
           elevationGroupActivated = (eModeGroup \<in> set (rc_elevationGroups cfg) \<and> eModeGroup \<noteq> 0);
           borrowCapRemained = dsub L (reserveBorrowLimit (stats r)) (getBorrowedAmount L st);
           max1 = xmin (getLiquidityAvailableAmount st) borrowCapRemained;
           debtCap = dsub L (getDebtWithdrawalCapCapacity st) capCurrent;
           max2 = (if xgt (getDebtWithdrawalCapCapacity st) (Fin 0) then xmin max1 debtCap else max1);
           feeRate = ddiv L (getBorrowFee L st) (dadd L (getBorrowFee L st) (Fin 1));
           max3 = dsub L max2 (dmul L max2 feeRate);
           limit = ndiv (dint (uint (utilizationLimitBlockBorrowingAbovePct cfg))) (Fin 100);
           current = calculateUtilizationRatio L st
       in if xgt limit (Fin 0) \<and> xgt current limit then Inr (Fin 0)
          else
            let max4 = (if xgt limit (Fin 0) \<and> xlt current limit
                        then xmin max3 (dmul L (dec_of_num (nsub limit current)) (getTotalSupply L st)) else max3)
            in bindE (if \<not> elevationGroupActivated
                      then Inr (dsub L (getBorrowLimitOutsideElevationGroup st) (getBorrowedAmountOutsideElevationGroup st))
                      else
                        bindE (getBorrowLimitAgainstCollateralInElevationGroup (r_state collReserve) (unat eModeGroup - 1)) (\<lambda>lim.
                        bindE (getBorrowedAmountAgainstCollateralInElevationGroup (r_state collReserve) (unat eModeGroup - 1)) (\<lambda>cur.
                          Inr (xmax (Fin 0) (xmin (dsub L lim cur) (dint U64_MAX)))))) (\<lambda>groupLimit.
                 Inr (xmax (Fin 0) (xmin max4 groupLimit)))))"

section \<open>Price chains\<close>

lemma chain_loop_returns:
  "i \<le> length chain \<Longrightarrow> U16_MAX \<in> set (drop i chain) \<Longrightarrow>
    chain_loop chain i acc = Some (acc @ map Some (takeWhile (\<lambda>w. w \<noteq> U16_MAX) (drop i chain)))"
proof (induction "length chain - i" arbitrary: i acc)
  case 0
  then show ?case by simp
next
  case (Suc n)
  then have i: "i < length chain" by simp
  then have d: "drop i chain = chain ! i # drop (i + 1) chain" using Cons_nth_drop_Suc by fastforce
  have g: "arr_get chain i = Some (chain ! i)" using i by simp
  show ?case
  proof (cases "chain ! i = U16_MAX")
    case True
    then show ?thesis by (subst chain_loop.simps) (simp add: g d)
  next
    case False
    then have "U16_MAX \<in> set (drop (i + 1) chain)" using Suc.prems(2) by (simp add: d)
    then have "chain_loop chain (i + 1) (acc @ [Some (chain ! i)]) =
        Some ((acc @ [Some (chain ! i)]) @ map Some (takeWhile (\<lambda>w. w \<noteq> U16_MAX) (drop (i + 1) chain)))"
      using Suc.hyps(2) i by (intro Suc.hyps(1)) simp_all
    with False show ?thesis by (subst chain_loop.simps) (simp add: g d)
  qed
qed

lemma chain_loop_needs_end:
  assumes "chain_loop chain i acc = Some r" shows "U16_MAX \<in> set chain"
proof (rule chain_loop.raw_induct [where P = "\<lambda>chain i acc r. U16_MAX \<in> set chain" and xa = "((chain, i), acc)" and y = r,
      unfolded prod.case])
  fix loop :: "u16 list \<Rightarrow> nat \<Rightarrow> u16 option list \<Rightarrow> u16 option list option" and chain i acc r
  assume "\<And>chain i acc r. loop chain i acc = Some r \<Longrightarrow> U16_MAX \<in> set chain"
    and "(if arr_get chain i = Some U16_MAX then Some acc else loop chain (i + 1) (acc @ [arr_get chain i])) = Some r"
  then show "U16_MAX \<in> set chain"
    by (cases "arr_get chain i = Some U16_MAX") (auto dest: nth_mem)
qed (rule assms)

text \<open>
  C32. The loop over a price chain returns exactly when the chain holds the end mark \<open>U16_MAX\<close>, and
  then appends the entries before the first mark; on a chain that uses all its entries it never
  returns.
\<close>

theorem chain_loop_spec:
  "chain_loop chain 0 acc =
    (if U16_MAX \<in> set chain then Some (acc @ map Some (takeWhile (\<lambda>w. w \<noteq> U16_MAX) chain)) else None)"
  using chain_loop_returns [of 0 chain acc] chain_loop_needs_end [of chain 0 acc]
  by (cases "chain_loop chain 0 acc") auto

section \<open>Rates by reserve\<close>

definition market_wf :: "kamino_market \<Rightarrow> bool" where
  "market_wf mk \<longleftrightarrow> hm_inv (reserves mk) \<and> (\<forall>k r. hm_get (reserves mk) k = Some r \<longrightarrow> r_address r = k)"

lemma market_wf_values:
  "market_wf mk \<Longrightarrow> r \<in> set (hm_values (reserves mk)) \<longleftrightarrow> hm_get (reserves mk) (r_address r) = Some r"
  using hm_values_iff [of "reserves mk" r] by (auto simp: market_wf_def)

text \<open>A loop that sets the entry of each reserve's address to a computed value.\<close>

lemma rate_map_fold:
  assumes "foldE (\<lambda>m r. bindE (f r) (\<lambda>d. Inr (hm_set m (r_address r) d))) m0 rs = Inr m" "hm_inv m0"
  shows "hm_inv m \<and> (\<forall>k. k \<notin> r_address ` set rs \<longrightarrow> hm_get m k = hm_get m0 k) \<and>
    (\<forall>r\<in>set rs. \<exists>r'\<in>set rs. r_address r' = r_address r \<and> (\<exists>d. f r' = Inr d \<and> hm_get m (r_address r) = Some d))"
  using assms
proof (induction rs arbitrary: m0)
  case Nil
  then show ?case by simp
next
  case (Cons r rs)
  then obtain d where d: "f r = Inr d" "foldE (\<lambda>m r. bindE (f r) (\<lambda>d. Inr (hm_set m (r_address r) d))) (hm_set m0 (r_address r) d) rs = Inr m"
    by (auto simp: bindE_Inr_iff)
  have inv: "hm_inv (hm_set m0 (r_address r) d)" using Cons.prems(2) by (rule hm_inv_set)
  note IH = Cons.IH [OF d(2) inv]
  have get: "hm_get (hm_set m0 (r_address r) d) k = (if k = r_address r then Some d else hm_get m0 k)" for k
    by (rule hm_get_set)
  have "\<exists>r'\<in>set (r # rs). r_address r' = r_address r \<and> (\<exists>d. f r' = Inr d \<and> hm_get m (r_address r) = Some d)"
  proof (cases "r_address r \<in> r_address ` set rs")
    case True
    then show ?thesis using IH by (metis imageE list.set_intros(2))
  next
    case False
    then show ?thesis using IH get d(1) by auto
  qed
  then show ?case using IH get by auto
qed

section \<open>Elevation-group descriptions\<close>

lemma fill_group_ok:
  "(\<exists>ds'. fill_group r ds g = Inr ds') \<longleftrightarrow> unat g \<le> length ds"
  using unat_eq_zero [of g]
  by (cases "g = 0") (auto simp: fill_group_def arr_get_pred_def split: option.splits)

lemma fill_group_step:
  assumes "fill_group r ds g = Inr ds'"
  shows "length ds' = length ds \<and> (\<forall>i<length ds.
    debtReserve (ds' ! i) = debtReserve (ds ! i) \<and> elevationGroup (ds' ! i) = elevationGroup (ds ! i) \<and>
    set (collateralReserves (ds' ! i)) = set (collateralReserves (ds ! i)) \<union>
      (if unat g = i + 1 \<and> r_address r \<noteq> debtReserve (ds ! i) then {r_address r} else {}))"
proof (cases "g = 0")
  case True
  then show ?thesis using assms by (simp add: fill_group_def)
next
  case False
  then have "unat g \<noteq> 0" by (simp add: unat_eq_zero)
  then obtain n where n: "unat g = Suc n" using not0_implies_Suc by blast
  have "n < length ds" using assms False n by (auto simp: fill_group_def arr_get_pred_def split: option.splits)
  with assms False n show ?thesis
    by (auto simp: fill_group_def arr_get_pred_def arr_get_def nth_list_update pks_add_set split: if_splits)
qed

lemma fill_groups_step:
  assumes "foldE (fill_group r) ds gs = Inr ds'"
  shows "length ds' = length ds \<and> (\<forall>i<length ds.
    debtReserve (ds' ! i) = debtReserve (ds ! i) \<and> elevationGroup (ds' ! i) = elevationGroup (ds ! i) \<and>
    set (collateralReserves (ds' ! i)) = set (collateralReserves (ds ! i)) \<union>
      (if (\<exists>g\<in>set gs. unat g = i + 1) \<and> r_address r \<noteq> debtReserve (ds ! i) then {r_address r} else {}))"
  using assms
proof (induction gs arbitrary: ds)
  case Nil
  then show ?case by simp
next
  case (Cons g gs)
  then obtain d1 where d1: "fill_group r ds g = Inr d1" "foldE (fill_group r) d1 gs = Inr ds'"
    by (auto simp: bindE_Inr_iff)
  show ?case using fill_group_step [OF d1(1)] Cons.IH [OF d1(2)] by (auto split: if_splits)
qed

lemma fill_groups_ok: "(\<exists>ds'. foldE (fill_group r) ds gs = Inr ds') \<longleftrightarrow> (\<forall>g\<in>set gs. unat g \<le> length ds)"
proof (induction gs arbitrary: ds)
  case (Cons g gs)
  show ?case
  proof (cases "fill_group r ds g")
    case (Inl e)
    then show ?thesis using fill_group_ok [of r ds g] by simp
  next
    case (Inr d1)
    then show ?thesis using fill_group_ok [of r ds g] fill_group_step [OF Inr] Cons.IH [of d1] by simp
  qed
qed simp

abbreviation reserve_groups :: "kamino_reserve \<Rightarrow> u8 list" where
  "reserve_groups r \<equiv> rc_elevationGroups (config (r_state r))"

lemma fill_all_step:
  assumes "foldE (\<lambda>ds r. foldE (fill_group r) ds (reserve_groups r)) ds rs = Inr ds'"
  shows "length ds' = length ds \<and> (\<forall>i<length ds.
    debtReserve (ds' ! i) = debtReserve (ds ! i) \<and> elevationGroup (ds' ! i) = elevationGroup (ds ! i) \<and>
    set (collateralReserves (ds' ! i)) = set (collateralReserves (ds ! i)) \<union>
      {r_address r |r. r \<in> set rs \<and> (\<exists>g\<in>set (reserve_groups r). unat g = i + 1) \<and> r_address r \<noteq> debtReserve (ds ! i)})"
  using assms
proof (induction rs arbitrary: ds)
  case Nil
  then show ?case by simp
next
  case (Cons r rs)
  then obtain d1 where d1: "foldE (fill_group r) ds (reserve_groups r) = Inr d1"
    "foldE (\<lambda>ds r. foldE (fill_group r) ds (reserve_groups r)) d1 rs = Inr ds'"
    by (auto simp: bindE_Inr_iff)
  show ?case using fill_groups_step [OF d1(1)] Cons.IH [OF d1(2)] by (auto split: if_splits)
qed

lemma fill_all_ok:
  "(\<exists>ds'. foldE (\<lambda>ds r. foldE (fill_group r) ds (reserve_groups r)) ds rs = Inr ds') \<longleftrightarrow>
    (\<forall>r\<in>set rs. \<forall>g\<in>set (reserve_groups r). unat g \<le> length ds)"
proof (induction rs arbitrary: ds)
  case (Cons r rs)
  show ?case
  proof (cases "foldE (fill_group r) ds (reserve_groups r)")
    case (Inl e)
    then show ?thesis using fill_groups_ok [of r ds "reserve_groups r"] by simp
  next
    case (Inr d1)
    then show ?thesis using fill_groups_ok [of r ds "reserve_groups r"] fill_groups_step [OF Inr] Cons.IH [of d1] by simp
  qed
qed simp

text \<open>The groups of the market in the order of their descriptions.\<close>

definition described_groups :: "kamino_market \<Rightarrow> elevation_group list" where
  "described_groups mk = filter (\<lambda>g. eg_id g \<noteq> 0) (lm_elevationGroups (m_state mk))"

lemma descriptions_spec:
  "(case getMarketElevationGroupDescriptions mk of
      Inl e \<Rightarrow> \<exists>r\<in>set (getReserves mk). \<exists>g\<in>set (reserve_groups r). length (described_groups mk) < unat g
    | Inr ds \<Rightarrow> (\<forall>r\<in>set (getReserves mk). \<forall>g\<in>set (reserve_groups r). unat g \<le> length (described_groups mk)) \<and>
        length ds = length (described_groups mk) \<and>
        (\<forall>i<length ds. elevationGroup (ds ! i) = unat (eg_id (described_groups mk ! i)) \<and>
           debtReserve (ds ! i) = eg_debtReserve (described_groups mk ! i) \<and>
           set (collateralReserves (ds ! i)) =
             {r_address r |r. r \<in> set (getReserves mk) \<and> (\<exists>g\<in>set (reserve_groups r). unat g = i + 1) \<and>
                r_address r \<noteq> debtReserve (ds ! i)}))"
proof -
  define ds0 where "ds0 = map partial_description (described_groups mk)"
  have eq: "getMarketElevationGroupDescriptions mk =
      foldE (\<lambda>ds r. foldE (fill_group r) ds (reserve_groups r)) ds0 (getReserves mk)"
    by (simp add: getMarketElevationGroupDescriptions_def ds0_def described_groups_def getReserves_def)
  have ok: "(\<exists>ds. getMarketElevationGroupDescriptions mk = Inr ds) \<longleftrightarrow>
      (\<forall>r\<in>set (getReserves mk). \<forall>g\<in>set (reserve_groups r). unat g \<le> length ds0)"
    unfolding eq by (rule fill_all_ok)
  have len: "length ds0 = length (described_groups mk)" by (simp add: ds0_def)
  show ?thesis
  proof (cases "getMarketElevationGroupDescriptions mk")
    case (Inl e)
    then have "\<not> (\<forall>r\<in>set (getReserves mk). \<forall>g\<in>set (reserve_groups r). unat g \<le> length ds0)" using ok by simp
    then show ?thesis by (simp add: Inl len not_le)
  next
    case (Inr ds)
    then have all: "\<forall>r\<in>set (getReserves mk). \<forall>g\<in>set (reserve_groups r). unat g \<le> length ds0" using ok by blast
    have base: "i < length ds0 \<Longrightarrow> elevationGroup (ds0 ! i) = unat (eg_id (described_groups mk ! i)) \<and>
        debtReserve (ds0 ! i) = eg_debtReserve (described_groups mk ! i) \<and> collateralReserves (ds0 ! i) = []" for i
      by (simp add: ds0_def partial_description_def pks_new_def)
    have step: "length ds = length ds0"
      "i < length ds0 \<Longrightarrow> debtReserve (ds ! i) = debtReserve (ds0 ! i) \<and> elevationGroup (ds ! i) = elevationGroup (ds0 ! i) \<and>
        set (collateralReserves (ds ! i)) = set (collateralReserves (ds0 ! i)) \<union>
          {r_address r |r. r \<in> set (getReserves mk) \<and> (\<exists>g\<in>set (reserve_groups r). unat g = i + 1) \<and>
             r_address r \<noteq> debtReserve (ds0 ! i)}" for i
      using fill_all_step [OF Inr [unfolded eq]] by blast+
    show ?thesis
      unfolding Inr sum.case
      by (intro conjI all [unfolded len] allI impI) (use step base len in auto)
  qed
qed

text \<open>
  The descriptions of elevation groups exist exactly when no reserve lists a group number above
  the number of non-default groups; then there is one description per non-default group, in account order, with the group's
  id and debt reserve, and the collateral reserves of the description at position \<open>i\<close> are the reserves
  that list \<open>i + 1\<close>, except the debt reserve.
\<close>

lemma elevation_group_descriptions:
  "(case getMarketElevationGroupDescriptions mk of
      Inl e \<Rightarrow> \<exists>r\<in>set (getReserves mk). \<exists>g\<in>set (reserve_groups r). length (described_groups mk) < unat g
    | Inr ds \<Rightarrow> (\<forall>r\<in>set (getReserves mk). \<forall>g\<in>set (reserve_groups r). unat g \<le> length (described_groups mk)) \<and>
        length ds = length (described_groups mk) \<and>
        (\<forall>i<length ds. elevationGroup (ds ! i) = unat (eg_id (described_groups mk ! i)) \<and>
           debtReserve (ds ! i) = eg_debtReserve (described_groups mk ! i) \<and>
           set (collateralReserves (ds ! i)) =
             {r_address r |r. r \<in> set (getReserves mk) \<and> (\<exists>g\<in>set (reserve_groups r). unat g = i + 1) \<and>
                r_address r \<noteq> debtReserve (ds ! i)}))"
  by (rule descriptions_spec)

section \<open>A sample market\<close>

text \<open>A market with the sample reserve (address 101) and a second reserve (address 102) that is its collateral in group 1.\<close>

definition sample_coll :: kamino_reserve where
  "sample_coll = sample_reserve\<lparr>r_address := 102,
     r_state := sample_state\<lparr>liquidity := (liquidity sample_state)\<lparr>rl_mintPubkey := 21\<rparr>\<rparr>\<rparr>"

definition sample_groups :: "elevation_group list" where
  "sample_groups =
     [\<lparr>eg_maxLiquidationBonusBps = 300, eg_id = 1, ltvPct = 90, eg_liquidationThresholdPct = 92, allowNewLoans = 1, eg_maxReservesAsCollateral = 2, eg_padding0 = 0, eg_debtReserve = 101\<rparr>,
      \<lparr>eg_maxLiquidationBonusBps = 300, eg_id = 2, ltvPct = 85, eg_liquidationThresholdPct = 88, allowNewLoans = 1, eg_maxReservesAsCollateral = 2, eg_padding0 = 0, eg_debtReserve = 102\<rparr>]"

definition sample_market :: kamino_market where
  "sample_market =
     new_KaminoMarket
       \<lparr>lm_version = 1, bumpSeed = 254, lendingMarketOwner = 3, lendingMarketOwnerCached = 3, quoteCurrency = [85, 83, 68] @ replicate 29 0,
        referralFeeBps = 1500, emergencyMode = 0, lm_autodeleverageEnabled = 1, borrowDisabled = 0, priceRefreshTriggerToMaxAgePct = 0,
        liquidationMaxDebtCloseFactorPct = 20, insolvencyRiskUnhealthyLtvPct = 95, minFullLiquidationValueThreshold = 2,
        maxLiquidatableDebtMarketValueAtOnce = 500000, globalAllowedBorrowValue = 45000000, riskCouncil = 4,
        lm_elevationGroups = sample_groups, minNetValueInObligationSf = 0, minValueSkipLiquidationLtvChecks = 0, lm_name = [],
        minValueSkipLiquidationBfChecks = 0, individualAutodeleverageMarginCallPeriodSecs = 259200, minInitialDepositAmount = 100000\<rparr>
       1 (hm_set (hm_set hm_empty 101 sample_reserve) 102 sample_coll) (Fin 450) 9"

lemma sample_address [simp]: "r_address sample_reserve = 101" "r_address sample_coll = 102"
  using sample_init by (auto simp: sample_reserve_def sample_coll_def)

lemma sample_market_get:
  "hm_get (reserves sample_market) k = (if k = 102 then Some sample_coll else if k = 101 then Some sample_reserve else None)"
  by (simp add: sample_market_def new_KaminoMarket_def hm_get_set hm.lookup_empty)

lemma sample_market_wf: "market_wf sample_market"
  unfolding market_wf_def
  by (intro conjI allI impI)
    (simp_all add: sample_market_get split: if_splits,
     simp add: sample_market_def new_KaminoMarket_def hm_inv_set hm_inv_empty)

lemma sample_market_reserves: "set (getReserves sample_market) = {sample_reserve, sample_coll}"
proof (rule set_eqI)
  fix r
  have "r \<in> set (getReserves sample_market) \<longleftrightarrow> hm_get (reserves sample_market) (r_address r) = Some r"
    unfolding getReserves_def by (rule market_wf_values [OF sample_market_wf])
  then show "r \<in> set (getReserves sample_market) \<longleftrightarrow> r \<in> {sample_reserve, sample_coll}"
    by (auto simp: sample_market_get split: if_splits)
qed

lemma sample_reserve_groups: "reserve_groups sample_reserve = [1, 2] @ replicate 18 0" "reserve_groups sample_coll = [1, 2] @ replicate 18 0"
  by (simp_all add: sample_coll_def sample_reserve_simps sample_defs)

lemma sample_described: "described_groups sample_market = sample_groups"
  by (simp add: described_groups_def sample_market_def new_KaminoMarket_def sample_groups_def)

lemma elevation_group_descriptions_sample:
  "\<exists>ds. getMarketElevationGroupDescriptions sample_market = Inr ds \<and> length ds = 2 \<and> elevationGroup (ds ! 0) = 1 \<and>
    set (collateralReserves (ds ! 0)) = {102}"
proof (cases "getMarketElevationGroupDescriptions sample_market")
  case (Inl e)
  then show ?thesis using elevation_group_descriptions [of sample_market]
    by (auto simp: sample_market_reserves sample_described sample_groups_def sample_reserve_groups split: if_splits)
next
  case (Inr ds)
  note d = elevation_group_descriptions [of sample_market, unfolded Inr sum.case sample_described]
  have "length ds = 2" "0 < length ds" using d by (auto simp: sample_groups_def)
  moreover from this have "debtReserve (ds ! 0) = 101" "elevationGroup (ds ! 0) = 1"
    using d by (auto simp: sample_groups_def)
  moreover have "set (collateralReserves (ds ! 0)) = {102}"
  proof -
    have "set (collateralReserves (ds ! 0)) = {r_address r |r. r \<in> {sample_reserve, sample_coll} \<and>
        (\<exists>g\<in>set (reserve_groups r). unat g = 0 + 1) \<and> r_address r \<noteq> debtReserve (ds ! 0)}"
      using d \<open>0 < length ds\<close> unfolding sample_market_reserves by blast
    also have "\<dots> = {102}"
      unfolding \<open>debtReserve (ds ! 0) = 101\<close>
      by (intro equalityI subsetI) (auto intro!: exI [of _ sample_coll] simp: sample_reserve_groups)
    finally show ?thesis .
  qed
  ultimately show ?thesis using Inr by blast
qed

section \<open>Rates by reserve\<close>

text \<open>
  The map of collateral exchange rates has an entry exactly for the addresses of the market's
  reserves, and the entry of an address is the estimated rate of that reserve at the slot.
\<close>

lemma exchange_rates_by_reserve:
  assumes "market_wf mk" and "getCollateralExchangeRatesByReserve L mk slot = Inr m"
  shows "(case getReserveByAddress mk k of
      None \<Rightarrow> hm_get m k = None
    | Some r \<Rightarrow> \<exists>d. getEstimatedCollateralExchangeRate L r slot (unat (referralFeeBps (m_state mk))) = Inr d \<and>
        hm_get m k = Some d)"
proof -
  note fold = rate_map_fold [OF assms(2) [unfolded getCollateralExchangeRatesByReserve_def] hm_inv_empty]
  have addr: "r \<in> set (hm_values (reserves mk)) \<Longrightarrow> hm_get (reserves mk) (r_address r) = Some r" for r
    using market_wf_values [OF assms(1)] by blast
  show ?thesis
  proof (cases "hm_get (reserves mk) k")
    case None
    then have "k \<notin> r_address ` set (hm_values (reserves mk))" using addr by auto
    then show ?thesis using None fold by (simp add: getReserveByAddress_def hm.lookup_empty)
  next
    case (Some r)
    then have k: "r_address r = k" using assms(1) by (auto simp: market_wf_def)
    then have "r \<in> set (hm_values (reserves mk))" using Some market_wf_values [OF assms(1)] by simp
    then obtain r' d where r': "r' \<in> set (hm_values (reserves mk))" "r_address r' = k"
      "getEstimatedCollateralExchangeRate L r' slot (unat (referralFeeBps (m_state mk))) = Inr d" "hm_get m k = Some d"
      using fold k by blast
    then have "r' = r" using addr [OF r'(1)] Some by simp
    with r' Some show ?thesis by (simp add: getReserveByAddress_def)
  qed
qed

lemma estimated_exchange_ok:
  assumes "numlib_laws L" "rates_ok L r" "uint (lastUpdateSlot (r_state r)) < 2 ^ 53"
  shows "\<exists>d. getEstimatedCollateralExchangeRate L r slot bps = Inr d"
  using estimated_debt [OF assms, of slot bps]
  by (auto simp: getEstimatedCollateralExchangeRate_def getEstimatedTotalSupply_def Let_def)

lemma exchange_rates_total:
  assumes "numlib_laws L" "\<forall>r\<in>set (getReserves mk). rates_ok L r \<and> uint (lastUpdateSlot (r_state r)) < 2 ^ 53"
  shows "\<exists>m. getCollateralExchangeRatesByReserve L mk slot = Inr m"
  unfolding getCollateralExchangeRatesByReserve_def
proof (rule foldE_total)
  fix m r
  assume "r \<in> set (hm_values (reserves mk))"
  then have "rates_ok L r" "uint (lastUpdateSlot (r_state r)) < 2 ^ 53" using assms(2) by (simp_all add: getReserves_def)
  then obtain d where "getEstimatedCollateralExchangeRate L r slot (unat (referralFeeBps (m_state mk))) = Inr d"
    using estimated_exchange_ok [OF assms(1)] by blast
  then show "\<exists>m'. bindE (getEstimatedCollateralExchangeRate L r slot (unat (referralFeeBps (m_state mk))))
      (\<lambda>d. Inr (hm_set m (r_address r) d)) = Inr m'" by simp
qed

lemma sample_coll_supply: "getTotalSupply L (r_state sample_coll) = getTotalSupply L sample_state"
  by (simp add: sample_coll_def getTotalSupply_def getLiquidityAvailableAmount_def getBorrowedAmount_def
    getAccumulatedProtocolFees_def getAccumulatedReferrerFees_def getPendingReferrerFees_def)

lemma sample_coll_rates_ok: "rates_ok decimal_js sample_coll"
  using sample_supply sample_points
  by (auto simp: rates_ok_def sample_coll_supply) (auto simp: sample_coll_def sample_reserve_simps)

lemma exchange_rates_by_reserve_sample:
  "\<exists>m d. getCollateralExchangeRatesByReserve decimal_js sample_market 7000 = Inr m \<and>
    getEstimatedCollateralExchangeRate decimal_js sample_coll 7000 1500 = Inr d \<and> hm_get m 102 = Some d"
proof -
  have "\<forall>r\<in>set (getReserves sample_market). rates_ok decimal_js r \<and> uint (lastUpdateSlot (r_state r)) < 2 ^ 53"
    by (auto simp: sample_market_reserves sample_rates_ok sample_coll_rates_ok)
      (simp_all add: sample_coll_def sample_reserve_simps sample_state_def)
  then obtain m where m: "getCollateralExchangeRatesByReserve decimal_js sample_market 7000 = Inr m"
    using exchange_rates_total [OF numlib_laws_js] by blast
  have "unat (referralFeeBps (m_state sample_market)) = 1500" by (simp add: sample_market_def new_KaminoMarket_def)
  then show ?thesis
    using m exchange_rates_by_reserve [OF sample_market_wf m, of 102]
    by (simp add: getReserveByAddress_def sample_market_get)
qed

section \<open>Available liquidity\<close>

lemma positiveOrZero_ge: "\<not> isNaN v \<Longrightarrow> xle (Fin 0) (positiveOrZero v) \<and> \<not> isNaN (positiveOrZero v)"
  by (cases v) (auto simp: positiveOrZero_def xmax_def xle_def xeq_def)

context decimal_laws
begin

lemma supply_Fin: "\<exists>t. getTotalSupply L st = Fin t"
  by (simp add: getTotalSupply_def getLiquidityAvailableAmount_def getBorrowedAmount_def
    getAccumulatedProtocolFees_def getAccumulatedReferrerFees_def getPendingReferrerFees_def sf_dec_Fin)

lemma b64_not_NaN [simp]: "\<not> isNaN (b64 x)"
  by (auto simp: b64_def Let_def inf_of_sign_def)

lemma dec_of_num_NaN [simp]: "isNaN (dec_of_num x) \<longleftrightarrow> isNaN x"
  by (cases x) auto

lemma utilization_not_NaN:
  "\<not> isNaN (calculateUtilizationRatio L st) \<and> (getTotalSupply L st = Fin 0 \<longrightarrow> calculateUtilizationRatio L st = Fin 0)"
proof -
  obtain t where t: "getTotalSupply L st = Fin t" using supply_Fin by blast
  obtain q where q: "getBorrowedAmount L st = Fin q" using borrowed_nonneg by blast
  show ?thesis by (simp add: calculateUtilizationRatio_def t q Let_def)
qed

lemma supply_times_not_NaN:
  assumes "cap = Fin c"
  shows "\<not> isNaN (dmul L (getTotalSupply L st) (dsub L cap (dec_of_num (calculateUtilizationRatio L st))))"
proof -
  obtain t where t: "getTotalSupply L st = Fin t" using supply_Fin by blast
  note u = utilization_not_NaN [of st]
  show ?thesis
    using u assms by (cases "calculateUtilizationRatio L st")
      (auto simp: t dmul_def dsub_def xsub_def xmul_def inf_of_sign_def split: if_splits)
qed

end

lemma pct_Fin: "\<exists>q. ndiv (dint (uint (w :: u8))) (Fin 100) = Fin q"
proof -
  have "uint w < 2 ^ LENGTH(8)" by (rule uint_lt2p)
  then have "rat_of_int (uint w) < of_int 256" by (simp only: of_int_less_iff) simp
  then have "b64 (of_int (uint w) / 100) = Fin (b64r (of_int (uint w) / 100))" by (intro b64_nonneg_small) simp_all
  then show ?thesis by simp
qed

lemma caps_shape:
  assumes "getBorrowCapForReserve L mk r = Inr caps"
  shows "(\<exists>c. utilizationCap caps = Fin c) \<and> globalDebtCap caps = dint (uint (borrowLimit (config (r_state r)))) \<and>
    globalTotalBorrowed caps = getBorrowedAmount L (r_state r) \<and>
    debtOutsideEmodeCap caps = dint (uint (borrowLimitOutsideElevationGroup (config (r_state r)))) \<and>
    borrowedOutsideEmode caps = getBorrowedAmountOutsideElevationGroup (r_state r) \<and>
    netWithdrawalCap caps = dint (sint (configCapacity (debtWithdrawalCap (config (r_state r))))) \<and>
    netWithdrawalCurrentValue caps = dint (sint (currentTotal (debtWithdrawalCap (config (r_state r))))) \<and>
    (\<forall>x\<in>set (debtAgainstCollateralReserveCaps caps). \<exists>a b. maxDebt x = Fin a \<and> currentValue x = Fin b)"
proof -
  obtain ds capss where c: "mapE (group_caps mk) (filter (\<lambda>d. debtReserve d = r_address r) ds) = Inr capss"
    "debtAgainstCollateralReserveCaps caps = concat capss"
    using assms by (auto simp: getBorrowCapForReserve_def bindE_Inr_iff Let_def)
  have fin: "\<exists>a b. maxDebt x = Fin a \<and> currentValue x = Fin b" if x: "x \<in> set (concat capss)" for x
  proof -
    obtain xs where xs: "xs \<in> set capss" "x \<in> set xs" using x by auto
    obtain d where "group_caps mk d = Inr xs" using mapE_Inr_set [OF c(1) xs(1)] by blast
    from mapE_Inr_set [OF this [unfolded group_caps_def] xs(2)] show ?thesis by (auto simp: bindE_Inr_iff)
  qed
  obtain q where "ndiv (dint (uint (utilizationLimitBlockBorrowingAbovePct (config (r_state r))))) (Fin 100) = Fin q"
    using pct_Fin by blast
  then have "\<exists>c. utilizationCap caps = Fin c"
    using assms by (auto simp: getBorrowCapForReserve_def bindE_Inr_iff Let_def)
  moreover have "globalDebtCap caps = dint (uint (borrowLimit (config (r_state r)))) \<and>
    globalTotalBorrowed caps = getBorrowedAmount L (r_state r) \<and>
    debtOutsideEmodeCap caps = dint (uint (borrowLimitOutsideElevationGroup (config (r_state r)))) \<and>
    borrowedOutsideEmode caps = getBorrowedAmountOutsideElevationGroup (r_state r) \<and>
    netWithdrawalCap caps = dint (sint (configCapacity (debtWithdrawalCap (config (r_state r))))) \<and>
    netWithdrawalCurrentValue caps = dint (sint (currentTotal (debtWithdrawalCap (config (r_state r)))))"
    using assms by (auto simp: getBorrowCapForReserve_def bindE_Inr_iff Let_def)
  ultimately show ?thesis using fin c(2) by simp
qed

text \<open>The limits that apply to a borrow in elevation group \<open>g\<close> against the given collateral reserves.\<close>

definition applicable_limits ::
    "num_lib \<Rightarrow> borrow_caps \<Rightarrow> reserve \<Rightarrow> pubkey list \<Rightarrow> nat \<Rightarrow> decimal list" where
  "applicable_limits L caps st collReserves g =
     [getLiquidityAvailableAmount st,
      if g = 0 then dsub L (debtOutsideEmodeCap caps) (borrowedOutsideEmode caps) else remaining_in_group L caps collReserves g,
      remainingDailyCap L caps, dsub L (globalDebtCap caps) (globalTotalBorrowed caps),
      liquidityGivenUtilizationCap L caps st]"

lemma limits_not_NaN:
  assumes "decimal_laws L" "getBorrowCapForReserve L mk r = Inr caps" "x \<in> set (applicable_limits L caps (r_state r) cs g)"
  shows "\<not> isNaN x"
proof -
  note shape = caps_shape [OF assms(2)]
  obtain q where q: "getBorrowedAmount L (r_state r) = Fin q" using decimal_laws.borrowed_nonneg [OF assms(1)] by blast
  have "\<not> isNaN (remaining_in_group L caps cs g)"
  proof -
    have "\<not> isNaN (if dc_collateralReserve x \<in> set cs then dsub L (maxDebt x) (currentValue x) else dint U64_MAX)"
      if x: "x \<in> set (debtAgainstCollateralReserveCaps caps)" for x
    proof -
      have "\<exists>a b. maxDebt x = Fin a \<and> currentValue x = Fin b" using shape x by simp
      then obtain a b where "maxDebt x = Fin a" "currentValue x = Fin b" by auto
      then show ?thesis by simp
    qed
    then have "\<forall>y\<in>set (map (\<lambda>x. if dc_collateralReserve x \<in> set cs then dsub L (maxDebt x) (currentValue x) else dint U64_MAX)
        (filter (\<lambda>x. dc_elevationGroup x = g) (debtAgainstCollateralReserveCaps caps))). \<not> isNaN y"
      by fastforce
    from xmin_list_not_NaN [OF this] show ?thesis unfolding remaining_in_group_def Let_def by simp
  qed
  moreover have "\<not> isNaN (liquidityGivenUtilizationCap L caps (r_state r))"
  proof -
    obtain c where "utilizationCap caps = Fin c" using shape by auto
    then show ?thesis unfolding liquidityGivenUtilizationCap_def by (rule decimal_laws.supply_times_not_NaN [OF assms(1)])
  qed
  ultimately show ?thesis
    using assms(3) shape q
    by (auto simp: applicable_limits_def getLiquidityAvailableAmount_def remainingDailyCap_def
      getBorrowedAmountOutsideElevationGroup_def split: if_splits)
qed

text \<open>
  C11. Liquidity available under all caps: there is one amount per requested elevation group, it is
  never negative, it is one of the clamped limits, and it exceeds none of the limits that apply: the
  liquidity of the reserve, the cap outside or inside the group, the daily cap, the global debt cap and the utilization cap.
\<close>

theorem liquidity_given_caps:
  assumes "decimal_laws L" and "getBorrowCapForReserve L mk r = Inr caps"
  shows "\<exists>xs. getLiquidityAvailableForDebtReserveGivenCaps L mk r gs cs = Inr xs \<and> length xs = length gs \<and>
    (\<forall>i<length gs. xle (Fin 0) (xs ! i) \<and>
       xs ! i \<in> positiveOrZero ` set (applicable_limits L caps (r_state r) cs (gs ! i)) \<and>
       (\<forall>lim\<in>set (applicable_limits L caps (r_state r) cs (gs ! i)). xle (xs ! i) (positiveOrZero lim)))"
proof -
  define f where "f g = xmin_list (map positiveOrZero (applicable_limits L caps (r_state r) cs g))" for g
  have eq: "getLiquidityAvailableForDebtReserveGivenCaps L mk r gs cs = Inr (map f gs)"
    unfolding getLiquidityAvailableForDebtReserveGivenCaps_def assms(2) bindE_simps Let_def f_def applicable_limits_def
    by (simp add: if_distrib cong: if_cong)
  have nn: "\<forall>y\<in>set (map positiveOrZero (applicable_limits L caps (r_state r) cs g)). \<not> isNaN y \<and> xle (Fin 0) y" for g
    using limits_not_NaN [OF assms] positiveOrZero_ge by auto
  have ne: "map positiveOrZero (applicable_limits L caps (r_state r) cs g) \<noteq> []" for g by (simp add: applicable_limits_def)
  have "xle (Fin 0) (f g) \<and> f g \<in> positiveOrZero ` set (applicable_limits L caps (r_state r) cs g) \<and>
      (\<forall>lim\<in>set (applicable_limits L caps (r_state r) cs g). xle (f g) (positiveOrZero lim))" for g
    unfolding f_def using nn [of g] xmin_list_ge [OF ne] xmin_list_in [OF ne] xmin_list_le
    by (metis (no_types, lifting) image_eqI list.set_map)
  then show ?thesis unfolding eq by simp
qed

lemma sample_descriptions:
  "\<exists>ds. getMarketElevationGroupDescriptions sample_market = Inr ds \<and>
    (\<forall>d\<in>set ds. elevationGroup d \<in> {1, 2} \<and> set (collateralReserves d) \<subseteq> {101, 102})"
proof (cases "getMarketElevationGroupDescriptions sample_market")
  case (Inl e)
  then show ?thesis using descriptions_spec [of sample_market]
    by (auto simp: sample_market_reserves sample_described sample_groups_def sample_reserve_groups split: if_splits)
next
  case (Inr ds)
  note spec = descriptions_spec [of sample_market, unfolded Inr sum.case sample_described sample_market_reserves]
  have "elevationGroup d \<in> {1, 2} \<and> set (collateralReserves d) \<subseteq> {101, 102}" if "d \<in> set ds" for d
  proof -
    obtain i where i: "i < length ds" "d = ds ! i" using \<open>d \<in> set ds\<close> by (auto simp: in_set_conv_nth)
    then have "i = 0 \<or> i = 1" using spec by (auto simp: sample_groups_def)
    then have "elevationGroup d \<in> {1, 2}" using spec i by (auto simp: sample_groups_def)
    moreover have "set (collateralReserves d) \<subseteq> r_address ` {sample_reserve, sample_coll}" using spec i by blast
    ultimately show ?thesis by simp
  qed
  with Inr show ?thesis by blast
qed

lemma sample_limits:
  "r \<in> {sample_reserve, sample_coll} \<Longrightarrow> g \<in> {1, 2} \<Longrightarrow>
    (\<exists>w. arr_get_pred (borrowLimitAgainstThisCollateralInElevationGroup (config (r_state r))) g = Some w) \<and>
    (\<exists>w. arr_get_pred (borrowedAmountsAgainstThisReserveInElevationGroups (r_state r)) g = Some w)"
  by (auto simp: arr_get_pred_def arr_get_def sample_coll_def sample_reserve_simps sample_defs)

lemma sample_caps_ok: "\<exists>caps. getBorrowCapForReserve decimal_js sample_market sample_reserve = Inr caps"
proof -
  obtain ds where ds: "getMarketElevationGroupDescriptions sample_market = Inr ds"
    "\<forall>d\<in>set ds. elevationGroup d \<in> {1, 2} \<and> set (collateralReserves d) \<subseteq> {101, 102}"
    using sample_descriptions by blast
  have "\<exists>cs. group_caps sample_market d = Inr cs" if d: "d \<in> set ds" for d
    unfolding group_caps_def
  proof (rule mapE_total)
    fix a
    assume "a \<in> set (pks_toArray (collateralReserves d))"
    then have "a \<in> {101, 102}" using ds(2) d by (auto simp: pks_toArray_def)
    then obtain r where r: "hm_get (reserves sample_market) a = Some r" "r \<in> {sample_reserve, sample_coll}"
      by (auto simp: sample_market_get)
    have "elevationGroup d \<in> {1, 2}" using ds(2) d by blast
    from sample_limits [OF r(2) this] r(1)
    show "\<exists>y. bindE (deref (hm_get (reserves sample_market) a)) (\<lambda>collRes.
       bindE (deref (arr_get_pred (borrowLimitAgainstThisCollateralInElevationGroup (config (r_state collRes))) (elevationGroup d))) (\<lambda>limit.
       bindE (deref (arr_get_pred (borrowedAmountsAgainstThisReserveInElevationGroups (r_state collRes)) (elevationGroup d))) (\<lambda>counter.
         Inr \<lparr>dc_collateralReserve = r_address collRes, dc_elevationGroup = elevationGroup d,
              maxDebt = dint (uint limit), currentValue = dint (uint counter)\<rparr>))) = Inr y"
      by auto
  qed
  then have "\<exists>capss. mapE (group_caps sample_market) (filter (\<lambda>d. debtReserve d = r_address sample_reserve) ds) = Inr capss"
    by (intro mapE_total) auto
  then show ?thesis by (auto simp: getBorrowCapForReserve_def ds(1) Let_def)
qed

theorem liquidity_given_caps_witness:
  "\<exists>x y. getLiquidityAvailableForDebtReserveGivenCaps decimal_js sample_market sample_reserve [0, 1] [102] = Inr [x, y] \<and>
    xle (Fin 0) x \<and> xle x (Fin 600000000)"
proof -
  obtain caps where caps: "getBorrowCapForReserve decimal_js sample_market sample_reserve = Inr caps"
    using sample_caps_ok by blast
  from liquidity_given_caps [OF decimal_laws_js caps, of "[0, 1]" "[102]"]
  obtain xs where xs: "getLiquidityAvailableForDebtReserveGivenCaps decimal_js sample_market sample_reserve [0, 1] [102] = Inr xs"
    "length xs = 2" "xle (Fin 0) (xs ! 0)"
    "\<forall>lim\<in>set (applicable_limits decimal_js caps (r_state sample_reserve) [102] 0). xle (xs ! 0) (positiveOrZero lim)"
    by fastforce
  obtain x y where "xs = [x, y]" using xs(2) by (auto simp: numeral_2_eq_2 length_Suc_conv)
  moreover have "Fin 600000000 \<in> set (applicable_limits decimal_js caps (r_state sample_reserve) [102] 0)"
    by (simp add: applicable_limits_def getLiquidityAvailableAmount_def sample_reserve_simps sample_state_def)
  then have "xle (xs ! 0) (Fin 600000000)" using xs(4) by fastforce
  ultimately show ?thesis using xs by auto
qed

section \<open>Maximal borrow\<close>

text \<open>Taking the origination fee out of an amount leaves at most the amount.\<close>

context decimal_laws
begin

lemma fee_rate_bounds: "\<exists>f. ddiv L (getBorrowFee L st) (dadd L (getBorrowFee L st) (Fin 1)) = Fin f \<and> 0 \<le> f \<and> f \<le> 1"
proof -
  define b where "b = d_round L (of_int (uint (borrowFeeSf (rc_fees (config st)))) / mult_repr)"
  have b: "getBorrowFee L st = Fin b" by (simp add: getBorrowFee_def toDecimal_eq b_def)
  have b0: "0 \<le> b" unfolding b_def by (rule toDecimal_nonneg) simp
  have b1: "1 \<le> d_round L (b + 1)" using b0 by (intro d_ge_one) simp
  have bb: "b \<le> d_round L (b + 1)" using d_mono [of b "b + 1"] by (simp add: b_def d_idem)
  have nz: "d_round L (b + 1) \<noteq> 0" using b1 by auto
  have "0 \<le> d_round L (b / d_round L (b + 1))" using b0 b1 by (intro d_nonneg) simp
  moreover have "d_round L (b / d_round L (b + 1)) \<le> 1" using bb b1 by (intro d_le_one) (simp add: divide_le_eq)
  ultimately show ?thesis using nz by (simp add: b)
qed

lemma after_fee_le:
  assumes "d_round L m = m" "0 \<le> f" "f \<le> 1"
  shows "max 0 (d_round L (m - d_round L (m * f))) \<le> max 0 m"
proof (cases "0 \<le> m")
  case True
  then have "0 \<le> d_round L (m * f)" using assms by (intro d_nonneg) simp
  then show ?thesis using d_mono [of "m - d_round L (m * f)" m] assms(1) by simp
next
  case False
  then have "m * 1 \<le> m * f" using assms by (intro mult_left_mono_neg) simp_all
  then have "m \<le> d_round L (m * f)" using d_mono [of m "m * f"] assms(1) by simp
  then have "d_round L (m - d_round L (m * f)) \<le> 0" by (intro d_nonpos) simp
  then show ?thesis using False by simp
qed

end

lemma clamp_min_le: "\<not> isNaN a \<Longrightarrow> \<not> isNaN b \<Longrightarrow> xle (xmax (Fin 0) (xmin a b)) (xmax (Fin 0) a)"
  by (cases a; cases b) (auto simp: xmax_def xmin_def xle_def xeq_def)

lemma clamp_nonneg: "\<not> isNaN a \<Longrightarrow> xle (Fin 0) (xmax (Fin 0) a) \<and> \<not> isNaN (xmax (Fin 0) a)"
  by (cases a) (auto simp: xmax_def xle_def xeq_def)

lemma xmin_not_NaN: "\<not> isNaN a \<Longrightarrow> \<not> isNaN b \<Longrightarrow> \<not> isNaN (xmin a b)"
  by (auto simp: xmin_def)

lemma group_limit_Fin:
  assumes "(if \<not> act then Inr (dsub L (getBorrowLimitOutsideElevationGroup st) (getBorrowedAmountOutsideElevationGroup st))
      else bindE (getBorrowLimitAgainstCollateralInElevationGroup cst i) (\<lambda>lim.
           bindE (getBorrowedAmountAgainstCollateralInElevationGroup cst i) (\<lambda>cur.
             Inr (xmax (Fin 0) (xmin (dsub L lim cur) (dint U64_MAX)))))) = Inr gl"
  shows "\<exists>q. gl = Fin q"
  using assms
  by (auto simp: getBorrowLimitOutsideElevationGroup_def getBorrowedAmountOutsideElevationGroup_def bindE_Inr_iff
    getBorrowLimitAgainstCollateralInElevationGroup_def getBorrowedAmountAgainstCollateralInElevationGroup_def split: if_splits)

lemma dmul_NaN_cases: "isNaN (dmul L x (Fin t)) \<Longrightarrow> \<not> isNaN x \<Longrightarrow> t = 0 \<and> \<not> isFinite x"
  by (cases x) (auto simp: dmul_def xmul_def inf_of_sign_def split: if_splits)

lemma utilization_room_not_NaN:
  assumes "decimal_laws L" "xlt (calculateUtilizationRatio L st) (Fin ul)" "0 \<le> ul" "ul \<le> 10 ^ 12"
  shows "\<not> isNaN (dmul L (dec_of_num (nsub (Fin ul) (calculateUtilizationRatio L st))) (getTotalSupply L st))"
proof
  assume nan: "isNaN (dmul L (dec_of_num (nsub (Fin ul) (calculateUtilizationRatio L st))) (getTotalSupply L st))"
  obtain t where t: "getTotalSupply L st = Fin t" using decimal_laws.supply_Fin [OF assms(1)] by blast
  have "\<not> isNaN (nsub (Fin ul) (calculateUtilizationRatio L st))"
    using assms(2) decimal_laws.b64_not_NaN [OF assms(1)] by (cases "calculateUtilizationRatio L st") (auto simp: xsub_def)
  then have "\<not> isNaN (dec_of_num (nsub (Fin ul) (calculateUtilizationRatio L st)))"
    using decimal_laws.dec_of_num_NaN [OF assms(1)] by blast
  from dmul_NaN_cases [OF nan [unfolded t] this]
  have "t = 0" "\<not> isFinite (dec_of_num (nsub (Fin ul) (calculateUtilizationRatio L st)))" by auto
  moreover from this have "calculateUtilizationRatio L st = Fin 0"
    using decimal_laws.utilization_not_NaN [OF assms(1), of st] t by simp
  moreover have "b64 ul = Fin (b64r ul)" using assms(3,4) by (rule b64_nonneg_small)
  ultimately show False by simp
qed

lemma pct_bounds: "\<exists>q. ndiv (dint (uint (w :: u8))) (Fin 100) = Fin q \<and> 0 \<le> q \<and> q \<le> 10 ^ 12"
proof -
  have "uint w < 2 ^ LENGTH(8)" by (rule uint_lt2p)
  then have w: "rat_of_int (uint w) < of_int 256" by (simp only: of_int_less_iff) simp
  then have "b64 (of_int (uint w) / 100) = Fin (b64r (of_int (uint w) / 100))" by (intro b64_nonneg_small) simp_all
  moreover have "0 \<le> b64r (of_int (uint w) / 100)" by (rule b64r_nonneg) simp
  moreover have "b64r (of_int (uint w) / 100) \<le> of_nat 3" using w by (intro b64r_le_nat) simp_all
  ultimately show ?thesis by simp
qed

context decimal_laws
begin

text \<open>The amount after the liquidity, the borrow limit, the daily cap and the origination fee.\<close>

lemma uncapped_borrow:
  fixes r :: kamino_reserve and c :: int
  assumes "reserveBorrowLimit (stats r) = dint (uint (borrowLimit (config (r_state r))))"
  defines "rest \<equiv> dsub L (reserveBorrowLimit (stats r)) (getBorrowedAmount L (r_state r))"
  defines "m1 \<equiv> xmin (getLiquidityAvailableAmount (r_state r)) rest"
  defines "m2 \<equiv> (if xgt (getDebtWithdrawalCapCapacity (r_state r)) (Fin 0)
    then xmin m1 (dsub L (getDebtWithdrawalCapCapacity (r_state r)) (dint c)) else m1)"
  shows "\<exists>q. dsub L m2 (dmul L m2 (ddiv L (getBorrowFee L (r_state r)) (dadd L (getBorrowFee L (r_state r)) (Fin 1)))) = Fin q \<and>
    xle (xmax (Fin 0) (Fin q)) (getLiquidityAvailableAmount (r_state r)) \<and> xle (xmax (Fin 0) (Fin q)) (positiveOrZero rest)"
proof -
  define av where "av = uint (availableAmount (liquidity (r_state r)))"
  have "uint (availableAmount (liquidity (r_state r))) < 2 ^ LENGTH(64)" by (rule uint_lt2p)
  then have "\<bar>av\<bar> \<le> 10 ^ 20" by (simp add: av_def)
  then have av: "d_round L (of_int av) = of_int av" by (rule d_int)
  obtain b where b: "getBorrowedAmount L (r_state r) = Fin b" using borrowed_nonneg by blast
  define rm where "rm = d_round L (of_int (uint (borrowLimit (config (r_state r)))) - b)"
  have rest: "rest = Fin rm" by (simp add: rest_def assms(1) b rm_def)
  define cap where "cap = d_round L (of_int (sint (configCapacity (debtWithdrawalCap (config (r_state r))))) - of_int c)"
  have rounded: "d_round L rm = rm" "d_round L cap = cap" by (simp_all add: rm_def cap_def d_idem)
  have "\<exists>m. m2 = Fin m \<and> d_round L m = m \<and> m \<le> of_int av \<and> m \<le> rm"
    using av rounded by (auto simp: m2_def m1_def rest getLiquidityAvailableAmount_def av_def [symmetric]
      getDebtWithdrawalCapCapacity_def cap_def [symmetric] min_def)
  then obtain m where m: "m2 = Fin m" "d_round L m = m" "m \<le> of_int av" "m \<le> rm" by blast
  obtain f where f: "ddiv L (getBorrowFee L (r_state r)) (dadd L (getBorrowFee L (r_state r)) (Fin 1)) = Fin f" "0 \<le> f" "f \<le> 1"
    using fee_rate_bounds by blast
  have av0: "(0 :: rat) \<le> of_int av" by (simp add: av_def)
  show ?thesis
    using after_fee_le [OF m(2) f(2,3)] m(3,4) av0
    by (auto simp: m(1) f(1) rest getLiquidityAvailableAmount_def av_def [symmetric])
qed

end

lemma clamp_chain:
  assumes "\<not> isNaN a" "\<not> isNaN b" "xle (xmax (Fin 0) a) z" shows "xle (xmax (Fin 0) (xmin a b)) z"
  using xle_trans [OF clamp_min_le [OF assms(1,2)] assms(3)] .

lemma min_chain: "\<not> isNaN a \<Longrightarrow> \<not> isNaN b \<Longrightarrow> xle (xmax (Fin 0) a) z \<Longrightarrow>
    \<not> isNaN (xmin a b) \<and> xle (xmax (Fin 0) (xmin a b)) z"
  using clamp_chain xmin_not_NaN by blast


lemma stats_borrow_limit:
  "r_initialize L a st p d = Inr r \<Longrightarrow> reserveBorrowLimit (stats r) = dint (uint (borrowLimit (config (r_state r))))"
  by (auto simp: r_initialize_def formatReserveData_def bindE_Inr_iff Let_def)

lemma sample_emode: "emode_group sample_market sample_reserve sample_coll = Inr 1"
proof -
  have m: "lm_elevationGroups (m_state sample_market) = sample_groups"
    by (simp add: sample_market_def new_KaminoMarket_def)
  have "filterE (\<lambda>item. if item \<in> set (reserve_groups sample_reserve) \<and> item \<noteq> 0
      then bindE (deref (arr_get_pred sample_groups (unat item))) (\<lambda>g. Inr (eg_debtReserve g = r_address sample_reserve))
      else Inr False) (reserve_groups sample_coll) = Inr (filter (\<lambda>item. item = 1) (reserve_groups sample_coll))"
    by (rule filterE_pure)
      (auto simp: sample_reserve_groups sample_groups_def arr_get_pred_def arr_get_def)
  also have "filter (\<lambda>item. item = 1) (reserve_groups sample_coll) = [1]"
    by (simp add: sample_reserve_groups filter_empty_conv)
  finally show ?thesis
    unfolding emode_group_def m Let_def by (simp add: sample_groups_def)
qed


end
