(* ===== verification/Obligation.thy ===== *)
theory Obligation
  imports Market
begin

text \<open>
  \<open>src/ts-client/src/classes/obligation.ts\<close>, the class \<open>KaminoObligation\<close>: positions and statistics of
  an obligation, simulated deposits and borrows, borrow power, maximal borrow and withdrawal, and
  eligibility for elevation groups. The obligation account holds fixed-length arrays of deposits and
  borrows, a slot with the default key being free. Amounts that the simulation rewrites are \<open>int\<close>.
  Loading from the chain and console output are not modelled.
\<close>

section \<open>The obligation account\<close>

record obligation_collateral =
  depositReserve :: pubkey
  depositedAmount :: int
  oc_marketValueSf :: u128
  borrowedAmountAgainstThisCollateralInElevationGroup :: u64

record obligation_liquidity =
  borrowReserve :: pubkey
  ol_cumulativeBorrowRateBsf :: "int list"
  ol_borrowedAmountSf :: int
  ol_marketValueSf :: u128
  borrowFactorAdjustedMarketValueSf :: u128
  borrowedAmountOutsideElevationGroups :: u64

record obligation =
  o_tag :: u64
  o_lastUpdate :: last_update
  o_lendingMarket :: pubkey
  o_owner :: pubkey
  o_deposits :: "obligation_collateral list"
  lowestReserveDepositLiquidationLtv :: u64
  depositedValueSf :: u128
  o_borrows :: "obligation_liquidity list"
  borrowFactorAdjustedDebtValueSf :: u128
  borrowedAssetsMarketValueSf :: u128
  allowedBorrowValueSf :: u128
  unhealthyBorrowValueSf :: u128
  depositsAssetTiers :: "u8 list"
  borrowsAssetTiers :: "u8 list"
  o_elevationGroup :: u8
  numOfObsoleteReserves :: u8
  hasDebt :: u8
  o_referrer :: pubkey
  borrowingDisabled :: u8
  autodeleverageTargetLtvPct :: u8
  lowestReserveDepositMaxLtvPct :: u8
  highestBorrowFactorPct :: u64
  autodeleverageMarginCallStartedTimestamp :: u64

section \<open>Positions and statistics\<close>

record position =
  reserveAddress :: pubkey
  p_mintAddress :: pubkey
  p_amount :: decimal
  marketValueRefreshed :: decimal

type_synonym positions = "position pubkey_hash_map"
type_synonym rates = "decimal pubkey_hash_map"

record obligation_stats =
  userTotalDeposit :: decimal
  userTotalCollateralDeposit :: decimal
  userTotalLiquidatableDeposit :: decimal
  userTotalBorrow :: decimal
  userTotalBorrowBorrowFactorAdjusted :: decimal
  os_borrowLimit :: decimal
  borrowLiquidationLimit :: decimal
  borrowUtilization :: decimal
  netAccountValue :: decimal
  os_loanToValue :: decimal
  liquidationLtv :: decimal
  leverage :: decimal
  potentialElevationGroupUpdate :: nat

record borrow_stats =
  bs_borrows :: positions
  bs_userTotalBorrow :: decimal
  bs_userTotalBorrowBorrowFactorAdjusted :: decimal
  bs_positions :: nat

record deposit_stats =
  ds_deposits :: positions
  ds_userTotalDeposit :: decimal
  ds_userTotalCollateralDeposit :: decimal
  ds_userTotalLiquidatableDeposit :: decimal
  ds_borrowLimit :: decimal
  ds_borrowLiquidationLimit :: decimal

record kamino_obligation =
  obligationAddress :: pubkey
  ob_state :: obligation
  deposits :: positions
  borrows :: positions
  refreshedStats :: obligation_stats
  obligationTag :: nat

section \<open>Rates\<close>

definition getBorrowAmount :: "num_lib \<Rightarrow> obligation_liquidity \<Rightarrow> decimal result" where
  "getBorrowAmount L borrow = sf_to_decimal L (ol_borrowedAmountSf borrow)"

text \<open>
  \<open>KaminoObligation.getCumulativeBorrowRate\<close>: the result of \<open>accSf.shrn(64)\<close> is discarded, so the
  limbs are added without weights (and the order of \<open>reverse\<close> does not matter).
\<close>

definition borrowCumulativeRate :: "num_lib \<Rightarrow> obligation_liquidity \<Rightarrow> decimal result" where
  "borrowCumulativeRate L borrow = sf_to_decimal L (foldl (+) 0 (rev (ol_cumulativeBorrowRateBsf borrow)))"

definition deposit_keys :: "obligation \<Rightarrow> pubkey list" where
  "deposit_keys ob = filter isNotNullPubkey (map depositReserve (o_deposits ob))"

definition borrow_keys :: "obligation \<Rightarrow> pubkey list" where
  "borrow_keys ob = filter isNotNullPubkey (map borrowReserve (o_borrows ob))"

text \<open>
  The loops over \<open>allReserves\<close>. A key that occurs twice is visited twice in the model; it sets the same
  entry to the same value.
\<close>

definition getCollateralExchangeRatesForObligation ::
    "num_lib \<Rightarrow> kamino_market \<Rightarrow> obligation \<Rightarrow> nat \<Rightarrow> pubkey list \<Rightarrow> rates result" where
  "getCollateralExchangeRatesForObligation L mk ob slot additionalReserves =
     foldE (\<lambda>m k.
       bindE (deref (getReserveByAddress mk k)) (\<lambda>r.
       bindE (getEstimatedCollateralExchangeRate L r slot (unat (referralFeeBps (m_state mk)))) (\<lambda>d.
         Inr (hm_set m k d))))
     hm_empty (deposit_keys ob @ filter isNotNullPubkey additionalReserves)"

definition getCumulativeBorrowRatesForObligation ::
    "num_lib \<Rightarrow> kamino_market \<Rightarrow> obligation \<Rightarrow> nat \<Rightarrow> pubkey list \<Rightarrow> rates result" where
  "getCumulativeBorrowRatesForObligation L mk ob slot additionalReserves =
     foldE (\<lambda>m k.
       bindE (deref (getReserveByAddress mk k)) (\<lambda>r.
       bindE (getEstimatedCumulativeBorrowRate L r slot (unat (referralFeeBps (m_state mk)))) (\<lambda>d.
         Inr (hm_set m k d))))
     hm_empty (borrow_keys ob @ filter isNotNullPubkey additionalReserves)"

definition getRatesForObligation ::
    "num_lib \<Rightarrow> kamino_market \<Rightarrow> obligation \<Rightarrow> nat \<Rightarrow> pubkey list \<Rightarrow> (rates \<times> rates) result" where
  "getRatesForObligation L mk ob slot additionalReserves =
     bindE (getCollateralExchangeRatesForObligation L mk ob slot additionalReserves) (\<lambda>ex.
     bindE (getCumulativeBorrowRatesForObligation L mk ob slot additionalReserves) (\<lambda>cum. Inr (ex, cum)))"

definition addCollateralExchangeRatesForObligation ::
    "num_lib \<Rightarrow> kamino_market \<Rightarrow> rates \<Rightarrow> obligation \<Rightarrow> nat \<Rightarrow> rates result" where
  "addCollateralExchangeRatesForObligation L mk ex ob slot =
     foldE (\<lambda>m d.
       if isNotNullPubkey (depositReserve d) \<and> \<not> hm_has m (depositReserve d) then
         bindE (deref (getReserveByAddress mk (depositReserve d))) (\<lambda>r.
         bindE (getEstimatedCollateralExchangeRate L r slot (unat (referralFeeBps (m_state mk)))) (\<lambda>x.
           Inr (hm_set m (r_address r) x)))
       else Inr m) ex (o_deposits ob)"

definition addCumulativeBorrowRatesForObligation ::
    "num_lib \<Rightarrow> kamino_market \<Rightarrow> rates \<Rightarrow> obligation \<Rightarrow> nat \<Rightarrow> rates result" where
  "addCumulativeBorrowRatesForObligation L mk cum ob slot =
     foldE (\<lambda>m b.
       if isNotNullPubkey (borrowReserve b) \<and> \<not> hm_has m (borrowReserve b) then
         bindE (deref (getReserveByAddress mk (borrowReserve b))) (\<lambda>r.
         bindE (getEstimatedCumulativeBorrowRate L r slot (unat (referralFeeBps (m_state mk)))) (\<lambda>x.
           Inr (hm_set m (r_address r) x)))
       else Inr m) cum (o_borrows ob)"

definition addRatesForObligation ::
    "num_lib \<Rightarrow> kamino_market \<Rightarrow> obligation \<Rightarrow> rates \<Rightarrow> rates \<Rightarrow> nat \<Rightarrow> (rates \<times> rates) result" where
  "addRatesForObligation L mk ob ex cum slot =
     bindE (addCollateralExchangeRatesForObligation L mk ex ob slot) (\<lambda>ex'.
     bindE (addCumulativeBorrowRatesForObligation L mk cum ob slot) (\<lambda>cum'. Inr (ex', cum')))"

definition group_active :: "kamino_reserve \<Rightarrow> nat \<Rightarrow> bool" where
  "group_active r g \<longleftrightarrow> g \<in> set (map unat (rc_elevationGroups (config (r_state r)))) \<and> g \<noteq> 0"

definition getBorrowFactorForReserve :: "num_lib \<Rightarrow> kamino_reserve \<Rightarrow> nat \<Rightarrow> decimal" where
  "getBorrowFactorForReserve L r g =
     (if group_active r g then Fin 1 else ddiv L (dnat (rd_borrowFactor (stats r))) (Fin 100))"

text \<open>The pair \<open>(maxLtv, liquidationLtv)\<close>.\<close>

definition getLtvForReserve :: "num_lib \<Rightarrow> kamino_market \<Rightarrow> kamino_reserve \<Rightarrow> nat \<Rightarrow> (decimal \<times> decimal) result" where
  "getLtvForReserve L mk r g =
     (if group_active r g then
        bindE (deref (getElevationGroup mk g)) (\<lambda>eg.
          Inr (ddiv L (dint (uint (ltvPct eg))) (Fin 100), ddiv L (dint (uint (eg_liquidationThresholdPct eg))) (Fin 100)))
      else Inr (dec_of_num (loanToValue (stats r)), dec_of_num (liquidationThreshold (stats r))))"

definition estimateObligationInterestRate ::
    "num_lib \<Rightarrow> kamino_market \<Rightarrow> kamino_reserve \<Rightarrow> obligation_liquidity \<Rightarrow> nat \<Rightarrow> decimal result" where
  "estimateObligationInterestRate L mk r borrow currentSlot =
     bindE (getEstimatedCumulativeBorrowRate L r currentSlot (unat (referralFeeBps (m_state mk)))) (\<lambda>new.
     bindE (borrowCumulativeRate L borrow) (\<lambda>former.
       Inr (if xgt new former then ddiv L new former else Fin 0)))"

section \<open>Deposits and borrows\<close>

text \<open>One iteration over the deposits; \<open>ex = None\<close> is the argument \<open>null\<close>.\<close>

definition deposit_step ::
    "num_lib \<Rightarrow> kamino_market \<Rightarrow> rates option \<Rightarrow> nat \<Rightarrow> (kamino_reserve \<Rightarrow> decimal) \<Rightarrow>
     deposit_stats \<Rightarrow> obligation_collateral \<Rightarrow> deposit_stats result" where
  "deposit_step L mk ex g getPx s d =
     (if \<not> isNotNullPubkey (depositReserve d) then Inr s
      else case getReserveByAddress mk (depositReserve d) of
        None \<Rightarrow> Inl (Throw ''Obligation contains a deposit belonging to reserve but the reserve was not found on the market'')
      | Some r \<Rightarrow>
          bindE (getLtvForReserve L mk r g) (\<lambda>(maxLtv, liqLtv).
          bindE (case ex of Some m \<Rightarrow> dec_arg (hm_get m (r_address r)) | None \<Rightarrow> Inr (getCollateralExchangeRate L (r_state r))) (\<lambda>exchangeRate.
          bindE (getMintFactor L (r_state r)) (\<lambda>mintFactor.
            let supplyAmount = ddiv L (dint (depositedAmount d)) exchangeRate;
                depositValueUsd = ddiv L (dmul L supplyAmount (getPx r)) mintFactor
            in Inr \<lparr>ds_deposits = hm_set (ds_deposits s) (r_address r)
                      \<lparr>reserveAddress = r_address r, p_mintAddress = getLiquidityMint (r_state r),
                       p_amount = supplyAmount, marketValueRefreshed = depositValueUsd\<rparr>,
                    ds_userTotalDeposit = dadd L (ds_userTotalDeposit s) depositValueUsd,
                    ds_userTotalCollateralDeposit =
                      (if \<not> xeq maxLtv (Fin 0) then dadd L (ds_userTotalCollateralDeposit s) depositValueUsd
                       else ds_userTotalCollateralDeposit s),
                    ds_userTotalLiquidatableDeposit =
                      (if \<not> xeq liqLtv (Fin 0) then dadd L (ds_userTotalLiquidatableDeposit s) depositValueUsd
                       else ds_userTotalLiquidatableDeposit s),
                    ds_borrowLimit = dadd L (ds_borrowLimit s) (dmul L depositValueUsd maxLtv),
                    ds_borrowLiquidationLimit = dadd L (ds_borrowLiquidationLimit s) (dmul L depositValueUsd liqLtv)\<rparr>))))"

definition empty_deposit_stats :: deposit_stats where
  "empty_deposit_stats =
     \<lparr>ds_deposits = hm_empty, ds_userTotalDeposit = Fin 0, ds_userTotalCollateralDeposit = Fin 0,
      ds_userTotalLiquidatableDeposit = Fin 0, ds_borrowLimit = Fin 0, ds_borrowLiquidationLimit = Fin 0\<rparr>"

definition calculateObligationDeposits ::
    "num_lib \<Rightarrow> kamino_market \<Rightarrow> obligation_collateral list \<Rightarrow> rates option \<Rightarrow> nat \<Rightarrow> (kamino_reserve \<Rightarrow> decimal) \<Rightarrow>
     deposit_stats result" where
  "calculateObligationDeposits L mk ds ex g getPx = foldE (deposit_step L mk ex g getPx) empty_deposit_stats ds"

text \<open>\<open>liquidationLtv\<close> of the returned \<open>DepositStats\<close>.\<close>

definition ds_liquidationLtv :: "num_lib \<Rightarrow> deposit_stats \<Rightarrow> decimal" where
  "ds_liquidationLtv L s = valueOrZero (ddiv L (ds_borrowLiquidationLimit s) (ds_userTotalLiquidatableDeposit s))"

definition borrow_step ::
    "num_lib \<Rightarrow> kamino_market \<Rightarrow> rates option \<Rightarrow> nat \<Rightarrow> (kamino_reserve \<Rightarrow> decimal) \<Rightarrow>
     borrow_stats \<Rightarrow> obligation_liquidity \<Rightarrow> borrow_stats result" where
  "borrow_step L mk cum g getPx s b =
     (if \<not> isNotNullPubkey (borrowReserve b) then Inr s
      else case getReserveByAddress mk (borrowReserve b) of
        None \<Rightarrow> bindE (getBorrowAmount L b) (\<lambda>_.
          Inl (Throw ''Obligation contains a borrow belonging to reserve but the reserve was not found on the market''))
      | Some r \<Rightarrow>
          bindE (borrowCumulativeRate L b) (\<lambda>obligationRate.
          bindE (case cum of Some m \<Rightarrow> Inr (hm_get m (r_address r))
                           | None \<Rightarrow> bindE (getCumulativeBorrowRate L (r_state r)) (\<lambda>c. Inr (Some c))) (\<lambda>rate.
          bindE (getBorrowAmount L b) (\<lambda>amt.
          bindE (dec_arg rate) (\<lambda>rate.
          bindE (getMintFactor L (r_state r)) (\<lambda>mintFactor.
            let borrowAmount = ddiv L (dmul L amt rate) obligationRate;
                borrowValueUsd = ddiv L (dmul L borrowAmount (getPx r)) mintFactor;
                adjusted = dmul L borrowValueUsd (getBorrowFactorForReserve L r g)
            in Inr \<lparr>bs_borrows = hm_set (bs_borrows s) (r_address r)
                      \<lparr>reserveAddress = r_address r, p_mintAddress = getLiquidityMint (r_state r),
                       p_amount = borrowAmount, marketValueRefreshed = borrowValueUsd\<rparr>,
                    bs_userTotalBorrow = dadd L (bs_userTotalBorrow s) borrowValueUsd,
                    bs_userTotalBorrowBorrowFactorAdjusted = dadd L (bs_userTotalBorrowBorrowFactorAdjusted s) adjusted,
                    bs_positions = (if \<not> xeq borrowAmount (Fin 0) then bs_positions s + 1 else bs_positions s)\<rparr>))))))"

definition empty_borrow_stats :: borrow_stats where
  "empty_borrow_stats =
     \<lparr>bs_borrows = hm_empty, bs_userTotalBorrow = Fin 0, bs_userTotalBorrowBorrowFactorAdjusted = Fin 0, bs_positions = 0\<rparr>"

definition calculateObligationBorrows ::
    "num_lib \<Rightarrow> kamino_market \<Rightarrow> obligation_liquidity list \<Rightarrow> rates option \<Rightarrow> nat \<Rightarrow> (kamino_reserve \<Rightarrow> decimal) \<Rightarrow>
     borrow_stats result" where
  "calculateObligationBorrows L mk bs cum g getPx = foldE (borrow_step L mk cum g getPx) empty_borrow_stats bs"

text \<open>The triple \<open>(borrows, deposits, refreshedStats)\<close>; prices are those of the oracle.\<close>

definition calculatePositions ::
    "num_lib \<Rightarrow> kamino_market \<Rightarrow> obligation_collateral list \<Rightarrow> obligation_liquidity list \<Rightarrow> nat \<Rightarrow> rates option \<Rightarrow> rates option \<Rightarrow>
     (positions \<times> positions \<times> obligation_stats) result" where
  "calculatePositions L mk ds bs g ex cum =
     bindE (calculateObligationDeposits L mk ds ex g getOracleMarketPrice) (\<lambda>d.
     bindE (calculateObligationBorrows L mk bs cum g getOracleMarketPrice) (\<lambda>b.
       let net = dsub L (ds_userTotalDeposit d) (bs_userTotalBorrow b)
       in Inr (bs_borrows b, ds_deposits d,
            \<lparr>userTotalDeposit = ds_userTotalDeposit d,
             userTotalCollateralDeposit = ds_userTotalCollateralDeposit d,
             userTotalLiquidatableDeposit = ds_userTotalLiquidatableDeposit d,
             userTotalBorrow = bs_userTotalBorrow b,
             userTotalBorrowBorrowFactorAdjusted = bs_userTotalBorrowBorrowFactorAdjusted b,
             os_borrowLimit = ds_borrowLimit d,
             borrowLiquidationLimit = ds_borrowLiquidationLimit d,
             borrowUtilization = ddiv L (bs_userTotalBorrowBorrowFactorAdjusted b) (ds_borrowLimit d),
             netAccountValue = net,
             os_loanToValue = ddiv L (bs_userTotalBorrowBorrowFactorAdjusted b) (ds_userTotalCollateralDeposit d),
             liquidationLtv = ds_liquidationLtv L d,
             leverage = ddiv L (ds_userTotalDeposit d) net,
             potentialElevationGroupUpdate = 0\<rparr>)))"

definition new_KaminoObligation ::
    "num_lib \<Rightarrow> kamino_market \<Rightarrow> pubkey \<Rightarrow> obligation \<Rightarrow> rates \<Rightarrow> rates \<Rightarrow> kamino_obligation result" where
  "new_KaminoObligation L mk address ob ex cum =
     bindE (calculatePositions L mk (o_deposits ob) (o_borrows ob) (unat (o_elevationGroup ob)) (Some ex) (Some cum)) (\<lambda>(b, d, s).
     bindE (bn_toNumber L (uint (o_tag ob))) (\<lambda>tag.
       Inr \<lparr>obligationAddress = address, ob_state = ob, deposits = d, borrows = b, refreshedStats = s, obligationTag = nat tag\<rparr>))"

end
