(* ===== verification/Obligation_Limits.thy ===== *)
theory Obligation_Limits
  imports Obligation
begin

text \<open>
  The second half of \<open>src/ts-client/src/classes/obligation.ts\<close>: getters, simulated changes of deposits
  and borrows, the statistics after an action or a collateral swap, borrow power, maximal borrow and
  withdrawal, and eligibility for elevation groups.
\<close>

section \<open>Getters\<close>

definition getBorrows :: "kamino_obligation \<Rightarrow> position list" where
  "getBorrows ob = hm_values (borrows ob)"

definition getDeposits :: "kamino_obligation \<Rightarrow> position list" where
  "getDeposits ob = hm_values (deposits ob)"

definition getDepositedValue :: "num_lib \<Rightarrow> kamino_obligation \<Rightarrow> decimal" where
  "getDepositedValue L ob = sf_dec L (depositedValueSf (ob_state ob))"

definition getBorrowedMarketValue :: "num_lib \<Rightarrow> kamino_obligation \<Rightarrow> decimal" where
  "getBorrowedMarketValue L ob = sf_dec L (borrowedAssetsMarketValueSf (ob_state ob))"

definition getBorrowedMarketValueBFAdjusted :: "num_lib \<Rightarrow> kamino_obligation \<Rightarrow> decimal" where
  "getBorrowedMarketValueBFAdjusted L ob = sf_dec L (borrowFactorAdjustedDebtValueSf (ob_state ob))"

definition getMaxAllowedBorrowValue :: "num_lib \<Rightarrow> kamino_obligation \<Rightarrow> decimal" where
  "getMaxAllowedBorrowValue L ob = sf_dec L (allowedBorrowValueSf (ob_state ob))"

definition getUnhealthyBorrowValue :: "num_lib \<Rightarrow> kamino_obligation \<Rightarrow> decimal" where
  "getUnhealthyBorrowValue L ob = sf_dec L (unhealthyBorrowValueSf (ob_state ob))"

definition getDepositMarketValue :: "num_lib \<Rightarrow> obligation_collateral \<Rightarrow> decimal" where
  "getDepositMarketValue L d = sf_dec L (oc_marketValueSf d)"

definition getBorrowMarketValue :: "num_lib \<Rightarrow> obligation_liquidity \<Rightarrow> decimal" where
  "getBorrowMarketValue L b = sf_dec L (ol_marketValueSf b)"

definition getBorrowMarketValueBFAdjusted :: "num_lib \<Rightarrow> obligation_liquidity \<Rightarrow> decimal" where
  "getBorrowMarketValueBFAdjusted L b = sf_dec L (borrowFactorAdjustedMarketValueSf b)"

definition getBorrowByReserve :: "kamino_obligation \<Rightarrow> pubkey \<Rightarrow> position option" where
  "getBorrowByReserve ob k = hm_get (borrows ob) k"

definition getDepositByReserve :: "kamino_obligation \<Rightarrow> pubkey \<Rightarrow> position option" where
  "getDepositByReserve ob k = hm_get (deposits ob) k"

definition getBorrowByMint :: "kamino_obligation \<Rightarrow> pubkey \<Rightarrow> position option" where
  "getBorrowByMint ob mint = List.find (\<lambda>p. p_mintAddress p = mint) (hm_values (borrows ob))"

definition getDepositByMint :: "kamino_obligation \<Rightarrow> pubkey \<Rightarrow> position option" where
  "getDepositByMint ob mint = List.find (\<lambda>p. p_mintAddress p = mint) (hm_values (deposits ob))"

definition amount_or_zero :: "position option \<Rightarrow> decimal" where
  "amount_or_zero p = (case p of None \<Rightarrow> Fin 0 | Some q \<Rightarrow> p_amount q)"

definition getBorrowAmountByReserve :: "num_lib \<Rightarrow> kamino_obligation \<Rightarrow> kamino_reserve \<Rightarrow> decimal result" where
  "getBorrowAmountByReserve L ob r =
     bindE (getMintFactor L (r_state r)) (\<lambda>f.
       Inr (ddiv L (amount_or_zero (getBorrowByMint ob (getLiquidityMint (r_state r)))) f))"

definition getDepositAmountByReserve :: "num_lib \<Rightarrow> kamino_obligation \<Rightarrow> kamino_reserve \<Rightarrow> decimal result" where
  "getDepositAmountByReserve L ob r =
     bindE (getMintFactor L (r_state r)) (\<lambda>f.
       Inr (ddiv L (amount_or_zero (getDepositByMint ob (getLiquidityMint (r_state r)))) f))"

definition ob_loanToValue :: "num_lib \<Rightarrow> kamino_obligation \<Rightarrow> decimal" where
  "ob_loanToValue L ob =
     (if xeq (userTotalDeposit (refreshedStats ob)) (Fin 0) then Fin 0
      else ddiv L (userTotalBorrowBorrowFactorAdjusted (refreshedStats ob)) (userTotalDeposit (refreshedStats ob)))"

definition getNumberOfPositions :: "kamino_obligation \<Rightarrow> nat" where
  "getNumberOfPositions ob = hm_size (deposits ob) + hm_size (borrows ob)"

definition getNetAccountValue :: "kamino_obligation \<Rightarrow> decimal" where
  "getNetAccountValue ob = netAccountValue (refreshedStats ob)"

definition isReserveInObligation :: "kamino_obligation \<Rightarrow> pubkey \<Rightarrow> bool" where
  "isReserveInObligation ob k \<longleftrightarrow> k \<in> set (hm_keys (deposits ob)) \<or> k \<in> set (hm_keys (borrows ob))"

section \<open>Elevation groups of an obligation\<close>

text \<open>The map of counts is a JavaScript \<open>Map\<close>: an association list in insertion order.\<close>

definition count_group :: "(u8 \<times> nat) list \<Rightarrow> u8 \<Rightarrow> (u8 \<times> nat) list" where
  "count_group counts g =
     (if g = 0 then counts
      else AList.update g (case map_of counts g of None \<Rightarrow> 1 | Some c \<Rightarrow> if c \<noteq> 0 then c + 1 else 1) counts)"

definition getElevationGroupsForReserves :: "kamino_reserve list \<Rightarrow> u8 list" where
  "getElevationGroupsForReserves rs =
     (let counts = foldl (\<lambda>cs r. foldl count_group cs (rc_elevationGroups (config (r_state r)))) [] rs
      in map fst (filter (\<lambda>(g, c). c = length rs) counts))"

definition add_reserve :: "kamino_market \<Rightarrow> kamino_reserve option pubkey_hash_map \<Rightarrow> pubkey \<Rightarrow> kamino_reserve option pubkey_hash_map" where
  "add_reserve mk m k =
     (if isNotNullPubkey k \<and> \<not> hm_has m k then hm_set m k (getReserveByAddress mk k) else m)"

definition getElevationGroups :: "kamino_market \<Rightarrow> kamino_obligation \<Rightarrow> u8 list result" where
  "getElevationGroups mk ob =
     (let m1 = foldl (add_reserve mk) hm_empty (map depositReserve (o_deposits (ob_state ob)));
          m2 = foldl (add_reserve mk) m1 (map borrowReserve (o_borrows (ob_state ob)))
      in bindE (mapE deref (hm_values m2)) (\<lambda>rs. Inr (getElevationGroupsForReserves rs)))"

definition getElevationGroupsForObligation :: "kamino_market \<Rightarrow> kamino_obligation \<Rightarrow> elevation_group_description list result" where
  "getElevationGroupsForObligation mk ob =
     (if hm_size (borrows ob) > 1 then Inr []
      else getElevationGroupsForReservesCombination mk (hm_keys (deposits ob))
        (if hm_size (borrows ob) = 0 then None else arr_get (hm_keys (borrows ob)) 0))"

section \<open>Simulated changes\<close>

definition change_in_collateral :: "num_lib \<Rightarrow> rates \<Rightarrow> pubkey \<Rightarrow> number \<Rightarrow> decimal result" where
  "change_in_collateral L ex k change =
     bindE (dec_arg (hm_get ex k)) (\<lambda>rate. Inr (dround L (dmul L (dec_of_num change) rate)))"

definition simulateDepositChange ::
    "num_lib \<Rightarrow> obligation_collateral list \<Rightarrow> number \<Rightarrow> pubkey \<Rightarrow> rates \<Rightarrow> obligation_collateral list result" where
  "simulateDepositChange L ds change k ex =
     bindE (mapE (\<lambda>d.
       if depositReserve d = k then
         bindE (change_in_collateral L ex k change) (\<lambda>c.
         bindE (bn_toNumber L (depositedAmount d)) (\<lambda>n.
         bindE (bn_of_dec L (positiveOrZero (dadd L (dint n) c))) (\<lambda>v.
           Inr (d\<lparr>depositedAmount := v\<rparr>))))
       else Inr d) ds) (\<lambda>newDeposits.
     if findIndex (\<lambda>d. depositReserve d = k) ds = None then
       case findIndex (\<lambda>d. depositReserve d = default_pubkey) ds of
         None \<Rightarrow> Inl (Throw ''No available borrows to modify'')
       | Some i \<Rightarrow>
           bindE (change_in_collateral L ex k change) (\<lambda>c.
           bindE (bn_of_dec L (positiveOrZero c)) (\<lambda>v.
             Inr (newDeposits[i := (ds ! i)\<lparr>depositedAmount := v, depositReserve := k\<rparr>])))
     else Inr newDeposits)"

definition simulateBorrowChange ::
    "num_lib \<Rightarrow> obligation_liquidity list \<Rightarrow> number \<Rightarrow> pubkey \<Rightarrow> decimal \<Rightarrow> obligation_liquidity list result" where
  "simulateBorrowChange L bs change k rate =
     (let idx = findIndex (\<lambda>b. borrowReserve b = k) bs in
      bindE (mapE (\<lambda>b.
        if borrowReserve b = k then
          let b0 = (case idx of Some j \<Rightarrow> bs ! j | None \<Rightarrow> b) in
          bindE (sf_to_decimal L (ol_borrowedAmountSf b0)) (\<lambda>a.
          bindE (fromDecimal L (positiveOrZero (dadd L a (dec_of_num change)))) (\<lambda>f.
            Inr (b0\<lparr>ol_borrowedAmountSf := getValue f\<rparr>)))
        else Inr b) bs) (\<lambda>newBorrows.
      if idx = None then
        case findIndex (\<lambda>b. borrowReserve b = default_pubkey) bs of
          None \<Rightarrow> Inl (Throw ''No available borrows to modify'')
        | Some i \<Rightarrow>
            bindE (fromDecimal L (dec_of_num change)) (\<lambda>f.
            bindE (fromDecimal L rate) (\<lambda>c.
              Inr (newBorrows[i := (bs ! i)\<lparr>ol_borrowedAmountSf := getValue f, borrowReserve := k,
                                            ol_cumulativeBorrowRateBsf := [getValue c, 0, 0, 0]\<rparr>])))
      else Inr newBorrows))"

definition finish_stats :: "num_lib \<Rightarrow> obligation_stats \<Rightarrow> obligation_stats" where
  "finish_stats L s =
     (let net = dsub L (userTotalDeposit s) (userTotalBorrow s)
      in s\<lparr>netAccountValue := net,
           os_loanToValue := valueOrZero (ddiv L (userTotalBorrowBorrowFactorAdjusted s) (userTotalCollateralDeposit s)),
           leverage := valueOrZero (ddiv L (userTotalDeposit s) net)\<rparr>)"

record simulation_params =
  amountCollateral :: "decimal option"
  amountDebt :: "decimal option"
  sim_action :: action_type
  mintCollateral :: "pubkey option"
  mintDebt :: "pubkey option"
  sim_slot :: nat
  elevationGroupOverride :: "nat option"

text \<open>\<open>mint ? market.getReserveByMint(mint)!\<close>.\<close>

definition reserve_of_mint :: "kamino_market \<Rightarrow> pubkey option \<Rightarrow> kamino_reserve option result" where
  "reserve_of_mint mk mint =
     (case mint of None \<Rightarrow> Inr None
      | Some m \<Rightarrow> bindE (deref (getReserveByMint mk m)) (\<lambda>r. Inr (Some r)))"

text \<open>
  The \<open>switch\<close> over the action: which of the two simulations run, with which sign. An amount
  or a mint that is missing is the error of the action.
\<close>

definition sim_deposit :: "num_lib \<Rightarrow> obligation \<Rightarrow> decimal \<Rightarrow> pubkey \<Rightarrow> rates \<Rightarrow> obligation_collateral list result" where
  "sim_deposit L ob amount k ex = simulateDepositChange L (o_deposits ob) (num_of_dec amount) k ex"

definition sim_borrow :: "num_lib \<Rightarrow> obligation \<Rightarrow> decimal \<Rightarrow> pubkey \<Rightarrow> decimal \<Rightarrow> obligation_liquidity list result" where
  "sim_borrow L ob amount k rate = simulateBorrowChange L (o_borrows ob) (num_of_dec amount) k rate"

definition simulate_action ::
    "num_lib \<Rightarrow> obligation \<Rightarrow> simulation_params \<Rightarrow> kamino_reserve option \<Rightarrow> kamino_reserve option \<Rightarrow> rates \<Rightarrow> decimal option \<Rightarrow>
     (obligation_collateral list \<times> obligation_liquidity list) result" where
  "simulate_action L ob p cr dr ex rate =
     (case sim_action p of
        ADeposit \<Rightarrow>
          (case (amountCollateral p, cr) of
             (Some a, Some c) \<Rightarrow> bindE (sim_deposit L ob a (r_address c) ex) (\<lambda>ds. Inr (ds, o_borrows ob))
           | _ \<Rightarrow> Inl (Throw ''amountCollateral & mintCollateral are required for deposit action''))
      | ABorrow \<Rightarrow>
          (case (amountDebt p, dr, rate) of
             (Some a, Some d, Some q) \<Rightarrow> bindE (sim_borrow L ob a (r_address d) q) (\<lambda>bs. Inr (o_deposits ob, bs))
           | _ \<Rightarrow> Inl (Throw ''amountDebt & mintDebt are required for borrow action''))
      | ARepay \<Rightarrow>
          (case (amountDebt p, dr, rate) of
             (Some a, Some d, Some q) \<Rightarrow> bindE (sim_borrow L ob (xneg a) (r_address d) q) (\<lambda>bs. Inr (o_deposits ob, bs))
           | _ \<Rightarrow> Inl (Throw ''amountDebt & mintDebt are required for repay action''))
      | AWithdraw \<Rightarrow>
          (case (amountCollateral p, cr) of
             (Some a, Some c) \<Rightarrow> bindE (sim_deposit L ob (xneg a) (r_address c) ex) (\<lambda>ds. Inr (ds, o_borrows ob))
           | _ \<Rightarrow> Inl (Throw ''amountCollateral & mintCollateral are required for withdraw action''))
      | ADepositAndBorrow \<Rightarrow>
          (case (amountCollateral p, amountDebt p, cr, dr, rate) of
             (Some ac, Some ad, Some c, Some d, Some q) \<Rightarrow>
               bindE (sim_deposit L ob ac (r_address c) ex) (\<lambda>ds.
               bindE (sim_borrow L ob ad (r_address d) q) (\<lambda>bs. Inr (ds, bs)))
           | _ \<Rightarrow> Inl (Throw ''amountColl & amountDebt & mintCollateral & mintDebt are required for depositAndBorrow action''))
      | ARepayAndWithdraw \<Rightarrow>
          (case (amountCollateral p, amountDebt p, cr, dr, rate) of
             (Some ac, Some ad, Some c, Some d, Some q) \<Rightarrow>
               bindE (sim_deposit L ob (xneg ac) (r_address c) ex) (\<lambda>ds.
               bindE (sim_borrow L ob (xneg ad) (r_address d) q) (\<lambda>bs. Inr (ds, bs)))
           | _ \<Rightarrow> Inl (Throw ''amountColl & amountDebt & mintCollateral & mintDebt are required for repayAndWithdraw action''))
      | _ \<Rightarrow> Inl (Throw ''Invalid action type for getSimulatedObligationStats''))"

definition getSimulatedObligationStats ::
    "num_lib \<Rightarrow> kamino_market \<Rightarrow> kamino_obligation \<Rightarrow> simulation_params \<Rightarrow> (obligation_stats \<times> positions \<times> positions) result" where
  "getSimulatedObligationStats L mk ob p =
     bindE (reserve_of_mint mk (mintCollateral p)) (\<lambda>cr.
     bindE (reserve_of_mint mk (mintDebt p)) (\<lambda>dr.
       let additionalReserves = (case cr of None \<Rightarrow> [] | Some r \<Rightarrow> [r_address r]) @ (case dr of None \<Rightarrow> [] | Some r \<Rightarrow> [r_address r]);
           g = (case elevationGroupOverride p of None \<Rightarrow> unat (o_elevationGroup (ob_state ob)) | Some e \<Rightarrow> e)
       in
     bindE (getRatesForObligation L mk (ob_state ob) (sim_slot p) additionalReserves) (\<lambda>(ex, _).
     bindE (case dr of None \<Rightarrow> Inr None | Some r \<Rightarrow> bindE (getCumulativeBorrowRate L (r_state r)) (\<lambda>c. Inr (Some c))) (\<lambda>rate.
     bindE (simulate_action L (ob_state ob) p cr dr ex rate) (\<lambda>(ds, bs).
     bindE (calculatePositions L mk ds bs g (Some ex) None) (\<lambda>(newBorrows, newDeposits, s).
       Inr (finish_stats L s, newDeposits, newBorrows)))))))"

definition getPostSwapCollObligationStats ::
    "num_lib \<Rightarrow> kamino_market \<Rightarrow> kamino_obligation \<Rightarrow> decimal \<Rightarrow> pubkey \<Rightarrow> decimal \<Rightarrow> pubkey \<Rightarrow> nat \<Rightarrow> nat \<Rightarrow> obligation_stats result" where
  "getPostSwapCollObligationStats L mk ob withdrawAmount withdrawReserve depositAmount depositRes newElevationGroup slot =
     bindE (getRatesForObligation L mk (ob_state ob) slot
             (filter (\<lambda>k. \<not> isReserveInObligation ob k) [withdrawReserve, depositRes])) (\<lambda>(ex, _).
     bindE (simulateDepositChange L (o_deposits (ob_state ob)) (num_of_dec (xneg withdrawAmount)) withdrawReserve ex) (\<lambda>ds.
     bindE (simulateDepositChange L ds (num_of_dec depositAmount) depositRes ex) (\<lambda>ds'.
     bindE (calculatePositions L mk ds' (o_borrows (ob_state ob)) newElevationGroup (Some ex) None) (\<lambda>(_, _, s).
       Inr (finish_stats L s)))))"

section \<open>Borrow power and limits\<close>

definition getMaxLoanLtvGivenElevationGroup :: "num_lib \<Rightarrow> kamino_market \<Rightarrow> kamino_obligation \<Rightarrow> nat \<Rightarrow> nat \<Rightarrow> decimal result" where
  "getMaxLoanLtvGivenElevationGroup L mk ob g slot =
     bindE (getRatesForObligation L mk (ob_state ob) slot []) (\<lambda>(ex, _).
     bindE (calculateObligationDeposits L mk (o_deposits (ob_state ob)) (Some ex) g getOracleMarketPrice) (\<lambda>d.
       Inr (if xeq (ds_borrowLimit d) (Fin 0) \<or> xeq (ds_userTotalCollateralDeposit d) (Fin 0) then Fin 0
            else ddiv L (ds_borrowLimit d) (ds_userTotalCollateralDeposit d))))"

text \<open>The loop of \<open>getBorrowPower\<close>: true when it returns zero for collateral that may not be used outside an elevation group.\<close>

fun collateral_blocked :: "kamino_market \<Rightarrow> bool \<Rightarrow> position list \<Rightarrow> bool result" where
  "collateral_blocked mk active [] = Inr False"
| "collateral_blocked mk active (p # ps) =
     (case getReserveByAddress mk (reserveAddress p) of
        None \<Rightarrow> Inl (Throw ''Reserve not found'')
      | Some r \<Rightarrow> if disableUsageAsCollOutsideEmode (config (r_state r)) \<noteq> 0 \<and> \<not> active then Inr True
                  else collateral_blocked mk active ps)"

definition inclusive_fee_rate :: "num_lib \<Rightarrow> reserve \<Rightarrow> decimal" where
  "inclusive_fee_rate L st = ddiv L (getBorrowFee L st) (dadd L (getBorrowFee L st) (Fin 1))"

definition getBorrowPower :: "num_lib \<Rightarrow> kamino_market \<Rightarrow> kamino_obligation \<Rightarrow> pubkey \<Rightarrow> nat \<Rightarrow> nat \<Rightarrow> decimal result" where
  "getBorrowPower L mk ob liquidityMint slot g =
     (case getReserveByMint mk liquidityMint of
        None \<Rightarrow> Inl (Throw ''Reserve not found'')
      | Some r \<Rightarrow>
          bindE (getRatesForObligation L mk (ob_state ob) slot []) (\<lambda>(ex, cum).
          bindE (calculateObligationDeposits L mk (o_deposits (ob_state ob)) (Some ex) g getOracleMarketPrice) (\<lambda>d.
          bindE (calculateObligationBorrows L mk (o_borrows (ob_state ob)) (Some cum) g getOracleMarketPrice) (\<lambda>b.
          bindE (getMintFactor L (r_state r)) (\<lambda>mintFactor.
          bindE (collateral_blocked mk (group_active r g) (hm_values (deposits ob))) (\<lambda>blocked.
            if blocked then Inr (Fin 0)
            else
              let power = dmul L (ddiv L (ddiv L (dsub L (ds_borrowLimit d) (bs_userTotalBorrowBorrowFactorAdjusted b))
                            (getBorrowFactorForReserve L r g)) (getOracleMarketPrice r)) mintFactor
              in Inr (xmax (Fin 0) (dsub L power (dmul L power (inclusive_fee_rate L (r_state r)))))))))))"

definition getMaxBorrowAmountV2 :: "num_lib \<Rightarrow> kamino_market \<Rightarrow> kamino_obligation \<Rightarrow> pubkey \<Rightarrow> nat \<Rightarrow> nat \<Rightarrow> decimal result" where
  "getMaxBorrowAmountV2 L mk ob liquidityMint slot g =
     (case getReserveByMint mk liquidityMint of
        None \<Rightarrow> Inl (Throw ''Reserve not found'')
      | Some r \<Rightarrow>
          bindE (getLiquidityAvailableForDebtReserveGivenCaps L mk r [g] (hm_keys (deposits ob))) (\<lambda>avail.
          bindE (getBorrowPower L mk ob liquidityMint slot g) (\<lambda>maxBorrowAmount.
            if g = unat (o_elevationGroup (ob_state ob)) then Inr (xmin maxBorrowAmount (hd avail))
            else
              let debtThisReserve = amount_or_zero (hm_get (borrows ob) (r_address r))
              in Inr (xmin maxBorrowAmount (xmax (Fin 0) (dsub L (hd avail) debtThisReserve))))))"

definition isLoanEligibleForElevationGroup :: "num_lib \<Rightarrow> kamino_market \<Rightarrow> kamino_obligation \<Rightarrow> nat \<Rightarrow> nat \<Rightarrow> bool result" where
  "isLoanEligibleForElevationGroup L mk ob slot g =
     (let reserveDeposits = hm_keys (deposits ob); reserveBorrows = hm_keys (borrows ob) in
      if length reserveBorrows > 1 then Inr False
      else
        bindE (if g > 0 then
                 bindE (getMarketElevationGroupDescriptions mk) (\<lambda>ds.
                   let desc = arr_get_pred ds g in
                   bindE (if reserveDeposits = [] then Inr True
                          else bindE (deref desc) (\<lambda>d. Inr (list_all (pks_contains (collateralReserves d)) reserveDeposits))) (\<lambda>colls.
                   bindE (if reserveBorrows = [] then Inr True
                          else bindE (deref desc) (\<lambda>d. Inr (debtReserve d = hd reserveBorrows))) (\<lambda>debts.
                     Inr (colls \<and> debts))))
               else Inr True) (\<lambda>included.
          if \<not> included then Inr False
          else
            bindE (getRatesForObligation L mk (ob_state ob) slot []) (\<lambda>(ex, _).
            bindE (calculateObligationDeposits L mk (o_deposits (ob_state ob)) (Some ex) g getOracleMarketPrice) (\<lambda>d.
              Inr (xle (userTotalBorrowBorrowFactorAdjusted (refreshedStats ob)) (ds_borrowLimit d))))))"

text \<open>\<open>this.deposits.forEach\<close> of \<open>getMaxBorrowAmount\<close>: the remaining cap, set to zero when a deposit blocks borrowing.\<close>

definition cap_after_deposits :: "kamino_market \<Rightarrow> bool \<Rightarrow> decimal \<Rightarrow> position list \<Rightarrow> decimal result" where
  "cap_after_deposits mk active cap ps =
     foldE (\<lambda>c p.
       case getReserveByAddress mk (reserveAddress p) of
         None \<Rightarrow> Inl (Throw ''Reserve not found'')
       | Some r \<Rightarrow> Inr (if disableUsageAsCollOutsideEmode (config (r_state r)) \<noteq> 0 \<and> \<not> active then Fin 0 else c)) cap ps"

definition common_with_deposits :: "kamino_market \<Rightarrow> kamino_reserve \<Rightarrow> position list \<Rightarrow> u8 list result" where
  "common_with_deposits mk r ps =
     bindE (filterE (\<lambda>item. if item \<noteq> 0
              then bindE (deref (getElevationGroup mk (unat item))) (\<lambda>g. Inr (eg_debtReserve g = r_address r))
              else Inr False) (rc_elevationGroups (config (r_state r)))) (\<lambda>common.
     foldE (\<lambda>cs p.
       case getReserveByAddress mk (reserveAddress p) of
         None \<Rightarrow> Inl (Throw ''Reserve not found'')
       | Some dr \<Rightarrow> Inr (filter (\<lambda>item. item \<in> set (rc_elevationGroups (config (r_state dr)))) cs)) common ps)"

text \<open>\<open>reduce\<close> without an initial value to the group of greatest LTV.\<close>

definition max_ltv_group :: "kamino_market \<Rightarrow> u8 \<Rightarrow> u8 list \<Rightarrow> u8 result" where
  "max_ltv_group mk c cs =
     (let find_group = (\<lambda>i. List.find (\<lambda>g. eg_id g = i) (lm_elevationGroups (m_state mk))) in
      foldE (\<lambda>prev curr.
        bindE (deref (find_group prev)) (\<lambda>p.
        bindE (deref (find_group curr)) (\<lambda>q. Inr (if ltvPct p > ltvPct q then prev else curr)))) c cs)"

definition debt_against_deposits :: "num_lib \<Rightarrow> kamino_market \<Rightarrow> nat \<Rightarrow> position list \<Rightarrow> decimal result" where
  "debt_against_deposits L mk g ps =
     foldE (\<lambda>m p.
       case getReserveByAddress mk (reserveAddress p) of
         None \<Rightarrow> Inl (Throw ''Reserve not found'')
       | Some r \<Rightarrow>
           bindE (getBorrowLimitAgainstCollateralInElevationGroup (r_state r) (g - 1)) (\<lambda>limit.
           bindE (getBorrowedAmountAgainstCollateralInElevationGroup (r_state r) (g - 1)) (\<lambda>cur.
             Inr (xmax (Fin 0) (xmin (dsub L limit cur) m))))) (dint U64_MAX) ps"

definition getMaxBorrowAmount ::
    "num_lib \<Rightarrow> kamino_market \<Rightarrow> kamino_obligation \<Rightarrow> pubkey \<Rightarrow> nat \<Rightarrow> bool \<Rightarrow> decimal result" where
  "getMaxBorrowAmount L mk ob liquidityMint slot requestElevationGroup =
     (case getReserveByMint mk liquidityMint of
        None \<Rightarrow> Inl (Throw ''Reserve not found'')
      | Some r \<Rightarrow>
          let st = r_state r; cfg = config st; ps = hm_values (deposits ob) in
          bindE (common_with_deposits mk r ps) (\<lambda>common.
          bindE (case common of [] \<Rightarrow> Inr (o_elevationGroup (ob_state ob))
                 | c # cs \<Rightarrow> bindE (max_ltv_group mk c cs) (\<lambda>best.
                     Inr (if requestElevationGroup then best else o_elevationGroup (ob_state ob)))) (\<lambda>g8.
          let g = unat g8; active = group_active r g in
          bindE (getMintFactor L st) (\<lambda>mintFactor.
          bindE (cap_after_deposits mk active (dsub L (reserveBorrowLimit (stats r)) (getBorrowedAmount L st)) ps) (\<lambda>capRemained.
          bindE (getDebtWithdrawalCapCurrent L st slot) (\<lambda>capCurrent.
            let power = dmul L (ddiv L (ddiv L (dsub L (os_borrowLimit (refreshedStats ob))
                          (userTotalBorrowBorrowFactorAdjusted (refreshedStats ob)))
                          (getBorrowFactorForReserve L r g)) (getOracleMarketPrice r)) mintFactor;
                max1 = xmin_list [power, getLiquidityAvailableAmount st, capRemained];
                max2 = (if xgt (getDebtWithdrawalCapCapacity st) (Fin 0)
                        then xmin max1 (dsub L (getDebtWithdrawalCapCapacity st) capCurrent) else max1);
                max3 = dsub L max2 (dmul L max2 (inclusive_fee_rate L st));
                limit = ndiv (dint (uint (utilizationLimitBlockBorrowingAbovePct cfg))) (Fin 100);
                current = calculateUtilizationRatio L st
            in if xgt limit (Fin 0) \<and> xgt current limit then Inr (Fin 0)
               else
                 let max4 = (if xgt limit (Fin 0) \<and> xlt current limit
                             then xmin max3 (dmul L (dec_of_num (nsub limit current)) (getTotalSupply L st)) else max3)
                 in bindE (if \<not> active
                           then Inr (dsub L (getBorrowLimitOutsideElevationGroup st) (getBorrowedAmountOutsideElevationGroup st))
                           else debt_against_deposits L mk g ps) (\<lambda>groupLimit.
                      Inr (xmax (Fin 0) (xmin max4 groupLimit)))))))))"

definition getMaxWithdrawAmount :: "num_lib \<Rightarrow> kamino_market \<Rightarrow> kamino_obligation \<Rightarrow> pubkey \<Rightarrow> nat \<Rightarrow> decimal result" where
  "getMaxWithdrawAmount L mk ob tokenMint slot =
     (case getReserveByMint mk tokenMint of
        None \<Rightarrow> Inl (Throw ''Reserve not found'')
      | Some r \<Rightarrow>
          (case getDepositByReserve ob (r_address r) of
             None \<Rightarrow> Inl (Throw ''Deposit reserve not found'')
           | Some p \<Rightarrow>
               let s = refreshedStats ob; amount = p_amount p; debt = userTotalBorrowBorrowFactorAdjusted s in
               if xeq debt (Fin 0) then Inr amount
               else
                 bindE (getLtvForReserve L mk r (unat (o_elevationGroup (ob_state ob)))) (\<lambda>(maxLtv, _).
                 if xge debt (os_borrowLimit s) then Inr (Fin 0)
                 else
                   let maxWithdrawValue =
                         (if xeq maxLtv (Fin 0) then amount
                          else dmul L (ddiv L (dsub L (os_borrowLimit s) debt) maxLtv) (dec_of_num (b64 (999 / 1000))))
                   in bindE (getMintFactor L (r_state r)) (\<lambda>mintFactor.
                      bindE (getDepositWithdrawalCapCurrent L (r_state r) slot) (\<lambda>capCurrent.
                        Inr (xmax (Fin 0) (xmin_list
                          [amount, dmul L (ddiv L maxWithdrawValue (getOracleMarketPrice r)) mintFactor,
                           getLiquidityAvailableAmount (r_state r),
                           dsub L (getDepositWithdrawalCapCapacity (r_state r)) capCurrent])))))))"

section \<open>Deposit statistics\<close>

definition step_rate :: "num_lib \<Rightarrow> rates option \<Rightarrow> kamino_reserve \<Rightarrow> decimal result" where
  "step_rate L ex r = (case ex of Some m \<Rightarrow> dec_arg (hm_get m (r_address r)) | None \<Rightarrow> Inr (getCollateralExchangeRate L (r_state r)))"

lemma deposit_step_parts:
  assumes "deposit_step L mk ex g getPx s d = Inr s'" "isNotNullPubkey (depositReserve d)"
  shows "\<exists>r mx lq e f. getReserveByAddress mk (depositReserve d) = Some r \<and> getLtvForReserve L mk r g = Inr (mx, lq) \<and>
    step_rate L ex r = Inr e \<and> getMintFactor L (r_state r) = Inr f"
proof (cases "getReserveByAddress mk (depositReserve d)")
  case None
  then show ?thesis using assms by (simp add: deposit_step_def)
next
  case (Some r)
  show ?thesis
    using assms Some unfolding deposit_step_def step_rate_def [symmetric]
    by (cases "getLtvForReserve L mk r g"; cases "step_rate L ex r"; cases "getMintFactor L (r_state r)") (simp_all split: prod.splits)
qed

text \<open>
  Inputs under which the statistics of deposits make sense: deposited amounts are not negative, prices
  are finite and not negative, exchange rates and mint factors finite and positive, and LTVs ordered between 0 and 1.
\<close>

definition deposit_input_ok ::
    "num_lib \<Rightarrow> kamino_market \<Rightarrow> rates option \<Rightarrow> nat \<Rightarrow> (kamino_reserve \<Rightarrow> decimal) \<Rightarrow> obligation_collateral \<Rightarrow> bool" where
  "deposit_input_ok L mk ex g getPx d \<longleftrightarrow> 0 \<le> depositedAmount d \<and>
     (\<forall>r. getReserveByAddress mk (depositReserve d) = Some r \<longrightarrow>
        (\<exists>p\<ge>0. getPx r = Fin p) \<and>
        (\<forall>m. ex = Some m \<longrightarrow> (\<forall>e. hm_get m (r_address r) = Some e \<longrightarrow> (\<exists>q>0. e = Fin q))) \<and>
        (ex = None \<longrightarrow> (\<exists>q>0. getCollateralExchangeRate L (r_state r) = Fin q)) \<and>
        (\<forall>a b. getLtvForReserve L mk r g = Inr (a, b) \<longrightarrow>
           (\<exists>u v. a = Fin u \<and> b = Fin v \<and> 0 \<le> u \<and> u \<le> v \<and> v \<le> 1)))"

definition deposit_totals_ok :: "num_lib \<Rightarrow> deposit_stats \<Rightarrow> bool" where
  "deposit_totals_ok L s \<longleftrightarrow> (\<exists>t c l b q.
     ds_userTotalDeposit s = Fin t \<and> ds_userTotalCollateralDeposit s = Fin c \<and> ds_userTotalLiquidatableDeposit s = Fin l \<and>
     ds_borrowLimit s = Fin b \<and> ds_borrowLiquidationLimit s = Fin q \<and>
     0 \<le> b \<and> b \<le> c \<and> b \<le> q \<and> q \<le> l \<and> c \<le> t \<and> l \<le> t \<and>
     d_round L t = t \<and> d_round L c = c \<and> d_round L l = l \<and> d_round L b = b \<and> d_round L q = q)"

context decimal_laws
begin

lemma mint_factor_pos: "getMintFactor L st = Inr f \<Longrightarrow> \<exists>q\<ge>1. f = Fin q"
proof -
  assume "getMintFactor L st = Inr f"
  then obtain n where "f = Fin (d_round L (10 ^ n))" by (auto simp: getMintFactor_def dpow_def bindE_Inr_iff)
  then show ?thesis by (auto simp: d_pow10)
qed

lemma add_mono2:
  "a \<le> b \<Longrightarrow> x \<le> y \<Longrightarrow> d_round L (a + x) \<le> d_round L (b + y)"
  by (intro d_mono) simp

lemma add_nonneg_ge: "d_round L a = a \<Longrightarrow> 0 \<le> x \<Longrightarrow> a \<le> d_round L (a + x)"
  using d_mono [of a "a + x"] by simp

lemma totals_step:
  assumes t: "0 \<le> b" "b \<le> c" "b \<le> q" "q \<le> l" "c \<le> t" "l \<le> t"
      "d_round L t = t" "d_round L c = c" "d_round L l = l" "d_round L b = b" "d_round L q = q"
    and v: "0 \<le> v" "d_round L v = v" and u: "0 \<le> mx" "mx \<le> lq" "lq \<le> 1"
  defines "c' \<equiv> (if mx \<noteq> 0 then d_round L (c + v) else c)"
    and "l' \<equiv> (if lq \<noteq> 0 then d_round L (l + v) else l)"
    and "t' \<equiv> d_round L (t + v)" and "b' \<equiv> d_round L (b + d_round L (v * mx))" and "q' \<equiv> d_round L (q + d_round L (v * lq))"
  shows "0 \<le> b' \<and> b' \<le> c' \<and> b' \<le> q' \<and> q' \<le> l' \<and> c' \<le> t' \<and> l' \<le> t' \<and>
     d_round L t' = t' \<and> d_round L c' = c' \<and> d_round L l' = l' \<and> d_round L b' = b' \<and> d_round L q' = q'"
proof -
  have vm: "0 \<le> d_round L (v * mx)" "d_round L (v * mx) \<le> d_round L (v * lq)" "d_round L (v * lq) \<le> v"
  proof -
    show "0 \<le> d_round L (v * mx)" using v u by (intro d_nonneg) simp
    show "d_round L (v * mx) \<le> d_round L (v * lq)" using v u by (intro d_mono mult_left_mono) simp_all
    have "v * lq \<le> v * 1" using v u by (intro mult_left_mono) simp_all
    then show "d_round L (v * lq) \<le> v" using d_mono [of "v * lq" v] v(2) by simp
  qed
  have tt: "t \<le> t'" unfolding t'_def by (rule add_nonneg_ge [OF t(7) v(1)])
  have "0 \<le> b'" unfolding b'_def using t(1) vm by (intro d_nonneg) simp
  moreover have "b' \<le> c'"
  proof (cases "mx = 0")
    case True
    then show ?thesis using t by (simp add: b'_def c'_def)
  next
    case False
    then show ?thesis using t vm unfolding b'_def c'_def by (auto intro: add_mono2)
  qed
  moreover have "b' \<le> q'" unfolding b'_def q'_def using t vm by (intro add_mono2) simp_all
  moreover have "q' \<le> l'"
  proof (cases "lq = 0")
    case True
    then show ?thesis using t by (simp add: q'_def l'_def)
  next
    case False
    then show ?thesis using t vm unfolding q'_def l'_def by (auto intro: add_mono2)
  qed
  moreover have "c' \<le> t'" "l' \<le> t'"
    using t tt unfolding c'_def l'_def t'_def by (auto intro: add_mono2)
  moreover have "d_round L t' = t'" "d_round L c' = c'" "d_round L l' = l'" "d_round L b' = b'" "d_round L q' = q'"
    using t by (simp_all add: t'_def c'_def l'_def b'_def q'_def d_idem)
  ultimately show ?thesis by blast
qed

lemma deposit_step_totals:
  assumes "deposit_input_ok L mk ex g getPx d" "deposit_totals_ok L s" "deposit_step L mk ex g getPx s d = Inr s'"
  shows "deposit_totals_ok L s'"
proof (cases "isNotNullPubkey (depositReserve d)")
  case False
  then show ?thesis using assms(2,3) by (simp add: deposit_step_def)
next
  case True
  obtain r mx lq e f where r: "getReserveByAddress mk (depositReserve d) = Some r"
    and ltv: "getLtvForReserve L mk r g = Inr (mx, lq)"
    and ex: "step_rate L ex r = Inr e" and f: "getMintFactor L (r_state r) = Inr f"
    using deposit_step_parts [OF assms(3) True] by blast
  have input: "0 \<le> depositedAmount d" "\<exists>p\<ge>0. getPx r = Fin p"
    "\<forall>m. ex = Some m \<longrightarrow> (\<forall>e. hm_get m (r_address r) = Some e \<longrightarrow> (\<exists>q>0. e = Fin q))"
    "ex = None \<longrightarrow> (\<exists>q>0. getCollateralExchangeRate L (r_state r) = Fin q)"
    "\<exists>u v. mx = Fin u \<and> lq = Fin v \<and> 0 \<le> u \<and> u \<le> v \<and> v \<le> 1"
    using assms(1) r ltv unfolding deposit_input_ok_def by simp_all
  obtain p where p: "getPx r = Fin p" "0 \<le> p" using input(2) by blast
  obtain u v where uv: "mx = Fin u" "lq = Fin v" "0 \<le> u" "u \<le> v" "v \<le> 1"
    using input(5) by blast
  obtain qe where qe: "e = Fin qe" "0 < qe"
    using ex input(3,4) by (cases ex) (auto simp: step_rate_def dec_arg_def split: option.splits)
  obtain qf where qf: "f = Fin qf" "1 \<le> qf" using mint_factor_pos [OF f] by blast
  define w where "w = d_round L (d_round L (d_round L (of_int (depositedAmount d) / qe) * p) / qf)"
  have "0 \<le> d_round L (of_int (depositedAmount d) / qe)" using input(1) qe by (intro d_nonneg) simp
  then have "0 \<le> d_round L (d_round L (of_int (depositedAmount d) / qe) * p)" using p by (intro d_nonneg) simp
  then have w: "0 \<le> w" "d_round L w = w" unfolding w_def using qf by (auto intro: d_nonneg simp: d_idem)
  obtain t c l b q where s: "ds_userTotalDeposit s = Fin t" "ds_userTotalCollateralDeposit s = Fin c"
      "ds_userTotalLiquidatableDeposit s = Fin l" "ds_borrowLimit s = Fin b" "ds_borrowLiquidationLimit s = Fin q"
    and inv: "0 \<le> b" "b \<le> c" "b \<le> q" "q \<le> l" "c \<le> t" "l \<le> t"
      "d_round L t = t" "d_round L c = c" "d_round L l = l" "d_round L b = b" "d_round L q = q"
    using assms(2) unfolding deposit_totals_ok_def by blast
  have val: "ddiv L (dmul L (ddiv L (dint (depositedAmount d)) e) (getPx r)) f = Fin w"
    using qe qf by (simp add: w_def p)
  have "ds_userTotalDeposit s' = Fin (d_round L (t + w))"
    "ds_userTotalCollateralDeposit s' = Fin (if u \<noteq> 0 then d_round L (c + w) else c)"
    "ds_userTotalLiquidatableDeposit s' = Fin (if v \<noteq> 0 then d_round L (l + w) else l)"
    "ds_borrowLimit s' = Fin (d_round L (b + d_round L (w * u)))"
    "ds_borrowLiquidationLimit s' = Fin (d_round L (q + d_round L (w * v)))"
    using assms(3) True r ltv ex f val s uv unfolding deposit_step_def step_rate_def [symmetric] by (auto simp: Let_def)
  then show ?thesis
    unfolding deposit_totals_ok_def using totals_step [OF inv w uv(3-5)] by blast
qed

end

text \<open>
  C10. Statistics of deposits: when they can be computed, all totals are finite and ordered. The
  borrow limit is between 0 and the collateral total and at most the liquidation limit; the
  liquidation limit is at most the liquidatable total; both totals are at most the total deposit.
\<close>

theorem deposit_totals_ordered:
  assumes "decimal_laws L" and "\<forall>d\<in>set ds. deposit_input_ok L mk ex g getPx d"
    and "calculateObligationDeposits L mk ds ex g getPx = Inr s"
  shows "\<exists>t c l b q. ds_userTotalDeposit s = Fin t \<and> ds_userTotalCollateralDeposit s = Fin c \<and>
     ds_userTotalLiquidatableDeposit s = Fin l \<and> ds_borrowLimit s = Fin b \<and> ds_borrowLiquidationLimit s = Fin q \<and>
     0 \<le> b \<and> b \<le> c \<and> b \<le> q \<and> q \<le> l \<and> c \<le> t \<and> l \<le> t"
proof -
  have "deposit_totals_ok L empty_deposit_stats"
    using decimal_laws.d_zero [OF assms(1)] by (simp add: deposit_totals_ok_def empty_deposit_stats_def)
  then have "deposit_totals_ok L s"
    using foldE_inv [OF assms(3) [unfolded calculateObligationDeposits_def], of "deposit_totals_ok L"]
      decimal_laws.deposit_step_totals [OF assms(1)] assms(2) by blast
  then show ?thesis unfolding deposit_totals_ok_def by blast
qed

section \<open>A sample obligation\<close>

text \<open>A deposit in the second reserve of the sample market, in elevation group 1, with a debt in the first reserve.\<close>

definition sample_obligation :: obligation where
  "sample_obligation =
     \<lparr>o_tag = 0, o_lastUpdate = \<lparr>lu_slot = 1000, stale = 0, priceStatus = 63\<rparr>, o_lendingMarket = 1, o_owner = 2,
      o_deposits = \<lparr>depositReserve = 102, depositedAmount = 500000000, oc_marketValueSf = 0, borrowedAmountAgainstThisCollateralInElevationGroup = 0\<rparr> #
        replicate 7 \<lparr>depositReserve = 0, depositedAmount = 0, oc_marketValueSf = 0, borrowedAmountAgainstThisCollateralInElevationGroup = 0\<rparr>,
      lowestReserveDepositLiquidationLtv = 92, depositedValueSf = 0,
      o_borrows = \<lparr>borrowReserve = 101, ol_cumulativeBorrowRateBsf = [1152921504606846976, 0, 0, 0],
          ol_borrowedAmountSf = 115292150460684697600000000, ol_marketValueSf = 0, borrowFactorAdjustedMarketValueSf = 0, borrowedAmountOutsideElevationGroups = 0\<rparr> #
        replicate 4 \<lparr>borrowReserve = 0, ol_cumulativeBorrowRateBsf = [0, 0, 0, 0], ol_borrowedAmountSf = 0, ol_marketValueSf = 0,
          borrowFactorAdjustedMarketValueSf = 0, borrowedAmountOutsideElevationGroups = 0\<rparr>,
      borrowFactorAdjustedDebtValueSf = 0, borrowedAssetsMarketValueSf = 0, allowedBorrowValueSf = 0, unhealthyBorrowValueSf = 0,
      depositsAssetTiers = replicate 8 255, borrowsAssetTiers = replicate 5 255, o_elevationGroup = 1, numOfObsoleteReserves = 0,
      hasDebt = 1, o_referrer = 0, borrowingDisabled = 0, autodeleverageTargetLtvPct = 0, lowestReserveDepositMaxLtvPct = 90,
      highestBorrowFactorPct = 100, autodeleverageMarginCallStartedTimestamp = 0\<rparr>"

definition sample_rates :: rates where
  "sample_rates = hm_set (hm_set hm_empty 101 (Fin 1)) 102 (Fin 1)"

lemma sample_rates_get:
  "hm_get sample_rates k = (if k = 102 then Some (Fin 1) else if k = 101 then Some (Fin 1) else None)"
  by (simp add: sample_rates_def hm_get_set hm.lookup_empty)

lemma sample_keys: "isNotNullPubkey 101" "isNotNullPubkey 102" "\<not> isNotNullPubkey 0"
  by (simp_all add: isNotNullPubkey_def NULL_PUBKEY_def default_pubkey_def)

lemma sample_coll_group: "group_active sample_coll 1" "group_active sample_reserve 1"
  by (simp_all add: group_active_def sample_reserve_groups)

lemma sample_ltv:
  "r \<in> {sample_reserve, sample_coll} \<Longrightarrow>
    getLtvForReserve decimal_js sample_market r 1 = Inr (Fin (d_round decimal_js (90 / 100)), Fin (d_round decimal_js (92 / 100)))"
  using sample_coll_group
  by (auto simp: getLtvForReserve_def getElevationGroup_def arr_get_pred_def arr_get_def sample_market_def new_KaminoMarket_def
    sample_groups_def)

lemmas sample_ltv_Suc = sample_ltv [unfolded One_nat_def]

lemma sample_mint_factor: "r \<in> {sample_reserve, sample_coll} \<Longrightarrow> getMintFactor decimal_js (r_state r) = Inr (Fin 1000000)"
proof -
  have "bn_toNumber decimal_js 6 = Inr 6" by (rule djs.toNumber_safe) simp
  then show "r \<in> {sample_reserve, sample_coll} \<Longrightarrow> getMintFactor decimal_js (r_state r) = Inr (Fin 1000000)"
    using djs.d_pow10 [of 6]
    by (auto simp: getMintFactor_def dpow_def sample_coll_def sample_reserve_simps sample_state_def)
qed

lemma sample_deposit_input: "d \<in> set (o_deposits sample_obligation) \<Longrightarrow>
    deposit_input_ok decimal_js sample_market (Some sample_rates) 1 (\<lambda>_. Fin 1) d"
proof -
  have "0 \<le> d_round decimal_js (90 / 100)" "d_round decimal_js (90 / 100) \<le> d_round decimal_js (92 / 100)"
    "d_round decimal_js (92 / 100) \<le> 1"
    by (auto intro: djs.d_nonneg djs.d_mono djs.d_le_one)
  then show "d \<in> set (o_deposits sample_obligation) \<Longrightarrow> deposit_input_ok decimal_js sample_market (Some sample_rates) 1 (\<lambda>_. Fin 1) d"
    unfolding deposit_input_ok_def
    by (auto simp: sample_obligation_def getReserveByAddress_def sample_market_get sample_rates_get sample_ltv_Suc split: if_splits)
qed

lemma sample_deposit_stats:
  "\<exists>s. calculateObligationDeposits decimal_js sample_market (o_deposits sample_obligation) (Some sample_rates) 1 (\<lambda>_. Fin 1) = Inr s"
  unfolding calculateObligationDeposits_def
proof (rule foldE_total)
  fix s d
  assume "d \<in> set (o_deposits sample_obligation)"
  then have "depositReserve d = 102 \<or> depositReserve d = 0" by (auto simp: sample_obligation_def)
  then show "\<exists>s'. deposit_step decimal_js sample_market (Some sample_rates) 1 (\<lambda>_. Fin 1) s d = Inr s'"
    by (auto simp: deposit_step_def sample_keys getReserveByAddress_def sample_market_get sample_rates_get dec_arg_def
      sample_ltv_Suc sample_mint_factor Let_def)
qed

theorem deposit_totals_ordered_witness:
  "\<exists>s b t. calculateObligationDeposits decimal_js sample_market (o_deposits sample_obligation) (Some sample_rates) 1 (\<lambda>_. Fin 1) = Inr s \<and>
    ds_borrowLimit s = Fin b \<and> ds_userTotalDeposit s = Fin t \<and> 0 \<le> b \<and> b \<le> t"
proof -
  obtain s where s: "calculateObligationDeposits decimal_js sample_market (o_deposits sample_obligation) (Some sample_rates) 1 (\<lambda>_. Fin 1) = Inr s"
    using sample_deposit_stats by blast
  from deposit_totals_ordered [OF decimal_laws_js _ s] sample_deposit_input s show ?thesis by fastforce
qed

section \<open>Simulated changes\<close>

text \<open>The slot a simulated change of reserve \<open>k\<close> writes: every slot of \<open>k\<close>, or else the first free slot.\<close>

definition written_slot :: "('a \<Rightarrow> pubkey) \<Rightarrow> 'a list \<Rightarrow> pubkey \<Rightarrow> nat \<Rightarrow> bool" where
  "written_slot key xs k i \<longleftrightarrow> (if \<exists>x\<in>set xs. key x = k then key (xs ! i) = k
     else findIndex (\<lambda>x. key x = default_pubkey) xs = Some i)"

lemma bn_of_dec_nonneg: "bn_laws L \<Longrightarrow> bn_of_dec L (positiveOrZero c) = Inr v \<Longrightarrow> (\<And>q. c = Fin q \<Longrightarrow> q < 10 ^ 21) \<Longrightarrow> 0 \<le> v"
proof -
  assume bl: "bn_laws L" and v: "bn_of_dec L (positiveOrZero c) = Inr v" and small: "\<And>q. c = Fin q \<Longrightarrow> q < 10 ^ 21"
  then obtain q where q: "positiveOrZero c = Fin q" "of_int \<lfloor>q\<rfloor> = q" "d_toBN L \<lfloor>q\<rfloor> = Inr v"
    by (cases "positiveOrZero c") (auto split: if_splits)
  then have "c = Fin q \<or> q = 0" by (cases c) (auto simp: positiveOrZero_def xmax_def split: if_splits)
  have q0: "0 \<le> q" using q(1) by (cases c) (auto simp: positiveOrZero_def xmax_def split: if_splits)
  have "q < 10 ^ 21" using \<open>c = Fin q \<or> q = 0\<close> small by auto
  then have "rat_of_int \<lfloor>q\<rfloor> < of_int (10 ^ 21)" using q(2) by simp
  then have "\<lfloor>q\<rfloor> < 10 ^ 21" by (simp only: of_int_less_iff)
  then have "d_toBN L \<lfloor>q\<rfloor> = Inr \<lfloor>q\<rfloor>" using q0 by (intro bn_laws.toBN_small [OF bl]) simp
  then show "0 \<le> v" using q(3) q0 by simp
qed

text \<open>
  C33. A simulated deposit change keeps the number of slots, leaves every slot alone except those of the changed reserve,
  or the first free slot when the reserve has none, and afterwards the obligation holds the reserve.
\<close>

theorem simulateDepositChange_frame:
  assumes "simulateDepositChange L ds change k ex = Inr ds'"
  shows "length ds' = length ds \<and> (\<exists>d\<in>set ds'. depositReserve d = k) \<and>
    (\<forall>i<length ds. if written_slot depositReserve ds k i then depositReserve (ds' ! i) = k else ds' ! i = ds ! i)"
proof -
  define f where "f d = (if depositReserve d = k then
         bindE (change_in_collateral L ex k change) (\<lambda>c.
         bindE (bn_toNumber L (depositedAmount d)) (\<lambda>n.
         bindE (bn_of_dec L (positiveOrZero (dadd L (dint n) c))) (\<lambda>v.
           Inr (d\<lparr>depositedAmount := v\<rparr>))))
       else Inr d)" for d :: obligation_collateral
  obtain new where new: "mapE f ds = Inr new"
    using assms by (auto simp: simulateDepositChange_def f_def [symmetric] bindE_Inr_iff)
  note len = mapE_Inr_length [OF new] and nth = mapE_Inr_nth [OF new]
  have same: "depositReserve (new ! i) = depositReserve (ds ! i) \<and> (depositReserve (ds ! i) \<noteq> k \<longrightarrow> new ! i = ds ! i)"
    if "i < length ds" for i
    using nth [OF that] by (auto simp: f_def bindE_Inr_iff split: if_splits dest!: sym [of _ "new ! i"])
  show ?thesis
  proof (cases "\<exists>x\<in>set ds. depositReserve x = k")
    case True
    then have "findIndex (\<lambda>d. depositReserve d = k) ds \<noteq> None" by (auto simp: findIndex_None)
    then have "ds' = new" using assms new by (auto simp: simulateDepositChange_def f_def [symmetric])
    moreover have "\<exists>d\<in>set new. depositReserve d = k"
      using True same len by (metis in_set_conv_nth)
    ultimately show ?thesis using True same len by (auto simp: written_slot_def)
  next
    case False
    then have none: "findIndex (\<lambda>d. depositReserve d = k) ds = None" by (auto simp: findIndex_None)
    obtain i v where i: "findIndex (\<lambda>d. depositReserve d = default_pubkey) ds = Some i"
      "ds' = new[i := (ds ! i)\<lparr>depositedAmount := v, depositReserve := k\<rparr>]"
      using assms new none by (auto simp: simulateDepositChange_def f_def [symmetric] bindE_Inr_iff split: option.splits)
    have il: "i < length new" using i(1) len by (auto simp: findIndex_Some)
    then have "\<exists>d\<in>set ds'. depositReserve d = k" using set_update_memI [OF il] i(2) by force
    moreover have "ds' ! j = ds ! j" if "j < length ds" "j \<noteq> i" for j
      using that same False i(2) by (metis nth_list_update_neq nth_mem)
    ultimately show ?thesis using False i il len by (auto simp: written_slot_def)
  qed
qed


theorem simulateDepositChange_frame_witness:
  "\<exists>ds'. simulateDepositChange decimal_js (o_deposits sample_obligation) (Fin 0) 101 sample_rates = Inr ds' \<and>
    length ds' = 8 \<and> depositReserve (ds' ! 1) = 101 \<and> ds' ! 0 = o_deposits sample_obligation ! 0"
proof -
  let ?ds = "o_deposits sample_obligation"
  have z: "change_in_collateral decimal_js sample_rates 101 (Fin 0) = Inr (Fin 0)"
    using djs.rint_int [of 0] by (simp add: change_in_collateral_def sample_rates_get dec_arg_def)
  have v: "bn_of_dec decimal_js (positiveOrZero (Fin 0)) = Inr 0"
    using djs.toBN_small [of 0] by (simp add: positiveOrZero_def xmax_def)
  have key: "depositReserve (?ds ! i) = (if i = 0 then 102 else 0)" if "i < 8" for i
    using that by (cases i) (simp_all add: sample_obligation_def)
  have len: "length ?ds = 8" by (simp add: sample_obligation_def)
  have free: "findIndex (\<lambda>d. depositReserve d = 101) ?ds = None"
    by (simp add: sample_obligation_def findIndex_None)
  have slot: "findIndex (\<lambda>d. depositReserve d = default_pubkey) ?ds = Some 1"
    by (simp add: findIndex_Some key len default_pubkey_def)
  have keep: "mapE (\<lambda>d. if depositReserve d = 101 then f d else Inr d) ?ds = Inr ?ds" for f
    by (rule mapE_same) (auto simp: sample_obligation_def)
  obtain ds' where ds': "simulateDepositChange decimal_js ?ds (Fin 0) 101 sample_rates = Inr ds'"
    using v by (simp add: simulateDepositChange_def keep free slot z)
  have "written_slot depositReserve ?ds 101 1" "\<not> written_slot depositReserve ?ds 101 0"
    using slot free by (auto simp: written_slot_def findIndex_None)
  then show ?thesis using simulateDepositChange_frame [OF ds'] ds' len by (metis (full_types) zero_less_numeral one_less_numeral_iff semiring_norm(76))
qed

end
