(* ===== verification/Bytes.thy ===== *)
theory Bytes
  imports Pubkey
begin

text \<open>
  Byte buffers: the little-endian writes of the Buffer class of Node that \<open>src/ts-client/src/classes/reserve.ts\<close> uses,
  with their range errors, and the part of \<open>@coral-xyz/borsh\<close> the generated layouts under
  \<open>src/ts-client/src/idl_codegen\<close> call. The borsh package is a parameter (\<open>borsh_lib\<close>) whose documented behaviour is the
  locale \<open>borsh_laws\<close>; \<open>borsh_le\<close> is a concrete instance, on which the locale is interpreted.
\<close>

type_synonym byte = "8 word"

section \<open>Little-endian integers\<close>

primrec le_bytes :: "nat \<Rightarrow> nat \<Rightarrow> byte list" where
  "le_bytes 0 v = []"
| "le_bytes (Suc n) v = of_nat (v mod 256) # le_bytes n (v div 256)"

primrec le_value :: "byte list \<Rightarrow> nat" where
  "le_value [] = 0"
| "le_value (b # bs) = unat b + 256 * le_value bs"

lemma length_le_bytes [simp]: "length (le_bytes n v) = n"
  by (induction n arbitrary: v) simp_all

lemma unat_byte_mod: "unat (of_nat (v mod 256) :: byte) = v mod 256"
  by (simp add: unat_of_nat)

lemma le_value_bytes: "le_value (le_bytes n v) = v mod 256 ^ n"
proof (induction n arbitrary: v)
  case (Suc n)
  have "v mod (256 * 256 ^ n) = 256 * (v div 256 mod 256 ^ n) + v mod 256" by (rule mod_mult2_eq)
  then show ?case by (simp add: Suc.IH unat_byte_mod)
qed simp

lemma le_value_less: "le_value bs < 256 ^ length bs"
proof (induction bs)
  case (Cons b bs)
  have "unat b < 256" using unsigned_less [where 'a = nat, of b] by simp
  then show ?case using Cons.IH by simp
qed simp

lemma le_bytes_value: "le_bytes (length bs) (le_value bs) = bs"
proof (induction bs)
  case (Cons b bs)
  have "unat b < 256" using unsigned_less [where 'a = nat, of b] by simp
  then have "(unat b + 256 * le_value bs) mod 256 = unat b" "(unat b + 256 * le_value bs) div 256 = le_value bs" by simp_all
  then show ?case using Cons.IH by simp
qed simp

lemma le_value_bytes_id: "v < 256 ^ n \<Longrightarrow> le_value (le_bytes n v) = v"
  by (simp add: le_value_bytes)

lemma le_value_bytes_word: "256 ^ n = (2 :: nat) ^ LENGTH('a::len) \<Longrightarrow> le_value (le_bytes n (unat (w :: 'a word))) = unat w"
  using unsigned_less [where 'a = nat, of w] by (simp add: le_value_bytes)

section \<open>Buffer writes\<close>

definition alloc :: "nat \<Rightarrow> byte list" where
  "alloc n = replicate n 0"

definition buf_write :: "byte list \<Rightarrow> nat \<Rightarrow> byte list \<Rightarrow> byte list result" where
  "buf_write buf off bs =
     (if off + length bs \<le> length buf then Inr (take off buf @ bs @ drop (off + length bs) buf) else Inl RangeError)"

text \<open>
  \<open>writeUIntLE(v, off, n)\<close>, and the same write under the names \<open>writeUInt16LE\<close>, \<open>writeUInt32LE\<close> and
  \<open>writeBigUInt64LE\<close>: a value outside the width is a range error.
\<close>

definition write_le :: "nat \<Rightarrow> int \<Rightarrow> nat \<Rightarrow> byte list \<Rightarrow> byte list result" where
  "write_le n v off buf = (if 0 \<le> v \<and> v < 256 ^ n then buf_write buf off (le_bytes n (nat v)) else Inl RangeError)"

text \<open>A loop that writes the values of an array at consecutive offsets.\<close>

fun write_all :: "nat \<Rightarrow> int list \<Rightarrow> nat \<Rightarrow> byte list \<Rightarrow> byte list result" where
  "write_all n [] off buf = Inr buf"
| "write_all n (v # vs) off buf = bindE (write_le n v off buf) (write_all n vs (off + n))"

abbreviation fits :: "nat \<Rightarrow> int \<Rightarrow> bool" where
  "fits n v \<equiv> 0 \<le> v \<and> v < 256 ^ n"

abbreviation le_int :: "nat \<Rightarrow> int \<Rightarrow> byte list" where
  "le_int n v \<equiv> le_bytes n (nat v)"

lemma length_alloc [simp]: "length (alloc n) = n"
  by (simp add: alloc_def)

lemma write_le_fits: "fits n v \<Longrightarrow> write_le n v off (pre @ mid @ post) =
    (if off = length pre \<and> length mid = n then Inr (pre @ le_int n v @ post) else buf_write (pre @ mid @ post) off (le_int n v))"
  by (auto simp: write_le_def buf_write_def)

lemma write_le_alloc: "fits n v \<Longrightarrow> n \<le> m \<Longrightarrow> write_le n v (length pre) (pre @ alloc m) = Inr (pre @ le_int n v @ alloc (m - n))"
  by (auto simp: write_le_def buf_write_def alloc_def)

lemma write_all_alloc:
  "(\<And>v. v \<in> set vs \<Longrightarrow> fits n v) \<Longrightarrow> n * length vs \<le> m \<Longrightarrow>
    write_all n vs (length pre) (pre @ alloc m) = Inr (pre @ concat (map (le_int n) vs) @ alloc (m - n * length vs))"
proof (induction vs arbitrary: pre m)
  case (Cons v vs)
  have w: "write_le n v (length pre) (pre @ alloc m) = Inr (pre @ le_int n v @ alloc (m - n))"
    using Cons.prems by (intro write_le_alloc) auto
  have "write_all n vs (length (pre @ le_int n v)) ((pre @ le_int n v) @ alloc (m - n)) =
      Inr ((pre @ le_int n v) @ concat (map (le_int n) vs) @ alloc (m - n - n * length vs))"
    using Cons.prems by (intro Cons.IH) auto
  then show ?case using w by (simp add: diff_diff_left)
qed simp

lemma write_all_length: "write_all n vs off buf = Inr buf' \<Longrightarrow> length buf' = length buf"
  by (induction vs arbitrary: off buf) (auto simp: bindE_Inr_iff write_le_def buf_write_def split: if_splits)

lemma write_all_buffer:
  assumes "\<And>v. v \<in> set vs \<Longrightarrow> fits n v" and "n * length vs = m"
  shows "write_all n vs 0 (alloc m) = Inr (concat (map (le_int n) vs))"
  using write_all_alloc [of vs n m "[]"] assms by (simp add: alloc_def)

section \<open>Borsh\<close>

record borsh_lib =
  bo_uint :: "nat \<Rightarrow> nat \<Rightarrow> byte list"
  bo_uint_dec :: "nat \<Rightarrow> byte list \<Rightarrow> (nat \<times> byte list) option"
  bo_key :: "pubkey \<Rightarrow> byte list"
  bo_key_dec :: "byte list \<Rightarrow> (pubkey \<times> byte list) option"

locale borsh_laws =
  fixes B :: borsh_lib
  assumes uint_length: "v < 256 ^ n \<Longrightarrow> length (bo_uint B n v) = n"
    and uint_dec: "v < 256 ^ n \<Longrightarrow> bo_uint_dec B n (bo_uint B n v @ rest) = Some (v, rest)"
    and key_length: "length (bo_key B k) = 32"
    and key_dec: "bo_key_dec B (bo_key B k @ rest) = Some (k, rest)"

text \<open>A field of a word type is written at its width in bytes.\<close>

definition bo_word :: "borsh_lib \<Rightarrow> 'a::len word \<Rightarrow> byte list" where
  "bo_word B w = bo_uint B (LENGTH('a) div 8) (unat w)"

definition bo_word_dec :: "borsh_lib \<Rightarrow> byte list \<Rightarrow> ('a::len word \<times> byte list) option" where
  "bo_word_dec B bs = map_option (\<lambda>(v, rest). (of_nat v, rest)) (bo_uint_dec B (LENGTH('a) div 8) bs)"

text \<open>\<open>borsh.array(layout, n)\<close>: the elements one after the other.\<close>

fun bo_array_dec :: "(byte list \<Rightarrow> ('a \<times> byte list) option) \<Rightarrow> nat \<Rightarrow> byte list \<Rightarrow> ('a list \<times> byte list) option" where
  "bo_array_dec d 0 bs = Some ([], bs)"
| "bo_array_dec d (Suc n) bs =
     Option.bind (d bs) (\<lambda>(x, r). Option.bind (bo_array_dec d n r) (\<lambda>(xs, r'). Some (x # xs, r')))"

definition bo_array :: "('a \<Rightarrow> byte list) \<Rightarrow> 'a list \<Rightarrow> byte list" where
  "bo_array e xs = concat (map e xs)"

lemma bo_array_dec_array:
  "(\<And>x r. x \<in> set xs \<Longrightarrow> d (e x @ r) = Some (x, r)) \<Longrightarrow> bo_array_dec d (length xs) (bo_array e xs @ rest) = Some (xs, rest)"
  by (induction xs) (simp_all add: bo_array_def)

lemma length_bo_array: "(\<And>x. x \<in> set xs \<Longrightarrow> length (e x) = w) \<Longrightarrow> length (bo_array e xs) = w * length xs"
  by (induction xs) (simp_all add: bo_array_def)

context borsh_laws
begin

lemma word_bound: "8 dvd LENGTH('a::len) \<Longrightarrow> unat (w :: 'a word) < 256 ^ (LENGTH('a) div 8)"
proof -
  assume "8 dvd LENGTH('a)"
  then obtain k where k: "LENGTH('a) = 8 * k" by (rule dvdE)
  have "(256 :: nat) ^ k = 2 ^ (8 * k)" by (simp add: power_mult)
  then show ?thesis using unsigned_less [where 'a = nat, of w] k by simp
qed

lemma length_bo_word: "8 dvd LENGTH('a::len) \<Longrightarrow> length (bo_word B (w :: 'a word)) = LENGTH('a) div 8"
  unfolding bo_word_def by (rule uint_length [OF word_bound])

lemma bo_word_dec_word: "8 dvd LENGTH('a::len) \<Longrightarrow> bo_word_dec B (bo_word B (w :: 'a word) @ rest) = Some (w, rest)"
  unfolding bo_word_def bo_word_dec_def by (simp add: uint_dec [OF word_bound])

end

definition borsh_le :: borsh_lib where
  "borsh_le =
     \<lparr>bo_uint = le_bytes,
      bo_uint_dec = (\<lambda>n bs. if n \<le> length bs then Some (le_value (take n bs), drop n bs) else None),
      bo_key = (\<lambda>k. rev (le_bytes 32 (unat k))),
      bo_key_dec = (\<lambda>bs. if 32 \<le> length bs then Some (of_nat (le_value (rev (take 32 bs))), drop 32 bs) else None)\<rparr>"

interpretation ble: borsh_laws borsh_le
proof
  fix k :: pubkey and rest :: "byte list"
  have "le_value (le_bytes 32 (unat k)) = unat k" by (rule le_value_bytes_word) simp
  then show "bo_key_dec borsh_le (bo_key borsh_le k @ rest) = Some (k, rest)" by (simp add: borsh_le_def)
qed (simp_all add: borsh_le_def le_value_bytes)

end
