(* ===== verification/Config_Layout.thy ===== *)
theory Config_Layout
  imports Bytes Reserve_Rates "HOL-Library.Monad_Syntax"
begin

text \<open>
  The borsh layouts of a reserve configuration (\<open>src/ts-client/src/idl_codegen/types\<close>: \<open>ReserveConfig.ts\<close> and the types it
  contains), written through \<open>toEncodable\<close> and read back through \<open>fromDecoded\<close>; the instruction
  \<open>updateReserveConfig\<close> (\<open>idl_codegen/instructions\<close>) that carries a configuration update, and
  \<open>updateEntireReserveConfigIx\<close> (\<open>classes/reserve.ts\<close>), which sends the whole configuration.
\<close>

section \<open>Layouts\<close>

definition enc_PriceHeuristic :: "borsh_lib \<Rightarrow> price_heuristic \<Rightarrow> byte list" where
  "enc_PriceHeuristic B h = bo_word B (ph_lower h) @ bo_word B (ph_upper h) @ bo_word B (ph_exp h)"

definition dec_PriceHeuristic :: "borsh_lib \<Rightarrow> byte list \<Rightarrow> (price_heuristic \<times> byte list) option" where
  "dec_PriceHeuristic B bs = do {
     (lower, bs) \<leftarrow> bo_word_dec B bs;
     (upper, bs) \<leftarrow> bo_word_dec B bs;
     (exp, bs) \<leftarrow> bo_word_dec B bs;
     Some (\<lparr>ph_lower = lower, ph_upper = upper, ph_exp = exp\<rparr>, bs) }"

definition enc_ScopeConfiguration :: "borsh_lib \<Rightarrow> scope_configuration \<Rightarrow> byte list" where
  "enc_ScopeConfiguration B s =
     bo_key B (priceFeed s) @ bo_array (bo_word B) (priceChain s) @ bo_array (bo_word B) (twapChain s)"

definition dec_ScopeConfiguration :: "borsh_lib \<Rightarrow> byte list \<Rightarrow> (scope_configuration \<times> byte list) option" where
  "dec_ScopeConfiguration B bs = do {
     (feed, bs) \<leftarrow> bo_key_dec B bs;
     (chain, bs) \<leftarrow> bo_array_dec (bo_word_dec B) 4 bs;
     (twap, bs) \<leftarrow> bo_array_dec (bo_word_dec B) 4 bs;
     Some (\<lparr>priceFeed = feed, priceChain = chain, twapChain = twap\<rparr>, bs) }"

definition enc_SwitchboardConfiguration :: "borsh_lib \<Rightarrow> switchboard_configuration \<Rightarrow> byte list" where
  "enc_SwitchboardConfiguration B s = bo_key B (priceAggregator s) @ bo_key B (twapAggregator s)"

definition dec_SwitchboardConfiguration :: "borsh_lib \<Rightarrow> byte list \<Rightarrow> (switchboard_configuration \<times> byte list) option" where
  "dec_SwitchboardConfiguration B bs = do {
     (price, bs) \<leftarrow> bo_key_dec B bs;
     (twap, bs) \<leftarrow> bo_key_dec B bs;
     Some (\<lparr>priceAggregator = price, twapAggregator = twap\<rparr>, bs) }"

definition enc_TokenInfo :: "borsh_lib \<Rightarrow> token_info \<Rightarrow> byte list" where
  "enc_TokenInfo B t =
     bo_array (bo_word B) (ti_name t) @ enc_PriceHeuristic B (heuristic t) @
     bo_word B (maxTwapDivergenceBps t) @ bo_word B (maxAgePriceSeconds t) @ bo_word B (maxAgeTwapSeconds t) @
     enc_ScopeConfiguration B (scopeConfiguration t) @ enc_SwitchboardConfiguration B (switchboardConfiguration t) @
     bo_key B (pythPrice t) @ bo_word B (blockPriceUsage t) @
     bo_array (bo_word B) (ti_reserved t) @ bo_array (bo_word B) (ti_padding t)"

definition dec_TokenInfo :: "borsh_lib \<Rightarrow> byte list \<Rightarrow> (token_info \<times> byte list) option" where
  "dec_TokenInfo B bs = do {
     (name, bs) \<leftarrow> bo_array_dec (bo_word_dec B) 32 bs;
     (heur, bs) \<leftarrow> dec_PriceHeuristic B bs;
     (divergence, bs) \<leftarrow> bo_word_dec B bs;
     (priceAge, bs) \<leftarrow> bo_word_dec B bs;
     (twapAge, bs) \<leftarrow> bo_word_dec B bs;
     (scope, bs) \<leftarrow> dec_ScopeConfiguration B bs;
     (switchboard, bs) \<leftarrow> dec_SwitchboardConfiguration B bs;
     (pyth, bs) \<leftarrow> bo_key_dec B bs;
     (block, bs) \<leftarrow> bo_word_dec B bs;
     (reserved, bs) \<leftarrow> bo_array_dec (bo_word_dec B) 7 bs;
     (padding, bs) \<leftarrow> bo_array_dec (bo_word_dec B) 19 bs;
     Some (\<lparr>ti_name = name, heuristic = heur, maxTwapDivergenceBps = divergence, maxAgePriceSeconds = priceAge,
            maxAgeTwapSeconds = twapAge, scopeConfiguration = scope, switchboardConfiguration = switchboard, pythPrice = pyth,
            blockPriceUsage = block, ti_reserved = reserved, ti_padding = padding\<rparr>, bs) }"

definition enc_WithdrawalCaps :: "borsh_lib \<Rightarrow> withdrawal_caps \<Rightarrow> byte list" where
  "enc_WithdrawalCaps B w =
     bo_word B (configCapacity w) @ bo_word B (currentTotal w) @ bo_word B (lastIntervalStartTimestamp w) @
     bo_word B (configIntervalLengthSeconds w)"

definition dec_WithdrawalCaps :: "borsh_lib \<Rightarrow> byte list \<Rightarrow> (withdrawal_caps \<times> byte list) option" where
  "dec_WithdrawalCaps B bs = do {
     (capacity, bs) \<leftarrow> bo_word_dec B bs;
     (total, bs) \<leftarrow> bo_word_dec B bs;
     (start, bs) \<leftarrow> bo_word_dec B bs;
     (interval, bs) \<leftarrow> bo_word_dec B bs;
     Some (\<lparr>configCapacity = capacity, currentTotal = total, lastIntervalStartTimestamp = start,
            configIntervalLengthSeconds = interval\<rparr>, bs) }"

definition enc_ReserveFees :: "borsh_lib \<Rightarrow> reserve_fees \<Rightarrow> byte list" where
  "enc_ReserveFees B f = bo_word B (borrowFeeSf f) @ bo_word B (flashLoanFeeSf f) @ bo_array (bo_word B) (rf_padding f)"

definition dec_ReserveFees :: "borsh_lib \<Rightarrow> byte list \<Rightarrow> (reserve_fees \<times> byte list) option" where
  "dec_ReserveFees B bs = do {
     (borrow, bs) \<leftarrow> bo_word_dec B bs;
     (flash, bs) \<leftarrow> bo_word_dec B bs;
     (padding, bs) \<leftarrow> bo_array_dec (bo_word_dec B) 8 bs;
     Some (\<lparr>borrowFeeSf = borrow, flashLoanFeeSf = flash, rf_padding = padding\<rparr>, bs) }"

definition enc_CurvePoint :: "borsh_lib \<Rightarrow> curve_point \<Rightarrow> byte list" where
  "enc_CurvePoint B p = bo_uint B 4 (utilizationRateBps p) @ bo_uint B 4 (borrowRateBps p)"

definition dec_CurvePoint :: "borsh_lib \<Rightarrow> byte list \<Rightarrow> (curve_point \<times> byte list) option" where
  "dec_CurvePoint B bs = do {
     (utilization, bs) \<leftarrow> bo_uint_dec B 4 bs;
     (rate, bs) \<leftarrow> bo_uint_dec B 4 bs;
     Some (\<lparr>utilizationRateBps = utilization, borrowRateBps = rate\<rparr>, bs) }"

definition enc_BorrowRateCurve :: "borsh_lib \<Rightarrow> curve_point list \<Rightarrow> byte list" where
  "enc_BorrowRateCurve B points = bo_array (enc_CurvePoint B) points"

definition dec_BorrowRateCurve :: "borsh_lib \<Rightarrow> byte list \<Rightarrow> (curve_point list \<times> byte list) option" where
  "dec_BorrowRateCurve B bs = bo_array_dec (dec_CurvePoint B) 11 bs"

definition enc_ReserveConfig :: "borsh_lib \<Rightarrow> reserve_config \<Rightarrow> byte list" where
  "enc_ReserveConfig B c =
     bo_word B (rc_status c) @ bo_word B (assetTier c) @ bo_word B (hostFixedInterestRateBps c) @
     bo_array (bo_word B) (reserved2 c) @ bo_array (bo_word B) (reserved3 c) @
     bo_word B (protocolTakeRatePct c) @ bo_word B (protocolLiquidationFeePct c) @
     bo_word B (loanToValuePct c) @ bo_word B (liquidationThresholdPct c) @
     bo_word B (minLiquidationBonusBps c) @ bo_word B (maxLiquidationBonusBps c) @ bo_word B (badDebtLiquidationBonusBps c) @
     bo_word B (deleveragingMarginCallPeriodSecs c) @ bo_word B (deleveragingThresholdDecreaseBpsPerDay c) @
     enc_ReserveFees B (rc_fees c) @ enc_BorrowRateCurve B (borrowRateCurve c) @
     bo_word B (borrowFactorPct c) @ bo_word B (depositLimit c) @ bo_word B (borrowLimit c) @
     enc_TokenInfo B (tokenInfo c) @
     enc_WithdrawalCaps B (depositWithdrawalCap c) @ enc_WithdrawalCaps B (debtWithdrawalCap c) @
     bo_array (bo_word B) (rc_elevationGroups c) @
     bo_word B (disableUsageAsCollOutsideEmode c) @ bo_word B (utilizationLimitBlockBorrowingAbovePct c) @
     bo_word B (autodeleverageEnabled c) @ bo_array (bo_word B) (reserved1 c) @
     bo_word B (borrowLimitOutsideElevationGroup c) @
     bo_array (bo_word B) (borrowLimitAgainstThisCollateralInElevationGroup c) @
     bo_word B (deleveragingBonusIncreaseBpsPerDay c)"

definition dec_ReserveConfig :: "borsh_lib \<Rightarrow> byte list \<Rightarrow> (reserve_config \<times> byte list) option" where
  "dec_ReserveConfig B bs = do {
     (status, bs) \<leftarrow> bo_word_dec B bs;
     (tier, bs) \<leftarrow> bo_word_dec B bs;
     (host, bs) \<leftarrow> bo_word_dec B bs;
     (res2, bs) \<leftarrow> bo_array_dec (bo_word_dec B) 2 bs;
     (res3, bs) \<leftarrow> bo_array_dec (bo_word_dec B) 8 bs;
     (takeRate, bs) \<leftarrow> bo_word_dec B bs;
     (liqFee, bs) \<leftarrow> bo_word_dec B bs;
     (ltv, bs) \<leftarrow> bo_word_dec B bs;
     (threshold, bs) \<leftarrow> bo_word_dec B bs;
     (minBonus, bs) \<leftarrow> bo_word_dec B bs;
     (maxBonus, bs) \<leftarrow> bo_word_dec B bs;
     (badDebt, bs) \<leftarrow> bo_word_dec B bs;
     (margin, bs) \<leftarrow> bo_word_dec B bs;
     (decrease, bs) \<leftarrow> bo_word_dec B bs;
     (fee, bs) \<leftarrow> dec_ReserveFees B bs;
     (curve, bs) \<leftarrow> dec_BorrowRateCurve B bs;
     (factor, bs) \<leftarrow> bo_word_dec B bs;
     (dlimit, bs) \<leftarrow> bo_word_dec B bs;
     (blimit, bs) \<leftarrow> bo_word_dec B bs;
     (token, bs) \<leftarrow> dec_TokenInfo B bs;
     (dcap, bs) \<leftarrow> dec_WithdrawalCaps B bs;
     (bcap, bs) \<leftarrow> dec_WithdrawalCaps B bs;
     (groups, bs) \<leftarrow> bo_array_dec (bo_word_dec B) 20 bs;
     (disable, bs) \<leftarrow> bo_word_dec B bs;
     (util, bs) \<leftarrow> bo_word_dec B bs;
     (auto, bs) \<leftarrow> bo_word_dec B bs;
     (res1, bs) \<leftarrow> bo_array_dec (bo_word_dec B) 1 bs;
     (outside, bs) \<leftarrow> bo_word_dec B bs;
     (against, bs) \<leftarrow> bo_array_dec (bo_word_dec B) 32 bs;
     (bonus, bs) \<leftarrow> bo_word_dec B bs;
     Some (\<lparr>rc_status = status, assetTier = tier, hostFixedInterestRateBps = host, reserved2 = res2, reserved3 = res3,
            protocolTakeRatePct = takeRate, protocolLiquidationFeePct = liqFee, loanToValuePct = ltv,
            liquidationThresholdPct = threshold, minLiquidationBonusBps = minBonus, maxLiquidationBonusBps = maxBonus,
            badDebtLiquidationBonusBps = badDebt, deleveragingMarginCallPeriodSecs = margin,
            deleveragingThresholdDecreaseBpsPerDay = decrease, rc_fees = fee, borrowRateCurve = curve, borrowFactorPct = factor,
            depositLimit = dlimit, borrowLimit = blimit, tokenInfo = token, depositWithdrawalCap = dcap, debtWithdrawalCap = bcap,
            rc_elevationGroups = groups, disableUsageAsCollOutsideEmode = disable, utilizationLimitBlockBorrowingAbovePct = util,
            autodeleverageEnabled = auto, reserved1 = res1, borrowLimitOutsideElevationGroup = outside,
            borrowLimitAgainstThisCollateralInElevationGroup = against, deleveragingBonusIncreaseBpsPerDay = bonus\<rparr>, bs) }"

section \<open>The update instruction\<close>

record account_meta =
  am_pubkey :: pubkey
  isSigner :: bool
  isWritable :: bool

record instruction =
  ix_keys :: "account_meta list"
  ix_programId :: pubkey
  ix_data :: "byte list"

text \<open>Encoding into a buffer of \<open>n\<close> bytes, of which the written part is kept; more than \<open>n\<close> bytes overrun it.\<close>

definition encode_into :: "nat \<Rightarrow> byte list \<Rightarrow> byte list result" where
  "encode_into n bs = (if length bs \<le> n then Inr bs else Inl RangeError)"

record update_reserve_config_args =
  urc_mode :: nat
  urc_value :: "byte list"
  urc_skipValidation :: bool

definition enc_UpdateReserveConfigArgs :: "borsh_lib \<Rightarrow> update_reserve_config_args \<Rightarrow> byte list" where
  "enc_UpdateReserveConfigArgs B a =
     bo_uint B 8 (urc_mode a) @ (bo_uint B 4 (length (urc_value a)) @ urc_value a) @ bo_uint B 1 (if urc_skipValidation a then 1 else 0)"

definition dec_UpdateReserveConfigArgs :: "borsh_lib \<Rightarrow> byte list \<Rightarrow> (update_reserve_config_args \<times> byte list) option" where
  "dec_UpdateReserveConfigArgs B bs = do {
     (mode, bs) \<leftarrow> bo_uint_dec B 8 bs;
     (len, bs) \<leftarrow> bo_uint_dec B 4 bs;
     (skip, rest) \<leftarrow> bo_uint_dec B 1 (drop len bs);
     Some (\<lparr>urc_mode = mode, urc_value = take len bs, urc_skipValidation = (skip \<noteq> 0)\<rparr>, rest) }"

definition updateReserveConfig_identifier :: "byte list" where
  "updateReserveConfig_identifier = [61, 148, 100, 70, 143, 107, 17, 13]"

definition updateReserveConfig ::
    "borsh_lib \<Rightarrow> update_reserve_config_args \<Rightarrow> pubkey \<Rightarrow> pubkey \<Rightarrow> pubkey \<Rightarrow> pubkey \<Rightarrow> instruction result" where
  "updateReserveConfig B args lendingMarketOwner lendingMarket reserve programId =
     (let keys =
        [\<lparr>am_pubkey = lendingMarketOwner, isSigner = True, isWritable = False\<rparr>,
         \<lparr>am_pubkey = lendingMarket, isSigner = False, isWritable = False\<rparr>,
         \<lparr>am_pubkey = reserve, isSigner = False, isWritable = True\<rparr>] in
      bindE (encode_into 1000 (enc_UpdateReserveConfigArgs B args)) (\<lambda>buffer.
        Inr \<lparr>ix_keys = keys, ix_programId = programId, ix_data = updateReserveConfig_identifier @ buffer\<rparr>))"

definition updateReserveConfigIx ::
    "borsh_lib \<Rightarrow> pubkey \<Rightarrow> pubkey \<Rightarrow> pubkey \<Rightarrow> nat \<Rightarrow> byte list \<Rightarrow> pubkey \<Rightarrow> bool \<Rightarrow> instruction result" where
  "updateReserveConfigIx B marketOwner marketAddress reserveAddress modeDiscriminator value programId skipValidation =
     updateReserveConfig B \<lparr>urc_mode = modeDiscriminator, urc_value = value, urc_skipValidation = skipValidation\<rparr>
       marketOwner marketAddress reserveAddress programId"

definition updateEntireReserveConfigIx ::
    "borsh_lib \<Rightarrow> pubkey \<Rightarrow> pubkey \<Rightarrow> pubkey \<Rightarrow> reserve_config \<Rightarrow> pubkey \<Rightarrow> instruction result" where
  "updateEntireReserveConfigIx B marketOwner marketAddress reserveAddress reserveConfig programId =
     bindE (encode_into 1000 (enc_ReserveConfig B reserveConfig)) (\<lambda>value.
       updateReserveConfig B \<lparr>urc_mode = 25, urc_value = value, urc_skipValidation = False\<rparr>
         marketOwner marketAddress reserveAddress programId)"

section \<open>Round trips\<close>

text \<open>The lengths of the arrays of the account, and the width of the curve points.\<close>

definition token_info_ok :: "token_info \<Rightarrow> bool" where
  "token_info_ok t \<longleftrightarrow> length (ti_name t) = 32 \<and> length (priceChain (scopeConfiguration t)) = 4 \<and>
     length (twapChain (scopeConfiguration t)) = 4 \<and> length (ti_reserved t) = 7 \<and> length (ti_padding t) = 19"

definition point_ok :: "curve_point \<Rightarrow> bool" where
  "point_ok p \<longleftrightarrow> utilizationRateBps p < 2 ^ 32 \<and> borrowRateBps p < 2 ^ 32"

definition config_ok :: "reserve_config \<Rightarrow> bool" where
  "config_ok c \<longleftrightarrow> length (reserved2 c) = 2 \<and> length (reserved3 c) = 8 \<and> length (rf_padding (rc_fees c)) = 8 \<and>
     length (borrowRateCurve c) = CURVE_POINTS_LENGTH \<and> list_all point_ok (borrowRateCurve c) \<and> token_info_ok (tokenInfo c) \<and>
     length (rc_elevationGroups c) = 20 \<and> length (reserved1 c) = 1 \<and>
     length (borrowLimitAgainstThisCollateralInElevationGroup c) = 32"

context borsh_laws
begin

lemma word_layouts [simp]:
  "length (bo_word B (a :: u8)) = 1" "length (bo_word B (b :: u16)) = 2" "length (bo_word B (c :: u64)) = 8"
  "bo_word_dec B (bo_word B a @ rest) = Some (a, rest)" "bo_word_dec B (bo_word B b @ rest) = Some (b, rest)"
  "bo_word_dec B (bo_word B c @ rest) = Some (c, rest)"
  by (simp_all add: length_bo_word bo_word_dec_word)

lemma array_layouts [simp]:
  "length (bo_array (bo_word B) (as :: u8 list)) = length as" "length (bo_array (bo_word B) (bs :: u16 list)) = 2 * length bs"
  "length (bo_array (bo_word B) (cs :: u64 list)) = 8 * length cs"
  using length_bo_array [of as "bo_word B" 1] length_bo_array [of bs "bo_word B" 2] length_bo_array [of cs "bo_word B" 8] by simp_all

lemma array_dec_layouts:
  "length (as :: u8 list) = n \<Longrightarrow> bo_array_dec (bo_word_dec B) n (bo_array (bo_word B) as @ rest) = Some (as, rest)"
  "length (bs :: u16 list) = n \<Longrightarrow> bo_array_dec (bo_word_dec B) n (bo_array (bo_word B) bs @ rest) = Some (bs, rest)"
  "length (cs :: u64 list) = n \<Longrightarrow> bo_array_dec (bo_word_dec B) n (bo_array (bo_word B) cs @ rest) = Some (cs, rest)"
  by (auto simp: bo_array_dec_array)

lemma PriceHeuristic_layout:
  "length (enc_PriceHeuristic B h) = 24" "dec_PriceHeuristic B (enc_PriceHeuristic B h @ rest) = Some (h, rest)"
  by (simp_all add: enc_PriceHeuristic_def dec_PriceHeuristic_def)

lemma ScopeConfiguration_layout:
  assumes "length (priceChain s) = 4" "length (twapChain s) = 4"
  shows "length (enc_ScopeConfiguration B s) = 48" "dec_ScopeConfiguration B (enc_ScopeConfiguration B s @ rest) = Some (s, rest)"
  using assms
  by (simp_all add: enc_ScopeConfiguration_def dec_ScopeConfiguration_def key_length key_dec array_dec_layouts)

lemma SwitchboardConfiguration_layout:
  "length (enc_SwitchboardConfiguration B s) = 64"
  "dec_SwitchboardConfiguration B (enc_SwitchboardConfiguration B s @ rest) = Some (s, rest)"
  by (simp_all add: enc_SwitchboardConfiguration_def dec_SwitchboardConfiguration_def key_length key_dec)

lemma TokenInfo_layout:
  assumes "token_info_ok t"
  shows "length (enc_TokenInfo B t) = 384" "dec_TokenInfo B (enc_TokenInfo B t @ rest) = Some (t, rest)"
  using assms
  by (simp_all add: token_info_ok_def enc_TokenInfo_def dec_TokenInfo_def key_length key_dec array_dec_layouts
    PriceHeuristic_layout ScopeConfiguration_layout SwitchboardConfiguration_layout)

lemma WithdrawalCaps_layout:
  "length (enc_WithdrawalCaps B w) = 32" "dec_WithdrawalCaps B (enc_WithdrawalCaps B w @ rest) = Some (w, rest)"
  by (simp_all add: enc_WithdrawalCaps_def dec_WithdrawalCaps_def)

lemma ReserveFees_layout:
  assumes "length (rf_padding f) = 8"
  shows "length (enc_ReserveFees B f) = 24" "dec_ReserveFees B (enc_ReserveFees B f @ rest) = Some (f, rest)"
  using assms by (simp_all add: enc_ReserveFees_def dec_ReserveFees_def array_dec_layouts)

lemma CurvePoint_layout:
  assumes "point_ok p"
  shows "length (enc_CurvePoint B p) = 8" "dec_CurvePoint B (enc_CurvePoint B p @ rest) = Some (p, rest)"
  using assms by (simp_all add: point_ok_def enc_CurvePoint_def dec_CurvePoint_def uint_length uint_dec)

lemma BorrowRateCurve_layout:
  assumes "length ps = CURVE_POINTS_LENGTH" "list_all point_ok ps"
  shows "length (enc_BorrowRateCurve B ps) = 88" "dec_BorrowRateCurve B (enc_BorrowRateCurve B ps @ rest) = Some (ps, rest)"
  using assms length_bo_array [of ps "enc_CurvePoint B" 8] bo_array_dec_array [of ps "dec_CurvePoint B" "enc_CurvePoint B"]
  by (auto simp: enc_BorrowRateCurve_def dec_BorrowRateCurve_def CurvePoint_layout list_all_iff CURVE_POINTS_LENGTH_def)

lemma ReserveConfig_layout:
  assumes "config_ok c"
  shows "length (enc_ReserveConfig B c) = 920" "dec_ReserveConfig B (enc_ReserveConfig B c @ rest) = Some (c, rest)"
  using assms
  by (simp_all add: config_ok_def enc_ReserveConfig_def dec_ReserveConfig_def array_dec_layouts ReserveFees_layout
    BorrowRateCurve_layout TokenInfo_layout WithdrawalCaps_layout del: One_nat_def bo_array_dec.simps)

lemma UpdateReserveConfigArgs_layout:
  assumes "urc_mode a < 2 ^ 64" "length (urc_value a) < 2 ^ 32"
  shows "length (enc_UpdateReserveConfigArgs B a) = 13 + length (urc_value a)"
    "dec_UpdateReserveConfigArgs B (enc_UpdateReserveConfigArgs B a @ rest) = Some (a, rest)"
  using assms by (simp_all add: enc_UpdateReserveConfigArgs_def dec_UpdateReserveConfigArgs_def uint_length uint_dec)

end

text \<open>
  C6. The borsh layout of a reserve configuration is a fixed width of 920 bytes and loses nothing: reading back what was
  written gives the same configuration and leaves the bytes that follow.
\<close>

theorem reserve_config_roundtrip:
  assumes "borsh_laws B" and "config_ok c"
  shows "length (enc_ReserveConfig B c) = 920 \<and> dec_ReserveConfig B (enc_ReserveConfig B c @ rest) = Some (c, rest)"
  using borsh_laws.ReserveConfig_layout [OF assms] by blast

lemma sample_config_ok: "config_ok sample_config"
  by (simp add: config_ok_def sample_config_def token_info_ok_def point_ok_def CURVE_POINTS_LENGTH_def list_all_iff)

theorem reserve_config_roundtrip_witness:
  "length (enc_ReserveConfig borsh_le sample_config) = 920 \<and>
    dec_ReserveConfig borsh_le (enc_ReserveConfig borsh_le sample_config @ [1, 2]) = Some (sample_config, [1, 2])"
  by (rule reserve_config_roundtrip [OF ble.borsh_laws_axioms sample_config_ok])

text \<open>
  Sending a whole configuration never overruns the two buffers of 1000 bytes: the instruction exists, it is signed by the
  owner and writes only the reserve, and its data is the identifier followed by arguments that decode to mode 25, validated, with
  a value that decodes to the configuration.
\<close>

lemma update_entire_config_carries_config:
  assumes "borsh_laws B" and "config_ok c"
  shows "\<exists>ix args. updateEntireReserveConfigIx B owner market reserve c programId = Inr ix \<and>
    filter isSigner (ix_keys ix) = [\<lparr>am_pubkey = owner, isSigner = True, isWritable = False\<rparr>] \<and>
    map am_pubkey (filter isWritable (ix_keys ix)) = [reserve] \<and> ix_programId ix = programId \<and>
    length (ix_data ix) = 941 \<and> take 8 (ix_data ix) = updateReserveConfig_identifier \<and>
    dec_UpdateReserveConfigArgs B (drop 8 (ix_data ix)) = Some (args, []) \<and>
    urc_mode args = 25 \<and> \<not> urc_skipValidation args \<and> dec_ReserveConfig B (urc_value args) = Some (c, [])"
proof -
  define args where "args = \<lparr>urc_mode = 25, urc_value = enc_ReserveConfig B c, urc_skipValidation = False\<rparr>"
  note config = borsh_laws.ReserveConfig_layout [OF assms]
  have layout: "length (enc_UpdateReserveConfigArgs B args) = 933"
    "dec_UpdateReserveConfigArgs B (enc_UpdateReserveConfigArgs B args) = Some (args, [])"
    using borsh_laws.UpdateReserveConfigArgs_layout(1) [OF assms(1), of args]
      borsh_laws.UpdateReserveConfigArgs_layout(2) [OF assms(1), of args "[]"] config(1) by (simp_all add: args_def)
  have "updateEntireReserveConfigIx B owner market reserve c programId = updateReserveConfig B args owner market reserve programId"
    by (simp add: updateEntireReserveConfigIx_def encode_into_def config(1) args_def)
  then show ?thesis using layout config(2) [of "[]"]
    by (intro exI [of _ args] exI)
      (auto simp: updateReserveConfig_def encode_into_def args_def updateReserveConfig_identifier_def)
qed

lemma update_entire_config_carries_config_sample:
  "\<exists>ix args. updateEntireReserveConfigIx borsh_le 1 2 3 sample_config 4 = Inr ix \<and>
    dec_UpdateReserveConfigArgs borsh_le (drop 8 (ix_data ix)) = Some (args, []) \<and>
    dec_ReserveConfig borsh_le (urc_value args) = Some (sample_config, [])"
  using update_entire_config_carries_config [OF ble.borsh_laws_axioms sample_config_ok, of 1 2 3 4] by blast

end
