(* ===== verification/Reserve_Config.thy ===== *)
theory Reserve_Config
  imports Config_Layout
begin

text \<open>
  Updating a reserve configuration (\<open>src/ts-client/src/classes/reserve.ts\<close>): \<open>handleConfigUpdate\<close> compares one
  field of the configuration with the account and queues an update, \<open>updateReserveConfigEncodedValue\<close>
  writes its payload, and \<open>parseForChangesReserveConfigAndGetIxs\<close> visits the fields in the order of
  \<open>toEncodable\<close>, puts the oracle updates first and builds the instructions. There is one definition per
  case of the switch.
\<close>

section \<open>Update modes\<close>

datatype (plugins only: code) update_config_mode =
    UpdateLoanToValuePct | UpdateMaxLiquidationBonusBps
  | UpdateLiquidationThresholdPct | UpdateProtocolLiquidationFee
  | UpdateProtocolTakeRate | UpdateFeesBorrowFee
  | UpdateFeesFlashLoanFee | UpdateFeesReferralFeeBps
  | UpdateDepositLimit | UpdateBorrowLimit
  | UpdateTokenInfoLowerHeuristic | UpdateTokenInfoUpperHeuristic
  | UpdateTokenInfoExpHeuristic | UpdateTokenInfoTwapDivergence
  | UpdateTokenInfoScopeTwap | UpdateTokenInfoScopeChain
  | UpdateTokenInfoName | UpdateTokenInfoPriceMaxAge
  | UpdateTokenInfoTwapMaxAge | UpdateScopePriceFeed
  | UpdatePythPrice | UpdateSwitchboardFeed
  | UpdateSwitchboardTwapFeed | UpdateBorrowRateCurve
  | UpdateEntireReserveConfig | UpdateDebtWithdrawalCap
  | UpdateDepositWithdrawalCap | UpdateDebtWithdrawalCapCurrentTotal
  | UpdateDepositWithdrawalCapCurrentTotal | UpdateBadDebtLiquidationBonusBps
  | UpdateMinLiquidationBonusBps | UpdateDeleveragingMarginCallPeriod
  | UpdateBorrowFactor | UpdateAssetTier
  | UpdateElevationGroup | UpdateDeleveragingThresholdDecreaseBpsPerDay
  | DeprecatedUpdateMultiplierSideBoost | DeprecatedUpdateMultiplierTagBoost
  | UpdateReserveStatus | UpdateFarmCollateral
  | UpdateFarmDebt | UpdateDisableUsageAsCollateralOutsideEmode
  | UpdateBlockBorrowingAboveUtilizationPct | UpdateBlockPriceUsage
  | UpdateBorrowLimitOutsideElevationGroup | UpdateBorrowLimitsInElevationGroupAgainstThisReserve
  | UpdateHostFixedInterestRateBps | UpdateAutodeleverageEnabled
  | UpdateDeleveragingBonusIncreaseBpsPerDay

primrec discriminator :: "update_config_mode \<Rightarrow> nat" where
  "discriminator UpdateLoanToValuePct = 0"
| "discriminator UpdateMaxLiquidationBonusBps = 1"
| "discriminator UpdateLiquidationThresholdPct = 2"
| "discriminator UpdateProtocolLiquidationFee = 3"
| "discriminator UpdateProtocolTakeRate = 4"
| "discriminator UpdateFeesBorrowFee = 5"
| "discriminator UpdateFeesFlashLoanFee = 6"
| "discriminator UpdateFeesReferralFeeBps = 7"
| "discriminator UpdateDepositLimit = 8"
| "discriminator UpdateBorrowLimit = 9"
| "discriminator UpdateTokenInfoLowerHeuristic = 10"
| "discriminator UpdateTokenInfoUpperHeuristic = 11"
| "discriminator UpdateTokenInfoExpHeuristic = 12"
| "discriminator UpdateTokenInfoTwapDivergence = 13"
| "discriminator UpdateTokenInfoScopeTwap = 14"
| "discriminator UpdateTokenInfoScopeChain = 15"
| "discriminator UpdateTokenInfoName = 16"
| "discriminator UpdateTokenInfoPriceMaxAge = 17"
| "discriminator UpdateTokenInfoTwapMaxAge = 18"
| "discriminator UpdateScopePriceFeed = 19"
| "discriminator UpdatePythPrice = 20"
| "discriminator UpdateSwitchboardFeed = 21"
| "discriminator UpdateSwitchboardTwapFeed = 22"
| "discriminator UpdateBorrowRateCurve = 23"
| "discriminator UpdateEntireReserveConfig = 24"
| "discriminator UpdateDebtWithdrawalCap = 25"
| "discriminator UpdateDepositWithdrawalCap = 26"
| "discriminator UpdateDebtWithdrawalCapCurrentTotal = 27"
| "discriminator UpdateDepositWithdrawalCapCurrentTotal = 28"
| "discriminator UpdateBadDebtLiquidationBonusBps = 29"
| "discriminator UpdateMinLiquidationBonusBps = 30"
| "discriminator UpdateDeleveragingMarginCallPeriod = 31"
| "discriminator UpdateBorrowFactor = 32"
| "discriminator UpdateAssetTier = 33"
| "discriminator UpdateElevationGroup = 34"
| "discriminator UpdateDeleveragingThresholdDecreaseBpsPerDay = 35"
| "discriminator DeprecatedUpdateMultiplierSideBoost = 36"
| "discriminator DeprecatedUpdateMultiplierTagBoost = 37"
| "discriminator UpdateReserveStatus = 38"
| "discriminator UpdateFarmCollateral = 39"
| "discriminator UpdateFarmDebt = 40"
| "discriminator UpdateDisableUsageAsCollateralOutsideEmode = 41"
| "discriminator UpdateBlockBorrowingAboveUtilizationPct = 42"
| "discriminator UpdateBlockPriceUsage = 43"
| "discriminator UpdateBorrowLimitOutsideElevationGroup = 44"
| "discriminator UpdateBorrowLimitsInElevationGroupAgainstThisReserve = 45"
| "discriminator UpdateHostFixedInterestRateBps = 46"
| "discriminator UpdateAutodeleverageEnabled = 47"
| "discriminator UpdateDeleveragingBonusIncreaseBpsPerDay = 48"

text \<open>The keys of the encodable configuration, in the order of \<open>ReserveConfig.toEncodable\<close>.\<close>

datatype (plugins only: code) reserve_config_key =
    K_status | K_assetTier | K_hostFixedInterestRateBps
  | K_reserved2 | K_reserved3 | K_protocolTakeRatePct
  | K_protocolLiquidationFeePct | K_loanToValuePct | K_liquidationThresholdPct
  | K_minLiquidationBonusBps | K_maxLiquidationBonusBps | K_badDebtLiquidationBonusBps
  | K_deleveragingMarginCallPeriodSecs | K_deleveragingThresholdDecreaseBpsPerDay | K_fees
  | K_borrowRateCurve | K_borrowFactorPct | K_depositLimit
  | K_borrowLimit | K_tokenInfo | K_depositWithdrawalCap
  | K_debtWithdrawalCap | K_elevationGroups | K_disableUsageAsCollOutsideEmode
  | K_utilizationLimitBlockBorrowingAbovePct | K_autodeleverageEnabled | K_reserved1
  | K_borrowLimitOutsideElevationGroup | K_borrowLimitAgainstThisCollateralInElevationGroup | K_deleveragingBonusIncreaseBpsPerDay

definition reserve_config_keys :: "reserve_config_key list" where
  "reserve_config_keys =
     [K_status, K_assetTier, K_hostFixedInterestRateBps,
      K_reserved2, K_reserved3, K_protocolTakeRatePct,
      K_protocolLiquidationFeePct, K_loanToValuePct, K_liquidationThresholdPct,
      K_minLiquidationBonusBps, K_maxLiquidationBonusBps, K_badDebtLiquidationBonusBps,
      K_deleveragingMarginCallPeriodSecs, K_deleveragingThresholdDecreaseBpsPerDay, K_fees,
      K_borrowRateCurve, K_borrowFactorPct, K_depositLimit,
      K_borrowLimit, K_tokenInfo, K_depositWithdrawalCap,
      K_debtWithdrawalCap, K_elevationGroups, K_disableUsageAsCollOutsideEmode,
      K_utilizationLimitBlockBorrowingAbovePct, K_autodeleverageEnabled, K_reserved1,
      K_borrowLimitOutsideElevationGroup, K_borrowLimitAgainstThisCollateralInElevationGroup, K_deleveragingBonusIncreaseBpsPerDay]"

definition isExcludedReserveConfigKey :: "reserve_config_key \<Rightarrow> bool" where
  "isExcludedReserveConfigKey k \<longleftrightarrow> k \<in> {K_reserved1, K_reserved2, K_reserved3}"

section \<open>Payloads\<close>

text \<open>The argument of \<open>updateReserveConfigEncodedValue\<close>: a number, an array of numbers, a bigint, a curve or a key.\<close>

datatype config_value = VNum int | VNums "int list" | VBig int | VCurve "curve_point list" | VKey pubkey

text \<open>
  \<open>value as number\<close> handed to a write, \<open>BigInt(value)\<close>, and \<open>value as number[]\<close>: a value that is not an array has no
  length and no elements, and \<open>BigInt(undefined)\<close> is a type error.
\<close>

fun as_number :: "config_value \<Rightarrow> int result" where
  "as_number (VNum n) = Inr n"
| "as_number _ = Inl TypeError"

fun as_bigint :: "config_value \<Rightarrow> int result" where
  "as_bigint (VNum n) = Inr n"
| "as_bigint (VBig n) = Inr n"
| "as_bigint _ = Inl TypeError"

fun as_array :: "config_value \<Rightarrow> int list" where
  "as_array (VNums vs) = vs"
| "as_array _ = []"

definition bigint_at :: "int list \<Rightarrow> nat \<Rightarrow> int result" where
  "bigint_at vs i = (case arr_get vs i of None \<Rightarrow> Inl TypeError | Some n \<Rightarrow> Inr n)"

definition serializeBorrowRateCurve :: "curve_point list \<Rightarrow> byte list result" where
  "serializeBorrowRateCurve points =
     bindE (write_le 4 (int (length points)) 0 (alloc (8 * length points)))
       (write_all 4 (concat (map (\<lambda>p. [int (utilizationRateBps p), int (borrowRateBps p)]) points)) 0)"

definition is_mode :: "nat \<Rightarrow> update_config_mode list \<Rightarrow> bool" where
  "is_mode d ms \<longleftrightarrow> d \<in> set (map discriminator ms)"

definition updateReserveConfigEncodedValue :: "borsh_lib \<Rightarrow> nat \<Rightarrow> config_value \<Rightarrow> byte list result" where
  "updateReserveConfigEncodedValue B d value =
     (if is_mode d [UpdateLoanToValuePct, UpdateLiquidationThresholdPct, UpdateProtocolLiquidationFee, UpdateProtocolTakeRate,
          UpdateAssetTier, UpdateReserveStatus, UpdateDisableUsageAsCollateralOutsideEmode,
          UpdateBlockBorrowingAboveUtilizationPct, UpdateBlockPriceUsage, UpdateAutodeleverageEnabled]
      then bindE (as_number value) (\<lambda>n. write_le 1 n 0 (alloc 1))
      else if is_mode d [UpdateMaxLiquidationBonusBps, UpdateBadDebtLiquidationBonusBps, UpdateMinLiquidationBonusBps]
      then bindE (as_number value) (\<lambda>n. write_le 2 n 0 (alloc 2))
      else if is_mode d [UpdateFeesBorrowFee, UpdateFeesFlashLoanFee, UpdateTokenInfoLowerHeuristic,
          UpdateTokenInfoUpperHeuristic, UpdateTokenInfoExpHeuristic, UpdateTokenInfoTwapDivergence, UpdateTokenInfoPriceMaxAge,
          UpdateTokenInfoTwapMaxAge, UpdateDebtWithdrawalCapCurrentTotal, UpdateDepositWithdrawalCapCurrentTotal,
          UpdateDeleveragingMarginCallPeriod, UpdateBorrowFactor, UpdateDeleveragingThresholdDecreaseBpsPerDay,
          UpdateDeleveragingBonusIncreaseBpsPerDay]
      then bindE (as_bigint value) (\<lambda>n. write_le 8 n 0 (alloc 8))
      else if is_mode d [UpdateDepositLimit, UpdateBorrowLimit, UpdateBorrowLimitOutsideElevationGroup]
      then bindE (as_bigint value) (\<lambda>n.
           bindE (write_le 4 (n mod 2 ^ 32) 0 (alloc 8)) (\<lambda>buffer. write_le 4 (n div 2 ^ 32) 4 buffer))
      else if is_mode d [UpdateTokenInfoScopeChain, UpdateTokenInfoScopeTwap]
      then write_all 2 (as_array value) 0 (alloc 8)
      else if is_mode d [UpdateTokenInfoName]
      then write_all 1 (as_array value) 0 (alloc 32)
      else if is_mode d [UpdateScopePriceFeed, UpdatePythPrice, UpdateSwitchboardFeed, UpdateSwitchboardTwapFeed,
          UpdateFarmCollateral, UpdateFarmDebt]
      then (case value of VKey k \<Rightarrow> Inr (bo_key B k) | _ \<Rightarrow> Inl TypeError)
      else if is_mode d [UpdateBorrowRateCurve]
      then (case value of VCurve points \<Rightarrow> serializeBorrowRateCurve points | _ \<Rightarrow> Inl TypeError)
      else if is_mode d [UpdateDebtWithdrawalCap, UpdateDepositWithdrawalCap]
      then bindE (bigint_at (as_array value) 0) (\<lambda>a.
           bindE (write_le 8 a 0 (alloc 16)) (\<lambda>buffer.
           bindE (bigint_at (as_array value) 1) (\<lambda>b. write_le 8 b 8 buffer)))
      else if is_mode d [UpdateElevationGroup]
      then write_all 1 (as_array value) 0 (alloc 20)
      else if is_mode d [UpdateBorrowLimitsInElevationGroupAgainstThisReserve]
      then write_all 8 (as_array value) 0 (alloc (32 * 8))
      else Inr (alloc 0))"

section \<open>The cases of the switch\<close>

record update_args =
  ua_mode :: nat
  ua_value :: "byte list"

type_synonym updater = "update_args list \<Rightarrow> update_args list result"

text \<open>\<open>push({mode: m.discriminator + 1, value: updateReserveConfigEncodedValue(e.discriminator, v)})\<close>\<close>

definition push_update :: "borsh_lib \<Rightarrow> update_config_mode \<Rightarrow> update_config_mode \<Rightarrow> config_value result \<Rightarrow> updater" where
  "push_update B m e v updateReserveIxnsArgs =
     bindE v (\<lambda>x.
     bindE (updateReserveConfigEncodedValue B (discriminator e) x) (\<lambda>bs.
       Inr (updateReserveIxnsArgs @ [\<lparr>ua_mode = discriminator m + 1, ua_value = bs\<rparr>])))"

definition push_if :: "bool \<Rightarrow> updater \<Rightarrow> updater" where
  "push_if b u args = (if b then u args else Inr args)"

definition run_all :: "updater list \<Rightarrow> updater" where
  "run_all us args = foldE (\<lambda>a u. u a) args us"

text \<open>\<open>reserve === undefined || reserve.config.f !== reserveConfig.f\<close>, for plain fields and for arrays.\<close>

definition differs :: "reserve option \<Rightarrow> reserve_config \<Rightarrow> (reserve_config \<Rightarrow> 'a) \<Rightarrow> bool" where
  "differs r c f = (case r of None \<Rightarrow> True | Some st \<Rightarrow> f (config st) \<noteq> f c)"

definition differs_array :: "reserve option \<Rightarrow> reserve_config \<Rightarrow> (reserve_config \<Rightarrow> 'a list) \<Rightarrow> bool result" where
  "differs_array r c f = (case r of
      None \<Rightarrow> Inr True
    | Some st \<Rightarrow> bindE (sameLengthArrayEquals (=) (f (config st)) (f c)) (\<lambda>same. Inr (\<not> same)))"

text \<open>A small field as a number, and \<open>toNumber()\<close> of a BN field.\<close>

definition num_of :: "'a::len word \<Rightarrow> config_value result" where
  "num_of w = Inr (VNum (uint w))"

definition to_number :: "num_lib \<Rightarrow> int \<Rightarrow> config_value result" where
  "to_number L n = bindE (bn_toNumber L n) (\<lambda>x. Inr (VNum x))"

definition key_of :: "pubkey \<Rightarrow> config_value result" where
  "key_of k = Inr (VKey k)"

definition nums_of :: "'a::len word list \<Rightarrow> config_value result" where
  "nums_of ws = Inr (VNums (map uint ws))"

definition upd_status :: "num_lib \<Rightarrow> borsh_lib \<Rightarrow> reserve option \<Rightarrow> reserve_config \<Rightarrow> updater" where
  "upd_status L B r c = push_if (differs r c rc_status) (push_update B UpdateReserveStatus UpdateReserveStatus (num_of (rc_status c)))"

definition upd_assetTier :: "num_lib \<Rightarrow> borsh_lib \<Rightarrow> reserve option \<Rightarrow> reserve_config \<Rightarrow> updater" where
  "upd_assetTier L B r c = push_if (differs r c assetTier) (push_update B UpdateAssetTier UpdateAssetTier (num_of (assetTier c)))"

definition upd_hostFixedInterestRateBps :: "num_lib \<Rightarrow> borsh_lib \<Rightarrow> reserve option \<Rightarrow> reserve_config \<Rightarrow> updater" where
  "upd_hostFixedInterestRateBps L B r c = push_if (differs r c hostFixedInterestRateBps) (push_update B UpdateHostFixedInterestRateBps UpdateHostFixedInterestRateBps (num_of (hostFixedInterestRateBps c)))"

definition upd_protocolTakeRatePct :: "num_lib \<Rightarrow> borsh_lib \<Rightarrow> reserve option \<Rightarrow> reserve_config \<Rightarrow> updater" where
  "upd_protocolTakeRatePct L B r c = push_if (differs r c protocolTakeRatePct) (push_update B UpdateProtocolTakeRate UpdateProtocolTakeRate (num_of (protocolTakeRatePct c)))"

definition upd_protocolLiquidationFeePct :: "num_lib \<Rightarrow> borsh_lib \<Rightarrow> reserve option \<Rightarrow> reserve_config \<Rightarrow> updater" where
  "upd_protocolLiquidationFeePct L B r c = push_if (differs r c protocolLiquidationFeePct) (push_update B UpdateProtocolLiquidationFee UpdateProtocolLiquidationFee (num_of (protocolLiquidationFeePct c)))"

definition upd_loanToValuePct :: "num_lib \<Rightarrow> borsh_lib \<Rightarrow> reserve option \<Rightarrow> reserve_config \<Rightarrow> updater" where
  "upd_loanToValuePct L B r c = push_if (differs r c loanToValuePct) (push_update B UpdateLoanToValuePct UpdateLoanToValuePct (num_of (loanToValuePct c)))"

definition upd_liquidationThresholdPct :: "num_lib \<Rightarrow> borsh_lib \<Rightarrow> reserve option \<Rightarrow> reserve_config \<Rightarrow> updater" where
  "upd_liquidationThresholdPct L B r c = push_if (differs r c liquidationThresholdPct) (push_update B UpdateLiquidationThresholdPct UpdateLiquidationThresholdPct (num_of (liquidationThresholdPct c)))"

definition upd_minLiquidationBonusBps :: "num_lib \<Rightarrow> borsh_lib \<Rightarrow> reserve option \<Rightarrow> reserve_config \<Rightarrow> updater" where
  "upd_minLiquidationBonusBps L B r c = push_if (differs r c minLiquidationBonusBps) (push_update B UpdateMinLiquidationBonusBps UpdateMinLiquidationBonusBps (num_of (minLiquidationBonusBps c)))"

definition upd_maxLiquidationBonusBps :: "num_lib \<Rightarrow> borsh_lib \<Rightarrow> reserve option \<Rightarrow> reserve_config \<Rightarrow> updater" where
  "upd_maxLiquidationBonusBps L B r c = push_if (differs r c maxLiquidationBonusBps) (push_update B UpdateMaxLiquidationBonusBps UpdateMaxLiquidationBonusBps (num_of (maxLiquidationBonusBps c)))"

definition upd_badDebtLiquidationBonusBps :: "num_lib \<Rightarrow> borsh_lib \<Rightarrow> reserve option \<Rightarrow> reserve_config \<Rightarrow> updater" where
  "upd_badDebtLiquidationBonusBps L B r c = push_if (differs r c badDebtLiquidationBonusBps) (push_update B UpdateBadDebtLiquidationBonusBps UpdateBadDebtLiquidationBonusBps (num_of (badDebtLiquidationBonusBps c)))"

definition upd_deleveragingMarginCallPeriodSecs :: "num_lib \<Rightarrow> borsh_lib \<Rightarrow> reserve option \<Rightarrow> reserve_config \<Rightarrow> updater" where
  "upd_deleveragingMarginCallPeriodSecs L B r c = push_if (differs r c deleveragingMarginCallPeriodSecs) (push_update B UpdateDeleveragingMarginCallPeriod UpdateDeleveragingMarginCallPeriod (to_number L (uint (deleveragingMarginCallPeriodSecs c))))"

definition upd_deleveragingThresholdDecreaseBpsPerDay :: "num_lib \<Rightarrow> borsh_lib \<Rightarrow> reserve option \<Rightarrow> reserve_config \<Rightarrow> updater" where
  "upd_deleveragingThresholdDecreaseBpsPerDay L B r c = push_if (differs r c deleveragingThresholdDecreaseBpsPerDay) (push_update B UpdateDeleveragingThresholdDecreaseBpsPerDay UpdateDeleveragingThresholdDecreaseBpsPerDay (to_number L (uint (deleveragingThresholdDecreaseBpsPerDay c))))"

definition upd_fees :: "num_lib \<Rightarrow> borsh_lib \<Rightarrow> reserve option \<Rightarrow> reserve_config \<Rightarrow> updater" where
  "upd_fees L B r c = run_all
     [push_if (differs r c (\<lambda>c. borrowFeeSf (rc_fees c))) (push_update B UpdateFeesBorrowFee UpdateFeesBorrowFee (to_number L (uint (borrowFeeSf (rc_fees c))))),
      push_if (differs r c (\<lambda>c. flashLoanFeeSf (rc_fees c))) (push_update B UpdateFeesFlashLoanFee UpdateFeesFlashLoanFee (to_number L (uint (flashLoanFeeSf (rc_fees c)))))]"

text \<open>The loop over the points stops at the first difference; a missing point of the account is a type error.\<close>

fun curve_differs :: "curve_point list \<Rightarrow> curve_point list \<Rightarrow> bool result" where
  "curve_differs ps [] = Inr False"
| "curve_differs [] (q # qs) = Inl TypeError"
| "curve_differs (p # ps) (q # qs) =
     (if utilizationRateBps p \<noteq> utilizationRateBps q \<or> borrowRateBps p \<noteq> borrowRateBps q then Inr True else curve_differs ps qs)"

definition upd_borrowRateCurve :: "num_lib \<Rightarrow> borsh_lib \<Rightarrow> reserve option \<Rightarrow> reserve_config \<Rightarrow> updater" where
  "upd_borrowRateCurve L B r c args =
     (let u = push_update B UpdateBorrowRateCurve UpdateBorrowRateCurve (Inr (VCurve (borrowRateCurve c))) in
      case r of
        None \<Rightarrow> u args
      | Some st \<Rightarrow> bindE (curve_differs (borrowRateCurve (config st)) (borrowRateCurve c)) (\<lambda>b. push_if b u args))"

definition upd_borrowFactorPct :: "num_lib \<Rightarrow> borsh_lib \<Rightarrow> reserve option \<Rightarrow> reserve_config \<Rightarrow> updater" where
  "upd_borrowFactorPct L B r c = push_if (differs r c borrowFactorPct) (push_update B UpdateBorrowFactor UpdateBorrowFactor (to_number L (uint (borrowFactorPct c))))"

definition upd_depositLimit :: "num_lib \<Rightarrow> borsh_lib \<Rightarrow> reserve option \<Rightarrow> reserve_config \<Rightarrow> updater" where
  "upd_depositLimit L B r c = push_if (differs r c depositLimit) (push_update B UpdateDepositLimit UpdateDepositLimit (Inr (VBig (uint (depositLimit c)))))"

definition upd_borrowLimit :: "num_lib \<Rightarrow> borsh_lib \<Rightarrow> reserve option \<Rightarrow> reserve_config \<Rightarrow> updater" where
  "upd_borrowLimit L B r c = push_if (differs r c borrowLimit) (push_update B UpdateBorrowLimit UpdateBorrowLimit (Inr (VBig (uint (borrowLimit c)))))"

definition token_info_new :: "num_lib \<Rightarrow> borsh_lib \<Rightarrow> token_info \<Rightarrow> updater list" where
  "token_info_new L B t =
     [push_update B UpdateTokenInfoName UpdateTokenInfoName (nums_of (ti_name t)),
      push_update B UpdateTokenInfoLowerHeuristic UpdateTokenInfoLowerHeuristic (to_number L (uint (ph_lower (heuristic t)))),
      push_update B UpdateTokenInfoUpperHeuristic UpdateTokenInfoUpperHeuristic (to_number L (uint (ph_upper (heuristic t)))),
      push_update B UpdateTokenInfoExpHeuristic UpdateTokenInfoExpHeuristic (to_number L (uint (ph_exp (heuristic t)))),
      push_update B UpdateTokenInfoTwapDivergence UpdateTokenInfoTwapDivergence (to_number L (uint (maxTwapDivergenceBps t))),
      push_update B UpdateTokenInfoPriceMaxAge UpdateTokenInfoPriceMaxAge (to_number L (uint (maxAgePriceSeconds t))),
      push_update B UpdateTokenInfoTwapMaxAge UpdateTokenInfoTwapMaxAge (to_number L (uint (maxAgeTwapSeconds t))),
      push_update B UpdateTokenInfoScopeChain UpdateTokenInfoScopeChain (nums_of (priceChain (scopeConfiguration t))),
      push_update B UpdateTokenInfoScopeTwap UpdateTokenInfoScopeTwap (nums_of (twapChain (scopeConfiguration t))),
      push_update B UpdateSwitchboardFeed UpdateSwitchboardFeed (key_of (priceAggregator (switchboardConfiguration t))),
      push_update B UpdateSwitchboardTwapFeed UpdateSwitchboardTwapFeed (key_of (twapAggregator (switchboardConfiguration t))),
      push_update B UpdatePythPrice UpdatePythPrice (key_of (pythPrice t)),
      push_update B UpdateBlockPriceUsage UpdateBlockPriceUsage (num_of (blockPriceUsage t))]"

definition push_array :: "'a list \<Rightarrow> 'a list \<Rightarrow> updater \<Rightarrow> updater" where
  "push_array old new u args = bindE (sameLengthArrayEquals (=) old new) (\<lambda>same. push_if (\<not> same) u args)"

definition token_info_changed :: "num_lib \<Rightarrow> borsh_lib \<Rightarrow> token_info \<Rightarrow> token_info \<Rightarrow> updater list" where
  "token_info_changed L B old t =
     [push_array (ti_name old) (ti_name t) (push_update B UpdateTokenInfoName UpdateTokenInfoName (nums_of (ti_name t))),
      push_if (ph_lower (heuristic old) \<noteq> ph_lower (heuristic t)) (push_update B UpdateTokenInfoLowerHeuristic UpdateTokenInfoLowerHeuristic (to_number L (uint (ph_lower (heuristic t))))),
      push_if (ph_upper (heuristic old) \<noteq> ph_upper (heuristic t)) (push_update B UpdateTokenInfoUpperHeuristic UpdateTokenInfoUpperHeuristic (to_number L (uint (ph_upper (heuristic t))))),
      push_if (ph_exp (heuristic old) \<noteq> ph_exp (heuristic t)) (push_update B UpdateTokenInfoExpHeuristic UpdateTokenInfoExpHeuristic (to_number L (uint (ph_exp (heuristic t))))),
      push_if (maxTwapDivergenceBps old \<noteq> maxTwapDivergenceBps t) (push_update B UpdateTokenInfoTwapDivergence UpdateTokenInfoTwapDivergence (to_number L (uint (maxTwapDivergenceBps t)))),
      push_if (maxAgePriceSeconds old \<noteq> maxAgePriceSeconds t) (push_update B UpdateTokenInfoPriceMaxAge UpdateTokenInfoPriceMaxAge (to_number L (uint (maxAgePriceSeconds t)))),
      push_if (maxAgeTwapSeconds old \<noteq> maxAgeTwapSeconds t) (push_update B UpdateTokenInfoTwapMaxAge UpdateTokenInfoTwapMaxAge (to_number L (uint (maxAgeTwapSeconds t)))),
      push_array (priceChain (scopeConfiguration old)) (priceChain (scopeConfiguration t)) (push_update B UpdateTokenInfoScopeChain UpdateTokenInfoScopeChain (nums_of (priceChain (scopeConfiguration t)))),
      push_array (twapChain (scopeConfiguration old)) (twapChain (scopeConfiguration t)) (push_update B UpdateTokenInfoScopeTwap UpdateTokenInfoScopeTwap (nums_of (twapChain (scopeConfiguration t)))),
      push_if (priceAggregator (switchboardConfiguration old) \<noteq> priceAggregator (switchboardConfiguration t)) (push_update B UpdateSwitchboardFeed UpdateSwitchboardFeed (key_of (priceAggregator (switchboardConfiguration t)))),
      push_if (twapAggregator (switchboardConfiguration old) \<noteq> twapAggregator (switchboardConfiguration t)) (push_update B UpdateSwitchboardTwapFeed UpdateSwitchboardTwapFeed (key_of (twapAggregator (switchboardConfiguration t)))),
      push_if (pythPrice old \<noteq> pythPrice t) (push_update B UpdatePythPrice UpdatePythPrice (key_of (pythPrice t))),
      push_if (blockPriceUsage old \<noteq> blockPriceUsage t) (push_update B UpdateBlockPriceUsage UpdateBlockPriceUsage (num_of (blockPriceUsage t))),
      push_if (priceFeed (scopeConfiguration old) \<noteq> priceFeed (scopeConfiguration t)) (push_update B UpdateScopePriceFeed UpdateScopePriceFeed (key_of (priceFeed (scopeConfiguration t))))]"

definition upd_tokenInfo :: "num_lib \<Rightarrow> borsh_lib \<Rightarrow> reserve option \<Rightarrow> reserve_config \<Rightarrow> updater" where
  "upd_tokenInfo L B r c = run_all (case r of
      None \<Rightarrow> token_info_new L B (tokenInfo c)
    | Some st \<Rightarrow> token_info_changed L B (tokenInfo (config st)) (tokenInfo c))"

definition cap_values :: "num_lib \<Rightarrow> withdrawal_caps \<Rightarrow> config_value result" where
  "cap_values L w =
     bindE (bn_toNumber L (sint (configCapacity w))) (\<lambda>a.
     bindE (bn_toNumber L (uint (configIntervalLengthSeconds w))) (\<lambda>b. Inr (VNums [a, b])))"

definition upd_depositWithdrawalCap :: "num_lib \<Rightarrow> borsh_lib \<Rightarrow> reserve option \<Rightarrow> reserve_config \<Rightarrow> updater" where
  "upd_depositWithdrawalCap L B r c =
     (let new = depositWithdrawalCap c;
          u = push_update B UpdateDepositWithdrawalCap UpdateDepositWithdrawalCap (cap_values L new)
      in case r of
           None \<Rightarrow> u
         | Some st \<Rightarrow>
             (let old = depositWithdrawalCap (config st) in
              if configCapacity old \<noteq> configCapacity new \<or> configIntervalLengthSeconds old \<noteq> configIntervalLengthSeconds new then u
              else push_if (currentTotal old \<noteq> currentTotal new)
                (push_update B UpdateDepositWithdrawalCapCurrentTotal UpdateDepositWithdrawalCap (to_number L (sint (currentTotal new))))))"

definition upd_debtWithdrawalCap :: "num_lib \<Rightarrow> borsh_lib \<Rightarrow> reserve option \<Rightarrow> reserve_config \<Rightarrow> updater" where
  "upd_debtWithdrawalCap L B r c =
     (let new = debtWithdrawalCap c;
          u = push_update B UpdateDebtWithdrawalCap UpdateDebtWithdrawalCap (cap_values L new)
      in case r of
           None \<Rightarrow> u
         | Some st \<Rightarrow>
             (let old = debtWithdrawalCap (config st) in
              if configCapacity old \<noteq> configCapacity new \<or> configIntervalLengthSeconds old \<noteq> configIntervalLengthSeconds new then u
              else push_if (currentTotal old \<noteq> currentTotal new)
                (push_update B UpdateDebtWithdrawalCapCurrentTotal UpdateDebtWithdrawalCap (to_number L (sint (currentTotal new))))))"

definition upd_elevationGroups :: "num_lib \<Rightarrow> borsh_lib \<Rightarrow> reserve option \<Rightarrow> reserve_config \<Rightarrow> updater" where
  "upd_elevationGroups L B r c args =
     bindE (differs_array r c rc_elevationGroups) (\<lambda>b.
       push_if b (push_update B UpdateElevationGroup UpdateElevationGroup (nums_of (rc_elevationGroups c))) args)"

definition upd_disableUsageAsCollOutsideEmode :: "num_lib \<Rightarrow> borsh_lib \<Rightarrow> reserve option \<Rightarrow> reserve_config \<Rightarrow> updater" where
  "upd_disableUsageAsCollOutsideEmode L B r c = push_if (differs r c disableUsageAsCollOutsideEmode) (push_update B UpdateDisableUsageAsCollateralOutsideEmode UpdateDisableUsageAsCollateralOutsideEmode (num_of (disableUsageAsCollOutsideEmode c)))"

definition upd_utilizationLimitBlockBorrowingAbovePct :: "num_lib \<Rightarrow> borsh_lib \<Rightarrow> reserve option \<Rightarrow> reserve_config \<Rightarrow> updater" where
  "upd_utilizationLimitBlockBorrowingAbovePct L B r c = push_if (differs r c utilizationLimitBlockBorrowingAbovePct) (push_update B UpdateBlockBorrowingAboveUtilizationPct UpdateBlockBorrowingAboveUtilizationPct (num_of (utilizationLimitBlockBorrowingAbovePct c)))"

definition upd_autodeleverageEnabled :: "num_lib \<Rightarrow> borsh_lib \<Rightarrow> reserve option \<Rightarrow> reserve_config \<Rightarrow> updater" where
  "upd_autodeleverageEnabled L B r c = push_if (differs r c autodeleverageEnabled) (push_update B UpdateAutodeleverageEnabled UpdateAutodeleverageEnabled (num_of (autodeleverageEnabled c)))"

definition upd_borrowLimitOutsideElevationGroup :: "num_lib \<Rightarrow> borsh_lib \<Rightarrow> reserve option \<Rightarrow> reserve_config \<Rightarrow> updater" where
  "upd_borrowLimitOutsideElevationGroup L B r c = push_if (differs r c borrowLimitOutsideElevationGroup) (push_update B UpdateBorrowLimitOutsideElevationGroup UpdateBorrowLimitOutsideElevationGroup (to_number L (uint (borrowLimitOutsideElevationGroup c))))"

definition upd_borrowLimitAgainstThisCollateralInElevationGroup :: "num_lib \<Rightarrow> borsh_lib \<Rightarrow> reserve option \<Rightarrow> reserve_config \<Rightarrow> updater" where
  "upd_borrowLimitAgainstThisCollateralInElevationGroup L B r c args =
     bindE (differs_array r c borrowLimitAgainstThisCollateralInElevationGroup) (\<lambda>b.
       push_if b (push_update B UpdateBorrowLimitsInElevationGroupAgainstThisReserve UpdateBorrowLimitsInElevationGroupAgainstThisReserve
         (bindE (mapE (\<lambda>w. bn_toNumber L (uint w)) (borrowLimitAgainstThisCollateralInElevationGroup c)) (\<lambda>vs. Inr (VNums vs)))) args)"

definition upd_deleveragingBonusIncreaseBpsPerDay :: "num_lib \<Rightarrow> borsh_lib \<Rightarrow> reserve option \<Rightarrow> reserve_config \<Rightarrow> updater" where
  "upd_deleveragingBonusIncreaseBpsPerDay L B r c = push_if (differs r c deleveragingBonusIncreaseBpsPerDay) (push_update B UpdateDeleveragingBonusIncreaseBpsPerDay UpdateDeleveragingBonusIncreaseBpsPerDay (to_number L (uint (deleveragingBonusIncreaseBpsPerDay c))))"

text \<open>\<open>assertNever\<close> is reached only by the reserved keys, which the caller skips.\<close>

primrec handleConfigUpdate :: "num_lib \<Rightarrow> borsh_lib \<Rightarrow> reserve_config_key \<Rightarrow> reserve option \<Rightarrow> reserve_config \<Rightarrow> updater" where
  "handleConfigUpdate L B K_status = upd_status L B"
| "handleConfigUpdate L B K_assetTier = upd_assetTier L B"
| "handleConfigUpdate L B K_hostFixedInterestRateBps = upd_hostFixedInterestRateBps L B"
| "handleConfigUpdate L B K_reserved2 = (\<lambda>r c args. Inl (Throw ''Unexpected object''))"
| "handleConfigUpdate L B K_reserved3 = (\<lambda>r c args. Inl (Throw ''Unexpected object''))"
| "handleConfigUpdate L B K_protocolTakeRatePct = upd_protocolTakeRatePct L B"
| "handleConfigUpdate L B K_protocolLiquidationFeePct = upd_protocolLiquidationFeePct L B"
| "handleConfigUpdate L B K_loanToValuePct = upd_loanToValuePct L B"
| "handleConfigUpdate L B K_liquidationThresholdPct = upd_liquidationThresholdPct L B"
| "handleConfigUpdate L B K_minLiquidationBonusBps = upd_minLiquidationBonusBps L B"
| "handleConfigUpdate L B K_maxLiquidationBonusBps = upd_maxLiquidationBonusBps L B"
| "handleConfigUpdate L B K_badDebtLiquidationBonusBps = upd_badDebtLiquidationBonusBps L B"
| "handleConfigUpdate L B K_deleveragingMarginCallPeriodSecs = upd_deleveragingMarginCallPeriodSecs L B"
| "handleConfigUpdate L B K_deleveragingThresholdDecreaseBpsPerDay = upd_deleveragingThresholdDecreaseBpsPerDay L B"
| "handleConfigUpdate L B K_fees = upd_fees L B"
| "handleConfigUpdate L B K_borrowRateCurve = upd_borrowRateCurve L B"
| "handleConfigUpdate L B K_borrowFactorPct = upd_borrowFactorPct L B"
| "handleConfigUpdate L B K_depositLimit = upd_depositLimit L B"
| "handleConfigUpdate L B K_borrowLimit = upd_borrowLimit L B"
| "handleConfigUpdate L B K_tokenInfo = upd_tokenInfo L B"
| "handleConfigUpdate L B K_depositWithdrawalCap = upd_depositWithdrawalCap L B"
| "handleConfigUpdate L B K_debtWithdrawalCap = upd_debtWithdrawalCap L B"
| "handleConfigUpdate L B K_elevationGroups = upd_elevationGroups L B"
| "handleConfigUpdate L B K_disableUsageAsCollOutsideEmode = upd_disableUsageAsCollOutsideEmode L B"
| "handleConfigUpdate L B K_utilizationLimitBlockBorrowingAbovePct = upd_utilizationLimitBlockBorrowingAbovePct L B"
| "handleConfigUpdate L B K_autodeleverageEnabled = upd_autodeleverageEnabled L B"
| "handleConfigUpdate L B K_reserved1 = (\<lambda>r c args. Inl (Throw ''Unexpected object''))"
| "handleConfigUpdate L B K_borrowLimitOutsideElevationGroup = upd_borrowLimitOutsideElevationGroup L B"
| "handleConfigUpdate L B K_borrowLimitAgainstThisCollateralInElevationGroup = upd_borrowLimitAgainstThisCollateralInElevationGroup L B"
| "handleConfigUpdate L B K_deleveragingBonusIncreaseBpsPerDay = upd_deleveragingBonusIncreaseBpsPerDay L B"

section \<open>The instructions\<close>

definition MIN_INITIAL_DEPOSIT :: int where
  "MIN_INITIAL_DEPOSIT = 100000"

definition modeMatches :: "nat \<Rightarrow> bool" where
  "modeMatches mode \<longleftrightarrow> mode \<in> set (map (\<lambda>m. discriminator m + 1)
     [UpdateScopePriceFeed, UpdateTokenInfoScopeChain, UpdateTokenInfoScopeTwap, UpdateTokenInfoExpHeuristic,
      UpdateTokenInfoTwapDivergence, UpdateTokenInfoPriceMaxAge, UpdateTokenInfoTwapMaxAge])"

definition isPriority :: "update_args \<Rightarrow> bool" where
  "isPriority a \<longleftrightarrow> ua_mode a = 20 \<or> ua_mode a = 16"

text \<open>\<open>Array.prototype.sort\<close> is stable; the comparator orders by the priority alone.\<close>

definition sortIxnsByPriority :: "update_args list \<Rightarrow> update_args list" where
  "sortIxnsByPriority as = sort_key (\<lambda>a. if isPriority a then 0 else (1 :: nat)) as"

definition skip_validation :: "reserve option \<Rightarrow> nat \<Rightarrow> bool" where
  "skip_validation r mode \<longleftrightarrow> modeMatches mode \<and>
     \<not> (case r of None \<Rightarrow> False | Some st \<Rightarrow> MIN_INITIAL_DEPOSIT \<le> uint (availableAmount (liquidity st)))"

definition config_updates :: "num_lib \<Rightarrow> borsh_lib \<Rightarrow> reserve option \<Rightarrow> reserve_config \<Rightarrow> update_args list result" where
  "config_updates L B r c =
     foldE (\<lambda>args key. if isExcludedReserveConfigKey key then Inr args else handleConfigUpdate L B key r c args) [] reserve_config_keys"

definition parseForChangesReserveConfigAndGetIxs ::
    "num_lib \<Rightarrow> borsh_lib \<Rightarrow> pubkey \<Rightarrow> pubkey \<Rightarrow> reserve option \<Rightarrow> pubkey \<Rightarrow> reserve_config \<Rightarrow> pubkey \<Rightarrow> instruction list result" where
  "parseForChangesReserveConfigAndGetIxs L B marketOwner marketAddress r reserveAddress c programId =
     bindE (config_updates L B r c) (\<lambda>args.
       mapE (\<lambda>a. updateReserveConfigIx B marketOwner marketAddress reserveAddress (ua_mode a) (ua_value a) programId
                  (skip_validation r (ua_mode a)))
         (sortIxnsByPriority args))"

section \<open>Queued updates\<close>

text \<open>What the cases of the switch do to the queue: nothing, one update at the end, or several such steps.\<close>

inductive queues :: "updater \<Rightarrow> bool" where
  queues_id: "queues Inr"
| queues_push: "queues (push_update B m e v)"
| queues_bind: "(\<And>b :: bool. queues (u b)) \<Longrightarrow> queues (\<lambda>args. bindE v (\<lambda>b. u b args))"
| queues_seq: "queues u \<Longrightarrow> queues u' \<Longrightarrow> queues (\<lambda>args. bindE (u args) u')"

declare queues_id [simp] queues_push [simp]

lemma queues_if [simp]: "queues u \<Longrightarrow> queues (push_if b u)"
  by (cases b) (simp_all add: push_if_def [abs_def])

lemma queues_array [simp]: "queues u \<Longrightarrow> queues (push_array old new u)"
  unfolding push_array_def [abs_def] by (rule queues_bind) simp

lemma run_all_simps: "run_all [] = Inr" "run_all (u # us) = (\<lambda>args. bindE (u args) (run_all us))"
  by (simp_all add: run_all_def [abs_def])

lemma queues_run [simp]: "list_all queues us \<Longrightarrow> queues (run_all us)"
  by (induction us) (simp_all add: run_all_simps queues_seq)

text \<open>What is appended does not depend on what is queued already, and its modes are modes of the program.\<close>

lemma queues_appends: "queues u \<Longrightarrow> u a = bindE (u []) (\<lambda>d. Inr (a @ d))"
proof (induction arbitrary: a rule: queues.induct)
  case (queues_push B m e v)
  then show ?case by (simp add: push_update_def bindE_assoc)
next
  case (queues_bind u v)
  show ?case
  proof (cases v)
    case (Inr x)
    show ?thesis unfolding Inr bindE_simps by (rule queues_bind.IH)
  qed simp
next
  case (queues_seq u u')
  show ?case
  proof (cases "u []")
    case (Inr d)
    then have "bindE (u a) u' = u' (a @ d)" using queues_seq.IH(1) [of a] by simp
    also have "\<dots> = bindE (u' d) (\<lambda>x. Inr (a @ x))"
      using queues_seq.IH(2) [of "a @ d"] queues_seq.IH(2) [of d] by (simp add: bindE_assoc)
    finally show ?thesis using Inr by simp
  qed (use queues_seq.IH(1) [of a] in simp)
qed simp

lemma discriminator_bound: "discriminator m \<le> 48"
  by (cases m) simp_all

lemma queues_modes: "queues u \<Longrightarrow> u a = Inr b \<Longrightarrow> \<forall>x\<in>set b - set a. ua_mode x \<le> 49"
proof (induction arbitrary: a b rule: queues.induct)
  case (queues_push B m e v)
  then show ?case using discriminator_bound [of m] by (auto simp: push_update_def bindE_Inr_iff)
next
  case (queues_bind u v)
  then show ?case by (auto simp: bindE_Inr_iff)
next
  case (queues_seq u u')
  then show ?case by (fastforce simp: bindE_Inr_iff)
qed simp

lemma run_all_Nil: "list_all queues us \<Longrightarrow> run_all us [] = Inr [] \<longleftrightarrow> (\<forall>u\<in>set us. u [] = Inr [])"
proof (induction us)
  case (Cons u us)
  have "run_all (u # us) [] = bindE (u []) (\<lambda>d. bindE (run_all us []) (\<lambda>d'. Inr (d @ d')))"
  proof (cases "u []")
    case (Inr d)
    have "run_all us d = bindE (run_all us []) (\<lambda>d'. Inr (d @ d'))" using Cons.prems by (intro queues_appends) simp
    then show ?thesis using Inr by (simp add: run_all_simps)
  qed (simp add: run_all_simps)
  then show ?case using Cons.IH Cons.prems by (auto simp: bindE_Inr_iff)
qed (simp add: run_all_simps)

lemma run_all_Inl: "list_all queues us \<Longrightarrow> u \<in> set us \<Longrightarrow> u [] = Inl e \<Longrightarrow> run_all us a \<noteq> Inr b"
proof (induction us arbitrary: a)
  case (Cons v us)
  then show ?case
    using queues_appends [of v a] by (auto simp: run_all_simps bindE_Inr_iff)
qed simp

lemma push_update_Nil: "push_update B m e v [] \<noteq> Inr []"
  by (auto simp: push_update_def bindE_Inr_iff)

lemma push_if_Nil: "push_if b (push_update B m e v) [] = Inr [] \<longleftrightarrow> \<not> b"
  using push_update_Nil by (auto simp: push_if_def)

lemma push_array_Nil: "push_array old new (push_update B m e v) [] = Inr [] \<longleftrightarrow> old = new"
  by (auto simp: push_array_def bindE_Inr_iff push_if_Nil sameLengthArrayEquals_def list_all_iff intro: nth_equalityI)

lemma curve_differs_False: "curve_differs ps qs = Inr False \<longleftrightarrow> take (length qs) ps = qs"
  by (induction ps qs rule: curve_differs.induct) (auto intro: curve_point.equality)

lemma differs_array_False: "differs_array (Some st) c f = Inr False \<longleftrightarrow> f (config st) = f c"
  by (auto simp: differs_array_def bindE_Inr_iff sameLengthArrayEquals_def list_all_iff intro: nth_equalityI)

lemma queues_tokenInfo:
  "list_all queues (token_info_new L B t)" "list_all queues (token_info_changed L B old t)"
  by (simp_all add: token_info_new_def token_info_changed_def)

lemmas upd_defs =
  upd_status_def upd_assetTier_def upd_hostFixedInterestRateBps_def upd_protocolTakeRatePct_def upd_protocolLiquidationFeePct_def
  upd_loanToValuePct_def upd_liquidationThresholdPct_def upd_minLiquidationBonusBps_def upd_maxLiquidationBonusBps_def
  upd_badDebtLiquidationBonusBps_def upd_deleveragingMarginCallPeriodSecs_def upd_deleveragingThresholdDecreaseBpsPerDay_def
  upd_borrowFactorPct_def upd_depositLimit_def upd_borrowLimit_def
  upd_disableUsageAsCollOutsideEmode_def upd_utilizationLimitBlockBorrowingAbovePct_def upd_autodeleverageEnabled_def
  upd_borrowLimitOutsideElevationGroup_def upd_deleveragingBonusIncreaseBpsPerDay_def

lemma queues_caps: "queues (upd_depositWithdrawalCap L B r c)" "queues (upd_debtWithdrawalCap L B r c)"
  by (cases r; simp add: upd_depositWithdrawalCap_def upd_debtWithdrawalCap_def Let_def)+

lemma queues_arrays:
  "queues (upd_elevationGroups L B r c)" "queues (upd_borrowLimitAgainstThisCollateralInElevationGroup L B r c)"
  "queues (upd_borrowRateCurve L B r c)"
  unfolding upd_elevationGroups_def [abs_def] upd_borrowLimitAgainstThisCollateralInElevationGroup_def [abs_def]
    upd_borrowRateCurve_def [abs_def] Let_def
  by (cases r; simp add: queues_bind)+

lemma queues_groups: "queues (upd_fees L B r c)" "queues (upd_tokenInfo L B r c)"
  unfolding upd_fees_def upd_tokenInfo_def by (cases r; simp add: queues_tokenInfo)+

lemma queues_handle: "\<not> isExcludedReserveConfigKey key \<Longrightarrow> queues (handleConfigUpdate L B key r c)"
  by (cases key) (simp_all add: isExcludedReserveConfigKey_def upd_defs queues_caps queues_arrays queues_groups)

section \<open>When nothing is sent\<close>

text \<open>The settings an update can change: everything but reserved and padding bytes and the start of the current withdrawal intervals.\<close>

definition same_caps :: "withdrawal_caps \<Rightarrow> withdrawal_caps \<Rightarrow> bool" where
  "same_caps a b \<longleftrightarrow> configCapacity a = configCapacity b \<and> configIntervalLengthSeconds a = configIntervalLengthSeconds b \<and>
     currentTotal a = currentTotal b"

definition same_token_info :: "token_info \<Rightarrow> token_info \<Rightarrow> bool" where
  "same_token_info a b \<longleftrightarrow> a\<lparr>ti_reserved := ti_reserved b, ti_padding := ti_padding b\<rparr> = b"

definition same_settings :: "reserve_config \<Rightarrow> reserve_config \<Rightarrow> bool" where
  "same_settings a b \<longleftrightarrow>
     same_token_info (tokenInfo a) (tokenInfo b) \<and>
     same_caps (depositWithdrawalCap a) (depositWithdrawalCap b) \<and> same_caps (debtWithdrawalCap a) (debtWithdrawalCap b) \<and>
     (rc_fees a)\<lparr>rf_padding := rf_padding (rc_fees b)\<rparr> = rc_fees b \<and>
     a\<lparr>reserved1 := reserved1 b, reserved2 := reserved2 b, reserved3 := reserved3 b, tokenInfo := tokenInfo b,
       depositWithdrawalCap := depositWithdrawalCap b, debtWithdrawalCap := debtWithdrawalCap b, rc_fees := rc_fees b\<rparr> = b"

lemma config_updates_run:
  "config_updates L B r c = run_all (map (\<lambda>k. handleConfigUpdate L B k r c) (filter (\<lambda>k. \<not> isExcludedReserveConfigKey k) reserve_config_keys)) []"
proof -
  have "foldE (\<lambda>args key. if isExcludedReserveConfigKey key then Inr args else handleConfigUpdate L B key r c args) a ks =
      run_all (map (\<lambda>k. handleConfigUpdate L B k r c) (filter (\<lambda>k. \<not> isExcludedReserveConfigKey k) ks)) a" for a ks
    by (induction ks arbitrary: a) (simp_all add: run_all_def)
  then show ?thesis by (simp add: config_updates_def)
qed

lemma visited_keys:
  "set (filter (\<lambda>k. \<not> isExcludedReserveConfigKey k) reserve_config_keys) = {k. \<not> isExcludedReserveConfigKey k}"
proof -
  have "k \<in> set reserve_config_keys" for k by (cases k) (simp_all add: reserve_config_keys_def)
  then show ?thesis by auto
qed

lemma config_updates_Nil:
  "config_updates L B r c = Inr [] \<longleftrightarrow> (\<forall>k. \<not> isExcludedReserveConfigKey k \<longrightarrow> handleConfigUpdate L B k r c [] = Inr [])"
proof -
  have "list_all queues (map (\<lambda>k. handleConfigUpdate L B k r c) (filter (\<lambda>k. \<not> isExcludedReserveConfigKey k) reserve_config_keys))"
    by (auto simp: list_all_iff queues_handle)
  then have "config_updates L B r c = Inr [] \<longleftrightarrow>
      (\<forall>k\<in>set (filter (\<lambda>k. \<not> isExcludedReserveConfigKey k) reserve_config_keys). handleConfigUpdate L B k r c [] = Inr [])"
    unfolding config_updates_run by (simp add: run_all_Nil)
  then show ?thesis unfolding visited_keys by blast
qed

lemma all_keys: "(\<forall>k. P k) \<longleftrightarrow> list_all P reserve_config_keys"
proof -
  have "k \<in> set reserve_config_keys" for k by (cases k) (simp_all add: reserve_config_keys_def)
  then show ?thesis by (auto simp: list_all_iff)
qed

lemma upd_caps_Nil:
  "upd_depositWithdrawalCap L B (Some st) c [] = Inr [] \<longleftrightarrow> same_caps (depositWithdrawalCap (config st)) (depositWithdrawalCap c)"
  "upd_debtWithdrawalCap L B (Some st) c [] = Inr [] \<longleftrightarrow> same_caps (debtWithdrawalCap (config st)) (debtWithdrawalCap c)"
  by (auto simp: upd_depositWithdrawalCap_def upd_debtWithdrawalCap_def Let_def same_caps_def push_if_Nil push_update_Nil)

lemma leaf_records:
  "(h :: price_heuristic) = h' \<longleftrightarrow> ph_lower h = ph_lower h' \<and> ph_upper h = ph_upper h' \<and> ph_exp h = ph_exp h'"
  "(s :: scope_configuration) = s' \<longleftrightarrow> priceFeed s = priceFeed s' \<and> priceChain s = priceChain s' \<and> twapChain s = twapChain s'"
  "(w :: switchboard_configuration) = w' \<longleftrightarrow> priceAggregator w = priceAggregator w' \<and> twapAggregator w = twapAggregator w'"
  by auto

lemma upd_tokenInfo_Nil:
  "upd_tokenInfo L B (Some st) c [] = Inr [] \<longleftrightarrow> same_token_info (tokenInfo (config st)) (tokenInfo c)"
proof -
  have same: "same_token_info a b \<longleftrightarrow> ti_name a = ti_name b \<and> heuristic a = heuristic b \<and>
      maxTwapDivergenceBps a = maxTwapDivergenceBps b \<and> maxAgePriceSeconds a = maxAgePriceSeconds b \<and>
      maxAgeTwapSeconds a = maxAgeTwapSeconds b \<and> scopeConfiguration a = scopeConfiguration b \<and>
      switchboardConfiguration a = switchboardConfiguration b \<and> pythPrice a = pythPrice b \<and> blockPriceUsage a = blockPriceUsage b" for a b
    by (cases a; cases b) (simp add: same_token_info_def)
  show ?thesis
    by (simp add: upd_tokenInfo_def run_all_Nil queues_tokenInfo same leaf_records)
      (simp add: token_info_changed_def push_if_Nil push_array_Nil, blast)
qed

lemma upd_fees_Nil:
  "upd_fees L B (Some st) c [] = Inr [] \<longleftrightarrow> (rc_fees (config st))\<lparr>rf_padding := rf_padding (rc_fees c)\<rparr> = rc_fees c"
  by (cases "rc_fees (config st)"; cases "rc_fees c") (simp add: upd_fees_def run_all_Nil push_if_Nil differs_def)

lemma bind_push_if_Nil: "bindE m (\<lambda>b. push_if b (push_update B x e v) []) = Inr [] \<longleftrightarrow> m = Inr False"
  by (cases m) (simp_all add: push_if_Nil)

lemma upd_arrays_Nil:
  "upd_elevationGroups L B (Some st) c [] = Inr [] \<longleftrightarrow> rc_elevationGroups (config st) = rc_elevationGroups c"
  "upd_borrowLimitAgainstThisCollateralInElevationGroup L B (Some st) c [] = Inr [] \<longleftrightarrow>
     borrowLimitAgainstThisCollateralInElevationGroup (config st) = borrowLimitAgainstThisCollateralInElevationGroup c"
  "upd_borrowRateCurve L B (Some st) c [] = Inr [] \<longleftrightarrow>
     take (length (borrowRateCurve c)) (borrowRateCurve (config st)) = borrowRateCurve c"
  by (simp_all add: upd_elevationGroups_def upd_borrowLimitAgainstThisCollateralInElevationGroup_def upd_borrowRateCurve_def
    bind_push_if_Nil differs_array_False curve_differs_False)

lemma config_updates_same:
  assumes "length (borrowRateCurve (config st)) = length (borrowRateCurve c)"
  shows "config_updates L B (Some st) c = Inr [] \<longleftrightarrow> same_settings (config st) c"
proof -
  have len: "take (length (borrowRateCurve c)) (borrowRateCurve (config st)) = borrowRateCurve (config st)" using assms by simp
  show ?thesis
    by (cases "config st"; cases c)
      (use len in \<open>simp add: config_updates_Nil all_keys reserve_config_keys_def isExcludedReserveConfigKey_def upd_defs push_if_Nil differs_def
        upd_caps_Nil upd_tokenInfo_Nil upd_fees_Nil upd_arrays_Nil same_settings_def\<close>, blast)
qed

lemma sortIxns_split: "sortIxnsByPriority as = filter isPriority as @ filter (\<lambda>a. \<not> isPriority a) as"
proof -
  have "sort_key (\<lambda>a. if P a then 0 else 1 :: nat) as = filter P as @ filter (\<lambda>a. \<not> P a) as" for P and as :: "update_args list"
  proof (induction as)
    case (Cons a as)
    have "insort_key (\<lambda>a. if P a then 0 else 1 :: nat) a (xs @ ys) = (if P a then a # xs @ ys else xs @ a # ys)"
      if "\<forall>x\<in>set xs. P x" "\<forall>y\<in>set ys. \<not> P y" for xs ys
      using that by (induction xs) (auto, (cases ys, auto)+)
    then show ?case using Cons by simp
  qed simp
  then show ?thesis by (simp add: sortIxnsByPriority_def)
qed

lemma mapE_Nil: "mapE f xs = Inr [] \<longleftrightarrow> xs = []"
  by (cases xs) (auto simp: bindE_Inr_iff)

lemma sortIxns_Nil: "sortIxnsByPriority as = [] \<longleftrightarrow> as = []"
  by (metis length_0_conv length_sort sortIxnsByPriority_def)

text \<open>
  C4. For an existing reserve no instruction is sent exactly when the new configuration agrees with the account in every
  setting that an update can change.
\<close>

theorem no_update_iff_same_settings:
  assumes "config_ok (config st)" and "config_ok c"
  shows "parseForChangesReserveConfigAndGetIxs L B owner market (Some st) reserve c programId = Inr [] \<longleftrightarrow>
    same_settings (config st) c"
proof -
  have "length (borrowRateCurve (config st)) = length (borrowRateCurve c)" using assms by (simp add: config_ok_def)
  note same = config_updates_same [OF this, of L B]
  show ?thesis unfolding parseForChangesReserveConfigAndGetIxs_def
    by (auto simp: bindE_Inr_iff mapE_Nil sortIxns_Nil same [symmetric])
qed

theorem no_update_iff_same_settings_witness:
  "parseForChangesReserveConfigAndGetIxs decimal_js borsh_le 1 2 (Some sample_state) 101 (sample_config\<lparr>reserved1 := [7]\<rparr>) 4 = Inr [] \<and>
   parseForChangesReserveConfigAndGetIxs decimal_js borsh_le 1 2 (Some sample_state) 101 (sample_config\<lparr>loanToValuePct := 70\<rparr>) 4 \<noteq> Inr []"
proof -
  have st: "config sample_state = sample_config" by (simp add: sample_state_def)
  have ok: "config_ok (config sample_state)" "config_ok (sample_config\<lparr>reserved1 := [7]\<rparr>)" "config_ok (sample_config\<lparr>loanToValuePct := 70\<rparr>)"
    using sample_config_ok unfolding st by (simp_all add: config_ok_def)
  have "same_settings (config sample_state) (sample_config\<lparr>reserved1 := [7]\<rparr>)"
    "\<not> same_settings (config sample_state) (sample_config\<lparr>loanToValuePct := 70\<rparr>)"
    unfolding st by (simp_all add: same_settings_def same_caps_def same_token_info_def sample_config_def)
  then show ?thesis using no_update_iff_same_settings [OF ok(1,2)] no_update_iff_same_settings [OF ok(1,3)] by simp
qed

lemma config_updates_modes: "config_updates L B r c = Inr args \<Longrightarrow> a \<in> set args \<Longrightarrow> ua_mode a \<le> 49"
proof -
  assume run: "config_updates L B r c = Inr args" and a: "a \<in> set args"
  have "queues (run_all (map (\<lambda>k. handleConfigUpdate L B k r c) (filter (\<lambda>k. \<not> isExcludedReserveConfigKey k) reserve_config_keys)))"
    by (rule queues_run) (auto simp: list_all_iff queues_handle)
  from queues_modes [OF this run [unfolded config_updates_run]] a show ?thesis by simp
qed

lemma updateReserveConfigIx_decodes:
  assumes "borsh_laws B" and "mode < 2 ^ 64" and "updateReserveConfigIx B owner market reserve mode value programId skip = Inr ix"
  shows "dec_UpdateReserveConfigArgs B (drop 8 (ix_data ix)) =
    Some (\<lparr>urc_mode = mode, urc_value = value, urc_skipValidation = skip\<rparr>, [])"
proof -
  define args where "args = \<lparr>urc_mode = mode, urc_value = value, urc_skipValidation = skip\<rparr>"
  have data: "length (enc_UpdateReserveConfigArgs B args) \<le> 1000" "drop 8 (ix_data ix) = enc_UpdateReserveConfigArgs B args"
    using assms(3) by (auto simp: updateReserveConfigIx_def updateReserveConfig_def encode_into_def args_def
      updateReserveConfig_identifier_def split: if_splits)
  then have "length (urc_value args) \<le> 1000" by (simp add: enc_UpdateReserveConfigArgs_def)
  then show ?thesis
    using borsh_laws.UpdateReserveConfigArgs_layout(2) [OF assms(1), of args "[]"] assms(2) data(2) by (simp add: args_def)
qed


section \<open>Payloads\<close>

text \<open>The modes whose payload is one integer, with its width in bytes.\<close>

definition number_width :: "update_config_mode \<Rightarrow> nat option" where
  "number_width m =
     (if m \<in> {UpdateLoanToValuePct, UpdateLiquidationThresholdPct, UpdateProtocolLiquidationFee, UpdateProtocolTakeRate,
          UpdateAssetTier, UpdateReserveStatus, UpdateDisableUsageAsCollateralOutsideEmode,
          UpdateBlockBorrowingAboveUtilizationPct, UpdateBlockPriceUsage, UpdateAutodeleverageEnabled} then Some 1
      else if m \<in> {UpdateMaxLiquidationBonusBps, UpdateBadDebtLiquidationBonusBps, UpdateMinLiquidationBonusBps} then Some 2
      else if m \<in> {UpdateFeesBorrowFee, UpdateFeesFlashLoanFee, UpdateTokenInfoLowerHeuristic, UpdateTokenInfoUpperHeuristic,
          UpdateTokenInfoExpHeuristic, UpdateTokenInfoTwapDivergence, UpdateTokenInfoPriceMaxAge, UpdateTokenInfoTwapMaxAge,
          UpdateDebtWithdrawalCapCurrentTotal, UpdateDepositWithdrawalCapCurrentTotal, UpdateDeleveragingMarginCallPeriod,
          UpdateBorrowFactor, UpdateDeleveragingThresholdDecreaseBpsPerDay, UpdateDeleveragingBonusIncreaseBpsPerDay,
          UpdateDepositLimit, UpdateBorrowLimit, UpdateBorrowLimitOutsideElevationGroup} then Some 8
      else None)"

lemma write_le_whole: "write_le n v 0 (alloc n) = (if fits n v then Inr (le_int n v) else Inl RangeError)"
  by (auto simp: write_le_def buf_write_def alloc_def)

lemma le_bytes_split: "le_bytes (m + n) v = le_bytes m v @ le_bytes n (v div 256 ^ m)"
  by (induction m arbitrary: v) (simp_all add: div_mult2_eq)

lemma le_bytes_mod: "le_bytes n (v mod 256 ^ n) = le_bytes n v"
  using le_bytes_value [of "le_bytes n v"] by (simp add: le_value_bytes)

lemma write_halves:
  "bindE (write_le 4 (n mod 2 ^ 32) 0 (alloc 8)) (write_le 4 (n div 2 ^ 32) 4) =
    (if fits 8 n then Inr (le_int 8 n) else Inl RangeError)"
proof -
  define hi where "hi = n div 2 ^ 32"
  define lo where "lo = n mod 2 ^ 32"
  have n: "n = hi * 2 ^ 32 + lo" by (simp add: hi_def lo_def)
  have lo: "0 \<le> lo" "lo < 2 ^ 32" by (simp_all add: lo_def)
  have p: "(256 :: int) ^ 4 = 2 ^ 32" "(256 :: int) ^ 8 = 2 ^ 64" by simp_all
  have first: "write_le 4 lo 0 (alloc 8) = Inr (le_int 4 lo @ alloc 4)"
    using write_le_alloc [of lo 4 8 "[]"] lo by simp
  have "write_le 4 hi 4 (le_int 4 lo @ alloc 4) = (if fits 4 hi then Inr (le_int 4 lo @ le_int 4 hi) else Inl RangeError)"
    using write_le_alloc [of hi 4 4 "le_int 4 lo"] by (simp add: alloc_def) (auto simp: write_le_def)
  moreover have "fits 4 hi \<longleftrightarrow> fits 8 n" unfolding p n using lo by auto
  moreover have "le_int 8 n = le_int 4 lo @ le_int 4 hi" if "0 \<le> n"
  proof -
    have h: "nat n mod 256 ^ 4 = nat lo" "nat n div 256 ^ 4 = nat hi"
      using that by (simp_all add: lo_def hi_def nat_mod_distrib nat_div_distrib)
    have "le_bytes (4 + 4) (nat n) = le_bytes 4 (nat n) @ le_bytes 4 (nat n div 256 ^ 4)" by (rule le_bytes_split)
    then show ?thesis using le_bytes_mod [of 4 "nat n"] unfolding h by simp
  qed
  ultimately show ?thesis unfolding lo_def [symmetric] hi_def [symmetric] by (simp add: first)
qed

lemma encoded_number:
  "number_width m = Some w \<Longrightarrow> value = VNum n \<or> w = 8 \<and> value = VBig n \<Longrightarrow>
    updateReserveConfigEncodedValue B (discriminator m) value = (if fits w n then Inr (le_int w n) else Inl RangeError)"
  by (cases m) (auto simp: number_width_def updateReserveConfigEncodedValue_def is_mode_def write_le_whole write_halves [simplified])

text \<open>
  C30. The payload of an update with one integer: a value outside the width of the mode is a range error, and otherwise the
  payload has exactly that width and reads back, little-endian, as the value; this includes the 64-bit limits, which are written
  as two halves.
\<close>

theorem number_payload_roundtrip:
  assumes "number_width m = Some w" and "value = VNum n \<or> w = 8 \<and> value = VBig n"
  shows "(case updateReserveConfigEncodedValue B (discriminator m) value of
      Inl e \<Rightarrow> e = RangeError \<and> \<not> fits w n
    | Inr bs \<Rightarrow> fits w n \<and> length bs = w \<and> int (le_value bs) = n)"
proof -
  have "int (le_value (le_int w n)) = n" if "fits w n"
  proof -
    have "nat n < nat (256 ^ w)" using that by (simp add: nat_less_eq_zless)
    then have "nat n < 256 ^ w" by (simp add: nat_power_eq)
    then show ?thesis using that by (simp add: le_value_bytes_id)
  qed
  then show ?thesis by (simp add: encoded_number [OF assms])
qed

theorem number_payload_roundtrip_witness:
  "\<exists>bs. updateReserveConfigEncodedValue borsh_le (discriminator UpdateDepositLimit) (VBig 18446744073709551615) = Inr bs \<and>
    length bs = 8 \<and> int (le_value bs) = 18446744073709551615"
  using number_payload_roundtrip [of UpdateDepositLimit 8 "VBig 18446744073709551615" 18446744073709551615 borsh_le]
  by (auto simp: number_width_def split: sum.splits)

text \<open>
  A new host interest rate is sent with an empty payload: the mode is not a case of the encoding.
\<close>

lemma host_rate_payload_empty:
  "upd_hostFixedInterestRateBps L B r c args =
    Inr (args @ (if differs r c hostFixedInterestRateBps then [\<lparr>ua_mode = 47, ua_value = []\<rparr>] else []))"
  by (simp add: upd_hostFixedInterestRateBps_def push_if_def push_update_def num_of_def updateReserveConfigEncodedValue_def is_mode_def
    alloc_def)

text \<open>
  C36. When only the current total of a withdrawal cap differs, and is a safe integer, the case throws a type error, since the
  total is encoded as if it were the pair of capacity and interval; no instructions are produced then.
\<close>

theorem cap_total_update_throws:
  assumes "bn_laws L" and "currentTotal (depositWithdrawalCap (config st)) \<noteq> currentTotal (depositWithdrawalCap c)"
    and "configCapacity (depositWithdrawalCap (config st)) = configCapacity (depositWithdrawalCap c)"
    and "configIntervalLengthSeconds (depositWithdrawalCap (config st)) = configIntervalLengthSeconds (depositWithdrawalCap c)"
    and "\<bar>sint (currentTotal (depositWithdrawalCap c))\<bar> < 2 ^ 53"
  shows "handleConfigUpdate L B K_depositWithdrawalCap (Some st) c args = Inl TypeError \<and>
    parseForChangesReserveConfigAndGetIxs L B owner market (Some st) reserve c programId \<noteq> Inr ixs"
proof -
  have n: "bn_toNumber L (sint (currentTotal (depositWithdrawalCap c))) = Inr (sint (currentTotal (depositWithdrawalCap c)))"
    by (rule bn_laws.toNumber_safe [OF assms(1,5)])
  have h: "handleConfigUpdate L B K_depositWithdrawalCap (Some st) c a = Inl TypeError" for a
    using assms(2-4) n
    by (simp add: upd_depositWithdrawalCap_def push_if_def push_update_def to_number_def updateReserveConfigEncodedValue_def is_mode_def
      bigint_at_def arr_get_def)
  let ?us = "map (\<lambda>k. handleConfigUpdate L B k (Some st) c) (filter (\<lambda>k. \<not> isExcludedReserveConfigKey k) reserve_config_keys)"
  have "list_all queues ?us" by (auto simp: list_all_iff queues_handle)
  moreover have "handleConfigUpdate L B K_depositWithdrawalCap (Some st) c \<in> set ?us"
    unfolding set_map visited_keys by (rule imageI) (simp add: isExcludedReserveConfigKey_def)
  ultimately have "config_updates L B (Some st) c \<noteq> Inr b" for b
    unfolding config_updates_run by (rule run_all_Inl) (rule h)
  then show ?thesis using h by (auto simp: parseForChangesReserveConfigAndGetIxs_def bindE_Inr_iff)
qed

section \<open>A new reserve\<close>

definition adds :: "updater \<Rightarrow> nat list \<Rightarrow> bool" where
  "adds u ms \<longleftrightarrow> (\<forall>a b. u a = Inr b \<longrightarrow> map ua_mode b = map ua_mode a @ ms)"

lemma adds_push: "adds (push_update B m e v) [discriminator m + 1]"
  by (auto simp: adds_def push_update_def bindE_Inr_iff)

lemma adds_if: "adds u ms \<Longrightarrow> adds (push_if True u) ms"
  by (simp add: adds_def push_if_def)

lemma adds_run: "list_all2 adds us mss \<Longrightarrow> adds (run_all us) (concat mss)"
proof (induction us mss rule: list_all2_induct)
  case (Cons u us ms mss)
  then show ?case by (fastforce simp: adds_def run_all_simps bindE_Inr_iff)
qed (simp add: adds_def run_all_simps)

end
