(* ===== verification/Config_Updates.thy ===== *)
theory Config_Updates
  imports Reserve_Config
begin

text \<open>
  Properties of the planned configuration updates of \<open>Reserve_Config\<close> as a whole: which modes a new reserve gets, and that planning
  succeeds for every configuration whose settings are safe integers.
\<close>

section \<open>The updates of a new reserve\<close>

lemma adds_differs: "adds u ms \<Longrightarrow> adds (push_if (differs None c f) u) ms"
  by (simp add: differs_def adds_if)

lemma adds_bind: "(\<And>x. v = Inr x \<Longrightarrow> adds (u x) ms) \<Longrightarrow> adds (\<lambda>a. bindE v (\<lambda>x. u x a)) ms"
  by (cases v) (auto simp: adds_def)

text \<open>The modes queued for a new reserve by each case.\<close>

definition new_modes :: "reserve_config_key \<Rightarrow> nat list" where
  "new_modes k = (case k of
      K_status \<Rightarrow> [39] | K_assetTier \<Rightarrow> [34] | K_hostFixedInterestRateBps \<Rightarrow> [47] | K_protocolTakeRatePct \<Rightarrow> [5]
    | K_protocolLiquidationFeePct \<Rightarrow> [4] | K_loanToValuePct \<Rightarrow> [1] | K_liquidationThresholdPct \<Rightarrow> [3] | K_minLiquidationBonusBps \<Rightarrow> [31]
    | K_maxLiquidationBonusBps \<Rightarrow> [2] | K_badDebtLiquidationBonusBps \<Rightarrow> [30] | K_deleveragingMarginCallPeriodSecs \<Rightarrow> [32]
    | K_deleveragingThresholdDecreaseBpsPerDay \<Rightarrow> [36] | K_fees \<Rightarrow> [6, 7] | K_borrowRateCurve \<Rightarrow> [24] | K_borrowFactorPct \<Rightarrow> [33]
    | K_depositLimit \<Rightarrow> [9] | K_borrowLimit \<Rightarrow> [10] | K_tokenInfo \<Rightarrow> [17, 11, 12, 13, 14, 18, 19, 16, 15, 22, 23, 21, 44]
    | K_depositWithdrawalCap \<Rightarrow> [27] | K_debtWithdrawalCap \<Rightarrow> [26] | K_elevationGroups \<Rightarrow> [35] | K_disableUsageAsCollOutsideEmode \<Rightarrow> [42]
    | K_utilizationLimitBlockBorrowingAbovePct \<Rightarrow> [43] | K_autodeleverageEnabled \<Rightarrow> [48] | K_borrowLimitOutsideElevationGroup \<Rightarrow> [45]
    | K_borrowLimitAgainstThisCollateralInElevationGroup \<Rightarrow> [46] | K_deleveragingBonusIncreaseBpsPerDay \<Rightarrow> [49] | _ \<Rightarrow> [])"

lemma adds_push_mode: "n = discriminator m + 1 \<Longrightarrow> adds (push_update B m e v) [n]"
  by (simp only: adds_push)

lemma adds_new_groups:
  "adds (upd_fees L B None c) [6, 7]"
  "adds (upd_tokenInfo L B None c) [17, 11, 12, 13, 14, 18, 19, 16, 15, 22, 23, 21, 44]"
proof -
  have "adds (upd_fees L B None c) (concat [[6], [7]])"
    unfolding upd_fees_def by (rule adds_run) (simp add: adds_differs adds_push_mode)
  then show "adds (upd_fees L B None c) [6, 7]" by simp
  have "adds (upd_tokenInfo L B None c) (concat [[17], [11], [12], [13], [14], [18], [19], [16], [15], [22], [23], [21], [44]])"
    unfolding upd_tokenInfo_def option.case token_info_new_def by (rule adds_run) (simp add: adds_push_mode)
  then show "adds (upd_tokenInfo L B None c) [17, 11, 12, 13, 14, 18, 19, 16, 15, 22, 23, 21, 44]" by simp
qed

lemma adds_new_arrays:
  "adds (upd_elevationGroups L B None c) [35]" "adds (upd_borrowLimitAgainstThisCollateralInElevationGroup L B None c) [46]"
  "adds (upd_borrowRateCurve L B None c) [24]" "adds (upd_depositWithdrawalCap L B None c) [27]"
  "adds (upd_debtWithdrawalCap L B None c) [26]"
  unfolding upd_elevationGroups_def [abs_def] upd_borrowLimitAgainstThisCollateralInElevationGroup_def [abs_def]
    upd_borrowRateCurve_def [abs_def] upd_depositWithdrawalCap_def [abs_def] upd_debtWithdrawalCap_def [abs_def]
  by (simp_all add: differs_array_def adds_if adds_push_mode Let_def)

lemma adds_handle: "\<not> isExcludedReserveConfigKey k \<Longrightarrow> adds (handleConfigUpdate L B k None c) (new_modes k)"
  by (cases k) (simp_all add: isExcludedReserveConfigKey_def new_modes_def upd_defs adds_differs adds_push_mode adds_new_groups adds_new_arrays)

lemma new_reserve_modes:
  assumes "config_updates L B None c = Inr args"
  shows "map ua_mode args = concat (map new_modes (filter (\<lambda>k. \<not> isExcludedReserveConfigKey k) reserve_config_keys))"
proof -
  let ?ks = "filter (\<lambda>k. \<not> isExcludedReserveConfigKey k) reserve_config_keys"
  have "list_all2 adds (map (\<lambda>k. handleConfigUpdate L B k None c) ?ks) (map new_modes ?ks)"
    by (simp add: list_all2_map1 list_all2_map2 list_all2_same adds_handle)
  then have "adds (run_all (map (\<lambda>k. handleConfigUpdate L B k None c) ?ks)) (concat (map new_modes ?ks))" by (rule adds_run)
  with assms show ?thesis unfolding config_updates_run adds_def by fastforce
qed

section \<open>Updates that always succeed\<close>

definition safe_config :: "reserve_config \<Rightarrow> bool" where
  "safe_config c \<longleftrightarrow>
     list_all (\<lambda>w. uint w < 2 ^ 53)
       ([deleveragingMarginCallPeriodSecs c, deleveragingThresholdDecreaseBpsPerDay c, borrowFeeSf (rc_fees c), flashLoanFeeSf (rc_fees c),
         borrowFactorPct c, ph_lower (heuristic (tokenInfo c)), ph_upper (heuristic (tokenInfo c)), ph_exp (heuristic (tokenInfo c)),
         maxTwapDivergenceBps (tokenInfo c), maxAgePriceSeconds (tokenInfo c), maxAgeTwapSeconds (tokenInfo c),
         configIntervalLengthSeconds (depositWithdrawalCap c), configIntervalLengthSeconds (debtWithdrawalCap c),
         borrowLimitOutsideElevationGroup c, deleveragingBonusIncreaseBpsPerDay c] @ borrowLimitAgainstThisCollateralInElevationGroup c) \<and>
     list_all (\<lambda>w. 0 \<le> sint w \<and> sint w < 2 ^ 53) [configCapacity (depositWithdrawalCap c), configCapacity (debtWithdrawalCap c)]"

text \<open>An update step that never throws and queues payloads of at most 256 bytes.\<close>

definition works :: "updater \<Rightarrow> bool" where
  "works u \<longleftrightarrow> (\<forall>a. \<exists>d. u a = Inr (a @ d) \<and> (\<forall>x\<in>set d. length (ua_value x) \<le> 256))"

lemma works_push:
  "v = Inr x \<Longrightarrow> updateReserveConfigEncodedValue B (discriminator e) x = Inr bs \<Longrightarrow> length bs \<le> 256 \<Longrightarrow> works (push_update B m e v)"
  by (simp add: works_def push_update_def)

lemma works_id [simp]: "works Inr" by (simp add: works_def)

lemma works_if [simp]: "works u \<Longrightarrow> works (push_if b u)"
  by (cases b) (simp_all add: push_if_def [abs_def])

lemma works_run: "list_all works us \<Longrightarrow> works (run_all us)"
proof (induction us)
  case (Cons u us)
  then have u: "works u" "works (run_all us)" by simp_all
  show ?case unfolding works_def
  proof
    fix a
    obtain d where d: "u a = Inr (a @ d)" "\<forall>x\<in>set d. length (ua_value x) \<le> 256" using u(1) unfolding works_def by blast
    obtain d' where "run_all us (a @ d) = Inr ((a @ d) @ d')" "\<forall>x\<in>set d'. length (ua_value x) \<le> 256"
      using u(2) unfolding works_def by blast
    then show "\<exists>d. run_all (u # us) a = Inr (a @ d) \<and> (\<forall>x\<in>set d. length (ua_value x) \<le> 256)"
      using d by (intro exI [of _ "d @ d'"]) (auto simp: run_all_simps)
  qed
qed (simp add: run_all_simps)

lemma works_array [simp]: "length old = length new \<Longrightarrow> works u \<Longrightarrow> works (push_array old new u)"
  by (simp add: push_array_def [abs_def] sameLengthArrayEquals_def)

lemma works_number:
  assumes "number_width m = Some w" and "fits w n" and "v = Inr (VNum n) \<or> w = 8 \<and> v = Inr (VBig n)"
  shows "works (push_update B k m v)"
proof -
  have "w \<le> 8" using assms(1) by (auto simp: number_width_def split: if_splits)
  moreover obtain x where x: "v = Inr x" "x = VNum n \<or> w = 8 \<and> x = VBig n" using assms(3) by auto
  ultimately show ?thesis using encoded_number [OF assms(1) x(2), of B] assms(2) x(1) by (intro works_push) auto
qed

lemma uint_fits: "256 ^ n = (2 :: int) ^ LENGTH('a::len) \<Longrightarrow> fits n (uint (w :: 'a word))"
  using unsigned_greater_eq [of w] unsigned_less [where 'a = int, of w] by simp

lemma works_num_of:
  "number_width m = Some w \<Longrightarrow> 256 ^ w = (2 :: int) ^ LENGTH('a::len) \<Longrightarrow> works (push_update B m m (num_of (x :: 'a word)))"
  by (rule works_number [of m w "uint x"]) (auto simp: num_of_def intro: uint_fits [THEN conjunct1] uint_fits [THEN conjunct2])

lemma works_to_number:
  assumes "bn_laws L" and "number_width m = Some 8" and "uint (x :: u64) < 2 ^ 53"
  shows "works (push_update B m m (to_number L (uint x)))"
proof -
  have "to_number L (uint x) = Inr (VNum (uint x))"
    using bn_laws.toNumber_safe [OF assms(1), of "uint x"] assms(3) by (simp add: to_number_def)
  then show ?thesis using uint_fits [of 8 x] by (intro works_number [OF assms(2)]) auto
qed


lemma length_concat_le: "length (concat (map (le_int n) vs)) = n * length vs"
  by (induction vs) simp_all

lemma write_words:
  assumes "256 ^ n = (2 :: int) ^ LENGTH('a::len)" and "n * length (ws :: 'a word list) = k" and "k \<le> 256"
  shows "\<exists>bs. write_all n (map uint ws) 0 (alloc k) = Inr bs \<and> length bs \<le> 256"
proof -
  have "write_all n (map uint ws) 0 (alloc k) = Inr (concat (map (le_int n) (map uint ws)))"
    by (rule write_all_buffer) (use assms(2) uint_fits [OF assms(1)] in auto)
  moreover have "length (concat (map (le_int n) (map uint ws))) \<le> 256" unfolding length_concat_le using assms(2,3) by simp
  ultimately show ?thesis by blast
qed

lemma works_arrays:
  "length name = 32 \<Longrightarrow> works (push_update B UpdateTokenInfoName UpdateTokenInfoName (nums_of (name :: u8 list)))"
  "length chain = 4 \<Longrightarrow> works (push_update B UpdateTokenInfoScopeChain UpdateTokenInfoScopeChain (nums_of (chain :: u16 list)))"
  "length chain = 4 \<Longrightarrow> works (push_update B UpdateTokenInfoScopeTwap UpdateTokenInfoScopeTwap (nums_of (chain :: u16 list)))"
  "length gs = 20 \<Longrightarrow> works (push_update B UpdateElevationGroup UpdateElevationGroup (nums_of (gs :: u8 list)))"
  using write_words [of 1 name 32] write_words [of 2 chain 8] write_words [of 1 gs 20]
  by (auto simp: nums_of_def updateReserveConfigEncodedValue_def is_mode_def intro!: works_push)

lemma works_keys:
  assumes "borsh_laws B" and "m \<in> {UpdateScopePriceFeed, UpdatePythPrice, UpdateSwitchboardFeed, UpdateSwitchboardTwapFeed}"
  shows "works (push_update B m m (key_of k))"
  using assms(2) borsh_laws.key_length [OF assms(1)]
  by (intro works_push [of _ "VKey k" _ _ "bo_key B k"]) (auto simp: key_of_def updateReserveConfigEncodedValue_def is_mode_def)

lemma serializeBorrowRateCurve_eq:
  assumes "points \<noteq> []" and "list_all point_ok points" and "length points < 2 ^ 32"
  shows "serializeBorrowRateCurve points =
    Inr (concat (map (\<lambda>p. le_bytes 4 (utilizationRateBps p) @ le_bytes 4 (borrowRateBps p)) points))"
proof -
  let ?vs = "concat (map (\<lambda>p. [int (utilizationRateBps p), int (borrowRateBps p)]) points)"
  have n: "8 \<le> 8 * length points" using assms(1) by (cases points) simp_all
  have fit: "fits 4 v" if "v \<in> set ?vs" for v
    using that assms(2) by (auto simp: list_all_iff point_ok_def)
  have len: "length ?vs = 2 * length points" by (induction points) simp_all
  have overwrite: "write_all 4 vs (length pre) (pre @ mid) = Inr (pre @ concat (map (le_int 4) vs))"
    if "\<And>v. v \<in> set vs \<Longrightarrow> fits 4 v" "length mid = 4 * length vs" for vs pre mid
    using that
  proof (induction vs arbitrary: pre mid)
    case (Cons v vs)
    have "write_le 4 v (length pre) (pre @ mid) = Inr ((pre @ le_int 4 v) @ drop 4 mid)"
      using Cons.prems by (simp add: write_le_def buf_write_def)
    moreover have "write_all 4 vs (length (pre @ le_int 4 v)) ((pre @ le_int 4 v) @ drop 4 mid) =
        Inr ((pre @ le_int 4 v) @ concat (map (le_int 4) vs))"
      using Cons.prems by (intro Cons.IH) auto
    ultimately show ?case by simp
  qed simp
  obtain buf where buf: "write_le 4 (int (length points)) 0 (alloc (8 * length points)) = Inr buf" "length buf = 8 * length points"
    using assms(3) n by (auto simp: write_le_def buf_write_def)
  have "write_all 4 ?vs 0 buf = Inr (concat (map (le_int 4) ?vs))"
    using overwrite [of ?vs buf "[]"] fit buf(2) len by simp
  moreover have "concat (map (le_int 4) ?vs) = concat (map (\<lambda>p. le_bytes 4 (utilizationRateBps p) @ le_bytes 4 (borrowRateBps p)) points)"
    by (induction points) simp_all
  ultimately show ?thesis using buf(1) by (simp add: serializeBorrowRateCurve_def)
qed

lemma works_curve:
  assumes "length points = CURVE_POINTS_LENGTH" and "list_all point_ok points"
  shows "works (push_update B UpdateBorrowRateCurve UpdateBorrowRateCurve (Inr (VCurve points)))"
proof -
  have "points \<noteq> []" using assms(1) by (auto simp: CURVE_POINTS_LENGTH_def)
  then have ser: "serializeBorrowRateCurve points =
      Inr (concat (map (\<lambda>p. le_bytes 4 (utilizationRateBps p) @ le_bytes 4 (borrowRateBps p)) points))"
    by (intro serializeBorrowRateCurve_eq) (use assms in \<open>simp_all add: CURVE_POINTS_LENGTH_def\<close>)
  have "length (concat (map (\<lambda>p. le_bytes 4 (utilizationRateBps p) @ le_bytes 4 (borrowRateBps p)) points)) = 8 * length points"
    by (induction points) simp_all
  then have len: "length (concat (map (\<lambda>p. le_bytes 4 (utilizationRateBps p) @ le_bytes 4 (borrowRateBps p)) points)) \<le> 256"
    using assms(1) by (simp only: CURVE_POINTS_LENGTH_def)
  show ?thesis
    by (rule works_push [OF refl _ len]) (simp add: updateReserveConfigEncodedValue_def is_mode_def ser)
qed

lemma works_caps:
  assumes "bn_laws L" and "uint (configIntervalLengthSeconds w) < 2 ^ 53" and "0 \<le> sint (configCapacity w)" "sint (configCapacity w) < 2 ^ 53"
    and "m \<in> {UpdateDebtWithdrawalCap, UpdateDepositWithdrawalCap}"
  shows "works (push_update B m m (cap_values L w))"
proof -
  have v: "cap_values L w = Inr (VNums [sint (configCapacity w), uint (configIntervalLengthSeconds w)])"
    using assms(2-4) bn_laws.toNumber_safe [OF assms(1), of "sint (configCapacity w)"]
      bn_laws.toNumber_safe [OF assms(1), of "uint (configIntervalLengthSeconds w)"] by (simp add: cap_values_def)
  let ?bs = "le_int 8 (sint (configCapacity w)) @ le_int 8 (uint (configIntervalLengthSeconds w))"
  have "updateReserveConfigEncodedValue B (discriminator m) (VNums [sint (configCapacity w), uint (configIntervalLengthSeconds w)]) = Inr ?bs"
    using assms(2-5) write_le_alloc [of "sint (configCapacity w)" 8 16 "[]"]
      write_le_alloc [of "uint (configIntervalLengthSeconds w)" 8 8 "le_int 8 (sint (configCapacity w))"]
    by (auto simp: updateReserveConfigEncodedValue_def is_mode_def bigint_at_def arr_get_def alloc_def)
  then show ?thesis using v by (intro works_push [of _ _ _ _ ?bs]) simp_all
qed

text \<open>The account, if any, has arrays of the declared lengths, and no current total is the only change of a withdrawal cap.\<close>

definition account_ok :: "reserve option \<Rightarrow> reserve_config \<Rightarrow> bool" where
  "account_ok r c = (case r of
      None \<Rightarrow> True
    | Some st \<Rightarrow> config_ok (config st) \<and>
        (\<forall>f\<in>{depositWithdrawalCap, debtWithdrawalCap}.
           configCapacity (f (config st)) = configCapacity (f c) \<and>
           configIntervalLengthSeconds (f (config st)) = configIntervalLengthSeconds (f c) \<longrightarrow>
           currentTotal (f (config st)) = currentTotal (f c)))"

lemma curve_differs_total: "length ps = length qs \<Longrightarrow> \<exists>b. curve_differs ps qs = Inr b"
  by (induction ps qs rule: curve_differs.induct) auto

lemma works_bind: "v = Inr x \<Longrightarrow> works (u x) \<Longrightarrow> works (\<lambda>args. bindE v (\<lambda>b. u b args))"
  by simp

lemma works_tokenInfo:
  assumes laws: "bn_laws L" "borsh_laws B" and ok: "config_ok c" "safe_config c" "account_ok r c"
  shows "works (upd_tokenInfo L B r c)"
proof -
  note t = ok(1) [unfolded config_ok_def token_info_ok_def] ok(2) [unfolded safe_config_def]
  have "list_all works (token_info_new L B (tokenInfo c))"
    using t by (simp add: token_info_new_def works_arrays works_keys [OF laws(2)] works_to_number [OF laws(1)] works_num_of number_width_def)
  moreover have "list_all works (token_info_changed L B (tokenInfo (config st)) (tokenInfo c))" if "r = Some st" for st
    using t ok(3) that
    by (simp add: account_ok_def config_ok_def token_info_ok_def token_info_changed_def works_arrays works_keys [OF laws(2)]
      works_to_number [OF laws(1)] works_num_of number_width_def)
  ultimately show ?thesis unfolding upd_tokenInfo_def by (cases r) (simp_all add: works_run)
qed

lemma works_cap_keys:
  assumes laws: "bn_laws L" "borsh_laws B" and ok: "config_ok c" "safe_config c" "account_ok r c"
  shows "works (upd_depositWithdrawalCap L B r c)" "works (upd_debtWithdrawalCap L B r c)"
  using ok(2,3) works_caps [OF laws(1)]
  by (auto simp: upd_depositWithdrawalCap_def upd_debtWithdrawalCap_def Let_def safe_config_def account_ok_def push_if_def [abs_def]
    split: option.splits)

lemma works_array_keys:
  assumes laws: "bn_laws L" "borsh_laws B" and ok: "config_ok c" "safe_config c" "account_ok r c"
  shows "works (upd_elevationGroups L B r c)" "works (upd_borrowLimitAgainstThisCollateralInElevationGroup L B r c)"
  "works (upd_borrowRateCurve L B r c)"
proof -
  have len: "length (borrowLimitAgainstThisCollateralInElevationGroup c) = 32" "length (rc_elevationGroups c) = 20"
    "length (borrowRateCurve c) = CURVE_POINTS_LENGTH" "list_all point_ok (borrowRateCurve c)"
    using ok(1) by (simp_all add: config_ok_def)
  have cmp: "\<exists>b. differs_array r c f = Inr b" if "\<And>st. r = Some st \<Longrightarrow> length (f (config st)) = length (f c)" for f :: "reserve_config \<Rightarrow> 'b list"
    using that by (cases r) (auto simp: differs_array_def sameLengthArrayEquals_def)
  have st: "length (borrowLimitAgainstThisCollateralInElevationGroup (config st)) = 32" "length (rc_elevationGroups (config st)) = 20"
    "length (borrowRateCurve (config st)) = CURVE_POINTS_LENGTH" if "r = Some st" for st
    using ok(3) that by (simp_all add: account_ok_def config_ok_def)
  show "works (upd_elevationGroups L B r c)"
    using cmp [of rc_elevationGroups] st(2) len(2) works_arrays(4) unfolding upd_elevationGroups_def [abs_def] by auto
  have "mapE (\<lambda>w. bn_toNumber L (uint w)) (borrowLimitAgainstThisCollateralInElevationGroup c) =
      Inr (map uint (borrowLimitAgainstThisCollateralInElevationGroup c))"
    using ok(2) by (intro mapE_pure bn_laws.toNumber_safe [OF laws(1)]) (auto simp: safe_config_def list_all_iff)
  then show "works (upd_borrowLimitAgainstThisCollateralInElevationGroup L B r c)"
    using cmp [of borrowLimitAgainstThisCollateralInElevationGroup] st(1) len(1)
      write_words [of 8 "borrowLimitAgainstThisCollateralInElevationGroup c" 256]
    unfolding upd_borrowLimitAgainstThisCollateralInElevationGroup_def [abs_def]
    by (auto simp: updateReserveConfigEncodedValue_def is_mode_def intro!: works_if works_push)
  show "works (upd_borrowRateCurve L B r c)"
    using works_curve [OF len(3,4), of B] st(3) len(3) curve_differs_total [of _ "borrowRateCurve c"]
    unfolding upd_borrowRateCurve_def [abs_def] Let_def by (cases r) (fastforce intro: works_bind)+
qed

lemma works_fees:
  assumes laws: "bn_laws L" "borsh_laws B" and ok: "config_ok c" "safe_config c" "account_ok r c"
  shows "works (upd_fees L B r c)"
  unfolding upd_fees_def using ok(2)
  by (intro works_run) (simp add: safe_config_def works_to_number [OF laws(1)] number_width_def)

lemma works_handle:
  assumes laws: "bn_laws L" "borsh_laws B" and ok: "config_ok c" "safe_config c" "account_ok r c"
    and key: "\<not> isExcludedReserveConfigKey k"
  shows "works (handleConfigUpdate L B k r c)"
proof -
  have big: "works (push_update B UpdateDepositLimit UpdateDepositLimit (Inr (VBig (uint (depositLimit c)))))"
    "works (push_update B UpdateBorrowLimit UpdateBorrowLimit (Inr (VBig (uint (borrowLimit c)))))"
    by (rule works_number [where w = 8 and n = "uint (depositLimit c)"] works_number [where w = 8 and n = "uint (borrowLimit c)"];
      simp add: number_width_def uint_fits [of 8, simplified])+
  have host: "works (push_if b (push_update B UpdateHostFixedInterestRateBps UpdateHostFixedInterestRateBps (num_of (hostFixedInterestRateBps c))))" for b
    by (rule works_if, rule works_push [where bs = "[]", OF num_of_def]) (simp_all add: updateReserveConfigEncodedValue_def is_mode_def alloc_def)
  note all = laws ok
  show ?thesis using ok(2) key
    by (cases k) (simp_all add: isExcludedReserveConfigKey_def upd_defs works_tokenInfo [OF all] works_cap_keys [OF all]
      works_array_keys [OF all] works_fees [OF all] big host
      works_num_of works_to_number [OF laws(1)] number_width_def safe_config_def)
qed

lemma config_updates_works:
  assumes laws: "bn_laws L" "borsh_laws B" and ok: "config_ok c" "safe_config c" "account_ok r c"
  shows "\<exists>args. config_updates L B r c = Inr args \<and> (\<forall>x\<in>set args. length (ua_value x) \<le> 256)"
proof -
  have "works (run_all (map (\<lambda>k. handleConfigUpdate L B k r c) (filter (\<lambda>k. \<not> isExcludedReserveConfigKey k) reserve_config_keys)))"
    by (rule works_run) (auto simp: list_all_iff works_handle [OF laws ok])
  then show ?thesis unfolding config_updates_run works_def by (metis append_Nil)
qed


lemma update_instructions_exist:
  assumes "bn_laws L" and "borsh_laws B" and "config_ok c" and "safe_config c" and "account_ok r c"
  shows "\<exists>ixs. parseForChangesReserveConfigAndGetIxs L B owner market r reserve c programId = Inr ixs"
proof -
  obtain args where args: "config_updates L B r c = Inr args" "\<forall>x\<in>set args. length (ua_value x) \<le> 256"
    using config_updates_works [OF assms] by blast
  have "\<exists>ixs. mapE (\<lambda>a. updateReserveConfigIx B owner market reserve (ua_mode a) (ua_value a) programId (skip_validation r (ua_mode a)))
      (sortIxnsByPriority args) = Inr ixs"
  proof (rule mapE_total)
    fix a assume "a \<in> set (sortIxnsByPriority args)"
    then have a: "a \<in> set args" by (auto simp: sortIxns_split)
    have m: "ua_mode a \<le> 49" by (rule config_updates_modes [OF args(1) a])
    have "length (enc_UpdateReserveConfigArgs B \<lparr>urc_mode = ua_mode a, urc_value = ua_value a, urc_skipValidation = s\<rparr>) \<le> 1000" for s
      using borsh_laws.UpdateReserveConfigArgs_layout(1) [OF assms(2), of "\<lparr>urc_mode = ua_mode a, urc_value = ua_value a, urc_skipValidation = s\<rparr>"]
        m bspec [OF args(2) a] by simp
    then show "\<exists>ix. updateReserveConfigIx B owner market reserve (ua_mode a) (ua_value a) programId (skip_validation r (ua_mode a)) = Inr ix"
      by (simp add: updateReserveConfigIx_def updateReserveConfig_def encode_into_def)
  qed
  then show ?thesis using args(1) by (simp add: parseForChangesReserveConfigAndGetIxs_def)
qed


definition safe_sample :: reserve_config where
  "safe_sample = sample_config\<lparr>rc_fees := (rc_fees sample_config)\<lparr>borrowFeeSf := 1152921504606847\<rparr>\<rparr>"

lemma safe_sample_ok: "config_ok safe_sample" "safe_config safe_sample"
  using sample_config_ok by (simp_all add: safe_sample_def config_ok_def) (simp add: safe_config_def sample_config_def list_all_iff)


text \<open>
  For a new reserve the queued updates are always the same 40 modes in the same order. The mode of the price feed (20)
  is not among them, so a new reserve never gets its price feed this way.
\<close>

lemma new_reserve_update_modes:
  assumes "config_updates L B None c = Inr args"
  shows "map ua_mode args =
    [39, 34, 47, 5, 4, 1, 3, 31, 2, 30, 32, 36, 6, 7, 24, 33, 9, 10, 17, 11, 12, 13, 14, 18, 19, 16, 15, 22, 23, 21, 44,
     27, 26, 35, 42, 43, 48, 45, 46, 49] \<and> discriminator UpdateScopePriceFeed + 1 \<notin> ua_mode ` set args"
proof -
  have modes: "map ua_mode args =
    [39, 34, 47, 5, 4, 1, 3, 31, 2, 30, 32, 36, 6, 7, 24, 33, 9, 10, 17, 11, 12, 13, 14, 18, 19, 16, 15, 22, 23, 21, 44,
     27, 26, 35, 42, 43, 48, 45, 46, 49]"
    using new_reserve_modes [OF assms] by (simp add: reserve_config_keys_def isExcludedReserveConfigKey_def new_modes_def)
  moreover have "ua_mode ` set args = set (map ua_mode args)" by simp
  ultimately show ?thesis by (simp only:) simp
qed

lemma new_reserve_update_modes_sample:
  "\<exists>args. config_updates decimal_js borsh_le None safe_sample = Inr args \<and> length args = 40 \<and> 20 \<notin> ua_mode ` set args"
proof -
  obtain args where args: "config_updates decimal_js borsh_le None safe_sample = Inr args"
    using config_updates_works [OF djs.bn_laws_axioms ble.borsh_laws_axioms safe_sample_ok, of None] by (auto simp: account_ok_def)
  note modes = new_reserve_update_modes [OF args]
  have "length args = length (map ua_mode args)" by simp
  also have "\<dots> = 40" unfolding modes [THEN conjunct1] by simp
  finally show ?thesis using args modes [THEN conjunct2] by simp
qed


lemma funded_sample: "currentTotal (depositWithdrawalCap sample_config) = 100000000"
  by (simp add: sample_config_def)

theorem cap_total_update_throws_witness:
  "\<forall>ixs. parseForChangesReserveConfigAndGetIxs decimal_js borsh_le 1 2 (Some sample_state) 101
    (sample_config\<lparr>depositWithdrawalCap := (depositWithdrawalCap sample_config)\<lparr>currentTotal := 0\<rparr>\<rparr>) 4 \<noteq> Inr ixs"
proof -
  have st: "config sample_state = sample_config" by (simp add: sample_state_def)
  show ?thesis
    using cap_total_update_throws [OF djs.bn_laws_axioms, of sample_state
      "sample_config\<lparr>depositWithdrawalCap := (depositWithdrawalCap sample_config)\<lparr>currentTotal := 0\<rparr>\<rparr>"]
    by (simp add: st funded_sample)
qed

end
