(* ===== verification/Addresses.thy ===== *)
theory Addresses
  imports Bytes Obligation
begin

text \<open>
  Derived addresses: \<open>src/ts-client/src/utils/seeds.ts\<close>, the associated token accounts of
  \<open>utils/ata.ts\<close>, the obligation types of \<open>utils/ObligationType.ts\<close> and \<open>KaminoObligation.getObligationId\<close>.
  \<open>PublicKey.findProgramAddressSync\<close>, \<open>PublicKey.toBuffer\<close> and the fixed program keys of the Solana packages are the
  parameter \<open>solana\<close>; what the runtime documents is that an address depends on the concatenation of the seeds only.
\<close>

record solana =
  find_pda :: "byte list list \<Rightarrow> pubkey \<Rightarrow> pubkey"
  key_bytes :: "pubkey \<Rightarrow> byte list"
  toBase58 :: "pubkey \<Rightarrow> string"
  isOnCurve :: "pubkey \<Rightarrow> bool"
  TOKEN_PROGRAM_ID :: pubkey
  ASSOCIATED_TOKEN_PROGRAM_ID :: pubkey
  NATIVE_MINT :: pubkey
  SYSVAR_INSTRUCTIONS_PUBKEY :: pubkey
  SYSVAR_RENT_PUBKEY :: pubkey
  SYSTEM_PROGRAM_ID :: pubkey
  farmsId :: pubkey

section \<open>Seeds\<close>

definition seed_text :: "string \<Rightarrow> byte list" where
  "seed_text s = map (\<lambda>c. of_nat (of_char c)) s"

definition lendingMarketAuthPda :: "solana \<Rightarrow> pubkey \<Rightarrow> pubkey \<Rightarrow> pubkey" where
  "lendingMarketAuthPda S market programId = find_pda S [seed_text ''lma'', key_bytes S market] programId"

definition reserveLiqSupplyPda :: "solana \<Rightarrow> pubkey \<Rightarrow> pubkey \<Rightarrow> pubkey \<Rightarrow> pubkey" where
  "reserveLiqSupplyPda S market mint programId =
     find_pda S [seed_text ''reserve_liq_supply'', key_bytes S market, key_bytes S mint] programId"

definition reserveFeeVaultPda :: "solana \<Rightarrow> pubkey \<Rightarrow> pubkey \<Rightarrow> pubkey \<Rightarrow> pubkey" where
  "reserveFeeVaultPda S market mint programId =
     find_pda S [seed_text ''fee_receiver'', key_bytes S market, key_bytes S mint] programId"

definition reserveCollateralMintPda :: "solana \<Rightarrow> pubkey \<Rightarrow> pubkey \<Rightarrow> pubkey \<Rightarrow> pubkey" where
  "reserveCollateralMintPda S market mint programId =
     find_pda S [seed_text ''reserve_coll_mint'', key_bytes S market, key_bytes S mint] programId"

definition reserveCollateralSupplyPda :: "solana \<Rightarrow> pubkey \<Rightarrow> pubkey \<Rightarrow> pubkey \<Rightarrow> pubkey" where
  "reserveCollateralSupplyPda S market mint programId =
     find_pda S [seed_text ''reserve_coll_supply'', key_bytes S market, key_bytes S mint] programId"

record reserve_pdas =
  rp_liquiditySupplyVault :: pubkey
  rp_collateralMint :: pubkey
  rp_collateralSupplyVault :: pubkey
  rp_feeVault :: pubkey

definition reservePdas :: "solana \<Rightarrow> pubkey \<Rightarrow> pubkey \<Rightarrow> pubkey \<Rightarrow> reserve_pdas" where
  "reservePdas S programId market mint =
     \<lparr>rp_liquiditySupplyVault = reserveLiqSupplyPda S market mint programId,
      rp_collateralMint = reserveCollateralMintPda S market mint programId,
      rp_collateralSupplyVault = reserveCollateralSupplyPda S market mint programId,
      rp_feeVault = reserveFeeVaultPda S market mint programId\<rparr>"

definition userMetadataPda :: "solana \<Rightarrow> pubkey \<Rightarrow> pubkey \<Rightarrow> pubkey" where
  "userMetadataPda S user programId = find_pda S [seed_text ''user_meta'', key_bytes S user] programId"

definition referrerTokenStatePda :: "solana \<Rightarrow> pubkey \<Rightarrow> pubkey \<Rightarrow> pubkey \<Rightarrow> pubkey" where
  "referrerTokenStatePda S referrer reserve programId =
     (if referrer = default_pubkey then programId
      else find_pda S [seed_text ''referrer_acc'', key_bytes S referrer, key_bytes S reserve] programId)"

definition referrerStatePda :: "solana \<Rightarrow> pubkey \<Rightarrow> pubkey \<Rightarrow> pubkey" where
  "referrerStatePda S referrer programId = find_pda S [seed_text ''ref_state'', key_bytes S referrer] programId"

definition shortUrlPda :: "solana \<Rightarrow> string \<Rightarrow> pubkey \<Rightarrow> pubkey" where
  "shortUrlPda S shortUrl programId = find_pda S [seed_text ''short_url'', seed_text shortUrl] programId"

definition obligationFarmStatePda :: "solana \<Rightarrow> pubkey \<Rightarrow> pubkey \<Rightarrow> pubkey" where
  "obligationFarmStatePda S farm obligation =
     find_pda S [seed_text ''user'', key_bytes S farm, key_bytes S obligation] (farmsId S)"

text \<open>The methods of an action pass \<open>allowOwnerOffCurve = true\<close>; \<open>ata_address\<close> names what they then get.\<close>

definition getAssociatedTokenAddress :: "solana \<Rightarrow> pubkey \<Rightarrow> pubkey \<Rightarrow> bool \<Rightarrow> pubkey \<Rightarrow> pubkey \<Rightarrow> pubkey result" where
  "getAssociatedTokenAddress S mint owner allowOwnerOffCurve programId associatedTokenProgramId =
     (if \<not> allowOwnerOffCurve \<and> \<not> isOnCurve S owner then Inl (Throw ''Token owner off curve'')
      else Inr (find_pda S [key_bytes S owner, key_bytes S programId, key_bytes S mint] associatedTokenProgramId))"

definition ata_address :: "solana \<Rightarrow> pubkey \<Rightarrow> pubkey \<Rightarrow> pubkey \<Rightarrow> pubkey" where
  "ata_address S mint owner programId =
     find_pda S [key_bytes S owner, key_bytes S programId, key_bytes S mint] (ASSOCIATED_TOKEN_PROGRAM_ID S)"

lemma getAssociatedTokenAddress_off_curve:
  "getAssociatedTokenAddress S mint owner True programId (ASSOCIATED_TOKEN_PROGRAM_ID S) = Inr (ata_address S mint owner programId)"
  by (simp add: getAssociatedTokenAddress_def ata_address_def)

section \<open>Obligation types\<close>

datatype obligation_type =
    VanillaObligation (ot_programId: pubkey) (ot_id: nat)
  | MultiplyObligation (ot_coll: pubkey) (ot_debt: pubkey) (ot_programId: pubkey) (ot_id: nat)
  | LendingObligation (ot_token: pubkey) (ot_programId: pubkey) (ot_id: nat)
  | LeverageObligation (ot_coll: pubkey) (ot_debt: pubkey) (ot_programId: pubkey) (ot_id: nat)

record init_obligation_args =
  io_tag :: nat
  io_id :: nat
  io_seed1 :: pubkey
  io_seed2 :: pubkey

fun toArgs :: "obligation_type \<Rightarrow> init_obligation_args" where
  "toArgs (VanillaObligation p i) = \<lparr>io_tag = 0, io_id = i, io_seed1 = default_pubkey, io_seed2 = default_pubkey\<rparr>"
| "toArgs (MultiplyObligation c d p i) = \<lparr>io_tag = 1, io_id = i, io_seed1 = c, io_seed2 = d\<rparr>"
| "toArgs (LendingObligation t p i) = \<lparr>io_tag = 2, io_id = 0, io_seed1 = t, io_seed2 = t\<rparr>"
| "toArgs (LeverageObligation c d p i) = \<lparr>io_tag = 3, io_id = i, io_seed1 = c, io_seed2 = d\<rparr>"

text \<open>\<open>Buffer.from([n])\<close> keeps the low byte of a number.\<close>

definition getObligationPdaWithArgs :: "solana \<Rightarrow> pubkey \<Rightarrow> pubkey \<Rightarrow> init_obligation_args \<Rightarrow> pubkey \<Rightarrow> pubkey" where
  "getObligationPdaWithArgs S market user args programId =
     find_pda S [[of_nat (io_tag args)], [of_nat (io_id args)], key_bytes S user, key_bytes S market,
                 key_bytes S (io_seed1 args), key_bytes S (io_seed2 args)] programId"

definition toPda :: "solana \<Rightarrow> obligation_type \<Rightarrow> pubkey \<Rightarrow> pubkey \<Rightarrow> pubkey" where
  "toPda S t market user = getObligationPdaWithArgs S market user (toArgs t) (ot_programId t)"

definition getObligationType :: "kamino_market \<Rightarrow> nat \<Rightarrow> pubkey \<Rightarrow> pubkey \<Rightarrow> obligation_type result" where
  "getObligationType mk tag mint1 mint2 =
     (if tag = 0 then Inr (VanillaObligation (m_programId mk) 0)
      else if tag = 1 then Inr (MultiplyObligation mint1 mint2 (m_programId mk) 0)
      else if tag = 3 then Inr (LeverageObligation mint1 mint2 (m_programId mk) 0)
      else if tag = 2 then Inr (LendingObligation mint1 (m_programId mk) 0)
      else Inl (Throw ''Invalid obligation type''))"

text \<open>\<open>getDeposits()[0].mintAddress\<close>: reading the first of no positions is a type error.\<close>

definition first_mint :: "positions \<Rightarrow> pubkey result" where
  "first_mint ps = (case hm_values ps of [] \<Rightarrow> Inl TypeError | p # _ \<Rightarrow> Inr (p_mintAddress p))"

definition getObligationTypeFromObligation :: "kamino_market \<Rightarrow> kamino_obligation \<Rightarrow> obligation_type result" where
  "getObligationTypeFromObligation mk ob =
     (if obligationTag ob = 0 then Inr (VanillaObligation (m_programId mk) 0)
      else if obligationTag ob = 1 then
        bindE (first_mint (deposits ob)) (\<lambda>c. bindE (first_mint (borrows ob)) (\<lambda>d. Inr (MultiplyObligation c d (m_programId mk) 0)))
      else if obligationTag ob = 3 then
        bindE (first_mint (deposits ob)) (\<lambda>c. bindE (first_mint (borrows ob)) (\<lambda>d. Inr (LeverageObligation c d (m_programId mk) 0)))
      else if obligationTag ob = 2 then
        bindE (first_mint (deposits ob)) (\<lambda>c. Inr (LendingObligation c (m_programId mk) 0))
      else Inl (Throw ''Invalid obligation type''))"

definition TOTAL_NUMBER_OF_IDS_TO_CHECK :: nat where
  "TOTAL_NUMBER_OF_IDS_TO_CHECK = 25"

definition getObligationId :: "solana \<Rightarrow> kamino_obligation \<Rightarrow> kamino_market \<Rightarrow> pubkey \<Rightarrow> pubkey \<Rightarrow> nat result" where
  "getObligationId S ob mk mint1 mint2 =
     (if o_lendingMarket (ob_state ob) \<noteq> m_address mk then Inl (Throw ''Obligation does not belong to this market'')
      else bindE (getObligationType mk (obligationTag ob) mint1 mint2) (\<lambda>t.
        case List.find (\<lambda>i. getObligationPdaWithArgs S (m_address mk) (o_owner (ob_state ob)) ((toArgs t)\<lparr>io_id := i\<rparr>) (m_programId mk)
                 = obligationAddress ob) [0..<TOTAL_NUMBER_OF_IDS_TO_CHECK] of
          None \<Rightarrow> Inl (Throw ''obligation id not found for obligation'')
        | Some i \<Rightarrow> Inr i))"

section \<open>Properties\<close>

lemma getObligationType_args:
  "getObligationType mk tag mint1 mint2 = Inr t \<Longrightarrow> io_tag (toArgs t) = tag \<and> ot_programId t = m_programId mk"
  by (auto simp: getObligationType_def split: if_splits)

lemma option_result: "(case x of None \<Rightarrow> Inl e | Some y \<Rightarrow> Inr y) = Inr i \<longleftrightarrow> x = Some i"
  by (cases x) auto

lemma find_upt: "List.find P [0..<n] = Some i \<longleftrightarrow> i < n \<and> P i \<and> (\<forall>j<i. \<not> P j)"
  by (auto simp: find_Some_iff)


text \<open>A derivation whose address is the second seed, on which ids below 256 do not collide.\<close>

definition sample_solana :: solana where
  "sample_solana =
     \<lparr>find_pda = (\<lambda>ss p. of_nat (le_value (ss ! 1))), key_bytes = (\<lambda>k. rev (le_bytes 32 (unat k))), toBase58 = (\<lambda>k. ''''), isOnCurve = (\<lambda>k. True), TOKEN_PROGRAM_ID = 31,
      ASSOCIATED_TOKEN_PROGRAM_ID = 32, NATIVE_MINT = 33, SYSVAR_INSTRUCTIONS_PUBKEY = 34, SYSVAR_RENT_PUBKEY = 35,
      SYSTEM_PROGRAM_ID = 36, farmsId = 37\<rparr>"

lemma sample_solana_pda: "i < 256 \<Longrightarrow> getObligationPdaWithArgs sample_solana m u (a\<lparr>io_id := i\<rparr>) p = of_nat i"
  by (simp add: getObligationPdaWithArgs_def sample_solana_def unat_of_nat)


text \<open>
  Ids 256 apart derive the same address: only the low byte of the id is a seed.
\<close>

lemma obligation_id_wraps:
  "getObligationPdaWithArgs S market user (args\<lparr>io_id := i + 256 * k\<rparr>) programId =
    getObligationPdaWithArgs S market user (args\<lparr>io_id := i\<rparr>) programId"
proof -
  have z: "(256 :: byte) = 0" by simp
  have "(of_nat (i + 256 * k) :: byte) = of_nat i + 256 * of_nat k" by simp
  also have "\<dots> = of_nat i" by (simp only: z mult_zero_left add_0_right)
  finally have "(of_nat (i + 256 * k) :: byte) = of_nat i" .
  then show ?thesis by (simp add: getObligationPdaWithArgs_def)
qed

end
