(* ===== verification/Instructions.thy ===== *)
theory Instructions
  imports Config_Layout Addresses
begin

text \<open>
  The instructions of the lending program that the client builds: \<open>src/ts-client/src/idl_codegen/instructions\<close>. Each file
  gives one record of accounts (a nested object is a record of its own) and one builder that lists the accounts with their
  signer and writable flags and puts the eight identifier bytes before the borsh encoding of the arguments.
  A \<open>BN\<close> argument is an integer; the unsigned layouts of the borsh package write its magnitude.
\<close>

section \<open>Accounts and data\<close>

definition meta :: "pubkey \<Rightarrow> bool \<Rightarrow> bool \<Rightarrow> account_meta" where
  "meta k s w = \<lparr>am_pubkey = k, isSigner = s, isWritable = w\<rparr>"

definition ix_with_data :: "account_meta list \<Rightarrow> pubkey \<Rightarrow> byte list \<Rightarrow> byte list \<Rightarrow> instruction result" where
  "ix_with_data keys programId identifier args =
     bindE (encode_into 1000 args) (\<lambda>buffer.
       Inr \<lparr>ix_keys = keys, ix_programId = programId, ix_data = identifier @ buffer\<rparr>)"

definition bo_bn :: "borsh_lib \<Rightarrow> nat \<Rightarrow> int \<Rightarrow> byte list" where
  "bo_bn B n v = bo_uint B n (nat \<bar>v\<bar>)"

definition bo_str :: "borsh_lib \<Rightarrow> string \<Rightarrow> byte list" where
  "bo_str B s = bo_uint B 4 (length s) @ seed_text s"

definition enc_InitObligationArgs :: "borsh_lib \<Rightarrow> nat \<Rightarrow> nat \<Rightarrow> byte list" where
  "enc_InitObligationArgs B tag ident = bo_uint B 1 tag @ bo_uint B 1 ident"

section \<open>The instructions\<close>

record init_lending_market_accounts =
  ilm_lendingMarketOwner :: pubkey
  ilm_lendingMarket :: pubkey
  ilm_lendingMarketAuthority :: pubkey
  ilm_systemProgram :: pubkey
  ilm_rent :: pubkey

definition initLendingMarket_identifier :: "byte list" where
  "initLendingMarket_identifier = [34, 162, 116, 14, 101, 137, 94, 239]"

definition initLendingMarket ::
    "borsh_lib \<Rightarrow> byte list \<Rightarrow> init_lending_market_accounts \<Rightarrow> pubkey \<Rightarrow> instruction result" where
  "initLendingMarket B currency accounts programId =
     ix_with_data
        [meta (ilm_lendingMarketOwner accounts) True True,
         meta (ilm_lendingMarket accounts) False True,
         meta (ilm_lendingMarketAuthority accounts) False False,
         meta (ilm_systemProgram accounts) False False,
         meta (ilm_rent accounts) False False]
        programId initLendingMarket_identifier
        (currency)"

record update_lending_market_owner_accounts =
  ulo_lendingMarketOwnerCached :: pubkey
  ulo_lendingMarket :: pubkey

definition updateLendingMarketOwner_identifier :: "byte list" where
  "updateLendingMarketOwner_identifier = [118, 224, 10, 62, 196, 230, 184, 89]"

definition updateLendingMarketOwner :: "update_lending_market_owner_accounts \<Rightarrow> pubkey \<Rightarrow> instruction" where
  "updateLendingMarketOwner accounts programId =
     \<lparr>ix_keys =
        [meta (ulo_lendingMarketOwnerCached accounts) True False,
         meta (ulo_lendingMarket accounts) False True],
      ix_programId = programId, ix_data = updateLendingMarketOwner_identifier\<rparr>"

record init_reserve_accounts =
  inr_lendingMarketOwner :: pubkey
  inr_lendingMarket :: pubkey
  inr_lendingMarketAuthority :: pubkey
  inr_reserve :: pubkey
  inr_reserveLiquidityMint :: pubkey
  inr_reserveLiquiditySupply :: pubkey
  inr_feeReceiver :: pubkey
  inr_reserveCollateralMint :: pubkey
  inr_reserveCollateralSupply :: pubkey
  inr_initialLiquiditySource :: pubkey
  inr_rent :: pubkey
  inr_liquidityTokenProgram :: pubkey
  inr_collateralTokenProgram :: pubkey
  inr_systemProgram :: pubkey

definition initReserve_identifier :: "byte list" where
  "initReserve_identifier = [138, 245, 71, 225, 153, 4, 3, 43]"

definition initReserve :: "init_reserve_accounts \<Rightarrow> pubkey \<Rightarrow> instruction" where
  "initReserve accounts programId =
     \<lparr>ix_keys =
        [meta (inr_lendingMarketOwner accounts) True True,
         meta (inr_lendingMarket accounts) False False,
         meta (inr_lendingMarketAuthority accounts) False False,
         meta (inr_reserve accounts) False True,
         meta (inr_reserveLiquidityMint accounts) False False,
         meta (inr_reserveLiquiditySupply accounts) False True,
         meta (inr_feeReceiver accounts) False True,
         meta (inr_reserveCollateralMint accounts) False True,
         meta (inr_reserveCollateralSupply accounts) False True,
         meta (inr_initialLiquiditySource accounts) False True,
         meta (inr_rent accounts) False False,
         meta (inr_liquidityTokenProgram accounts) False False,
         meta (inr_collateralTokenProgram accounts) False False,
         meta (inr_systemProgram accounts) False False],
      ix_programId = programId, ix_data = initReserve_identifier\<rparr>"

record init_farms_for_reserve_accounts =
  ifr_lendingMarketOwner :: pubkey
  ifr_lendingMarket :: pubkey
  ifr_lendingMarketAuthority :: pubkey
  ifr_reserve :: pubkey
  ifr_farmsProgram :: pubkey
  ifr_farmsGlobalConfig :: pubkey
  ifr_farmState :: pubkey
  ifr_farmsVaultAuthority :: pubkey
  ifr_rent :: pubkey
  ifr_systemProgram :: pubkey

definition initFarmsForReserve_identifier :: "byte list" where
  "initFarmsForReserve_identifier = [218, 6, 62, 233, 1, 33, 232, 82]"

definition initFarmsForReserve ::
    "borsh_lib \<Rightarrow> nat \<Rightarrow> init_farms_for_reserve_accounts \<Rightarrow> pubkey \<Rightarrow> instruction result" where
  "initFarmsForReserve B mode accounts programId =
     ix_with_data
        [meta (ifr_lendingMarketOwner accounts) True True,
         meta (ifr_lendingMarket accounts) False False,
         meta (ifr_lendingMarketAuthority accounts) False False,
         meta (ifr_reserve accounts) False True,
         meta (ifr_farmsProgram accounts) False False,
         meta (ifr_farmsGlobalConfig accounts) False False,
         meta (ifr_farmState accounts) False True,
         meta (ifr_farmsVaultAuthority accounts) False False,
         meta (ifr_rent accounts) False False,
         meta (ifr_systemProgram accounts) False False]
        programId initFarmsForReserve_identifier
        (bo_uint B 1 mode)"

record redeem_fees_accounts =
  rdf_reserve :: pubkey
  rdf_reserveLiquidityMint :: pubkey
  rdf_reserveLiquidityFeeReceiver :: pubkey
  rdf_reserveSupplyLiquidity :: pubkey
  rdf_lendingMarket :: pubkey
  rdf_lendingMarketAuthority :: pubkey
  rdf_tokenProgram :: pubkey

definition redeemFees_identifier :: "byte list" where
  "redeemFees_identifier = [215, 39, 180, 41, 173, 46, 248, 220]"

definition redeemFees :: "redeem_fees_accounts \<Rightarrow> pubkey \<Rightarrow> instruction" where
  "redeemFees accounts programId =
     \<lparr>ix_keys =
        [meta (rdf_reserve accounts) False True,
         meta (rdf_reserveLiquidityMint accounts) False False,
         meta (rdf_reserveLiquidityFeeReceiver accounts) False True,
         meta (rdf_reserveSupplyLiquidity accounts) False True,
         meta (rdf_lendingMarket accounts) False False,
         meta (rdf_lendingMarketAuthority accounts) False False,
         meta (rdf_tokenProgram accounts) False False],
      ix_programId = programId, ix_data = redeemFees_identifier\<rparr>"

record withdraw_protocol_fee_accounts =
  wpf_lendingMarketOwner :: pubkey
  wpf_lendingMarket :: pubkey
  wpf_reserve :: pubkey
  wpf_reserveLiquidityMint :: pubkey
  wpf_lendingMarketAuthority :: pubkey
  wpf_feeVault :: pubkey
  wpf_lendingMarketOwnerAta :: pubkey
  wpf_tokenProgram :: pubkey

definition withdrawProtocolFee_identifier :: "byte list" where
  "withdrawProtocolFee_identifier = [158, 201, 158, 189, 33, 93, 162, 103]"

definition withdrawProtocolFee ::
    "borsh_lib \<Rightarrow> int \<Rightarrow> withdraw_protocol_fee_accounts \<Rightarrow> pubkey \<Rightarrow> instruction result" where
  "withdrawProtocolFee B amount accounts programId =
     ix_with_data
        [meta (wpf_lendingMarketOwner accounts) True False,
         meta (wpf_lendingMarket accounts) False False,
         meta (wpf_reserve accounts) False False,
         meta (wpf_reserveLiquidityMint accounts) False False,
         meta (wpf_lendingMarketAuthority accounts) False False,
         meta (wpf_feeVault accounts) False True,
         meta (wpf_lendingMarketOwnerAta accounts) False True,
         meta (wpf_tokenProgram accounts) False False]
        programId withdrawProtocolFee_identifier
        (bo_bn B 8 amount)"

record socialize_loss_accounts =
  sol_riskCouncil :: pubkey
  sol_obligation :: pubkey
  sol_lendingMarket :: pubkey
  sol_reserve :: pubkey
  sol_instructionSysvarAccount :: pubkey

definition socializeLoss_identifier :: "byte list" where
  "socializeLoss_identifier = [245, 75, 91, 0, 236, 97, 19, 3]"

definition socializeLoss ::
    "borsh_lib \<Rightarrow> int \<Rightarrow> socialize_loss_accounts \<Rightarrow> pubkey \<Rightarrow> instruction result" where
  "socializeLoss B liquidityAmount accounts programId =
     ix_with_data
        [meta (sol_riskCouncil accounts) True False,
         meta (sol_obligation accounts) False True,
         meta (sol_lendingMarket accounts) False False,
         meta (sol_reserve accounts) False True,
         meta (sol_instructionSysvarAccount accounts) False False]
        programId socializeLoss_identifier
        (bo_bn B 8 liquidityAmount)"

record mark_obligation_for_deleveraging_accounts =
  mod_riskCouncil :: pubkey
  mod_obligation :: pubkey
  mod_lendingMarket :: pubkey

definition markObligationForDeleveraging_identifier :: "byte list" where
  "markObligationForDeleveraging_identifier = [164, 35, 182, 19, 0, 116, 243, 127]"

definition markObligationForDeleveraging ::
    "borsh_lib \<Rightarrow> nat \<Rightarrow> mark_obligation_for_deleveraging_accounts \<Rightarrow> pubkey \<Rightarrow> instruction result" where
  "markObligationForDeleveraging B targetLtvPct accounts programId =
     ix_with_data
        [meta (mod_riskCouncil accounts) True False,
         meta (mod_obligation accounts) False True,
         meta (mod_lendingMarket accounts) False False]
        programId markObligationForDeleveraging_identifier
        (bo_uint B 1 targetLtvPct)"

record refresh_reserve_accounts =
  rr_reserve :: pubkey
  rr_lendingMarket :: pubkey
  rr_pythOracle :: pubkey
  rr_switchboardPriceOracle :: pubkey
  rr_switchboardTwapOracle :: pubkey
  rr_scopePrices :: pubkey

definition refreshReserve_identifier :: "byte list" where
  "refreshReserve_identifier = [2, 218, 138, 235, 79, 201, 25, 102]"

definition refreshReserve :: "refresh_reserve_accounts \<Rightarrow> pubkey \<Rightarrow> instruction" where
  "refreshReserve accounts programId =
     \<lparr>ix_keys =
        [meta (rr_reserve accounts) False True,
         meta (rr_lendingMarket accounts) False False,
         meta (rr_pythOracle accounts) False False,
         meta (rr_switchboardPriceOracle accounts) False False,
         meta (rr_switchboardTwapOracle accounts) False False,
         meta (rr_scopePrices accounts) False False],
      ix_programId = programId, ix_data = refreshReserve_identifier\<rparr>"

record deposit_reserve_liquidity_accounts =
  drl_owner :: pubkey
  drl_reserve :: pubkey
  drl_lendingMarket :: pubkey
  drl_lendingMarketAuthority :: pubkey
  drl_reserveLiquidityMint :: pubkey
  drl_reserveLiquiditySupply :: pubkey
  drl_reserveCollateralMint :: pubkey
  drl_userSourceLiquidity :: pubkey
  drl_userDestinationCollateral :: pubkey
  drl_collateralTokenProgram :: pubkey
  drl_liquidityTokenProgram :: pubkey
  drl_instructionSysvarAccount :: pubkey

definition depositReserveLiquidity_identifier :: "byte list" where
  "depositReserveLiquidity_identifier = [169, 201, 30, 126, 6, 205, 102, 68]"

definition depositReserveLiquidity ::
    "borsh_lib \<Rightarrow> int \<Rightarrow> deposit_reserve_liquidity_accounts \<Rightarrow> pubkey \<Rightarrow> instruction result" where
  "depositReserveLiquidity B liquidityAmount accounts programId =
     ix_with_data
        [meta (drl_owner accounts) True False,
         meta (drl_reserve accounts) False True,
         meta (drl_lendingMarket accounts) False False,
         meta (drl_lendingMarketAuthority accounts) False False,
         meta (drl_reserveLiquidityMint accounts) False False,
         meta (drl_reserveLiquiditySupply accounts) False True,
         meta (drl_reserveCollateralMint accounts) False True,
         meta (drl_userSourceLiquidity accounts) False True,
         meta (drl_userDestinationCollateral accounts) False True,
         meta (drl_collateralTokenProgram accounts) False False,
         meta (drl_liquidityTokenProgram accounts) False False,
         meta (drl_instructionSysvarAccount accounts) False False]
        programId depositReserveLiquidity_identifier
        (bo_bn B 8 liquidityAmount)"

record redeem_reserve_collateral_accounts =
  rrc_owner :: pubkey
  rrc_lendingMarket :: pubkey
  rrc_reserve :: pubkey
  rrc_lendingMarketAuthority :: pubkey
  rrc_reserveLiquidityMint :: pubkey
  rrc_reserveCollateralMint :: pubkey
  rrc_reserveLiquiditySupply :: pubkey
  rrc_userSourceCollateral :: pubkey
  rrc_userDestinationLiquidity :: pubkey
  rrc_collateralTokenProgram :: pubkey
  rrc_liquidityTokenProgram :: pubkey
  rrc_instructionSysvarAccount :: pubkey

definition redeemReserveCollateral_identifier :: "byte list" where
  "redeemReserveCollateral_identifier = [234, 117, 181, 125, 185, 142, 220, 29]"

definition redeemReserveCollateral ::
    "borsh_lib \<Rightarrow> int \<Rightarrow> redeem_reserve_collateral_accounts \<Rightarrow> pubkey \<Rightarrow> instruction result" where
  "redeemReserveCollateral B collateralAmount accounts programId =
     ix_with_data
        [meta (rrc_owner accounts) True False,
         meta (rrc_lendingMarket accounts) False False,
         meta (rrc_reserve accounts) False True,
         meta (rrc_lendingMarketAuthority accounts) False False,
         meta (rrc_reserveLiquidityMint accounts) False False,
         meta (rrc_reserveCollateralMint accounts) False True,
         meta (rrc_reserveLiquiditySupply accounts) False True,
         meta (rrc_userSourceCollateral accounts) False True,
         meta (rrc_userDestinationLiquidity accounts) False True,
         meta (rrc_collateralTokenProgram accounts) False False,
         meta (rrc_liquidityTokenProgram accounts) False False,
         meta (rrc_instructionSysvarAccount accounts) False False]
        programId redeemReserveCollateral_identifier
        (bo_bn B 8 collateralAmount)"

record init_obligation_accounts =
  iob_obligationOwner :: pubkey
  iob_feePayer :: pubkey
  iob_obligation :: pubkey
  iob_lendingMarket :: pubkey
  iob_seed1Account :: pubkey
  iob_seed2Account :: pubkey
  iob_ownerUserMetadata :: pubkey
  iob_rent :: pubkey
  iob_systemProgram :: pubkey

definition initObligation_identifier :: "byte list" where
  "initObligation_identifier = [251, 10, 231, 76, 27, 11, 159, 96]"

definition initObligation ::
    "borsh_lib \<Rightarrow> nat \<Rightarrow> nat \<Rightarrow> init_obligation_accounts \<Rightarrow> pubkey \<Rightarrow> instruction result" where
  "initObligation B tag ident accounts programId =
     ix_with_data
        [meta (iob_obligationOwner accounts) True False,
         meta (iob_feePayer accounts) True True,
         meta (iob_obligation accounts) False True,
         meta (iob_lendingMarket accounts) False False,
         meta (iob_seed1Account accounts) False False,
         meta (iob_seed2Account accounts) False False,
         meta (iob_ownerUserMetadata accounts) False False,
         meta (iob_rent accounts) False False,
         meta (iob_systemProgram accounts) False False]
        programId initObligation_identifier
        (enc_InitObligationArgs B tag ident)"

record init_obligation_farms_for_reserve_accounts =
  iof_payer :: pubkey
  iof_owner :: pubkey
  iof_obligation :: pubkey
  iof_lendingMarketAuthority :: pubkey
  iof_reserve :: pubkey
  iof_reserveFarmState :: pubkey
  iof_obligationFarm :: pubkey
  iof_lendingMarket :: pubkey
  iof_farmsProgram :: pubkey
  iof_rent :: pubkey
  iof_systemProgram :: pubkey

definition initObligationFarmsForReserve_identifier :: "byte list" where
  "initObligationFarmsForReserve_identifier = [136, 63, 15, 186, 211, 152, 168, 164]"

definition initObligationFarmsForReserve ::
    "borsh_lib \<Rightarrow> nat \<Rightarrow> init_obligation_farms_for_reserve_accounts \<Rightarrow> pubkey \<Rightarrow> instruction result" where
  "initObligationFarmsForReserve B mode accounts programId =
     ix_with_data
        [meta (iof_payer accounts) True True,
         meta (iof_owner accounts) False False,
         meta (iof_obligation accounts) False True,
         meta (iof_lendingMarketAuthority accounts) False False,
         meta (iof_reserve accounts) False True,
         meta (iof_reserveFarmState accounts) False True,
         meta (iof_obligationFarm accounts) False True,
         meta (iof_lendingMarket accounts) False False,
         meta (iof_farmsProgram accounts) False False,
         meta (iof_rent accounts) False False,
         meta (iof_systemProgram accounts) False False]
        programId initObligationFarmsForReserve_identifier
        (bo_uint B 1 mode)"

record refresh_obligation_farms_for_reserve_base_accounts =
  rof_b_obligation :: pubkey
  rof_b_lendingMarketAuthority :: pubkey
  rof_b_reserve :: pubkey
  rof_b_reserveFarmState :: pubkey
  rof_b_obligationFarmUserState :: pubkey
  rof_b_lendingMarket :: pubkey

record refresh_obligation_farms_for_reserve_accounts =
  rof_crank :: pubkey
  rof_baseAccounts :: refresh_obligation_farms_for_reserve_base_accounts
  rof_farmsProgram :: pubkey
  rof_rent :: pubkey
  rof_systemProgram :: pubkey

definition refreshObligationFarmsForReserve_identifier :: "byte list" where
  "refreshObligationFarmsForReserve_identifier = [140, 144, 253, 21, 10, 74, 248, 3]"

definition refreshObligationFarmsForReserve ::
    "borsh_lib \<Rightarrow> nat \<Rightarrow> refresh_obligation_farms_for_reserve_accounts \<Rightarrow> pubkey \<Rightarrow> instruction result" where
  "refreshObligationFarmsForReserve B mode accounts programId =
     ix_with_data
        [meta (rof_crank accounts) True False,
         meta (rof_b_obligation (rof_baseAccounts accounts)) False False,
         meta (rof_b_lendingMarketAuthority (rof_baseAccounts accounts)) False False,
         meta (rof_b_reserve (rof_baseAccounts accounts)) False False,
         meta (rof_b_reserveFarmState (rof_baseAccounts accounts)) False True,
         meta (rof_b_obligationFarmUserState (rof_baseAccounts accounts)) False True,
         meta (rof_b_lendingMarket (rof_baseAccounts accounts)) False False,
         meta (rof_farmsProgram accounts) False False,
         meta (rof_rent accounts) False False,
         meta (rof_systemProgram accounts) False False]
        programId refreshObligationFarmsForReserve_identifier
        (bo_uint B 1 mode)"

record refresh_obligation_accounts =
  ro_lendingMarket :: pubkey
  ro_obligation :: pubkey

definition refreshObligation_identifier :: "byte list" where
  "refreshObligation_identifier = [33, 132, 147, 228, 151, 192, 72, 89]"

definition refreshObligation :: "refresh_obligation_accounts \<Rightarrow> pubkey \<Rightarrow> instruction" where
  "refreshObligation accounts programId =
     \<lparr>ix_keys =
        [meta (ro_lendingMarket accounts) False False,
         meta (ro_obligation accounts) False True],
      ix_programId = programId, ix_data = refreshObligation_identifier\<rparr>"

record deposit_obligation_collateral_accounts =
  doc_owner :: pubkey
  doc_obligation :: pubkey
  doc_lendingMarket :: pubkey
  doc_depositReserve :: pubkey
  doc_reserveDestinationCollateral :: pubkey
  doc_userSourceCollateral :: pubkey
  doc_tokenProgram :: pubkey
  doc_instructionSysvarAccount :: pubkey

definition depositObligationCollateral_identifier :: "byte list" where
  "depositObligationCollateral_identifier = [108, 209, 4, 72, 21, 22, 118, 133]"

definition depositObligationCollateral ::
    "borsh_lib \<Rightarrow> int \<Rightarrow> deposit_obligation_collateral_accounts \<Rightarrow> pubkey \<Rightarrow> instruction result" where
  "depositObligationCollateral B collateralAmount accounts programId =
     ix_with_data
        [meta (doc_owner accounts) True False,
         meta (doc_obligation accounts) False True,
         meta (doc_lendingMarket accounts) False False,
         meta (doc_depositReserve accounts) False True,
         meta (doc_reserveDestinationCollateral accounts) False True,
         meta (doc_userSourceCollateral accounts) False True,
         meta (doc_tokenProgram accounts) False False,
         meta (doc_instructionSysvarAccount accounts) False False]
        programId depositObligationCollateral_identifier
        (bo_bn B 8 collateralAmount)"

record withdraw_obligation_collateral_accounts =
  woc_owner :: pubkey
  woc_obligation :: pubkey
  woc_lendingMarket :: pubkey
  woc_lendingMarketAuthority :: pubkey
  woc_withdrawReserve :: pubkey
  woc_reserveSourceCollateral :: pubkey
  woc_userDestinationCollateral :: pubkey
  woc_tokenProgram :: pubkey
  woc_instructionSysvarAccount :: pubkey

definition withdrawObligationCollateral_identifier :: "byte list" where
  "withdrawObligationCollateral_identifier = [37, 116, 205, 103, 243, 192, 92, 198]"

definition withdrawObligationCollateral ::
    "borsh_lib \<Rightarrow> int \<Rightarrow> withdraw_obligation_collateral_accounts \<Rightarrow> pubkey \<Rightarrow> instruction result" where
  "withdrawObligationCollateral B collateralAmount accounts programId =
     ix_with_data
        [meta (woc_owner accounts) True False,
         meta (woc_obligation accounts) False True,
         meta (woc_lendingMarket accounts) False False,
         meta (woc_lendingMarketAuthority accounts) False False,
         meta (woc_withdrawReserve accounts) False True,
         meta (woc_reserveSourceCollateral accounts) False True,
         meta (woc_userDestinationCollateral accounts) False True,
         meta (woc_tokenProgram accounts) False False,
         meta (woc_instructionSysvarAccount accounts) False False]
        programId withdrawObligationCollateral_identifier
        (bo_bn B 8 collateralAmount)"

record borrow_obligation_liquidity_accounts =
  bol_owner :: pubkey
  bol_obligation :: pubkey
  bol_lendingMarket :: pubkey
  bol_lendingMarketAuthority :: pubkey
  bol_borrowReserve :: pubkey
  bol_borrowReserveLiquidityMint :: pubkey
  bol_reserveSourceLiquidity :: pubkey
  bol_borrowReserveLiquidityFeeReceiver :: pubkey
  bol_userDestinationLiquidity :: pubkey
  bol_referrerTokenState :: pubkey
  bol_tokenProgram :: pubkey
  bol_instructionSysvarAccount :: pubkey

definition borrowObligationLiquidity_identifier :: "byte list" where
  "borrowObligationLiquidity_identifier = [121, 127, 18, 204, 73, 245, 225, 65]"

definition borrowObligationLiquidity ::
    "borsh_lib \<Rightarrow> int \<Rightarrow> borrow_obligation_liquidity_accounts \<Rightarrow> pubkey \<Rightarrow> instruction result" where
  "borrowObligationLiquidity B liquidityAmount accounts programId =
     ix_with_data
        [meta (bol_owner accounts) True False,
         meta (bol_obligation accounts) False True,
         meta (bol_lendingMarket accounts) False False,
         meta (bol_lendingMarketAuthority accounts) False False,
         meta (bol_borrowReserve accounts) False True,
         meta (bol_borrowReserveLiquidityMint accounts) False False,
         meta (bol_reserveSourceLiquidity accounts) False True,
         meta (bol_borrowReserveLiquidityFeeReceiver accounts) False True,
         meta (bol_userDestinationLiquidity accounts) False True,
         meta (bol_referrerTokenState accounts) False True,
         meta (bol_tokenProgram accounts) False False,
         meta (bol_instructionSysvarAccount accounts) False False]
        programId borrowObligationLiquidity_identifier
        (bo_bn B 8 liquidityAmount)"

record repay_obligation_liquidity_accounts =
  rol_owner :: pubkey
  rol_obligation :: pubkey
  rol_lendingMarket :: pubkey
  rol_repayReserve :: pubkey
  rol_reserveLiquidityMint :: pubkey
  rol_reserveDestinationLiquidity :: pubkey
  rol_userSourceLiquidity :: pubkey
  rol_tokenProgram :: pubkey
  rol_instructionSysvarAccount :: pubkey

definition repayObligationLiquidity_identifier :: "byte list" where
  "repayObligationLiquidity_identifier = [145, 178, 13, 225, 76, 240, 147, 72]"

definition repayObligationLiquidity ::
    "borsh_lib \<Rightarrow> int \<Rightarrow> repay_obligation_liquidity_accounts \<Rightarrow> pubkey \<Rightarrow> instruction result" where
  "repayObligationLiquidity B liquidityAmount accounts programId =
     ix_with_data
        [meta (rol_owner accounts) True False,
         meta (rol_obligation accounts) False True,
         meta (rol_lendingMarket accounts) False False,
         meta (rol_repayReserve accounts) False True,
         meta (rol_reserveLiquidityMint accounts) False False,
         meta (rol_reserveDestinationLiquidity accounts) False True,
         meta (rol_userSourceLiquidity accounts) False True,
         meta (rol_tokenProgram accounts) False False,
         meta (rol_instructionSysvarAccount accounts) False False]
        programId repayObligationLiquidity_identifier
        (bo_bn B 8 liquidityAmount)"

record deposit_reserve_liquidity_and_obligation_collateral_accounts =
  dlc_owner :: pubkey
  dlc_obligation :: pubkey
  dlc_lendingMarket :: pubkey
  dlc_lendingMarketAuthority :: pubkey
  dlc_reserve :: pubkey
  dlc_reserveLiquidityMint :: pubkey
  dlc_reserveLiquiditySupply :: pubkey
  dlc_reserveCollateralMint :: pubkey
  dlc_reserveDestinationDepositCollateral :: pubkey
  dlc_userSourceLiquidity :: pubkey
  dlc_placeholderUserDestinationCollateral :: pubkey
  dlc_collateralTokenProgram :: pubkey
  dlc_liquidityTokenProgram :: pubkey
  dlc_instructionSysvarAccount :: pubkey

definition depositReserveLiquidityAndObligationCollateral_identifier :: "byte list" where
  "depositReserveLiquidityAndObligationCollateral_identifier = [129, 199, 4, 2, 222, 39, 26, 46]"

definition depositReserveLiquidityAndObligationCollateral ::
    "borsh_lib \<Rightarrow> int \<Rightarrow> deposit_reserve_liquidity_and_obligation_collateral_accounts \<Rightarrow> pubkey \<Rightarrow> instruction result" where
  "depositReserveLiquidityAndObligationCollateral B liquidityAmount accounts programId =
     ix_with_data
        [meta (dlc_owner accounts) True True,
         meta (dlc_obligation accounts) False True,
         meta (dlc_lendingMarket accounts) False False,
         meta (dlc_lendingMarketAuthority accounts) False False,
         meta (dlc_reserve accounts) False True,
         meta (dlc_reserveLiquidityMint accounts) False False,
         meta (dlc_reserveLiquiditySupply accounts) False True,
         meta (dlc_reserveCollateralMint accounts) False True,
         meta (dlc_reserveDestinationDepositCollateral accounts) False True,
         meta (dlc_userSourceLiquidity accounts) False True,
         meta (dlc_placeholderUserDestinationCollateral accounts) False False,
         meta (dlc_collateralTokenProgram accounts) False False,
         meta (dlc_liquidityTokenProgram accounts) False False,
         meta (dlc_instructionSysvarAccount accounts) False False]
        programId depositReserveLiquidityAndObligationCollateral_identifier
        (bo_bn B 8 liquidityAmount)"

record withdraw_obligation_collateral_and_redeem_reserve_collateral_accounts =
  wcr_owner :: pubkey
  wcr_obligation :: pubkey
  wcr_lendingMarket :: pubkey
  wcr_lendingMarketAuthority :: pubkey
  wcr_withdrawReserve :: pubkey
  wcr_reserveLiquidityMint :: pubkey
  wcr_reserveSourceCollateral :: pubkey
  wcr_reserveCollateralMint :: pubkey
  wcr_reserveLiquiditySupply :: pubkey
  wcr_userDestinationLiquidity :: pubkey
  wcr_placeholderUserDestinationCollateral :: pubkey
  wcr_collateralTokenProgram :: pubkey
  wcr_liquidityTokenProgram :: pubkey
  wcr_instructionSysvarAccount :: pubkey

definition withdrawObligationCollateralAndRedeemReserveCollateral_identifier :: "byte list" where
  "withdrawObligationCollateralAndRedeemReserveCollateral_identifier = [75, 93, 93, 220, 34, 150, 218, 196]"

definition withdrawObligationCollateralAndRedeemReserveCollateral ::
    "borsh_lib \<Rightarrow> int \<Rightarrow> withdraw_obligation_collateral_and_redeem_reserve_collateral_accounts \<Rightarrow> pubkey \<Rightarrow> instruction result" where
  "withdrawObligationCollateralAndRedeemReserveCollateral B collateralAmount accounts programId =
     ix_with_data
        [meta (wcr_owner accounts) True True,
         meta (wcr_obligation accounts) False True,
         meta (wcr_lendingMarket accounts) False False,
         meta (wcr_lendingMarketAuthority accounts) False False,
         meta (wcr_withdrawReserve accounts) False True,
         meta (wcr_reserveLiquidityMint accounts) False False,
         meta (wcr_reserveSourceCollateral accounts) False True,
         meta (wcr_reserveCollateralMint accounts) False True,
         meta (wcr_reserveLiquiditySupply accounts) False True,
         meta (wcr_userDestinationLiquidity accounts) False True,
         meta (wcr_placeholderUserDestinationCollateral accounts) False False,
         meta (wcr_collateralTokenProgram accounts) False False,
         meta (wcr_liquidityTokenProgram accounts) False False,
         meta (wcr_instructionSysvarAccount accounts) False False]
        programId withdrawObligationCollateralAndRedeemReserveCollateral_identifier
        (bo_bn B 8 collateralAmount)"

record liquidate_obligation_and_redeem_reserve_collateral_accounts =
  liq_liquidator :: pubkey
  liq_obligation :: pubkey
  liq_lendingMarket :: pubkey
  liq_lendingMarketAuthority :: pubkey
  liq_repayReserve :: pubkey
  liq_repayReserveLiquidityMint :: pubkey
  liq_repayReserveLiquiditySupply :: pubkey
  liq_withdrawReserve :: pubkey
  liq_withdrawReserveLiquidityMint :: pubkey
  liq_withdrawReserveCollateralMint :: pubkey
  liq_withdrawReserveCollateralSupply :: pubkey
  liq_withdrawReserveLiquiditySupply :: pubkey
  liq_withdrawReserveLiquidityFeeReceiver :: pubkey
  liq_userSourceLiquidity :: pubkey
  liq_userDestinationCollateral :: pubkey
  liq_userDestinationLiquidity :: pubkey
  liq_collateralTokenProgram :: pubkey
  liq_repayLiquidityTokenProgram :: pubkey
  liq_withdrawLiquidityTokenProgram :: pubkey
  liq_instructionSysvarAccount :: pubkey

definition liquidateObligationAndRedeemReserveCollateral_identifier :: "byte list" where
  "liquidateObligationAndRedeemReserveCollateral_identifier = [177, 71, 154, 188, 226, 133, 74, 55]"

definition liquidateObligationAndRedeemReserveCollateral ::
    "borsh_lib \<Rightarrow> int \<Rightarrow> int \<Rightarrow> int \<Rightarrow> liquidate_obligation_and_redeem_reserve_collateral_accounts \<Rightarrow> pubkey \<Rightarrow> instruction result" where
  "liquidateObligationAndRedeemReserveCollateral B liquidityAmount minAcceptableReceivedLiquidityAmount maxAllowedLtvOverridePercent accounts programId =
     ix_with_data
        [meta (liq_liquidator accounts) True False,
         meta (liq_obligation accounts) False True,
         meta (liq_lendingMarket accounts) False False,
         meta (liq_lendingMarketAuthority accounts) False False,
         meta (liq_repayReserve accounts) False True,
         meta (liq_repayReserveLiquidityMint accounts) False False,
         meta (liq_repayReserveLiquiditySupply accounts) False True,
         meta (liq_withdrawReserve accounts) False True,
         meta (liq_withdrawReserveLiquidityMint accounts) False False,
         meta (liq_withdrawReserveCollateralMint accounts) False True,
         meta (liq_withdrawReserveCollateralSupply accounts) False True,
         meta (liq_withdrawReserveLiquiditySupply accounts) False True,
         meta (liq_withdrawReserveLiquidityFeeReceiver accounts) False True,
         meta (liq_userSourceLiquidity accounts) False True,
         meta (liq_userDestinationCollateral accounts) False True,
         meta (liq_userDestinationLiquidity accounts) False True,
         meta (liq_collateralTokenProgram accounts) False False,
         meta (liq_repayLiquidityTokenProgram accounts) False False,
         meta (liq_withdrawLiquidityTokenProgram accounts) False False,
         meta (liq_instructionSysvarAccount accounts) False False]
        programId liquidateObligationAndRedeemReserveCollateral_identifier
        (bo_bn B 8 liquidityAmount @ bo_bn B 8 minAcceptableReceivedLiquidityAmount @ bo_bn B 8 maxAllowedLtvOverridePercent)"

record flash_repay_reserve_liquidity_accounts =
  frr_userTransferAuthority :: pubkey
  frr_lendingMarketAuthority :: pubkey
  frr_lendingMarket :: pubkey
  frr_reserve :: pubkey
  frr_reserveLiquidityMint :: pubkey
  frr_reserveDestinationLiquidity :: pubkey
  frr_userSourceLiquidity :: pubkey
  frr_reserveLiquidityFeeReceiver :: pubkey
  frr_referrerTokenState :: pubkey
  frr_referrerAccount :: pubkey
  frr_sysvarInfo :: pubkey
  frr_tokenProgram :: pubkey

definition flashRepayReserveLiquidity_identifier :: "byte list" where
  "flashRepayReserveLiquidity_identifier = [185, 117, 0, 203, 96, 245, 180, 186]"

definition flashRepayReserveLiquidity ::
    "borsh_lib \<Rightarrow> int \<Rightarrow> nat \<Rightarrow> flash_repay_reserve_liquidity_accounts \<Rightarrow> pubkey \<Rightarrow> instruction result" where
  "flashRepayReserveLiquidity B liquidityAmount borrowInstructionIndex accounts programId =
     ix_with_data
        [meta (frr_userTransferAuthority accounts) True False,
         meta (frr_lendingMarketAuthority accounts) False False,
         meta (frr_lendingMarket accounts) False False,
         meta (frr_reserve accounts) False True,
         meta (frr_reserveLiquidityMint accounts) False False,
         meta (frr_reserveDestinationLiquidity accounts) False True,
         meta (frr_userSourceLiquidity accounts) False True,
         meta (frr_reserveLiquidityFeeReceiver accounts) False True,
         meta (frr_referrerTokenState accounts) False True,
         meta (frr_referrerAccount accounts) False True,
         meta (frr_sysvarInfo accounts) False False,
         meta (frr_tokenProgram accounts) False False]
        programId flashRepayReserveLiquidity_identifier
        (bo_bn B 8 liquidityAmount @ bo_uint B 1 borrowInstructionIndex)"

record flash_borrow_reserve_liquidity_accounts =
  fbr_userTransferAuthority :: pubkey
  fbr_lendingMarketAuthority :: pubkey
  fbr_lendingMarket :: pubkey
  fbr_reserve :: pubkey
  fbr_reserveLiquidityMint :: pubkey
  fbr_reserveSourceLiquidity :: pubkey
  fbr_userDestinationLiquidity :: pubkey
  fbr_reserveLiquidityFeeReceiver :: pubkey
  fbr_referrerTokenState :: pubkey
  fbr_referrerAccount :: pubkey
  fbr_sysvarInfo :: pubkey
  fbr_tokenProgram :: pubkey

definition flashBorrowReserveLiquidity_identifier :: "byte list" where
  "flashBorrowReserveLiquidity_identifier = [135, 231, 52, 167, 7, 52, 212, 193]"

definition flashBorrowReserveLiquidity ::
    "borsh_lib \<Rightarrow> int \<Rightarrow> flash_borrow_reserve_liquidity_accounts \<Rightarrow> pubkey \<Rightarrow> instruction result" where
  "flashBorrowReserveLiquidity B liquidityAmount accounts programId =
     ix_with_data
        [meta (fbr_userTransferAuthority accounts) True False,
         meta (fbr_lendingMarketAuthority accounts) False False,
         meta (fbr_lendingMarket accounts) False False,
         meta (fbr_reserve accounts) False True,
         meta (fbr_reserveLiquidityMint accounts) False False,
         meta (fbr_reserveSourceLiquidity accounts) False True,
         meta (fbr_userDestinationLiquidity accounts) False True,
         meta (fbr_reserveLiquidityFeeReceiver accounts) False True,
         meta (fbr_referrerTokenState accounts) False True,
         meta (fbr_referrerAccount accounts) False True,
         meta (fbr_sysvarInfo accounts) False False,
         meta (fbr_tokenProgram accounts) False False]
        programId flashBorrowReserveLiquidity_identifier
        (bo_bn B 8 liquidityAmount)"

record request_elevation_group_accounts =
  reg_owner :: pubkey
  reg_obligation :: pubkey
  reg_lendingMarket :: pubkey

definition requestElevationGroup_identifier :: "byte list" where
  "requestElevationGroup_identifier = [36, 119, 251, 129, 34, 240, 7, 147]"

definition requestElevationGroup ::
    "borsh_lib \<Rightarrow> nat \<Rightarrow> request_elevation_group_accounts \<Rightarrow> pubkey \<Rightarrow> instruction result" where
  "requestElevationGroup B emode accounts programId =
     ix_with_data
        [meta (reg_owner accounts) True False,
         meta (reg_obligation accounts) False True,
         meta (reg_lendingMarket accounts) False False]
        programId requestElevationGroup_identifier
        (bo_uint B 1 emode)"

record init_referrer_token_state_accounts =
  irt_payer :: pubkey
  irt_lendingMarket :: pubkey
  irt_reserve :: pubkey
  irt_referrer :: pubkey
  irt_referrerTokenState :: pubkey
  irt_rent :: pubkey
  irt_systemProgram :: pubkey

definition initReferrerTokenState_identifier :: "byte list" where
  "initReferrerTokenState_identifier = [116, 45, 66, 148, 58, 13, 218, 115]"

definition initReferrerTokenState :: "init_referrer_token_state_accounts \<Rightarrow> pubkey \<Rightarrow> instruction" where
  "initReferrerTokenState accounts programId =
     \<lparr>ix_keys =
        [meta (irt_payer accounts) True True,
         meta (irt_lendingMarket accounts) False False,
         meta (irt_reserve accounts) False False,
         meta (irt_referrer accounts) False False,
         meta (irt_referrerTokenState accounts) False True,
         meta (irt_rent accounts) False False,
         meta (irt_systemProgram accounts) False False],
      ix_programId = programId, ix_data = initReferrerTokenState_identifier\<rparr>"

record init_user_metadata_accounts =
  ium_owner :: pubkey
  ium_feePayer :: pubkey
  ium_userMetadata :: pubkey
  ium_referrerUserMetadata :: pubkey
  ium_rent :: pubkey
  ium_systemProgram :: pubkey

definition initUserMetadata_identifier :: "byte list" where
  "initUserMetadata_identifier = [117, 169, 176, 69, 197, 23, 15, 162]"

definition initUserMetadata ::
    "borsh_lib \<Rightarrow> pubkey \<Rightarrow> init_user_metadata_accounts \<Rightarrow> pubkey \<Rightarrow> instruction result" where
  "initUserMetadata B userLookupTable accounts programId =
     ix_with_data
        [meta (ium_owner accounts) True False,
         meta (ium_feePayer accounts) True True,
         meta (ium_userMetadata accounts) False True,
         meta (ium_referrerUserMetadata accounts) False False,
         meta (ium_rent accounts) False False,
         meta (ium_systemProgram accounts) False False]
        programId initUserMetadata_identifier
        (bo_key B userLookupTable)"

record withdraw_referrer_fees_accounts =
  wrf_referrer :: pubkey
  wrf_referrerTokenState :: pubkey
  wrf_reserve :: pubkey
  wrf_reserveLiquidityMint :: pubkey
  wrf_reserveSupplyLiquidity :: pubkey
  wrf_referrerTokenAccount :: pubkey
  wrf_lendingMarket :: pubkey
  wrf_lendingMarketAuthority :: pubkey
  wrf_tokenProgram :: pubkey

definition withdrawReferrerFees_identifier :: "byte list" where
  "withdrawReferrerFees_identifier = [171, 118, 121, 201, 233, 140, 23, 228]"

definition withdrawReferrerFees :: "withdraw_referrer_fees_accounts \<Rightarrow> pubkey \<Rightarrow> instruction" where
  "withdrawReferrerFees accounts programId =
     \<lparr>ix_keys =
        [meta (wrf_referrer accounts) True True,
         meta (wrf_referrerTokenState accounts) False True,
         meta (wrf_reserve accounts) False True,
         meta (wrf_reserveLiquidityMint accounts) False False,
         meta (wrf_reserveSupplyLiquidity accounts) False True,
         meta (wrf_referrerTokenAccount accounts) False True,
         meta (wrf_lendingMarket accounts) False False,
         meta (wrf_lendingMarketAuthority accounts) False False,
         meta (wrf_tokenProgram accounts) False False],
      ix_programId = programId, ix_data = withdrawReferrerFees_identifier\<rparr>"

record init_referrer_state_and_short_url_accounts =
  irs_referrer :: pubkey
  irs_referrerState :: pubkey
  irs_referrerShortUrl :: pubkey
  irs_referrerUserMetadata :: pubkey
  irs_rent :: pubkey
  irs_systemProgram :: pubkey

definition initReferrerStateAndShortUrl_identifier :: "byte list" where
  "initReferrerStateAndShortUrl_identifier = [165, 19, 25, 127, 100, 55, 31, 90]"

definition initReferrerStateAndShortUrl ::
    "borsh_lib \<Rightarrow> string \<Rightarrow> init_referrer_state_and_short_url_accounts \<Rightarrow> pubkey \<Rightarrow> instruction result" where
  "initReferrerStateAndShortUrl B shortUrl accounts programId =
     ix_with_data
        [meta (irs_referrer accounts) True True,
         meta (irs_referrerState accounts) False True,
         meta (irs_referrerShortUrl accounts) False True,
         meta (irs_referrerUserMetadata accounts) False False,
         meta (irs_rent accounts) False False,
         meta (irs_systemProgram accounts) False False]
        programId initReferrerStateAndShortUrl_identifier
        (bo_str B shortUrl)"

record delete_referrer_state_and_short_url_accounts =
  drs_referrer :: pubkey
  drs_referrerState :: pubkey
  drs_shortUrl :: pubkey
  drs_rent :: pubkey
  drs_systemProgram :: pubkey

definition deleteReferrerStateAndShortUrl_identifier :: "byte list" where
  "deleteReferrerStateAndShortUrl_identifier = [153, 185, 99, 28, 228, 179, 187, 150]"

definition deleteReferrerStateAndShortUrl :: "delete_referrer_state_and_short_url_accounts \<Rightarrow> pubkey \<Rightarrow> instruction" where
  "deleteReferrerStateAndShortUrl accounts programId =
     \<lparr>ix_keys =
        [meta (drs_referrer accounts) True True,
         meta (drs_referrerState accounts) False True,
         meta (drs_shortUrl accounts) False True,
         meta (drs_rent accounts) False False,
         meta (drs_systemProgram accounts) False False],
      ix_programId = programId, ix_data = deleteReferrerStateAndShortUrl_identifier\<rparr>"

record farms_accounts =
  fa_obligationFarmUserState :: pubkey
  fa_reserveFarmState :: pubkey

record deposit_reserve_liquidity_and_obligation_collateral_v2_accounts =
  dlc2_depositAccounts :: deposit_reserve_liquidity_and_obligation_collateral_accounts
  dlc2_farmsAccounts :: farms_accounts
  dlc2_farmsProgram :: pubkey

definition depositReserveLiquidityAndObligationCollateralV2_identifier :: "byte list" where
  "depositReserveLiquidityAndObligationCollateralV2_identifier = [216, 224, 191, 27, 204, 151, 102, 175]"

definition depositReserveLiquidityAndObligationCollateralV2 ::
    "borsh_lib \<Rightarrow> int \<Rightarrow> deposit_reserve_liquidity_and_obligation_collateral_v2_accounts \<Rightarrow> pubkey \<Rightarrow> instruction result" where
  "depositReserveLiquidityAndObligationCollateralV2 B liquidityAmount accounts programId =
     ix_with_data
        [meta (dlc_owner (dlc2_depositAccounts accounts)) True True,
         meta (dlc_obligation (dlc2_depositAccounts accounts)) False True,
         meta (dlc_lendingMarket (dlc2_depositAccounts accounts)) False False,
         meta (dlc_lendingMarketAuthority (dlc2_depositAccounts accounts)) False False,
         meta (dlc_reserve (dlc2_depositAccounts accounts)) False True,
         meta (dlc_reserveLiquidityMint (dlc2_depositAccounts accounts)) False False,
         meta (dlc_reserveLiquiditySupply (dlc2_depositAccounts accounts)) False True,
         meta (dlc_reserveCollateralMint (dlc2_depositAccounts accounts)) False True,
         meta (dlc_reserveDestinationDepositCollateral (dlc2_depositAccounts accounts)) False True,
         meta (dlc_userSourceLiquidity (dlc2_depositAccounts accounts)) False True,
         meta (dlc_placeholderUserDestinationCollateral (dlc2_depositAccounts accounts)) False False,
         meta (dlc_collateralTokenProgram (dlc2_depositAccounts accounts)) False False,
         meta (dlc_liquidityTokenProgram (dlc2_depositAccounts accounts)) False False,
         meta (dlc_instructionSysvarAccount (dlc2_depositAccounts accounts)) False False,
         meta (fa_obligationFarmUserState (dlc2_farmsAccounts accounts)) False True,
         meta (fa_reserveFarmState (dlc2_farmsAccounts accounts)) False True,
         meta (dlc2_farmsProgram accounts) False False]
        programId depositReserveLiquidityAndObligationCollateralV2_identifier
        (bo_bn B 8 liquidityAmount)"

record deposit_obligation_collateral_v2_accounts =
  doc2_depositAccounts :: deposit_obligation_collateral_accounts
  doc2_lendingMarketAuthority :: pubkey
  doc2_farmsAccounts :: farms_accounts
  doc2_farmsProgram :: pubkey

definition depositObligationCollateralV2_identifier :: "byte list" where
  "depositObligationCollateralV2_identifier = [137, 145, 151, 94, 167, 113, 4, 145]"

definition depositObligationCollateralV2 ::
    "borsh_lib \<Rightarrow> int \<Rightarrow> deposit_obligation_collateral_v2_accounts \<Rightarrow> pubkey \<Rightarrow> instruction result" where
  "depositObligationCollateralV2 B collateralAmount accounts programId =
     ix_with_data
        [meta (doc_owner (doc2_depositAccounts accounts)) True False,
         meta (doc_obligation (doc2_depositAccounts accounts)) False True,
         meta (doc_lendingMarket (doc2_depositAccounts accounts)) False False,
         meta (doc_depositReserve (doc2_depositAccounts accounts)) False True,
         meta (doc_reserveDestinationCollateral (doc2_depositAccounts accounts)) False True,
         meta (doc_userSourceCollateral (doc2_depositAccounts accounts)) False True,
         meta (doc_tokenProgram (doc2_depositAccounts accounts)) False False,
         meta (doc_instructionSysvarAccount (doc2_depositAccounts accounts)) False False,
         meta (doc2_lendingMarketAuthority accounts) False False,
         meta (fa_obligationFarmUserState (doc2_farmsAccounts accounts)) False True,
         meta (fa_reserveFarmState (doc2_farmsAccounts accounts)) False True,
         meta (doc2_farmsProgram accounts) False False]
        programId depositObligationCollateralV2_identifier
        (bo_bn B 8 collateralAmount)"

record borrow_obligation_liquidity_v2_accounts =
  bol2_borrowAccounts :: borrow_obligation_liquidity_accounts
  bol2_farmsAccounts :: farms_accounts
  bol2_farmsProgram :: pubkey

definition borrowObligationLiquidityV2_identifier :: "byte list" where
  "borrowObligationLiquidityV2_identifier = [161, 128, 143, 245, 171, 199, 194, 6]"

definition borrowObligationLiquidityV2 ::
    "borsh_lib \<Rightarrow> int \<Rightarrow> borrow_obligation_liquidity_v2_accounts \<Rightarrow> pubkey \<Rightarrow> instruction result" where
  "borrowObligationLiquidityV2 B liquidityAmount accounts programId =
     ix_with_data
        [meta (bol_owner (bol2_borrowAccounts accounts)) True False,
         meta (bol_obligation (bol2_borrowAccounts accounts)) False True,
         meta (bol_lendingMarket (bol2_borrowAccounts accounts)) False False,
         meta (bol_lendingMarketAuthority (bol2_borrowAccounts accounts)) False False,
         meta (bol_borrowReserve (bol2_borrowAccounts accounts)) False True,
         meta (bol_borrowReserveLiquidityMint (bol2_borrowAccounts accounts)) False False,
         meta (bol_reserveSourceLiquidity (bol2_borrowAccounts accounts)) False True,
         meta (bol_borrowReserveLiquidityFeeReceiver (bol2_borrowAccounts accounts)) False True,
         meta (bol_userDestinationLiquidity (bol2_borrowAccounts accounts)) False True,
         meta (bol_referrerTokenState (bol2_borrowAccounts accounts)) False True,
         meta (bol_tokenProgram (bol2_borrowAccounts accounts)) False False,
         meta (bol_instructionSysvarAccount (bol2_borrowAccounts accounts)) False False,
         meta (fa_obligationFarmUserState (bol2_farmsAccounts accounts)) False True,
         meta (fa_reserveFarmState (bol2_farmsAccounts accounts)) False True,
         meta (bol2_farmsProgram accounts) False False]
        programId borrowObligationLiquidityV2_identifier
        (bo_bn B 8 liquidityAmount)"

record repay_obligation_liquidity_v2_accounts =
  rol2_repayAccounts :: repay_obligation_liquidity_accounts
  rol2_farmsAccounts :: farms_accounts
  rol2_lendingMarketAuthority :: pubkey
  rol2_farmsProgram :: pubkey

definition repayObligationLiquidityV2_identifier :: "byte list" where
  "repayObligationLiquidityV2_identifier = [116, 174, 213, 76, 180, 53, 210, 144]"

definition repayObligationLiquidityV2 ::
    "borsh_lib \<Rightarrow> int \<Rightarrow> repay_obligation_liquidity_v2_accounts \<Rightarrow> pubkey \<Rightarrow> instruction result" where
  "repayObligationLiquidityV2 B liquidityAmount accounts programId =
     ix_with_data
        [meta (rol_owner (rol2_repayAccounts accounts)) True False,
         meta (rol_obligation (rol2_repayAccounts accounts)) False True,
         meta (rol_lendingMarket (rol2_repayAccounts accounts)) False False,
         meta (rol_repayReserve (rol2_repayAccounts accounts)) False True,
         meta (rol_reserveLiquidityMint (rol2_repayAccounts accounts)) False False,
         meta (rol_reserveDestinationLiquidity (rol2_repayAccounts accounts)) False True,
         meta (rol_userSourceLiquidity (rol2_repayAccounts accounts)) False True,
         meta (rol_tokenProgram (rol2_repayAccounts accounts)) False False,
         meta (rol_instructionSysvarAccount (rol2_repayAccounts accounts)) False False,
         meta (fa_obligationFarmUserState (rol2_farmsAccounts accounts)) False True,
         meta (fa_reserveFarmState (rol2_farmsAccounts accounts)) False True,
         meta (rol2_lendingMarketAuthority accounts) False False,
         meta (rol2_farmsProgram accounts) False False]
        programId repayObligationLiquidityV2_identifier
        (bo_bn B 8 liquidityAmount)"

record withdraw_obligation_collateral_and_redeem_reserve_collateral_v2_accounts =
  wcr2_withdrawAccounts :: withdraw_obligation_collateral_and_redeem_reserve_collateral_accounts
  wcr2_farmsAccounts :: farms_accounts
  wcr2_farmsProgram :: pubkey

definition withdrawObligationCollateralAndRedeemReserveCollateralV2_identifier :: "byte list" where
  "withdrawObligationCollateralAndRedeemReserveCollateralV2_identifier = [235, 52, 119, 152, 149, 197, 20, 7]"

definition withdrawObligationCollateralAndRedeemReserveCollateralV2 ::
    "borsh_lib \<Rightarrow> int \<Rightarrow> withdraw_obligation_collateral_and_redeem_reserve_collateral_v2_accounts \<Rightarrow> pubkey \<Rightarrow> instruction result" where
  "withdrawObligationCollateralAndRedeemReserveCollateralV2 B collateralAmount accounts programId =
     ix_with_data
        [meta (wcr_owner (wcr2_withdrawAccounts accounts)) True True,
         meta (wcr_obligation (wcr2_withdrawAccounts accounts)) False True,
         meta (wcr_lendingMarket (wcr2_withdrawAccounts accounts)) False False,
         meta (wcr_lendingMarketAuthority (wcr2_withdrawAccounts accounts)) False False,
         meta (wcr_withdrawReserve (wcr2_withdrawAccounts accounts)) False True,
         meta (wcr_reserveLiquidityMint (wcr2_withdrawAccounts accounts)) False False,
         meta (wcr_reserveSourceCollateral (wcr2_withdrawAccounts accounts)) False True,
         meta (wcr_reserveCollateralMint (wcr2_withdrawAccounts accounts)) False True,
         meta (wcr_reserveLiquiditySupply (wcr2_withdrawAccounts accounts)) False True,
         meta (wcr_userDestinationLiquidity (wcr2_withdrawAccounts accounts)) False True,
         meta (wcr_placeholderUserDestinationCollateral (wcr2_withdrawAccounts accounts)) False False,
         meta (wcr_collateralTokenProgram (wcr2_withdrawAccounts accounts)) False False,
         meta (wcr_liquidityTokenProgram (wcr2_withdrawAccounts accounts)) False False,
         meta (wcr_instructionSysvarAccount (wcr2_withdrawAccounts accounts)) False False,
         meta (fa_obligationFarmUserState (wcr2_farmsAccounts accounts)) False True,
         meta (fa_reserveFarmState (wcr2_farmsAccounts accounts)) False True,
         meta (wcr2_farmsProgram accounts) False False]
        programId withdrawObligationCollateralAndRedeemReserveCollateralV2_identifier
        (bo_bn B 8 collateralAmount)"

record withdraw_obligation_collateral_v2_accounts =
  woc2_withdrawAccounts :: withdraw_obligation_collateral_accounts
  woc2_farmsAccounts :: farms_accounts
  woc2_farmsProgram :: pubkey

definition withdrawObligationCollateralV2_identifier :: "byte list" where
  "withdrawObligationCollateralV2_identifier = [202, 249, 117, 114, 231, 192, 47, 138]"

definition withdrawObligationCollateralV2 ::
    "borsh_lib \<Rightarrow> int \<Rightarrow> withdraw_obligation_collateral_v2_accounts \<Rightarrow> pubkey \<Rightarrow> instruction result" where
  "withdrawObligationCollateralV2 B collateralAmount accounts programId =
     ix_with_data
        [meta (woc_owner (woc2_withdrawAccounts accounts)) True False,
         meta (woc_obligation (woc2_withdrawAccounts accounts)) False True,
         meta (woc_lendingMarket (woc2_withdrawAccounts accounts)) False False,
         meta (woc_lendingMarketAuthority (woc2_withdrawAccounts accounts)) False False,
         meta (woc_withdrawReserve (woc2_withdrawAccounts accounts)) False True,
         meta (woc_reserveSourceCollateral (woc2_withdrawAccounts accounts)) False True,
         meta (woc_userDestinationCollateral (woc2_withdrawAccounts accounts)) False True,
         meta (woc_tokenProgram (woc2_withdrawAccounts accounts)) False False,
         meta (woc_instructionSysvarAccount (woc2_withdrawAccounts accounts)) False False,
         meta (fa_obligationFarmUserState (woc2_farmsAccounts accounts)) False True,
         meta (fa_reserveFarmState (woc2_farmsAccounts accounts)) False True,
         meta (woc2_farmsProgram accounts) False False]
        programId withdrawObligationCollateralV2_identifier
        (bo_bn B 8 collateralAmount)"

record liquidate_obligation_and_redeem_reserve_collateral_v2_accounts =
  liq2_liquidationAccounts :: liquidate_obligation_and_redeem_reserve_collateral_accounts
  liq2_collateralFarmsAccounts :: farms_accounts
  liq2_debtFarmsAccounts :: farms_accounts
  liq2_farmsProgram :: pubkey

definition liquidateObligationAndRedeemReserveCollateralV2_identifier :: "byte list" where
  "liquidateObligationAndRedeemReserveCollateralV2_identifier = [162, 161, 35, 143, 30, 187, 185, 103]"

definition liquidateObligationAndRedeemReserveCollateralV2 ::
    "borsh_lib \<Rightarrow> int \<Rightarrow> int \<Rightarrow> int \<Rightarrow> liquidate_obligation_and_redeem_reserve_collateral_v2_accounts \<Rightarrow> pubkey \<Rightarrow> instruction result" where
  "liquidateObligationAndRedeemReserveCollateralV2 B liquidityAmount minAcceptableReceivedLiquidityAmount maxAllowedLtvOverridePercent accounts programId =
     ix_with_data
        [meta (liq_liquidator (liq2_liquidationAccounts accounts)) True False,
         meta (liq_obligation (liq2_liquidationAccounts accounts)) False True,
         meta (liq_lendingMarket (liq2_liquidationAccounts accounts)) False False,
         meta (liq_lendingMarketAuthority (liq2_liquidationAccounts accounts)) False False,
         meta (liq_repayReserve (liq2_liquidationAccounts accounts)) False True,
         meta (liq_repayReserveLiquidityMint (liq2_liquidationAccounts accounts)) False False,
         meta (liq_repayReserveLiquiditySupply (liq2_liquidationAccounts accounts)) False True,
         meta (liq_withdrawReserve (liq2_liquidationAccounts accounts)) False True,
         meta (liq_withdrawReserveLiquidityMint (liq2_liquidationAccounts accounts)) False False,
         meta (liq_withdrawReserveCollateralMint (liq2_liquidationAccounts accounts)) False True,
         meta (liq_withdrawReserveCollateralSupply (liq2_liquidationAccounts accounts)) False True,
         meta (liq_withdrawReserveLiquiditySupply (liq2_liquidationAccounts accounts)) False True,
         meta (liq_withdrawReserveLiquidityFeeReceiver (liq2_liquidationAccounts accounts)) False True,
         meta (liq_userSourceLiquidity (liq2_liquidationAccounts accounts)) False True,
         meta (liq_userDestinationCollateral (liq2_liquidationAccounts accounts)) False True,
         meta (liq_userDestinationLiquidity (liq2_liquidationAccounts accounts)) False True,
         meta (liq_collateralTokenProgram (liq2_liquidationAccounts accounts)) False False,
         meta (liq_repayLiquidityTokenProgram (liq2_liquidationAccounts accounts)) False False,
         meta (liq_withdrawLiquidityTokenProgram (liq2_liquidationAccounts accounts)) False False,
         meta (liq_instructionSysvarAccount (liq2_liquidationAccounts accounts)) False False,
         meta (fa_obligationFarmUserState (liq2_collateralFarmsAccounts accounts)) False True,
         meta (fa_reserveFarmState (liq2_collateralFarmsAccounts accounts)) False True,
         meta (fa_obligationFarmUserState (liq2_debtFarmsAccounts accounts)) False True,
         meta (fa_reserveFarmState (liq2_debtFarmsAccounts accounts)) False True,
         meta (liq2_farmsProgram accounts) False False]
        programId liquidateObligationAndRedeemReserveCollateralV2_identifier
        (bo_bn B 8 liquidityAmount @ bo_bn B 8 minAcceptableReceivedLiquidityAmount @ bo_bn B 8 maxAllowedLtvOverridePercent)"

record repay_and_withdraw_and_redeem_accounts =
  rwr_repayAccounts :: repay_obligation_liquidity_accounts
  rwr_withdrawAccounts :: withdraw_obligation_collateral_and_redeem_reserve_collateral_accounts
  rwr_collateralFarmsAccounts :: farms_accounts
  rwr_debtFarmsAccounts :: farms_accounts
  rwr_farmsProgram :: pubkey

definition repayAndWithdrawAndRedeem_identifier :: "byte list" where
  "repayAndWithdrawAndRedeem_identifier = [2, 54, 152, 3, 148, 96, 109, 218]"

definition repayAndWithdrawAndRedeem ::
    "borsh_lib \<Rightarrow> int \<Rightarrow> int \<Rightarrow> repay_and_withdraw_and_redeem_accounts \<Rightarrow> pubkey \<Rightarrow> instruction result" where
  "repayAndWithdrawAndRedeem B repayAmount withdrawCollateralAmount accounts programId =
     ix_with_data
        [meta (rol_owner (rwr_repayAccounts accounts)) True False,
         meta (rol_obligation (rwr_repayAccounts accounts)) False True,
         meta (rol_lendingMarket (rwr_repayAccounts accounts)) False False,
         meta (rol_repayReserve (rwr_repayAccounts accounts)) False True,
         meta (rol_reserveLiquidityMint (rwr_repayAccounts accounts)) False False,
         meta (rol_reserveDestinationLiquidity (rwr_repayAccounts accounts)) False True,
         meta (rol_userSourceLiquidity (rwr_repayAccounts accounts)) False True,
         meta (rol_tokenProgram (rwr_repayAccounts accounts)) False False,
         meta (rol_instructionSysvarAccount (rwr_repayAccounts accounts)) False False,
         meta (wcr_owner (rwr_withdrawAccounts accounts)) True True,
         meta (wcr_obligation (rwr_withdrawAccounts accounts)) False True,
         meta (wcr_lendingMarket (rwr_withdrawAccounts accounts)) False False,
         meta (wcr_lendingMarketAuthority (rwr_withdrawAccounts accounts)) False False,
         meta (wcr_withdrawReserve (rwr_withdrawAccounts accounts)) False True,
         meta (wcr_reserveLiquidityMint (rwr_withdrawAccounts accounts)) False False,
         meta (wcr_reserveSourceCollateral (rwr_withdrawAccounts accounts)) False True,
         meta (wcr_reserveCollateralMint (rwr_withdrawAccounts accounts)) False True,
         meta (wcr_reserveLiquiditySupply (rwr_withdrawAccounts accounts)) False True,
         meta (wcr_userDestinationLiquidity (rwr_withdrawAccounts accounts)) False True,
         meta (wcr_placeholderUserDestinationCollateral (rwr_withdrawAccounts accounts)) False False,
         meta (wcr_collateralTokenProgram (rwr_withdrawAccounts accounts)) False False,
         meta (wcr_liquidityTokenProgram (rwr_withdrawAccounts accounts)) False False,
         meta (wcr_instructionSysvarAccount (rwr_withdrawAccounts accounts)) False False,
         meta (fa_obligationFarmUserState (rwr_collateralFarmsAccounts accounts)) False True,
         meta (fa_reserveFarmState (rwr_collateralFarmsAccounts accounts)) False True,
         meta (fa_obligationFarmUserState (rwr_debtFarmsAccounts accounts)) False True,
         meta (fa_reserveFarmState (rwr_debtFarmsAccounts accounts)) False True,
         meta (rwr_farmsProgram accounts) False False]
        programId repayAndWithdrawAndRedeem_identifier
        (bo_bn B 8 repayAmount @ bo_bn B 8 withdrawCollateralAmount)"

record deposit_and_withdraw_accounts =
  daw_depositAccounts :: deposit_reserve_liquidity_and_obligation_collateral_accounts
  daw_withdrawAccounts :: withdraw_obligation_collateral_and_redeem_reserve_collateral_accounts
  daw_depositFarmsAccounts :: farms_accounts
  daw_withdrawFarmsAccounts :: farms_accounts
  daw_farmsProgram :: pubkey

definition depositAndWithdraw_identifier :: "byte list" where
  "depositAndWithdraw_identifier = [141, 153, 39, 15, 64, 61, 88, 84]"

definition depositAndWithdraw ::
    "borsh_lib \<Rightarrow> int \<Rightarrow> int \<Rightarrow> deposit_and_withdraw_accounts \<Rightarrow> pubkey \<Rightarrow> instruction result" where
  "depositAndWithdraw B liquidityAmount withdrawCollateralAmount accounts programId =
     ix_with_data
        [meta (dlc_owner (daw_depositAccounts accounts)) True True,
         meta (dlc_obligation (daw_depositAccounts accounts)) False True,
         meta (dlc_lendingMarket (daw_depositAccounts accounts)) False False,
         meta (dlc_lendingMarketAuthority (daw_depositAccounts accounts)) False False,
         meta (dlc_reserve (daw_depositAccounts accounts)) False True,
         meta (dlc_reserveLiquidityMint (daw_depositAccounts accounts)) False False,
         meta (dlc_reserveLiquiditySupply (daw_depositAccounts accounts)) False True,
         meta (dlc_reserveCollateralMint (daw_depositAccounts accounts)) False True,
         meta (dlc_reserveDestinationDepositCollateral (daw_depositAccounts accounts)) False True,
         meta (dlc_userSourceLiquidity (daw_depositAccounts accounts)) False True,
         meta (dlc_placeholderUserDestinationCollateral (daw_depositAccounts accounts)) False False,
         meta (dlc_collateralTokenProgram (daw_depositAccounts accounts)) False False,
         meta (dlc_liquidityTokenProgram (daw_depositAccounts accounts)) False False,
         meta (dlc_instructionSysvarAccount (daw_depositAccounts accounts)) False False,
         meta (wcr_owner (daw_withdrawAccounts accounts)) True True,
         meta (wcr_obligation (daw_withdrawAccounts accounts)) False True,
         meta (wcr_lendingMarket (daw_withdrawAccounts accounts)) False False,
         meta (wcr_lendingMarketAuthority (daw_withdrawAccounts accounts)) False False,
         meta (wcr_withdrawReserve (daw_withdrawAccounts accounts)) False True,
         meta (wcr_reserveLiquidityMint (daw_withdrawAccounts accounts)) False False,
         meta (wcr_reserveSourceCollateral (daw_withdrawAccounts accounts)) False True,
         meta (wcr_reserveCollateralMint (daw_withdrawAccounts accounts)) False True,
         meta (wcr_reserveLiquiditySupply (daw_withdrawAccounts accounts)) False True,
         meta (wcr_userDestinationLiquidity (daw_withdrawAccounts accounts)) False True,
         meta (wcr_placeholderUserDestinationCollateral (daw_withdrawAccounts accounts)) False False,
         meta (wcr_collateralTokenProgram (daw_withdrawAccounts accounts)) False False,
         meta (wcr_liquidityTokenProgram (daw_withdrawAccounts accounts)) False False,
         meta (wcr_instructionSysvarAccount (daw_withdrawAccounts accounts)) False False,
         meta (fa_obligationFarmUserState (daw_depositFarmsAccounts accounts)) False True,
         meta (fa_reserveFarmState (daw_depositFarmsAccounts accounts)) False True,
         meta (fa_obligationFarmUserState (daw_withdrawFarmsAccounts accounts)) False True,
         meta (fa_reserveFarmState (daw_withdrawFarmsAccounts accounts)) False True,
         meta (daw_farmsProgram accounts) False False]
        programId depositAndWithdraw_identifier
        (bo_bn B 8 liquidityAmount @ bo_bn B 8 withdrawCollateralAmount)"

record socialize_loss_v2_accounts =
  sol2_socializeLossAccounts :: socialize_loss_accounts
  sol2_farmsAccounts :: farms_accounts
  sol2_lendingMarketAuthority :: pubkey
  sol2_farmsProgram :: pubkey

definition socializeLossV2_identifier :: "byte list" where
  "socializeLossV2_identifier = [238, 95, 98, 220, 187, 40, 204, 154]"

definition socializeLossV2 ::
    "borsh_lib \<Rightarrow> int \<Rightarrow> socialize_loss_v2_accounts \<Rightarrow> pubkey \<Rightarrow> instruction result" where
  "socializeLossV2 B liquidityAmount accounts programId =
     ix_with_data
        [meta (sol_riskCouncil (sol2_socializeLossAccounts accounts)) True False,
         meta (sol_obligation (sol2_socializeLossAccounts accounts)) False True,
         meta (sol_lendingMarket (sol2_socializeLossAccounts accounts)) False False,
         meta (sol_reserve (sol2_socializeLossAccounts accounts)) False True,
         meta (sol_instructionSysvarAccount (sol2_socializeLossAccounts accounts)) False False,
         meta (fa_obligationFarmUserState (sol2_farmsAccounts accounts)) False True,
         meta (fa_reserveFarmState (sol2_farmsAccounts accounts)) False True,
         meta (sol2_lendingMarketAuthority accounts) False False,
         meta (sol2_farmsProgram accounts) False False]
        programId socializeLossV2_identifier
        (bo_bn B 8 liquidityAmount)"

definition refreshReservesBatch_identifier :: "byte list" where
  "refreshReservesBatch_identifier = [144, 110, 26, 103, 162, 204, 252, 147]"

definition refreshReservesBatch ::
    "borsh_lib \<Rightarrow> bool \<Rightarrow> pubkey \<Rightarrow> instruction result" where
  "refreshReservesBatch B skipPriceUpdates programId =
     ix_with_data
        []
        programId refreshReservesBatch_identifier
        (bo_uint B 1 (if skipPriceUpdates then 1 else 0))"


end
