(* ===== verification/Action_State.thy ===== *)
theory Action_State
  imports Instructions Obligation_Limits
begin

text \<open>
  The object that collects the instructions of a user action (\<open>KaminoAction\<close> of \<open>src/ts-client/src/classes/action.ts\<close>), the
  environment it reads, and the methods that push refresh, initialisation and support instructions onto it.
  \<^item> \<open>env\<close> holds what is outside the repository: the Solana, spl-token and scope packages build instructions, the connection
    answers account queries. Template labels print addresses with \<open>toBase58\<close>; \<open>console.log\<close> is left out.
  \<^item> A method is a function from the object to the object, or to an error it throws.
  \<^item> The constructor sets exactly one of \<open>obligation\<close> and \<open>obligationType\<close>; the two nullable fields are the one field \<open>a_target\<close>.
\<close>

section \<open>Environment\<close>

record user_metadata =
  um_referrer :: pubkey
  um_bump :: u64
  um_userLookupTable :: pubkey
  um_owner :: pubkey
  um_padding1 :: "u64 list"
  um_padding2 :: "u64 list"

text \<open>What an account holds: its owner program and what the decoders read from its data (\<open>None\<close>: the discriminator is another).\<close>

record account_info =
  ai_owner :: pubkey
  ai_obligation :: "obligation option"
  ai_userMetadata :: "user_metadata option"

record env =
  sol :: solana
  borsh :: borsh_lib
  num :: num_lib
  setComputeUnitLimit :: "nat \<Rightarrow> instruction"
  sys_transfer :: "pubkey \<Rightarrow> pubkey \<Rightarrow> number \<Rightarrow> instruction"
  createCloseAccountInstruction :: "pubkey \<Rightarrow> pubkey \<Rightarrow> pubkey \<Rightarrow> pubkey \<Rightarrow> instruction"
  createSyncNativeInstruction :: "pubkey \<Rightarrow> instruction"
  createAtaIx :: "pubkey \<Rightarrow> pubkey \<Rightarrow> pubkey \<Rightarrow> pubkey \<Rightarrow> pubkey \<Rightarrow> pubkey \<Rightarrow> instruction"
  createLookupTable :: "pubkey \<Rightarrow> pubkey \<Rightarrow> nat \<Rightarrow> instruction \<times> pubkey"
  refreshPriceListIx :: "string \<Rightarrow> u16 option list \<Rightarrow> instruction result"
  getAccountInfo :: "pubkey \<Rightarrow> account_info option"
  getMinimumBalanceForRentExemption :: "nat \<Rightarrow> number"
  getSlot :: nat

datatype auxiliary_ix = Setup | InBetween | Cleanup

datatype reserve_farm_kind = Collateral | Debt

primrec farm_discriminator :: "reserve_farm_kind \<Rightarrow> nat" where
  "farm_discriminator Collateral = 0"
| "farm_discriminator Debt = 1"

primrec farm_kind :: "reserve_farm_kind \<Rightarrow> string" where
  "farm_kind Collateral = ''Collateral''"
| "farm_kind Debt = ''Debt''"

section \<open>The action\<close>

record kamino_action =
  a_market :: kamino_market
  a_reserve :: kamino_reserve
  a_outflowReserve :: "kamino_reserve option"
  a_owner :: pubkey
  a_payer :: pubkey
  a_target :: "kamino_obligation + obligation_type"
  a_referrer :: pubkey
  a_mint :: pubkey
  a_secondaryMint :: "pubkey option"
  a_positions :: nat
  a_amount :: int
  a_outflowAmount :: "int option"
  computeBudgetIxs :: "instruction list"
  computeBudgetIxsLabels :: "string list"
  setupIxs :: "instruction list"
  setupIxsLabels :: "string list"
  inBetweenIxs :: "instruction list"
  inBetweenIxsLabels :: "string list"
  lendingIxs :: "instruction list"
  lendingIxsLabels :: "string list"
  cleanupIxs :: "instruction list"
  cleanupIxsLabels :: "string list"
  refreshFarmsCleanupTxnIxs :: "instruction list"
  refreshFarmsCleanupTxnIxsLabels :: "string list"
  depositReserves :: "pubkey list"
  borrowReserves :: "pubkey list"
  preLoadedDepositReservesSameTx :: "pubkey list"
  a_currentSlot :: nat

definition a_obligation :: "kamino_action \<Rightarrow> kamino_obligation option" where
  "a_obligation a = (case a_target a of Inl ob \<Rightarrow> Some ob | Inr _ \<Rightarrow> None)"

definition new_KaminoAction ::
    "kamino_market \<Rightarrow> pubkey \<Rightarrow> kamino_obligation + obligation_type \<Rightarrow> pubkey \<Rightarrow> nat \<Rightarrow> int \<Rightarrow> pubkey list \<Rightarrow> pubkey list \<Rightarrow>
     kamino_reserve \<Rightarrow> nat \<Rightarrow> pubkey option \<Rightarrow> kamino_reserve option \<Rightarrow> int option \<Rightarrow> pubkey option \<Rightarrow> pubkey option \<Rightarrow> kamino_action" where
  "new_KaminoAction mk owner target mint count amount ds bs r slot secondaryMint outflowReserve outflowAmount referrer payer =
     \<lparr>a_market = mk, a_reserve = r, a_outflowReserve = outflowReserve, a_owner = owner,
      a_payer = (case payer of None \<Rightarrow> owner | Some p \<Rightarrow> p), a_target = target,
      a_referrer = (case referrer of None \<Rightarrow> default_pubkey | Some k \<Rightarrow> k), a_mint = mint, a_secondaryMint = secondaryMint,
      a_positions = count, a_amount = amount, a_outflowAmount = outflowAmount,
      computeBudgetIxs = [], computeBudgetIxsLabels = [], setupIxs = [], setupIxsLabels = [], inBetweenIxs = [], inBetweenIxsLabels = [],
      lendingIxs = [], lendingIxsLabels = [], cleanupIxs = [], cleanupIxsLabels = [], refreshFarmsCleanupTxnIxs = [],
      refreshFarmsCleanupTxnIxsLabels = [], depositReserves = ds, borrowReserves = bs, preLoadedDepositReservesSameTx = [],
      a_currentSlot = slot\<rparr>"

definition getLendingMarketAuthority :: "env \<Rightarrow> kamino_market \<Rightarrow> pubkey" where
  "getLendingMarketAuthority E mk = lendingMarketAuthPda (sol E) (m_address mk) (m_programId mk)"

definition getObligationPda :: "env \<Rightarrow> kamino_action \<Rightarrow> pubkey" where
  "getObligationPda E a =
     (case a_target a of Inl ob \<Rightarrow> obligationAddress ob | Inr t \<Rightarrow> toPda (sol E) t (m_address (a_market a)) (a_owner a))"

definition getTokenAccountAddressByUser :: "env \<Rightarrow> kamino_reserve \<Rightarrow> pubkey \<Rightarrow> pubkey" where
  "getTokenAccountAddressByUser E r user = ata_address (sol E) (getLiquidityMint (r_state r)) user (getLiquidityTokenProgram (r_state r))"

definition getUserTokenAccountAddress :: "env \<Rightarrow> kamino_action \<Rightarrow> kamino_reserve \<Rightarrow> pubkey" where
  "getUserTokenAccountAddress E a r = ata_address (sol E) (getLiquidityMint (r_state r)) (a_owner a) (getLiquidityTokenProgram (r_state r))"

definition getUserCollateralAccountAddress :: "env \<Rightarrow> kamino_action \<Rightarrow> kamino_reserve \<Rightarrow> pubkey" where
  "getUserCollateralAccountAddress E a r = ata_address (sol E) (getCTokenMint (r_state r)) (a_owner a) (TOKEN_PROGRAM_ID (sol E))"

text \<open>The list returned is the field \<open>depositReserves\<close> itself, to which missing preloaded reserves are pushed.\<close>

definition getAdditionalDepositReservesList :: "kamino_action \<Rightarrow> kamino_action" where
  "getAdditionalDepositReservesList a =
     a\<lparr>depositReserves := foldl (\<lambda>ds k. if k \<in> set ds then ds else ds @ [k]) (depositReserves a) (preLoadedDepositReservesSameTx a)\<rparr>"

text \<open>Numbers in labels.\<close>

fun number_text :: "nat \<Rightarrow> string" where
  "number_text n = (if n < 10 then [char_of (48 + n)] else number_text (n div 10) @ [char_of (48 + n mod 10)])"

declare number_text.simps [simp del]

section \<open>Pushing instructions\<close>

primrec push_ix :: "auxiliary_ix \<Rightarrow> instruction \<Rightarrow> string \<Rightarrow> kamino_action \<Rightarrow> kamino_action" where
  "push_ix Setup ix l a = a\<lparr>setupIxs := setupIxs a @ [ix], setupIxsLabels := setupIxsLabels a @ [l]\<rparr>"
| "push_ix InBetween ix l a = a\<lparr>inBetweenIxs := inBetweenIxs a @ [ix], inBetweenIxsLabels := inBetweenIxsLabels a @ [l]\<rparr>"
| "push_ix Cleanup ix l a = a\<lparr>cleanupIxs := cleanupIxs a @ [ix], cleanupIxsLabels := cleanupIxsLabels a @ [l]\<rparr>"

definition unshift_setup :: "instruction \<Rightarrow> string \<Rightarrow> kamino_action \<Rightarrow> kamino_action" where
  "unshift_setup ix l a = a\<lparr>setupIxs := ix # setupIxs a, setupIxsLabels := l # setupIxsLabels a\<rparr>"

definition push_lending :: "instruction \<Rightarrow> string \<Rightarrow> kamino_action \<Rightarrow> kamino_action" where
  "push_lending ix l a = a\<lparr>lendingIxs := lendingIxs a @ [ix], lendingIxsLabels := lendingIxsLabels a @ [l]\<rparr>"

definition push_farms_cleanup :: "instruction \<Rightarrow> string \<Rightarrow> kamino_action \<Rightarrow> kamino_action" where
  "push_farms_cleanup ix l a =
     a\<lparr>refreshFarmsCleanupTxnIxs := refreshFarmsCleanupTxnIxs a @ [ix],
       refreshFarmsCleanupTxnIxsLabels := refreshFarmsCleanupTxnIxsLabels a @ [l]\<rparr>"

definition addRefreshFarmsCleanupTxnIxsToCleanupIxs :: "kamino_action \<Rightarrow> kamino_action" where
  "addRefreshFarmsCleanupTxnIxsToCleanupIxs a =
     a\<lparr>cleanupIxs := refreshFarmsCleanupTxnIxs a @ cleanupIxs a,
       cleanupIxsLabels := refreshFarmsCleanupTxnIxsLabels a @ cleanupIxsLabels a\<rparr>"

definition addComputeBudgetIxn :: "env \<Rightarrow> nat \<Rightarrow> kamino_action \<Rightarrow> kamino_action" where
  "addComputeBudgetIxn E units a =
     a\<lparr>computeBudgetIxs := computeBudgetIxs a @ [setComputeUnitLimit E units],
       computeBudgetIxsLabels := computeBudgetIxsLabels a @ [''AddComputeBudget['' @ number_text units @ '']'']\<rparr>"

definition addScopeRefreshIxs :: "env \<Rightarrow> u16 option list \<Rightarrow> string \<Rightarrow> kamino_action \<Rightarrow> kamino_action result" where
  "addScopeRefreshIxs E tokens feed a =
     bindE (refreshPriceListIx E feed tokens) (\<lambda>ix. Inr (unshift_setup ix ''refreshScopePrices'' a))"

section \<open>Refresh instructions\<close>

definition optionalAccount :: "pubkey \<Rightarrow> pubkey \<Rightarrow> pubkey" where
  "optionalAccount k programId = (if isNotNullPubkey k then k else programId)"

definition refresh_reserve_ix :: "kamino_market \<Rightarrow> pubkey \<Rightarrow> pubkey \<Rightarrow> reserve \<Rightarrow> instruction" where
  "refresh_reserve_ix mk lendingMarket address st =
     (let ti = tokenInfo (config st); p = m_programId mk in
      refreshReserve
        \<lparr>rr_reserve = address, rr_lendingMarket = lendingMarket,
         rr_pythOracle = optionalAccount (pythPrice ti) p,
         rr_switchboardPriceOracle = optionalAccount (priceAggregator (switchboardConfiguration ti)) p,
         rr_switchboardTwapOracle = optionalAccount (twapAggregator (switchboardConfiguration ti)) p,
         rr_scopePrices = optionalAccount (priceFeed (scopeConfiguration ti)) p\<rparr> p)"

definition refresh_reserve_label :: "env \<Rightarrow> pubkey \<Rightarrow> string" where
  "refresh_reserve_label E k = ''RefreshReserve['' @ toBase58 (sol E) k @ '']''"

definition addRefreshReserveIxs :: "env \<Rightarrow> pubkey list \<Rightarrow> auxiliary_ix \<Rightarrow> kamino_action \<Rightarrow> kamino_action result" where
  "addRefreshReserveIxs E rs aux a =
     foldE (\<lambda>a k.
       case getReserveByAddress (a_market a) k of
         None \<Rightarrow> Inl (Throw ''Could not find reserve in reserves'')
       | Some r \<Rightarrow> Inr (push_ix aux (refresh_reserve_ix (a_market a) (m_address (a_market a)) k (r_state r)) (refresh_reserve_label E k) a)) a rs"

definition getRefreshAllReserves :: "kamino_market \<Rightarrow> pubkey list \<Rightarrow> instruction list result" where
  "getRefreshAllReserves mk rs =
     mapE (\<lambda>k. case getReserveByAddress mk k of
         None \<Rightarrow> Inl (Throw ''Could not find reserve in reserves'')
       | Some r \<Rightarrow> Inr (refresh_reserve_ix mk (r_lendingMarket (r_state r)) k (r_state r))) rs"

definition reserve_metas :: "pubkey list \<Rightarrow> account_meta list" where
  "reserve_metas ks = map (\<lambda>k. meta k False True) ks"

definition without :: "pubkey list \<Rightarrow> pubkey list \<Rightarrow> pubkey list" where
  "without skip ks = filter (\<lambda>k. \<not> pks_contains (pks_new skip) k) ks"

definition refresh_obligation_ix :: "env \<Rightarrow> pubkey list \<Rightarrow> kamino_action \<Rightarrow> instruction" where
  "refresh_obligation_ix E skipReserves a =
     (let p = m_programId (a_market a);
          ix = refreshObligation \<lparr>ro_lendingMarket = m_address (a_market a), ro_obligation = getObligationPda E a\<rparr> p;
          borrowReservesList = without skipReserves (borrowReserves a);
          states = filter (\<lambda>x. am_pubkey x \<noteq> p) (map (\<lambda>k.
            if a_referrer a = default_pubkey then meta p False False
            else meta (referrerTokenStatePda (sol E) (a_referrer a) k p) False True) borrowReservesList)
      in ix\<lparr>ix_keys := ix_keys ix @ reserve_metas (without skipReserves (depositReserves a)) @ reserve_metas borrowReservesList @ states\<rparr>)"

definition addRefreshObligationIx :: "env \<Rightarrow> auxiliary_ix \<Rightarrow> pubkey list \<Rightarrow> kamino_action \<Rightarrow> kamino_action" where
  "addRefreshObligationIx E aux skipReserves a =
     (let l = ''RefreshObligation['' @ toBase58 (sol E) (getObligationPda E a) @ '']''; a = getAdditionalDepositReservesList a
      in push_ix aux (refresh_obligation_ix E skipReserves a) l a)"

definition addRequestElevationIx :: "env \<Rightarrow> nat \<Rightarrow> auxiliary_ix \<Rightarrow> pubkey list \<Rightarrow> kamino_action \<Rightarrow> kamino_action result" where
  "addRequestElevationIx E emode aux skipReserves a =
     (let p = m_programId (a_market a); pda = getObligationPda E a in
      bindE (requestElevationGroup (borsh E) emode
               \<lparr>reg_owner = a_owner a, reg_obligation = pda, reg_lendingMarket = m_address (a_market a)\<rparr> p) (\<lambda>ix.
        let a = getAdditionalDepositReservesList a;
            borrowReservesList = without skipReserves (borrowReserves a)
        in bindE (mapE (\<lambda>k.
             if a_referrer a = default_pubkey then Inr (meta p False False)
             else bindE (deref (getReserveByAddress (a_market a) k)) (\<lambda>r.
               Inr (meta (referrerTokenStatePda (sol E) (a_referrer a) (r_address r) p) False True))) borrowReservesList) (\<lambda>metas.
           Inr (push_ix aux
             (ix\<lparr>ix_keys := ix_keys ix @ reserve_metas (without skipReserves (depositReserves a)) @ reserve_metas borrowReservesList
                   @ filter (\<lambda>x. am_pubkey x \<noteq> p) metas\<rparr>)
             (''RequestElevation['' @ toBase58 (sol E) pda @ ''], elevation_group:'' @ number_text emode) a))))"

section \<open>Farms\<close>

primrec farm_of :: "reserve_farm_kind \<Rightarrow> kamino_reserve \<Rightarrow> pubkey" where
  "farm_of Collateral r = farmCollateral (r_state r)"
| "farm_of Debt r = farmDebt (r_state r)"

text \<open>The object literal \<open>farmsAccounts\<close> of the second-version instructions: both accounts are the program when there is no farm.\<close>

definition farms_accounts_of :: "env \<Rightarrow> kamino_action \<Rightarrow> pubkey \<Rightarrow> farms_accounts" where
  "farms_accounts_of E a farm =
     (if farm = default_pubkey
      then \<lparr>fa_obligationFarmUserState = m_programId (a_market a), fa_reserveFarmState = m_programId (a_market a)\<rparr>
      else \<lparr>fa_obligationFarmUserState = obligationFarmStatePda (sol E) farm (getObligationPda E a), fa_reserveFarmState = farm\<rparr>)"

definition refresh_farm_label :: "env \<Rightarrow> kamino_action \<Rightarrow> reserve_farm_kind \<Rightarrow> kamino_reserve \<Rightarrow> string" where
  "refresh_farm_label E a mode r =
     ''RefreshFarmForObligation['' @ farm_kind mode @ '', res='' @ toBase58 (sol E) (r_address r) @ '', obl=''
       @ toBase58 (sol E) (getObligationPda E a) @ '']''"

definition push_refresh_farm :: "auxiliary_ix \<Rightarrow> bool \<Rightarrow> instruction \<Rightarrow> string \<Rightarrow> kamino_action \<Rightarrow> kamino_action" where
  "push_refresh_farm aux twoTokenAction ix l a =
     (case aux of
        Setup \<Rightarrow> (if twoTokenAction then push_ix InBetween ix l (push_ix Setup ix l a) else push_farms_cleanup ix l (push_ix Setup ix l a))
      | InBetween \<Rightarrow> push_farms_cleanup ix l (push_ix InBetween ix l a)
      | Cleanup \<Rightarrow> a)"

definition addRefreshFarmsForReserve ::
    "env \<Rightarrow> kamino_reserve list \<Rightarrow> auxiliary_ix \<Rightarrow> reserve_farm_kind \<Rightarrow> pubkey \<Rightarrow> bool \<Rightarrow> kamino_action \<Rightarrow> kamino_action result" where
  "addRefreshFarmsForReserve E rs aux mode crank twoTokenAction a =
     foldE (\<lambda>a r.
       bindE (refreshObligationFarmsForReserve (borsh E) (farm_discriminator mode)
                \<lparr>rof_crank = crank,
                 rof_baseAccounts =
                   \<lparr>rof_b_obligation = getObligationPda E a, rof_b_lendingMarketAuthority = getLendingMarketAuthority E (a_market a),
                    rof_b_reserve = r_address r, rof_b_reserveFarmState = farm_of mode r,
                    rof_b_obligationFarmUserState = obligationFarmStatePda (sol E) (farm_of mode r) (getObligationPda E a),
                    rof_b_lendingMarket = m_address (a_market a)\<rparr>,
                 rof_farmsProgram = farmsId (sol E), rof_rent = SYSVAR_RENT_PUBKEY (sol E),
                 rof_systemProgram = SYSTEM_PROGRAM_ID (sol E)\<rparr> (m_programId (a_market a))) (\<lambda>ix.
         Inr (push_refresh_farm aux twoTokenAction ix (refresh_farm_label E a mode r) a)))
       a (filter (\<lambda>r. farm_of mode r \<noteq> default_pubkey) rs)"

definition addInitObligationForFarm ::
    "env \<Rightarrow> kamino_reserve \<Rightarrow> reserve_farm_kind \<Rightarrow> auxiliary_ix \<Rightarrow> kamino_action \<Rightarrow> kamino_action result" where
  "addInitObligationForFarm E r mode aux a =
     (let pda = obligationFarmStatePda (sol E) (farm_of mode r) (getObligationPda E a) in
      if isNotNullPubkey (farm_of mode r) \<and> getAccountInfo E pda = None then
        bindE (initObligationFarmsForReserve (borsh E) (farm_discriminator mode)
                 \<lparr>iof_payer = a_owner a,
                  iof_owner = (case a_obligation a of Some ob \<Rightarrow> o_owner (ob_state ob) | None \<Rightarrow> a_owner a),
                  iof_obligation = getObligationPda E a,
                  iof_lendingMarketAuthority = getLendingMarketAuthority E (a_market a), iof_reserve = r_address r,
                  iof_reserveFarmState = farm_of mode r, iof_obligationFarm = pda, iof_lendingMarket = m_address (a_market a),
                  iof_farmsProgram = farmsId (sol E), iof_rent = SYSVAR_RENT_PUBKEY (sol E),
                  iof_systemProgram = SYSTEM_PROGRAM_ID (sol E)\<rparr> (m_programId (a_market a))) (\<lambda>ix.
          let l = ''InitObligationForFarm['' @ toBase58 (sol E) (r_address r) @ '', '' @ toBase58 (sol E) (getObligationPda E a) @ '']''
          in Inr (if aux = Cleanup then a else push_ix aux ix l a))
      else Inr a)"

section \<open>Initialisation\<close>

definition addInitObligationIxs :: "env \<Rightarrow> kamino_action \<Rightarrow> kamino_action result" where
  "addInitObligationIxs E a =
     (case a_target a of
        Inl _ \<Rightarrow> Inr a
      | Inr t \<Rightarrow>
          (let pda = getObligationPda E a; p = m_programId (a_market a) in
           bindE (initObligation (borsh E) (io_tag (toArgs t)) (io_id (toArgs t))
                    \<lparr>iob_obligationOwner = a_owner a, iob_feePayer = a_payer a, iob_obligation = pda,
                     iob_lendingMarket = m_address (a_market a), iob_seed1Account = io_seed1 (toArgs t),
                     iob_seed2Account = io_seed2 (toArgs t), iob_ownerUserMetadata = userMetadataPda (sol E) (a_owner a) p,
                     iob_rent = SYSVAR_RENT_PUBKEY (sol E), iob_systemProgram = SYSTEM_PROGRAM_ID (sol E)\<rparr> p) (\<lambda>ix.
             Inr (push_ix Setup ix (''InitObligation['' @ toBase58 (sol E) pda @ '']'') a))))"

definition addInitUserMetadataIxs :: "env \<Rightarrow> pubkey \<Rightarrow> kamino_action \<Rightarrow> kamino_action result" where
  "addInitUserMetadataIxs E lookupTableAddress a =
     (let p = m_programId (a_market a); address = userMetadataPda (sol E) (a_owner a) p in
      bindE (initUserMetadata (borsh E) lookupTableAddress
               \<lparr>ium_owner = a_owner a, ium_feePayer = a_payer a, ium_userMetadata = address,
                ium_referrerUserMetadata = (if a_referrer a = default_pubkey then p else userMetadataPda (sol E) (a_referrer a) p),
                ium_rent = SYSVAR_RENT_PUBKEY (sol E), ium_systemProgram = SYSTEM_PROGRAM_ID (sol E)\<rparr> p) (\<lambda>ix.
        Inr (push_ix Setup ix (''initUserMetadata['' @ toBase58 (sol E) address @ '']'') a)))"

definition addInitReferrerTokenStateIx :: "env \<Rightarrow> kamino_reserve \<Rightarrow> pubkey \<Rightarrow> kamino_action \<Rightarrow> kamino_action" where
  "addInitReferrerTokenStateIx E r referrerTokenState a =
     unshift_setup
       (initReferrerTokenState
          \<lparr>irt_payer = a_owner a, irt_lendingMarket = m_address (a_market a), irt_reserve = r_address r, irt_referrer = a_referrer a,
           irt_referrerTokenState = referrerTokenState, irt_rent = SYSVAR_RENT_PUBKEY (sol E),
           irt_systemProgram = SYSTEM_PROGRAM_ID (sol E)\<rparr> (m_programId (a_market a)))
       (''InitReferrerTokenState['' @ toBase58 (sol E) referrerTokenState @ '' res='' @ toBase58 (sol E) (r_address r) @ '']'') a"

end
