(* ===== verification/Action_Lending.thy ===== *)
theory Action_Lending
  imports Action_State
begin

text \<open>
  The methods of \<open>KaminoAction\<close> (\<open>src/ts-client/src/classes/action.ts\<close>) that push the lending instructions themselves. The
  object literals of accounts that several methods repeat are named once, as functions of the reserve they are about.
\<close>

section \<open>Accounts\<close>

definition deposit_accounts ::
    "env \<Rightarrow> kamino_action \<Rightarrow> kamino_reserve \<Rightarrow> deposit_reserve_liquidity_and_obligation_collateral_accounts" where
  "deposit_accounts E a r =
     \<lparr>dlc_owner = a_owner a, dlc_obligation = getObligationPda E a, dlc_lendingMarket = m_address (a_market a),
      dlc_lendingMarketAuthority = getLendingMarketAuthority E (a_market a), dlc_reserve = r_address r,
      dlc_reserveLiquidityMint = getLiquidityMint (r_state r), dlc_reserveLiquiditySupply = rl_supplyVault (liquidity (r_state r)),
      dlc_reserveCollateralMint = getCTokenMint (r_state r),
      dlc_reserveDestinationDepositCollateral = rcol_supplyVault (collateral (r_state r)),
      dlc_userSourceLiquidity = getUserTokenAccountAddress E a r, dlc_placeholderUserDestinationCollateral = m_programId (a_market a),
      dlc_collateralTokenProgram = TOKEN_PROGRAM_ID (sol E), dlc_liquidityTokenProgram = getLiquidityTokenProgram (r_state r),
      dlc_instructionSysvarAccount = SYSVAR_INSTRUCTIONS_PUBKEY (sol E)\<rparr>"

definition collateral_accounts :: "env \<Rightarrow> kamino_action \<Rightarrow> deposit_obligation_collateral_accounts" where
  "collateral_accounts E a =
     \<lparr>doc_owner = a_owner a, doc_obligation = getObligationPda E a, doc_lendingMarket = m_address (a_market a),
      doc_depositReserve = r_address (a_reserve a),
      doc_reserveDestinationCollateral = rcol_supplyVault (collateral (r_state (a_reserve a))),
      doc_userSourceCollateral = getUserCollateralAccountAddress E a (a_reserve a), doc_tokenProgram = TOKEN_PROGRAM_ID (sol E),
      doc_instructionSysvarAccount = SYSVAR_INSTRUCTIONS_PUBKEY (sol E)\<rparr>"

definition borrow_accounts :: "env \<Rightarrow> kamino_action \<Rightarrow> kamino_reserve \<Rightarrow> borrow_obligation_liquidity_accounts" where
  "borrow_accounts E a r =
     \<lparr>bol_owner = a_owner a, bol_obligation = getObligationPda E a, bol_lendingMarket = m_address (a_market a),
      bol_lendingMarketAuthority = getLendingMarketAuthority E (a_market a), bol_borrowReserve = r_address r,
      bol_borrowReserveLiquidityMint = getLiquidityMint (r_state r), bol_reserveSourceLiquidity = rl_supplyVault (liquidity (r_state r)),
      bol_borrowReserveLiquidityFeeReceiver = feeVault (liquidity (r_state r)),
      bol_userDestinationLiquidity = getUserTokenAccountAddress E a r,
      bol_referrerTokenState = referrerTokenStatePda (sol E) (a_referrer a) (r_address r) (m_programId (a_market a)),
      bol_tokenProgram = getLiquidityTokenProgram (r_state r), bol_instructionSysvarAccount = SYSVAR_INSTRUCTIONS_PUBKEY (sol E)\<rparr>"

definition repay_accounts :: "env \<Rightarrow> kamino_action \<Rightarrow> pubkey \<Rightarrow> repay_obligation_liquidity_accounts" where
  "repay_accounts E a user =
     \<lparr>rol_owner = user, rol_obligation = getObligationPda E a, rol_lendingMarket = m_address (a_market a),
      rol_repayReserve = r_address (a_reserve a), rol_reserveLiquidityMint = getLiquidityMint (r_state (a_reserve a)),
      rol_reserveDestinationLiquidity = rl_supplyVault (liquidity (r_state (a_reserve a))),
      rol_userSourceLiquidity = getTokenAccountAddressByUser E (a_reserve a) user,
      rol_tokenProgram = getLiquidityTokenProgram (r_state (a_reserve a)),
      rol_instructionSysvarAccount = SYSVAR_INSTRUCTIONS_PUBKEY (sol E)\<rparr>"

definition withdraw_accounts ::
    "env \<Rightarrow> kamino_action \<Rightarrow> kamino_reserve \<Rightarrow> withdraw_obligation_collateral_and_redeem_reserve_collateral_accounts" where
  "withdraw_accounts E a r =
     \<lparr>wcr_owner = a_owner a, wcr_obligation = getObligationPda E a, wcr_lendingMarket = m_address (a_market a),
      wcr_lendingMarketAuthority = getLendingMarketAuthority E (a_market a), wcr_withdrawReserve = r_address r,
      wcr_reserveLiquidityMint = getLiquidityMint (r_state r), wcr_reserveSourceCollateral = rcol_supplyVault (collateral (r_state r)),
      wcr_reserveCollateralMint = getCTokenMint (r_state r), wcr_reserveLiquiditySupply = rl_supplyVault (liquidity (r_state r)),
      wcr_userDestinationLiquidity = getUserTokenAccountAddress E a r,
      wcr_placeholderUserDestinationCollateral = m_programId (a_market a), wcr_collateralTokenProgram = TOKEN_PROGRAM_ID (sol E),
      wcr_liquidityTokenProgram = getLiquidityTokenProgram (r_state r),
      wcr_instructionSysvarAccount = SYSVAR_INSTRUCTIONS_PUBKEY (sol E)\<rparr>"

definition liquidation_accounts ::
    "env \<Rightarrow> kamino_action \<Rightarrow> kamino_reserve \<Rightarrow> liquidate_obligation_and_redeem_reserve_collateral_accounts" where
  "liquidation_accounts E a out =
     (let r = a_reserve a in
      \<lparr>liq_liquidator = a_owner a, liq_obligation = getObligationPda E a, liq_lendingMarket = m_address (a_market a),
       liq_lendingMarketAuthority = getLendingMarketAuthority E (a_market a), liq_repayReserve = r_address r,
       liq_repayReserveLiquidityMint = getLiquidityMint (r_state r),
       liq_repayReserveLiquiditySupply = rl_supplyVault (liquidity (r_state r)), liq_withdrawReserve = r_address out,
       liq_withdrawReserveLiquidityMint = getLiquidityMint (r_state out), liq_withdrawReserveCollateralMint = getCTokenMint (r_state out),
       liq_withdrawReserveCollateralSupply = rcol_supplyVault (collateral (r_state out)),
       liq_withdrawReserveLiquiditySupply = rl_supplyVault (liquidity (r_state out)),
       liq_withdrawReserveLiquidityFeeReceiver = feeVault (liquidity (r_state out)),
       liq_userSourceLiquidity = getUserTokenAccountAddress E a r, liq_userDestinationCollateral = getUserCollateralAccountAddress E a out,
       liq_userDestinationLiquidity = getUserTokenAccountAddress E a out, liq_collateralTokenProgram = TOKEN_PROGRAM_ID (sol E),
       liq_repayLiquidityTokenProgram = getLiquidityTokenProgram (r_state r),
       liq_withdrawLiquidityTokenProgram = getLiquidityTokenProgram (r_state out),
       liq_instructionSysvarAccount = SYSVAR_INSTRUCTIONS_PUBKEY (sol E)\<rparr>)"

text \<open>The last assignments to \<open>ix.keys\<close>.\<close>

definition append_keys :: "bool \<Rightarrow> pubkey list \<Rightarrow> instruction \<Rightarrow> instruction" where
  "append_keys b ks ix = (if b then ix\<lparr>ix_keys := ix_keys ix @ reserve_metas ks\<rparr> else ix)"

definition in_elevation_group :: "kamino_action \<Rightarrow> bool result" where
  "in_elevation_group a = bindE (deref (a_obligation a)) (\<lambda>ob. Inr (unat (o_elevationGroup (ob_state ob)) > 0))"

definition borrow_in_elevation_group :: "kamino_action \<Rightarrow> bool result" where
  "borrow_in_elevation_group a =
     bindE (deref (a_obligation a)) (\<lambda>ob.
       Inr (unat (o_elevationGroup (ob_state ob)) > 0 \<or> potentialElevationGroupUpdate (refreshedStats ob) > 0))"

section \<open>Single actions\<close>

definition addDepositReserveLiquidityIx :: "env \<Rightarrow> kamino_action \<Rightarrow> kamino_action result" where
  "addDepositReserveLiquidityIx E a =
     (let r = a_reserve a in
      bindE (depositReserveLiquidity (borsh E) (a_amount a)
               \<lparr>drl_owner = a_owner a, drl_reserve = r_address r, drl_lendingMarket = m_address (a_market a),
                drl_lendingMarketAuthority = getLendingMarketAuthority E (a_market a),
                drl_reserveLiquidityMint = getLiquidityMint (r_state r),
                drl_reserveLiquiditySupply = rl_supplyVault (liquidity (r_state r)), drl_reserveCollateralMint = getCTokenMint (r_state r),
                drl_userSourceLiquidity = getUserTokenAccountAddress E a r,
                drl_userDestinationCollateral = getUserCollateralAccountAddress E a r,
                drl_collateralTokenProgram = TOKEN_PROGRAM_ID (sol E), drl_liquidityTokenProgram = getLiquidityTokenProgram (r_state r),
                drl_instructionSysvarAccount = SYSVAR_INSTRUCTIONS_PUBKEY (sol E)\<rparr> (m_programId (a_market a))) (\<lambda>ix.
        Inr (push_lending ix ''depositReserveLiquidity'' a)))"

definition addRedeemReserveCollateralIx :: "env \<Rightarrow> kamino_action \<Rightarrow> kamino_action result" where
  "addRedeemReserveCollateralIx E a =
     (let r = a_reserve a in
      bindE (redeemReserveCollateral (borsh E) (a_amount a)
               \<lparr>rrc_owner = a_owner a, rrc_lendingMarket = m_address (a_market a), rrc_reserve = r_address r,
                rrc_lendingMarketAuthority = getLendingMarketAuthority E (a_market a),
                rrc_reserveLiquidityMint = getLiquidityMint (r_state r), rrc_reserveCollateralMint = getCTokenMint (r_state r),
                rrc_reserveLiquiditySupply = rl_supplyVault (liquidity (r_state r)),
                rrc_userSourceCollateral = getUserCollateralAccountAddress E a r,
                rrc_userDestinationLiquidity = getUserTokenAccountAddress E a r,
                rrc_collateralTokenProgram = TOKEN_PROGRAM_ID (sol E), rrc_liquidityTokenProgram = getLiquidityTokenProgram (r_state r),
                rrc_instructionSysvarAccount = SYSVAR_INSTRUCTIONS_PUBKEY (sol E)\<rparr> (m_programId (a_market a))) (\<lambda>ix.
        Inr (push_lending ix ''redeemReserveCollateral'' a)))"

definition addDepositIx :: "env \<Rightarrow> kamino_action \<Rightarrow> kamino_action result" where
  "addDepositIx E a =
     bindE (depositReserveLiquidityAndObligationCollateral (borsh E) (a_amount a) (deposit_accounts E a (a_reserve a))
              (m_programId (a_market a))) (\<lambda>ix.
       Inr (push_lending ix ''depositReserveLiquidityAndObligationCollateral'' a))"

definition addDepositIxV2 :: "env \<Rightarrow> kamino_action \<Rightarrow> kamino_action result" where
  "addDepositIxV2 E a =
     bindE (depositReserveLiquidityAndObligationCollateralV2 (borsh E) (a_amount a)
              \<lparr>dlc2_depositAccounts = deposit_accounts E a (a_reserve a),
               dlc2_farmsAccounts = farms_accounts_of E a (farmCollateral (r_state (a_reserve a))),
               dlc2_farmsProgram = farmsId (sol E)\<rparr> (m_programId (a_market a))) (\<lambda>ix.
       Inr (push_lending ix ''depositReserveLiquidityAndObligationCollateralV2'' a))"

definition addDepositObligationCollateralIx :: "env \<Rightarrow> kamino_action \<Rightarrow> kamino_action result" where
  "addDepositObligationCollateralIx E a =
     bindE (depositObligationCollateral (borsh E) (a_amount a) (collateral_accounts E a) (m_programId (a_market a))) (\<lambda>ix.
       Inr (push_lending ix ''depositObligationCollateral'' a))"

definition addDepositObligationCollateralIxV2 :: "env \<Rightarrow> kamino_action \<Rightarrow> kamino_action result" where
  "addDepositObligationCollateralIxV2 E a =
     bindE (depositObligationCollateralV2 (borsh E) (a_amount a)
              \<lparr>doc2_depositAccounts = collateral_accounts E a,
               doc2_lendingMarketAuthority = getLendingMarketAuthority E (a_market a),
               doc2_farmsAccounts = farms_accounts_of E a (farmCollateral (r_state (a_reserve a))),
               doc2_farmsProgram = farmsId (sol E)\<rparr> (m_programId (a_market a))) (\<lambda>ix.
       Inr (push_lending ix ''depositObligationCollateralV2'' a))"

definition addBorrowIx :: "env \<Rightarrow> kamino_action \<Rightarrow> kamino_action result" where
  "addBorrowIx E a =
     (let a = getAdditionalDepositReservesList a in
      bindE (borrowObligationLiquidity (borsh E) (a_amount a) (borrow_accounts E a (a_reserve a)) (m_programId (a_market a))) (\<lambda>ix.
      bindE (borrow_in_elevation_group a) (\<lambda>b.
        Inr (push_lending (append_keys b (depositReserves a) ix) ''borrowObligationLiquidity'' a))))"

definition addBorrowIxV2 :: "env \<Rightarrow> kamino_action \<Rightarrow> kamino_action result" where
  "addBorrowIxV2 E a =
     (let a = getAdditionalDepositReservesList a in
      bindE (borrowObligationLiquidityV2 (borsh E) (a_amount a)
               \<lparr>bol2_borrowAccounts = borrow_accounts E a (a_reserve a),
                bol2_farmsAccounts = farms_accounts_of E a (farmDebt (r_state (a_reserve a))), bol2_farmsProgram = farmsId (sol E)\<rparr>
               (m_programId (a_market a))) (\<lambda>ix.
      bindE (borrow_in_elevation_group a) (\<lambda>b.
        Inr (push_lending (append_keys b (depositReserves a) ix) ''borrowObligationLiquidityV2'' a))))"

definition addWithdrawIx :: "env \<Rightarrow> int \<Rightarrow> kamino_action \<Rightarrow> kamino_action result" where
  "addWithdrawIx E collateralAmount a =
     bindE (withdrawObligationCollateralAndRedeemReserveCollateral (borsh E) collateralAmount (withdraw_accounts E a (a_reserve a))
              (m_programId (a_market a))) (\<lambda>ix.
       Inr (push_lending ix ''withdrawObligationCollateralAndRedeemReserveCollateral'' a))"

definition addWithdrawIxV2 :: "env \<Rightarrow> int \<Rightarrow> kamino_action \<Rightarrow> kamino_action result" where
  "addWithdrawIxV2 E collateralAmount a =
     bindE (withdrawObligationCollateralAndRedeemReserveCollateralV2 (borsh E) collateralAmount
              \<lparr>wcr2_withdrawAccounts = withdraw_accounts E a (a_reserve a),
               wcr2_farmsAccounts = farms_accounts_of E a (farmCollateral (r_state (a_reserve a))),
               wcr2_farmsProgram = farmsId (sol E)\<rparr> (m_programId (a_market a))) (\<lambda>ix.
       Inr (push_lending ix ''withdrawObligationCollateralAndRedeemReserveCollateralV2'' a))"

definition repay_label :: "env \<Rightarrow> string \<Rightarrow> kamino_action \<Rightarrow> string" where
  "repay_label E name a =
     name @ ''(reserve='' @ toBase58 (sol E) (r_address (a_reserve a)) @ '')(obligation='' @ toBase58 (sol E) (getObligationPda E a) @ '')''"

definition addRepayIx :: "env \<Rightarrow> kamino_action \<Rightarrow> kamino_action result" where
  "addRepayIx E a =
     (let l = repay_label E ''repayObligationLiquidity'' a; a = getAdditionalDepositReservesList a in
      bindE (repayObligationLiquidity (borsh E) (a_amount a) (repay_accounts E a (a_payer a)) (m_programId (a_market a))) (\<lambda>ix.
      bindE (in_elevation_group a) (\<lambda>b. Inr (push_lending (append_keys b (depositReserves a) ix) l a))))"

definition addRepayIxV2 :: "env \<Rightarrow> kamino_action \<Rightarrow> kamino_action result" where
  "addRepayIxV2 E a =
     (let l = repay_label E ''repayObligationLiquidityV2'' a; a = getAdditionalDepositReservesList a in
      bindE (repayObligationLiquidityV2 (borsh E) (a_amount a)
               \<lparr>rol2_repayAccounts = repay_accounts E a (a_payer a),
                rol2_farmsAccounts = farms_accounts_of E a (farmDebt (r_state (a_reserve a))),
                rol2_lendingMarketAuthority = getLendingMarketAuthority E (a_market a), rol2_farmsProgram = farmsId (sol E)\<rparr>
               (m_programId (a_market a))) (\<lambda>ix.
      bindE (in_elevation_group a) (\<lambda>b. Inr (push_lending (append_keys b (depositReserves a) ix) l a))))"

definition addWithdrawReferrerFeesIxs :: "env \<Rightarrow> kamino_action \<Rightarrow> kamino_action" where
  "addWithdrawReferrerFeesIxs E a =
     (let r = a_reserve a; p = m_programId (a_market a) in
      push_lending
        (withdrawReferrerFees
           \<lparr>wrf_referrer = a_owner a, wrf_referrerTokenState = referrerTokenStatePda (sol E) (a_owner a) (r_address r) p,
            wrf_reserve = r_address r, wrf_reserveLiquidityMint = getLiquidityMint (r_state r),
            wrf_reserveSupplyLiquidity = rl_supplyVault (liquidity (r_state r)),
            wrf_referrerTokenAccount = getUserTokenAccountAddress E a r, wrf_lendingMarket = m_address (a_market a),
            wrf_lendingMarketAuthority = getLendingMarketAuthority E (a_market a),
            wrf_tokenProgram = getLiquidityTokenProgram (r_state r)\<rparr> p)
        (''WithdrawReferrerFeesIx['' @ toBase58 (sol E) (a_owner a) @ '']'') a)"

section \<open>Two-token actions\<close>

definition need :: "'a option \<Rightarrow> string \<Rightarrow> 'a result" where
  "need v msg = (case v of None \<Rightarrow> Inl (Throw msg) | Some x \<Rightarrow> Inr x)"

definition two_reserve_label :: "env \<Rightarrow> string \<Rightarrow> string \<Rightarrow> kamino_reserve \<Rightarrow> kamino_action \<Rightarrow> string" where
  "two_reserve_label E name field out a =
     name @ ''('' @ field @ ''='' @ toBase58 (sol E) (r_address (a_reserve a)) @ '')(withdrawReserve='' @ toBase58 (sol E) (r_address out)
       @ '')(obligation='' @ toBase58 (sol E) (getObligationPda E a) @ '')''"

definition addRepayAndWithdrawV2Ixs :: "env \<Rightarrow> int \<Rightarrow> kamino_action \<Rightarrow> kamino_action result" where
  "addRepayAndWithdrawV2Ixs E withdrawCollateralAmount a =
     bindE (deref (a_outflowReserve a)) (\<lambda>out.
       let l = two_reserve_label E ''repayAndWithdrawAndRedeem'' ''repayReserve'' out a; a = getAdditionalDepositReservesList a in
       bindE (need (a_outflowAmount a) ''outflowAmount not set'') (\<lambda>_.
       bindE (repayAndWithdrawAndRedeem (borsh E) (a_amount a) withdrawCollateralAmount
                \<lparr>rwr_repayAccounts = repay_accounts E a (a_owner a), rwr_withdrawAccounts = withdraw_accounts E a out,
                 rwr_collateralFarmsAccounts = farms_accounts_of E a (farmCollateral (r_state out)),
                 rwr_debtFarmsAccounts = farms_accounts_of E a (farmDebt (r_state (a_reserve a))),
                 rwr_farmsProgram = farmsId (sol E)\<rparr> (m_programId (a_market a))) (\<lambda>ix.
         Inr (push_lending (append_keys True (depositReserves a @ borrowReserves a) ix) l a))))"

definition addDepositAndWithdrawV2Ixs :: "env \<Rightarrow> int \<Rightarrow> kamino_action \<Rightarrow> kamino_action result" where
  "addDepositAndWithdrawV2Ixs E withdrawCollateralAmount a =
     bindE (deref (a_outflowReserve a)) (\<lambda>out.
       let l = two_reserve_label E ''depositAndWithdrawV2'' ''depositReserve'' out a; a = getAdditionalDepositReservesList a in
       bindE (need (a_outflowAmount a) ''outflowAmount not set'') (\<lambda>_.
       bindE (depositAndWithdraw (borsh E) (a_amount a) withdrawCollateralAmount
                \<lparr>daw_depositAccounts = deposit_accounts E a (a_reserve a), daw_withdrawAccounts = withdraw_accounts E a out,
                 daw_depositFarmsAccounts = farms_accounts_of E a (farmCollateral (r_state (a_reserve a))),
                 daw_withdrawFarmsAccounts = farms_accounts_of E a (farmCollateral (r_state out)),
                 daw_farmsProgram = farmsId (sol E)\<rparr> (m_programId (a_market a))) (\<lambda>ix.
         Inr (push_lending (append_keys True (depositReserves a @ borrowReserves a) ix) l a))))"

text \<open>An empty list of deposit reserves gets the reserve of the action pushed; it is the field itself.\<close>

definition deposit_reserves_or_own :: "kamino_action \<Rightarrow> kamino_action" where
  "deposit_reserves_or_own a =
     (let a = getAdditionalDepositReservesList a in
      if length (depositReserves a) = 0 then a\<lparr>depositReserves := depositReserves a @ [r_address (a_reserve a)]\<rparr> else a)"

definition addDepositAndBorrowIx :: "env \<Rightarrow> kamino_action \<Rightarrow> kamino_action result" where
  "addDepositAndBorrowIx E a =
     bindE (addDepositIx E a) (\<lambda>a.
     bindE (need (a_outflowReserve a) ''outflowReserve not set'') (\<lambda>out.
     bindE (need (a_outflowAmount a) ''outflowAmount not set'') (\<lambda>amount.
       let a = deposit_reserves_or_own a in
       bindE (borrowObligationLiquidity (borsh E) amount (borrow_accounts E a out) (m_programId (a_market a))) (\<lambda>ix.
         Inr (push_lending (append_keys True (depositReserves a) ix) ''borrowObligationLiquidity'' a)))))"

definition addDepositAndBorrowIxV2 :: "env \<Rightarrow> kamino_action \<Rightarrow> kamino_action result" where
  "addDepositAndBorrowIxV2 E a =
     bindE (addDepositIxV2 E a) (\<lambda>a.
     bindE (need (a_outflowReserve a) ''outflowReserve not set'') (\<lambda>out.
     bindE (need (a_outflowAmount a) ''outflowAmount not set'') (\<lambda>amount.
       let a = deposit_reserves_or_own a in
       bindE (borrowObligationLiquidityV2 (borsh E) amount
                \<lparr>bol2_borrowAccounts = borrow_accounts E a out, bol2_farmsAccounts = farms_accounts_of E a (farmDebt (r_state out)),
                 bol2_farmsProgram = farmsId (sol E)\<rparr> (m_programId (a_market a))) (\<lambda>ix.
         Inr (push_lending (append_keys True (depositReserves a) ix) ''borrowObligationLiquidityV2'' a)))))"

definition addRepayAndWithdrawIxs :: "env \<Rightarrow> int \<Rightarrow> kamino_action \<Rightarrow> kamino_action result" where
  "addRepayAndWithdrawIxs E withdrawCollateralAmount a =
     (let l = repay_label E ''repayObligationLiquidity'' a; a = getAdditionalDepositReservesList a in
      bindE (repayObligationLiquidity (borsh E) (a_amount a) (repay_accounts E a (a_owner a)) (m_programId (a_market a))) (\<lambda>ix.
      let a = push_lending (append_keys True (depositReserves a) ix) l a in
      bindE (need (a_outflowReserve a) ''outflowReserve not set'') (\<lambda>out.
      bindE (need (a_outflowAmount a) ''outflowAmount not set'') (\<lambda>_.
      bindE (withdrawObligationCollateralAndRedeemReserveCollateral (borsh E) withdrawCollateralAmount (withdraw_accounts E a out)
               (m_programId (a_market a))) (\<lambda>ix.
        Inr (push_lending ix ''withdrawObligationCollateralAndRedeemReserveCollateral'' a))))))"

definition addRepayAndWithdrawIxsV2 :: "env \<Rightarrow> int \<Rightarrow> kamino_action \<Rightarrow> kamino_action result" where
  "addRepayAndWithdrawIxsV2 E withdrawCollateralAmount a =
     (let l = repay_label E ''repayObligationLiquidityV2'' a; a = getAdditionalDepositReservesList a in
      bindE (repayObligationLiquidityV2 (borsh E) (a_amount a)
               \<lparr>rol2_repayAccounts = repay_accounts E a (a_owner a),
                rol2_farmsAccounts = farms_accounts_of E a (farmDebt (r_state (a_reserve a))),
                rol2_lendingMarketAuthority = getLendingMarketAuthority E (a_market a), rol2_farmsProgram = farmsId (sol E)\<rparr>
               (m_programId (a_market a))) (\<lambda>ix.
      let a = push_lending (append_keys True (depositReserves a) ix) l a in
      bindE (need (a_outflowReserve a) ''outflowReserve not set'') (\<lambda>out.
      bindE (need (a_outflowAmount a) ''outflowAmount not set'') (\<lambda>_.
      bindE (withdrawObligationCollateralAndRedeemReserveCollateralV2 (borsh E) withdrawCollateralAmount
               \<lparr>wcr2_withdrawAccounts = withdraw_accounts E a out,
                wcr2_farmsAccounts = farms_accounts_of E a (farmCollateral (r_state out)),
                wcr2_farmsProgram = farmsId (sol E)\<rparr> (m_programId (a_market a))) (\<lambda>ix.
        Inr (push_lending ix ''withdrawObligationCollateralAndRedeemReserveCollateralV2'' a))))))"

definition addLiquidateIx :: "env \<Rightarrow> int \<Rightarrow> kamino_action \<Rightarrow> kamino_action result" where
  "addLiquidateIx E maxAllowedLtvOverridePercent a =
     bindE (need (a_outflowReserve a) ''Withdraw reserve during liquidation is not defined'') (\<lambda>out.
       let a = getAdditionalDepositReservesList a in
       bindE (liquidateObligationAndRedeemReserveCollateral (borsh E) (a_amount a)
                (case a_outflowAmount a of None \<Rightarrow> 0 | Some v \<Rightarrow> v) maxAllowedLtvOverridePercent (liquidation_accounts E a out)
                (m_programId (a_market a))) (\<lambda>ix.
       bindE (in_elevation_group a) (\<lambda>b.
         Inr (push_lending (append_keys b (depositReserves a) ix) ''liquidateObligationAndRedeemReserveCollateral'' a))))"

definition addLiquidateIxV2 :: "env \<Rightarrow> int \<Rightarrow> kamino_action \<Rightarrow> kamino_action result" where
  "addLiquidateIxV2 E maxAllowedLtvOverridePercent a =
     bindE (need (a_outflowReserve a) ''Withdraw reserve during liquidation is not defined'') (\<lambda>out.
       let a = getAdditionalDepositReservesList a in
       bindE (liquidateObligationAndRedeemReserveCollateralV2 (borsh E) (a_amount a)
                (case a_outflowAmount a of None \<Rightarrow> 0 | Some v \<Rightarrow> v) maxAllowedLtvOverridePercent
                \<lparr>liq2_liquidationAccounts = liquidation_accounts E a out,
                 liq2_collateralFarmsAccounts = farms_accounts_of E a (farmCollateral (r_state out)),
                 liq2_debtFarmsAccounts = farms_accounts_of E a (farmDebt (r_state (a_reserve a))),
                 liq2_farmsProgram = farmsId (sol E)\<rparr> (m_programId (a_market a))) (\<lambda>ix.
       bindE (in_elevation_group a) (\<lambda>b.
         Inr (push_lending (append_keys b (depositReserves a) ix) ''liquidateObligationAndRedeemReserveCollateralV2'' a))))"

end
