(* ===== verification/Action_Support.thy ===== *)
theory Action_Support
  imports Action_Lending
begin

text \<open>
  The supporting instructions around a lending instruction (\<open>src/ts-client/src/classes/action.ts\<close>): token accounts and wrapped
  SOL, refreshes of reserves, obligation and farms, elevation group requests, user metadata and scope prices.
  A call that never returns, the endless loop of \<open>getTokenIdsForScopeRefresh\<close>, is the value \<open>None\<close>.
\<close>

section \<open>Token accounts\<close>

definition createAssociatedTokenAccountIdempotentInstruction ::
    "env \<Rightarrow> pubkey \<Rightarrow> pubkey \<Rightarrow> pubkey \<Rightarrow> pubkey \<Rightarrow> pubkey option \<Rightarrow> pubkey \<times> instruction" where
  "createAssociatedTokenAccountIdempotentInstruction E owner mint payer tokenProgram ata =
     (let ataAddress = (case ata of None \<Rightarrow> ata_address (sol E) mint owner tokenProgram | Some k \<Rightarrow> k)
      in (ataAddress, createAtaIx E payer ataAddress owner mint tokenProgram (ASSOCIATED_TOKEN_PROGRAM_ID (sol E))))"

definition create_ata :: "env \<Rightarrow> kamino_action \<Rightarrow> pubkey \<Rightarrow> pubkey \<Rightarrow> pubkey \<Rightarrow> instruction" where
  "create_ata E a mint tokenProgram ata =
     snd (createAssociatedTokenAccountIdempotentInstruction E (a_owner a) mint (a_owner a) tokenProgram (Some ata))"

definition create_liquidity_ata :: "env \<Rightarrow> kamino_action \<Rightarrow> kamino_reserve \<Rightarrow> instruction" where
  "create_liquidity_ata E a r =
     create_ata E a (getLiquidityMint (r_state r)) (getLiquidityTokenProgram (r_state r)) (getUserTokenAccountAddress E a r)"

definition create_collateral_ata :: "env \<Rightarrow> kamino_action \<Rightarrow> kamino_reserve \<Rightarrow> instruction" where
  "create_collateral_ata E a r =
     create_ata E a (getCTokenMint (r_state r)) (TOKEN_PROGRAM_ID (sol E)) (getUserCollateralAccountAddress E a r)"

definition SOL_PADDING_FOR_INTEREST :: int where
  "SOL_PADDING_FOR_INTEREST = 1000000"

text \<open>
  The amount of SOL to wrap. Repaying everything (the amount is \<open>U64_MAX\<close>) takes the debt with its estimated interest and a padding:
  the Decimal is read as a number, floored, printed and read as a BN.
\<close>

definition safe_repay :: "env \<Rightarrow> action_type \<Rightarrow> kamino_action \<Rightarrow> int result" where
  "safe_repay E action a =
     (case a_obligation a of
        Some ob \<Rightarrow>
          if (action = ARepay \<or> action = ARepayAndWithdrawV2) \<and> a_amount a = U64_MAX then
            (let L = num E in
             bindE (need (List.find (\<lambda>b. borrowReserve b = r_address (a_reserve a)) (o_borrows (ob_state ob)))
                      ''Unable to find obligation borrow to repay'') (\<lambda>borrow.
             bindE (borrowCumulativeRate L borrow) (\<lambda>rateObligation.
             bindE (getEstimatedCumulativeBorrowRate L (a_reserve a) (a_currentSlot a) (unat (referralFeeBps (m_state (a_market a))))) (\<lambda>rateReserve.
             bindE (getBorrowAmount L borrow) (\<lambda>amount.
               bn_of_dec L (dec_of_num (dfloor (num_of_dec
                 (dadd L (ddiv L (dmul L amount rateReserve) rateObligation) (dint SOL_PADDING_FOR_INTEREST))))))))))
          else Inr (a_amount a)
      | None \<Rightarrow> Inr (a_amount a))"

definition wsol_account :: "env \<Rightarrow> kamino_action \<Rightarrow> pubkey result" where
  "wsol_account E a =
     (if a_secondaryMint a = Some (NATIVE_MINT (sol E))
      then bindE (need (a_outflowReserve a) ''Outflow reserve state not found'') (\<lambda>out. Inr (getUserTokenAccountAddress E a out))
      else Inr (getUserTokenAccountAddress E a (a_reserve a)))"

definition send_action :: "env \<Rightarrow> action_type \<Rightarrow> kamino_action \<Rightarrow> bool" where
  "send_action E action a \<longleftrightarrow>
     action = ADeposit \<or> action = ARepay \<or> action = ARepayAndWithdrawV2 \<or> action = AMint \<or>
     (action = ALiquidate \<and> a_mint a = NATIVE_MINT (sol E))"

definition wsol_ixs :: "env \<Rightarrow> kamino_action \<Rightarrow> pubkey \<Rightarrow> bool \<Rightarrow> int \<Rightarrow> (instruction \<times> string) list \<times> (instruction \<times> string) list" where
  "wsol_ixs E a account send safeRepay =
     (let S = sol E; owner = a_owner a; exists = (getAccountInfo E account \<noteq> None); l = toBase58 S account;
          lamports = nadd (if exists then Fin 0 else getMinimumBalanceForRentExemption E 165)
                          (if send then b64 (of_int safeRepay) else Fin 0);
          transferIx = (sys_transfer E owner account lamports, ''TransferLamportsToUserAtaSOL['' @ l @ '']'');
          closeIx = (createCloseAccountInstruction E account owner owner (TOKEN_PROGRAM_ID S), ''CloseUserAtaSOL['' @ l @ '']'');
          syncIx = (createSyncNativeInstruction E account, ''SyncUserAtaSOL['' @ l @ '']'');
          createIx = (create_ata E a (NATIVE_MINT S) (TOKEN_PROGRAM_ID S) account, ''CreateUserAtaSOL['' @ l @ '']'')
      in if exists then (if send then ([transferIx, syncIx], []) else ([transferIx], [closeIx]))
         else ([transferIx, createIx, syncIx], [closeIx]))"

definition updateWSOLAccount :: "env \<Rightarrow> action_type \<Rightarrow> kamino_action \<Rightarrow> kamino_action result" where
  "updateWSOLAccount E action a =
     (if action = ADepositAndBorrow \<or> action = ARepayAndWithdraw then Inr a
      else
        bindE (safe_repay E action a) (\<lambda>safeRepay.
        bindE (wsol_account E a) (\<lambda>account.
          let (pre, post) = wsol_ixs E a account (send_action E action a) safeRepay
          in Inr (a\<lparr>setupIxs := map fst pre @ setupIxs a, setupIxsLabels := map snd pre @ setupIxsLabels a,
                    cleanupIxs := cleanupIxs a @ map fst post, cleanupIxsLabels := cleanupIxsLabels a @ map snd post\<rparr>))))"

definition addAtaIxs :: "env \<Rightarrow> action_type \<Rightarrow> kamino_action \<Rightarrow> kamino_action result" where
  "addAtaIxs E action a =
     (let S = sol E; r = a_reserve a; key = toBase58 S in
      bindE (if a_mint a = NATIVE_MINT S \<or> a_secondaryMint a = Some (NATIVE_MINT S) then updateWSOLAccount E action a else Inr a) (\<lambda>a.
      let a = (if (action = AWithdraw \<or> action = ABorrow \<or> action = ARedeem) \<and> a_mint a \<noteq> NATIVE_MINT S
               then unshift_setup (create_liquidity_ata E a r) (''CreateLiquidityUserAta['' @ key (a_owner a) @ '']'') a else a) in
      bindE (if action = ALiquidate then
               bindE (need (a_outflowReserve a) ''Outflow reserve state not found'') (\<lambda>out.
                 Inr (unshift_setup (create_collateral_ata E a out)
                        (''CreateCollateralUserAta['' @ key (getUserCollateralAccountAddress E a out) @ '']'')
                      (unshift_setup (create_liquidity_ata E a out)
                        (''CreateUserAta['' @ key (getUserTokenAccountAddress E a out) @ '']'') a)))
             else Inr a) (\<lambda>a.
      bindE (if action = ADepositAndBorrow \<or> (action = ARepayAndWithdraw \<and> a_secondaryMint a \<noteq> Some (NATIVE_MINT S)) then
               bindE (need (a_outflowReserve a) ''Outflow reserve state not found'') (\<lambda>out.
                 Inr (if getAccountInfo E (getUserTokenAccountAddress E a out) = None
                      then unshift_setup (create_liquidity_ata E a out) (''CreateAdditionalUserTokenAta['' @ key (a_owner a) @ '']'') a
                      else a))
             else Inr a) (\<lambda>a.
      let a = (if action = AWithdraw \<or> action = AMint \<or> action = ADeposit \<or> action = ARepayAndWithdraw
               then unshift_setup (create_liquidity_ata E a r) (''CreateUserAta['' @ key (getUserTokenAccountAddress E a r) @ '']'') a else a)
      in Inr (if action = AMint
              then unshift_setup (create_collateral_ata E a r)
                     (''CreateCollateralUserAta['' @ key (getUserCollateralAccountAddress E a r) @ '']'') a
              else a)))))"

section \<open>Reserves and farms of an action\<close>

text \<open>
  The reserves the action is about. A deposit and borrow preloads the deposit reserve when the obligation does not hold it yet.
\<close>

definition preload_deposit_reserve :: "kamino_action \<Rightarrow> kamino_action" where
  "preload_deposit_reserve a =
     (let k = r_address (a_reserve a);
          pushed = a\<lparr>preLoadedDepositReservesSameTx := preLoadedDepositReservesSameTx a @ [k]\<rparr>
      in case a_obligation a of
           Some ob \<Rightarrow> (case getDepositByReserve ob k of None \<Rightarrow> pushed | Some _ \<Rightarrow> a)
         | None \<Rightarrow> pushed)"

definition current_reserves :: "action_type \<Rightarrow> kamino_action \<Rightarrow> (kamino_reserve list \<times> kamino_action) result" where
  "current_reserves action a =
     (if action = ALiquidate \<or> action = ADepositAndBorrow \<or> action = ARepayAndWithdraw \<or> action = ARepayAndWithdrawV2 then
        bindE (need (a_outflowReserve a) ''outflowReserve is undefined'') (\<lambda>out.
          if action = ALiquidate
          then Inr (if r_address out \<noteq> r_address (a_reserve a) then [out, a_reserve a] else [a_reserve a], a)
          else Inr ([a_reserve a, out], if action = ADepositAndBorrow then preload_deposit_reserve a else a))
      else Inr ([a_reserve a], a))"

definition init_farm_if :: "env \<Rightarrow> kamino_reserve option \<Rightarrow> reserve_farm_kind \<Rightarrow> auxiliary_ix \<Rightarrow> kamino_action \<Rightarrow> kamino_action result" where
  "init_farm_if E r mode aux a = (case r of None \<Rightarrow> Inr a | Some r \<Rightarrow> addInitObligationForFarm E r mode aux a)"

definition add_init_farms :: "env \<Rightarrow> action_type \<Rightarrow> auxiliary_ix \<Rightarrow> kamino_action \<Rightarrow> kamino_action result" where
  "add_init_farms E action aux a =
     (let r = a_reserve a; out = a_outflowReserve a in
      if action = ALiquidate then
        bindE (addInitObligationForFarm E r Debt aux a) (\<lambda>a. bindE (deref out) (\<lambda>out. addInitObligationForFarm E out Collateral aux a))
      else if action \<in> {ADepositAndBorrow, ADepositCollateral, AWithdraw, ADeposit, ADepositAndWithdraw} then
        bindE (addInitObligationForFarm E r Collateral aux a) (\<lambda>a.
          if action \<noteq> ADepositAndWithdraw then init_farm_if E out Debt aux a else Inr a)
      else if action \<in> {ARepayAndWithdraw, ABorrow, ARepay, ARepayAndWithdrawV2} then
        bindE (addInitObligationForFarm E r Debt aux a) (init_farm_if E out Collateral aux)
      else
        bindE (addInitObligationForFarm E r Collateral aux a) (\<lambda>a.
        bindE (addInitObligationForFarm E r Debt aux a) (\<lambda>a.
        bindE (init_farm_if E out Collateral aux a) (init_farm_if E out Debt aux))))"

definition add_refresh_farms ::
    "env \<Rightarrow> action_type \<Rightarrow> auxiliary_ix \<Rightarrow> bool \<Rightarrow> kamino_reserve list \<Rightarrow> kamino_action \<Rightarrow> kamino_action result" where
  "add_refresh_farms E action aux twoTokenAction currentReserves a =
     (let undecided = Inl (Throw ''Could not decide on refresh farm for action'') in
      if aux = Setup then
        if action = ALiquidate then
          bindE (deref (a_outflowReserve a)) (\<lambda>out.
          bindE (addRefreshFarmsForReserve E [out] aux Collateral (a_payer a) False a) (\<lambda>a.
            addRefreshFarmsForReserve E [a_reserve a] aux Debt (a_payer a) False a))
        else if action \<in> {ADepositAndBorrow, ADepositCollateral, AWithdraw, ADeposit} then
          addRefreshFarmsForReserve E currentReserves aux Collateral (a_payer a) twoTokenAction a
        else if action \<in> {ARepayAndWithdraw, ABorrow, ARepay} then
          addRefreshFarmsForReserve E currentReserves aux Debt (a_payer a) twoTokenAction a
        else undecided
      else if action = ADepositAndBorrow then
        bindE (deref (a_outflowReserve a)) (\<lambda>out. addRefreshFarmsForReserve E [out] aux Debt (a_payer a) False a)
      else if action = ARepayAndWithdraw then
        bindE (deref (a_outflowReserve a)) (\<lambda>out. addRefreshFarmsForReserve E [out] aux Collateral (a_payer a) False a)
      else undecided)"

section \<open>Elevation group requests\<close>

definition current_emode :: "kamino_action \<Rightarrow> nat option" where
  "current_emode a = map_option (\<lambda>ob. unat (o_elevationGroup (ob_state ob))) (a_obligation a)"

definition repaid_position :: "kamino_action \<Rightarrow> position result" where
  "repaid_position a =
     bindE (deref (a_obligation a)) (\<lambda>ob.
       need (getBorrowByReserve ob (r_address (a_reserve a))) ''Could not find debt reserve in obligation'')"

definition fully_repaid :: "kamino_action \<Rightarrow> position \<Rightarrow> bool" where
  "fully_repaid a p = xle (p_amount p) (dint (a_amount a))"

definition request_after_repay :: "env \<Rightarrow> nat option \<Rightarrow> pubkey list \<Rightarrow> kamino_action \<Rightarrow> kamino_action result" where
  "request_after_repay E override excl a =
     bindE (repaid_position a) (\<lambda>p.
     bindE (deref (a_obligation a)) (\<lambda>ob.
       let k = r_address (a_reserve a) in
       if fully_repaid a p \<and> hm_size (borrows ob) = 1 \<and> unat (o_elevationGroup (ob_state ob)) \<noteq> 0 then
         bindE (addRefreshReserveIxs E excl Cleanup a) (\<lambda>a.
           addRequestElevationIx E (case override of None \<Rightarrow> 0 | Some g \<Rightarrow> g) Cleanup [k] (addRefreshObligationIx E Cleanup [k] a))
       else Inr a))"

text \<open>The elevation group to request with a borrow: the given one, or the best common group of collateral and debt if it is new.\<close>

definition emode_for_borrow :: "action_type \<Rightarrow> nat option \<Rightarrow> kamino_action \<Rightarrow> nat option result" where
  "emode_for_borrow action override a =
     (if override \<noteq> None then Inr override
      else
        bindE (if action = ADepositAndBorrow then bindE (deref (a_outflowReserve a)) (\<lambda>debt. Inr (debt, a_reserve a))
               else
                 bindE (deref (a_obligation a)) (\<lambda>ob.
                 bindE (deref (List.find (\<lambda>d. depositReserve d \<noteq> default_pubkey) (o_deposits (ob_state ob)))) (\<lambda>d.
                 bindE (deref (getReserveByAddress (a_market a) (depositReserve d))) (\<lambda>coll. Inr (a_reserve a, coll))))) (\<lambda>(debt, coll).
        bindE (emode_group (a_market a) debt coll) (\<lambda>g.
          Inr (if g \<noteq> 0 \<and> Some (unat g) \<noteq> current_emode a then Some (unat g) else None))))"

definition request_with_refresh ::
    "env \<Rightarrow> nat \<Rightarrow> auxiliary_ix \<Rightarrow> pubkey list \<Rightarrow> pubkey list \<Rightarrow> kamino_action \<Rightarrow> kamino_action result" where
  "request_with_refresh E g aux excl cur a =
     bindE (addRequestElevationIx E g aux [] a) (\<lambda>a.
     bindE (addRefreshReserveIxs E excl aux a) (\<lambda>a.
     bindE (addRefreshReserveIxs E cur aux a) (\<lambda>a. Inr (addRefreshObligationIx E aux [] a))))"

definition request_for_borrow ::
    "env \<Rightarrow> action_type \<Rightarrow> nat option \<Rightarrow> pubkey list \<Rightarrow> pubkey list \<Rightarrow> kamino_action \<Rightarrow> kamino_action result" where
  "request_for_borrow E action override excl cur a =
     bindE (emode_for_borrow action override a) (\<lambda>group.
       let aux = (if override = None \<and> action = ADepositAndBorrow then InBetween else Setup) in
       case group of
         None \<Rightarrow> Inr a
       | Some g \<Rightarrow>
           if Some g \<noteq> current_emode a then
             bindE (request_with_refresh E g aux excl cur a) (\<lambda>a.
               if action = ABorrow then
                 bindE (deref (a_obligation a)) (\<lambda>ob.
                   Inr (a\<lparr>a_target := Inl (ob\<lparr>refreshedStats := (refreshedStats ob)\<lparr>potentialElevationGroupUpdate := g\<rparr>\<rparr>)\<rparr>))
               else Inr a)
           else Inr a)"

definition request_elevation ::
    "env \<Rightarrow> action_type \<Rightarrow> nat option \<Rightarrow> pubkey list \<Rightarrow> pubkey list \<Rightarrow> kamino_action \<Rightarrow> kamino_action result" where
  "request_elevation E action override excl cur a =
     (if action = ARepay \<or> action = ARepayAndWithdrawV2 then request_after_repay E override excl a
      else if action = ADepositAndBorrow \<or> action = ABorrow then request_for_borrow E action override excl cur a
      else
        case override of
          None \<Rightarrow> Inr a
        | Some g \<Rightarrow>
            if action = ADeposit \<and> Some g \<noteq> current_emode a then request_with_refresh E g Setup excl cur a
            else if action = AWithdraw then
              (let skip = (if a_amount a = U64_MAX then [r_address (a_reserve a)] else []) in
               addRequestElevationIx E g Cleanup skip (addRefreshObligationIx E Cleanup skip a))
            else Inr a)"

section \<open>All support instructions\<close>

definition refresh_obligation_for :: "env \<Rightarrow> action_type \<Rightarrow> auxiliary_ix \<Rightarrow> kamino_action \<Rightarrow> kamino_action result" where
  "refresh_obligation_for E action aux a =
     (if action = ARepayAndWithdraw \<and> aux = InBetween then
        bindE (repaid_position a) (\<lambda>p. Inr (addRefreshObligationIx E aux (if fully_repaid a p then [reserveAddress p] else []) a))
      else Inr (addRefreshObligationIx E aux [] a))"

definition supported :: "action_type list" where
  "supported = [ADepositCollateral, ADeposit, AWithdraw, ABorrow, ALiquidate, ARepay, ADepositAndBorrow, ARepayAndWithdraw,
     ARepayAndWithdrawV2, ARefreshObligation, ADepositAndWithdraw]"

definition addSupportIxsWithoutInitObligation ::
    "env \<Rightarrow> action_type \<Rightarrow> bool \<Rightarrow> bool \<Rightarrow> auxiliary_ix \<Rightarrow> bool \<Rightarrow> bool \<Rightarrow> bool \<Rightarrow> nat option \<Rightarrow> kamino_action \<Rightarrow> kamino_action result" where
  "addSupportIxsWithoutInitObligation E action includeAtaIxns useV2Ixs aux requestEmode initFarms twoTokenAction override a =
     bindE (if includeAtaIxns then addAtaIxs E action a else Inr a) (\<lambda>a.
     if action \<notin> set supported then Inr a
     else
       bindE (current_reserves action a) (\<lambda>(currentReserves, a).
       let uniqueReserveAddresses = pks_new (depositReserves a @ borrowReserves a);
           currentReserveAddresses = pks_new (map r_address currentReserves);
           cur = pks_toArray currentReserveAddresses;
           excl = filter (\<lambda>k. \<not> pks_contains currentReserveAddresses k) (pks_toArray uniqueReserveAddresses) in
       bindE (addRefreshReserveIxs E excl aux a) (\<lambda>a.
       bindE (if initFarms then add_init_farms E action aux a else Inr a) (\<lambda>a.
       bindE (addRefreshReserveIxs E cur aux a) (\<lambda>a.
       bindE (refresh_obligation_for E action aux a) (\<lambda>a.
       bindE (if requestEmode then request_elevation E action override excl cur a else Inr a) (\<lambda>a.
         if useV2Ixs then Inr a else add_refresh_farms E action aux twoTokenAction currentReserves a)))))))"

definition addInBetweenIxs :: "env \<Rightarrow> action_type \<Rightarrow> bool \<Rightarrow> bool \<Rightarrow> bool \<Rightarrow> bool \<Rightarrow> kamino_action \<Rightarrow> kamino_action result" where
  "addInBetweenIxs E action includeAtaIxns requestEmode initFarms useV2Ixs a =
     addSupportIxsWithoutInitObligation E action includeAtaIxns useV2Ixs InBetween requestEmode initFarms False None a"

definition addRefreshObligation :: "env \<Rightarrow> pubkey \<Rightarrow> kamino_action \<Rightarrow> kamino_action result" where
  "addRefreshObligation E crank a =
     bindE (addRefreshReserveIxs E (pks_toArray (pks_new (depositReserves a @ borrowReserves a))) Setup a) (\<lambda>a.
     bindE (mapE (\<lambda>k. deref (getReserveByAddress (a_market a) k)) (depositReserves a)) (\<lambda>ds.
     bindE (addRefreshFarmsForReserve E ds Setup Collateral crank False a) (\<lambda>a.
     bindE (mapE (\<lambda>k. deref (getReserveByAddress (a_market a) k)) (borrowReserves a)) (\<lambda>bs.
     bindE (addRefreshFarmsForReserve E bs Setup Debt crank False a) (\<lambda>a.
       Inr (addRefreshObligationIx E Setup [] a))))))"

text \<open>\<open>UserMetadata.fetch\<close> and \<open>KaminoMarket.getUserMetadata\<close>.\<close>

definition fetchUserMetadata :: "env \<Rightarrow> pubkey \<Rightarrow> pubkey \<Rightarrow> user_metadata option result" where
  "fetchUserMetadata E address programId =
     (case getAccountInfo E address of
        None \<Rightarrow> Inr None
      | Some info \<Rightarrow>
          if ai_owner info \<noteq> programId then Inl (Throw ''account doesn't belong to this program'')
          else bindE (need (ai_userMetadata info) ''invalid account discriminator'') (\<lambda>u. Inr (Some u)))"

definition getUserMetadata :: "env \<Rightarrow> kamino_market \<Rightarrow> pubkey \<Rightarrow> (pubkey \<times> user_metadata option) result" where
  "getUserMetadata E mk user =
     (let address = userMetadataPda (sol E) user (m_programId mk) in
      bindE (fetchUserMetadata E address (m_programId mk)) (\<lambda>u. Inr (address, u)))"

definition createLookupTableIx :: "env \<Rightarrow> pubkey \<Rightarrow> instruction \<times> pubkey" where
  "createLookupTableIx E wallet = createLookupTable E wallet wallet (getSlot E)"

definition add_user_metadata :: "env \<Rightarrow> bool \<Rightarrow> bool \<Rightarrow> kamino_action \<Rightarrow> kamino_action result" where
  "add_user_metadata E includeUserMetadata withLookupTable a =
     bindE (getUserMetadata E (a_market a) (a_owner a)) (\<lambda>(_, u).
       if u = None \<and> includeUserMetadata then
         if withLookupTable then
           (let (ix, table) = createLookupTableIx E (a_owner a)
            in addInitUserMetadataIxs E table (push_ix Setup ix (''createUserLutIx['' @ toBase58 (sol E) table @ '']'') a))
         else addInitUserMetadataIxs E default_pubkey a
       else Inr a)"

definition add_scope_refresh :: "env \<Rightarrow> string option \<Rightarrow> kamino_action \<Rightarrow> kamino_action result option" where
  "add_scope_refresh E scopeFeed a =
     (let allReserves = pks_toArray (pks_new (depositReserves a @ borrowReserves a @ [r_address (a_reserve a)]
            @ (case a_outflowReserve a of None \<Rightarrow> [] | Some out \<Rightarrow> [r_address out]) @ preLoadedDepositReservesSameTx a))
      in case getTokenIdsForScopeRefresh (a_market a) allReserves of
           None \<Rightarrow> None
         | Some tokenIds \<Rightarrow> Some (bindE tokenIds (\<lambda>ids.
             case scopeFeed of
               None \<Rightarrow> Inr a
             | Some feed \<Rightarrow> (if length ids > 0 then addScopeRefreshIxs E ids feed a else Inr a))))"

text \<open>Sequencing of calls that may throw or not return.\<close>

definition bindO :: "'a result option \<Rightarrow> ('a \<Rightarrow> 'b result option) \<Rightarrow> 'b result option" where
  "bindO m f = (case m of None \<Rightarrow> None | Some (Inl e) \<Rightarrow> Some (Inl e) | Some (Inr x) \<Rightarrow> f x)"

definition addSupportIxs ::
    "env \<Rightarrow> action_type \<Rightarrow> bool \<Rightarrow> bool \<Rightarrow> bool \<Rightarrow> bool \<Rightarrow> bool \<Rightarrow> string option \<Rightarrow> bool \<Rightarrow> bool \<Rightarrow> nat option \<Rightarrow> kamino_action \<Rightarrow>
     kamino_action result option" where
  "addSupportIxs E action includeAtaIxns requestEmode includeUserMetadata initFarms useV2Ixs scopeFeed withLookupTable twoTokenAction override a =
     bindO (Some (bindE (if action = AMint \<or> action = ARedeem then Inr a
                         else bindE (add_user_metadata E includeUserMetadata withLookupTable a) (addInitObligationIxs E)) (\<lambda>a.
       addSupportIxsWithoutInitObligation E action includeAtaIxns useV2Ixs Setup requestEmode initFarms twoTokenAction override a)))
     (add_scope_refresh E scopeFeed)"

end
