(* ===== verification/Action_Build.thy ===== *)
theory Action_Build
  imports Action_Support
begin

text \<open>
  The entry points of \<open>KaminoAction\<close> (\<open>src/ts-client/src/classes/action.ts\<close>): loading the obligation, initialising an action,
  the \<open>build...Txns\<close> functions and the order in which an action's instructions are sent. The amounts are the integers the
  \<open>BN\<close> arguments hold; an optional argument is an option, a \<open>ScopePriceRefreshConfig\<close> is the name of its feed (the scope
  client is part of the environment).
\<close>

section \<open>Initialisation\<close>

definition load_obligation :: "env \<Rightarrow> kamino_market \<Rightarrow> pubkey \<Rightarrow> kamino_obligation option result" where
  "load_obligation E mk address =
     (case getAccountInfo E address of
        None \<Rightarrow> Inr None
      | Some info \<Rightarrow>
          if ai_owner info \<noteq> m_programId mk then Inl (Throw ''account doesn't belong to this program'')
          else
            bindE (need (ai_obligation info) ''invalid account discriminator'') (\<lambda>st.
            bindE (getRatesForObligation (num E) mk st (getSlot E) []) (\<lambda>(ex, cum).
            bindE (new_KaminoObligation (num E) mk address st ex cum) (\<lambda>ob. Inr (Some ob)))))"

record loaded_obligation =
  lo_obligation :: "kamino_obligation option"
  lo_depositReserves :: "pubkey list"
  lo_borrowReserves :: "pubkey list"
  lo_distinctReserveCount :: nat

definition loadObligation ::
    "env \<Rightarrow> action_type \<Rightarrow> kamino_market \<Rightarrow> pubkey \<Rightarrow> pubkey \<Rightarrow> kamino_obligation + obligation_type \<Rightarrow> pubkey option \<Rightarrow> loaded_obligation result" where
  "loadObligation E action mk owner reserve target outflowReserve =
     bindE (case target of
              Inl ob \<Rightarrow> Inr (Some ob)
            | Inr t \<Rightarrow> load_obligation E mk (toPda (sol E) t (m_address mk) owner)) (\<lambda>ob.
       let ds = (case ob of None \<Rightarrow> [] | Some ob \<Rightarrow> hm_keys (deposits ob));
           bs = (case ob of None \<Rightarrow> [] | Some ob \<Rightarrow> hm_keys (borrows ob))
       in if outflowReserve = None \<and> action = ADepositAndBorrow
          then Inl (Throw ''Outflow reserve has not been set for depositAndBorrow'')
          else Inr \<lparr>lo_obligation = ob, lo_depositReserves = ds, lo_borrowReserves = bs,
                    lo_distinctReserveCount =
                      length (pks_toArray (pks_new (bs @ (if action = ABorrow then [reserve] else [])
                                                       @ (if action = ADepositAndBorrow then [reserve] else [])))) +
                      length (pks_toArray (pks_new (ds @ (if action = ADeposit then [reserve] else [])
                                                       @ (if action = ADepositAndBorrow then [the outflowReserve] else []))))\<rparr>)"

definition getReferrerKey :: "env \<Rightarrow> kamino_market \<Rightarrow> pubkey \<Rightarrow> kamino_obligation option \<Rightarrow> pubkey \<Rightarrow> pubkey result" where
  "getReferrerKey E mk owner ob referrer =
     (if referrer = default_pubkey then
        case ob of
          None \<Rightarrow> bindE (getUserMetadata E mk owner) (\<lambda>(_, u). Inr (case u of None \<Rightarrow> referrer | Some u \<Rightarrow> um_referrer u))
        | Some ob \<Rightarrow> Inr (o_referrer (ob_state ob))
      else Inr referrer)"

definition target_of :: "loaded_obligation \<Rightarrow> kamino_obligation + obligation_type \<Rightarrow> kamino_obligation + obligation_type" where
  "target_of lo target = (case lo_obligation lo of Some ob \<Rightarrow> Inl ob | None \<Rightarrow> target)"

definition initialize ::
    "env \<Rightarrow> action_type \<Rightarrow> int \<Rightarrow> pubkey \<Rightarrow> pubkey \<Rightarrow> kamino_market \<Rightarrow> kamino_obligation + obligation_type \<Rightarrow> pubkey \<Rightarrow> nat \<Rightarrow>
     pubkey option \<Rightarrow> kamino_action result" where
  "initialize E action amount mint owner mk target referrer slot payer =
     bindE (need (getReserveByMint mk mint) ''Reserve not found in market'') (\<lambda>r.
     bindE (loadObligation E action mk owner (r_address r) target None) (\<lambda>lo.
     bindE (getReferrerKey E mk owner (lo_obligation lo) referrer) (\<lambda>key.
       Inr (new_KaminoAction mk owner (target_of lo target) mint (lo_distinctReserveCount lo) amount (lo_depositReserves lo)
              (lo_borrowReserves lo) r slot None None None (Some key) payer))))"

definition initializeMultiTokenAction ::
    "env \<Rightarrow> kamino_market \<Rightarrow> action_type \<Rightarrow> int \<Rightarrow> pubkey \<Rightarrow> pubkey \<Rightarrow> pubkey \<Rightarrow> pubkey \<Rightarrow> kamino_obligation + obligation_type \<Rightarrow>
     int option \<Rightarrow> pubkey \<Rightarrow> nat \<Rightarrow> kamino_action result" where
  "initializeMultiTokenAction E mk action inflowAmount inflowMint outflowMint payer obligationOwner target outflowAmount referrer slot =
     (case (getReserveByMint mk inflowMint, getReserveByMint mk outflowMint) of
        (Some inflow, Some outflow) \<Rightarrow>
          bindE (loadObligation E action mk obligationOwner (r_address inflow) target (Some (r_address outflow))) (\<lambda>lo.
          bindE (getReferrerKey E mk payer (lo_obligation lo) referrer) (\<lambda>key.
            if action = ALiquidate \<or> action = ADepositAndBorrow \<or> action = ARepayAndWithdraw \<or> action = ARepayAndWithdrawV2
            then Inr (new_KaminoAction mk payer (target_of lo target) inflowMint (lo_distinctReserveCount lo) inflowAmount
                        (lo_depositReserves lo) (lo_borrowReserves lo) inflow slot (Some outflowMint) (Some outflow) outflowAmount (Some key) None)
            else Inl (Throw ''Invalid action'')))
      | _ \<Rightarrow> Inl (Throw ''reserve states are not fetched''))"

definition initializeWithdrawReferrerFees :: "env \<Rightarrow> pubkey \<Rightarrow> pubkey \<Rightarrow> kamino_market \<Rightarrow> nat \<Rightarrow> (kamino_action \<times> instruction list) result" where
  "initializeWithdrawReferrerFees E mint owner mk slot =
     bindE (need (getReserveByMint mk mint) ''Reserve not found in market'') (\<lambda>r.
       Inr (new_KaminoAction mk owner (Inr (VanillaObligation (m_programId mk) 0)) mint 0 0 [] [] r slot None None None None None,
            [snd (createAssociatedTokenAccountIdempotentInstruction E owner (getLiquidityMint (r_state r)) owner
                    (getLiquidityTokenProgram (r_state r)) None)]))"

definition getWithdrawCollateralAmount :: "env \<Rightarrow> kamino_action \<Rightarrow> kamino_reserve \<Rightarrow> int \<Rightarrow> int result" where
  "getWithdrawCollateralAmount E a r amount =
     bindE (getEstimatedCollateralExchangeRate (num E) r (a_currentSlot a) (unat (referralFeeBps (m_state (a_market a))))) (\<lambda>rate.
       if amount = U64_MAX then Inr amount else bn_of_dec (num E) (dceil (dmul (num E) (dint amount) rate)))"

section \<open>Building the actions\<close>

definition compute_budget :: "env \<Rightarrow> nat \<Rightarrow> kamino_action \<Rightarrow> kamino_action" where
  "compute_budget E units a = (if units > 0 then addComputeBudgetIxn E units a else a)"

definition init_referrer_state :: "env \<Rightarrow> kamino_reserve \<Rightarrow> kamino_action \<Rightarrow> kamino_action" where
  "init_referrer_state E r a =
     (if a_referrer a \<noteq> default_pubkey then
        (let st = referrerTokenStatePda (sol E) (a_referrer a) (r_address r) (m_programId (a_market a))
         in if getAccountInfo E st = None then addInitReferrerTokenStateIx E r st a else a)
      else a)"

definition finish_with :: "(kamino_action \<Rightarrow> kamino_action result) \<Rightarrow> kamino_action \<Rightarrow> kamino_action result option" where
  "finish_with f a = Some (bindE (f a) (\<lambda>a. Inr (addRefreshFarmsCleanupTxnIxsToCleanupIxs a)))"

definition buildRefreshObligationTxns :: "env \<Rightarrow> kamino_market \<Rightarrow> pubkey \<Rightarrow> kamino_obligation \<Rightarrow> nat \<Rightarrow> nat \<Rightarrow> kamino_action result" where
  "buildRefreshObligationTxns E mk payer ob units slot =
     bindE (deref (arr_get (getDeposits ob) 0)) (\<lambda>d.
     bindE (need (getReserveByAddress mk (reserveAddress d)) ''Reserve not found'') (\<lambda>r.
     bindE (initialize E ARefreshObligation 0 (getLiquidityMint (r_state r)) (o_owner (ob_state ob)) mk (Inl ob) default_pubkey slot None) (\<lambda>a.
       addRefreshObligation E payer (compute_budget E units a))))"

definition buildRequestElevationGroupTxns ::
    "env \<Rightarrow> kamino_market \<Rightarrow> pubkey \<Rightarrow> kamino_obligation \<Rightarrow> nat \<Rightarrow> nat \<Rightarrow> nat \<Rightarrow> kamino_action result" where
  "buildRequestElevationGroupTxns E mk payer ob emode units slot =
     bindE (deref (List.find (\<lambda>d. depositReserve d \<noteq> default_pubkey) (o_deposits (ob_state ob)))) (\<lambda>d.
     bindE (need (getReserveByAddress mk (depositReserve d)) ''Reserve not found'') (\<lambda>r.
     bindE (initialize E ARequestElevationGroup 0 (getLiquidityMint (r_state r)) (o_owner (ob_state ob)) mk (Inl ob) default_pubkey slot None) (\<lambda>a.
     bindE (addRefreshObligation E payer (compute_budget E units a)) (addRequestElevationIx E emode Setup []))))"

text \<open>The flags the build functions share, in the order of their parameters.\<close>

record options =
  useV2Ixs :: bool
  scopeRefreshConfig :: "string option"
  extraComputeBudget :: nat
  includeAtaIxns :: bool
  requestElevation :: bool
  includeUserMetadata :: bool
  withLookupTable :: bool
  opt_referrer :: pubkey
  opt_currentSlot :: nat
  overrideElevationGroupRequest :: "nat option"

definition support :: "env \<Rightarrow> options \<Rightarrow> action_type \<Rightarrow> string option \<Rightarrow> bool \<Rightarrow> kamino_action \<Rightarrow> kamino_action result option" where
  "support E opt action scopeFeed twoTokenAction a =
     addSupportIxs E action (includeAtaIxns opt) (requestElevation opt) (includeUserMetadata opt) True (useV2Ixs opt) scopeFeed
       (withLookupTable opt) twoTokenAction (overrideElevationGroupRequest opt) a"

definition buildDepositTxns ::
    "env \<Rightarrow> kamino_market \<Rightarrow> int \<Rightarrow> pubkey \<Rightarrow> pubkey \<Rightarrow> kamino_obligation + obligation_type \<Rightarrow> options \<Rightarrow> kamino_action result option" where
  "buildDepositTxns E mk amount mint owner target opt =
     bindO (Some (initialize E ADeposit amount mint owner mk target (opt_referrer opt) (opt_currentSlot opt) None)) (\<lambda>a.
     bindO (support E opt ADeposit (scopeRefreshConfig opt) False (compute_budget E (extraComputeBudget opt) a))
       (finish_with (\<lambda>a. if useV2Ixs opt then addDepositIxV2 E a else addDepositIx E a)))"

definition buildBorrowTxns ::
    "env \<Rightarrow> kamino_market \<Rightarrow> int \<Rightarrow> pubkey \<Rightarrow> pubkey \<Rightarrow> kamino_obligation + obligation_type \<Rightarrow> options \<Rightarrow> kamino_action result option" where
  "buildBorrowTxns E mk amount mint owner target opt =
     bindO (Some (initialize E ABorrow amount mint owner mk target (opt_referrer opt) (opt_currentSlot opt) None)) (\<lambda>a.
     let a = compute_budget E (extraComputeBudget opt) a; a = init_referrer_state E (a_reserve a) a in
     bindO (support E opt ABorrow (scopeRefreshConfig opt) False a)
       (finish_with (\<lambda>a. if useV2Ixs opt then addBorrowIxV2 E a else addBorrowIx E a)))"

text \<open>Minting and redeeming collateral take no user metadata, lookup table, second-version instruction or override.\<close>

definition buildDepositReserveLiquidityTxns ::
    "env \<Rightarrow> kamino_market \<Rightarrow> int \<Rightarrow> pubkey \<Rightarrow> pubkey \<Rightarrow> kamino_obligation + obligation_type \<Rightarrow> options \<Rightarrow> kamino_action result option" where
  "buildDepositReserveLiquidityTxns E mk amount mint owner target opt =
     bindO (Some (initialize E AMint amount mint owner mk target (opt_referrer opt) (opt_currentSlot opt) None)) (\<lambda>a.
     bindO (addSupportIxs E AMint (includeAtaIxns opt) (requestElevation opt) False True False (scopeRefreshConfig opt) False False None
              (compute_budget E (extraComputeBudget opt) a))
       (finish_with (addDepositReserveLiquidityIx E)))"

definition buildRedeemReserveCollateralTxns ::
    "env \<Rightarrow> kamino_market \<Rightarrow> int \<Rightarrow> pubkey \<Rightarrow> pubkey \<Rightarrow> kamino_obligation + obligation_type \<Rightarrow> options \<Rightarrow> kamino_action result option" where
  "buildRedeemReserveCollateralTxns E mk amount mint owner target opt =
     bindO (Some (initialize E ARedeem amount mint owner mk target (opt_referrer opt) (opt_currentSlot opt) None)) (\<lambda>a.
     bindO (addSupportIxs E ARedeem (includeAtaIxns opt) (requestElevation opt) False True False (scopeRefreshConfig opt) False False None
              (compute_budget E (extraComputeBudget opt) a))
       (finish_with (addRedeemReserveCollateralIx E)))"

definition buildDepositObligationCollateralTxns ::
    "env \<Rightarrow> kamino_market \<Rightarrow> int \<Rightarrow> pubkey \<Rightarrow> pubkey \<Rightarrow> kamino_obligation + obligation_type \<Rightarrow> options \<Rightarrow> kamino_action result option" where
  "buildDepositObligationCollateralTxns E mk amount mint owner target opt =
     bindO (Some (initialize E ADepositCollateral amount mint owner mk target (opt_referrer opt) (opt_currentSlot opt) None)) (\<lambda>a.
     bindO (support E (opt\<lparr>overrideElevationGroupRequest := None\<rparr>) ADepositCollateral (scopeRefreshConfig opt) False
              (compute_budget E (extraComputeBudget opt) a))
       (finish_with (\<lambda>a. if useV2Ixs opt then addDepositObligationCollateralIxV2 E a else addDepositObligationCollateralIx E a)))"

definition buildDepositAndBorrowTxns ::
    "env \<Rightarrow> kamino_market \<Rightarrow> int \<Rightarrow> pubkey \<Rightarrow> int \<Rightarrow> pubkey \<Rightarrow> pubkey \<Rightarrow> kamino_obligation + obligation_type \<Rightarrow> options \<Rightarrow>
     kamino_action result option" where
  "buildDepositAndBorrowTxns E mk depositAmount depositMint borrowAmount borrowMint payer target opt =
     bindO (Some (bindE (initializeMultiTokenAction E mk ADepositAndBorrow depositAmount depositMint borrowMint payer payer target
                           (Some borrowAmount) (opt_referrer opt) (opt_currentSlot opt)) (\<lambda>a.
                  bindE (deref (a_outflowReserve a)) (\<lambda>out.
                    Inr (init_referrer_state E out (compute_budget E (extraComputeBudget opt) a)))))) (\<lambda>a.
     bindO (support E (opt\<lparr>overrideElevationGroupRequest := None\<rparr>) ADeposit None True a) (\<lambda>a.
     bindO (finish_with (\<lambda>a.
              bindE (if useV2Ixs opt then addDepositAndBorrowIxV2 E a else addDepositAndBorrowIx E a)
                (addInBetweenIxs E ADepositAndBorrow (includeAtaIxns opt) (requestElevation opt) False (useV2Ixs opt))) a)
       (add_scope_refresh E (scopeRefreshConfig opt))))"

definition buildDepositAndWithdrawV2Txns ::
    "env \<Rightarrow> kamino_market \<Rightarrow> int \<Rightarrow> pubkey \<Rightarrow> int \<Rightarrow> pubkey \<Rightarrow> pubkey \<Rightarrow> kamino_obligation + obligation_type \<Rightarrow> options \<Rightarrow>
     kamino_action result option" where
  "buildDepositAndWithdrawV2Txns E mk depositAmount depositMint withdrawAmount withdrawMint payer target opt =
     bindO (Some (initializeMultiTokenAction E mk ADepositAndWithdraw depositAmount depositMint withdrawMint payer payer target
                    (Some withdrawAmount) (opt_referrer opt) (opt_currentSlot opt))) (\<lambda>a.
     bindO (support E (opt\<lparr>useV2Ixs := True, overrideElevationGroupRequest := None\<rparr>) ADepositAndWithdraw (scopeRefreshConfig opt) True
              (compute_budget E (extraComputeBudget opt) a)) (\<lambda>a.
       Some (bindE (deref (a_outflowReserve a)) (\<lambda>out.
             bindE (deref (a_outflowAmount a)) (\<lambda>amount.
             bindE (getWithdrawCollateralAmount E a out amount) (\<lambda>coll. addDepositAndWithdrawV2Ixs E coll a))))))"

definition buildRepayAndWithdrawV2Txns ::
    "env \<Rightarrow> kamino_market \<Rightarrow> int \<Rightarrow> pubkey \<Rightarrow> int \<Rightarrow> pubkey \<Rightarrow> pubkey \<Rightarrow> kamino_obligation + obligation_type \<Rightarrow> options \<Rightarrow>
     kamino_action result option" where
  "buildRepayAndWithdrawV2Txns E mk repayAmount repayMint withdrawAmount withdrawMint payer target opt =
     bindO (Some (initializeMultiTokenAction E mk ARepayAndWithdrawV2 repayAmount repayMint withdrawMint payer payer target
                    (Some withdrawAmount) (opt_referrer opt) (opt_currentSlot opt))) (\<lambda>a.
     bindO (support E (opt\<lparr>useV2Ixs := True, overrideElevationGroupRequest := None\<rparr>) ARepayAndWithdrawV2 (scopeRefreshConfig opt) True
              (compute_budget E (extraComputeBudget opt) a)) (\<lambda>a.
       Some (bindE (deref (a_outflowReserve a)) (\<lambda>out.
             bindE (deref (a_outflowAmount a)) (\<lambda>amount.
             bindE (getWithdrawCollateralAmount E a out amount) (\<lambda>coll. addRepayAndWithdrawV2Ixs E coll a))))))"

definition buildRepayAndWithdrawTxns ::
    "env \<Rightarrow> kamino_market \<Rightarrow> int \<Rightarrow> pubkey \<Rightarrow> int \<Rightarrow> pubkey \<Rightarrow> pubkey \<Rightarrow> kamino_obligation + obligation_type \<Rightarrow> options \<Rightarrow>
     kamino_action result option" where
  "buildRepayAndWithdrawTxns E mk repayAmount repayMint withdrawAmount withdrawMint payer target opt =
     bindO (Some (initializeMultiTokenAction E mk ARepayAndWithdraw repayAmount repayMint withdrawMint payer payer target
                    (Some withdrawAmount) (opt_referrer opt) (opt_currentSlot opt))) (\<lambda>a.
     bindO (support E (opt\<lparr>overrideElevationGroupRequest := None\<rparr>) ARepay None True (compute_budget E (extraComputeBudget opt) a)) (\<lambda>a.
     bindO (finish_with (\<lambda>a.
              bindE (deref (a_outflowReserve a)) (\<lambda>out.
              bindE (deref (a_outflowAmount a)) (\<lambda>amount.
              bindE (getWithdrawCollateralAmount E a out amount) (\<lambda>coll.
              bindE (if useV2Ixs opt then addRepayAndWithdrawIxsV2 E coll a else addRepayAndWithdrawIxs E coll a)
                (addInBetweenIxs E ARepayAndWithdraw (includeAtaIxns opt) (requestElevation opt) False (useV2Ixs opt)))))) a)
       (add_scope_refresh E (scopeRefreshConfig opt))))"

definition buildWithdrawTxns ::
    "env \<Rightarrow> kamino_market \<Rightarrow> int \<Rightarrow> pubkey \<Rightarrow> pubkey \<Rightarrow> kamino_obligation + obligation_type \<Rightarrow> options \<Rightarrow> pubkey list \<Rightarrow>
     kamino_action result option" where
  "buildWithdrawTxns E mk amount mint owner target opt addedDepositReserves =
     bindO (Some (initialize E AWithdraw amount mint owner mk target (opt_referrer opt) (opt_currentSlot opt) None)) (\<lambda>a.
     let a = compute_budget E (extraComputeBudget opt) a; a = a\<lparr>depositReserves := depositReserves a @ addedDepositReserves\<rparr> in
     bindO (support E opt AWithdraw (scopeRefreshConfig opt) False a)
       (finish_with (\<lambda>a.
          bindE (getWithdrawCollateralAmount E a (a_reserve a) (a_amount a)) (\<lambda>coll.
            if useV2Ixs opt then addWithdrawIxV2 E coll a else addWithdrawIx E coll a))))"

definition buildRepayTxns ::
    "env \<Rightarrow> kamino_market \<Rightarrow> int \<Rightarrow> pubkey \<Rightarrow> pubkey \<Rightarrow> kamino_obligation + obligation_type \<Rightarrow> options \<Rightarrow> pubkey option \<Rightarrow>
     kamino_action result option" where
  "buildRepayTxns E mk amount mint owner target opt payer =
     bindO (Some (initialize E ARepay amount mint owner mk target (opt_referrer opt) (opt_currentSlot opt) payer)) (\<lambda>a.
     bindO (support E (opt\<lparr>overrideElevationGroupRequest := None\<rparr>) ARepay (scopeRefreshConfig opt) False
              (compute_budget E (extraComputeBudget opt) a))
       (finish_with (\<lambda>a. if useV2Ixs opt then addRepayIxV2 E a else addRepayIx E a)))"

definition buildLiquidateTxns ::
    "env \<Rightarrow> kamino_market \<Rightarrow> int \<Rightarrow> int \<Rightarrow> pubkey \<Rightarrow> pubkey \<Rightarrow> pubkey \<Rightarrow> pubkey \<Rightarrow> kamino_obligation + obligation_type \<Rightarrow> options \<Rightarrow>
     int \<Rightarrow> kamino_action result option" where
  "buildLiquidateTxns E mk amount minCollateralReceiveAmount repayMint withdrawMint liquidator obligationOwner target opt maxAllowedLtvOverridePercent =
     bindO (Some (initializeMultiTokenAction E mk ALiquidate amount repayMint withdrawMint liquidator obligationOwner target
                    (Some minCollateralReceiveAmount) (opt_referrer opt) (opt_currentSlot opt))) (\<lambda>a.
     bindO (support E (opt\<lparr>overrideElevationGroupRequest := None\<rparr>) ALiquidate (scopeRefreshConfig opt) False
              (compute_budget E (extraComputeBudget opt) a))
       (finish_with (\<lambda>a. if useV2Ixs opt then addLiquidateIxV2 E maxAllowedLtvOverridePercent a
                         else addLiquidateIx E maxAllowedLtvOverridePercent a)))"

definition buildWithdrawReferrerFeeTxns :: "env \<Rightarrow> pubkey \<Rightarrow> pubkey \<Rightarrow> kamino_market \<Rightarrow> nat \<Rightarrow> kamino_action result" where
  "buildWithdrawReferrerFeeTxns E owner tokenMint mk slot =
     bindE (initializeWithdrawReferrerFees E tokenMint owner mk slot) (\<lambda>(a, createAtaIxs).
       let a = a\<lparr>setupIxs := setupIxs a @ createAtaIxs,
                 setupIxsLabels := setupIxsLabels a @ [''createAtasIxs['' @ toBase58 (sol E) (a_owner a) @ '']'']\<rparr>;
           a = init_referrer_state E (a_reserve a) a
       in bindE (addRefreshReserveIxs E [r_address (a_reserve a)] Setup a) (\<lambda>a. Inr (addWithdrawReferrerFeesIxs E a)))"

section \<open>The instructions of an action\<close>

text \<open>The instructions of the transaction; its fee payer is the owner.\<close>

definition getTransactions :: "kamino_action \<Rightarrow> instruction list" where
  "getTransactions a =
     (if length (lendingIxs a) = 2
      then setupIxs a @ [lendingIxs a ! 0] @ inBetweenIxs a @ [lendingIxs a ! 1] @ cleanupIxs a
      else setupIxs a @ lendingIxs a @ cleanupIxs a)"

text \<open>Both lists are interleaved by the same loop.\<close>

fun interleave :: "'a list \<Rightarrow> 'a list \<Rightarrow> 'a list" where
  "interleave sep [] = []"
| "interleave sep (x # xs) = x # (if xs = [] then [] else sep @ interleave sep xs)"

definition actionToLendingIxs :: "kamino_action \<Rightarrow> instruction list" where
  "actionToLendingIxs a = interleave (inBetweenIxs a) (lendingIxs a)"

definition actionToIxs :: "kamino_action \<Rightarrow> instruction list" where
  "actionToIxs a = computeBudgetIxs a @ setupIxs a @ actionToLendingIxs a @ cleanupIxs a"

definition actionToLendingIxLabels :: "kamino_action \<Rightarrow> string list" where
  "actionToLendingIxLabels a = interleave (inBetweenIxsLabels a) (lendingIxsLabels a)"

definition actionToIxLabels :: "kamino_action \<Rightarrow> string list" where
  "actionToIxLabels a = computeBudgetIxsLabels a @ setupIxsLabels a @ actionToLendingIxLabels a @ cleanupIxsLabels a"

end
