(* ===== verification/Action_Steps.thy ===== *)
theory Action_Steps
  imports Action_Build
begin

text \<open>
  Properties of the actions built by \<open>src/ts-client/src/classes/action.ts\<close>. Every supporting method changes the action by the
  atomic steps of the relation \<open>step\<close>, and a lending method pushes one or two lending instructions between such steps.
  Each method is shown to be such a sequence; invariants are proved once, by rule induction over the steps.
\<close>

section \<open>Atomic steps\<close>

inductive step :: "kamino_action \<Rightarrow> kamino_action \<Rightarrow> bool" where
  push: "step a (push_ix aux ix l a)"
| unshift: "step a (unshift_setup ix l a)"
| farms: "step a (push_farms_cleanup ix l a)"
| budget: "step a (addComputeBudgetIxn E units a)"
| flush: "step a (addRefreshFarmsCleanupTxnIxsToCleanupIxs a)"
| deposits: "set ks \<subseteq> insert (r_address (a_reserve a)) (set (preLoadedDepositReservesSameTx a)) \<Longrightarrow>
    step a (a\<lparr>depositReserves := depositReserves a @ ks\<rparr>)"
| preload: "step a (a\<lparr>preLoadedDepositReservesSameTx := preLoadedDepositReservesSameTx a @ [r_address (a_reserve a)]\<rparr>)"
| stats: "a_target a = Inl ob \<Longrightarrow> step a (a\<lparr>a_target := Inl (ob\<lparr>refreshedStats := s\<rparr>)\<rparr>)"

abbreviation steps :: "kamino_action \<Rightarrow> kamino_action \<Rightarrow> bool" where
  "steps \<equiv> step\<^sup>*\<^sup>*"

named_theorems steps_rules \<open>every method is a sequence of steps\<close>

lemma steps_trans: "steps a b \<Longrightarrow> steps b c \<Longrightarrow> steps a c"
  by (rule rtranclp_trans)

lemma steps_basic [steps_rules]:
  "steps a a"
  "steps a (push_ix aux ix l a)"
  "steps a (unshift_setup ix l a)"
  "steps a (push_farms_cleanup ix l a)"
  "steps a (addComputeBudgetIxn E units a)"
  "steps a (addRefreshFarmsCleanupTxnIxsToCleanupIxs a)"
  "set ks \<subseteq> insert (r_address (a_reserve a)) (set (preLoadedDepositReservesSameTx a)) \<Longrightarrow> steps a (a\<lparr>depositReserves := depositReserves a @ ks\<rparr>)"
  "steps a (a\<lparr>preLoadedDepositReservesSameTx := preLoadedDepositReservesSameTx a @ [r_address (a_reserve a)]\<rparr>)"
  by (blast intro: step.intros)+

lemma foldl_missing:
  "\<exists>new. foldl (\<lambda>ds k. if k \<in> set ds then ds else ds @ [k]) ds ks = ds @ new \<and> set new \<subseteq> set ks"
proof (induction ks arbitrary: ds)
  case Nil
  then show ?case by simp
next
  case (Cons k ks)
  obtain new new' where "foldl (\<lambda>ds k. if k \<in> set ds then ds else ds @ [k]) ds ks = ds @ new" "set new \<subseteq> set ks"
    "foldl (\<lambda>ds k. if k \<in> set ds then ds else ds @ [k]) (ds @ [k]) ks = (ds @ [k]) @ new'" "set new' \<subseteq> set ks"
    using Cons.IH [of ds] Cons.IH [of "ds @ [k]"] by blast
  then show ?case by (auto intro!: exI [of _ "if k \<in> set ds then new else k # new'"])
qed

definition grown :: "kamino_action \<Rightarrow> kamino_action \<Rightarrow> bool" where
  "grown a b \<longleftrightarrow> (\<exists>ks. set ks \<subseteq> insert (r_address (a_reserve a)) (set (preLoadedDepositReservesSameTx a)) \<and>
     b = a\<lparr>depositReserves := depositReserves a @ ks\<rparr>)"

lemma grown_refl: "grown a a"
  unfolding grown_def by (rule exI [of _ "[]"]) simp

lemma grown_steps: "grown a b \<Longrightarrow> steps a b"
  unfolding grown_def using steps_basic(7) by blast

lemma getAdditional_grown: "grown a (getAdditionalDepositReservesList a)"
proof -
  obtain new where "getAdditionalDepositReservesList a = a\<lparr>depositReserves := depositReserves a @ new\<rparr>"
    "set new \<subseteq> set (preLoadedDepositReservesSameTx a)"
    using foldl_missing [of "depositReserves a" "preLoadedDepositReservesSameTx a"] unfolding getAdditionalDepositReservesList_def by metis
  then show ?thesis unfolding grown_def by blast
qed

lemma steps_getAdditional [steps_rules]: "steps a (getAdditionalDepositReservesList a)"
  by (rule grown_steps [OF getAdditional_grown])

lemma steps_wsol:
  "steps a (a\<lparr>setupIxs := map fst pre @ setupIxs a, setupIxsLabels := map snd pre @ setupIxsLabels a,
              cleanupIxs := cleanupIxs a @ map fst post, cleanupIxsLabels := cleanupIxsLabels a @ map snd post\<rparr>)"
proof -
  have c: "steps b (b\<lparr>cleanupIxs := cleanupIxs b @ map fst post, cleanupIxsLabels := cleanupIxsLabels b @ map snd post\<rparr>)" for b
  proof (induction post rule: rev_induct)
    case Nil
    then show ?case by simp
  next
    case (snoc p post)
    then show ?case
      using steps_trans [OF snoc steps_basic(2) [of _ Cleanup "fst p" "snd p"]] by simp
  qed
  have "steps a (a\<lparr>setupIxs := map fst pre @ setupIxs a, setupIxsLabels := map snd pre @ setupIxsLabels a\<rparr>)"
  proof (induction pre)
    case Nil
    then show ?case by simp
  next
    case (Cons p pre)
    show ?case using steps_trans [OF Cons steps_basic(3) [of _ "fst p" "snd p"]] by (simp add: unshift_setup_def)
  qed
  from steps_trans [OF this c] show ?thesis by simp
qed

lemma steps_foldE:
  assumes "\<And>a x b. f a x = Inr b \<Longrightarrow> steps a b" and "foldE f a xs = Inr b"
  shows "steps a b"
  using assms(2)
proof (induction xs arbitrary: a)
  case Nil
  then show ?case by simp
next
  case (Cons x xs)
  then obtain c where "f a x = Inr c" "foldE f c xs = Inr b" by (auto simp: bindE_Inr_iff)
  then show ?case using assms(1) Cons.IH by (blast intro: steps_trans)
qed

section \<open>Methods are sequences of steps\<close>

lemma steps_addRefreshReserveIxs: "addRefreshReserveIxs E rs aux a = Inr b \<Longrightarrow> steps a b"
  unfolding addRefreshReserveIxs_def
  by (rule steps_foldE [rotated], assumption) (auto split: option.splits intro: steps_basic)

lemma steps_addRefreshObligationIx [steps_rules]: "steps a (addRefreshObligationIx E aux skip a)"
  unfolding addRefreshObligationIx_def Let_def by (rule steps_trans [OF steps_getAdditional steps_basic(2)])

lemma steps_addRequestElevationIx: "addRequestElevationIx E g aux skip a = Inr b \<Longrightarrow> steps a b"
  by (auto simp: addRequestElevationIx_def Let_def bindE_Inr_iff intro: steps_trans [OF steps_getAdditional steps_basic(2)])

lemma steps_push_refresh_farm [steps_rules]: "steps a (push_refresh_farm aux two ix l a)"
  unfolding push_refresh_farm_def
  by (cases aux) (auto intro: steps_basic steps_trans [OF steps_basic(2) steps_basic(2)] steps_trans [OF steps_basic(2) steps_basic(4)]
      simp del: push_ix.simps)

lemma steps_addRefreshFarmsForReserve: "addRefreshFarmsForReserve E rs aux mode crank two a = Inr b \<Longrightarrow> steps a b"
  unfolding addRefreshFarmsForReserve_def
  by (rule steps_foldE [rotated], assumption) (auto simp: bindE_Inr_iff intro: steps_push_refresh_farm)

lemma steps_addInitObligationForFarm: "addInitObligationForFarm E r mode aux a = Inr b \<Longrightarrow> steps a b"
  by (auto simp: addInitObligationForFarm_def Let_def bindE_Inr_iff simp del: push_ix.simps split: if_splits intro: steps_basic)

lemma steps_addInitObligationIxs: "addInitObligationIxs E a = Inr b \<Longrightarrow> steps a b"
  by (auto simp: addInitObligationIxs_def Let_def bindE_Inr_iff simp del: push_ix.simps split: sum.splits intro: steps_basic)

lemma steps_addInitUserMetadataIxs: "addInitUserMetadataIxs E t a = Inr b \<Longrightarrow> steps a b"
  by (auto simp: addInitUserMetadataIxs_def Let_def bindE_Inr_iff simp del: push_ix.simps intro: steps_basic)

lemma steps_addInitReferrerTokenStateIx [steps_rules]: "steps a (addInitReferrerTokenStateIx E r st a)"
  unfolding addInitReferrerTokenStateIx_def by (rule steps_basic)

lemma steps_addScopeRefreshIxs: "addScopeRefreshIxs E ids feed a = Inr b \<Longrightarrow> steps a b"
  by (auto simp: addScopeRefreshIxs_def bindE_Inr_iff intro: steps_basic)

text \<open>One lending instruction is pushed; the list of deposit reserves may have grown before.\<close>

definition lends :: "kamino_action \<Rightarrow> kamino_action \<Rightarrow> bool" where
  "lends a b \<longleftrightarrow> (\<exists>c ix l. grown a c \<and> b = push_lending ix l c)"

lemma lendsI: "lends a (push_lending ix l a)" "lends a (push_lending ix l (getAdditionalDepositReservesList a))"
  using grown_refl getAdditional_grown by (auto simp: lends_def)

lemmas lending_defs =
  addDepositReserveLiquidityIx_def addRedeemReserveCollateralIx_def addDepositIx_def addDepositIxV2_def
  addDepositObligationCollateralIx_def addDepositObligationCollateralIxV2_def addBorrowIx_def addBorrowIxV2_def addWithdrawIx_def
  addWithdrawIxV2_def addRepayIx_def addRepayIxV2_def addRepayAndWithdrawV2Ixs_def addDepositAndWithdrawV2Ixs_def addLiquidateIx_def
  addLiquidateIxV2_def

lemma lends_single:
  "addDepositReserveLiquidityIx E a = Inr b \<Longrightarrow> lends a b"
  "addRedeemReserveCollateralIx E a = Inr b \<Longrightarrow> lends a b"
  "addDepositIx E a = Inr b \<Longrightarrow> lends a b"
  "addDepositIxV2 E a = Inr b \<Longrightarrow> lends a b"
  "addDepositObligationCollateralIx E a = Inr b \<Longrightarrow> lends a b"
  "addDepositObligationCollateralIxV2 E a = Inr b \<Longrightarrow> lends a b"
  "addBorrowIx E a = Inr b \<Longrightarrow> lends a b"
  "addBorrowIxV2 E a = Inr b \<Longrightarrow> lends a b"
  "addWithdrawIx E v a = Inr b \<Longrightarrow> lends a b"
  "addWithdrawIxV2 E v a = Inr b \<Longrightarrow> lends a b"
  "addRepayIx E a = Inr b \<Longrightarrow> lends a b"
  "addRepayIxV2 E a = Inr b \<Longrightarrow> lends a b"
  "addRepayAndWithdrawV2Ixs E v a = Inr b \<Longrightarrow> lends a b"
  "addDepositAndWithdrawV2Ixs E v a = Inr b \<Longrightarrow> lends a b"
  "addLiquidateIx E v a = Inr b \<Longrightarrow> lends a b"
  "addLiquidateIxV2 E v a = Inr b \<Longrightarrow> lends a b"
  unfolding lending_defs by (auto simp: Let_def bindE_Inr_iff intro: lendsI)

lemma lends_addWithdrawReferrerFeesIxs: "lends a (addWithdrawReferrerFeesIxs E a)"
  unfolding addWithdrawReferrerFeesIxs_def Let_def by (rule lendsI)

lemma lends_own: "lends a (push_lending ix l (deposit_reserves_or_own a))"
proof -
  have "grown a (deposit_reserves_or_own a)"
    using getAdditional_grown [of a] unfolding deposit_reserves_or_own_def Let_def grown_def
    by (auto intro!: exI [of _ "[r_address (a_reserve a)]"])
  then show ?thesis by (auto simp: lends_def)
qed

lemma lends_two:
  "addDepositAndBorrowIx E a = Inr b \<Longrightarrow> \<exists>m. lends a m \<and> lends m b"
  "addDepositAndBorrowIxV2 E a = Inr b \<Longrightarrow> \<exists>m. lends a m \<and> lends m b"
  "addRepayAndWithdrawIxs E v a = Inr b \<Longrightarrow> \<exists>m. lends a m \<and> lends m b"
  "addRepayAndWithdrawIxsV2 E v a = Inr b \<Longrightarrow> \<exists>m. lends a m \<and> lends m b"
  by (auto simp: addDepositAndBorrowIx_def addDepositAndBorrowIxV2_def addRepayAndWithdrawIxs_def addRepayAndWithdrawIxsV2_def
      bindE_Inr_iff Let_def intro: lends_single(3,4) lends_own lendsI)

lemma steps_updateWSOLAccount: "updateWSOLAccount E action a = Inr b \<Longrightarrow> steps a b"
  by (auto simp: updateWSOLAccount_def bindE_Inr_iff case_prod_unfold Let_def split: if_splits intro: steps_wsol)

lemma steps_bindE:
  assumes "bindE m f = Inr b" and "\<And>c. m = Inr c \<Longrightarrow> steps a c" and "\<And>c. f c = Inr b \<Longrightarrow> steps c b"
  shows "steps a b"
  using assms by (auto simp: bindE_Inr_iff intro: steps_trans)

lemma steps_optional_unshift: "steps a (if c then unshift_setup ix l a else a)"
  by (simp add: steps_basic)

lemma steps_addAtaIxs: "addAtaIxs E action a = Inr b \<Longrightarrow> steps a b"
proof -
  assume "addAtaIxs E action a = Inr b"
  then show "steps a b"
    unfolding addAtaIxs_def Let_def
  proof (rule steps_bindE, goal_cases)
    case (1 c)
    then show ?case by (auto split: if_splits intro: steps_updateWSOLAccount)
  next
    case (2 c)
    then show ?case
    proof (rule steps_bindE, goal_cases)
      case (1 d)
      then show ?case
        by (auto split: if_splits simp: bindE_Inr_iff intro: steps_basic steps_trans [OF steps_basic(3) steps_basic(3)])
    next
      case (2 d)
      then show ?case
      proof (rule steps_bindE, goal_cases)
        case (1 e)
        then show ?case by (auto split: if_splits simp: bindE_Inr_iff intro: steps_basic)
      next
        case (2 e)
        then show ?case by (auto split: if_splits intro: steps_basic steps_trans [OF steps_basic(3) steps_basic(3)])
      qed
    qed
  qed
qed

lemma steps_current_reserves: "current_reserves action a = Inr (rs, b) \<Longrightarrow> steps a b"
  by (auto simp: current_reserves_def preload_deposit_reserve_def bindE_Inr_iff Let_def split: if_splits option.splits intro: steps_basic)

lemma steps_init_farm_if: "init_farm_if E r mode aux a = Inr b \<Longrightarrow> steps a b"
  by (auto simp: init_farm_if_def split: option.splits intro: steps_addInitObligationForFarm)

lemma steps_add_init_farms: "add_init_farms E action aux a = Inr b \<Longrightarrow> steps a b"
  unfolding add_init_farms_def Let_def
  by (auto simp: bindE_Inr_iff split: if_splits
      intro: steps_trans [OF steps_addInitObligationForFarm] steps_addInitObligationForFarm steps_init_farm_if)
    (meson steps_trans steps_addInitObligationForFarm steps_init_farm_if)

lemma steps_add_refresh_farms: "add_refresh_farms E action aux two rs a = Inr b \<Longrightarrow> steps a b"
  unfolding add_refresh_farms_def Let_def
  by (auto simp: bindE_Inr_iff split: if_splits
      intro: steps_trans [OF steps_addRefreshFarmsForReserve] steps_addRefreshFarmsForReserve)

lemma steps_request_with_refresh: "request_with_refresh E g aux excl cur a = Inr b \<Longrightarrow> steps a b"
  unfolding request_with_refresh_def
  by (auto simp: bindE_Inr_iff
      intro: steps_trans [OF steps_addRequestElevationIx steps_trans [OF steps_addRefreshReserveIxs
        steps_trans [OF steps_addRefreshReserveIxs steps_addRefreshObligationIx]]])

lemma steps_request_after_repay: "request_after_repay E override excl a = Inr b \<Longrightarrow> steps a b"
  unfolding request_after_repay_def Let_def
  by (auto simp: bindE_Inr_iff split: if_splits
      intro: steps_trans [OF steps_addRefreshReserveIxs steps_trans [OF steps_addRefreshObligationIx steps_addRequestElevationIx]])

lemma steps_stats:
  "a_obligation a = Some ob \<Longrightarrow> steps a (a\<lparr>a_target := Inl (ob\<lparr>refreshedStats := s\<rparr>)\<rparr>)"
  by (rule r_into_rtranclp, rule step.stats) (simp add: a_obligation_def split: sum.splits)

lemma steps_request_for_borrow: "request_for_borrow E action override excl cur a = Inr b \<Longrightarrow> steps a b"
  unfolding request_for_borrow_def Let_def
  by (auto simp: bindE_Inr_iff split: if_splits option.splits intro: steps_request_with_refresh steps_trans [OF steps_request_with_refresh steps_stats])

lemma steps_request_elevation: "request_elevation E action override excl cur a = Inr b \<Longrightarrow> steps a b"
  unfolding request_elevation_def Let_def
  by (auto split: if_splits option.splits intro: steps_request_after_repay steps_request_for_borrow steps_request_with_refresh
      steps_trans [OF steps_addRefreshObligationIx steps_addRequestElevationIx])

lemma steps_refresh_obligation_for: "refresh_obligation_for E action aux a = Inr b \<Longrightarrow> steps a b"
  by (auto simp: refresh_obligation_for_def bindE_Inr_iff split: if_splits intro: steps_addRefreshObligationIx)

text \<open>The stages of the support instructions, in their order.\<close>

lemma supportE:
  assumes "addSupportIxsWithoutInitObligation E action ata v2 aux emode farms two override a = Inr b" and "action \<in> set supported"
  obtains c rs d e f g h i excl cur where
    "(if ata then addAtaIxs E action a else Inr a) = Inr c" "current_reserves action c = Inr (rs, d)"
    "cur = pks_new (map r_address rs)" "excl = filter (\<lambda>k. k \<notin> set cur) (pks_new (depositReserves d @ borrowReserves d))"
    "addRefreshReserveIxs E excl aux d = Inr e" "(if farms then add_init_farms E action aux e else Inr e) = Inr f"
    "addRefreshReserveIxs E cur aux f = Inr g" "refresh_obligation_for E action aux g = Inr h"
    "(if emode then request_elevation E action override excl cur h else Inr h) = Inr i"
    "(if v2 then Inr i else add_refresh_farms E action aux two rs i) = Inr b"
proof -
  from assms(1) obtain c where c: "(if ata then addAtaIxs E action a else Inr a) = Inr c"
    unfolding addSupportIxsWithoutInitObligation_def bindE_Inr_iff by blast
  note b = assms(1) [unfolded addSupportIxsWithoutInitObligation_def c bindE_simps]
  with assms(2) obtain rs d where d: "current_reserves action c = Inr (rs, d)" by (auto simp: bindE_Inr_iff)
  show thesis
    using b c d assms(2) that [OF c d refl refl] by (auto simp: bindE_Inr_iff Let_def pks_toArray_def)
qed

lemma steps_support: "addSupportIxsWithoutInitObligation E action ata v2 aux emode farms two override a = Inr b \<Longrightarrow> steps a b"
proof -
  assume b: "addSupportIxsWithoutInitObligation E action ata v2 aux emode farms two override a = Inr b"
  show "steps a b"
  proof (cases "action \<in> set supported")
    case False
    then show ?thesis
      using b by (auto simp: addSupportIxsWithoutInitObligation_def bindE_Inr_iff split: if_splits intro: steps_addAtaIxs)
  next
    case True
    from b True show ?thesis
    proof (rule supportE, goal_cases)
      case (1 c rs d e f g h i excl cur)
      then have "steps c d" "steps d e" "steps f g" "steps g h"
        using steps_current_reserves steps_addRefreshReserveIxs steps_refresh_obligation_for by blast+
      moreover have "steps a c" using 1(1) by (auto split: if_splits intro: steps_addAtaIxs)
      moreover have "steps e f" using 1(6) by (auto split: if_splits intro: steps_add_init_farms)
      moreover have "steps h i" using 1(9) by (auto split: if_splits intro: steps_request_elevation)
      moreover have "steps i b" using 1(10) by (auto split: if_splits intro: steps_add_refresh_farms)
      ultimately show ?thesis by (meson steps_trans)
    qed
  qed
qed

lemma steps_add_user_metadata: "add_user_metadata E incl lut a = Inr b \<Longrightarrow> steps a b"
  unfolding add_user_metadata_def Let_def
  by (auto simp: bindE_Inr_iff case_prod_unfold simp del: push_ix.simps split: if_splits
      intro: steps_addInitUserMetadataIxs steps_trans [OF steps_basic(2) steps_addInitUserMetadataIxs])

lemma steps_add_scope_refresh: "add_scope_refresh E feed a = Some (Inr b) \<Longrightarrow> steps a b"
  unfolding add_scope_refresh_def Let_def
  by (auto simp: bindE_Inr_iff split: option.splits if_splits intro: steps_addScopeRefreshIxs)

lemma bindO_Inr_iff: "bindO m f = Some (Inr b) \<longleftrightarrow> (\<exists>x. m = Some (Inr x) \<and> f x = Some (Inr b))"
  by (auto simp: bindO_def split: option.splits sum.splits)

lemma steps_addSupportIxs:
  "addSupportIxs E action ata emode incl farms v2 feed lut two override a = Some (Inr b) \<Longrightarrow> steps a b"
proof -
  assume "addSupportIxs E action ata emode incl farms v2 feed lut two override a = Some (Inr b)"
  then obtain c d where s: "(if action = AMint \<or> action = ARedeem then Inr a
      else bindE (add_user_metadata E incl lut a) (addInitObligationIxs E)) = Inr c"
    "addSupportIxsWithoutInitObligation E action ata v2 Setup emode farms two override c = Inr d" "add_scope_refresh E feed d = Some (Inr b)"
    by (auto simp: addSupportIxs_def bindO_Inr_iff bindE_Inr_iff)
  have "steps a c"
    using s(1) by (auto simp: bindE_Inr_iff split: if_splits intro: steps_trans [OF steps_add_user_metadata steps_addInitObligationIxs])
  then show ?thesis using steps_support [OF s(2)] steps_add_scope_refresh [OF s(3)] by (meson steps_trans)
qed

lemma steps_support_opt: "support E opt action feed two a = Some (Inr b) \<Longrightarrow> steps a b"
  unfolding support_def by (rule steps_addSupportIxs)

lemma steps_compute_budget: "steps a (compute_budget E units a)"
  by (simp add: compute_budget_def steps_basic)

lemma steps_init_referrer_state: "steps a (init_referrer_state E r a)"
  by (simp add: init_referrer_state_def Let_def steps_basic steps_addInitReferrerTokenStateIx)

lemma steps_addRefreshObligation: "addRefreshObligation E crank a = Inr b \<Longrightarrow> steps a b"
  by (auto simp: addRefreshObligation_def bindE_Inr_iff)
    (meson steps_trans steps_addRefreshReserveIxs steps_addRefreshFarmsForReserve steps_addRefreshObligationIx)

section \<open>Built actions\<close>

text \<open>An action as some build function of the client returns it.\<close>

inductive built :: "env \<Rightarrow> kamino_market \<Rightarrow> kamino_action \<Rightarrow> bool" for E mk where
  refresh: "buildRefreshObligationTxns E mk payer ob units slot = Inr b \<Longrightarrow> built E mk b"
| emode: "buildRequestElevationGroupTxns E mk payer ob g units slot = Inr b \<Longrightarrow> built E mk b"
| deposit: "buildDepositTxns E mk amount mint owner target opt = Some (Inr b) \<Longrightarrow> built E mk b"
| borrow: "buildBorrowTxns E mk amount mint owner target opt = Some (Inr b) \<Longrightarrow> built E mk b"
| mint: "buildDepositReserveLiquidityTxns E mk amount mint owner target opt = Some (Inr b) \<Longrightarrow> built E mk b"
| redeem: "buildRedeemReserveCollateralTxns E mk amount mint owner target opt = Some (Inr b) \<Longrightarrow> built E mk b"
| collateral: "buildDepositObligationCollateralTxns E mk amount mint owner target opt = Some (Inr b) \<Longrightarrow> built E mk b"
| deposit_borrow: "buildDepositAndBorrowTxns E mk amount mint amount' mint' payer target opt = Some (Inr b) \<Longrightarrow> built E mk b"
| deposit_withdraw: "buildDepositAndWithdrawV2Txns E mk amount mint amount' mint' payer target opt = Some (Inr b) \<Longrightarrow> built E mk b"
| repay_withdraw2: "buildRepayAndWithdrawV2Txns E mk amount mint amount' mint' payer target opt = Some (Inr b) \<Longrightarrow> built E mk b"
| repay_withdraw: "buildRepayAndWithdrawTxns E mk amount mint amount' mint' payer target opt = Some (Inr b) \<Longrightarrow> built E mk b"
| withdraw: "buildWithdrawTxns E mk amount mint owner target opt ks = Some (Inr b) \<Longrightarrow> built E mk b"
| repay: "buildRepayTxns E mk amount mint owner target opt payer = Some (Inr b) \<Longrightarrow> built E mk b"
| liquidate: "buildLiquidateTxns E mk amount amount' mint mint' liquidator owner target opt ltv = Some (Inr b) \<Longrightarrow> built E mk b"
| referrer_fees: "buildWithdrawReferrerFeeTxns E owner mint mk slot = Inr b \<Longrightarrow> built E mk b"

definition fresh :: "kamino_market \<Rightarrow> kamino_action \<Rightarrow> bool" where
  "fresh mk a \<longleftrightarrow> a_market a = mk \<and> computeBudgetIxs a = [] \<and> computeBudgetIxsLabels a = [] \<and> setupIxs a = [] \<and> setupIxsLabels a = []
     \<and> inBetweenIxs a = [] \<and> inBetweenIxsLabels a = [] \<and> lendingIxs a = [] \<and> lendingIxsLabels a = [] \<and> cleanupIxs a = []
     \<and> cleanupIxsLabels a = [] \<and> refreshFarmsCleanupTxnIxs a = [] \<and> refreshFarmsCleanupTxnIxsLabels a = []
     \<and> preLoadedDepositReservesSameTx a = []"

lemma initialize_fresh: "initialize E action amount mint owner mk target referrer slot payer = Inr a \<Longrightarrow> fresh mk a"
  by (auto simp: initialize_def bindE_Inr_iff new_KaminoAction_def fresh_def)

lemma initializeMulti_fresh:
  "initializeMultiTokenAction E mk action i m m' payer owner target out referrer slot = Inr a \<Longrightarrow> fresh mk a"
  by (auto simp: initializeMultiTokenAction_def bindE_Inr_iff new_KaminoAction_def fresh_def split: option.splits if_splits)

lemma initializeReferrer_fresh: "initializeWithdrawReferrerFees E mint owner mk slot = Inr (a, ixs) \<Longrightarrow> fresh mk a \<and> length ixs = 1"
  by (auto simp: initializeWithdrawReferrerFees_def bindE_Inr_iff new_KaminoAction_def fresh_def)

text \<open>The common shape: support steps, at most two lending instructions, support steps.\<close>

definition planned :: "kamino_market \<Rightarrow> kamino_action \<Rightarrow> bool" where
  "planned mk b \<longleftrightarrow> (\<exists>a c d. fresh mk a \<and> steps a c \<and> (c = d \<or> lends c d \<or> (\<exists>m. lends c m \<and> lends m d)) \<and> steps d b)"

lemma plannedI:
  "fresh mk a \<Longrightarrow> steps a b \<Longrightarrow> planned mk b"
  "fresh mk a \<Longrightarrow> steps a c \<Longrightarrow> lends c d \<Longrightarrow> steps d b \<Longrightarrow> planned mk b"
  "fresh mk a \<Longrightarrow> steps a c \<Longrightarrow> \<exists>m. lends c m \<and> lends m d \<Longrightarrow> steps d b \<Longrightarrow> planned mk b"
  unfolding planned_def by blast+

lemma finish_with_Inr: "finish_with f a = Some (Inr b) \<longleftrightarrow> (\<exists>c. f a = Inr c \<and> b = addRefreshFarmsCleanupTxnIxsToCleanupIxs c)"
  by (auto simp: finish_with_def bindE_Inr_iff)

lemma planned_single:
  assumes "fresh mk a" "steps a c"
    and "addSupportIxs E action' ata emode incl farms v2 feed lut two override c = Some (Inr d)"
    and "finish_with f d = Some (Inr b)" and "\<And>e. f d = Inr e \<Longrightarrow> lends d e"
  shows "planned mk b"
proof -
  from assms(4) obtain e where "f d = Inr e" "b = addRefreshFarmsCleanupTxnIxsToCleanupIxs e" by (auto simp: finish_with_Inr)
  then show ?thesis
    using plannedI(2) [OF assms(1) steps_trans [OF assms(2) steps_addSupportIxs [OF assms(3)]] assms(5) steps_basic(6)]
    by blast
qed

lemmas build_defs = bindO_Inr_iff bindE_Inr_iff Let_def support_def

lemma planned_deposit: "buildDepositTxns E mk amount mint owner target opt = Some (Inr b) \<Longrightarrow> planned mk b"
  by (auto simp: buildDepositTxns_def build_defs elim!: planned_single [OF initialize_fresh steps_compute_budget] intro: lends_single split: if_splits)

lemma planned_collateral: "buildDepositObligationCollateralTxns E mk amount mint owner target opt = Some (Inr b) \<Longrightarrow> planned mk b"
  by (auto simp: buildDepositObligationCollateralTxns_def build_defs elim!: planned_single [OF initialize_fresh steps_compute_budget] intro: lends_single split: if_splits)

lemma planned_repay: "buildRepayTxns E mk amount mint owner target opt payer = Some (Inr b) \<Longrightarrow> planned mk b"
  by (auto simp: buildRepayTxns_def build_defs elim!: planned_single [OF initialize_fresh steps_compute_budget] intro: lends_single split: if_splits)

lemma planned_mint: "buildDepositReserveLiquidityTxns E mk amount mint owner target opt = Some (Inr b) \<Longrightarrow> planned mk b"
  by (auto simp: buildDepositReserveLiquidityTxns_def build_defs elim!: planned_single [OF initialize_fresh steps_compute_budget] intro: lends_single)

lemma planned_redeem: "buildRedeemReserveCollateralTxns E mk amount mint owner target opt = Some (Inr b) \<Longrightarrow> planned mk b"
  by (auto simp: buildRedeemReserveCollateralTxns_def build_defs elim!: planned_single [OF initialize_fresh steps_compute_budget] intro: lends_single)

lemma planned_borrow: "buildBorrowTxns E mk amount mint owner target opt = Some (Inr b) \<Longrightarrow> planned mk b"
  by (auto simp: buildBorrowTxns_def build_defs elim!: planned_single [OF initialize_fresh steps_trans [OF steps_compute_budget steps_init_referrer_state]]
      intro: lends_single split: if_splits)

lemma compute_budget_deposits:
  "(compute_budget E units a)\<lparr>depositReserves := depositReserves (compute_budget E units a) @ ks\<rparr> =
    compute_budget E units (a\<lparr>depositReserves := depositReserves a @ ks\<rparr>)"
  by (simp add: compute_budget_def addComputeBudgetIxn_def)

lemma fresh_deposits: "fresh mk a \<Longrightarrow> fresh mk (a\<lparr>depositReserves := ks\<rparr>)"
  by (simp add: fresh_def)

lemma planned_withdraw: "buildWithdrawTxns E mk amount mint owner target opt ks = Some (Inr b) \<Longrightarrow> planned mk b"
  by (auto simp: buildWithdrawTxns_def build_defs compute_budget_deposits
      elim!: planned_single [OF fresh_deposits [OF initialize_fresh] steps_compute_budget] intro: lends_single split: if_splits)

lemma planned_multi:
  assumes "initializeMultiTokenAction E mk action i m m' payer owner target out referrer slot = Inr a" "steps a c"
    and "addSupportIxs E action' ata emode incl farms v2 feed lut two override c = Some (Inr d)"
    and "lends d e \<or> (\<exists>m. lends d m \<and> lends m e)" and "steps e b"
  shows "planned mk b"
  using plannedI(2,3) [OF initializeMulti_fresh [OF assms(1)] steps_trans [OF assms(2) steps_addSupportIxs [OF assms(3)]] _ assms(5)] assms(4)
  by blast

lemma planned_liquidate: "buildLiquidateTxns E mk amount amount' mint mint' liquidator owner target opt ltv = Some (Inr b) \<Longrightarrow> planned mk b"
  by (auto simp: buildLiquidateTxns_def build_defs finish_with_Inr split: if_splits
      intro!: planned_multi [OF _ steps_compute_budget _ _ steps_basic(6)] intro: lends_single)

lemma planned_repay_withdraw2: "buildRepayAndWithdrawV2Txns E mk amount mint amount' mint' payer target opt = Some (Inr b) \<Longrightarrow> planned mk b"
  by (auto simp: buildRepayAndWithdrawV2Txns_def build_defs
      intro!: planned_multi [OF _ steps_compute_budget _ _ steps_basic(1)] intro: lends_single)

lemma planned_deposit_withdraw: "buildDepositAndWithdrawV2Txns E mk amount mint amount' mint' payer target opt = Some (Inr b) \<Longrightarrow> planned mk b"
  by (auto simp: buildDepositAndWithdrawV2Txns_def build_defs
      intro!: planned_multi [OF _ steps_compute_budget _ _ steps_basic(1)] intro: lends_single)

lemma steps_tail:
  "addInBetweenIxs E action ata emode farms v2 a = Inr c \<Longrightarrow> add_scope_refresh E feed (addRefreshFarmsCleanupTxnIxsToCleanupIxs c) = Some (Inr b) \<Longrightarrow>
    steps a b"
  unfolding addInBetweenIxs_def
  by (blast intro: steps_trans [OF steps_support steps_trans [OF steps_basic(6) steps_add_scope_refresh]])

lemma planned_repay_withdraw: "buildRepayAndWithdrawTxns E mk amount mint amount' mint' payer target opt = Some (Inr b) \<Longrightarrow> planned mk b"
  by (auto simp: buildRepayAndWithdrawTxns_def build_defs finish_with_Inr split: if_splits
      intro!: planned_multi [OF _ steps_compute_budget _ _ steps_tail] intro: lends_two)

lemma planned_deposit_borrow: "buildDepositAndBorrowTxns E mk amount mint amount' mint' payer target opt = Some (Inr b) \<Longrightarrow> planned mk b"
  by (auto simp: buildDepositAndBorrowTxns_def build_defs finish_with_Inr split: if_splits
      intro!: planned_multi [OF _ steps_trans [OF steps_compute_budget steps_init_referrer_state] _ _ steps_tail] intro: lends_two)

lemma planned_refresh: "buildRefreshObligationTxns E mk payer ob units slot = Inr b \<Longrightarrow> planned mk b"
  by (auto simp: buildRefreshObligationTxns_def build_defs
      intro!: plannedI(1) [OF initialize_fresh] intro: steps_trans [OF steps_compute_budget steps_addRefreshObligation])

lemma planned_emode: "buildRequestElevationGroupTxns E mk payer ob g units slot = Inr b \<Longrightarrow> planned mk b"
  by (auto simp: buildRequestElevationGroupTxns_def build_defs
      intro!: plannedI(1) [OF initialize_fresh]
      intro: steps_trans [OF steps_trans [OF steps_compute_budget steps_addRefreshObligation] steps_addRequestElevationIx])

lemma planned_referrer_fees: "buildWithdrawReferrerFeeTxns E owner mint mk slot = Inr b \<Longrightarrow> planned mk b"
proof -
  assume "buildWithdrawReferrerFeeTxns E owner mint mk slot = Inr b"
  then obtain a ixs l ks r c where s: "initializeWithdrawReferrerFees E mint owner mk slot = Inr (a, ixs)"
    "addRefreshReserveIxs E ks Setup (init_referrer_state E r (a\<lparr>setupIxs := setupIxs a @ ixs, setupIxsLabels := setupIxsLabels a @ [l]\<rparr>)) = Inr c"
    "b = addWithdrawReferrerFeesIxs E c"
    unfolding buildWithdrawReferrerFeeTxns_def build_defs by (elim exE conjE) (auto simp: bindE_Inr_iff)
  from initializeReferrer_fresh [OF s(1)] obtain ix where f: "fresh mk a" "ixs = [ix]" by (auto simp: length_Suc_conv)
  then have "steps a (a\<lparr>setupIxs := setupIxs a @ ixs, setupIxsLabels := setupIxsLabels a @ [l]\<rparr>)"
    using steps_basic(2) [of a Setup ix l] by simp
  then show ?thesis
    using plannedI(2) [OF f(1) steps_trans [OF _ steps_trans [OF steps_init_referrer_state steps_addRefreshReserveIxs [OF s(2)]]]
        lends_addWithdrawReferrerFeesIxs steps_basic(1)] s(3)
    by blast
qed

lemma built_planned: "built E mk b \<Longrightarrow> planned mk b"
  by (induction rule: built.induct)
    (rule planned_refresh planned_emode planned_deposit planned_borrow planned_mint planned_redeem planned_collateral planned_deposit_borrow
      planned_deposit_withdraw planned_repay_withdraw2 planned_repay_withdraw planned_withdraw planned_repay planned_liquidate
      planned_referrer_fees; assumption)+

section \<open>Labels and order\<close>

definition well_labelled :: "kamino_action \<Rightarrow> bool" where
  "well_labelled a \<longleftrightarrow>
     length (computeBudgetIxs a) = length (computeBudgetIxsLabels a) \<and> length (setupIxs a) = length (setupIxsLabels a) \<and>
     length (inBetweenIxs a) = length (inBetweenIxsLabels a) \<and> length (lendingIxs a) = length (lendingIxsLabels a) \<and>
     length (cleanupIxs a) = length (cleanupIxsLabels a) \<and>
     length (refreshFarmsCleanupTxnIxs a) = length (refreshFarmsCleanupTxnIxsLabels a)"

lemma step_well_labelled: "step a b \<Longrightarrow> well_labelled a \<Longrightarrow> well_labelled b"
proof (induction rule: step.induct)
  case (push a aux ix l)
  then show ?case by (cases aux) (simp_all add: well_labelled_def)
qed (simp_all add: well_labelled_def unshift_setup_def push_farms_cleanup_def addComputeBudgetIxn_def addRefreshFarmsCleanupTxnIxsToCleanupIxs_def)

lemma steps_well_labelled: "steps a b \<Longrightarrow> well_labelled a \<Longrightarrow> well_labelled b"
  by (induction rule: rtranclp_induct) (auto intro: step_well_labelled)

lemma lends_well_labelled: "lends a b \<Longrightarrow> well_labelled a \<Longrightarrow> well_labelled b"
  by (auto simp: lends_def grown_def push_lending_def well_labelled_def)

lemma planned_well_labelled: "planned mk b \<Longrightarrow> well_labelled b"
proof -
  have "fresh mk a \<Longrightarrow> well_labelled a" for a by (simp add: fresh_def well_labelled_def)
  then show "planned mk b \<Longrightarrow> well_labelled b"
    unfolding planned_def by (metis steps_well_labelled lends_well_labelled)
qed

lemma steps_lendingIxs: "steps a b \<Longrightarrow> lendingIxs b = lendingIxs a"
proof (induction rule: rtranclp_induct)
  case (step y z)
  from step.hyps(2) have "lendingIxs z = lendingIxs y"
  proof (induction rule: step.induct)
    case (push a aux ix l)
    then show ?case by (cases aux) simp_all
  qed (simp_all add: unshift_setup_def push_farms_cleanup_def addComputeBudgetIxn_def addRefreshFarmsCleanupTxnIxsToCleanupIxs_def)
  then show ?case using step.IH by simp
qed simp

lemma lends_lendingIxs: "lends a b \<Longrightarrow> length (lendingIxs b) = Suc (length (lendingIxs a))"
  by (auto simp: lends_def grown_def push_lending_def)

lemma planned_lending: "planned mk b \<Longrightarrow> length (lendingIxs b) \<le> 2"
  by (auto simp: planned_def fresh_def dest!: steps_lendingIxs lends_lendingIxs)

lemma interleave_length: "length xs = length ys \<Longrightarrow> length s = length t \<Longrightarrow> length (interleave s xs) = length (interleave t ys)"
  by (induction xs ys rule: list_induct2) auto

lemma labels_length: "well_labelled a \<Longrightarrow> length (actionToIxLabels a) = length (actionToIxs a)"
  by (simp add: well_labelled_def actionToIxLabels_def actionToIxs_def actionToLendingIxLabels_def actionToLendingIxs_def
      interleave_length [of "lendingIxsLabels a" "lendingIxs a" "inBetweenIxsLabels a" "inBetweenIxs a"])

lemma transactions_eq: "length (lendingIxs a) \<le> 2 \<Longrightarrow> actionToIxs a = computeBudgetIxs a @ getTransactions a"
proof -
  assume "length (lendingIxs a) \<le> 2"
  then consider "lendingIxs a = []" | x where "lendingIxs a = [x]" | x y where "lendingIxs a = [x, y]"
    by (cases "lendingIxs a"; cases "tl (lendingIxs a)"; cases "tl (tl (lendingIxs a))") auto
  then show ?thesis by cases (simp_all add: actionToIxs_def getTransactions_def actionToLendingIxs_def)
qed

end
