(* ===== verification/Action_Order.thy ===== *)
theory Action_Order
  imports Action_Steps
begin

text \<open>
  The order of the instructions of an action, over the step relation of \<open>Action_Steps\<close>: what every method leaves alone
  (\<open>same_frame\<close>), when the setup instructions leave the obligation ready for a lending instruction (\<open>ready\<close>), that the
  supporting instructions of every single action end in such a state, that labels and instructions stay parallel, that
  \<open>getTransactions\<close> and \<open>actionToIxs\<close> agree, and that a deposit into a loaded obligation can always be built.
\<close>

section \<open>What the steps leave alone\<close>

definition obligation_reserves :: "kamino_action \<Rightarrow> pubkey set" where
  "obligation_reserves a = (case a_target a of Inl ob \<Rightarrow> set (hm_keys (deposits ob)) \<union> set (hm_keys (borrows ob)) | Inr _ \<Rightarrow> {})"

definition same_frame :: "kamino_action \<Rightarrow> kamino_action \<Rightarrow> bool" where
  "same_frame a b \<longleftrightarrow>
     a_market b = a_market a \<and> a_reserve b = a_reserve a \<and> a_outflowReserve b = a_outflowReserve a \<and> a_owner b = a_owner a \<and>
     a_payer b = a_payer a \<and> a_referrer b = a_referrer a \<and> a_mint b = a_mint a \<and> a_secondaryMint b = a_secondaryMint a \<and>
     a_amount b = a_amount a \<and> a_outflowAmount b = a_outflowAmount a \<and> a_currentSlot b = a_currentSlot a \<and>
     borrowReserves b = borrowReserves a \<and> obligation_reserves b = obligation_reserves a \<and> set (depositReserves a) \<subseteq> set (depositReserves b) \<and>
     set (depositReserves b) \<union> set (preLoadedDepositReservesSameTx b) \<subseteq>
       insert (r_address (a_reserve a)) (set (depositReserves a) \<union> set (preLoadedDepositReservesSameTx a))"

lemma step_same_frame: "step a b \<Longrightarrow> same_frame a b"
proof (induction rule: step.induct)
  case (push a aux ix l)
  then show ?case by (cases aux) (auto simp: same_frame_def obligation_reserves_def)
qed (auto simp: same_frame_def obligation_reserves_def unshift_setup_def push_farms_cleanup_def addComputeBudgetIxn_def
    addRefreshFarmsCleanupTxnIxsToCleanupIxs_def)

lemma same_frame_trans: "same_frame a b \<Longrightarrow> same_frame b c \<Longrightarrow> same_frame a c"
  by (auto simp: same_frame_def)

lemma steps_same_frame: "steps a b \<Longrightarrow> same_frame a b"
proof (induction rule: rtranclp_induct)
  case base
  then show ?case by (auto simp: same_frame_def)
next
  case (step y z)
  then show ?case by (blast intro: same_frame_trans step_same_frame)
qed

lemma steps_reserves: "steps a b \<Longrightarrow> set (depositReserves a) \<union> set (borrowReserves a) \<subseteq> set (depositReserves b) \<union> set (borrowReserves b)"
  by (drule steps_same_frame) (auto simp: same_frame_def)

lemma lends_same_frame: "lends a b \<Longrightarrow> same_frame a b"
proof -
  assume "lends a b"
  then obtain c ix l where "steps a c" "b = push_lending ix l c" by (auto simp: lends_def intro: grown_steps)
  then show ?thesis using steps_same_frame [of a c] by (auto simp: same_frame_def obligation_reserves_def push_lending_def)
qed

section \<open>The setup before the lending instruction\<close>

definition is_refresh_obligation :: "instruction \<Rightarrow> bool" where
  "is_refresh_obligation ix \<longleftrightarrow> ix_data ix = refreshObligation_identifier"

definition is_refresh_farm :: "instruction \<Rightarrow> bool" where
  "is_refresh_farm ix \<longleftrightarrow> take 8 (ix_data ix) = refreshObligationFarmsForReserve_identifier"

definition refreshes :: "kamino_market \<Rightarrow> pubkey \<Rightarrow> instruction \<Rightarrow> bool" where
  "refreshes mk k ix \<longleftrightarrow> (\<exists>r. getReserveByAddress mk k = Some r \<and> ix = refresh_reserve_ix mk (m_address mk) k (r_state r))"

text \<open>
  A list of instructions that ends, up to farm refreshes, with a refresh of the obligation which names the reserves of \<open>K\<close>, and in
  which every reserve of \<open>R\<close> is refreshed before that.
\<close>

definition ready :: "kamino_market \<Rightarrow> pubkey set \<Rightarrow> pubkey set \<Rightarrow> instruction list \<Rightarrow> bool" where
  "ready mk R K ixs \<longleftrightarrow> (\<exists>pre ro farms. ixs = pre @ ro # farms \<and> is_refresh_obligation ro \<and> (\<forall>k\<in>K. meta k False True \<in> set (ix_keys ro)) \<and>
     (\<forall>k\<in>R. \<exists>ix\<in>set pre. refreshes mk k ix) \<and> (\<forall>ix\<in>set farms. is_refresh_farm ix))"

lemma ready_Cons: "ready mk R K ixs \<Longrightarrow> ready mk R K (ix # ixs)"
  unfolding ready_def by (metis append_Cons list.set_intros(2))

lemma ready_farms: "ready mk R K ixs \<Longrightarrow> \<forall>ix\<in>set fs. is_refresh_farm ix \<Longrightarrow> ready mk R K (ixs @ fs)"
  unfolding ready_def by (elim exE conjE) (force intro!: exI)

lemma ready_last:
  "\<forall>k\<in>R. \<exists>ix\<in>set ixs. refreshes mk k ix \<Longrightarrow> \<forall>k\<in>K. meta k False True \<in> set (ix_keys ro) \<Longrightarrow> is_refresh_obligation ro \<Longrightarrow>
    ready mk R K (ixs @ [ro])"
  unfolding ready_def by (intro exI [of _ ixs] exI [of _ ro] exI [of _ "[]"]) simp

lemma addRefreshReserveIxs_Setup:
  assumes "addRefreshReserveIxs E ks Setup a = Inr b"
  shows "\<exists>ixs. setupIxs b = setupIxs a @ ixs \<and> (\<forall>k\<in>set ks. \<exists>ix\<in>set ixs. refreshes (a_market a) k ix) \<and> a_market b = a_market a"
  using assms
proof (induction ks arbitrary: a)
  case Nil
  then show ?case by (simp add: addRefreshReserveIxs_def)
next
  case (Cons k ks)
  from Cons.prems obtain r where r: "getReserveByAddress (a_market a) k = Some r"
    and "addRefreshReserveIxs E ks Setup (push_ix Setup (refresh_reserve_ix (a_market a) (m_address (a_market a)) k (r_state r))
        (refresh_reserve_label E k) a) = Inr b"
    by (auto simp: addRefreshReserveIxs_def bindE_Inr_iff split: option.splits)
  with Cons.IH [OF this(2)] show ?case by (auto simp: refreshes_def)
qed

lemma refresh_obligation_ix_is: "is_refresh_obligation (refresh_obligation_ix E skip a)"
  by (simp add: is_refresh_obligation_def refresh_obligation_ix_def refreshObligation_def Let_def)

lemma refresh_obligation_ix_keys:
  "k \<in> set (depositReserves a) \<union> set (borrowReserves a) \<Longrightarrow> meta k False True \<in> set (ix_keys (refresh_obligation_ix E [] a))"
  by (auto simp: refresh_obligation_ix_def Let_def reserve_metas_def without_def pks_new_def pks_contains_def pks_indexOf_def)

lemma addRefreshObligationIx_Setup:
  assumes "\<forall>k\<in>R. \<exists>ix\<in>set (setupIxs a). refreshes mk k ix" and "K \<subseteq> set (depositReserves a) \<union> set (borrowReserves a)"
  shows "ready mk R K (setupIxs (addRefreshObligationIx E Setup [] a))"
proof -
  let ?c = "getAdditionalDepositReservesList a"
  have "K \<subseteq> set (depositReserves ?c) \<union> set (borrowReserves ?c)"
    using assms(2) steps_same_frame [OF steps_getAdditional [of a]] by (auto simp: same_frame_def)
  then have "\<forall>k\<in>K. meta k False True \<in> set (ix_keys (refresh_obligation_ix E [] ?c))"
    using refresh_obligation_ix_keys by blast
  moreover have "setupIxs ?c = setupIxs a" by (simp add: getAdditionalDepositReservesList_def)
  ultimately show ?thesis
    using ready_last [OF _ _ refresh_obligation_ix_is, of R "setupIxs ?c" mk K E "[]" ?c] assms(1)
    by (simp add: addRefreshObligationIx_def Let_def)
qed

lemma ready_refreshes: "ready mk R K ixs \<Longrightarrow> \<forall>k\<in>R. \<exists>ix\<in>set ixs. refreshes mk k ix"
  by (fastforce simp: ready_def)

lemma push_ix_setup: "setupIxs (push_ix aux ix l a) = setupIxs a @ (if aux = Setup then [ix] else [])"
  by (cases aux) simp_all

lemma getAdditional_setup [simp]: "setupIxs (getAdditionalDepositReservesList a) = setupIxs a"
  by (simp add: getAdditionalDepositReservesList_def)

lemma addRefreshReserveIxs_other: "aux \<noteq> Setup \<Longrightarrow> addRefreshReserveIxs E ks aux a = Inr b \<Longrightarrow> setupIxs b = setupIxs a"
  unfolding addRefreshReserveIxs_def
  by (erule foldE_inv [where P = "\<lambda>x. setupIxs x = setupIxs a"]) (auto simp: push_ix_setup split: option.splits)

lemma addRefreshObligationIx_other: "aux \<noteq> Setup \<Longrightarrow> setupIxs (addRefreshObligationIx E aux skip a) = setupIxs a"
  by (simp add: addRefreshObligationIx_def Let_def push_ix_setup)

lemma addRequestElevationIx_setup:
  "addRequestElevationIx E g aux skip a = Inr b \<Longrightarrow> \<exists>ixs. setupIxs b = setupIxs a @ ixs \<and> (aux \<noteq> Setup \<longrightarrow> ixs = [])"
  by (auto simp: addRequestElevationIx_def Let_def bindE_Inr_iff push_ix_setup)

lemma request_with_refresh_ready:
  assumes r: "ready mk R K (setupIxs a)" and k: "K \<subseteq> set (depositReserves a) \<union> set (borrowReserves a)"
    and b: "request_with_refresh E g aux excl cur a = Inr b"
  shows "ready mk R K (setupIxs b)"
proof -
  from b obtain c d e where s: "addRequestElevationIx E g aux [] a = Inr c" "addRefreshReserveIxs E excl aux c = Inr d"
    "addRefreshReserveIxs E cur aux d = Inr e" "b = addRefreshObligationIx E aux [] e"
    by (auto simp: request_with_refresh_def bindE_Inr_iff)
  show ?thesis
  proof (cases "aux = Setup")
    case True
    then obtain x y z where "setupIxs e = setupIxs a @ x @ y @ z"
      using addRequestElevationIx_setup [OF s(1)] addRefreshReserveIxs_Setup [of E excl c d] addRefreshReserveIxs_Setup [of E cur d e] s
      by force
    then have "\<forall>k\<in>R. \<exists>ix\<in>set (setupIxs e). refreshes mk k ix" using ready_refreshes [OF r] by auto
    moreover have "steps a e" using s steps_trans steps_addRequestElevationIx steps_addRefreshReserveIxs by metis
    then have "K \<subseteq> set (depositReserves e) \<union> set (borrowReserves e)" using k steps_same_frame by (fastforce simp: same_frame_def)
    ultimately show ?thesis using addRefreshObligationIx_Setup s(4) True by simp
  next
    case False
    then show ?thesis
      using r s addRequestElevationIx_setup [OF s(1)] addRefreshReserveIxs_other [OF False s(2)] addRefreshReserveIxs_other [OF False s(3)]
        addRefreshObligationIx_other [OF False] by auto
  qed
qed

lemma request_after_repay_setup: "request_after_repay E override excl a = Inr b \<Longrightarrow> setupIxs b = setupIxs a"
  by (auto simp: request_after_repay_def bindE_Inr_iff Let_def addRefreshObligationIx_other split: if_splits
      dest!: addRequestElevationIx_setup addRefreshReserveIxs_other [rotated])

lemma request_for_borrow_ready:
  assumes r: "ready mk R K (setupIxs a)" and k: "K \<subseteq> set (depositReserves a) \<union> set (borrowReserves a)"
    and b: "request_for_borrow E action override excl cur a = Inr b"
  shows "ready mk R K (setupIxs b)"
proof -
  obtain group where "emode_for_borrow action override a = Inr group" using b by (auto simp: request_for_borrow_def bindE_Inr_iff)
  note b' = b [unfolded request_for_borrow_def this bindE_simps Let_def]
  show ?thesis
  proof (cases "group = None \<or> group = current_emode a")
    case True
    then have "b = a" using b' by (auto split: option.splits)
    then show ?thesis using r by simp
  next
    case False
    with b' obtain g aux c where "request_with_refresh E g aux excl cur a = Inr c" "setupIxs b = setupIxs c"
      by (cases group) (auto simp: bindE_Inr_iff split: if_splits)
    then show ?thesis using request_with_refresh_ready [OF r k] by simp
  qed
qed

lemma request_elevation_ready:
  assumes r: "ready mk R K (setupIxs a)" and k: "K \<subseteq> set (depositReserves a) \<union> set (borrowReserves a)"
    and b: "request_elevation E action override excl cur a = Inr b"
  shows "ready mk R K (setupIxs b)"
proof -
  show ?thesis
  proof (cases "action = ARepay \<or> action = ARepayAndWithdrawV2")
    case True
    then show ?thesis using b r request_after_repay_setup by (simp add: request_elevation_def)
  next
    case repay: False
    show ?thesis
    proof (cases "action = ADepositAndBorrow \<or> action = ABorrow")
      case True
      with repay b show ?thesis using request_for_borrow_ready [OF r k] by (simp add: request_elevation_def)
    next
      case False
      note b' = b [unfolded request_elevation_def if_not_P [OF repay] if_not_P [OF False] Let_def]
      show ?thesis
      proof (cases "override = None \<or> action \<noteq> AWithdraw \<and> (action \<noteq> ADeposit \<or> override = current_emode a)")
        case True
        then have "b = a" using b' by (auto split: option.splits if_splits)
        then show ?thesis using r by simp
      next
        case False
        then obtain g where g: "override = Some g" by auto
        show ?thesis
        proof (cases "action = ADeposit \<and> Some g \<noteq> current_emode a")
          case True
          then show ?thesis using b' g request_with_refresh_ready [OF r k] by simp
        next
          case other: False
          then obtain skip where "addRequestElevationIx E g Cleanup skip (addRefreshObligationIx E Cleanup skip a) = Inr b"
            using False b' g by auto
          then show ?thesis using r addRequestElevationIx_setup addRefreshObligationIx_other by fastforce
        qed
      qed
    qed
  qed
qed

lemma refresh_farm_data:
  "refreshObligationFarmsForReserve B mode accounts p = Inr ix \<Longrightarrow> is_refresh_farm ix"
  by (auto simp: refreshObligationFarmsForReserve_def ix_with_data_def bindE_Inr_iff is_refresh_farm_def refreshObligationFarmsForReserve_identifier_def)

lemma addRefreshFarmsForReserve_ready:
  assumes "ready mk R K (setupIxs a)" and "addRefreshFarmsForReserve E rs Setup mode crank two a = Inr b"
  shows "ready mk R K (setupIxs b)"
  using assms(2,1) unfolding addRefreshFarmsForReserve_def
proof (rule foldE_inv [where P = "\<lambda>x. ready mk R K (setupIxs x)"], goal_cases)
  case (1 s x s')
  then obtain ix l where "is_refresh_farm ix" "s' = push_refresh_farm Setup two ix l s"
    by (elim bindE_Inr_iff [THEN iffD1, THEN exE] conjE) (auto dest: refresh_farm_data)
  then have "setupIxs s' = setupIxs s @ [ix]" by (simp add: push_refresh_farm_def push_farms_cleanup_def)
  then show ?case using 1(2) \<open>is_refresh_farm ix\<close> ready_farms [of mk R K "setupIxs s" "[ix]"] by simp
qed

lemma add_refresh_farms_ready:
  assumes r: "ready mk R K (setupIxs a)" and b: "add_refresh_farms E action Setup two rs a = Inr b"
  shows "ready mk R K (setupIxs b)"
proof (cases "action = ALiquidate")
  case True
  with b obtain out c where "addRefreshFarmsForReserve E [out] Setup Collateral (a_payer a) False a = Inr c"
    "addRefreshFarmsForReserve E [a_reserve c] Setup Debt (a_payer c) False c = Inr b"
    by (auto simp: add_refresh_farms_def Let_def bindE_Inr_iff)
  then show ?thesis using addRefreshFarmsForReserve_ready [OF r] addRefreshFarmsForReserve_ready by blast
next
  case False
  with b obtain mode where "addRefreshFarmsForReserve E rs Setup mode (a_payer a) two a = Inr b"
    unfolding add_refresh_farms_def Let_def by (simp del: insert_iff split: if_split_asm)
  then show ?thesis by (rule addRefreshFarmsForReserve_ready [OF r])
qed

lemma steps_setup: "steps a b \<Longrightarrow> \<exists>us vs. setupIxs b = us @ setupIxs a @ vs"
proof (induction rule: rtranclp_induct)
  case base
  then show ?case by (metis append_Nil append_Nil2)
next
  case (step y z)
  from step.hyps(2) have "\<exists>us vs. setupIxs z = us @ setupIxs y @ vs"
  proof (induction rule: step.induct)
    case (push a aux ix l)
    then show ?case using push_ix_setup [of aux ix l a] by (metis append_Nil)
  next
    case (unshift a ix l)
    show ?case by (rule exI [of _ "[ix]"], rule exI [of _ "[]"]) (simp add: unshift_setup_def)
  qed (auto simp: push_farms_cleanup_def addComputeBudgetIxn_def addRefreshFarmsCleanupTxnIxsToCleanupIxs_def intro!: exI [of _ "[]"])
  then show ?case using step.IH by (metis append.assoc)
qed

lemma steps_keeps_refreshes:
  "steps a b \<Longrightarrow> \<forall>k\<in>R. \<exists>ix\<in>set (setupIxs a). refreshes mk k ix \<Longrightarrow> \<forall>k\<in>R. \<exists>ix\<in>set (setupIxs b). refreshes mk k ix"
  using steps_setup by fastforce

lemma current_reserves_own: "current_reserves action a = Inr (rs, b) \<Longrightarrow> a_reserve a \<in> set rs"
  by (auto simp: current_reserves_def bindE_Inr_iff split: if_splits)

lemma support_ready:
  assumes s: "addSupportIxsWithoutInitObligation E action ata v2 Setup emode farms two override a = Inr b" and act: "action \<in> set supported"
  shows "ready (a_market a) (insert (r_address (a_reserve a)) (set (depositReserves a) \<union> set (borrowReserves a)))
           (set (depositReserves a) \<union> set (borrowReserves a)) (setupIxs b)"
proof -
  let ?mk = "a_market a" and ?K = "set (depositReserves a) \<union> set (borrowReserves a)"
  from s act obtain c rs d e f g h i excl cur where t: "(if ata then addAtaIxs E action a else Inr a) = Inr c"
    "current_reserves action c = Inr (rs, d)" "cur = pks_new (map r_address rs)"
    "excl = filter (\<lambda>k. k \<notin> set cur) (pks_new (depositReserves d @ borrowReserves d))"
    "addRefreshReserveIxs E excl Setup d = Inr e" "(if farms then add_init_farms E action Setup e else Inr e) = Inr f"
    "addRefreshReserveIxs E cur Setup f = Inr g" "refresh_obligation_for E action Setup g = Inr h"
    "(if emode then request_elevation E action override excl cur h else Inr h) = Inr i"
    "(if v2 then Inr i else add_refresh_farms E action Setup two rs i) = Inr b"
    by (rule supportE)
  have ac: "steps a c" using t(1) by (auto split: if_splits intro: steps_addAtaIxs)
  have ad: "steps a d" using ac steps_current_reserves [OF t(2)] by (rule steps_trans)
  have de: "steps d e" and fg: "steps f g" using t(5,7) steps_addRefreshReserveIxs by blast+
  have ef: "steps e f" using t(6) by (auto split: if_splits intro: steps_add_init_farms)
  have eg: "steps e g" using ef fg by (rule steps_trans)
  have ag: "steps a g" using ad de eg by (meson steps_trans)
  have mk: "a_market d = ?mk" "a_market f = ?mk"
    using steps_same_frame [OF ad] steps_same_frame [OF steps_trans [OF ad steps_trans [OF de ef]]] by (auto simp: same_frame_def)
  have "\<forall>k\<in>set excl. \<exists>ix\<in>set (setupIxs e). refreshes ?mk k ix"
    using addRefreshReserveIxs_Setup [OF t(5)] mk by fastforce
  then have "\<forall>k\<in>set excl. \<exists>ix\<in>set (setupIxs g). refreshes ?mk k ix" by (rule steps_keeps_refreshes [OF eg])
  moreover have "\<forall>k\<in>set cur. \<exists>ix\<in>set (setupIxs g). refreshes ?mk k ix"
    using addRefreshReserveIxs_Setup [OF t(7)] mk by fastforce
  moreover have "insert (r_address (a_reserve a)) ?K \<subseteq> set excl \<union> set cur"
  proof -
    have "r_address (a_reserve a) \<in> set cur"
      using current_reserves_own [OF t(2)] steps_same_frame [OF ac]
      by (auto simp: t(3) pks_new_def pks_new_set same_frame_def)
    moreover have "?K \<subseteq> set (depositReserves d) \<union> set (borrowReserves d)" by (rule steps_reserves [OF ad])
    ultimately show ?thesis by (auto simp: t(4) pks_new_def pks_new_set)
  qed
  ultimately have "\<forall>k\<in>insert (r_address (a_reserve a)) ?K. \<exists>ix\<in>set (setupIxs g). refreshes ?mk k ix" by blast
  moreover have "?K \<subseteq> set (depositReserves g) \<union> set (borrowReserves g)" by (rule steps_reserves [OF ag])
  moreover have h: "h = addRefreshObligationIx E Setup [] g" using t(8) by (simp add: refresh_obligation_for_def)
  ultimately have "ready ?mk (insert (r_address (a_reserve a)) ?K) ?K (setupIxs h)" using addRefreshObligationIx_Setup by blast
  moreover have "?K \<subseteq> set (depositReserves h) \<union> set (borrowReserves h)"
    unfolding h by (rule steps_reserves [OF steps_trans [OF ag steps_addRefreshObligationIx]])
  ultimately have "ready ?mk (insert (r_address (a_reserve a)) ?K) ?K (setupIxs i)"
    using t(9) by (auto split: if_splits intro: request_elevation_ready)
  then show ?thesis using t(10) by (auto split: if_splits intro: add_refresh_farms_ready)
qed

lemma ready_mono: "ready mk R K ixs \<Longrightarrow> R' \<subseteq> R \<Longrightarrow> K' \<subseteq> K \<Longrightarrow> ready mk R' K' ixs"
  unfolding ready_def by blast

lemma add_scope_refresh_ready: "ready mk R K (setupIxs a) \<Longrightarrow> add_scope_refresh E feed a = Some (Inr b) \<Longrightarrow> ready mk R K (setupIxs b)"
  unfolding add_scope_refresh_def Let_def
  by (auto simp: bindE_Inr_iff addScopeRefreshIxs_def unshift_setup_def split: option.splits if_splits intro: ready_Cons)

lemma addSupportIxs_ready:
  assumes "addSupportIxs E action ata emode incl farms v2 feed lut two override a = Some (Inr b)" and "action \<in> set supported"
    and "obligation_reserves a \<subseteq> set (depositReserves a) \<union> set (borrowReserves a)"
  shows "ready (a_market a) (insert (r_address (a_reserve a)) (obligation_reserves a)) (obligation_reserves a) (setupIxs b)"
proof -
  from assms(1,2) obtain c d where s: "bindE (add_user_metadata E incl lut a) (addInitObligationIxs E) = Inr c"
    "addSupportIxsWithoutInitObligation E action ata v2 Setup emode farms two override c = Inr d" "add_scope_refresh E feed d = Some (Inr b)"
    by (auto simp: addSupportIxs_def bindO_Inr_iff bindE_Inr_iff supported_def)
  have "steps a c"
    using s(1) by (auto simp: bindE_Inr_iff intro: steps_trans [OF steps_add_user_metadata steps_addInitObligationIxs])
  then have f: "same_frame a c" by (rule steps_same_frame)
  have "ready (a_market a) (insert (r_address (a_reserve a)) (obligation_reserves a)) (obligation_reserves a) (setupIxs d)"
    by (rule ready_mono [OF support_ready [OF s(2) assms(2), unfolded conjunct1 [OF f [unfolded same_frame_def]]]])
      (use f assms(3) in \<open>auto simp: same_frame_def\<close>)
  then show ?thesis using s(3) by (rule add_scope_refresh_ready)
qed

section \<open>Single lending actions\<close>

inductive single_build :: "env \<Rightarrow> kamino_market \<Rightarrow> kamino_action \<Rightarrow> bool" for E mk where
  deposit: "buildDepositTxns E mk amount mint owner target opt = Some (Inr b) \<Longrightarrow> single_build E mk b"
| borrow: "buildBorrowTxns E mk amount mint owner target opt = Some (Inr b) \<Longrightarrow> single_build E mk b"
| collateral: "buildDepositObligationCollateralTxns E mk amount mint owner target opt = Some (Inr b) \<Longrightarrow> single_build E mk b"
| withdraw: "buildWithdrawTxns E mk amount mint owner target opt ks = Some (Inr b) \<Longrightarrow> single_build E mk b"
| repay: "buildRepayTxns E mk amount mint owner target opt payer = Some (Inr b) \<Longrightarrow> single_build E mk b"
| liquidate: "buildLiquidateTxns E mk amount amount' mint mint' liquidator owner target opt ltv = Some (Inr b) \<Longrightarrow> single_build E mk b"

definition holds_reserves :: "kamino_action \<Rightarrow> bool" where
  "holds_reserves a \<longleftrightarrow> obligation_reserves a \<subseteq> set (depositReserves a) \<union> set (borrowReserves a)"

lemma loadObligation_reserves:
  "loadObligation E action mk owner k target out = Inr lo \<Longrightarrow>
    (case target_of lo target of Inl ob \<Rightarrow> lo_depositReserves lo = hm_keys (deposits ob) \<and> lo_borrowReserves lo = hm_keys (borrows ob) | Inr _ \<Rightarrow> True)"
  by (auto simp: loadObligation_def target_of_def bindE_Inr_iff Let_def split: option.splits sum.splits if_splits)

lemma initialize_reserves: "initialize E action amount mint owner mk target referrer slot payer = Inr a \<Longrightarrow> holds_reserves a"
  by (auto simp: initialize_def bindE_Inr_iff new_KaminoAction_def holds_reserves_def obligation_reserves_def
      dest!: loadObligation_reserves split: sum.splits)

lemma initializeMulti_reserves:
  "initializeMultiTokenAction E mk action i m m' payer owner target out referrer slot = Inr a \<Longrightarrow> holds_reserves a"
  by (auto simp: initializeMultiTokenAction_def bindE_Inr_iff new_KaminoAction_def holds_reserves_def obligation_reserves_def
      dest!: loadObligation_reserves split: sum.splits option.splits if_splits)

lemma steps_holds_reserves: "steps a b \<Longrightarrow> holds_reserves a \<Longrightarrow> holds_reserves b"
  by (drule steps_same_frame) (auto simp: same_frame_def holds_reserves_def)

definition ready_action :: "kamino_market \<Rightarrow> kamino_action \<Rightarrow> bool" where
  "ready_action mk b \<longleftrightarrow> (\<exists>lend. lendingIxs b = [lend]) \<and>
     ready mk (insert (r_address (a_reserve b)) (obligation_reserves b)) (obligation_reserves b) (setupIxs b)"

lemma ready_actionI:
  assumes "fresh mk a" "holds_reserves a" "steps a c"
    and s: "addSupportIxs E action ata emode incl farms v2 feed lut two override c = Some (Inr d)" "action \<in> set supported"
    and b: "lends d e" "b = addRefreshFarmsCleanupTxnIxsToCleanupIxs e"
  shows "ready_action mk b"
proof -
  have f: "same_frame a c" "same_frame c d" "same_frame d e"
    using assms(3) steps_addSupportIxs [OF s(1)] b(1) steps_same_frame lends_same_frame by blast+
  then have "a_market c = mk" using assms(1) by (simp add: same_frame_def fresh_def)
  then have r: "ready mk (insert (r_address (a_reserve c)) (obligation_reserves c)) (obligation_reserves c) (setupIxs d)"
    using addSupportIxs_ready [OF s] steps_holds_reserves [OF assms(3,2)] by (simp add: holds_reserves_def)
  have e: "setupIxs b = setupIxs e" "lendingIxs b = lendingIxs e" "a_reserve b = a_reserve c" "obligation_reserves b = obligation_reserves c"
    using f by (simp_all add: b(2) addRefreshFarmsCleanupTxnIxsToCleanupIxs_def obligation_reserves_def same_frame_def)
  have "lendingIxs d = []" using assms(1) steps_lendingIxs [OF steps_trans [OF assms(3) steps_addSupportIxs [OF s(1)]]] by (simp add: fresh_def)
  then have "\<exists>lend. lendingIxs e = [lend]" using lends_lendingIxs [OF b(1)] by (simp add: length_Suc_conv)
  moreover have "setupIxs e = setupIxs d" using b(1) by (auto simp: lends_def grown_def push_lending_def)
  ultimately show ?thesis using r e by (simp add: ready_action_def)
qed

lemma ready_single:
  assumes "initialize E action amount mint owner mk target referrer slot payer = Inr a" "steps a c"
    and "addSupportIxs E action' ata emode incl farms v2 feed lut two override c = Some (Inr d)" "action' \<in> set supported"
    and "finish_with f d = Some (Inr b)" "\<And>e. f d = Inr e \<Longrightarrow> lends d e"
  shows "ready_action mk b"
proof -
  from assms(5) obtain e where e: "f d = Inr e" "b = addRefreshFarmsCleanupTxnIxsToCleanupIxs e" by (auto simp: finish_with_Inr)
  show ?thesis
    by (rule ready_actionI [OF initialize_fresh [OF assms(1)] initialize_reserves [OF assms(1)] assms(2-4) assms(6) [OF e(1)] e(2)])
qed

lemma supported_actions:
  "ADeposit \<in> set supported" "ABorrow \<in> set supported" "ADepositCollateral \<in> set supported" "AWithdraw \<in> set supported"
  "ARepay \<in> set supported" "ALiquidate \<in> set supported"
  by (simp_all add: supported_def)

lemma ready_deposit: "buildDepositTxns E mk amount mint owner target opt = Some (Inr b) \<Longrightarrow> ready_action mk b"
  by (auto simp: buildDepositTxns_def build_defs elim!: ready_single [OF _ steps_compute_budget _ supported_actions(1)]
      intro: lends_single split: if_splits)

lemma ready_borrow: "buildBorrowTxns E mk amount mint owner target opt = Some (Inr b) \<Longrightarrow> ready_action mk b"
  by (auto simp: buildBorrowTxns_def build_defs
      elim!: ready_single [OF _ steps_trans [OF steps_compute_budget steps_init_referrer_state] _ supported_actions(2)]
      intro: lends_single split: if_splits)

lemma ready_collateral: "buildDepositObligationCollateralTxns E mk amount mint owner target opt = Some (Inr b) \<Longrightarrow> ready_action mk b"
  by (auto simp: buildDepositObligationCollateralTxns_def build_defs elim!: ready_single [OF _ steps_compute_budget _ supported_actions(3)]
      intro: lends_single split: if_splits)

lemma ready_repay: "buildRepayTxns E mk amount mint owner target opt payer = Some (Inr b) \<Longrightarrow> ready_action mk b"
  by (auto simp: buildRepayTxns_def build_defs elim!: ready_single [OF _ steps_compute_budget _ supported_actions(5)]
      intro: lends_single split: if_splits)

lemma ready_withdraw: "buildWithdrawTxns E mk amount mint owner target opt ks = Some (Inr b) \<Longrightarrow> ready_action mk b"
proof -
  assume b: "buildWithdrawTxns E mk amount mint owner target opt ks = Some (Inr b)"
  then obtain a d e where s: "initialize E AWithdraw amount mint owner mk target (opt_referrer opt) (opt_currentSlot opt) None = Inr a"
    "support E opt AWithdraw (scopeRefreshConfig opt) False (compute_budget E (extraComputeBudget opt) (a\<lparr>depositReserves := depositReserves a @ ks\<rparr>))
       = Some (Inr d)" "lends d e" "b = addRefreshFarmsCleanupTxnIxsToCleanupIxs e"
    by (auto simp: buildWithdrawTxns_def bindO_Inr_iff bindE_Inr_iff Let_def compute_budget_deposits finish_with_Inr
        dest: lends_single split: if_splits)
  have "holds_reserves (a\<lparr>depositReserves := depositReserves a @ ks\<rparr>)"
    using initialize_reserves [OF s(1)] by (auto simp: holds_reserves_def obligation_reserves_def)
  then show ?thesis
    by (rule ready_actionI [OF fresh_deposits [OF initialize_fresh [OF s(1)]] _ steps_compute_budget s(2) [unfolded support_def]
          supported_actions(4) s(3,4)])
qed

lemma ready_liquidate:
  "buildLiquidateTxns E mk amount amount' mint mint' liquidator owner target opt ltv = Some (Inr b) \<Longrightarrow> ready_action mk b"
proof -
  assume b: "buildLiquidateTxns E mk amount amount' mint mint' liquidator owner target opt ltv = Some (Inr b)"
  then obtain a d e where s: "initializeMultiTokenAction E mk ALiquidate amount mint mint' liquidator owner target (Some amount')
      (opt_referrer opt) (opt_currentSlot opt) = Inr a"
    "support E (opt\<lparr>overrideElevationGroupRequest := None\<rparr>) ALiquidate (scopeRefreshConfig opt) False
      (compute_budget E (extraComputeBudget opt) a) = Some (Inr d)" "lends d e" "b = addRefreshFarmsCleanupTxnIxsToCleanupIxs e"
    by (auto simp: buildLiquidateTxns_def bindO_Inr_iff finish_with_Inr dest: lends_single split: if_splits)
  then show ?thesis
    by (intro ready_actionI [OF initializeMulti_fresh [OF s(1)] initializeMulti_reserves [OF s(1)] steps_compute_budget s(2) [unfolded support_def]
          supported_actions(6) s(3,4)])
qed

lemma single_build_ready: "single_build E mk b \<Longrightarrow> ready_action mk b"
  by (induction rule: single_build.induct)
    (rule ready_deposit ready_borrow ready_collateral ready_withdraw ready_repay ready_liquidate; assumption)+

text \<open>
  C1. Order of a single lending action (deposit, deposit of collateral, borrow, withdraw, repay, liquidate), whatever its options: there is one
  lending instruction; between it and the last refresh of the obligation stand only farm refreshes; that refresh names every
  deposit and borrow reserve of the obligation, and each of these reserves and the reserve of the action is refreshed before it.
\<close>

theorem refreshed_before_lending:
  assumes "single_build E mk b"
  shows "\<exists>pre ro farms lend post. actionToIxs b = pre @ ro # farms @ lend # post \<and> lendingIxs b = [lend] \<and> cleanupIxs b = post \<and>
    is_refresh_obligation ro \<and> (\<forall>ix\<in>set farms. is_refresh_farm ix) \<and>
    (\<forall>k\<in>obligation_reserves b. meta k False True \<in> set (ix_keys ro)) \<and>
    (\<forall>k\<in>insert (r_address (a_reserve b)) (obligation_reserves b). \<exists>ix\<in>set pre. refreshes mk k ix)"
proof -
  from single_build_ready [OF assms] obtain lend pre ro farms where "lendingIxs b = [lend]" "setupIxs b = pre @ ro # farms"
    "is_refresh_obligation ro" "\<forall>k\<in>obligation_reserves b. meta k False True \<in> set (ix_keys ro)"
    "\<forall>k\<in>insert (r_address (a_reserve b)) (obligation_reserves b). \<exists>ix\<in>set pre. refreshes mk k ix" "\<forall>ix\<in>set farms. is_refresh_farm ix"
    unfolding ready_action_def ready_def by blast
  then show ?thesis
    by (intro exI [of _ "computeBudgetIxs b @ pre"] exI [of _ ro] exI [of _ farms] exI [of _ lend] exI [of _ "cleanupIxs b"])
      (auto simp: actionToIxs_def actionToLendingIxs_def)
qed

text \<open>
  C14. Every instruction an action sends has its label: for every action the build functions return, the list of labels is as long as
  the list of instructions, and so are the six buckets.
\<close>

theorem labels_parallel:
  assumes "built E mk b"
  shows "length (actionToIxLabels b) = length (actionToIxs b) \<and> well_labelled b"
  using planned_well_labelled [OF built_planned [OF assms]] labels_length by blast

text \<open>
  C16. The two ways to read a built action agree: \<open>actionToIxs\<close> is the compute budget followed by the instructions of
  \<open>getTransactions\<close>, which leaves the compute budget out. The special case of two lending instructions in \<open>getTransactions\<close>
  is enough because no action has more.
\<close>

theorem transactions_agree:
  assumes "built E mk b"
  shows "actionToIxs b = computeBudgetIxs b @ getTransactions b"
  by (rule transactions_eq [OF planned_lending [OF built_planned [OF assms]]])

text \<open>
  A deposit and withdraw cannot be built: \<open>initializeMultiTokenAction\<close> accepts every other two-token action but rejects this
  one, so \<open>buildDepositAndWithdrawV2Txns\<close> throws on every input.
\<close>

lemma deposit_and_withdraw_throws:
  "\<exists>e. buildDepositAndWithdrawV2Txns E mk depositAmount depositMint withdrawAmount withdrawMint payer target opt = Some (Inl e)"
proof -
  have "\<exists>e. initializeMultiTokenAction E mk ADepositAndWithdraw depositAmount depositMint withdrawMint payer payer target
      (Some withdrawAmount) (opt_referrer opt) (opt_currentSlot opt) = Inl e"
    unfolding initializeMultiTokenAction_def
    by (auto simp: bindE_def split: option.splits sum.splits)
  then show ?thesis by (auto simp: buildDepositAndWithdrawV2Txns_def bindO_def)
qed

section \<open>A deposit can always be built\<close>

lemma ix_with_data_total: "length args \<le> 1000 \<Longrightarrow> \<exists>ix. ix_with_data ks p i args = Inr ix"
  by (simp add: ix_with_data_def encode_into_def)

lemma bo_bn_length: "borsh_laws B \<Longrightarrow> \<bar>v\<bar> < 2 ^ 64 \<Longrightarrow> length (bo_bn B 8 v) = 8"
  by (simp add: bo_bn_def borsh_laws.uint_length)

lemma bo_byte_length: "borsh_laws B \<Longrightarrow> v < 256 \<Longrightarrow> length (bo_uint B 1 v) = 1"
  by (simp add: borsh_laws.uint_length)

lemma addRefreshReserveIxs_total:
  "\<forall>k\<in>set ks. getReserveByAddress (a_market a) k \<noteq> None \<Longrightarrow> \<exists>b. addRefreshReserveIxs E ks aux a = Inr b"
proof (induction ks arbitrary: a)
  case Nil
  then show ?case by (simp add: addRefreshReserveIxs_def)
next
  case (Cons k ks)
  then obtain r where r: "getReserveByAddress (a_market a) k = Some r" by auto
  let ?a = "push_ix aux (refresh_reserve_ix (a_market a) (m_address (a_market a)) k (r_state r)) (refresh_reserve_label E k) a"
  have "a_market ?a = a_market a" by (cases aux) simp_all
  with Cons have "\<exists>b. addRefreshReserveIxs E ks aux ?a = Inr b" by simp
  with r show ?case by (simp add: addRefreshReserveIxs_def)
qed

lemma addInitObligationForFarm_total: "borsh_laws (borsh E) \<Longrightarrow> \<exists>b. addInitObligationForFarm E r mode aux a = Inr b"
  using ix_with_data_total [of "bo_uint (borsh E) 1 (farm_discriminator mode)"] bo_byte_length [of "borsh E" "farm_discriminator mode"]
  by (cases mode) (auto simp: addInitObligationForFarm_def Let_def initObligationFarmsForReserve_def ix_with_data_def encode_into_def)

lemma addRefreshFarmsForReserve_total: "borsh_laws (borsh E) \<Longrightarrow> \<exists>b. addRefreshFarmsForReserve E rs aux mode crank two a = Inr b"
  unfolding addRefreshFarmsForReserve_def
  by (rule foldE_total) (cases mode;
    simp add: refreshObligationFarmsForReserve_def ix_with_data_def encode_into_def bo_byte_length [simplified])

lemma addRequestElevationIx_total:
  assumes "borsh_laws (borsh E)" "g < 256" "\<forall>k\<in>set (borrowReserves a). getReserveByAddress (a_market a) k \<noteq> None"
  shows "\<exists>b. addRequestElevationIx E g aux skip a = Inr b"
proof -
  let ?a = "getAdditionalDepositReservesList a" and ?p = "m_programId (a_market a)"
  have "\<exists>ms. mapE (\<lambda>k. if a_referrer ?a = default_pubkey then Inr (meta ?p False False)
      else bindE (deref (getReserveByAddress (a_market ?a) k)) (\<lambda>r.
        Inr (meta (referrerTokenStatePda (sol E) (a_referrer ?a) (r_address r) ?p) False True))) (without skip (borrowReserves ?a)) = Inr ms"
    by (rule mapE_total) (use assms(3) in \<open>auto simp: without_def getAdditionalDepositReservesList_def\<close>)
  then show ?thesis
    using assms(1,2) by (auto simp: addRequestElevationIx_def Let_def requestElevationGroup_def ix_with_data_def encode_into_def bo_byte_length [simplified])
qed

lemma request_with_refresh_total:
  assumes "borsh_laws (borsh E)" "g < 256" and k: "\<forall>k\<in>set (borrowReserves a) \<union> set excl \<union> set cur. getReserveByAddress (a_market a) k \<noteq> None"
  shows "\<exists>b. request_with_refresh E g aux excl cur a = Inr b"
proof -
  obtain c where c: "addRequestElevationIx E g aux [] a = Inr c" using addRequestElevationIx_total [OF assms(1,2)] k by blast
  then have mc: "a_market c = a_market a" using steps_same_frame [OF steps_addRequestElevationIx [OF c]] by (simp add: same_frame_def)
  then obtain d where d: "addRefreshReserveIxs E excl aux c = Inr d" using addRefreshReserveIxs_total [of excl c E aux] k by auto
  then have "a_market d = a_market a" using mc steps_same_frame [OF steps_addRefreshReserveIxs [OF d]] by (simp add: same_frame_def)
  then obtain e where "addRefreshReserveIxs E cur aux d = Inr e" using addRefreshReserveIxs_total [of cur d E aux] k by auto
  with c d show ?thesis by (simp add: request_with_refresh_def)
qed

lemma addAtaIxs_deposit_total: "a_secondaryMint a = None \<Longrightarrow> \<exists>b. addAtaIxs E ADeposit a = Inr b"
  by (auto simp: addAtaIxs_def Let_def updateWSOLAccount_def safe_repay_def wsol_account_def case_prod_unfold split: option.splits)

lemma add_init_farms_deposit_total: "borsh_laws (borsh E) \<Longrightarrow> a_outflowReserve a = None \<Longrightarrow> \<exists>b. add_init_farms E ADeposit aux a = Inr b"
  using addInitObligationForFarm_total [of E "a_reserve a" Collateral aux a]
  by (auto simp: add_init_farms_def Let_def init_farm_if_def)

lemma request_elevation_deposit_total:
  assumes "borsh_laws (borsh E)" "\<forall>g. override = Some g \<longrightarrow> g < 256"
    and "\<forall>k\<in>set (borrowReserves a) \<union> set excl \<union> set cur. getReserveByAddress (a_market a) k \<noteq> None"
  shows "\<exists>b. request_elevation E ADeposit override excl cur a = Inr b"
proof (cases override)
  case (Some g)
  then show ?thesis using request_with_refresh_total [OF assms(1) _ assms(3), of g Setup] assms(2) by (auto simp: request_elevation_def)
qed (simp add: request_elevation_def)

lemma support_deposit_total:
  assumes B: "borsh_laws (borsh E)" and a: "a_secondaryMint a = None" "a_outflowReserve a = None"
    and k: "\<forall>k\<in>insert (r_address (a_reserve a)) (set (depositReserves a) \<union> set (borrowReserves a) \<union> set (preLoadedDepositReservesSameTx a)).
      getReserveByAddress (a_market a) k \<noteq> None"
    and g: "\<forall>g. override = Some g \<longrightarrow> g < 256"
  shows "\<exists>b. addSupportIxsWithoutInitObligation E ADeposit ata v2 Setup emode farms two override a = Inr b"
proof -
  define K where "K = insert (r_address (a_reserve a)) (set (depositReserves a) \<union> set (borrowReserves a) \<union> set (preLoadedDepositReservesSameTx a))"
  have found: "getReserveByAddress (a_market x) k \<noteq> None" if "steps a x" "k \<in> K" for x k
    using k that steps_same_frame [of a x] by (auto simp: K_def same_frame_def)
  obtain c where c: "(if ata then addAtaIxs E ADeposit a else Inr a) = Inr c" using addAtaIxs_deposit_total [OF a(1), of E] by (cases ata) auto
  then have ac: "steps a c" by (auto split: if_splits intro: steps_addAtaIxs)
  note fc = steps_same_frame [OF ac, unfolded same_frame_def]
  define cur excl where "cur = pks_new [r_address (a_reserve c)]" and "excl = filter (\<lambda>k. k \<notin> set cur) (pks_new (depositReserves c @ borrowReserves c))"
  have sub: "set cur \<subseteq> K" "set excl \<subseteq> K" using fc by (auto simp: cur_def excl_def K_def pks_new_def pks_new_set pks_add_set)
  obtain e where e: "addRefreshReserveIxs E excl Setup c = Inr e" using addRefreshReserveIxs_total found [OF ac] sub by blast
  then have ae: "steps a e" using ac steps_addRefreshReserveIxs steps_trans by blast
  have oe: "a_outflowReserve e = None" using a steps_same_frame [OF ae] by (simp add: same_frame_def)
  obtain f where f: "(if farms then add_init_farms E ADeposit Setup e else Inr e) = Inr f"
    using add_init_farms_deposit_total [OF B oe, of Setup] by (cases farms) auto
  then have af: "steps a f" using ae by (auto split: if_splits intro: steps_trans [OF _ steps_add_init_farms])
  obtain g where h: "addRefreshReserveIxs E cur Setup f = Inr g" using addRefreshReserveIxs_total found [OF af] sub by blast
  let ?h = "addRefreshObligationIx E Setup [] g"
  have ah: "steps a ?h" using af steps_addRefreshReserveIxs [OF h] steps_addRefreshObligationIx steps_trans by blast
  then have "\<forall>k\<in>set (borrowReserves ?h) \<union> set excl \<union> set cur. getReserveByAddress (a_market ?h) k \<noteq> None"
    using found sub steps_same_frame [OF ah] by (auto simp: K_def same_frame_def)
  then obtain i where i: "(if emode then request_elevation E ADeposit override excl cur ?h else Inr ?h) = Inr i"
    using request_elevation_deposit_total [OF B assms(5), of ?h excl cur] by (cases emode) auto
  have "\<exists>b. (if v2 then Inr i else add_refresh_farms E ADeposit Setup two [a_reserve c] i) = Inr b"
    using addRefreshFarmsForReserve_total [OF B] by (auto simp: add_refresh_farms_def)
  with c e f h i show ?thesis
    by (auto simp: addSupportIxsWithoutInitObligation_def current_reserves_def supported_def refresh_obligation_for_def pks_toArray_def Let_def
        cur_def excl_def)
qed

definition chains_end :: "kamino_reserve \<Rightarrow> bool" where
  "chains_end r \<longleftrightarrow> (let sc = scopeConfiguration (tokenInfo (config (r_state r))) in
     priceFeed sc = default_pubkey \<or> U16_MAX \<in> set (priceChain sc) \<and> U16_MAX \<in> set (twapChain sc))"

lemma scope_token_ids_total:
  "\<forall>k\<in>set ks. \<exists>r. getReserveByAddress mk k = Some r \<and> chains_end r \<Longrightarrow> \<exists>ids. scope_token_ids mk ks acc = Some (Inr ids)"
proof (induction ks arbitrary: acc)
  case (Cons k ks)
  then obtain r where r: "getReserveByAddress mk k = Some r" "chains_end r" by auto
  have loop: "\<exists>ids. chain_loop chain 0 acc = Some ids" if "U16_MAX \<in> set chain" for chain acc
    using chain_loop_returns [of 0 chain acc] that by simp
  let ?sc = "scopeConfiguration (tokenInfo (config (r_state r)))"
  show ?case
  proof (cases "priceFeed ?sc = default_pubkey")
    case True
    then show ?thesis using r(1) Cons by (simp add: Let_def)
  next
    case False
    then have e: "U16_MAX \<in> set (priceChain ?sc)" "U16_MAX \<in> set (twapChain ?sc)" using r(2) by (simp_all add: chains_end_def Let_def)
    obtain i where i: "chain_loop (priceChain ?sc) 0 acc = Some i" using loop [OF e(1)] by blast
    obtain j where j: "chain_loop (twapChain ?sc) 0 i = Some j" using loop [OF e(2)] by blast
    have "\<exists>ids. scope_token_ids mk ks j = Some (Inr ids)" using Cons by simp
    then show ?thesis using False r(1) i j by (simp add: Let_def)
  qed
qed simp

lemma add_scope_refresh_total:
  assumes "\<forall>k\<in>insert (r_address (a_reserve a)) (set (depositReserves a) \<union> set (borrowReserves a) \<union> set (preLoadedDepositReservesSameTx a)).
      \<exists>r. getReserveByAddress (a_market a) k = Some r \<and> chains_end r"
    and "a_outflowReserve a = None" "\<forall>f ids. feed = Some f \<longrightarrow> (\<exists>ix. refreshPriceListIx E f ids = Inr ix)"
  shows "\<exists>b. add_scope_refresh E feed a = Some (Inr b)"
proof -
  let ?ks = "pks_toArray (pks_new (depositReserves a @ borrowReserves a @ [r_address (a_reserve a)] @ [] @ preLoadedDepositReservesSameTx a))"
  have "\<exists>ids. getTokenIdsForScopeRefresh (a_market a) ?ks = Some (Inr ids)"
    unfolding getTokenIdsForScopeRefresh_def
    by (rule scope_token_ids_total) (use assms(1) in \<open>auto simp: pks_toArray_def pks_new_def pks_new_set pks_add_set\<close>)
  then obtain ids where ids: "getTokenIdsForScopeRefresh (a_market a) ?ks = Some (Inr ids)" by blast
  show ?thesis
  proof (cases feed)
    case None
    then show ?thesis using ids assms(2) by (simp add: add_scope_refresh_def)
  next
    case (Some f)
    then obtain ix where "refreshPriceListIx E f ids = Inr ix" using assms(3) by blast
    then show ?thesis using Some ids assms(2) by (simp add: add_scope_refresh_def addScopeRefreshIxs_def)
  qed
qed

text \<open>What a deposit into an existing obligation needs of the market, the user's metadata account and the packages.\<close>

definition deposit_possible :: "env \<Rightarrow> kamino_market \<Rightarrow> int \<Rightarrow> pubkey \<Rightarrow> pubkey \<Rightarrow> kamino_obligation \<Rightarrow> options \<Rightarrow> bool" where
  "deposit_possible E mk amount mint owner ob opt \<longleftrightarrow>
     \<bar>amount\<bar> < 2 ^ 64 \<and>
     (\<exists>r. getReserveByMint mk mint = Some r \<and> getReserveByAddress mk (r_address r) = Some r \<and> chains_end r) \<and>
     (\<forall>k\<in>set (hm_keys (deposits ob)) \<union> set (hm_keys (borrows ob)). \<exists>r. getReserveByAddress mk k = Some r \<and> chains_end r) \<and>
     (\<exists>u. getUserMetadata E mk owner = Inr u) \<and>
     (\<forall>g. overrideElevationGroupRequest opt = Some g \<longrightarrow> g < 256) \<and>
     (\<forall>f ids. scopeRefreshConfig opt = Some f \<longrightarrow> (\<exists>ix. refreshPriceListIx E f ids = Inr ix))"

lemma add_user_metadata_total:
  assumes "borsh_laws (borsh E)" and "getUserMetadata E (a_market a) (a_owner a) = Inr u"
  shows "\<exists>b. add_user_metadata E incl lut a = Inr b"
proof -
  have "\<exists>b. addInitUserMetadataIxs E t x = Inr b" for t x
    by (simp add: addInitUserMetadataIxs_def Let_def initUserMetadata_def ix_with_data_def encode_into_def borsh_laws.key_length [OF assms(1)])
  then show ?thesis using assms(2) by (auto simp: add_user_metadata_def case_prod_unfold Let_def)
qed

lemma support_all_deposit_total:
  assumes B: "borsh_laws (borsh E)" and a: "a_secondaryMint a = None" "a_outflowReserve a = None" "a_target a = Inl ob"
    and k: "\<forall>k\<in>insert (r_address (a_reserve a)) (set (depositReserves a) \<union> set (borrowReserves a) \<union> set (preLoadedDepositReservesSameTx a)).
      \<exists>r. getReserveByAddress (a_market a) k = Some r \<and> chains_end r"
    and g: "\<forall>g. override = Some g \<longrightarrow> g < 256" and u: "getUserMetadata E (a_market a) (a_owner a) = Inr u"
    and feed: "\<forall>f ids. feed = Some f \<longrightarrow> (\<exists>ix. refreshPriceListIx E f ids = Inr ix)"
  shows "\<exists>b. addSupportIxs E ADeposit ata emode incl farms v2 feed lut two override a = Some (Inr b)"
proof -
  obtain c where c: "add_user_metadata E incl lut a = Inr c" using add_user_metadata_total [OF B u] by blast
  have "a_target c = a_target a"
    using c by (auto simp: add_user_metadata_def addInitUserMetadataIxs_def bindE_Inr_iff case_prod_unfold Let_def split: if_splits)
  then have c': "bindE (add_user_metadata E incl lut a) (addInitObligationIxs E) = Inr c" using c a(3) by (simp add: addInitObligationIxs_def)
  note fc = steps_same_frame [OF steps_add_user_metadata [OF c], unfolded same_frame_def]
  have kc: "\<forall>k\<in>insert (r_address (a_reserve c)) (set (depositReserves c) \<union> set (borrowReserves c) \<union> set (preLoadedDepositReservesSameTx c)).
      \<exists>r. getReserveByAddress (a_market c) k = Some r \<and> chains_end r"
    using k fc by auto
  then obtain d where d: "addSupportIxsWithoutInitObligation E ADeposit ata v2 Setup emode farms two override c = Inr d"
    using support_deposit_total [OF B, of c override ata v2 emode farms two] a fc g by (metis option.distinct(1))
  note fd = steps_same_frame [OF steps_support [OF d], unfolded same_frame_def]
  have "\<exists>b. add_scope_refresh E feed d = Some (Inr b)"
    by (rule add_scope_refresh_total [OF _ _ feed]) (use kc fd fc a in auto)
  with c' d show ?thesis by (auto simp: addSupportIxs_def bindO_def)
qed

lemma deposit_total:
  assumes B: "borsh_laws (borsh E)" and ok: "deposit_possible E mk amount mint owner ob opt"
  shows "\<exists>b. buildDepositTxns E mk amount mint owner (Inl ob) opt = Some (Inr b)"
proof -
  from ok obtain r where r: "getReserveByMint mk mint = Some r" "getReserveByAddress mk (r_address r) = Some r" "chains_end r"
    by (auto simp: deposit_possible_def)
  then obtain a where a: "initialize E ADeposit amount mint owner mk (Inl ob) (opt_referrer opt) (opt_currentSlot opt) None = Inr a"
    "a_secondaryMint a = None" "a_outflowReserve a = None" "a_target a = Inl ob" "a_reserve a = r" "a_market a = mk" "a_owner a = owner"
    "depositReserves a = hm_keys (deposits ob)" "borrowReserves a = hm_keys (borrows ob)" "preLoadedDepositReservesSameTx a = []" "a_amount a = amount"
    by (cases "opt_referrer opt = default_pubkey") (simp_all add: initialize_def need_def loadObligation_def getReferrerKey_def target_of_def new_KaminoAction_def Let_def)
  let ?c = "compute_budget E (extraComputeBudget opt) a"
  have c: "a_secondaryMint ?c = None" "a_outflowReserve ?c = None" "a_target ?c = Inl ob" "a_reserve ?c = r" "a_market ?c = mk" "a_owner ?c = owner"
    "depositReserves ?c = hm_keys (deposits ob)" "borrowReserves ?c = hm_keys (borrows ob)" "preLoadedDepositReservesSameTx ?c = []" "a_amount ?c = amount"
    using a by (simp_all add: compute_budget_def addComputeBudgetIxn_def)
  have "\<exists>d. support E opt ADeposit (scopeRefreshConfig opt) False ?c = Some (Inr d)"
    unfolding support_def
    using ok r by (auto simp: deposit_possible_def c intro!: support_all_deposit_total [OF B c(1-3)])
  then obtain d where d: "support E opt ADeposit (scopeRefreshConfig opt) False ?c = Some (Inr d)" by blast
  have "a_amount d = amount" using steps_same_frame [OF steps_support_opt [OF d]] c(10) by (simp add: same_frame_def)
  then have "length (bo_bn (borsh E) 8 (a_amount d)) = 8" using bo_bn_length [OF B] ok by (simp add: deposit_possible_def)
  then have "\<exists>e. (if useV2Ixs opt then addDepositIxV2 E d else addDepositIx E d) = Inr e"
    by (simp add: addDepositIxV2_def addDepositIx_def depositReserveLiquidityAndObligationCollateralV2_def
        depositReserveLiquidityAndObligationCollateral_def ix_with_data_def encode_into_def)
  with a(1) d show ?thesis by (auto simp: buildDepositTxns_def bindO_def finish_with_def)
qed

section \<open>A sample deposit\<close>

text \<open>An environment in which no account exists yet and the packages' instructions carry no accounts.\<close>

definition sample_env :: env where
  "sample_env =
     (let blank = \<lparr>ix_keys = [], ix_programId = 99, ix_data = []\<rparr> in
      \<lparr>sol = sample_solana, borsh = borsh_le, num = decimal_js, setComputeUnitLimit = (\<lambda>_. blank), sys_transfer = (\<lambda>_ _ _. blank),
       createCloseAccountInstruction = (\<lambda>_ _ _ _. blank), createSyncNativeInstruction = (\<lambda>_. blank), createAtaIx = (\<lambda>_ _ _ _ _ _. blank),
       createLookupTable = (\<lambda>_ _ _. (blank, 55)), refreshPriceListIx = (\<lambda>_ _. Inr blank), getAccountInfo = (\<lambda>_. None),
       getMinimumBalanceForRentExemption = (\<lambda>_. Fin 2039280), getSlot = 1000\<rparr>)"

definition sample_position :: "pubkey \<Rightarrow> pubkey \<Rightarrow> position" where
  "sample_position address mint = \<lparr>reserveAddress = address, p_mintAddress = mint, p_amount = Fin 100000000, marketValueRefreshed = Fin 100\<rparr>"

definition sample_loan :: kamino_obligation where
  "sample_loan =
     \<lparr>obligationAddress = 70, ob_state = sample_obligation, deposits = hm_set hm_empty 102 (sample_position 102 21),
      borrows = hm_set hm_empty 101 (sample_position 101 11),
      refreshedStats =
        \<lparr>userTotalDeposit = Fin 100, userTotalCollateralDeposit = Fin 100, userTotalLiquidatableDeposit = Fin 100, userTotalBorrow = Fin 100,
         userTotalBorrowBorrowFactorAdjusted = Fin 100, os_borrowLimit = Fin 90, borrowLiquidationLimit = Fin 92, borrowUtilization = Fin 1,
         netAccountValue = Fin 0, os_loanToValue = Fin 1, liquidationLtv = Fin (92 / 100), leverage = Fin 1, potentialElevationGroupUpdate = 0\<rparr>,
      obligationTag = 0\<rparr>"

definition sample_options :: options where
  "sample_options =
     \<lparr>useV2Ixs = False, scopeRefreshConfig = Some ''hubble'', extraComputeBudget = 1000000, includeAtaIxns = True, requestElevation = False,
      includeUserMetadata = True, withLookupTable = True, opt_referrer = default_pubkey, opt_currentSlot = 1000,
      overrideElevationGroupRequest = None\<rparr>"

lemma sample_mint: "getReserveByMint sample_market 11 = Some sample_reserve"
proof -
  have coll: "getLiquidityMint (r_state sample_coll) \<noteq> 11" and own: "getLiquidityMint (r_state sample_reserve) = 11"
    by (simp_all add: getLiquidityMint_def sample_coll_def sample_reserve_simps sample_defs)
  obtain r where r: "List.find (\<lambda>r. getLiquidityMint (r_state r) = 11) (getReserves sample_market) = Some r"
    using own sample_market_reserves by (cases "List.find (\<lambda>r. getLiquidityMint (r_state r) = 11) (getReserves sample_market)") (auto simp: find_None_iff)
  then have "r \<in> set (getReserves sample_market)" "getLiquidityMint (r_state r) = 11" by (auto simp: find_Some_iff)
  then have "r = sample_reserve" using coll sample_market_reserves by auto
  with r show ?thesis by (simp add: getReserveByMint_def getReserves_def)
qed

lemma sample_chains: "chains_end sample_reserve" "chains_end sample_coll"
  by (simp_all add: chains_end_def sample_coll_def sample_reserve_simps sample_defs Let_def U16_MAX_def)

lemma sample_loan_keys: "set (hm_keys (deposits sample_loan)) = {102}" "set (hm_keys (borrows sample_loan)) = {101}"
  by (auto simp: sample_loan_def hm_keys_iff hm_inv_set hm_inv_empty hm_get_set hm.lookup_empty split: if_splits)

lemma sample_possible: "deposit_possible sample_env sample_market 1000000 11 2 sample_loan sample_options"
  unfolding deposit_possible_def sample_mint
  by (auto simp: sample_loan_keys getReserveByAddress_def sample_market_get sample_chains getUserMetadata_def fetchUserMetadata_def
      sample_options_def sample_env_def Let_def)

lemma sample_borsh: "borsh_laws (borsh sample_env)"
  by (simp add: sample_env_def Let_def ble.borsh_laws_axioms)


lemma sample_deposit: "\<exists>b. buildDepositTxns sample_env sample_market 1000000 11 2 (Inl sample_loan) sample_options = Some (Inr b)"
  by (rule deposit_total [OF sample_borsh sample_possible])

lemma sample_obligation_reserves:
  assumes "buildDepositTxns sample_env sample_market 1000000 11 2 (Inl sample_loan) sample_options = Some (Inr b)"
  shows "obligation_reserves b = {101, 102}"
proof -
  from assms obtain a d e where s: "initialize sample_env ADeposit 1000000 11 2 sample_market (Inl sample_loan) default_pubkey 1000 None = Inr a"
    "support sample_env sample_options ADeposit (scopeRefreshConfig sample_options) False (compute_budget sample_env (extraComputeBudget sample_options) a)
       = Some (Inr d)" "lends d e" "b = addRefreshFarmsCleanupTxnIxsToCleanupIxs e"
    by (auto simp: buildDepositTxns_def bindO_Inr_iff finish_with_Inr sample_options_def dest: lends_single split: if_splits)
  have "obligation_reserves a = {101, 102}"
    using s(1) by (auto simp: initialize_def bindE_Inr_iff loadObligation_def target_of_def new_KaminoAction_def obligation_reserves_def
        sample_loan_keys Let_def)
  moreover have "same_frame a d" using steps_same_frame [OF steps_trans [OF steps_compute_budget steps_support_opt [OF s(2)]]] .
  moreover have "same_frame d e" using lends_same_frame [OF s(3)] .
  ultimately show ?thesis
    unfolding s(4) by (simp add: same_frame_def addRefreshFarmsCleanupTxnIxsToCleanupIxs_def obligation_reserves_def)
qed

theorem refreshed_before_lending_witness:
  "\<exists>b pre ro farms lend post. single_build sample_env sample_market b \<and> actionToIxs b = pre @ ro # farms @ lend # post \<and>
    is_refresh_obligation ro \<and> meta 101 False True \<in> set (ix_keys ro) \<and> meta 102 False True \<in> set (ix_keys ro)"
proof -
  obtain b where b: "buildDepositTxns sample_env sample_market 1000000 11 2 (Inl sample_loan) sample_options = Some (Inr b)"
    using sample_deposit by blast
  then have "single_build sample_env sample_market b" by (rule single_build.deposit)
  with refreshed_before_lending [OF this] sample_obligation_reserves [OF b] show ?thesis by blast
qed

theorem labels_parallel_witness:
  "\<exists>b. built sample_env sample_market b \<and> length (actionToIxLabels b) = length (actionToIxs b) \<and> well_labelled b"
  using sample_deposit labels_parallel [OF built.deposit] built.deposit by blast

theorem transactions_agree_witness:
  "\<exists>b. built sample_env sample_market b \<and> actionToIxs b = computeBudgetIxs b @ getTransactions b"
  using sample_deposit transactions_agree [OF built.deposit] built.deposit by blast



end
