(* ===== verification/Leverage_Calcs.thy ===== *)
theory Leverage_Calcs
  imports Action_Build
begin

text \<open>
  The arithmetic of leveraged positions (\<open>src/ts-client/src/leverage/calcs.ts\<close>) and of repaying with collateral
  (\<open>src/ts-client/src/lending_operations/repay_with_collateral_calcs.ts\<close>). \<open>lev\<close> adds to the environment of an action what these
  files take from outside the repository: the kliquidity package with its strategies, the token balances of the connection, a
  Decimal constructor with 18 digits that rounds down, the text a Decimal is compared by with \<open>>\<close>, the spl-token address derivation.
\<close>

section \<open>Environment\<close>

record strategy =
  st_address :: pubkey
  tokenAMint :: pubkey
  tokenBMint :: pubkey
  tokenATokenProgram :: pubkey
  tokenBTokenProgram :: pubkey
  tokenAMintDecimals :: u64
  tokenBMintDecimals :: u64
  sharesMintDecimals :: u64
  sharesIssued :: u64
  withdrawFee :: u64
  strategyLookupTable :: pubkey

text \<open>\<open>collToLamportsDecimal\<close>, \<open>FullBPS\<close> and the holdings of a strategy are the kliquidity package's.\<close>

record lev =
  le :: env
  RustDecimal :: num_lib
  collToLamportsDecimal :: "decimal \<Rightarrow> nat \<Rightarrow> decimal"
  FullBPS :: decimal
  getStrategyTokensHoldings :: "strategy \<Rightarrow> decimal \<times> decimal"
  getBalance :: "pubkey \<Rightarrow> number"
  getTokenAccountBalance :: "pubkey \<Rightarrow> decimal"
  getAssociatedTokenAddressSync :: "pubkey \<Rightarrow> pubkey \<Rightarrow> bool \<Rightarrow> pubkey \<Rightarrow> pubkey result"
  ComputeBudgetProgram_programId :: pubkey
  lookupTableFound :: "pubkey \<Rightarrow> bool"
  Decimal_valueOf :: "decimal \<Rightarrow> string"

abbreviation lnum :: "lev \<Rightarrow> num_lib" where "lnum V \<equiv> num (le V)"

section \<open>Decimal places\<close>

fun dabs :: "decimal \<Rightarrow> decimal" where
  "dabs (Fin a) = Fin \<bar>a\<bar>"
| "dabs NegInf = PosInf"
| "dabs x = x"

text \<open>\<open>toDecimalPlaces(n, mode)\<close> for the modes \<open>ROUND_CEIL\<close>, \<open>ROUND_UP\<close> and \<open>ROUND_DOWN\<close> (1), and \<open>toDecimalPlaces(n)\<close>.\<close>

fun dplaces_ceil :: "nat \<Rightarrow> decimal \<Rightarrow> decimal" where
  "dplaces_ceil n (Fin a) = Fin (of_int \<lceil>a * 10 ^ n\<rceil> / 10 ^ n)"
| "dplaces_ceil n x = x"

fun dplaces_up :: "nat \<Rightarrow> decimal \<Rightarrow> decimal" where
  "dplaces_up n (Fin a) = Fin (sgn a * of_int \<lceil>\<bar>a\<bar> * 10 ^ n\<rceil> / 10 ^ n)"
| "dplaces_up n x = x"

fun dplaces_down :: "nat \<Rightarrow> decimal \<Rightarrow> decimal" where
  "dplaces_down n (Fin a) = Fin (sgn a * of_int \<lfloor>\<bar>a\<bar> * 10 ^ n\<rfloor> / 10 ^ n)"
| "dplaces_down n x = x"

fun dplaces :: "num_lib \<Rightarrow> nat \<Rightarrow> decimal \<Rightarrow> decimal" where
  "dplaces L n (Fin a) = Fin (of_int (d_rint L (a * 10 ^ n)) / 10 ^ n)"
| "dplaces L n x = x"

text \<open>\<open>state.liquidity.mintDecimals.toNumber()\<close>\<close>

definition mint_decimals :: "num_lib \<Rightarrow> reserve \<Rightarrow> nat result" where
  "mint_decimals L st = bindE (bn_toNumber L (uint (mintDecimals (liquidity st)))) (\<lambda>n. Inr (nat n))"

definition fuzzyEqual :: "num_lib \<Rightarrow> decimal \<Rightarrow> decimal \<Rightarrow> decimal \<Rightarrow> bool" where
  "fuzzyEqual L a b epsilon = xle (dabs (dsub L a b)) epsilon"

section \<open>Positions\<close>

record position_change =
  adjustDepositPosition :: decimal
  adjustBorrowPosition :: decimal

definition calcBorrowAmount :: "num_lib \<Rightarrow> decimal \<Rightarrow> decimal \<Rightarrow> decimal \<Rightarrow> decimal \<Rightarrow> decimal" where
  "calcBorrowAmount L depositTokenAmount targetLeverage priceCollToDebt flashBorrowFee =
     (let finalColl = dmul L depositTokenAmount targetLeverage;
          finalDebtInColl = dsub L finalColl depositTokenAmount;
          finalDebt = dmul L finalDebtInColl priceCollToDebt
      in dmul L finalDebt (dadd L (Fin 1) flashBorrowFee))"

definition calcWithdrawAmounts ::
    "num_lib \<Rightarrow> decimal \<Rightarrow> decimal \<Rightarrow> decimal \<Rightarrow> decimal \<Rightarrow> pubkey \<Rightarrow> pubkey \<Rightarrow> position_change" where
  "calcWithdrawAmounts L currentBorrow currentDeposit priceCollToDebt withdrawAmount selectedTokenMint collTokenMint =
     (let net = dsub L currentDeposit (ddiv L currentBorrow priceCollToDebt);
          targetLeverage = ddiv L currentDeposit net;
          initialDeposit = dsub L currentDeposit (ddiv L currentBorrow priceCollToDebt);
          amountToWithdraw = (if selectedTokenMint = collTokenMint then withdrawAmount else ddiv L withdrawAmount priceCollToDebt);
          targetDeposit = dmul L (dsub L initialDeposit amountToWithdraw) targetLeverage;
          targetBorrow = calcBorrowAmount L (dsub L initialDeposit amountToWithdraw) targetLeverage priceCollToDebt (Fin 0)
      in \<lparr>adjustDepositPosition = dsub L currentDeposit targetDeposit, adjustBorrowPosition = dsub L currentBorrow targetBorrow\<rparr>)"

definition estimateWithdrawMode ::
    "num_lib \<Rightarrow> decimal \<Rightarrow> decimal \<Rightarrow> decimal \<Rightarrow> decimal \<Rightarrow> pubkey \<Rightarrow> pubkey \<Rightarrow> position_change" where
  "estimateWithdrawMode L priceCollToDebt amount deposited borrowed collTokenMint selectedTokenMint =
     calcWithdrawAmounts L borrowed deposited priceCollToDebt amount selectedTokenMint collTokenMint"

definition calcAdjustAmounts :: "num_lib \<Rightarrow> decimal \<Rightarrow> decimal \<Rightarrow> decimal \<Rightarrow> decimal \<Rightarrow> decimal \<Rightarrow> position_change" where
  "calcAdjustAmounts L targetLeverage currentBorrow currentDeposit priceCollToDebt flashLoanFee =
     (let initialDeposit = dsub L currentDeposit (ddiv L currentBorrow priceCollToDebt);
          targetDeposit = dmul L initialDeposit targetLeverage;
          targetBorrow = calcBorrowAmount L initialDeposit targetLeverage priceCollToDebt flashLoanFee
      in \<lparr>adjustDepositPosition = dsub L targetDeposit currentDeposit, adjustBorrowPosition = dsub L targetBorrow currentBorrow\<rparr>)"

definition estimateAdjustMode :: "num_lib \<Rightarrow> decimal \<Rightarrow> decimal \<Rightarrow> decimal \<Rightarrow> decimal \<Rightarrow> decimal \<Rightarrow> position_change" where
  "estimateAdjustMode L priceCollToDebt targetLeverage totalDeposited totalBorrowed flashLoanFee =
     calcAdjustAmounts L targetLeverage totalBorrowed totalDeposited priceCollToDebt flashLoanFee"

text \<open>The result of \<open>estimateDepositMode\<close> is a pair of JavaScript numbers.\<close>

definition estimateDepositMode ::
    "num_lib \<Rightarrow> decimal \<Rightarrow> decimal \<Rightarrow> decimal \<Rightarrow> decimal \<Rightarrow> pubkey \<Rightarrow> pubkey \<Rightarrow> decimal \<Rightarrow> decimal \<Rightarrow> number \<times> number" where
  "estimateDepositMode L priceCollToDebt priceDebtToColl amount targetLeverage selectedTokenMint collTokenMint flashLoanFee slippagePct =
     (let isDepositingCollToken = (selectedTokenMint = collTokenMint);
          finalColl = (if isDepositingCollToken then num_of_dec (dmul L amount targetLeverage)
                       else num_of_dec (dmul L (dmul L amount priceDebtToColl) targetLeverage));
          depositColl = (if isDepositingCollToken then amount else dmul L amount priceDebtToColl);
          borrowAmount = calcBorrowAmount L depositColl targetLeverage priceCollToDebt flashLoanFee;
          slippageFactor = dadd L (Fin 1) (ddiv L slippagePct (Fin 100))
      in (finalColl, num_of_dec (dmul L borrowAmount slippageFactor)))"

datatype form_tabs = TabDeposit | TabWithdraw | TabAdjust | TabClose

record leverage_forms_args =
  lf_depositAmount :: decimal
  lf_withdrawAmount :: decimal
  lf_deposited :: decimal
  lf_borrowed :: decimal
  lf_debtTokenMint :: pubkey
  lf_selectedTokenMint :: pubkey
  lf_collTokenMint :: pubkey
  lf_targetLeverage :: decimal
  lf_activeTab :: form_tabs
  lf_flashLoanFee :: decimal
  lf_debtBorrowFactorPct :: decimal
  lf_priceCollToDebt :: decimal
  lf_priceDebtToColl :: decimal

record forms_result =
  fr_totalDeposited :: decimal
  fr_totalBorrowed :: decimal
  fr_netValue :: decimal
  fr_netValueUsd :: decimal
  fr_ltv :: decimal

definition closingPositionDiffTolerance :: decimal where
  "closingPositionDiffTolerance = Fin (1 / 10000)"

definition is_closing :: "num_lib \<Rightarrow> position_change \<Rightarrow> decimal \<Rightarrow> decimal \<Rightarrow> bool" where
  "is_closing L w deposited borrowed \<longleftrightarrow>
     (xge (adjustDepositPosition w) deposited \<or> xge (adjustBorrowPosition w) borrowed \<or>
      fuzzyEqual L (adjustDepositPosition w) deposited closingPositionDiffTolerance \<or>
      fuzzyEqual L (adjustBorrowPosition w) borrowed closingPositionDiffTolerance) \<and>
     \<not> fuzzyEqual L (adjustDepositPosition w) (Fin 0) closingPositionDiffTolerance"

definition multiply_totals :: "num_lib \<Rightarrow> leverage_forms_args \<Rightarrow> decimal \<times> decimal" where
  "multiply_totals L x =
     (let deposited = lf_deposited x; borrowed = lf_borrowed x;
          (depositColl, depositDebt) =
            estimateDepositMode L (lf_priceCollToDebt x) (lf_priceDebtToColl x) (lf_depositAmount x) (lf_targetLeverage x)
              (lf_selectedTokenMint x) (lf_collTokenMint x) (lf_flashLoanFee x) (Fin 0);
          w = estimateWithdrawMode L (lf_priceCollToDebt x) (lf_withdrawAmount x) deposited borrowed (lf_collTokenMint x) (lf_selectedTokenMint x);
          adj = estimateAdjustMode L (lf_priceCollToDebt x) (lf_targetLeverage x) deposited borrowed (lf_flashLoanFee x)
      in case lf_activeTab x of
           TabDeposit \<Rightarrow> (dadd L deposited (dec_of_num depositColl), dadd L borrowed (dec_of_num depositDebt))
         | TabAdjust \<Rightarrow> (dadd L deposited (adjustDepositPosition adj), dadd L borrowed (adjustBorrowPosition adj))
         | _ \<Rightarrow>
             if is_closing L w deposited borrowed then (Fin 0, Fin 0)
             else (dsub L deposited (adjustDepositPosition w), dsub L borrowed (adjustBorrowPosition w)))"

definition calculateMultiplyEffects :: "num_lib \<Rightarrow> (pubkey \<Rightarrow> decimal) \<Rightarrow> leverage_forms_args \<Rightarrow> forms_result" where
  "calculateMultiplyEffects L price x =
     (let (totalDeposited, totalBorrowed) = multiply_totals L x;
          borrowTokenPrice = price (lf_debtTokenMint x);
          depositedUsd = dmul L (price (lf_collTokenMint x)) totalDeposited;
          borrowedUsd = dmul L borrowTokenPrice totalBorrowed;
          netValueUsd = dsub L depositedUsd borrowedUsd
      in \<lparr>fr_totalDeposited = totalDeposited, fr_totalBorrowed = totalBorrowed, fr_netValue = ddiv L netValueUsd borrowTokenPrice,
          fr_netValueUsd = netValueUsd,
          fr_ltv = ddiv L (dmul L borrowedUsd (ddiv L (lf_debtBorrowFactorPct x) (Fin 100))) depositedUsd\<rparr>)"

section \<open>Deposits with leverage\<close>

record deposit_leverage =
  flashBorrowInCollToken :: decimal
  initDepositInSol :: decimal
  debtTokenToBorrow :: decimal
  collTokenToDeposit :: decimal
  swapDebtTokenIn :: decimal
  swapCollTokenExpectedOut :: decimal
  flashBorrowInDebtTokenKtokenOnly :: decimal
  singleSidedDepositKtokenOnly :: decimal
  requiredCollateralKtokenOnly :: decimal

definition depositLeverageCalcs ::
    "num_lib \<Rightarrow> decimal \<Rightarrow> bool \<Rightarrow> bool \<Rightarrow> decimal \<Rightarrow> decimal \<Rightarrow> decimal \<Rightarrow> decimal \<Rightarrow> deposit_leverage" where
  "depositLeverageCalcs L depositAmount depositTokenIsCollToken depositTokenIsSol priceDebtToColl targetLeverage slippagePct flashLoanFee =
     (let slippage = ddiv L slippagePct (Fin 100);
          initDeposit = (if depositTokenIsSol then depositAmount else Fin 0);
          y = dmul L targetLeverage priceDebtToColl;
          x = ddiv L (dmul L (dadd L flashLoanFee (Fin 1)) (dadd L slippage (Fin 1))) priceDebtToColl;
          d = dsub L x (ddiv L (dsub L targetLeverage (Fin 1)) y)
      in if depositTokenIsCollToken then
           (let finalColl = ddiv L (dmul L depositAmount x) d;
                debt = dmul L (dsub L finalColl depositAmount) x
            in \<lparr>flashBorrowInCollToken = dmul L (dsub L finalColl depositAmount) (dadd L flashLoanFee (Fin 1)), initDepositInSol = initDeposit,
                debtTokenToBorrow = debt, collTokenToDeposit = finalColl, swapDebtTokenIn = debt,
                swapCollTokenExpectedOut = dsub L finalColl depositAmount, flashBorrowInDebtTokenKtokenOnly = Fin 0,
                singleSidedDepositKtokenOnly = Fin 0, requiredCollateralKtokenOnly = Fin 0\<rparr>)
         else
           (let finalColl = ddiv L depositAmount d;
                debt = ddiv L (dmul L (dsub L targetLeverage (Fin 1)) finalColl) y
            in \<lparr>flashBorrowInCollToken = dmul L finalColl (dadd L flashLoanFee (Fin 1)), initDepositInSol = initDeposit,
                debtTokenToBorrow = debt, collTokenToDeposit = finalColl, swapDebtTokenIn = dadd L debt depositAmount,
                swapCollTokenExpectedOut = finalColl, flashBorrowInDebtTokenKtokenOnly = Fin 0,
                singleSidedDepositKtokenOnly = Fin 0, requiredCollateralKtokenOnly = Fin 0\<rparr>))"

text \<open>
  The ktokens a deposit mints: the amounts of both tokens for the wanted shares, and the shares the program would give for them,
  computed with the 18-digit constructor. A call on a \<open>RustDecimal\<close> keeps that constructor; \<open>Decimal.min\<close> goes back to the default one.
\<close>

definition pow10_of :: "num_lib \<Rightarrow> u64 \<Rightarrow> decimal result" where
  "pow10_of L n = bindE (bn_toNumber L (uint n)) (\<lambda>k. Inr (dec_of_num (npow10 (nat k))))"

definition actual_mint :: "num_lib \<Rightarrow> num_lib \<Rightarrow> decimal \<Rightarrow> decimal \<Rightarrow> decimal \<Rightarrow> decimal \<Rightarrow> decimal \<Rightarrow> decimal" where
  "actual_mint L R usA usB uA uB shares =
     (let ratio = ddiv R usA usB;
          depositableB = dfloor (ddiv R uA ratio);
          (actualA, actualB) =
            (if xle depositableB uB then (dfloor (dmul R depositableB ratio), uB)
             else (let a = dfloor (dmul R uB ratio) in (a, dfloor (ddiv R a ratio))))
      in xmin (dfloor (ddiv R (dmul R actualA shares) usA)) (dfloor (ddiv R (dmul R actualB shares) usB)))"

definition simulateMintKToken ::
    "lev \<Rightarrow> strategy \<Rightarrow> decimal \<Rightarrow> (decimal \<times> decimal) option \<Rightarrow> (decimal \<times> decimal \<times> decimal) result" where
  "simulateMintKToken V s mintAmount strategyHoldings =
     (let L = lnum V; (a, b) = (case strategyHoldings of None \<Rightarrow> getStrategyTokensHoldings V s | Some h \<Rightarrow> h) in
      bindE (pow10_of L (sharesMintDecimals s)) (\<lambda>sharesFactor.
      bindE (pow10_of L (tokenAMintDecimals s)) (\<lambda>factorA.
      bindE (pow10_of L (tokenBMintDecimals s)) (\<lambda>factorB.
        let sharesIssuedDecimal = ddiv L (dint (uint (sharesIssued s))) sharesFactor;
            requiredA = dmul L (ddiv L (ddiv L a factorA) sharesIssuedDecimal) mintAmount;
            requiredB = dmul L (ddiv L (ddiv L b factorB) sharesIssuedDecimal) mintAmount;
            actualMint = actual_mint L (RustDecimal V) a b (dceil (dmul L requiredA factorA)) (dceil (dmul L requiredB factorB))
                           (dint (uint (sharesIssued s)))
        in Inr (requiredA, requiredB, ddiv L actualMint sharesFactor)))))"

definition depositLeverageKtokenCalcs ::
    "lev \<Rightarrow> strategy \<Rightarrow> pubkey \<Rightarrow> decimal \<Rightarrow> bool \<Rightarrow> bool \<Rightarrow> decimal \<Rightarrow> decimal \<Rightarrow> decimal \<Rightarrow> decimal \<Rightarrow>
     (pubkey \<Rightarrow> pubkey \<Rightarrow> decimal) \<Rightarrow> (decimal \<times> decimal) option \<Rightarrow> deposit_leverage result" where
  "depositLeverageKtokenCalcs V s debtTokenMint depositAmount depositTokenIsCollToken depositTokenIsSol priceDebtToColl targetLeverage
       slippagePct flashLoanFee priceAinB strategyHoldings =
     (let L = lnum V; initDeposit = (if depositTokenIsSol then depositAmount else Fin 0); slippage = ddiv L slippagePct (Fin 100) in
      if depositTokenIsCollToken then
        (let x = ddiv L (dadd L slippage (Fin 1)) priceDebtToColl;
             y = dmul L (dadd L flashLoanFee (Fin 1)) priceDebtToColl;
             z = ddiv L (dmul L targetLeverage y) (dsub L targetLeverage (Fin 1));
             flashBorrow = ddiv L depositAmount (dsub L z (ddiv L (Fin 1) x));
             coll = dadd L depositAmount (ddiv L flashBorrow x)
         in Inr \<lparr>flashBorrowInCollToken = Fin 0, initDepositInSol = initDeposit,
                 debtTokenToBorrow = dmul L flashBorrow (dadd L (Fin 1) flashLoanFee), collTokenToDeposit = coll,
                 swapDebtTokenIn = Fin 0, swapCollTokenExpectedOut = Fin 0, flashBorrowInDebtTokenKtokenOnly = flashBorrow,
                 singleSidedDepositKtokenOnly = flashBorrow, requiredCollateralKtokenOnly = dsub L coll depositAmount\<rparr>)
      else
        (let y = dmul L targetLeverage priceDebtToColl;
             x = ddiv L (dmul L (dadd L flashLoanFee (Fin 1)) (dadd L slippage (Fin 1))) priceDebtToColl;
             finalColl = ddiv L depositAmount (dsub L x (ddiv L (dsub L targetLeverage (Fin 1)) y)) in
         bindE (simulateMintKToken V s finalColl strategyHoldings) (\<lambda>(estimatedA, estimatedB, actualColl).
           let px = priceAinB (tokenAMint s) (tokenBMint s);
               amount = (if tokenAMint s = debtTokenMint then dadd L estimatedA (ddiv L estimatedB px)
                         else dadd L estimatedB (dmul L estimatedA px));
               flashBorrow = ddiv L (dsub L (ddiv L amount (dsub L (Fin 1) slippage)) depositAmount) (dsub L (Fin 1) flashLoanFee)
           in Inr \<lparr>flashBorrowInCollToken = Fin 0, initDepositInSol = initDeposit,
                   debtTokenToBorrow = ddiv L flashBorrow (dsub L (Fin 1) flashLoanFee), collTokenToDeposit = actualColl,
                   swapDebtTokenIn = Fin 0, swapCollTokenExpectedOut = Fin 0, flashBorrowInDebtTokenKtokenOnly = flashBorrow,
                   singleSidedDepositKtokenOnly = ddiv L amount (dsub L (Fin 1) slippage), requiredCollateralKtokenOnly = actualColl\<rparr>)))"

section \<open>Withdrawals and adjustments\<close>

record withdraw_leverage =
  wl_withdrawAmount :: decimal
  wl_repayAmount :: decimal
  collTokenSwapIn :: decimal
  depositTokenWithdrawAmount :: decimal
  debtTokenExpectedSwapOut :: decimal

definition withdrawLeverageCalcs ::
    "num_lib \<Rightarrow> kamino_market \<Rightarrow> kamino_reserve \<Rightarrow> kamino_reserve \<Rightarrow> decimal \<Rightarrow> decimal \<Rightarrow> decimal \<Rightarrow> decimal \<Rightarrow> nat \<Rightarrow> bool \<Rightarrow> bool \<Rightarrow>
     pubkey \<Rightarrow> kamino_obligation \<Rightarrow> decimal \<Rightarrow> decimal \<Rightarrow> withdraw_leverage result" where
  "withdrawLeverageCalcs L mk collRes debtRes priceCollToDebt withdrawAmount deposited borrowed currentSlot isClosingPosition
       selectedTokenIsCollToken selectedTokenMint ob flashLoanFee slippagePct =
     (let w = (if isClosingPosition then \<lparr>adjustDepositPosition = deposited, adjustBorrowPosition = borrowed\<rparr>
               else calcWithdrawAmounts L borrowed deposited priceCollToDebt withdrawAmount selectedTokenMint (getLiquidityMint (r_state collRes)));
          withdrawn = adjustDepositPosition w in
      bindE (deref (arr_get (o_borrows (ob_state ob)) 0)) (\<lambda>borrow.
      bindE (estimateObligationInterestRate L mk debtRes borrow currentSlot) (\<lambda>rate.
      bindE (mint_decimals L (r_state debtRes)) (\<lambda>n.
        let irSlippageBpsForDebt = dplaces_ceil n rate;
            repayAmount = dplaces_ceil n (dmul L (adjustBorrowPosition w)
              (dadd L (ddiv L (dadd L irSlippageBpsForDebt (Fin (1 / 10))) (Fin 10000)) (Fin 1)));
            slippageFactor = dadd L (Fin 1) (ddiv L slippagePct (Fin 100));
            swapIn = (if selectedTokenIsCollToken
                      then ddiv L (dmul L (dmul L repayAmount (dadd L (Fin 1) flashLoanFee)) slippageFactor) priceCollToDebt
                      else withdrawn)
        in Inr \<lparr>wl_withdrawAmount = withdrawn, wl_repayAmount = repayAmount, collTokenSwapIn = swapIn,
                depositTokenWithdrawAmount = (if \<not> isClosingPosition then dmul L withdrawn (dadd L (Fin 1) flashLoanFee) else withdrawn),
                debtTokenExpectedSwapOut = ddiv L (dmul L swapIn priceCollToDebt) slippageFactor\<rparr>))))"

definition getTokenAccountBalanceDecimal :: "lev \<Rightarrow> pubkey \<Rightarrow> pubkey \<Rightarrow> decimal" where
  "getTokenAccountBalanceDecimal V mint owner =
     (let ata = ata_address (sol (le V)) mint owner (TOKEN_PROGRAM_ID (sol (le V)))
      in if getAccountInfo (le V) ata = None then Fin 0 else getTokenAccountBalance V ata)"

definition getExpectedTokenBalanceAfterBorrow :: "lev \<Rightarrow> pubkey \<Rightarrow> pubkey \<Rightarrow> decimal \<Rightarrow> nat \<Rightarrow> decimal" where
  "getExpectedTokenBalanceAfterBorrow V mint owner lamports decimals =
     dplaces (lnum V) decimals
       (dadd (lnum V) (getTokenAccountBalanceDecimal V mint owner) (lamportsToNumberDecimal (lnum V) lamports decimals))"

record adjust_leverage =
  al_adjustDepositPosition :: decimal
  al_adjustBorrowPosition :: decimal
  amountToFlashBorrowDebt :: decimal
  al_borrowAmount :: decimal
  expectedDebtTokenAtaBalance :: decimal
  withdrawAmountWithSlippageAndFlashLoanFee :: decimal

definition adjustDepositLeverageCalcs ::
    "lev \<Rightarrow> pubkey \<Rightarrow> kamino_reserve \<Rightarrow> decimal \<Rightarrow> decimal \<Rightarrow> decimal \<Rightarrow> decimal \<Rightarrow> decimal \<Rightarrow> bool \<Rightarrow> adjust_leverage result" where
  "adjustDepositLeverageCalcs V owner debtRes depositChange borrowChange priceDebtToColl flashLoanFee slippagePct collIsKtoken =
     (let L = lnum V; slippageFactor = dadd L (Fin 1) (ddiv L slippagePct (Fin 100));
          flashDebt = dplaces_up (rd_decimals (stats debtRes)) (dmul L (ddiv L depositChange priceDebtToColl) slippageFactor);
          borrowAmount = ddiv L (dmul L (dmul L depositChange (dadd L (Fin 1) flashLoanFee)) slippageFactor) priceDebtToColl in
      bindE (mint_decimals L (r_state debtRes)) (\<lambda>n.
        Inr \<lparr>al_adjustDepositPosition = depositChange, al_adjustBorrowPosition = borrowChange, amountToFlashBorrowDebt = flashDebt,
             al_borrowAmount = borrowAmount,
             expectedDebtTokenAtaBalance =
               getExpectedTokenBalanceAfterBorrow V (getLiquidityMint (r_state debtRes)) owner
                 (dfloor (collToLamportsDecimal V (if \<not> collIsKtoken then borrowAmount else flashDebt) (rd_decimals (stats debtRes)))) n,
             withdrawAmountWithSlippageAndFlashLoanFee = Fin 0\<rparr>))"

definition adjustWithdrawLeverageCalcs :: "num_lib \<Rightarrow> decimal \<Rightarrow> decimal \<Rightarrow> decimal \<Rightarrow> decimal \<Rightarrow> adjust_leverage" where
  "adjustWithdrawLeverageCalcs L depositChange borrowChange flashLoanFee slippagePct =
     \<lparr>al_adjustDepositPosition = depositChange, al_adjustBorrowPosition = borrowChange, amountToFlashBorrowDebt = Fin 0,
      al_borrowAmount = Fin 0, expectedDebtTokenAtaBalance = Fin 0,
      withdrawAmountWithSlippageAndFlashLoanFee =
        dmul L (dmul L (dabs depositChange) (dadd L (Fin 1) flashLoanFee)) (dadd L (Fin 1) (ddiv L slippagePct (Fin 100)))\<rparr>"

end
