(* ===== verification/Repay_Calcs.thy ===== *)
theory Repay_Calcs
  imports Leverage_Calcs
begin

text \<open>
  The amounts of repaying debt with collateral
  (\<open>src/ts-client/src/lending_operations/repay_with_collateral_calcs.ts\<close>): the repayment with its interest, the flash loan fee on
  top, and the collateral that can be withdrawn after it.
\<close>

datatype max_withdraw_ltv_check = MAX_LTV | LIQUIDATION_THRESHOLD

definition getMaxWithdrawLtvCheck :: "kamino_obligation \<Rightarrow> max_withdraw_ltv_check" where
  "getMaxWithdrawLtvCheck ob =
     (if xge (userTotalBorrowBorrowFactorAdjusted (refreshedStats ob)) (os_borrowLimit (refreshedStats ob))
      then LIQUIDATION_THRESHOLD else MAX_LTV)"

definition calcFlashRepayAmount :: "num_lib \<Rightarrow> kamino_reserve \<Rightarrow> nat \<Rightarrow> bool \<Rightarrow> decimal \<Rightarrow> decimal result" where
  "calcFlashRepayAmount L r refFeeBps hasReferral flashBorrowAmountLamports =
     bindE (calculateFlashLoanFees L (r_state r) flashBorrowAmountLamports refFeeBps hasReferral) (\<lambda>f.
       Inr (dadd L (dadd L flashBorrowAmountLamports (referrerFees f)) (protocolFees f)))"

text \<open>The accrued interest of a debt of the obligation, rounded up to the decimals of the mint.\<close>

definition ir_slippage :: "num_lib \<Rightarrow> kamino_market \<Rightarrow> kamino_obligation \<Rightarrow> kamino_reserve \<Rightarrow> nat \<Rightarrow> (decimal \<times> nat) result" where
  "ir_slippage L mk ob debtRes currentSlot =
     bindE (deref (List.find (\<lambda>b. borrowReserve b = r_address debtRes) (o_borrows (ob_state ob)))) (\<lambda>borrow.
     bindE (estimateObligationInterestRate L mk debtRes borrow currentSlot) (\<lambda>rate.
     bindE (mint_decimals L (r_state debtRes)) (\<lambda>n. Inr (dplaces_ceil n rate, n))))"

record repay_amounts =
  ra_repayAmount :: decimal
  ra_repayAmountLamports :: decimal
  ra_flashRepayAmountLamports :: decimal

definition calcRepayAmountWithSlippage ::
    "num_lib \<Rightarrow> kamino_market \<Rightarrow> kamino_reserve \<Rightarrow> nat \<Rightarrow> kamino_obligation \<Rightarrow> decimal \<Rightarrow> pubkey \<Rightarrow> repay_amounts result" where
  "calcRepayAmountWithSlippage L mk debtRes currentSlot ob amount referrer =
     bindE (ir_slippage L mk ob debtRes currentSlot) (\<lambda>(ir, n).
       let irAdjusted = dplaces_ceil n (dmul L amount (dmul L ir (Fin (1001 / 1000))));
           owed = lamportsToDecimal L (amount_or_zero (hm_get (borrows ob) (r_address debtRes))) (rd_decimals (stats debtRes));
           repayAmount = (if xge irAdjusted owed then irAdjusted else amount);
           lamports = numberToLamportsDecimal L repayAmount (rd_decimals (stats debtRes)) in
       bindE (calcFlashRepayAmount L debtRes (unat (referralFeeBps (m_state mk))) (referrer \<noteq> default_pubkey) lamports) (\<lambda>flashRepay.
         Inr \<lparr>ra_repayAmount = repayAmount, ra_repayAmountLamports = lamports, ra_flashRepayAmountLamports = flashRepay\<rparr>))"

record max_withdraw =
  mw_repayAmountLamports :: decimal
  withdrawableCollLamports :: decimal
  canWithdrawAllColl :: bool
  repayingAllDebt :: bool

definition withdraw_ltv :: "num_lib \<Rightarrow> kamino_market \<Rightarrow> kamino_obligation \<Rightarrow> kamino_reserve option \<Rightarrow> decimal result" where
  "withdraw_ltv L mk ob r =
     bindE (deref r) (\<lambda>r.
     bindE (getLtvForReserve L mk r (unat (o_elevationGroup (ob_state ob)))) (\<lambda>(maxLtv, liqLtv).
       Inr (if getMaxWithdrawLtvCheck ob = LIQUIDATION_THRESHOLD then liqLtv else maxLtv)))"

definition remaining_borrows_value ::
    "num_lib \<Rightarrow> kamino_obligation \<Rightarrow> position \<Rightarrow> kamino_reserve \<Rightarrow> decimal \<Rightarrow> decimal result" where
  "remaining_borrows_value L ob borrow debtRes repayAmountLamports =
     bindE (getMintFactor L (r_state debtRes)) (\<lambda>mintFactor.
       let remaining = dmul L (ddiv L (dceil (dsub L (p_amount borrow) repayAmountLamports)) mintFactor) (getOracleMarketPrice debtRes)
       in Inr (if length (getBorrows ob) > 1
               then foldl (\<lambda>acc b. dadd L acc (marketValueRefreshed b)) (Fin 0)
                      (filter (\<lambda>p. reserveAddress p \<noteq> reserveAddress borrow) (getBorrows ob))
               else remaining))"

definition remaining_deposits_value :: "num_lib \<Rightarrow> kamino_market \<Rightarrow> kamino_obligation \<Rightarrow> position \<Rightarrow> decimal result" where
  "remaining_deposits_value L mk ob dep =
     (if length (getDeposits ob) > 1
      then foldE (\<lambda>acc d. bindE (withdraw_ltv L mk ob (getReserveByAddress mk (reserveAddress d))) (\<lambda>ltv.
                   Inr (dadd L acc (dmul L (marketValueRefreshed d) ltv))))
             (Fin 0) (filter (\<lambda>p. reserveAddress p \<noteq> reserveAddress dep) (getDeposits ob))
      else Inr (Fin 0))"

definition calcMaxWithdrawCollateral ::
    "num_lib \<Rightarrow> kamino_market \<Rightarrow> kamino_obligation \<Rightarrow> pubkey \<Rightarrow> pubkey \<Rightarrow> decimal \<Rightarrow> max_withdraw result" where
  "calcMaxWithdrawCollateral L mk ob collReserveAddr debtReserveAddr repayAmountLamports =
     bindE (deref (getDepositByReserve ob collReserveAddr)) (\<lambda>dep.
     bindE (deref (getBorrowByReserve ob debtReserveAddr)) (\<lambda>borrow.
     bindE (deref (getReserveByAddress mk (reserveAddress borrow))) (\<lambda>debtRes.
     bindE (remaining_borrows_value L ob borrow debtRes repayAmountLamports) (\<lambda>remainingBorrows.
     bindE (remaining_deposits_value L mk ob dep) (\<lambda>remainingDeposits.
       let repayingAll = xge repayAmountLamports (p_amount borrow) in
       if xge remainingDeposits remainingBorrows then
         Inr \<lparr>mw_repayAmountLamports = repayAmountLamports, withdrawableCollLamports = dfloor (p_amount dep), canWithdrawAllColl = True,
              repayingAllDebt = repayingAll\<rparr>
       else
         bindE (deref (getReserveByAddress mk (reserveAddress dep))) (\<lambda>depositRes.
         bindE (withdraw_ltv L mk ob (getReserveByAddress mk (r_address depositRes))) (\<lambda>ltv.
         bindE (getMintFactor L (r_state depositRes)) (\<lambda>mintFactor.
           let numerator = dsub L (dadd L (dmul L (marketValueRefreshed dep) ltv) remainingDeposits) remainingBorrows;
               denominator = dmul L (getOracleMarketPrice depositRes) ltv
           in Inr \<lparr>mw_repayAmountLamports = repayAmountLamports,
                   withdrawableCollLamports = dfloor (dmul L (ddiv L numerator denominator) mintFactor), canWithdrawAllColl = False,
                   repayingAllDebt = repayingAll\<rparr>))))))))"

definition estimateDebtRepaymentWithColl ::
    "num_lib \<Rightarrow> decimal \<Rightarrow> decimal \<Rightarrow> decimal \<Rightarrow> decimal \<Rightarrow> kamino_market \<Rightarrow> pubkey \<Rightarrow> kamino_obligation \<Rightarrow> nat \<Rightarrow> decimal result" where
  "estimateDebtRepaymentWithColl L collAmount priceDebtToColl slippagePct flashLoanFeePercentage mk debtTokenMint ob currentSlot =
     (let slippage = ddiv L slippagePct (Fin 100); flashLoanFee = ddiv L flashLoanFeePercentage (Fin 100) in
      bindE (need (getReserveByMint mk debtTokenMint) ''Debt reserve not found'') (\<lambda>debtRes.
        let afterSwap = ddiv L (ddiv L collAmount (dadd L (Fin 1) slippage)) priceDebtToColl;
            afterFlashLoan = ddiv L afterSwap (dadd L (Fin 1) flashLoanFee) in
        bindE (ir_slippage L mk ob debtRes currentSlot) (\<lambda>(ir, n).
          Inr (dplaces_ceil n (ddiv L afterFlashLoan (dmul L ir (Fin (101 / 100))))))))"

definition estimateCollNeededForDebtRepayment :: "num_lib \<Rightarrow> decimal \<Rightarrow> decimal \<Rightarrow> decimal \<Rightarrow> decimal \<Rightarrow> decimal" where
  "estimateCollNeededForDebtRepayment L debtAmount priceDebtToColl slippagePct flashLoanFeePercentage =
     (let slippage = ddiv L slippagePct (Fin 100); flashLoanFee = ddiv L flashLoanFeePercentage (Fin 100)
      in dmul L (dmul L (dmul L debtAmount (dadd L (Fin 1) flashLoanFee)) (dadd L (Fin 1) slippage)) priceDebtToColl)"

end
