(* ===== verification/Flash_Loans.thy ===== *)
theory Flash_Loans
  imports Repay_Calcs
begin

text \<open>
  What the operations that take a flash loan share: the flash borrow and repay instructions
  (\<open>src/ts-client/src/leverage/instructions.ts\<close>), the token account and compute budget helpers
  (\<open>src/ts-client/src/utils/ata.ts\<close>, \<open>src/ts-client/src/utils/instruction.ts\<close>), the scope price refresh
  (\<open>src/ts-client/src/leverage/operations.ts\<close>) and the types of the swap providers. A quoter and a swapper are arguments of the
  operations; a lookup table account is named by its address, \<open>None\<close> when the connection does not find it.
\<close>

section \<open>Swaps\<close>

record swap_inputs =
  inputAmountLamports :: decimal
  minOutAmountLamports :: "decimal option"
  inputMint :: pubkey
  outputMint :: pubkey
  amountDebtAtaBalance :: "decimal option"

record 'q swap_quote =
  priceAInB :: decimal
  quoteResponse :: 'q

record swap_ixs =
  preActionIxs :: "instruction list"
  swapIxs :: "instruction list"
  lookupTables :: "pubkey option list"

type_synonym 'q quoter = "swap_inputs \<Rightarrow> pubkey list \<Rightarrow> 'q swap_quote result"
type_synonym 'q swapper = "swap_inputs \<Rightarrow> pubkey list \<Rightarrow> 'q swap_quote \<Rightarrow> swap_ixs result"

abbreviation no_swap :: swap_ixs where "no_swap \<equiv> \<lparr>preActionIxs = [], swapIxs = [], lookupTables = []\<rparr>"

record flash_loan_info =
  flashBorrowReserve :: pubkey
  flashLoanFee :: decimal

record leverage_ixs =
  flashLoanInfo :: flash_loan_info
  instructions :: "instruction list"

definition flash_info :: "env \<Rightarrow> kamino_reserve \<Rightarrow> flash_loan_info" where
  "flash_info E r = \<lparr>flashBorrowReserve = r_address r, flashLoanFee = getFlashLoanFee (num E) (r_state r)\<rparr>"

section \<open>Flash loan instructions\<close>

record flash_loan =
  fl_wallet :: pubkey
  fl_lendingMarketAuthority :: pubkey
  fl_lendingMarket :: pubkey
  fl_reserve :: kamino_reserve
  fl_amountLamports :: decimal
  fl_ata :: pubkey
  fl_referrerAccount :: pubkey
  fl_referrerTokenState :: pubkey
  fl_programId :: pubkey

definition getBorrowFlashLoanInstruction :: "env \<Rightarrow> flash_loan \<Rightarrow> instruction result" where
  "getBorrowFlashLoanInstruction E x =
     bindE (bn_of_dec (num E) (dfloor (fl_amountLamports x))) (\<lambda>amount.
       let r = fl_reserve x; st = r_state r in
       flashBorrowReserveLiquidity (borsh E) amount
         \<lparr>fbr_userTransferAuthority = fl_wallet x, fbr_lendingMarketAuthority = fl_lendingMarketAuthority x,
          fbr_lendingMarket = fl_lendingMarket x, fbr_reserve = r_address r, fbr_reserveLiquidityMint = getLiquidityMint st,
          fbr_reserveSourceLiquidity = rl_supplyVault (liquidity st), fbr_userDestinationLiquidity = fl_ata x,
          fbr_reserveLiquidityFeeReceiver = feeVault (liquidity st), fbr_referrerTokenState = fl_referrerTokenState x,
          fbr_referrerAccount = fl_referrerAccount x, fbr_sysvarInfo = SYSVAR_INSTRUCTIONS_PUBKEY (sol E),
          fbr_tokenProgram = getLiquidityTokenProgram st\<rparr> (fl_programId x))"

definition getRepayFlashLoanInstruction :: "env \<Rightarrow> nat \<Rightarrow> flash_loan \<Rightarrow> instruction result" where
  "getRepayFlashLoanInstruction E borrowIxnIndex x =
     bindE (bn_of_dec (num E) (dfloor (fl_amountLamports x))) (\<lambda>amount.
       let r = fl_reserve x; st = r_state r in
       flashRepayReserveLiquidity (borsh E) amount borrowIxnIndex
         \<lparr>frr_userTransferAuthority = fl_wallet x, frr_lendingMarketAuthority = fl_lendingMarketAuthority x,
          frr_lendingMarket = fl_lendingMarket x, frr_reserve = r_address r, frr_reserveLiquidityMint = getLiquidityMint st,
          frr_reserveDestinationLiquidity = rl_supplyVault (liquidity st), frr_userSourceLiquidity = fl_ata x,
          frr_reserveLiquidityFeeReceiver = feeVault (liquidity st), frr_referrerTokenState = fl_referrerTokenState x,
          frr_referrerAccount = fl_referrerAccount x, frr_sysvarInfo = SYSVAR_INSTRUCTIONS_PUBKEY (sol E),
          frr_tokenProgram = getLiquidityTokenProgram st\<rparr> (fl_programId x))"

definition getFlashLoanInstructions :: "env \<Rightarrow> nat \<Rightarrow> flash_loan \<Rightarrow> (instruction \<times> instruction) result" where
  "getFlashLoanInstructions E borrowIxnIndex x =
     bindE (getBorrowFlashLoanInstruction E x) (\<lambda>flashBorrowIxn.
     bindE (getRepayFlashLoanInstruction E borrowIxnIndex x) (\<lambda>flashRepayIxn. Inr (flashBorrowIxn, flashRepayIxn)))"

text \<open>The loan the operations take: the referrer accounts are placeholders.\<close>

definition market_loan :: "env \<Rightarrow> kamino_market \<Rightarrow> pubkey \<Rightarrow> kamino_reserve \<Rightarrow> decimal \<Rightarrow> pubkey \<Rightarrow> flash_loan" where
  "market_loan E mk wallet r amountLamports ata =
     \<lparr>fl_wallet = wallet, fl_lendingMarketAuthority = getLendingMarketAuthority E mk, fl_lendingMarket = m_address mk, fl_reserve = r,
      fl_amountLamports = amountLamports, fl_ata = ata, fl_referrerAccount = m_programId mk, fl_referrerTokenState = m_programId mk,
      fl_programId = m_programId mk\<rparr>"

section \<open>Helpers\<close>

definition createAtasIdempotent :: "env \<Rightarrow> pubkey \<Rightarrow> (pubkey \<times> pubkey) list \<Rightarrow> (pubkey \<times> instruction) list" where
  "createAtasIdempotent E user mints =
     map (\<lambda>(mint, tokenProgram). createAssociatedTokenAccountIdempotentInstruction E user mint user tokenProgram None) mints"

definition getTransferWsolIxns :: "env \<Rightarrow> pubkey \<Rightarrow> pubkey \<Rightarrow> decimal \<Rightarrow> instruction list" where
  "getTransferWsolIxns E owner ata amountLamports =
     [sys_transfer E owner ata (num_of_dec amountLamports),
      \<lparr>ix_keys = [meta ata False True], ix_programId = TOKEN_PROGRAM_ID (sol E), ix_data = [17]\<rparr>]"

definition removeBudgetAndAtaIxns :: "lev \<Rightarrow> instruction list \<Rightarrow> string list \<Rightarrow> instruction list result" where
  "removeBudgetAndAtaIxns V ixns mints =
     filterE (\<lambda>ix.
       if ix_programId ix = ComputeBudgetProgram_programId V then Inr False
       else if ix_programId ix = ASSOCIATED_TOKEN_PROGRAM_ID (sol (le V)) then
         bindE (deref (arr_get (ix_keys ix) 3)) (\<lambda>mint. Inr (toBase58 (sol (le V)) (am_pubkey mint) \<notin> set mints))
       else Inr True) ixns"

definition getComputeBudgetAndPriorityFeeIxns ::
    "env \<Rightarrow> (int \<Rightarrow> instruction) \<Rightarrow> nat \<Rightarrow> decimal option \<Rightarrow> instruction list result" where
  "getComputeBudgetAndPriorityFeeIxns E setComputeUnitPrice units priorityFeeLamports =
     (case priorityFeeLamports of
        Some fee \<Rightarrow>
          if xgt fee (Fin 0) then
            bindE (bn_of_dec (num E) (dfloor (ddiv (num E) (dmul (num E) fee (dec_of_num (npow10 6))) (dnat units)))) (\<lambda>price.
              Inr [setComputeUnitLimit E units, setComputeUnitPrice price])
          else Inr [setComputeUnitLimit E units]
      | None \<Rightarrow> Inr [setComputeUnitLimit E units])"

text \<open>\<open>budgetAndPriorityFeeIxs || getComputeBudgetAndPriorityFeeIxns(units)\<close>\<close>

definition budget_or :: "env \<Rightarrow> nat \<Rightarrow> instruction list option \<Rightarrow> instruction list" where
  "budget_or E units budget = (case budget of Some ixs \<Rightarrow> ixs | None \<Rightarrow> [setComputeUnitLimit E units])"

definition uniqueAccounts :: "instruction list \<Rightarrow> pubkey list" where
  "uniqueAccounts ixs = pks_toArray (foldl (\<lambda>s ix. foldl (\<lambda>s k. pks_add s (am_pubkey k)) s (ix_keys ix)) (pks_new []) ixs)"

definition scope_reserves :: "kamino_reserve \<Rightarrow> kamino_reserve \<Rightarrow> kamino_obligation + obligation_type \<Rightarrow> pubkey list" where
  "scope_reserves collRes debtRes target =
     pks_toArray (pks_new ((case target of
         Inl ob \<Rightarrow> map reserveAddress (getDeposits ob) @ map reserveAddress (getBorrows ob) | Inr _ \<Rightarrow> [])
       @ [r_address collRes, r_address debtRes]))"

definition getScopeRefreshIx ::
    "env \<Rightarrow> kamino_market \<Rightarrow> kamino_reserve \<Rightarrow> kamino_reserve \<Rightarrow> kamino_obligation + obligation_type \<Rightarrow> string option \<Rightarrow>
     instruction list result option" where
  "getScopeRefreshIx E mk collRes debtRes target feed =
     bindO (getTokenIdsForScopeRefresh mk (scope_reserves collRes debtRes target)) (\<lambda>tokenIds.
       case feed of
         Some f \<Rightarrow> Some (if length tokenIds > 0 then bindE (refreshPriceListIx E f tokenIds) (\<lambda>ix. Inr [ix]) else Inr [])
       | None \<Rightarrow> Some (Inr []))"

text \<open>
  The mints whose token accounts an operation creates. For a ktoken the second token of its strategy is added; a strategy
  without a token program uses the spl-token program.
\<close>

definition second_token :: "env \<Rightarrow> strategy \<Rightarrow> pubkey \<Rightarrow> pubkey \<times> pubkey" where
  "second_token E s debtTokenMint =
     (let (mint, prog) = (if tokenAMint s = debtTokenMint then (tokenBMint s, tokenBTokenProgram s) else (tokenAMint s, tokenATokenProgram s))
      in (mint, if prog = default_pubkey then TOKEN_PROGRAM_ID (sol E) else prog))"

definition mintsToCreateAtas ::
    "env \<Rightarrow> kamino_reserve \<Rightarrow> kamino_reserve \<Rightarrow> bool \<Rightarrow> strategy option \<Rightarrow> (pubkey \<times> pubkey) list result" where
  "mintsToCreateAtas E collRes debtRes collIsKtoken s =
     (let mints = [(getLiquidityMint (r_state collRes), getLiquidityTokenProgram (r_state collRes)),
                   (getLiquidityMint (r_state debtRes), getLiquidityTokenProgram (r_state debtRes)),
                   (getCTokenMint (r_state collRes), TOKEN_PROGRAM_ID (sol E))]
      in if collIsKtoken then bindE (deref s) (\<lambda>s. Inr (mints @ [second_token E s (getLiquidityMint (r_state debtRes))]))
         else Inr mints)"

definition reserve_ata :: "lev \<Rightarrow> kamino_reserve \<Rightarrow> pubkey \<Rightarrow> pubkey result" where
  "reserve_ata V r owner =
     getAssociatedTokenAddressSync V (getLiquidityMint (r_state r)) owner False (getLiquidityTokenProgram (r_state r))"

text \<open>\<open>new BN(amount.toString())\<close> of an amount in lamports.\<close>

abbreviation toLamports :: "lev \<Rightarrow> decimal \<Rightarrow> kamino_reserve \<Rightarrow> decimal" where
  "toLamports V amount r \<equiv> numberToLamportsDecimal (lnum V) amount (rd_decimals (stats r))"

abbreviation bn_amount :: "lev \<Rightarrow> decimal \<Rightarrow> int result" where "bn_amount V \<equiv> bn_of_dec (lnum V)"

definition no_support :: "bool \<Rightarrow> bool \<Rightarrow> pubkey \<Rightarrow> nat \<Rightarrow> options" where
  "no_support useV2 requestEmode referrer slot =
     \<lparr>useV2Ixs = useV2, scopeRefreshConfig = None, extraComputeBudget = 0, includeAtaIxns = False, requestElevation = requestEmode,
      includeUserMetadata = False, withLookupTable = False, opt_referrer = referrer, opt_currentSlot = slot,
      overrideElevationGroupRequest = None\<rparr>"

end
