(* ===== verification/Ktoken_Swaps.thy ===== *)
theory Ktoken_Swaps
  imports Flash_Loans
begin

text \<open>
  Swaps between a token and a ktoken of the kliquidity package (\<open>src/ts-client/src/leverage/utils.ts\<close>). The package is the record
  \<open>kliquidity\<close>; a swapper for the tokens of a strategy is turned into one for its ktoken.
\<close>

record deposit_amounts =
  requiredAAmountToDeposit :: decimal
  requiredBAmountToDeposit :: decimal
  tokenAToSwapAmount :: decimal
  tokenBToSwapAmount :: decimal

type_synonym kamino_swapper = "deposit_amounts \<Rightarrow> pubkey \<Rightarrow> pubkey \<Rightarrow> (instruction list \<times> pubkey list) result"

text \<open>Holdings of both tokens, invested and available.\<close>

record holdings =
  invested_a :: decimal
  invested_b :: decimal
  available_a :: decimal
  available_b :: decimal

record kliquidity =
  getStrategyByKTokenMint :: "pubkey \<Rightarrow> strategy option"
  singleSidedDepositTokenA ::
    "strategy \<Rightarrow> decimal \<Rightarrow> pubkey \<Rightarrow> decimal \<Rightarrow> kamino_swapper \<Rightarrow> decimal \<times> decimal \<Rightarrow> decimal \<Rightarrow> bool \<Rightarrow> (instruction list \<times> pubkey list) result"
  singleSidedDepositTokenB ::
    "strategy \<Rightarrow> decimal \<Rightarrow> pubkey \<Rightarrow> decimal \<Rightarrow> kamino_swapper \<Rightarrow> decimal \<times> decimal \<Rightarrow> decimal \<Rightarrow> bool \<Rightarrow> (instruction list \<times> pubkey list) result"
  withdrawShares :: "strategy \<Rightarrow> decimal \<Rightarrow> pubkey \<Rightarrow> (instruction list \<times> instruction) result"
  getStrategyShareData :: "strategy \<Rightarrow> holdings"

definition swapProviderToKaminoSwapProvider :: "'q swapper \<Rightarrow> pubkey list \<Rightarrow> 'q swap_quote \<Rightarrow> kamino_swapper" where
  "swapProviderToKaminoSwapProvider swapper klendAccounts quote input aMint bMint =
     (let swap = (\<lambda>amount inMint outMint.
            bindE (swapper \<lparr>inputAmountLamports = dabs amount, minOutAmountLamports = None, inputMint = inMint, outputMint = outMint,
                            amountDebtAtaBalance = None\<rparr> klendAccounts quote) (\<lambda>s.
            bindE (mapE deref (lookupTables s)) (\<lambda>ks. Inr (swapIxs s, ks))))
      in if xlt (tokenBToSwapAmount input) (Fin 0) then swap (tokenBToSwapAmount input) bMint aMint
         else if xlt (tokenAToSwapAmount input) (Fin 0) then swap (tokenAToSwapAmount input) aMint bMint
         else Inl (Throw ''Nothing to swap''))"

definition getKtokenDepositIxs ::
    "lev \<Rightarrow> kliquidity \<Rightarrow> pubkey \<Rightarrow> pubkey \<Rightarrow> pubkey \<Rightarrow> decimal \<Rightarrow> decimal \<Rightarrow> decimal \<Rightarrow> 'q swapper \<Rightarrow> (pubkey \<Rightarrow> pubkey \<Rightarrow> decimal) \<Rightarrow> bool \<Rightarrow>
     pubkey list \<Rightarrow> 'q swap_quote \<Rightarrow> (instruction list \<times> pubkey list) result" where
  "getKtokenDepositIxs V K depositor depositTokenMint ktokenMint amountToDeposit slippageBps ataBalance swapper priceAinB includeAtas
       klendAccounts quote =
     bindE (deref (getStrategyByKTokenMint K ktokenMint)) (\<lambda>s.
       let px = priceAinB (tokenAMint s) (tokenBMint s); provider = swapProviderToKaminoSwapProvider swapper klendAccounts quote in
       if tokenAMint s = depositTokenMint then
         singleSidedDepositTokenA K s amountToDeposit depositor slippageBps provider
           (ataBalance, getTokenAccountBalanceDecimal V (tokenBMint s) depositor) px includeAtas
       else if tokenBMint s = depositTokenMint then
         singleSidedDepositTokenB K s amountToDeposit depositor slippageBps provider
           (getTokenAccountBalanceDecimal V (tokenAMint s) depositor, ataBalance) px includeAtas
       else Inl (Throw ''Deposit token is neither A nor B in the strategy''))"

definition getLookupTableAccount :: "lev \<Rightarrow> pubkey \<Rightarrow> pubkey option" where
  "getLookupTableAccount V k = (if lookupTableFound V k then Some k else None)"

definition getLookupTableAccounts :: "lev \<Rightarrow> pubkey list \<Rightarrow> pubkey option list result" where
  "getLookupTableAccounts V ks =
     mapE (\<lambda>k. if lookupTableFound V k then Inr (Some k) else Inl (Throw ''Lookup table is not found'')) ks"

definition getTokenToKtokenSwapper ::
    "lev \<Rightarrow> kamino_market \<Rightarrow> kliquidity \<Rightarrow> pubkey \<Rightarrow> decimal \<Rightarrow> 'q swapper \<Rightarrow> (pubkey \<Rightarrow> pubkey \<Rightarrow> decimal) \<Rightarrow> bool \<Rightarrow> 'q swapper" where
  "getTokenToKtokenSwapper V mk K depositor slippagePct swapper priceAinB includeAtas inputs klendAccounts quote =
     bindE (deref (getReserveByMint mk (inputMint inputs))) (\<lambda>r.
     bindE (mint_decimals (lnum V) (r_state r)) (\<lambda>n.
     bindE (need (amountDebtAtaBalance inputs) ''Amount in debt ATA balance is undefined for leverage ktoken deposit'') (\<lambda>balance.
     bindE (getKtokenDepositIxs V K depositor (inputMint inputs) (outputMint inputs)
              (lamportsToNumberDecimal (lnum V) (inputAmountLamports inputs) n) (dmul (lnum V) slippagePct (Fin 100)) balance swapper
              priceAinB includeAtas klendAccounts quote) (\<lambda>(ixs, tables).
     bindE (getLookupTableAccounts V tables) (\<lambda>luts.
       Inr \<lparr>preActionIxs = [], swapIxs = ixs, lookupTables = luts\<rparr>)))))"

text \<open>
  The tokens a withdrawal of shares is expected to return, in lamports. Both amounts end rounded to the decimals of token A.
\<close>

definition getKtokenWithdrawEstimatesAndPrice :: "lev \<Rightarrow> kliquidity \<Rightarrow> strategy \<Rightarrow> decimal \<Rightarrow> (decimal \<times> decimal) result" where
  "getKtokenWithdrawEstimatesAndPrice V K s amountToWithdraw =
     (let L = lnum V; h = getStrategyShareData K s in
      bindE (bn_toNumber L (uint (sharesMintDecimals s))) (\<lambda>sd.
      bindE (bn_toNumber L (uint (tokenAMintDecimals s))) (\<lambda>ad.
      bindE (bn_toNumber L (uint (tokenBMintDecimals s))) (\<lambda>bd.
        let withdrawPct = dplaces L 18 (ddiv L amountToWithdraw (lamportsToNumberDecimal L (dint (uint (sharesIssued s))) (nat sd)));
            fee = dsub L (Fin 10000) (dint (uint (withdrawFee s)));
            estimate = (\<lambda>total d. dplaces L (nat ad)
              (ddiv L (dmul L (dsub L (dplaces_down d (dmul L total withdrawPct)) (Fin (2 / 1000000))) fee) (Fin 10000)));
            aOut = estimate (dadd L (invested_a h) (available_a h)) (nat ad);
            bOut = estimate (dadd L (invested_b h) (available_b h)) (nat bd)
        in Inr (dfloor (numberToLamportsDecimal L aOut (nat ad)), dfloor (numberToLamportsDecimal L bOut (nat bd)))))))"

definition getKtokenToTokenSwapper :: "lev \<Rightarrow> kamino_market \<Rightarrow> kliquidity \<Rightarrow> pubkey \<Rightarrow> 'q swapper \<Rightarrow> 'q swapper" where
  "getKtokenToTokenSwapper V mk K depositor swapper inputs klendAccounts quote =
     bindE (deref (getReserveByMint mk (inputMint inputs))) (\<lambda>r.
     bindE (mint_decimals (lnum V) (r_state r)) (\<lambda>n.
     bindE (deref (getStrategyByKTokenMint K (inputMint inputs))) (\<lambda>s.
       let amount = lamportsToNumberDecimal (lnum V) (inputAmountLamports inputs) n in
       bindE (withdrawShares K s amount depositor) (\<lambda>(prerequisiteIxs, withdrawIx).
       bindE (getKtokenWithdrawEstimatesAndPrice V K s amount) (\<lambda>(aOut, bOut).
       bindE (if outputMint inputs = tokenAMint s then
                swapper \<lparr>inputAmountLamports = bOut, minOutAmountLamports = None, inputMint = tokenBMint s, outputMint = tokenAMint s,
                         amountDebtAtaBalance = Some (Fin 0)\<rparr> klendAccounts quote
              else if outputMint inputs = tokenBMint s then
                swapper \<lparr>inputAmountLamports = aOut, minOutAmountLamports = None, inputMint = tokenAMint s, outputMint = tokenBMint s,
                         amountDebtAtaBalance = Some (Fin 0)\<rparr> klendAccounts quote
              else Inl (Throw ''Deposit token is neither A nor B in the strategy'')) (\<lambda>sw.
         Inr \<lparr>preActionIxs = [], swapIxs = prerequisiteIxs @ [withdrawIx] @ swapIxs sw, lookupTables = lookupTables sw\<rparr>))))))"

end
