(* ===== verification/Leverage_Ops.thy ===== *)
theory Leverage_Ops
  imports Ktoken_Swaps
begin

text \<open>
  Leveraged positions (\<open>src/ts-client/src/leverage/operations.ts\<close>): each operation computes its amounts, asks a quoter for a price,
  computes them again at that price and builds one list of instructions around a flash loan. The arguments of the operations are the
  record \<open>leverage_props\<close>; a call that does not return is \<open>None\<close>, as in \<open>Action_Support\<close>.
\<close>

section \<open>Instructions around the flash loan\<close>

definition flash_index :: "instruction list \<Rightarrow> (pubkey \<times> instruction) list \<Rightarrow> instruction list \<Rightarrow> instruction list \<Rightarrow> nat" where
  "flash_index budgetIxns atas fillIxns scopeIxn =
     length budgetIxns + length atas + length fillIxns + (if length scopeIxn > 0 then 1 else 0)"

definition buildDepositWithLeverageIxns ::
    "lev \<Rightarrow> kamino_market \<Rightarrow> kamino_reserve \<Rightarrow> kamino_reserve \<Rightarrow> pubkey \<Rightarrow> kamino_obligation + obligation_type \<Rightarrow> pubkey \<Rightarrow> nat \<Rightarrow> bool \<Rightarrow>
     string option \<Rightarrow> deposit_leverage \<Rightarrow> instruction list option \<Rightarrow> swap_ixs \<Rightarrow> strategy option \<Rightarrow> bool \<Rightarrow> bool \<Rightarrow> nat option \<Rightarrow>
     leverage_ixs result option" where
  "buildDepositWithLeverageIxns V mk debtRes collRes owner target referrer slot depositTokenIsSol feed calcs budget swapQuoteIxs s
       collIsKtoken useV2 emodeOverride =
     (let E = le V; budgetIxns = budget_or E 3000000 budget;
          flashReserve = (if \<not> collIsKtoken then collRes else debtRes);
          flashAmount = (if \<not> collIsKtoken then flashBorrowInCollToken calcs else flashBorrowInDebtTokenKtokenOnly calcs) in
      bindO (Some (bindE (reserve_ata V collRes owner) (\<lambda>collAta.
                   bindE (reserve_ata V debtRes owner) (\<lambda>debtAta.
                   bindE (mintsToCreateAtas E collRes debtRes collIsKtoken s) (\<lambda>mints.
                   bindE (if depositTokenIsSol then
                            bindE (getAssociatedTokenAddressSync V (NATIVE_MINT (sol E)) owner False (TOKEN_PROGRAM_ID (sol E))) (\<lambda>ata.
                              Inr (getTransferWsolIxns E owner ata (dceil (numberToLamportsDecimal (num E) (initDepositInSol calcs) 9))))
                          else Inr []) (\<lambda>fillIxns.
                     Inr (if \<not> collIsKtoken then collAta else debtAta, createAtasIdempotent E owner mints, fillIxns)))))))
        (\<lambda>(ata, atas, fillIxns).
      bindO (getScopeRefreshIx E mk collRes debtRes target feed) (\<lambda>scopeIxn.
      bindO (Some (bindE (getFlashLoanInstructions E (flash_index budgetIxns atas fillIxns scopeIxn)
                            (market_loan E mk owner flashReserve (toLamports V flashAmount flashReserve) ata)) (\<lambda>loan.
                   bindE (bn_amount V (dfloor (toLamports V (collTokenToDeposit calcs) collRes))) (\<lambda>depositAmount.
                   bindE (bn_amount V (dceil (toLamports V (debtTokenToBorrow calcs) debtRes))) (\<lambda>borrowAmount.
                     Inr (loan, depositAmount, borrowAmount))))))
        (\<lambda>((flashBorrowIxn, flashRepayIxn), depositAmount, borrowAmount).
      bindO (buildDepositAndBorrowTxns E mk depositAmount (getLiquidityMint (r_state collRes)) borrowAmount (getLiquidityMint (r_state debtRes))
               owner target (no_support useV2 (emodeOverride \<noteq> Some 0) referrer slot)) (\<lambda>action.
      bindO (Some (removeBudgetAndAtaIxns V (swapIxs swapQuoteIxs) [])) (\<lambda>swapInstructions.
        Some (Inr \<lparr>flashLoanInfo = flash_info E flashReserve,
          instructions = scopeIxn @ budgetIxns @ map snd atas @ fillIxns @ [flashBorrowIxn] @
            (if \<not> collIsKtoken then actionToIxs action @ swapInstructions
             else swapInstructions @ setupIxs action @ actionToLendingIxs action @ cleanupIxs action) @ [flashRepayIxn]\<rparr>)))))))"

text \<open>Half of the owner's SOL, at most 0.1, is wrapped when the debt is SOL.\<close>

definition balance_to_wrap :: "lev \<Rightarrow> pubkey \<Rightarrow> decimal" where
  "balance_to_wrap V owner =
     (let half = ndiv (ndiv (getBalance V owner) (Fin 1000000000)) (Fin 2); limit = b64 (1 / 10)
      in dec_of_num (if xlt half limit then half else limit))"

definition buildWithdrawWithLeverageIxns ::
    "lev \<Rightarrow> kamino_market \<Rightarrow> kamino_reserve \<Rightarrow> kamino_reserve \<Rightarrow> pubkey \<Rightarrow> kamino_obligation \<Rightarrow> pubkey \<Rightarrow> nat \<Rightarrow> bool \<Rightarrow> bool \<Rightarrow>
     string option \<Rightarrow> withdraw_leverage \<Rightarrow> instruction list option \<Rightarrow> swap_ixs \<Rightarrow> strategy option \<Rightarrow> bool \<Rightarrow> bool \<Rightarrow> leverage_ixs result option" where
  "buildWithdrawWithLeverageIxns V mk debtRes collRes owner ob referrer slot isClosingPosition depositTokenIsSol feed calcs budget
       swapQuoteIxs s collIsKtoken useV2 =
     (let E = le V; S = sol E; budgetIxns = budget_or E 3000000 budget; debtMint = getLiquidityMint (r_state debtRes) in
      bindO (Some (bindE (reserve_ata V debtRes owner) (\<lambda>debtAta.
                   bindE (mintsToCreateAtas E collRes debtRes collIsKtoken s) (\<lambda>mints.
                   bindE (if depositTokenIsSol \<or> debtMint = NATIVE_MINT S then
                            bindE (getAssociatedTokenAddress S (NATIVE_MINT S) owner False (TOKEN_PROGRAM_ID S) (ASSOCIATED_TOKEN_PROGRAM_ID S))
                              (\<lambda>wsol. Inr [createCloseAccountInstruction E wsol owner owner (TOKEN_PROGRAM_ID S)])
                          else Inr []) (\<lambda>closeIxns.
                   bindE (if debtMint = NATIVE_MINT S then
                            bindE (getAssociatedTokenAddressSync V (NATIVE_MINT S) owner False (TOKEN_PROGRAM_ID S)) (\<lambda>ata.
                              Inr (getTransferWsolIxns E owner ata (dceil (numberToLamportsDecimal (num E) (balance_to_wrap V owner) 9))))
                          else Inr []) (\<lambda>fillIxns.
                     Inr (debtAta, createAtasIdempotent E owner mints, fillIxns, closeIxns)))))))
        (\<lambda>(debtAta, atas, fillIxns, closeIxns).
      bindO (getScopeRefreshIx E mk collRes debtRes (Inl ob) feed) (\<lambda>scopeIxn.
      bindO (Some (bindE (getFlashLoanInstructions E (flash_index budgetIxns atas fillIxns scopeIxn)
                            (market_loan E mk owner debtRes (toLamports V (wl_repayAmount calcs) debtRes) debtAta)) (\<lambda>loan.
                   bindE (if isClosingPosition then Inr U64_MAX
                          else bn_amount V (dfloor (toLamports V (wl_repayAmount calcs) debtRes))) (\<lambda>repayAmount.
                   bindE (if isClosingPosition then Inr U64_MAX
                          else bn_amount V (dceil (toLamports V (depositTokenWithdrawAmount calcs) collRes))) (\<lambda>withdrawAmount.
                     Inr (loan, repayAmount, withdrawAmount))))))
        (\<lambda>((flashBorrowIxn, flashRepayIxn), repayAmount, withdrawAmount).
      bindO (buildRepayAndWithdrawTxns E mk repayAmount debtMint withdrawAmount (getLiquidityMint (r_state collRes)) owner (Inl ob)
               ((no_support useV2 False referrer slot)\<lparr>withLookupTable := isClosingPosition\<rparr>)) (\<lambda>action.
      bindO (Some (removeBudgetAndAtaIxns V (swapIxs swapQuoteIxs) [])) (\<lambda>swapInstructions.
        Some (Inr \<lparr>flashLoanInfo = flash_info E debtRes,
          instructions = scopeIxn @ budgetIxns @ map snd atas @ fillIxns @ [flashBorrowIxn] @
            (actionToIxs action @ swapInstructions) @ [flashRepayIxn] @ closeIxns\<rparr>)))))))"

definition buildIncreaseLeverageIxns ::
    "lev \<Rightarrow> pubkey \<Rightarrow> kamino_market \<Rightarrow> pubkey \<Rightarrow> pubkey \<Rightarrow> kamino_obligation \<Rightarrow> pubkey \<Rightarrow> nat \<Rightarrow> adjust_leverage \<Rightarrow> strategy option \<Rightarrow>
     string option \<Rightarrow> bool \<Rightarrow> swap_ixs \<Rightarrow> instruction list option \<Rightarrow> bool \<Rightarrow> leverage_ixs result option" where
  "buildIncreaseLeverageIxns V owner mk collTokenMint debtTokenMint ob referrer slot calcs s feed collIsKtoken swapQuoteIxs budget useV2 =
     (let E = le V; budgetIxns = budget_or E 3000000 budget; opt = no_support useV2 False referrer slot in
      bindO (Some (bindE (deref (getReserveByMint mk debtTokenMint)) (\<lambda>debtRes.
                   bindE (reserve_ata V debtRes owner) (\<lambda>debtAta.
                   bindE (deref (getReserveByMint mk collTokenMint)) (\<lambda>collRes.
                   bindE (reserve_ata V collRes owner) (\<lambda>collAta.
                   bindE (mintsToCreateAtas E collRes debtRes collIsKtoken s) (\<lambda>mints.
                     Inr (debtRes, collRes, if \<not> collIsKtoken then collAta else debtAta, createAtasIdempotent E owner mints))))))))
        (\<lambda>(debtRes, collRes, ata, atas).
      let flashReserve = (if \<not> collIsKtoken then collRes else debtRes);
          flashAmount = (if \<not> collIsKtoken then al_adjustDepositPosition calcs else amountToFlashBorrowDebt calcs) in
      bindO (getScopeRefreshIx E mk collRes debtRes (Inl ob) feed) (\<lambda>scopeIxn.
      bindO (Some (bindE (getFlashLoanInstructions E (flash_index budgetIxns atas [] scopeIxn)
                            (market_loan E mk owner flashReserve (toLamports V flashAmount flashReserve) ata)) (\<lambda>loan.
                   bindE (bn_amount V (dfloor (toLamports V (al_adjustDepositPosition calcs) collRes))) (\<lambda>depositAmount. Inr (loan, depositAmount)))))
        (\<lambda>((flashBorrowIxn, flashRepayIxn), depositAmount).
      bindO (buildDepositTxns E mk depositAmount collTokenMint owner (Inl ob) opt) (\<lambda>depositAction.
      bindO (Some (bn_amount V (dceil (toLamports V (al_borrowAmount calcs) debtRes)))) (\<lambda>borrowAmount.
      bindO (buildBorrowTxns E mk borrowAmount debtTokenMint owner (Inl ob) opt) (\<lambda>borrowAction.
      bindO (Some (removeBudgetAndAtaIxns V (swapIxs swapQuoteIxs) [])) (\<lambda>swapInstructions.
        let actionIxs = actionToIxs depositAction @ actionToIxs borrowAction in
        Some (Inr \<lparr>flashLoanInfo = flash_info E flashReserve,
          instructions = scopeIxn @ budgetIxns @ map snd atas @ [flashBorrowIxn] @
            (if \<not> collIsKtoken then actionIxs @ swapInstructions else swapInstructions @ actionIxs) @ [flashRepayIxn]\<rparr>)))))))))"

definition buildDecreaseLeverageIxns ::
    "lev \<Rightarrow> pubkey \<Rightarrow> kamino_market \<Rightarrow> pubkey \<Rightarrow> pubkey \<Rightarrow> kamino_obligation \<Rightarrow> pubkey \<Rightarrow> nat \<Rightarrow> adjust_leverage \<Rightarrow> strategy option \<Rightarrow>
     string option \<Rightarrow> bool \<Rightarrow> swap_ixs \<Rightarrow> instruction list option \<Rightarrow> bool \<Rightarrow> leverage_ixs result option" where
  "buildDecreaseLeverageIxns V owner mk collTokenMint debtTokenMint ob referrer slot calcs s feed collIsKtoken swapQuoteIxs budget useV2 =
     (let E = le V; S = sol E; budgetIxns = budget_or E 3000000 budget; opt = no_support useV2 False referrer slot in
      bindO (Some (bindE (deref (getReserveByMint mk debtTokenMint)) (\<lambda>debtRes.
                   bindE (reserve_ata V debtRes owner) (\<lambda>debtAta.
                   bindE (deref (getReserveByMint mk collTokenMint)) (\<lambda>collRes.
                   bindE (mintsToCreateAtas E collRes debtRes collIsKtoken s) (\<lambda>mints.
                   bindE (if debtTokenMint = NATIVE_MINT S then
                            bindE (getAssociatedTokenAddress S (NATIVE_MINT S) owner False (TOKEN_PROGRAM_ID S) (ASSOCIATED_TOKEN_PROGRAM_ID S)) (\<lambda>wsol.
                              Inr (getTransferWsolIxns E owner wsol (dceil (toLamports V (balance_to_wrap V owner) debtRes)),
                                   [createCloseAccountInstruction E wsol owner owner (TOKEN_PROGRAM_ID S)]))
                          else Inr ([], [])) (\<lambda>(fillIxns, closeIxns).
                     Inr (debtRes, collRes, debtAta, createAtasIdempotent E owner mints, fillIxns, closeIxns))))))))
        (\<lambda>(debtRes, collRes, debtAta, atas, fillIxns, closeIxns).
      let borrowed = toLamports V (dabs (al_adjustBorrowPosition calcs)) debtRes in
      bindO (getScopeRefreshIx E mk collRes debtRes (Inl ob) feed) (\<lambda>scopeIxn.
      bindO (Some (bindE (getFlashLoanInstructions E (flash_index budgetIxns atas fillIxns scopeIxn) (market_loan E mk owner debtRes borrowed debtAta))
                     (\<lambda>loan. bindE (bn_amount V (dfloor borrowed)) (\<lambda>repayAmount. Inr (loan, repayAmount)))))
        (\<lambda>((flashBorrowIxn, flashRepayIxn), repayAmount).
      bindO (buildRepayTxns E mk repayAmount debtTokenMint owner (Inl ob) opt None) (\<lambda>repayAction.
      bindO (Some (bn_amount V (dceil (toLamports V (withdrawAmountWithSlippageAndFlashLoanFee calcs) collRes)))) (\<lambda>withdrawAmount.
      bindO (buildWithdrawTxns E mk withdrawAmount collTokenMint owner (Inl ob) opt []) (\<lambda>withdrawAction.
      bindO (Some (removeBudgetAndAtaIxns V (swapIxs swapQuoteIxs) [])) (\<lambda>swapInstructions.
        Some (Inr \<lparr>flashLoanInfo = flash_info E debtRes,
          instructions = scopeIxn @ budgetIxns @ map snd atas @ fillIxns @ [flashBorrowIxn] @
            (actionToIxs repayAction @ actionToIxs withdrawAction @ swapInstructions) @ [flashRepayIxn] @ closeIxns\<rparr>)))))))))"

section \<open>Inputs of the operations\<close>

record 'q lev_props =
  lp_owner :: pubkey
  lp_market :: kamino_market
  lp_debtTokenMint :: pubkey
  lp_collTokenMint :: pubkey
  lp_referrer :: pubkey
  lp_currentSlot :: nat
  lp_slippagePct :: decimal
  lp_budget :: "instruction list option"
  lp_kamino :: "kliquidity option"
  lp_feed :: "string option"
  lp_quoteBufferBps :: decimal
  lp_isKtoken :: "pubkey \<Rightarrow> bool"
  lp_quoter :: "'q quoter"
  lp_swapper :: "'q swapper"
  lp_useV2 :: bool

record 'q deposit_props = "'q lev_props" +
  dp_obligation :: "kamino_obligation option"
  dp_obligationTypeTag :: nat
  dp_depositAmount :: decimal
  dp_priceDebtToColl :: decimal
  dp_targetLeverage :: decimal
  dp_selectedTokenMint :: pubkey
  dp_priceAinB :: "pubkey \<Rightarrow> pubkey \<Rightarrow> decimal"
  dp_emodeOverride :: "nat option"

record 'q withdraw_props = "'q lev_props" +
  wp_obligation :: kamino_obligation
  wp_deposited :: decimal
  wp_borrowed :: decimal
  wp_withdrawAmount :: decimal
  wp_priceCollToDebt :: decimal
  wp_isClosingPosition :: bool
  wp_selectedTokenMint :: pubkey

record 'q adjust_props = "'q lev_props" +
  ap_obligation :: kamino_obligation
  ap_depositedLamports :: decimal
  ap_borrowedLamports :: decimal
  ap_targetLeverage :: decimal
  ap_priceCollToDebt :: decimal
  ap_priceDebtToColl :: decimal
  ap_priceAinB :: "pubkey \<Rightarrow> pubkey \<Rightarrow> decimal"

text \<open>What the first half of an operation returns: the inputs of the swap, the flash loan and the initial inputs of the second half.\<close>

record ('q, 'c) lev_inputs =
  li_swapInputs :: swap_inputs
  li_flashLoanInfo :: flash_loan_info
  li_calcs :: 'c
  li_swapQuote :: "'q swap_quote"
  li_klendAccounts :: "pubkey list"
  li_collIsKtoken :: bool
  li_strategy :: "strategy option"
  li_obligation :: "kamino_obligation + obligation_type"

record ('q, 'c) lev_response =
  lr_ixs :: "instruction list"
  lr_flashLoanInfo :: flash_loan_info
  lr_lookupTables :: "pubkey option list"
  lr_swapInputs :: swap_inputs
  lr_initialInputs :: "('q, 'c) lev_inputs"

definition strategy_of :: "('q, 'r) lev_props_scheme \<Rightarrow> strategy option result" where
  "strategy_of p =
     (if lp_isKtoken p (lp_collTokenMint p)
      then bindE (deref (lp_kamino p)) (\<lambda>K. Inr (getStrategyByKTokenMint K (lp_collTokenMint p))) else Inr None)"

definition token_is_sol :: "env \<Rightarrow> kamino_market \<Rightarrow> pubkey \<Rightarrow> bool" where
  "token_is_sol E mk mint =
     (case getReserveByMint mk (NATIVE_MINT (sol E)) of None \<Rightarrow> False | Some r \<Rightarrow> mint = getLiquidityMint (r_state r))"

definition with_buffer :: "lev \<Rightarrow> ('q, 'r) lev_props_scheme \<Rightarrow> decimal \<Rightarrow> decimal" where
  "with_buffer V p amount = dmul (lnum V) amount (dadd (lnum V) (Fin 1) (ddiv (lnum V) (lp_quoteBufferBps p) (FullBPS V)))"

text \<open>The tables of a ktoken's strategy are added to those of its swapper.\<close>

definition with_strategy_table :: "lev \<Rightarrow> bool \<Rightarrow> strategy option \<Rightarrow> pubkey option list \<Rightarrow> pubkey option list result" where
  "with_strategy_table V collIsKtoken s tables =
     (if collIsKtoken then bindE (deref s) (\<lambda>s. Inr (tables @ [getLookupTableAccount V (strategyLookupTable s)])) else Inr tables)"

section \<open>Deposit with leverage\<close>

definition getDepositWithLeverageCalcs ::
    "lev \<Rightarrow> decimal \<Rightarrow> bool \<Rightarrow> bool \<Rightarrow> bool \<Rightarrow> decimal \<Rightarrow> decimal \<Rightarrow> decimal \<Rightarrow> decimal \<Rightarrow> strategy option \<Rightarrow> pubkey \<Rightarrow>
     (pubkey \<Rightarrow> pubkey \<Rightarrow> decimal) \<Rightarrow> kamino_reserve \<Rightarrow> deposit_leverage result" where
  "getDepositWithLeverageCalcs V depositAmount selectedTokenIsCollToken collIsKtoken depositTokenIsSol priceDebtToColl targetLeverage
       slippagePct fee s debtTokenMint priceAinB debtRes =
     (if \<not> collIsKtoken then
        Inr (depositLeverageCalcs (lnum V) depositAmount selectedTokenIsCollToken depositTokenIsSol priceDebtToColl targetLeverage slippagePct fee)
      else
        bindE (deref s) (\<lambda>s.
        bindE (depositLeverageKtokenCalcs V s debtTokenMint depositAmount selectedTokenIsCollToken depositTokenIsSol priceDebtToColl
                 targetLeverage slippagePct fee priceAinB None) (\<lambda>c.
        bindE (mint_decimals (lnum V) (r_state debtRes)) (\<lambda>n.
          Inr (c\<lparr>flashBorrowInDebtTokenKtokenOnly := dplaces_ceil n (flashBorrowInDebtTokenKtokenOnly c),
                 debtTokenToBorrow := dplaces_ceil n (debtTokenToBorrow c),
                 singleSidedDepositKtokenOnly := dplaces_ceil n (singleSidedDepositKtokenOnly c)\<rparr>)))))"

definition deposit_swap_in :: "bool \<Rightarrow> deposit_leverage \<Rightarrow> decimal" where
  "deposit_swap_in collIsKtoken c = (if \<not> collIsKtoken then swapDebtTokenIn c else singleSidedDepositKtokenOnly c)"

definition leverage_obligation_type :: "nat \<Rightarrow> pubkey \<Rightarrow> pubkey \<Rightarrow> pubkey \<Rightarrow> obligation_type result" where
  "leverage_obligation_type tag coll debt programId =
     (if tag = 1 then Inr (MultiplyObligation coll debt programId 0)
      else if tag = 3 then Inr (LeverageObligation coll debt programId 0)
      else Inl (Throw ''Obligation type tag not supported for leverage, please use 1 - multiply or 3 - leverage''))"

definition getDepositWithLeverageSwapInputs :: "lev \<Rightarrow> 'q deposit_props \<Rightarrow> ('q, deposit_leverage) lev_inputs result option" where
  "getDepositWithLeverageSwapInputs V p =
     (let E = le V; mk = lp_market p; coll = lp_collTokenMint p; debt = lp_debtTokenMint p; owner = lp_owner p;
          isColl = (dp_selectedTokenMint p = coll); isSol = token_is_sol E mk (dp_selectedTokenMint p); kt = lp_isKtoken p coll in
      bindO (Some (bindE (deref (getReserveByMint mk coll)) (\<lambda>collRes.
                   bindE (deref (getReserveByMint mk debt)) (\<lambda>debtRes.
                   bindE (strategy_of p) (\<lambda>s.
                   bindE (getDepositWithLeverageCalcs V (dp_depositAmount p) isColl kt isSol (dp_priceDebtToColl p) (dp_targetLeverage p)
                            (lp_slippagePct p) (getFlashLoanFee (num E) (r_state collRes)) s debt (dp_priceAinB p) debtRes) (\<lambda>calcs.
                   bindE (leverage_obligation_type (dp_obligationTypeTag p) coll debt (m_programId mk)) (\<lambda>t.
                     Inr (collRes, debtRes, s, calcs, case dp_obligation p of Some ob \<Rightarrow> Inl ob | None \<Rightarrow> Inr t))))))))
        (\<lambda>(collRes, debtRes, s, calcs, target).
      bindO (buildDepositWithLeverageIxns V mk debtRes collRes owner target (lp_referrer p) (lp_currentSlot p) isSol (lp_feed p) calcs
               (lp_budget p) no_swap s kt (lp_useV2 p) (dp_emodeOverride p)) (\<lambda>klendIxs.
      let accounts = uniqueAccounts (instructions klendIxs);
          swapIn = dceil (toLamports V (deposit_swap_in kt calcs) debtRes) in
      Some (bindE (lp_quoter p \<lparr>inputAmountLamports = with_buffer V p swapIn, minOutAmountLamports = None, inputMint = debt, outputMint = coll,
                                amountDebtAtaBalance = Some (Fin 0)\<rparr> accounts) (\<lambda>quote.
            bindE (getDepositWithLeverageCalcs V (dp_depositAmount p) isColl kt isSol (priceAInB quote) (dp_targetLeverage p)
                     (lp_slippagePct p) (getFlashLoanFee (num E) (r_state collRes)) s debt (dp_priceAinB p) debtRes) (\<lambda>c.
            bindE (if kt then mint_decimals (num E) (r_state debtRes) else Inr 0) (\<lambda>n.
              let inAta = dadd (num E) (if debt = NATIVE_MINT (sol E) then dadd (num E) (Fin 0) (initDepositInSol c) else Fin 0)
                            (flashBorrowInDebtTokenKtokenOnly c);
                  balance = (if kt then getExpectedTokenBalanceAfterBorrow V debt owner
                                          (toLamports V (dplaces (num E) (rd_decimals (stats debtRes)) inAta) debtRes) n
                             else Fin 0);
                  minOut = (if \<not> kt then toLamports V (flashBorrowInCollToken c) collRes
                            else toLamports V (flashBorrowInDebtTokenKtokenOnly c) debtRes)
              in Inr \<lparr>li_swapInputs = \<lparr>inputAmountLamports = dceil (toLamports V (deposit_swap_in kt c) debtRes),
                        minOutAmountLamports = Some minOut, inputMint = debt, outputMint = coll, amountDebtAtaBalance = Some balance\<rparr>,
                      li_flashLoanInfo = flashLoanInfo klendIxs, li_calcs = c, li_swapQuote = quote, li_klendAccounts = accounts,
                      li_collIsKtoken = kt, li_strategy = s, li_obligation = target\<rparr>)))))))"

text \<open>The second half. The first one is called without the elevation group override.\<close>

definition getDepositWithLeverageIxns :: "lev \<Rightarrow> 'q deposit_props \<Rightarrow> ('q, deposit_leverage) lev_response result option" where
  "getDepositWithLeverageIxns V p =
     bindO (getDepositWithLeverageSwapInputs V (p\<lparr>dp_emodeOverride := None\<rparr>)) (\<lambda>i.
       let E = le V; mk = lp_market p; kt = li_collIsKtoken i in
       bindO (Some (bindE (if \<not> kt then Inr (lp_swapper p)
                           else bindE (need (lp_kamino p) ''Ktoken use as collateral for leverage without Kamino instance'') (\<lambda>K.
                             Inr (getTokenToKtokenSwapper V mk K (lp_owner p) (lp_slippagePct p) (lp_swapper p) (dp_priceAinB p) False))) (\<lambda>swapper.
                    bindE (swapper (li_swapInputs i) (li_klendAccounts i) (li_swapQuote i)) (\<lambda>sw.
                    bindE (with_strategy_table V kt (li_strategy i) (lookupTables sw)) (\<lambda>tables.
                    bindE (deref (getReserveByMint mk (lp_collTokenMint p))) (\<lambda>collRes.
                    bindE (deref (getReserveByMint mk (lp_debtTokenMint p))) (\<lambda>debtRes.
                      Inr (sw, tables, collRes, debtRes))))))))
         (\<lambda>(sw, tables, collRes, debtRes).
       bindO (buildDepositWithLeverageIxns V mk debtRes collRes (lp_owner p) (li_obligation i) (lp_referrer p) (lp_currentSlot p)
                (token_is_sol E mk (dp_selectedTokenMint p)) (lp_feed p) (li_calcs i) (lp_budget p)
                \<lparr>preActionIxs = [], swapIxs = swapIxs sw, lookupTables = tables\<rparr> (li_strategy i) kt (lp_useV2 p) (dp_emodeOverride p)) (\<lambda>ixs.
         Some (Inr \<lparr>lr_ixs = instructions ixs, lr_flashLoanInfo = flashLoanInfo ixs, lr_lookupTables = tables,
                    lr_swapInputs = li_swapInputs i, lr_initialInputs = i\<rparr>))))"

end
