(* ===== verification/Leverage_Flows.thy ===== *)
theory Leverage_Flows
  imports Leverage_Ops
begin

text \<open>
  Withdrawing from and adjusting a leveraged position (\<open>src/ts-client/src/leverage/operations.ts\<close>), built as in \<open>Leverage_Ops\<close>.
\<close>

section \<open>Withdraw with leverage\<close>

definition getWithdrawWithLeverageSwapInputs :: "lev \<Rightarrow> 'q withdraw_props \<Rightarrow> ('q, withdraw_leverage) lev_inputs result option" where
  "getWithdrawWithLeverageSwapInputs V p =
     (let E = le V; mk = lp_market p; coll = lp_collTokenMint p; debt = lp_debtTokenMint p; ob = wp_obligation p;
          isColl = (wp_selectedTokenMint p = coll); isSol = token_is_sol E mk (wp_selectedTokenMint p); kt = lp_isKtoken p coll;
          calcsAt = (\<lambda>collRes debtRes price.
            withdrawLeverageCalcs (num E) mk collRes debtRes price (wp_withdrawAmount p) (wp_deposited p) (wp_borrowed p) (lp_currentSlot p)
              (wp_isClosingPosition p) isColl (wp_selectedTokenMint p) ob (getFlashLoanFee (num E) (r_state debtRes)) (lp_slippagePct p)) in
      bindO (Some (bindE (deref (getReserveByMint mk debt)) (\<lambda>debtRes.
                   bindE (strategy_of p) (\<lambda>s.
                   bindE (deref (getReserveByMint mk coll)) (\<lambda>collRes.
                   bindE (calcsAt collRes debtRes (wp_priceCollToDebt p)) (\<lambda>calcs. Inr (collRes, debtRes, s, calcs)))))))
        (\<lambda>(collRes, debtRes, s, calcs).
      bindO (buildWithdrawWithLeverageIxns V mk debtRes collRes (lp_owner p) ob (lp_referrer p) (lp_currentSlot p) (wp_isClosingPosition p)
               isSol (lp_feed p) calcs (lp_budget p) no_swap s kt (lp_useV2 p)) (\<lambda>klendIxs.
      let accounts = uniqueAccounts (instructions klendIxs);
          lamportsIn = (\<lambda>c. bindE (mint_decimals (num E) (r_state collRes)) (\<lambda>n.
            Inr (dceil (numberToLamportsDecimal (num E) (collTokenSwapIn c) n)))) in
      Some (bindE (lamportsIn calcs) (\<lambda>swapIn.
            bindE (lp_quoter p \<lparr>inputAmountLamports = with_buffer V p swapIn, minOutAmountLamports = None, inputMint = coll, outputMint = debt,
                                amountDebtAtaBalance = Some (Fin 0)\<rparr> accounts) (\<lambda>quote.
            bindE (calcsAt collRes debtRes (if \<not> kt then priceAInB quote else wp_priceCollToDebt p)) (\<lambda>c.
            bindE (lamportsIn c) (\<lambda>swapInQuote.
              Inr \<lparr>li_swapInputs = \<lparr>inputAmountLamports = swapInQuote, minOutAmountLamports = Some (wl_repayAmount c), inputMint = coll,
                     outputMint = debt, amountDebtAtaBalance = Some (Fin 0)\<rparr>,
                   li_flashLoanInfo = flashLoanInfo klendIxs, li_calcs = c, li_swapQuote = quote, li_klendAccounts = accounts,
                   li_collIsKtoken = kt, li_strategy = s, li_obligation = Inl ob\<rparr>))))))))"

definition getWithdrawWithLeverageIxns :: "lev \<Rightarrow> 'q withdraw_props \<Rightarrow> ('q, withdraw_leverage) lev_response result option" where
  "getWithdrawWithLeverageIxns V p =
     bindO (getWithdrawWithLeverageSwapInputs V p) (\<lambda>i.
       let E = le V; mk = lp_market p; kt = li_collIsKtoken i in
       bindO (Some (bindE (if kt then bindE (need (lp_kamino p) ''Ktoken use as collateral for leverage without Kamino instance'') (\<lambda>K.
                             Inr (getKtokenToTokenSwapper V mk K (lp_owner p) (lp_swapper p)))
                           else Inr (lp_swapper p)) (\<lambda>swapper.
                    bindE (swapper (li_swapInputs i) (li_klendAccounts i) (li_swapQuote i)) (\<lambda>sw.
                    bindE (with_strategy_table V kt (li_strategy i) (lookupTables sw)) (\<lambda>tables.
                    bindE (deref (getReserveByMint mk (lp_collTokenMint p))) (\<lambda>collRes.
                    bindE (deref (getReserveByMint mk (lp_debtTokenMint p))) (\<lambda>debtRes.
                      Inr (sw, tables, collRes, debtRes))))))))
         (\<lambda>(sw, tables, collRes, debtRes).
       bindO (buildWithdrawWithLeverageIxns V mk debtRes collRes (lp_owner p) (wp_obligation p) (lp_referrer p) (lp_currentSlot p)
                (wp_isClosingPosition p) (token_is_sol E mk (wp_selectedTokenMint p)) (lp_feed p) (li_calcs i) (lp_budget p)
                \<lparr>preActionIxs = [], swapIxs = swapIxs sw, lookupTables = tables\<rparr> (li_strategy i) kt (lp_useV2 p)) (\<lambda>ixs.
         Some (Inr \<lparr>lr_ixs = instructions ixs, lr_flashLoanInfo = flashLoanInfo ixs, lr_lookupTables = tables,
                    lr_swapInputs = li_swapInputs i, lr_initialInputs = i\<rparr>))))"

section \<open>Adjusting the leverage\<close>

definition adjust_amounts :: "lev \<Rightarrow> 'q adjust_props \<Rightarrow> kamino_reserve \<Rightarrow> kamino_reserve \<Rightarrow> decimal \<Rightarrow> decimal \<Rightarrow> position_change" where
  "adjust_amounts V p collRes debtRes price fee =
     calcAdjustAmounts (lnum V) (ap_targetLeverage p)
       (lamportsToNumberDecimal (lnum V) (ap_borrowedLamports p) (rd_decimals (stats debtRes)))
       (lamportsToNumberDecimal (lnum V) (ap_depositedLamports p) (rd_decimals (stats collRes))) price fee"

definition increase_swap_inputs ::
    "lev \<Rightarrow> 'q adjust_props \<Rightarrow> kamino_reserve \<Rightarrow> kamino_reserve \<Rightarrow> strategy option \<Rightarrow> decimal \<Rightarrow> position_change \<Rightarrow>
     (('q, adjust_leverage) lev_inputs \<times> bool) result option" where
  "increase_swap_inputs V p collRes debtRes s fee change =
     (let L = lnum V; mk = lp_market p; coll = lp_collTokenMint p; debt = lp_debtTokenMint p; owner = lp_owner p; kt = lp_isKtoken p coll;
          calcsAt = (\<lambda>change price. adjustDepositLeverageCalcs V owner debtRes (adjustDepositPosition change) (adjustBorrowPosition change)
            price fee (lp_slippagePct p) kt);
          amountIn = (\<lambda>c. if \<not> kt then al_borrowAmount c else amountToFlashBorrowDebt c) in
      bindO (Some (calcsAt change (ap_priceDebtToColl p))) (\<lambda>calcs.
      bindO (buildIncreaseLeverageIxns V owner mk coll debt (ap_obligation p) (lp_referrer p) (lp_currentSlot p) calcs s (lp_feed p) kt no_swap
               (lp_budget p) (lp_useV2 p)) (\<lambda>klendIxs.
      let accounts = uniqueAccounts (instructions klendIxs) in
      Some (bindE (lp_quoter p \<lparr>inputAmountLamports = with_buffer V p (dceil (toLamports V (amountIn calcs) debtRes)),
                                minOutAmountLamports = None, inputMint = debt, outputMint = coll, amountDebtAtaBalance = Some (Fin 0)\<rparr> accounts) (\<lambda>quote.
            bindE (calcsAt (adjust_amounts V p collRes debtRes (ddiv L (Fin 1) (priceAInB quote)) fee) (priceAInB quote)) (\<lambda>c.
            bindE (mint_decimals L (r_state debtRes)) (\<lambda>n.
              let balance = (if kt then getExpectedTokenBalanceAfterBorrow V debt owner (dfloor (toLamports V (amountIn c) debtRes)) n else Fin 0);
                  minOut = (if \<not> kt then toLamports V (al_adjustDepositPosition c) collRes else toLamports V (amountToFlashBorrowDebt c) debtRes)
              in Inr (\<lparr>li_swapInputs = \<lparr>inputAmountLamports = dceil (numberToLamportsDecimal L (amountIn c) n),
                         minOutAmountLamports = Some minOut, inputMint = debt, outputMint = coll, amountDebtAtaBalance = Some balance\<rparr>,
                       li_flashLoanInfo = flashLoanInfo klendIxs, li_calcs = c, li_swapQuote = quote, li_klendAccounts = accounts,
                       li_collIsKtoken = kt, li_strategy = s, li_obligation = Inl (ap_obligation p)\<rparr>, True))))))))"

definition decrease_swap_inputs ::
    "lev \<Rightarrow> 'q adjust_props \<Rightarrow> kamino_reserve \<Rightarrow> kamino_reserve \<Rightarrow> strategy option \<Rightarrow> decimal \<Rightarrow> position_change \<Rightarrow>
     (('q, adjust_leverage) lev_inputs \<times> bool) result option" where
  "decrease_swap_inputs V p collRes debtRes s fee change =
     (let L = lnum V; mk = lp_market p; coll = lp_collTokenMint p; debt = lp_debtTokenMint p; kt = lp_isKtoken p coll;
          calcsOf = (\<lambda>change. adjustWithdrawLeverageCalcs L (adjustDepositPosition change) (adjustBorrowPosition change) fee (lp_slippagePct p));
          lamportsIn = (\<lambda>c. bindE (mint_decimals L (r_state collRes)) (\<lambda>n.
            Inr (dceil (numberToLamportsDecimal L (withdrawAmountWithSlippageAndFlashLoanFee c) n))));
          calcs = calcsOf change in
      bindO (buildDecreaseLeverageIxns V (lp_owner p) mk coll debt (ap_obligation p) (lp_referrer p) (lp_currentSlot p) calcs s (lp_feed p) kt
               no_swap (lp_budget p) (lp_useV2 p)) (\<lambda>klendIxs.
      let accounts = uniqueAccounts (instructions klendIxs) in
      Some (bindE (lamportsIn calcs) (\<lambda>swapIn.
            bindE (lp_quoter p \<lparr>inputAmountLamports = with_buffer V p swapIn, minOutAmountLamports = None, inputMint = coll, outputMint = debt,
                                amountDebtAtaBalance = Some (Fin 0)\<rparr> accounts) (\<lambda>quote.
              let c = calcsOf (adjust_amounts V p collRes debtRes (priceAInB quote) fee) in
              bindE (lamportsIn c) (\<lambda>swapInQuote.
                Inr (\<lparr>li_swapInputs = \<lparr>inputAmountLamports = swapInQuote,
                        minOutAmountLamports = Some (toLamports V (dabs (al_adjustBorrowPosition c)) debtRes), inputMint = coll, outputMint = debt,
                        amountDebtAtaBalance = Some (Fin 0)\<rparr>,
                      li_flashLoanInfo = flashLoanInfo klendIxs, li_calcs = c, li_swapQuote = quote, li_klendAccounts = accounts,
                      li_collIsKtoken = kt, li_strategy = s, li_obligation = Inl (ap_obligation p)\<rparr>, False)))))))"

text \<open>The flag of the result is \<open>isDeposit\<close>.\<close>

definition getAdjustLeverageSwapInputs :: "lev \<Rightarrow> 'q adjust_props \<Rightarrow> (('q, adjust_leverage) lev_inputs \<times> bool) result option" where
  "getAdjustLeverageSwapInputs V p =
     (let L = lnum V; mk = lp_market p in
      bindO (Some (bindE (deref (getReserveByMint mk (lp_collTokenMint p))) (\<lambda>collRes.
                   bindE (deref (getReserveByMint mk (lp_debtTokenMint p))) (\<lambda>debtRes.
                   bindE (strategy_of p) (\<lambda>s. Inr (collRes, debtRes, s)))))) (\<lambda>(collRes, debtRes, s).
      let viaLeverage = xge (ap_targetLeverage p) (leverage (refreshedStats (ap_obligation p)));
          fee = getFlashLoanFee L (r_state (if viaLeverage then collRes else debtRes));
          change = adjust_amounts V p collRes debtRes (ap_priceCollToDebt p) fee;
          isDeposit = (xge (adjustDepositPosition change) (Fin 0) \<and> xge (adjustBorrowPosition change) (Fin 0)) in
      if viaLeverage \<noteq> isDeposit then Some (Inl (Throw ''Invalid target leverage''))
      else if isDeposit then increase_swap_inputs V p collRes debtRes s fee change
      else decrease_swap_inputs V p collRes debtRes s fee change))"

definition getAdjustLeverageIxns :: "lev \<Rightarrow> 'q adjust_props \<Rightarrow> ('q, adjust_leverage) lev_response result option" where
  "getAdjustLeverageIxns V p =
     bindO (getAdjustLeverageSwapInputs V p) (\<lambda>(i, isDeposit).
       let mk = lp_market p; kt = li_collIsKtoken i; build = (if isDeposit then buildIncreaseLeverageIxns V else buildDecreaseLeverageIxns V) in
       bindO (Some (bindE (if \<not> kt then Inr (lp_swapper p)
                           else bindE (need (lp_kamino p) ''Ktoken use as collateral for leverage without Kamino instance'') (\<lambda>K.
                             Inr (if isDeposit
                                  then getTokenToKtokenSwapper V mk K (lp_owner p) (lp_slippagePct p) (lp_swapper p) (ap_priceAinB p) False
                                  else getKtokenToTokenSwapper V mk K (lp_owner p) (lp_swapper p)))) (\<lambda>swapper.
                    swapper (li_swapInputs i) (li_klendAccounts i) (li_swapQuote i)))) (\<lambda>sw.
       bindO (build (lp_owner p) mk (lp_collTokenMint p) (lp_debtTokenMint p) (ap_obligation p) (lp_referrer p) (lp_currentSlot p) (li_calcs i)
                (li_strategy i) (lp_feed p) kt \<lparr>preActionIxs = [], swapIxs = swapIxs sw, lookupTables = lookupTables sw\<rparr> (lp_budget p) (lp_useV2 p)) (\<lambda>ixs.
         Some (Inr \<lparr>lr_ixs = instructions ixs, lr_flashLoanInfo = flashLoanInfo ixs, lr_lookupTables = lookupTables sw,
                    lr_swapInputs = li_swapInputs i, lr_initialInputs = i\<rparr>))))"

end
