(* ===== verification/Collateral_Ops.thy ===== *)
theory Collateral_Ops
  imports Leverage_Flows
begin

text \<open>
  Repaying debt with collateral (\<open>src/ts-client/src/lending_operations/repay_with_collateral_operations.ts\<close>) and swapping one
  collateral for another (\<open>src/ts-client/src/lending_operations/swap_collateral_operations.ts\<close>), both around a flash loan.
\<close>

section \<open>Repay with collateral\<close>

definition buildRepayWithCollateralIxs ::
    "lev \<Rightarrow> kamino_market \<Rightarrow> kamino_reserve \<Rightarrow> kamino_reserve \<Rightarrow> kamino_obligation \<Rightarrow> pubkey \<Rightarrow> nat \<Rightarrow> instruction list option \<Rightarrow>
     string option \<Rightarrow> swap_ixs \<Rightarrow> bool \<Rightarrow> decimal \<Rightarrow> decimal \<Rightarrow> bool \<Rightarrow> leverage_ixs result option" where
  "buildRepayWithCollateralIxs V mk debtRes collRes ob referrer slot budget feed swapQuoteIxs isClosingPosition repayLamports withdrawLamports useV2 =
     (let E = le V; owner = o_owner (ob_state ob); budgetIxns = budget_or E 1400000 budget;
          atas = createAtasIdempotent E owner
            [(getLiquidityMint (r_state collRes), getLiquidityTokenProgram (r_state collRes)),
             (getLiquidityMint (r_state debtRes), getLiquidityTokenProgram (r_state debtRes))];
          requestEmode = (\<not> isClosingPosition \<and> o_elevationGroup (ob_state ob) \<noteq> 0);
          opt = (no_support useV2 requestEmode referrer slot)\<lparr>includeUserMetadata := True, withLookupTable := True\<rparr>;
          build = (if getMaxWithdrawLtvCheck ob = MAX_LTV then buildRepayAndWithdrawTxns E mk else buildRepayAndWithdrawV2Txns E mk) in
      bindO (getScopeRefreshIx E mk collRes debtRes (Inl ob) feed) (\<lambda>scopeIxn.
      bindO (Some (bindE (getFlashLoanInstructions E (flash_index budgetIxns atas [] scopeIxn)
                            (market_loan E mk owner debtRes repayLamports (fst (atas ! 1)))) (\<lambda>loan.
                   bindE (if isClosingPosition then Inr U64_MAX else bn_amount V repayLamports) (\<lambda>repayAmount.
                   bindE (if isClosingPosition then Inr U64_MAX else bn_amount V withdrawLamports) (\<lambda>withdrawAmount.
                     Inr (loan, repayAmount, withdrawAmount))))))
        (\<lambda>((flashBorrowIxn, flashRepayIxn), repayAmount, withdrawAmount).
      bindO (build repayAmount (getLiquidityMint (r_state debtRes)) withdrawAmount (getLiquidityMint (r_state collRes)) owner (Inl ob) opt) (\<lambda>action.
      bindO (Some (removeBudgetAndAtaIxns V (swapIxs swapQuoteIxs) [])) (\<lambda>swapInstructions.
        Some (Inr \<lparr>flashLoanInfo = flash_info E debtRes,
          instructions = scopeIxn @ budgetIxns @ map snd atas @ [flashBorrowIxn] @
            (preActionIxs swapQuoteIxs @ actionToIxs action @ swapInstructions) @ [flashRepayIxn]\<rparr>))))))"

record 'q repay_props =
  rp_market :: kamino_market
  rp_debtTokenMint :: pubkey
  rp_collTokenMint :: pubkey
  rp_obligation :: kamino_obligation
  rp_referrer :: pubkey
  rp_currentSlot :: nat
  rp_repayAmount :: decimal
  rp_isClosingPosition :: bool
  rp_budget :: "instruction list option"
  rp_feed :: "string option"
  rp_useV2 :: bool
  rp_quoter :: "'q quoter"
  rp_swapper :: "'q swapper"

record 'q repay_inputs =
  ri_swapInputs :: swap_inputs
  ri_flashLoanInfo :: flash_loan_info
  debtRepayAmountLamports :: decimal
  flashRepayAmountLamports :: decimal
  maxCollateralWithdrawLamports :: decimal
  ri_swapQuote :: "'q swap_quote"
  ri_klendAccounts :: "pubkey list"

definition repay_reserves :: "'q repay_props \<Rightarrow> (kamino_reserve \<times> kamino_reserve) result" where
  "repay_reserves p =
     bindE (need (getReserveByMint (rp_market p) (rp_collTokenMint p)) ''Collateral reserve not found in market'') (\<lambda>collRes.
     bindE (need (getReserveByMint (rp_market p) (rp_debtTokenMint p)) ''Debt reserve not found in market'') (\<lambda>debtRes. Inr (collRes, debtRes)))"

definition getRepayWithCollSwapInputs :: "lev \<Rightarrow> 'q repay_props \<Rightarrow> 'q repay_inputs result option" where
  "getRepayWithCollSwapInputs V p =
     (let L = lnum V; mk = rp_market p; ob = rp_obligation p in
      bindO (Some (bindE (repay_reserves p) (\<lambda>(collRes, debtRes).
                   bindE (calcRepayAmountWithSlippage L mk debtRes (rp_currentSlot p) ob (rp_repayAmount p) (rp_referrer p)) (\<lambda>ra.
                   bindE (need (getBorrowByReserve ob (r_address debtRes)) ''Debt position not found'') (\<lambda>_.
                   bindE (need (getDepositByReserve ob (r_address collRes)) ''Collateral position not found'') (\<lambda>_.
                   bindE (calcMaxWithdrawCollateral L mk ob (r_address collRes) (r_address debtRes) (ra_repayAmountLamports ra)) (\<lambda>mw.
                   bindE (getMintFactor L (r_state collRes)) (\<lambda>collFactor.
                   bindE (getMintFactor L (r_state debtRes)) (\<lambda>debtFactor.
                     Inr (collRes, debtRes, ra, withdrawableCollLamports mw, collFactor, debtFactor))))))))))
        (\<lambda>(collRes, debtRes, ra, withdrawable, collFactor, debtFactor).
      let needed = dceil (dmul L (dmul L (ddiv L (dmul L (ra_repayAmount ra) (getOracleMarketPrice debtRes)) (getOracleMarketPrice collRes))
                     (Fin (11 / 10))) collFactor);
          inputLamports = xmin withdrawable needed in
      bindO (buildRepayWithCollateralIxs V mk debtRes collRes ob (rp_referrer p) (rp_currentSlot p) (rp_budget p) (rp_feed p) no_swap
               (rp_isClosingPosition p) (ra_repayAmountLamports ra) inputLamports (rp_useV2 p)) (\<lambda>klendIxs.
      let accounts = uniqueAccounts (instructions klendIxs) in
      Some (bindE (rp_quoter p \<lparr>inputAmountLamports = inputLamports, minOutAmountLamports = None, inputMint = rp_collTokenMint p,
                                outputMint = rp_debtTokenMint p, amountDebtAtaBalance = Some (Fin 0)\<rparr> accounts) (\<lambda>quote.
        let flashRepay = ra_flashRepayAmountLamports ra;
            swapIn = dceil (dmul L (ddiv L (ddiv L flashRepay debtFactor) (priceAInB quote)) collFactor)
        in Inr \<lparr>ri_swapInputs = \<lparr>inputAmountLamports = swapIn, minOutAmountLamports = Some flashRepay, inputMint = rp_collTokenMint p,
                  outputMint = rp_debtTokenMint p, amountDebtAtaBalance = Some (Fin 0)\<rparr>,
                ri_flashLoanInfo = flashLoanInfo klendIxs, debtRepayAmountLamports = ra_repayAmountLamports ra,
                flashRepayAmountLamports = flashRepay, maxCollateralWithdrawLamports = withdrawable, ri_swapQuote = quote,
                ri_klendAccounts = accounts\<rparr>)))))"

record 'q repay_response =
  rr_ixs :: "instruction list"
  rr_lookupTables :: "pubkey option list"
  rr_flashLoanInfo :: flash_loan_info
  rr_swapInputs :: swap_inputs
  rr_initialInputs :: "'q repay_inputs"

definition getRepayWithCollIxs :: "lev \<Rightarrow> 'q repay_props \<Rightarrow> 'q repay_response result option" where
  "getRepayWithCollIxs V p =
     bindO (getRepayWithCollSwapInputs V p) (\<lambda>i.
     bindO (Some (repay_reserves p)) (\<lambda>(collRes, debtRes).
       let swapInputs = (if xgt (inputAmountLamports (ri_swapInputs i)) (maxCollateralWithdrawLamports i)
                         then (ri_swapInputs i)\<lparr>inputAmountLamports := maxCollateralWithdrawLamports i\<rparr> else ri_swapInputs i) in
       bindO (Some (rp_swapper p swapInputs (ri_klendAccounts i) (ri_swapQuote i))) (\<lambda>sw.
       bindO (buildRepayWithCollateralIxs V (rp_market p) debtRes collRes (rp_obligation p) (rp_referrer p) (rp_currentSlot p) (rp_budget p)
                (rp_feed p) sw (rp_isClosingPosition p) (debtRepayAmountLamports i) (inputAmountLamports swapInputs) (rp_useV2 p)) (\<lambda>ixs.
         Some (Inr \<lparr>rr_ixs = instructions ixs, rr_lookupTables = lookupTables sw, rr_flashLoanInfo = flashLoanInfo ixs,
                    rr_swapInputs = swapInputs, rr_initialInputs = i\<rparr>)))))"

end
