(* ===== verification/Swap_Collateral.thy ===== *)
theory Swap_Collateral
  imports Collateral_Ops
begin

text \<open>
  Swapping the collateral of an obligation (\<open>src/ts-client/src/lending_operations/swap_collateral_operations.ts\<close>): the target
  collateral is flash borrowed and deposited, the source collateral withdrawn and swapped, the loan repaid. The instructions are
  built twice, first with a fake amount to learn the accounts for the quote.
\<close>

section \<open>Arguments\<close>

record 'q swap_coll_inputs =
  sc_sourceCollSwapAmount :: decimal
  sc_isClosingSourceColl :: bool
  sc_sourceCollTokenMint :: pubkey
  sc_targetCollTokenMint :: pubkey
  sc_newElevationGroup :: nat
  sc_market :: kamino_market
  sc_obligation :: kamino_obligation
  sc_referrer :: pubkey
  sc_currentSlot :: nat
  sc_budget :: "instruction list option"
  sc_feed :: "string option"
  sc_useV2 :: bool
  sc_quoter :: "'q quoter"
  sc_swapper :: "'q swapper"

record swap_coll_args =
  sa_sourceCollSwapAmount :: decimal
  sa_isClosingSourceColl :: bool
  sa_newElevationGroup :: "elevation_group_description option"

record 'q swap_coll_context =
  cx_budget :: "instruction list"
  cx_market :: kamino_market
  cx_source :: kamino_reserve
  cx_target :: kamino_reserve
  cx_obligation :: kamino_obligation
  cx_quoter :: "'q quoter"
  cx_swapper :: "'q swapper"
  cx_referrer :: pubkey
  cx_currentSlot :: nat
  cx_useV2 :: bool
  cx_feed :: "string option"

definition extractArgsAndContext :: "lev \<Rightarrow> 'q swap_coll_inputs \<Rightarrow> (swap_coll_args \<times> 'q swap_coll_context) result" where
  "extractArgsAndContext V i =
     (if sc_sourceCollTokenMint i = sc_targetCollTokenMint i then Inl (Throw ''Cannot swap from/to the same collateral'')
      else if xle (sc_sourceCollSwapAmount i) (Fin 0) then Inl (Throw ''Cannot swap a negative amount'')
      else
        bindE (getExistingElevationGroup (sc_market i) (sc_newElevationGroup i)) (\<lambda>g.
        bindE (getExistingReserveByMint (sc_market i) (sc_sourceCollTokenMint i)) (\<lambda>source.
        bindE (getExistingReserveByMint (sc_market i) (sc_targetCollTokenMint i)) (\<lambda>target.
          Inr (\<lparr>sa_sourceCollSwapAmount = sc_sourceCollSwapAmount i, sa_isClosingSourceColl = sc_isClosingSourceColl i, sa_newElevationGroup = g\<rparr>,
               \<lparr>cx_budget = budget_or (le V) 1400000 (sc_budget i), cx_market = sc_market i, cx_source = source, cx_target = target,
                cx_obligation = sc_obligation i, cx_quoter = sc_quoter i, cx_swapper = sc_swapper i, cx_referrer = sc_referrer i,
                cx_currentSlot = sc_currentSlot i, cx_useV2 = sc_useV2 i, cx_feed = sc_feed i\<rparr>)))))"

abbreviation cx_owner :: "'q swap_coll_context \<Rightarrow> pubkey" where "cx_owner c \<equiv> o_owner (ob_state (cx_obligation c))"

section \<open>Elevation groups\<close>

definition mustRemoveElevationGroupBeforeDeposit :: "'q swap_coll_context \<Rightarrow> bool result" where
  "mustRemoveElevationGroupBeforeDeposit c =
     (let ob = cx_obligation c; g = o_elevationGroup (ob_state ob) in
      if hm_has (deposits ob) (r_address (cx_target c)) then Inr False
      else if g = 0 then Inr False
      else if g \<notin> set (rc_elevationGroups (config (r_state (cx_target c)))) then Inr True
      else bindE (deref (getElevationGroup (cx_market c) (unat g))) (\<lambda>eg.
        Inr (hm_size (deposits ob) \<ge> unat (eg_maxReservesAsCollateral eg))))"

definition requested_group :: "swap_coll_args \<Rightarrow> nat" where
  "requested_group a = (case sa_newElevationGroup a of None \<Rightarrow> 0 | Some d \<Rightarrow> elevationGroup d)"

definition elevationGroupIdToRequestAfterWithdraw :: "swap_coll_args \<Rightarrow> bool \<Rightarrow> 'q swap_coll_context \<Rightarrow> nat option" where
  "elevationGroupIdToRequestAfterWithdraw a depositRemovedElevationGroup c =
     (let initial = unat (o_elevationGroup (ob_state (cx_obligation c))); requested = requested_group a in
      if requested = 0 then
        if initial = 0 then None else if depositRemovedElevationGroup then None else Some 0
      else if depositRemovedElevationGroup then Some requested
      else if initial = requested then None
      else Some requested)"

section \<open>Instructions\<close>

definition calculateTargetCollFlashBorrowedAmount :: "num_lib \<Rightarrow> decimal \<Rightarrow> 'q swap_coll_context \<Rightarrow> decimal result" where
  "calculateTargetCollFlashBorrowedAmount L repaid c =
     (let st = r_state (cx_target c) in
      bindE (getMintFactor L st) (\<lambda>factor.
      bindE (calculateFees L (dmul L repaid factor) (getFlashLoanFee L st) Inclusive (unat (referralFeeBps (m_state (cx_market c))))
               (cx_referrer c \<noteq> default_pubkey)) (\<lambda>f.
        Inr (dsub L repaid (ddiv L (dadd L (protocolFees f) (referrerFees f)) factor)))))"

definition getAtaCreationIxns :: "env \<Rightarrow> 'q swap_coll_context \<Rightarrow> instruction list \<times> pubkey" where
  "getAtaCreationIxns E c =
     (let atas = createAtasIdempotent E (cx_owner c)
            [(getLiquidityMint (r_state (cx_source c)), getLiquidityTokenProgram (r_state (cx_source c))),
             (getLiquidityMint (r_state (cx_target c)), getLiquidityTokenProgram (r_state (cx_target c)))]
      in (map snd atas, fst (atas ! 1)))"

definition getAtaCloseIxns :: "env \<Rightarrow> 'q swap_coll_context \<Rightarrow> instruction list result" where
  "getAtaCloseIxns E c =
     (let S = sol E; owner = cx_owner c in
      if getLiquidityMint (r_state (cx_source c)) = NATIVE_MINT S \<or> getLiquidityMint (r_state (cx_target c)) = NATIVE_MINT S then
        bindE (getAssociatedTokenAddress S (NATIVE_MINT S) owner False (TOKEN_PROGRAM_ID S) (ASSOCIATED_TOKEN_PROGRAM_ID S)) (\<lambda>wsol.
          Inr [createCloseAccountInstruction E wsol owner owner (TOKEN_PROGRAM_ID S)])
      else Inr [])"

definition getTargetCollFlashLoanIxns ::
    "env \<Rightarrow> decimal \<Rightarrow> nat \<Rightarrow> pubkey \<Rightarrow> 'q swap_coll_context \<Rightarrow> (instruction \<times> instruction) result" where
  "getTargetCollFlashLoanIxns E targetCollAmount flashBorrowIxnIndex destinationAta c =
     bindE (getMintFactor (num E) (r_state (cx_target c))) (\<lambda>factor.
       getFlashLoanInstructions E flashBorrowIxnIndex
         (market_loan E (cx_market c) (cx_owner c) (cx_target c) (dmul (num E) targetCollAmount factor) destinationAta))"

definition getDepositTargetCollIxns :: "env \<Rightarrow> decimal \<Rightarrow> 'q swap_coll_context \<Rightarrow> (instruction list \<times> bool) result option" where
  "getDepositTargetCollIxns E targetCollAmount c =
     bindO (Some (bindE (mustRemoveElevationGroupBeforeDeposit c) (\<lambda>removes.
                  bindE (getMintFactor (num E) (r_state (cx_target c))) (\<lambda>factor.
                  bindE (bn_of_dec (num E) (dmul (num E) targetCollAmount factor)) (\<lambda>amount. Inr (removes, amount))))))
       (\<lambda>(removes, amount).
     bindO (buildDepositTxns E (cx_market c) amount (getLiquidityMint (r_state (cx_target c))) (cx_owner c) (Inl (cx_obligation c))
              ((no_support (cx_useV2 c) removes (cx_referrer c) (cx_currentSlot c))
                 \<lparr>overrideElevationGroupRequest := (if removes then Some 0 else None)\<rparr>)) (\<lambda>action.
       Some (Inr (actionToIxs action, removes))))"

definition getWithdrawSourceCollIxns :: "env \<Rightarrow> swap_coll_args \<Rightarrow> bool \<Rightarrow> 'q swap_coll_context \<Rightarrow> instruction list result option" where
  "getWithdrawSourceCollIxns E a depositRemovedElevationGroup c =
     (let ob = cx_obligation c; group = elevationGroupIdToRequestAfterWithdraw a depositRemovedElevationGroup c in
      bindO (Some (if sa_isClosingSourceColl a then Inr U64_MAX
                   else bindE (getMintFactor (num E) (r_state (cx_source c))) (\<lambda>factor.
                     bn_of_dec (num E) (dmul (num E) (sa_sourceCollSwapAmount a) factor)))) (\<lambda>amount.
      bindO (buildWithdrawTxns E (cx_market c) amount (getLiquidityMint (r_state (cx_source c))) (cx_owner c) (Inl ob)
               ((no_support (cx_useV2 c) (group \<noteq> None) (cx_referrer c) (cx_currentSlot c))\<lparr>overrideElevationGroupRequest := group\<rparr>)
               (if hm_has (deposits ob) (r_address (cx_target c)) then [] else [r_address (cx_target c)])) (\<lambda>action.
        Some (Inr (actionToIxs action)))))"

record swap_coll_ixns =
  setupIxns :: "instruction list"
  targetCollFlashBorrowIxn :: instruction
  depositTargetCollIxns :: "instruction list"
  withdrawSourceCollIxns :: "instruction list"
  targetCollFlashRepayIxn :: instruction
  cleanupIxns :: "instruction list"
  sk_flashLoanInfo :: flash_loan_info
  targetCollFlashBorrowedAmount :: decimal

definition getKlendIxns :: "env \<Rightarrow> swap_coll_args \<Rightarrow> decimal \<Rightarrow> 'q swap_coll_context \<Rightarrow> swap_coll_ixns result option" where
  "getKlendIxns E a targetCollSwapOutAmount c =
     (let (ataIxns, targetAta) = getAtaCreationIxns E c in
      bindO (getScopeRefreshIx E (cx_market c) (cx_source c) (cx_target c) (Inl (cx_obligation c)) (cx_feed c)) (\<lambda>scopeIxn.
      let setup = scopeIxn @ cx_budget c @ ataIxns in
      bindO (Some (bindE (calculateTargetCollFlashBorrowedAmount (num E) targetCollSwapOutAmount c) (\<lambda>borrowed.
                   bindE (getTargetCollFlashLoanIxns E borrowed (length setup) targetAta c) (\<lambda>loan. Inr (borrowed, loan)))))
        (\<lambda>(borrowed, flashBorrowIxn, flashRepayIxn).
      bindO (getDepositTargetCollIxns E borrowed c) (\<lambda>(depositIxns, removes).
      bindO (getWithdrawSourceCollIxns E a removes c) (\<lambda>withdrawIxns.
      bindO (Some (getAtaCloseIxns E c)) (\<lambda>closeIxns.
        Some (Inr \<lparr>setupIxns = setup, targetCollFlashBorrowIxn = flashBorrowIxn, depositTargetCollIxns = depositIxns,
                   withdrawSourceCollIxns = withdrawIxns, targetCollFlashRepayIxn = flashRepayIxn, cleanupIxns = closeIxns,
                   sk_flashLoanInfo = flash_info E (cx_target c), targetCollFlashBorrowedAmount = borrowed\<rparr>)))))))"

definition listIxns :: "swap_coll_ixns \<Rightarrow> instruction list \<Rightarrow> instruction list" where
  "listIxns k externalSwapIxns =
     setupIxns k @ [targetCollFlashBorrowIxn k] @ depositTargetCollIxns k @ withdrawSourceCollIxns k @ externalSwapIxns @
     [targetCollFlashRepayIxn k] @ cleanupIxns k"

section \<open>The swap\<close>

definition getExternalSwapIxns ::
    "num_lib \<Rightarrow> swap_coll_args \<Rightarrow> pubkey list \<Rightarrow> 'q swap_coll_context \<Rightarrow> (decimal \<times> swap_ixs \<times> 'q swap_quote) result" where
  "getExternalSwapIxns L a klendAccounts c =
     bindE (getMintFactor L (r_state (cx_source c))) (\<lambda>factor.
       let inputs = \<lparr>inputAmountLamports = dmul L (sa_sourceCollSwapAmount a) factor, minOutAmountLamports = None,
                     inputMint = getLiquidityMint (r_state (cx_source c)), outputMint = getLiquidityMint (r_state (cx_target c)),
                     amountDebtAtaBalance = None\<rparr> in
       bindE (cx_quoter c inputs klendAccounts) (\<lambda>quote.
       bindE (cx_swapper c inputs klendAccounts quote) (\<lambda>sw.
         Inr (dmul L (priceAInB quote) (sa_sourceCollSwapAmount a), sw, quote))))"

text \<open>JavaScript compares the strings \<open>valueOf\<close> returns by their code units.\<close>

fun str_less :: "string \<Rightarrow> string \<Rightarrow> bool" where
  "str_less s [] = False"
| "str_less [] (d # t) = True"
| "str_less (c # s) (d # t) = (if c = d then str_less s t else (of_char c :: nat) < of_char d)"

definition resulting_collaterals :: "swap_coll_args \<Rightarrow> 'q swap_coll_context \<Rightarrow> pubkey list" where
  "resulting_collaterals a c =
     (let ks = pks_new (hm_keys (deposits (cx_obligation c)) @ [r_address (cx_target c)])
      in pks_toArray (if sa_isClosingSourceColl a then snd (pks_remove ks (r_address (cx_source c))) else ks))"

definition check_group :: "swap_coll_args \<Rightarrow> 'q swap_coll_context \<Rightarrow> elevation_group_description \<Rightarrow> unit result" where
  "check_group a c d =
     (let debts = hm_keys (borrows (cx_obligation c)); colls = resulting_collaterals a c;
          refused = Inl (Throw ''The obligation cannot request elevation group'') in
      if length debts > 1 then refused
      else if length debts = 1 \<and> debtReserve d \<noteq> debts ! 0 then refused
      else if length colls > maxReservesAsCollateral d then refused
      else if \<exists>k\<in>set colls. \<not> pks_contains (collateralReserves d) k then refused
      else Inr ())"

definition checkResultingObligationValid :: "lev \<Rightarrow> swap_coll_args \<Rightarrow> decimal \<Rightarrow> 'q swap_coll_context \<Rightarrow> unit result" where
  "checkResultingObligationValid V a targetCollAmount c =
     (let L = lnum V; ob = cx_obligation c in
      bindE (case sa_newElevationGroup a of None \<Rightarrow> Inr () | Some d \<Rightarrow> check_group a c d) (\<lambda>_.
      bindE (if sa_isClosingSourceColl a then getDepositAmountByReserve L ob (cx_source c) else Inr (sa_sourceCollSwapAmount a)) (\<lambda>withdrawn.
      bindE (getMintFactor L (r_state (cx_source c))) (\<lambda>sourceFactor.
      bindE (getMintFactor L (r_state (cx_target c))) (\<lambda>targetFactor.
      bindE (getPostSwapCollObligationStats L (cx_market c) ob (dmul L withdrawn sourceFactor) (r_address (cx_source c))
               (dmul L targetCollAmount targetFactor) (r_address (cx_target c)) (requested_group a) (cx_currentSlot c)) (\<lambda>s.
        let maxLtv = ddiv L (os_borrowLimit s) (userTotalCollateralDeposit s)
        in if str_less (Decimal_valueOf V maxLtv) (Decimal_valueOf V (os_loanToValue s))
           then Inl (Throw ''Swapping collateral would result in the obligation's LTV exceeding its max LTV'') else Inr ()))))))"

record 'q swap_coll_outputs =
  so_ixs :: "instruction list"
  so_lookupTables :: "pubkey option list"
  so_useV2 :: bool
  so_flashBorrowedAmount :: decimal
  so_flashRepaidAmount :: decimal
  so_swapInAmount :: decimal
  so_swapOutAmount :: decimal
  so_quoteResponse :: 'q

definition getSwapCollIxns :: "lev \<Rightarrow> 'q swap_coll_inputs \<Rightarrow> 'q swap_coll_outputs result option" where
  "getSwapCollIxns V i =
     (let E = le V in
      bindO (Some (extractArgsAndContext V i)) (\<lambda>(a, c).
      bindO (getKlendIxns E a (Fin 1) c) (\<lambda>fake.
      bindO (Some (bindE (getExternalSwapIxns (num E) a (uniqueAccounts (listIxns fake [])) c) (\<lambda>(out, sw, quote).
                   bindE (checkResultingObligationValid V a out c) (\<lambda>_. Inr (out, sw, quote))))) (\<lambda>(out, sw, quote).
      bindO (getKlendIxns E a out c) (\<lambda>k.
        Some (Inr \<lparr>so_ixs = listIxns k (swapIxs sw), so_lookupTables = lookupTables sw, so_useV2 = cx_useV2 c,
                   so_flashBorrowedAmount = targetCollFlashBorrowedAmount k, so_flashRepaidAmount = out,
                   so_swapInAmount = sa_sourceCollSwapAmount a, so_swapOutAmount = out, so_quoteResponse = quoteResponse quote\<rparr>))))))"

end
