(* ===== verification/Flash_Safety.thy ===== *)
theory Flash_Safety
  imports Action_Steps Swap_Collateral
begin

text \<open>
  The lists of instructions that take a flash loan: the repayment names the position of the borrow, whatever the operation, its
  options and the instructions of the swap; and the group an obligation ends in after its collateral was swapped.
\<close>

section \<open>Flash loans\<close>

text \<open>
  A list is guarded when one flash borrow and its repayment stand in it in this order, both for the same loan (reserve, amount,
  token account), and the index in the repayment is the position of the borrow.
\<close>

definition flash_guarded :: "env \<Rightarrow> instruction list \<Rightarrow> bool" where
  "flash_guarded E ixs \<longleftrightarrow> (\<exists>pre borrow mid repay post loan. ixs = pre @ [borrow] @ mid @ [repay] @ post \<and>
     getBorrowFlashLoanInstruction E loan = Inr borrow \<and> getRepayFlashLoanInstruction E (length pre) loan = Inr repay)"

lemma flash_guardedI:
  "getFlashLoanInstructions E (length pre) loan = Inr (borrow, repay) \<Longrightarrow> flash_guarded E (pre @ [borrow] @ mid @ [repay] @ post)"
  unfolding flash_guarded_def getFlashLoanInstructions_def
  by (rule exI [of _ pre], rule exI [of _ borrow], rule exI [of _ mid], rule exI [of _ repay], rule exI [of _ post], rule exI [of _ loan])
    (auto simp: bindE_Inr_iff)

lemma scope_refresh_at_most_one: "getScopeRefreshIx E mk c d t f = Some (Inr ixs) \<Longrightarrow> length ixs \<le> 1"
  by (auto simp: getScopeRefreshIx_def bindO_Inr_iff bindE_Inr_iff split: option.splits if_splits)

lemma flash_index_position:
  "length scopeIxn \<le> 1 \<Longrightarrow> flash_index budget atas fill scopeIxn = length (scopeIxn @ budget @ map snd atas @ fill)"
  by (cases scopeIxn) (auto simp: flash_index_def)

text \<open>The shape of the lists the operations of leverage and repayment build.\<close>

lemma flash_list_guarded:
  assumes "getScopeRefreshIx E mk c d t f = Some (Inr scopeIxn)"
    and "getFlashLoanInstructions E (flash_index budget atas fill scopeIxn) loan = Inr (borrow, repay)"
  shows "flash_guarded E (scopeIxn @ budget @ map snd atas @ fill @ [borrow] @ mid @ [repay] @ post)"
  using flash_guardedI [of E "scopeIxn @ budget @ map snd atas @ fill", of loan borrow repay mid post]
    assms(2) flash_index_position [OF scope_refresh_at_most_one [OF assms(1)], of budget atas fill] by simp

text \<open>The same with nothing after the repayment, and with no instructions that wrap SOL.\<close>

lemmas flash_list_guarded_end = flash_list_guarded [where post = "[]", unfolded append_Nil2]
lemmas flash_list_guarded_bare = flash_list_guarded_end [where fill = "[]", unfolded append_Nil]

lemmas flash_parts = bindO_Inr_iff bindE_Inr_iff Let_def option.inject sum.inject split_paired_all prod.case leverage_ixs.simps split_paired_Ex

lemma build_deposit_guarded:
  "buildDepositWithLeverageIxns V mk debtRes collRes owner target referrer slot isSol feed calcs budget sw s kt v2 g = Some (Inr r) \<Longrightarrow>
    flash_guarded (le V) (instructions r)"
  unfolding buildDepositWithLeverageIxns_def Let_def
  by (auto simp only: flash_parts intro: flash_list_guarded_end)

lemma build_withdraw_guarded:
  "buildWithdrawWithLeverageIxns V mk debtRes collRes owner ob referrer slot closing isSol feed calcs budget sw s kt v2 = Some (Inr r) \<Longrightarrow>
    flash_guarded (le V) (instructions r)"
  unfolding buildWithdrawWithLeverageIxns_def Let_def
  by (auto simp only: flash_parts intro: flash_list_guarded)

lemma build_increase_guarded:
  "buildIncreaseLeverageIxns V owner mk coll debt ob referrer slot calcs s feed kt sw budget v2 = Some (Inr r) \<Longrightarrow>
    flash_guarded (le V) (instructions r)"
  unfolding buildIncreaseLeverageIxns_def Let_def
  by (auto simp only: flash_parts intro: flash_list_guarded_bare)

lemma build_decrease_guarded:
  "buildDecreaseLeverageIxns V owner mk coll debt ob referrer slot calcs s feed kt sw budget v2 = Some (Inr r) \<Longrightarrow>
    flash_guarded (le V) (instructions r)"
  unfolding buildDecreaseLeverageIxns_def Let_def
  by (auto simp only: flash_parts intro: flash_list_guarded)

lemma build_repay_guarded:
  "buildRepayWithCollateralIxs V mk debtRes collRes ob referrer slot budget feed sw closing repaid withdrawn v2 = Some (Inr r) \<Longrightarrow>
    flash_guarded (le V) (instructions r)"
  unfolding buildRepayWithCollateralIxs_def Let_def
  by (auto simp only: flash_parts intro: flash_list_guarded_bare)

lemmas swap_list_guarded = flash_guardedI [of _ "_ @ _ @ _", where mid = "_ @ _ @ _", simplified]

lemma klend_swap_guarded: "getKlendIxns E a amount c = Some (Inr k) \<Longrightarrow> flash_guarded E (listIxns k ixs)"
  by (auto simp: getKlendIxns_def getTargetCollFlashLoanIxns_def listIxns_def bindO_Inr_iff bindE_Inr_iff Let_def
      split: prod.splits intro: swap_list_guarded)

lemma deposit_flow_guarded: "getDepositWithLeverageIxns V p = Some (Inr r) \<Longrightarrow> flash_guarded (le V) (lr_ixs r)"
  by (auto simp: getDepositWithLeverageIxns_def bindO_Inr_iff Let_def dest: build_deposit_guarded)

lemma withdraw_flow_guarded: "getWithdrawWithLeverageIxns V p = Some (Inr r) \<Longrightarrow> flash_guarded (le V) (lr_ixs r)"
  by (auto simp: getWithdrawWithLeverageIxns_def bindO_Inr_iff Let_def dest: build_withdraw_guarded)

lemma adjust_flow_guarded: "getAdjustLeverageIxns V p = Some (Inr r) \<Longrightarrow> flash_guarded (le V) (lr_ixs r)"
  by (auto simp: getAdjustLeverageIxns_def bindO_Inr_iff Let_def dest: build_increase_guarded build_decrease_guarded split: if_splits)

lemma repay_flow_guarded: "getRepayWithCollIxs V p = Some (Inr r) \<Longrightarrow> flash_guarded (le V) (rr_ixs r)"
  by (auto simp: getRepayWithCollIxs_def bindO_Inr_iff Let_def dest: build_repay_guarded split: if_splits)

lemma swap_flow_guarded: "getSwapCollIxns V p = Some (Inr r) \<Longrightarrow> flash_guarded (le V) (so_ixs r)"
  by (auto simp: getSwapCollIxns_def bindO_Inr_iff Let_def dest: klend_swap_guarded)

text \<open>
  C2. Whenever an operation that takes a flash loan (depositing, withdrawing or adjusting with leverage, repaying with collateral,
  swapping collateral) returns its instructions, one borrow and its repayment stand in the list in this order for the same loan, and
  the borrow index in the repayment is the position of the borrow, with or without a price refresh, compute budget, token accounts or
  wrapped SOL before it.
\<close>

theorem flash_loan_index:
  "(case getDepositWithLeverageIxns V dp of Some (Inr r) \<Rightarrow> flash_guarded (le V) (lr_ixs r) | _ \<Rightarrow> True) \<and>
   (case getWithdrawWithLeverageIxns V wp of Some (Inr r) \<Rightarrow> flash_guarded (le V) (lr_ixs r) | _ \<Rightarrow> True) \<and>
   (case getAdjustLeverageIxns V ap of Some (Inr r) \<Rightarrow> flash_guarded (le V) (lr_ixs r) | _ \<Rightarrow> True) \<and>
   (case getRepayWithCollIxs V rp of Some (Inr r) \<Rightarrow> flash_guarded (le V) (rr_ixs r) | _ \<Rightarrow> True) \<and>
   (case getSwapCollIxns V sp of Some (Inr r) \<Rightarrow> flash_guarded (le V) (so_ixs r) | _ \<Rightarrow> True)"
  by (simp add: deposit_flow_guarded withdraw_flow_guarded adjust_flow_guarded repay_flow_guarded swap_flow_guarded split: option.split sum.split)

end
