(* ===== verification/Leverage_Laws.thy ===== *)
theory Leverage_Laws
  imports Action_Order Flash_Safety
begin

text \<open>
  The amounts of leveraged positions and of collateral swaps: what the equations of \<open>Leverage_Calcs\<close> solve, what a flash loan costs,
  what can be withdrawn after a repayment, and the elevation group and the deposit of a collateral swap.
\<close>

section \<open>Leverage\<close>

text \<open>A library that computes with unlimited precision; \<open>decimal_js\<close> without its rounding is one.\<close>

definition exact_decimals :: num_lib where
  "exact_decimals = decimal_js\<lparr>d_round := \<lambda>x. x\<rparr>"

lemma exact_round [simp]: "d_round exact_decimals x = x"
  by (simp add: exact_decimals_def)

text \<open>The determinant of the equations, positive because fees and slippage only add to the price of the collateral.\<close>

lemma leverage_determinant:
  fixes p t fee slip :: rat
  assumes "0 < p" "1 \<le> t" "0 \<le> fee" "0 \<le> slip"
  defines "x \<equiv> (fee + 1) * (slip / 100 + 1) / p"
  shows "0 < x - (t - 1) / (t * p)" and "1 / p \<le> x"
proof -
  have "1 * 1 \<le> (fee + 1) * (slip / 100 + 1)" using assms(3,4) by (intro mult_mono) simp_all
  then show x: "1 / p \<le> x" unfolding x_def using assms(1) by (intro divide_right_mono) simp_all
  have "(t - 1) / (t * p) < 1 / p" using assms(1,2) by (simp add: field_simps)
  then show "0 < x - (t - 1) / (t * p)" using x by linarith
qed

text \<open>The collateral \<open>c\<close> and the debt \<open>e\<close> of a position with leverage \<open>t\<close>.\<close>

lemma leverage_equation:
  fixes p t c e :: rat
  assumes "0 < p" "1 \<le> t" "e = (t - 1) * c / (t * p)"
  shows "c = t * (c - p * e)"
  using assms by (simp add: field_simps)

lemma leverage_from_collateral:
  fixes p t a x d :: rat
  assumes "0 < p" "1 \<le> t" "d = x - (t - 1) / (t * p)" "0 < d"
  shows "(a * x / d - a) * x = (t - 1) * (a * x / d) / (t * p)"
proof -
  have "a * x / d - a = a * (x - d) / d" using assms(4) by (simp add: field_simps)
  also have "x - d = (t - 1) / (t * p)" using assms(3) by simp
  finally show ?thesis by (simp add: ac_simps)
qed

lemma leverage_from_debt:
  fixes p t a x d :: rat
  assumes "d = x - (t - 1) / (t * p)" "0 < d"
  shows "(t - 1) * (a / d) / (t * p) + a = a / d * x"
proof -
  have "(t - 1) * (a / d) / (t * p) = a / d * (x - d)" using assms(1) by simp
  then show ?thesis using assms(2) by (simp add: field_simps)
qed

lemma repayment_gap:
  fixes p paid bought fee s loan :: rat
  assumes "p * paid = bought * (1 + fee) * s" "s \<noteq> 0" "loan = bought * (1 + fee)"
  shows "loan * (1 + fee) - (p * paid / s + (loan - bought)) = bought * fee\<^sup>2"
proof -
  have "p * paid / s = bought * (1 + fee)" using assms(1,2) by simp
  then show ?thesis using assms(3) by (simp add: power2_eq_square algebra_simps)
qed

lemma exact_deposit_calcs:
  assumes "\<And>x. d_round L x = x" "p \<noteq> 0" "t * p \<noteq> 0" "x = (fee + 1) * (slip / 100 + 1) / p" "d = x - (t - 1) / (t * p)" "d \<noteq> 0"
    and "coll = (if isColl then amount * x / d else amount / d)" "bought = (if isColl then coll - amount else coll)"
    and "debt = (if isColl then bought * x else (t - 1) * coll / (t * p))"
  shows "depositLeverageCalcs L (Fin amount) isColl isSol (Fin p) (Fin t) (Fin slip) (Fin fee) =
      \<lparr>flashBorrowInCollToken = Fin (bought * (1 + fee)), initDepositInSol = Fin (if isSol then amount else 0), debtTokenToBorrow = Fin debt,
       collTokenToDeposit = Fin coll, swapDebtTokenIn = Fin (if isColl then debt else debt + amount), swapCollTokenExpectedOut = Fin bought,
       flashBorrowInDebtTokenKtokenOnly = Fin 0, singleSidedDepositKtokenOnly = Fin 0, requiredCollateralKtokenOnly = Fin 0\<rparr>"
  using assms(2,3,6) unfolding depositLeverageCalcs_def Let_def
  by (simp add: assms(1) assms(4) [symmetric] assms(5) [symmetric] assms(7-9) add.commute [of 1])



section \<open>Arguments of a collateral swap\<close>


section \<open>Elevation group of a collateral swap\<close>

text \<open>The group of the obligation between the deposit and the withdrawal.\<close>

definition group_after_deposit :: "bool \<Rightarrow> 'q swap_coll_context \<Rightarrow> nat" where
  "group_after_deposit removed c = (if removed then 0 else unat (o_elevationGroup (ob_state (cx_obligation c))))"

text \<open>
  C17. Swapping collateral leaves the obligation in the group the caller asked for (0 for none), whether or not the deposit had to leave
  the initial group: the withdrawal requests a group exactly when the obligation is in another one at that point, and requests the
  right one.
\<close>

theorem swap_ends_in_requested_group:
  "elevationGroupIdToRequestAfterWithdraw a removed c =
     (if group_after_deposit removed c = requested_group a then None else Some (requested_group a))"
  by (auto simp: elevationGroupIdToRequestAfterWithdraw_def group_after_deposit_def Let_def)

section \<open>Deposit of a collateral swap\<close>

lemma deposit_needs_whole_lamports:
  assumes "getMintFactor (num E) (r_state (cx_target c)) = Inr (Fin factor)" and "d_round (num E) (amount * factor) \<notin> \<int>"
  shows "getDepositTargetCollIxns E (Fin amount) c \<noteq> Some (Inr r)"
proof -
  have "of_int \<lfloor>d_round (num E) (amount * factor)\<rfloor> \<noteq> d_round (num E) (amount * factor)" using assms(2) by (metis Ints_of_int)
  then show ?thesis by (auto simp: getDepositTargetCollIxns_def assms(1) bindO_Inr_iff bindE_Inr_iff)
qed

lemma klend_needs_whole_lamports:
  assumes "getMintFactor (num E) (r_state (cx_target c)) = Inr (Fin factor)"
    and "calculateTargetCollFlashBorrowedAmount (num E) amount c = Inr (Fin b)" and "d_round (num E) (b * factor) \<notin> \<int>"
  shows "getKlendIxns E a amount c \<noteq> Some (Inr r)"
  using deposit_needs_whole_lamports [OF assms(1,3)]
  by (auto simp: getKlendIxns_def Let_def assms(2) bindO_Inr_iff bindE_Inr_iff split: prod.splits)

text \<open>
  C18. The flash-borrowed amount of target collateral goes into the deposit as a decimal text, not rounded to lamports. The
  instructions are first built for one token out of the swap: when the flash loan fee of the target reserve makes the loan for that
  amount fractional, no swap of collateral ever returns instructions, whatever its arguments.
\<close>

theorem fractional_fee_blocks_swap:
  assumes "extractArgsAndContext V i = Inr (a, c)" and "getMintFactor (lnum V) (r_state (cx_target c)) = Inr (Fin factor)"
    and "calculateTargetCollFlashBorrowedAmount (lnum V) (Fin 1) c = Inr (Fin b)" and "d_round (lnum V) (b * factor) \<notin> \<int>"
  shows "getSwapCollIxns V i \<noteq> Some (Inr r)"
  using klend_needs_whole_lamports [OF assms(2-4)] by (auto simp: getSwapCollIxns_def Let_def assms(1) bindO_Inr_iff)

definition sample_lev :: lev where
  "sample_lev =
     \<lparr>le = sample_env, RustDecimal = decimal_js, collToLamportsDecimal = (\<lambda>x n. dmul decimal_js x (dpow decimal_js 10 n)), FullBPS = Fin 10000,
      getStrategyTokensHoldings = (\<lambda>_. (Fin 0, Fin 0)), getBalance = (\<lambda>_. Fin 0), getTokenAccountBalance = (\<lambda>_. Fin 0),
      getAssociatedTokenAddressSync = (\<lambda>mint owner _ _. Inr (mint + owner)), ComputeBudgetProgram_programId = 98, lookupTableFound = (\<lambda>_. False),
      Decimal_valueOf = (\<lambda>_. [])\<rparr>"

text \<open>Fifty tokens of the first reserve against the second one, whose flash loans cost 0.3\%.\<close>

definition sample_swap :: "unit swap_coll_inputs" where
  "sample_swap =
     \<lparr>sc_sourceCollSwapAmount = Fin 50, sc_isClosingSourceColl = False, sc_sourceCollTokenMint = 11, sc_targetCollTokenMint = 21,
      sc_newElevationGroup = 0, sc_market = sample_market, sc_obligation = sample_loan, sc_referrer = default_pubkey, sc_currentSlot = 1000,
      sc_budget = None, sc_feed = None, sc_useV2 = False, sc_quoter = (\<lambda>_ _. Inr \<lparr>priceAInB = Fin 1, quoteResponse = ()\<rparr>),
      sc_swapper = (\<lambda>_ _ _. Inr no_swap)\<rparr>"

lemma sample_coll_mint: "getReserveByMint sample_market 21 = Some sample_coll"
proof -
  have own: "getLiquidityMint (r_state sample_coll) = 21" and res: "getLiquidityMint (r_state sample_reserve) \<noteq> 21"
    by (simp_all add: getLiquidityMint_def sample_coll_def sample_reserve_simps sample_defs)
  obtain r where r: "List.find (\<lambda>r. getLiquidityMint (r_state r) = 21) (getReserves sample_market) = Some r"
    using own sample_market_reserves by (cases "List.find (\<lambda>r. getLiquidityMint (r_state r) = 21) (getReserves sample_market)") (auto simp: find_None_iff)
  then have "r \<in> set (getReserves sample_market)" "getLiquidityMint (r_state r) = 21" by (auto simp: find_Some_iff)
  then have "r = sample_coll" using res sample_market_reserves by auto
  with r show ?thesis by (simp add: getReserveByMint_def getReserves_def)
qed

lemma sample_swap_context: "\<exists>a c. extractArgsAndContext sample_lev sample_swap = Inr (a, c) \<and> cx_target c = sample_coll \<and>
    cx_market c = sample_market \<and> cx_referrer c = default_pubkey"
  by (simp add: extractArgsAndContext_def sample_swap_def getExistingElevationGroup_def getExistingReserveByMint_def sample_mint sample_coll_mint)

lemma ilog_unique:
  assumes "2 \<le> b" "0 < x" "of_nat b powi e \<le> x" "x < of_nat b powi (e + 1)"
  shows "ilog b x = e"
proof -
  have "of_nat b powi ilog b x < (of_nat b :: rat) powi (e + 1)" "of_nat b powi e < (of_nat b :: rat) powi (ilog b x + 1)"
    using ilog_bounds [OF assms(1,2)] assms(3,4) by linarith+
  moreover have "(1 :: rat) < of_nat b" using assms(1) by simp
  ultimately have "ilog b x < e + 1" "e < ilog b x + 1" by (blast intro: powi_less_cancel)+
  then show ?thesis by simp
qed

text \<open>A value of \<open>decimal_js\<close> from its 20 digits \<open>n\<close> and the number \<open>k\<close> of decimal places.\<close>

lemma decimal_js_digits:
  assumes "k \<le> 1000" "10 ^ 19 \<le> x * 10 ^ k" "x * 10 ^ k < 10 ^ 20" "of_int n - 1 / 2 \<le> x * 10 ^ k" "x * 10 ^ k < of_int n + 1 / 2"
  shows "d_round decimal_js x = of_int n / 10 ^ k"
proof -
  have "0 < x * 10 ^ k" using assms(2) by (rule less_le_trans [rotated]) simp
  then have x: "0 < x" by (simp add: zero_less_mult_iff)
  have p: "10 powi (19 - int k) = (10 :: rat) ^ 19 / 10 ^ k" "10 powi (20 - int k) = (10 :: rat) ^ 20 / 10 ^ k"
    by (simp_all add: power_int_diff)
  have "ilog 10 x = 19 - int k"
    using assms(2,3) x by (intro ilog_unique) (simp_all add: p field_simps)
  then have u: "ulp_exp 10 20 (- 9000000000000000) x = - int k" using x assms(1) by (simp add: ulp_exp_def)
  have "round_half_up (x * 10 ^ k) = n"
    using \<open>0 < x * 10 ^ k\<close> assms(4,5) by (auto simp: round_half_up_def intro!: floor_unique)
  then show ?thesis using x by (simp add: decimal_js_def round_sig_def u power_int_minus divide_inverse)
qed

text \<open>The fee is read with the 20 digits of a Decimal.\<close>

lemma sample_flash_fee: "getFlashLoanFee decimal_js (r_state sample_coll) = Fin (29999999999999991326 / 10 ^ 22)"
proof -
  have "getFlashLoanFee decimal_js (r_state sample_coll) = Fin (d_round decimal_js (3458764513820540 / 1152921504606847000))"
    by (simp add: getFlashLoanFee_def sample_coll_def sample_defs toDecimal_def MULTIPLIER_dec mult_repr_def U64_MAX_def)
  also have "d_round decimal_js (3458764513820540 / 1152921504606847000) = 29999999999999991326 / 10 ^ 22"
    using decimal_js_digits [of 22 "3458764513820540 / 1152921504606847000" 29999999999999991326] by simp
  finally show ?thesis .
qed

lemma sample_flash_loan:
  assumes "cx_target c = sample_coll" "cx_market c = sample_market" "cx_referrer c = default_pubkey"
  shows "calculateTargetCollFlashBorrowedAmount decimal_js (Fin 1) c = Inr (Fin (99700897308075772768 / 10 ^ 20))"
proof -
  have factor: "getMintFactor decimal_js (r_state sample_coll) = Inr (Fin 1000000)" by (rule sample_mint_factor) simp
  have one: "dmul decimal_js (Fin 1) (Fin 1000000) = Fin 1000000" using djs.d_int [of 1000000] by simp
  have referral: "unat (referralFeeBps (m_state sample_market)) = 1500" by (simp add: sample_market_def new_KaminoMarket_def)
  have digits: "d_round decimal_js (29999999999999991326 / 10 ^ 22 + 1) = 10029999999999999991 / 10 ^ 19"
    "d_round decimal_js (29999999999999991326 / 10 ^ 22 / (10029999999999999991 / 10 ^ 19)) = 29910269192422723183 / 10 ^ 22"
    "d_round decimal_js (1000000 * (29910269192422723183 / 10 ^ 22)) = 29910269192422723183 / 10 ^ 16"
    using decimal_js_digits [of 19 "29999999999999991326 / 10 ^ 22 + 1" 10029999999999999991]
      decimal_js_digits [of 22 "29999999999999991326 / 10 ^ 22 / (10029999999999999991 / 10 ^ 19)" 29910269192422723183]
      decimal_js_digits [of 16 "1000000 * (29910269192422723183 / 10 ^ 22)" 29910269192422723183] by simp_all
  have nz: "10029999999999999991 / 10 ^ 19 \<noteq> (0 :: rat)" by simp
  have fee: "dmul decimal_js (Fin 1000000) (ddiv decimal_js (Fin (29999999999999991326 / 10 ^ 22)) (dadd decimal_js (Fin (29999999999999991326 / 10 ^ 22)) (Fin 1)))
      = Fin (29910269192422723183 / 10 ^ 16)" 
    by (simp only: dec_Fin(1-3) digits dec_Fin(4) [OF nz])
  have cmp: "xmax (Fin (29910269192422723183 / 10 ^ 16)) (Fin 1) = Fin (29910269192422723183 / 10 ^ 16)"
    "xge (Fin (29910269192422723183 / 10 ^ 16)) (Fin 1000000) = False" "xgt (Fin (29999999999999991326 / 10 ^ 22)) (Fin 0) = True"
    "xgt (Fin 1000000) (Fin 0) = True" by simp_all
  have rounded: "d_round decimal_js (29910269192422723183 / 10 ^ 16 - 0) = 29910269192422723183 / 10 ^ 16"
    "d_round decimal_js (29910269192422723183 / 10 ^ 16 + 0) = 29910269192422723183 / 10 ^ 16"
    "d_round decimal_js (29910269192422723183 / 10 ^ 16 / 1000000) = 29910269192422723183 / 10 ^ 22"
    "d_round decimal_js (1 - 29910269192422723183 / 10 ^ 22) = 99700897308075772768 / 10 ^ 20"
    using decimal_js_digits [of 16 "29910269192422723183 / 10 ^ 16" 29910269192422723183]
      decimal_js_digits [of 22 "29910269192422723183 / 10 ^ 16 / 1000000" 29910269192422723183]
      decimal_js_digits [of 20 "1 - 29910269192422723183 / 10 ^ 22" 99700897308075772768] by simp_all
  have "calculateFees decimal_js (Fin 1000000) (Fin (29999999999999991326 / 10 ^ 22)) Inclusive 1500 False =
      Inr \<lparr>protocolFees = Fin (29910269192422723183 / 10 ^ 16), referrerFees = Fin 0\<rparr>"
    by (simp only: calculateFees_def Let_def cmp fee dec_Fin(2) rounded fee_calculation.distinct simp_thms if_True if_False)
  moreover have "dsub decimal_js (Fin 1) (ddiv decimal_js (dadd decimal_js (Fin (29910269192422723183 / 10 ^ 16)) (Fin 0)) (Fin 1000000)) =
      Fin (99700897308075772768 / 10 ^ 20)"
    using dec_Fin(4) [of 1000000] by (simp only: dec_Fin(1-3) rounded zero_neq_numeral [symmetric] not_False_eq_True)
  ultimately show ?thesis
    by (simp only: calculateTargetCollFlashBorrowedAmount_def assms factor one referral sample_flash_fee Let_def bindE_simps fees.simps
        not_True_eq_False simp_thms)
qed

theorem fractional_fee_blocks_swap_witness: "\<forall>r. getSwapCollIxns sample_lev sample_swap \<noteq> Some (Inr r)"
proof -
  obtain a c where c: "extractArgsAndContext sample_lev sample_swap = Inr (a, c)" "cx_target c = sample_coll" "cx_market c = sample_market" "cx_referrer c = default_pubkey"
    using sample_swap_context by auto
  have num: "lnum sample_lev = decimal_js" by (simp add: sample_lev_def sample_env_def Let_def)
  have factor: "getMintFactor decimal_js (r_state sample_coll) = Inr (Fin 1000000)" by (rule sample_mint_factor) simp
  have "d_round decimal_js (99700897308075772768 / 10 ^ 20 * 1000000) = 99700897308075772768 / 10 ^ 14"
    using decimal_js_digits [of 14 "99700897308075772768 / 10 ^ 20 * 1000000" 99700897308075772768] by simp
  moreover have "\<lfloor>99700897308075772768 / 10 ^ 14 :: rat\<rfloor> = 997008" by (rule floor_unique) simp_all
  moreover have "of_int 997008 \<noteq> (99700897308075772768 / 10 ^ 14 :: rat)" by simp
  ultimately have "d_round decimal_js (99700897308075772768 / 10 ^ 20 * 1000000) \<notin> \<int>" by (metis Ints_cases floor_of_int)
  then show ?thesis
    using fractional_fee_blocks_swap [OF c(1), of 1000000 "99700897308075772768 / 10 ^ 20"] c factor sample_flash_loan [OF c(2-4)]
    unfolding num by simp
qed

section \<open>Withdrawable collateral\<close>

definition withdrawable :: "max_withdraw \<Rightarrow> decimal \<times> bool" where
  "withdrawable m = (withdrawableCollLamports m, canWithdrawAllColl m)"

text \<open>
  C38. For an obligation with several borrows, the collateral reported as withdrawable after a repayment does not depend on the amount
  repaid: what is left of the debt that is being repaid is dropped from the remaining borrows, so repaying nothing allows the same
  withdrawal as repaying everything.
\<close>

theorem several_borrows_ignore_repayment:
  assumes "1 < length (getBorrows ob)"
  shows "map_sum id withdrawable (calcMaxWithdrawCollateral L mk ob coll debt repaid) =
    map_sum id withdrawable (calcMaxWithdrawCollateral L mk ob coll debt repaid')"
  using assms unfolding calcMaxWithdrawCollateral_def remaining_borrows_value_def Let_def
  by (auto simp: withdrawable_def bindE_def split: sum.splits)

text \<open>The sample loan with a second borrow.\<close>

definition sample_two_borrows :: kamino_obligation where
  "sample_two_borrows = sample_loan\<lparr>borrows := hm_set (borrows sample_loan) 102 (sample_position 102 21)\<rparr>"

theorem several_borrows_ignore_repayment_witness:
  "map_sum id withdrawable (calcMaxWithdrawCollateral decimal_js sample_market sample_two_borrows 102 101 (Fin 0)) =
   map_sum id withdrawable (calcMaxWithdrawCollateral decimal_js sample_market sample_two_borrows 102 101 (Fin 100000000))"
proof -
  have "set (hm_keys (borrows sample_two_borrows)) = {101, 102}"
    by (auto simp: sample_two_borrows_def sample_loan_def hm_keys_iff hm_inv_set hm_inv_empty hm_get_set hm.lookup_empty split: if_splits)
  then have "card (set (hm_keys (borrows sample_two_borrows))) = 2" by simp
  then have "1 < length (hm_keys (borrows sample_two_borrows))" using card_length [of "hm_keys (borrows sample_two_borrows)"] by linarith
  then have "1 < length (getBorrows sample_two_borrows)" by (simp add: getBorrows_def hm_keys_def hm_values_def)
  then show ?thesis by (rule several_borrows_ignore_repayment)
qed

end
