(* ===== verification/Vault_Instructions.thy ===== *)
theory Vault_Instructions
  imports Instructions
begin

text \<open>
  The instructions of the vault program (\<open>src/ts-client/src/idl_codegen_kamino_vault/instructions\<close>), built as those of the lending program in
  \<open>Instructions\<close>, and the fields of a vault configuration (\<open>types/VaultConfigField.ts\<close>).
\<close>

datatype vault_config_field =
  PerformanceFeeBps
  | ManagementFeeBps
  | MinDepositAmount
  | MinWithdrawAmount
  | MinInvestAmount
  | MinInvestDelaySlots
  | CrankFundFeePerReserve
  | PendingVaultAdmin
  | Name
  | LookupTable
  | Farm
  | AllocationAdmin

fun field_discriminator :: "vault_config_field \<Rightarrow> nat" where
  "field_discriminator PerformanceFeeBps = 0"
| "field_discriminator ManagementFeeBps = 1"
| "field_discriminator MinDepositAmount = 2"
| "field_discriminator MinWithdrawAmount = 3"
| "field_discriminator MinInvestAmount = 4"
| "field_discriminator MinInvestDelaySlots = 5"
| "field_discriminator CrankFundFeePerReserve = 6"
| "field_discriminator PendingVaultAdmin = 7"
| "field_discriminator Name = 8"
| "field_discriminator LookupTable = 9"
| "field_discriminator Farm = 10"
| "field_discriminator AllocationAdmin = 11"

definition bo_vec :: "borsh_lib \<Rightarrow> byte list \<Rightarrow> byte list" where
  "bo_vec B bytes = bo_uint B 4 (length bytes) @ bytes"

record init_vault_accounts =
  ivt_adminAuthority :: pubkey
  ivt_vaultState :: pubkey
  ivt_baseVaultAuthority :: pubkey
  ivt_tokenVault :: pubkey
  ivt_baseTokenMint :: pubkey
  ivt_sharesMint :: pubkey
  ivt_adminTokenAccount :: pubkey
  ivt_systemProgram :: pubkey
  ivt_rent :: pubkey
  ivt_tokenProgram :: pubkey
  ivt_sharesTokenProgram :: pubkey

definition initVault_identifier :: "byte list" where
  "initVault_identifier = [77, 79, 85, 150, 33, 217, 52, 106]"

definition initVault :: "init_vault_accounts \<Rightarrow> pubkey \<Rightarrow> instruction" where
  "initVault accounts programId =
     \<lparr>ix_keys =
        [meta (ivt_adminAuthority accounts) True True,
         meta (ivt_vaultState accounts) False True,
         meta (ivt_baseVaultAuthority accounts) False False,
         meta (ivt_tokenVault accounts) False True,
         meta (ivt_baseTokenMint accounts) False False,
         meta (ivt_sharesMint accounts) False True,
         meta (ivt_adminTokenAccount accounts) False True,
         meta (ivt_systemProgram accounts) False False,
         meta (ivt_rent accounts) False False,
         meta (ivt_tokenProgram accounts) False False,
         meta (ivt_sharesTokenProgram accounts) False False],
      ix_programId = programId, ix_data = initVault_identifier\<rparr>"

record update_reserve_allocation_accounts =
  ura_signer :: pubkey
  ura_vaultState :: pubkey
  ura_baseVaultAuthority :: pubkey
  ura_reserveCollateralMint :: pubkey
  ura_reserve :: pubkey
  ura_ctokenVault :: pubkey
  ura_reserveCollateralTokenProgram :: pubkey
  ura_systemProgram :: pubkey
  ura_rent :: pubkey

definition updateReserveAllocation_identifier :: "byte list" where
  "updateReserveAllocation_identifier = [5, 54, 213, 112, 75, 232, 117, 37]"

definition updateReserveAllocation ::
    "borsh_lib \<Rightarrow> int \<Rightarrow> int \<Rightarrow> update_reserve_allocation_accounts \<Rightarrow> pubkey \<Rightarrow> instruction result" where
  "updateReserveAllocation B weight cap accounts programId =
     ix_with_data
        [meta (ura_signer accounts) True True,
         meta (ura_vaultState accounts) False True,
         meta (ura_baseVaultAuthority accounts) False False,
         meta (ura_reserveCollateralMint accounts) False True,
         meta (ura_reserve accounts) False False,
         meta (ura_ctokenVault accounts) False True,
         meta (ura_reserveCollateralTokenProgram accounts) False False,
         meta (ura_systemProgram accounts) False False,
         meta (ura_rent accounts) False False]
        programId updateReserveAllocation_identifier
        (bo_bn B 8 weight @ bo_bn B 8 cap)"

record withdraw_from_available_accounts =
  wfa_user :: pubkey
  wfa_vaultState :: pubkey
  wfa_tokenVault :: pubkey
  wfa_baseVaultAuthority :: pubkey
  wfa_userTokenAta :: pubkey
  wfa_tokenMint :: pubkey
  wfa_userSharesAta :: pubkey
  wfa_sharesMint :: pubkey
  wfa_tokenProgram :: pubkey
  wfa_sharesTokenProgram :: pubkey
  wfa_klendProgram :: pubkey

definition withdrawFromAvailable_identifier :: "byte list" where
  "withdrawFromAvailable_identifier = [19, 131, 112, 155, 170, 220, 34, 57]"

definition withdrawFromAvailable ::
    "borsh_lib \<Rightarrow> int \<Rightarrow> withdraw_from_available_accounts \<Rightarrow> pubkey \<Rightarrow> instruction result" where
  "withdrawFromAvailable B sharesAmount accounts programId =
     ix_with_data
        [meta (wfa_user accounts) True True,
         meta (wfa_vaultState accounts) False True,
         meta (wfa_tokenVault accounts) False True,
         meta (wfa_baseVaultAuthority accounts) False False,
         meta (wfa_userTokenAta accounts) False True,
         meta (wfa_tokenMint accounts) False True,
         meta (wfa_userSharesAta accounts) False True,
         meta (wfa_sharesMint accounts) False True,
         meta (wfa_tokenProgram accounts) False False,
         meta (wfa_sharesTokenProgram accounts) False False,
         meta (wfa_klendProgram accounts) False False]
        programId withdrawFromAvailable_identifier
        (bo_bn B 8 sharesAmount)"

record withdraw_withdraw_from_reserve_accounts =
  wdr_w_vaultState :: pubkey
  wdr_w_reserve :: pubkey
  wdr_w_ctokenVault :: pubkey
  wdr_w_lendingMarket :: pubkey
  wdr_w_lendingMarketAuthority :: pubkey
  wdr_w_reserveLiquiditySupply :: pubkey
  wdr_w_reserveCollateralMint :: pubkey
  wdr_w_reserveCollateralTokenProgram :: pubkey
  wdr_w_instructionSysvarAccount :: pubkey

record vault_withdraw_accounts =
  wdr_withdrawFromAvailable :: withdraw_from_available_accounts
  wdr_withdrawFromReserveAccounts :: withdraw_withdraw_from_reserve_accounts

definition withdraw_identifier :: "byte list" where
  "withdraw_identifier = [183, 18, 70, 156, 148, 109, 161, 34]"

definition withdraw ::
    "borsh_lib \<Rightarrow> int \<Rightarrow> vault_withdraw_accounts \<Rightarrow> pubkey \<Rightarrow> instruction result" where
  "withdraw B sharesAmount accounts programId =
     ix_with_data
        [meta (wfa_user (wdr_withdrawFromAvailable accounts)) True True,
         meta (wfa_vaultState (wdr_withdrawFromAvailable accounts)) False True,
         meta (wfa_tokenVault (wdr_withdrawFromAvailable accounts)) False True,
         meta (wfa_baseVaultAuthority (wdr_withdrawFromAvailable accounts)) False False,
         meta (wfa_userTokenAta (wdr_withdrawFromAvailable accounts)) False True,
         meta (wfa_tokenMint (wdr_withdrawFromAvailable accounts)) False True,
         meta (wfa_userSharesAta (wdr_withdrawFromAvailable accounts)) False True,
         meta (wfa_sharesMint (wdr_withdrawFromAvailable accounts)) False True,
         meta (wfa_tokenProgram (wdr_withdrawFromAvailable accounts)) False False,
         meta (wfa_sharesTokenProgram (wdr_withdrawFromAvailable accounts)) False False,
         meta (wfa_klendProgram (wdr_withdrawFromAvailable accounts)) False False,
         meta (wdr_w_vaultState (wdr_withdrawFromReserveAccounts accounts)) False True,
         meta (wdr_w_reserve (wdr_withdrawFromReserveAccounts accounts)) False True,
         meta (wdr_w_ctokenVault (wdr_withdrawFromReserveAccounts accounts)) False True,
         meta (wdr_w_lendingMarket (wdr_withdrawFromReserveAccounts accounts)) False False,
         meta (wdr_w_lendingMarketAuthority (wdr_withdrawFromReserveAccounts accounts)) False False,
         meta (wdr_w_reserveLiquiditySupply (wdr_withdrawFromReserveAccounts accounts)) False True,
         meta (wdr_w_reserveCollateralMint (wdr_withdrawFromReserveAccounts accounts)) False True,
         meta (wdr_w_reserveCollateralTokenProgram (wdr_withdrawFromReserveAccounts accounts)) False False,
         meta (wdr_w_instructionSysvarAccount (wdr_withdrawFromReserveAccounts accounts)) False False]
        programId withdraw_identifier
        (bo_bn B 8 sharesAmount)"

record vault_deposit_accounts =
  dpt_user :: pubkey
  dpt_vaultState :: pubkey
  dpt_tokenVault :: pubkey
  dpt_tokenMint :: pubkey
  dpt_baseVaultAuthority :: pubkey
  dpt_sharesMint :: pubkey
  dpt_userTokenAta :: pubkey
  dpt_userSharesAta :: pubkey
  dpt_klendProgram :: pubkey
  dpt_tokenProgram :: pubkey
  dpt_sharesTokenProgram :: pubkey

definition deposit_identifier :: "byte list" where
  "deposit_identifier = [242, 35, 198, 137, 82, 225, 242, 182]"

definition deposit ::
    "borsh_lib \<Rightarrow> int \<Rightarrow> vault_deposit_accounts \<Rightarrow> pubkey \<Rightarrow> instruction result" where
  "deposit B maxAmount accounts programId =
     ix_with_data
        [meta (dpt_user accounts) True True,
         meta (dpt_vaultState accounts) False True,
         meta (dpt_tokenVault accounts) False True,
         meta (dpt_tokenMint accounts) False False,
         meta (dpt_baseVaultAuthority accounts) False False,
         meta (dpt_sharesMint accounts) False True,
         meta (dpt_userTokenAta accounts) False True,
         meta (dpt_userSharesAta accounts) False True,
         meta (dpt_klendProgram accounts) False False,
         meta (dpt_tokenProgram accounts) False False,
         meta (dpt_sharesTokenProgram accounts) False False]
        programId deposit_identifier
        (bo_bn B 8 maxAmount)"

record invest_accounts =
  ivs_payer :: pubkey
  ivs_payerTokenAccount :: pubkey
  ivs_vaultState :: pubkey
  ivs_tokenVault :: pubkey
  ivs_tokenMint :: pubkey
  ivs_baseVaultAuthority :: pubkey
  ivs_ctokenVault :: pubkey
  ivs_reserve :: pubkey
  ivs_lendingMarket :: pubkey
  ivs_lendingMarketAuthority :: pubkey
  ivs_reserveLiquiditySupply :: pubkey
  ivs_reserveCollateralMint :: pubkey
  ivs_klendProgram :: pubkey
  ivs_reserveCollateralTokenProgram :: pubkey
  ivs_tokenProgram :: pubkey
  ivs_instructionSysvarAccount :: pubkey

definition invest_identifier :: "byte list" where
  "invest_identifier = [13, 245, 180, 103, 254, 182, 121, 4]"

definition invest :: "invest_accounts \<Rightarrow> pubkey \<Rightarrow> instruction" where
  "invest accounts programId =
     \<lparr>ix_keys =
        [meta (ivs_payer accounts) True True,
         meta (ivs_payerTokenAccount accounts) False True,
         meta (ivs_vaultState accounts) False True,
         meta (ivs_tokenVault accounts) False True,
         meta (ivs_tokenMint accounts) False True,
         meta (ivs_baseVaultAuthority accounts) False True,
         meta (ivs_ctokenVault accounts) False True,
         meta (ivs_reserve accounts) False True,
         meta (ivs_lendingMarket accounts) False False,
         meta (ivs_lendingMarketAuthority accounts) False False,
         meta (ivs_reserveLiquiditySupply accounts) False True,
         meta (ivs_reserveCollateralMint accounts) False True,
         meta (ivs_klendProgram accounts) False False,
         meta (ivs_reserveCollateralTokenProgram accounts) False False,
         meta (ivs_tokenProgram accounts) False False,
         meta (ivs_instructionSysvarAccount accounts) False False],
      ix_programId = programId, ix_data = invest_identifier\<rparr>"

record update_vault_config_accounts =
  uvc_vaultAdminAuthority :: pubkey
  uvc_vaultState :: pubkey
  uvc_klendProgram :: pubkey

definition updateVaultConfig_identifier :: "byte list" where
  "updateVaultConfig_identifier = [122, 3, 21, 222, 158, 255, 238, 157]"

definition updateVaultConfig ::
    "borsh_lib \<Rightarrow> vault_config_field \<Rightarrow> byte list \<Rightarrow> update_vault_config_accounts \<Rightarrow> pubkey \<Rightarrow> instruction result" where
  "updateVaultConfig B entry data accounts programId =
     ix_with_data
        [meta (uvc_vaultAdminAuthority accounts) True False,
         meta (uvc_vaultState accounts) False True,
         meta (uvc_klendProgram accounts) False False]
        programId updateVaultConfig_identifier
        (bo_uint B 1 (field_discriminator entry) @ bo_vec B data)"

record withdraw_pending_fees_accounts =
  wpe_vaultAdminAuthority :: pubkey
  wpe_vaultState :: pubkey
  wpe_reserve :: pubkey
  wpe_tokenVault :: pubkey
  wpe_ctokenVault :: pubkey
  wpe_baseVaultAuthority :: pubkey
  wpe_tokenAta :: pubkey
  wpe_tokenMint :: pubkey
  wpe_lendingMarket :: pubkey
  wpe_lendingMarketAuthority :: pubkey
  wpe_reserveLiquiditySupply :: pubkey
  wpe_reserveCollateralMint :: pubkey
  wpe_klendProgram :: pubkey
  wpe_tokenProgram :: pubkey
  wpe_reserveCollateralTokenProgram :: pubkey
  wpe_instructionSysvarAccount :: pubkey

definition withdrawPendingFees_identifier :: "byte list" where
  "withdrawPendingFees_identifier = [131, 194, 200, 140, 175, 244, 217, 183]"

definition withdrawPendingFees :: "withdraw_pending_fees_accounts \<Rightarrow> pubkey \<Rightarrow> instruction" where
  "withdrawPendingFees accounts programId =
     \<lparr>ix_keys =
        [meta (wpe_vaultAdminAuthority accounts) True True,
         meta (wpe_vaultState accounts) False True,
         meta (wpe_reserve accounts) False True,
         meta (wpe_tokenVault accounts) False True,
         meta (wpe_ctokenVault accounts) False True,
         meta (wpe_baseVaultAuthority accounts) False True,
         meta (wpe_tokenAta accounts) False True,
         meta (wpe_tokenMint accounts) False True,
         meta (wpe_lendingMarket accounts) False False,
         meta (wpe_lendingMarketAuthority accounts) False False,
         meta (wpe_reserveLiquiditySupply accounts) False True,
         meta (wpe_reserveCollateralMint accounts) False True,
         meta (wpe_klendProgram accounts) False False,
         meta (wpe_tokenProgram accounts) False False,
         meta (wpe_reserveCollateralTokenProgram accounts) False False,
         meta (wpe_instructionSysvarAccount accounts) False False],
      ix_programId = programId, ix_data = withdrawPendingFees_identifier\<rparr>"

record update_admin_accounts =
  uad_pendingAdmin :: pubkey
  uad_vaultState :: pubkey

definition updateAdmin_identifier :: "byte list" where
  "updateAdmin_identifier = [161, 176, 40, 213, 60, 184, 179, 228]"

definition updateAdmin :: "update_admin_accounts \<Rightarrow> pubkey \<Rightarrow> instruction" where
  "updateAdmin accounts programId =
     \<lparr>ix_keys =
        [meta (uad_pendingAdmin accounts) True True,
         meta (uad_vaultState accounts) False True],
      ix_programId = programId, ix_data = updateAdmin_identifier\<rparr>"

record give_up_pending_fees_accounts =
  gup_vaultAdminAuthority :: pubkey
  gup_vaultState :: pubkey
  gup_klendProgram :: pubkey

definition giveUpPendingFees_identifier :: "byte list" where
  "giveUpPendingFees_identifier = [177, 200, 120, 134, 110, 217, 147, 81]"

definition giveUpPendingFees ::
    "borsh_lib \<Rightarrow> int \<Rightarrow> give_up_pending_fees_accounts \<Rightarrow> pubkey \<Rightarrow> instruction result" where
  "giveUpPendingFees B maxAmountToGiveUp accounts programId =
     ix_with_data
        [meta (gup_vaultAdminAuthority accounts) True True,
         meta (gup_vaultState accounts) False True,
         meta (gup_klendProgram accounts) False False]
        programId giveUpPendingFees_identifier
        (bo_bn B 8 maxAmountToGiveUp)"

record initialize_shares_metadata_accounts =
  ism_vaultAdminAuthority :: pubkey
  ism_vaultState :: pubkey
  ism_sharesMint :: pubkey
  ism_baseVaultAuthority :: pubkey
  ism_sharesMetadata :: pubkey
  ism_systemProgram :: pubkey
  ism_rent :: pubkey
  ism_metadataProgram :: pubkey

definition initializeSharesMetadata_identifier :: "byte list" where
  "initializeSharesMetadata_identifier = [3, 15, 172, 114, 200, 0, 131, 32]"

definition initializeSharesMetadata ::
    "borsh_lib \<Rightarrow> string \<Rightarrow> string \<Rightarrow> string \<Rightarrow> initialize_shares_metadata_accounts \<Rightarrow> pubkey \<Rightarrow> instruction result" where
  "initializeSharesMetadata B name symbol uri accounts programId =
     ix_with_data
        [meta (ism_vaultAdminAuthority accounts) True True,
         meta (ism_vaultState accounts) False False,
         meta (ism_sharesMint accounts) False False,
         meta (ism_baseVaultAuthority accounts) False False,
         meta (ism_sharesMetadata accounts) False True,
         meta (ism_systemProgram accounts) False False,
         meta (ism_rent accounts) False False,
         meta (ism_metadataProgram accounts) False False]
        programId initializeSharesMetadata_identifier
        (bo_str B name @ bo_str B symbol @ bo_str B uri)"

record update_shares_metadata_accounts =
  usm_vaultAdminAuthority :: pubkey
  usm_vaultState :: pubkey
  usm_baseVaultAuthority :: pubkey
  usm_sharesMetadata :: pubkey
  usm_metadataProgram :: pubkey

definition updateSharesMetadata_identifier :: "byte list" where
  "updateSharesMetadata_identifier = [155, 34, 122, 165, 245, 137, 147, 107]"

definition updateSharesMetadata ::
    "borsh_lib \<Rightarrow> string \<Rightarrow> string \<Rightarrow> string \<Rightarrow> update_shares_metadata_accounts \<Rightarrow> pubkey \<Rightarrow> instruction result" where
  "updateSharesMetadata B name symbol uri accounts programId =
     ix_with_data
        [meta (usm_vaultAdminAuthority accounts) True True,
         meta (usm_vaultState accounts) False False,
         meta (usm_baseVaultAuthority accounts) False False,
         meta (usm_sharesMetadata accounts) False True,
         meta (usm_metadataProgram accounts) False False]
        programId updateSharesMetadata_identifier
        (bo_str B name @ bo_str B symbol @ bo_str B uri)"

record remove_allocation_accounts =
  rma_vaultAdminAuthority :: pubkey
  rma_vaultState :: pubkey
  rma_reserve :: pubkey

definition removeAllocation_identifier :: "byte list" where
  "removeAllocation_identifier = [32, 220, 211, 141, 209, 231, 73, 76]"

definition removeAllocation :: "remove_allocation_accounts \<Rightarrow> pubkey \<Rightarrow> instruction" where
  "removeAllocation accounts programId =
     \<lparr>ix_keys =
        [meta (rma_vaultAdminAuthority accounts) True True,
         meta (rma_vaultState accounts) False True,
         meta (rma_reserve accounts) False False],
      ix_programId = programId, ix_data = removeAllocation_identifier\<rparr>"

end
