(* ===== verification/Vault_State.thy ===== *)
theory Vault_State
  imports Flash_Loans Vault_Instructions
begin

text \<open>
  The state of a vault and what the vault client computes from it (\<open>src/ts-client/src/classes/vault.ts\<close>): holdings, tokens per share,
  allocations, utilization, yields and fees. \<open>vault_env\<close> adds to the environment of the other operations the accounts of the connection a
  vault reads, the farms package, the clock and the operator \<open>**\<close>; the state of a vault is read once and cached, which a
  connection that does not change makes unobservable.
\<close>

section \<open>Accounts\<close>

text \<open>The fields of the accounts the client reads; bumps, padding and the limits and totals only the program uses are left out.\<close>

record vault_allocation =
  va_reserve :: pubkey
  va_ctokenVault :: pubkey
  targetAllocationWeight :: u64
  va_tokenAllocationCap :: u64
  ctokenVaultBump :: u64
  va_ctokenAllocation :: u64
  lastInvestSlot :: u64
  tokenTargetAllocationSf :: u128

record vault_state =
  vaultAdminAuthority :: pubkey
  baseVaultAuthority :: pubkey
  vs_tokenMint :: pubkey
  vs_tokenMintDecimals :: u64
  vs_tokenVault :: pubkey
  vs_tokenProgram :: pubkey
  vs_sharesMint :: pubkey
  vs_sharesMintDecimals :: u64
  tokenAvailable :: u64
  vs_sharesIssued :: u64
  performanceFeeBps :: u64
  managementFeeBps :: u64
  lastFeeChargeTimestamp :: u64
  prevAumSf :: u128
  pendingFeesSf :: u128
  vaultAllocationStrategy :: "vault_allocation list"
  minInvestAmount :: u64
  vs_pendingAdmin :: pubkey
  cumulativeEarnedInterestSf :: u128
  vs_name :: "byte list"
  vaultLookupTable :: pubkey
  vaultFarm :: pubkey

record kamino_vault =
  v_address :: pubkey
  v_state :: "vault_state option"
  v_programId :: pubkey

text \<open>The account of a farm, of which the client reads these fields.\<close>

record farm_state =
  farmVault :: pubkey
  farmVaultsAuthority :: pubkey
  fs_tokenMint :: pubkey
  scopePrices :: pubkey
  fs_globalConfig :: pubkey

record vault_env =
  lv :: lev
  fetchVault :: "pubkey \<Rightarrow> pubkey \<Rightarrow> vault_state option"
  fetchReserve :: "pubkey \<Rightarrow> reserve option"
  tokenOraclePrice :: "reserve \<Rightarrow> decimal option"
  loadMarket :: "pubkey \<Rightarrow> nat \<Rightarrow> kamino_market option"
  tokenAccountAmount :: "pubkey \<Rightarrow> u64"
  accountDataEmpty :: "pubkey \<Rightarrow> bool"
  new_PublicKey :: "string \<Rightarrow> pubkey result"
  getAddressLookupTable :: "pubkey \<Rightarrow> pubkey list option"
  extendLookupTable :: "pubkey \<Rightarrow> pubkey \<Rightarrow> pubkey \<Rightarrow> pubkey list \<Rightarrow> instruction"
  sys_createAccount :: "pubkey \<Rightarrow> pubkey \<Rightarrow> number \<Rightarrow> nat \<Rightarrow> pubkey \<Rightarrow> instruction"
  createAssociatedTokenAccountInstruction :: "pubkey \<Rightarrow> pubkey \<Rightarrow> pubkey \<Rightarrow> pubkey \<Rightarrow> pubkey \<Rightarrow> instruction"
  fetchFarm :: "pubkey \<Rightarrow> farm_state option"
  getUserStatePDA :: "pubkey \<Rightarrow> pubkey \<Rightarrow> pubkey \<Rightarrow> pubkey"
  createNewUserIx :: "pubkey \<Rightarrow> pubkey \<Rightarrow> instruction"
  stakeIx :: "pubkey \<Rightarrow> pubkey \<Rightarrow> decimal \<Rightarrow> pubkey \<Rightarrow> pubkey \<Rightarrow> instruction"
  unstakeIx :: "pubkey \<Rightarrow> pubkey \<Rightarrow> decimal \<Rightarrow> pubkey \<Rightarrow> instruction"
  withdrawUnstakedDepositIx :: "pubkey \<Rightarrow> pubkey \<Rightarrow> pubkey \<Rightarrow> pubkey \<Rightarrow> instruction"
  getUserTokensInUndelegatedFarm :: "pubkey \<Rightarrow> pubkey \<Rightarrow> nat \<Rightarrow> decimal"
  WAD :: decimal
  kl_ZERO :: decimal
  FullBPSDecimal :: decimal
  now_seconds :: number
  js_pow :: "number \<Rightarrow> number \<Rightarrow> number"

abbreviation ve :: "vault_env \<Rightarrow> env" where "ve V \<equiv> le (lv V)"
abbreviation vnum :: "vault_env \<Rightarrow> num_lib" where "vnum V \<equiv> num (ve V)"

record vault_client =
  vaultProgramId :: pubkey
  lendProgramId :: pubkey
  vc_slotDurationMs :: number

definition getState :: "vault_env \<Rightarrow> kamino_vault \<Rightarrow> vault_state result" where
  "getState V v =
     (case v_state v of
        Some st \<Rightarrow> Inr st
      | None \<Rightarrow> need (fetchVault V (v_address v) (v_programId v)) ''Invalid vault'')"

definition reloadState :: "vault_env \<Rightarrow> kamino_vault \<Rightarrow> kamino_vault result" where
  "reloadState V v =
     bindE (need (fetchVault V (v_address v) (v_programId v)) ''Could not fetch vault'') (\<lambda>st. Inr (v\<lparr>v_state := Some st\<rparr>))"

definition hasFarm :: "vault_env \<Rightarrow> kamino_vault \<Rightarrow> bool result" where
  "hasFarm V v = bindE (getState V v) (\<lambda>st. Inr (vaultFarm st \<noteq> default_pubkey))"

section \<open>Allocations\<close>

definition active_allocations :: "vault_state \<Rightarrow> vault_allocation list" where
  "active_allocations st = filter (\<lambda>a. va_reserve a \<noteq> default_pubkey) (vaultAllocationStrategy st)"

definition getVaultReserves :: "vault_state \<Rightarrow> pubkey list" where
  "getVaultReserves st = map va_reserve (active_allocations st)"

record allocation_overview =
  targetWeight :: decimal
  tokenAllocationCap :: decimal
  ctokenAllocation :: decimal

definition overview_of :: "vault_allocation \<Rightarrow> allocation_overview" where
  "overview_of a =
     \<lparr>targetWeight = dint (uint (targetAllocationWeight a)), tokenAllocationCap = dint (uint (va_tokenAllocationCap a)),
      ctokenAllocation = dint (uint (va_ctokenAllocation a))\<rparr>"

definition getVaultAllocations :: "vault_state \<Rightarrow> allocation_overview pubkey_hash_map" where
  "getVaultAllocations st = foldl (\<lambda>m a. hm_set m (va_reserve a) (overview_of a)) hm_empty (active_allocations st)"

definition total_weight :: "num_lib \<Rightarrow> vault_allocation list \<Rightarrow> decimal" where
  "total_weight L as = foldl (\<lambda>t a. dadd L t (dint (uint (targetAllocationWeight a)))) (Fin 0) as"

definition getAllocationsDistribuionPct :: "num_lib \<Rightarrow> vault_state \<Rightarrow> decimal pubkey_hash_map" where
  "getAllocationsDistribuionPct L st =
     (let as = active_allocations st; total = total_weight L as
      in foldl (\<lambda>m a. hm_set m (va_reserve a) (ddiv L (dmul L (dint (uint (targetAllocationWeight a))) (Fin 100)) total)) hm_empty as)"

record vault_fees_pct =
  managementFeePct :: decimal
  performanceFeePct :: decimal

definition getVaultFeesPct :: "num_lib \<Rightarrow> vault_state \<Rightarrow> vault_fees_pct" where
  "getVaultFeesPct L st =
     \<lparr>managementFeePct = bpsToPct L (dint (uint (managementFeeBps st))), performanceFeePct = bpsToPct L (dint (uint (performanceFeeBps st)))\<rparr>"

section \<open>Reserves of a vault\<close>

text \<open>Fetched accounts are deduplicated; a missing account or oracle is an error.\<close>

definition load_reserve :: "vault_env \<Rightarrow> vault_client \<Rightarrow> kamino_reserve pubkey_hash_map \<Rightarrow> pubkey \<times> reserve \<Rightarrow> kamino_reserve pubkey_hash_map result" where
  "load_reserve V C m p =
     bindE (need (tokenOraclePrice V (snd p)) ''Could not find oracle'') (\<lambda>price.
     bindE (r_initialize (vnum V) (fst p) (snd p) price (vc_slotDurationMs C)) (\<lambda>r. Inr (hm_set m (r_address r) r)))"

definition loadVaultsReserves :: "vault_env \<Rightarrow> vault_client \<Rightarrow> vault_state list \<Rightarrow> kamino_reserve pubkey_hash_map result" where
  "loadVaultsReserves V C vaults =
     (let addresses = pks_toArray (pks_new (concat (map getVaultReserves vaults))) in
      bindE (mapE (\<lambda>a. bindE (need (fetchReserve V a) ''Reserve account was not found'') (\<lambda>st. Inr (a, st))) addresses) (\<lambda>found.
        foldE (load_reserve V C) hm_empty found))"

definition loadVaultReserves :: "vault_env \<Rightarrow> vault_client \<Rightarrow> vault_state \<Rightarrow> kamino_reserve pubkey_hash_map result" where
  "loadVaultReserves V C st = loadVaultsReserves V C [st]"

definition reserves_or_load ::
    "vault_env \<Rightarrow> vault_client \<Rightarrow> vault_state \<Rightarrow> kamino_reserve pubkey_hash_map option \<Rightarrow> kamino_reserve pubkey_hash_map result" where
  "reserves_or_load V C st given = (case given of Some m \<Rightarrow> Inr m | None \<Rightarrow> loadVaultReserves V C st)"

definition vault_reserve :: "kamino_reserve pubkey_hash_map \<Rightarrow> pubkey \<Rightarrow> kamino_reserve result" where
  "vault_reserve m k = need (hm_get m k) ''Reserve not found''"

definition token_decimals :: "vault_env \<Rightarrow> vault_state \<Rightarrow> nat result" where
  "token_decimals V st = bindE (bn_toNumber (vnum V) (uint (vs_tokenMintDecimals st))) (\<lambda>n. Inr (nat n))"

definition shares_decimals :: "vault_env \<Rightarrow> vault_state \<Rightarrow> nat result" where
  "shares_decimals V st = bindE (bn_toNumber (vnum V) (uint (vs_sharesMintDecimals st))) (\<lambda>n. Inr (nat n))"

definition referral_bps :: "num_lib \<Rightarrow> reserve \<Rightarrow> nat" where
  "referral_bps L st =
     (let denominator = ndiv (dnat (unat (protocolTakeRatePct (config st)))) (Fin 100)
      in if xgt denominator (Fin 0)
         then nat \<lfloor>val (num_of_dec (dfloor (ddiv L (sf_dec L (absoluteReferralRateSf (liquidity st))) (dec_of_num denominator))))\<rfloor>
         else 0)"

definition getSuppliedInReserve :: "vault_env \<Rightarrow> vault_state \<Rightarrow> nat \<Rightarrow> kamino_reserve \<Rightarrow> decimal result" where
  "getSuppliedInReserve V st slot r =
     (let L = vnum V in
      bindE (getEstimatedCollateralExchangeRate L r slot (referral_bps L (r_state r))) (\<lambda>rate.
      bindE (need (List.find (\<lambda>a. va_reserve a = r_address r) (vaultAllocationStrategy st)) ''Reserve not found in vault allocation strategy'') (\<lambda>a.
      bindE (token_decimals V st) (\<lambda>n.
        Inr (lamportsToDecimal L (ddiv L (dint (uint (va_ctokenAllocation a))) rate) n)))))"

definition available_to_withdraw ::
    "vault_env \<Rightarrow> nat \<Rightarrow> kamino_reserve pubkey_hash_map \<Rightarrow> decimal pubkey_hash_map \<Rightarrow> vault_allocation \<Rightarrow> decimal pubkey_hash_map result" where
  "available_to_withdraw V slot m acc a =
     (let L = vnum V in
      bindE (vault_reserve m (va_reserve a)) (\<lambda>r.
      bindE (getEstimatedCollateralExchangeRate L r slot (referral_bps L (r_state r))) (\<lambda>rate.
        Inr (hm_set acc (va_reserve a)
               (xmin (ddiv L (dint (uint (va_ctokenAllocation a))) rate) (getLiquidityAvailableAmount (r_state r)))))))"

definition getReserveAllocationAvailableLiquidityToWithdraw ::
    "vault_env \<Rightarrow> kamino_vault \<Rightarrow> nat \<Rightarrow> kamino_reserve pubkey_hash_map \<Rightarrow> decimal pubkey_hash_map result" where
  "getReserveAllocationAvailableLiquidityToWithdraw V v slot m =
     bindE (getState V v) (\<lambda>st. foldE (available_to_withdraw V slot m) hm_empty (active_allocations st))"

end
