(* ===== verification/Vault_Calcs.thy ===== *)
theory Vault_Calcs
  imports Vault_State
begin

text \<open>
  Holdings, value per share, target allocation, utilization, yields and fees of a vault (\<open>src/ts-client/src/classes/vault.ts\<close>). An optional
  slot counts as missing when it is 0, as in the code.
\<close>

section \<open>Holdings\<close>

record vault_holdings =
  vh_available :: decimal
  vh_invested :: decimal
  investedInReserves :: "decimal pubkey_hash_map"
  totalAUMIncludingFees :: decimal
  pendingFees :: decimal

definition SECONDS_PER_YEAR :: number where
  "SECONDS_PER_YEAR = nmul (nmul (nmul (b64 (365242199 / 1000000)) (Fin 24)) (Fin 60)) (Fin 60)"

definition given_slot :: "nat option \<Rightarrow> nat option" where
  "given_slot slot = (if slot = Some 0 then None else slot)"

definition slot_or_current :: "vault_env \<Rightarrow> nat option \<Rightarrow> nat" where
  "slot_or_current V slot = (case given_slot slot of Some s \<Rightarrow> s | None \<Rightarrow> getSlot (ve V))"

definition invested_step ::
    "vault_env \<Rightarrow> nat option \<Rightarrow> kamino_reserve pubkey_hash_map \<Rightarrow> nat \<Rightarrow> decimal \<times> decimal pubkey_hash_map \<Rightarrow> vault_allocation \<Rightarrow>
     (decimal \<times> decimal pubkey_hash_map) result" where
  "invested_step V slot m decimals s a =
     (let L = vnum V in
      bindE (vault_reserve m (va_reserve a)) (\<lambda>r.
      bindE (case given_slot slot of Some n \<Rightarrow> getEstimatedCollateralExchangeRate L r n 0
             | None \<Rightarrow> Inr (getCollateralExchangeRate L (r_state r))) (\<lambda>rate.
        let amount = ddiv L (dint (uint (va_ctokenAllocation a))) rate
        in Inr (dadd L (fst s) amount, hm_set (snd s) (va_reserve a) (lamportsToDecimal L amount decimals)))))"

text \<open>The fees until a slot in the future: the duration of a slot, in milliseconds, counts as seconds.\<close>

definition future_fees :: "vault_env \<Rightarrow> vault_client \<Rightarrow> vault_state \<Rightarrow> nat \<Rightarrow> nat \<Rightarrow> decimal \<Rightarrow> decimal result" where
  "future_fees V C st slot current invested =
     (let L = vnum V;
          atSlot = nadd (now_seconds V) (nmul (b64 (of_nat (slot - current))) (vc_slotDurationMs C));
          elapsed = nsub atSlot (now_seconds V);
          factor = ddiv L (ddiv L (dmul L (dec_of_num elapsed) (dint (uint (managementFeeBps st)))) (dec_of_num SECONDS_PER_YEAR)) (FullBPSDecimal V) in
      bindE (token_decimals V st) (\<lambda>n.
        let prevAUM = lamportsToDecimal L (sf_dec L (prevAumSf st)) n;
            mgmtFee = dmul L prevAUM factor;
            earned = dsub L (dsub L (dadd L invested (dint (uint (tokenAvailable st)))) prevAUM) mgmtFee;
            performanceFee = ddiv L (dmul L earned (dint (uint (performanceFeeBps st)))) (FullBPSDecimal V)
        in Inr (dadd L (dadd L (sf_dec L (pendingFeesSf st)) mgmtFee) performanceFee)))"

definition getVaultHoldings ::
    "vault_env \<Rightarrow> vault_client \<Rightarrow> vault_state \<Rightarrow> nat option \<Rightarrow> kamino_reserve pubkey_hash_map option \<Rightarrow> nat option \<Rightarrow> vault_holdings result" where
  "getVaultHoldings V C st slot vaultReserves currentSlot =
     (let L = vnum V; current = slot_or_current V currentSlot; decimals = unat (vs_tokenMintDecimals st) in
      bindE (reserves_or_load V C st vaultReserves) (\<lambda>m.
      bindE (foldE (invested_step V slot m decimals) (Fin 0, hm_empty) (active_allocations st)) (\<lambda>(invested, inReserves).
      bindE (case given_slot slot of
               Some s \<Rightarrow> if s > current then future_fees V C st s current invested else Inr (sf_dec L (pendingFeesSf st))
             | None \<Rightarrow> Inr (sf_dec L (pendingFeesSf st))) (\<lambda>fees.
        let available = lamportsToDecimal L (dint (uint (tokenAvailable st))) decimals;
            total = lamportsToDecimal L invested decimals
        in Inr \<lparr>vh_available = available, vh_invested = total, investedInReserves = inReserves,
                totalAUMIncludingFees = dadd L available total, pendingFees = lamportsToDecimal L fees decimals\<rparr>))))"

record vault_holdings_usd =
  hu_holdings :: vault_holdings
  availableUSD :: decimal
  investedUSD :: decimal
  investedInReservesUSD :: "decimal pubkey_hash_map"
  totalUSDIncludingFees :: decimal
  pendingFeesUSD :: decimal

definition getVaultHoldingsWithPrice ::
    "vault_env \<Rightarrow> vault_client \<Rightarrow> vault_state \<Rightarrow> decimal \<Rightarrow> nat option \<Rightarrow> kamino_reserve pubkey_hash_map option \<Rightarrow> nat option \<Rightarrow>
     vault_holdings_usd result" where
  "getVaultHoldingsWithPrice V C st price slot vaultReserves currentSlot =
     bindE (getVaultHoldings V C st slot vaultReserves currentSlot) (\<lambda>h.
       let usd = (\<lambda>x. dmul (vnum V) x price)
       in Inr \<lparr>hu_holdings = h, availableUSD = usd (vh_available h), investedUSD = usd (vh_invested h),
               investedInReservesUSD = foldl (\<lambda>m (k, x). hm_set m k (usd x)) hm_empty (hm_entries (investedInReserves h)),
               totalUSDIncludingFees = usd (totalAUMIncludingFees h), pendingFeesUSD = usd (pendingFees h)\<rparr>)"

definition getTokensPerShareSingleVault ::
    "vault_env \<Rightarrow> vault_client \<Rightarrow> kamino_vault \<Rightarrow> nat option \<Rightarrow> kamino_reserve pubkey_hash_map option \<Rightarrow> nat option \<Rightarrow> decimal result" where
  "getTokensPerShareSingleVault V C v slot vaultReserves currentSlot =
     (let L = vnum V in
      bindE (getState V v) (\<lambda>st.
        if uint (vs_sharesIssued st) = 0 then Inr (Fin 0)
        else
          bindE (reserves_or_load V C st vaultReserves) (\<lambda>m.
          bindE (getVaultHoldings V C st slot (Some m) currentSlot) (\<lambda>h.
            Inr (ddiv L (dsub L (totalAUMIncludingFees h) (pendingFees h))
                   (lamportsToDecimal L (dint (uint (vs_sharesIssued st))) (unat (vs_sharesMintDecimals st))))))))"

definition getTokensPerShareAllVaults ::
    "vault_env \<Rightarrow> vault_client \<Rightarrow> nat \<Rightarrow> kamino_vault list \<Rightarrow> kamino_reserve pubkey_hash_map option \<Rightarrow> decimal pubkey_hash_map result" where
  "getTokensPerShareAllVaults V C slot vaults vaultReserves =
     foldE (\<lambda>m v. bindE (getTokensPerShareSingleVault V C v (Some slot) vaultReserves None) (\<lambda>t. Inr (hm_set m (v_address v) t)))
       hm_empty vaults"

section \<open>Target allocation\<close>

record alloc_state =
  leftToInvest :: decimal
  allocationSum :: decimal
  distribution :: "decimal pubkey_hash_map"

text \<open>One reserve of a pass; the leftover at the start of the pass is \<open>leftover\<close>.\<close>

definition alloc_step :: "vault_env \<Rightarrow> allocation_overview pubkey_hash_map \<Rightarrow> decimal \<Rightarrow> alloc_state \<Rightarrow> pubkey \<Rightarrow> alloc_state" where
  "alloc_step V allocs leftover s k =
     (let L = vnum V; a = the (hm_get allocs k); cap = tokenAllocationCap a;
          target = ddiv L (dmul L (targetWeight a) leftover) (allocationSum s);
          wanted = xmin target (leftToInvest s);
          amount = (if xgt cap (kl_ZERO V) then xmin wanted cap else wanted)
      in \<lparr>leftToInvest = dsub L (leftToInvest s) amount,
          allocationSum = (if xeq amount cap \<and> xgt cap (kl_ZERO V) then dsub L (allocationSum s) (targetWeight a) else allocationSum s),
          distribution = hm_set (distribution s) k
            (case hm_get (distribution s) k of Some x \<Rightarrow> dadd L x amount | None \<Rightarrow> amount)\<rparr>)"

definition alloc_pass :: "vault_env \<Rightarrow> allocation_overview pubkey_hash_map \<Rightarrow> pubkey list \<Rightarrow> alloc_state \<Rightarrow> alloc_state" where
  "alloc_pass V allocs ks s = foldl (alloc_step V allocs (leftToInvest s)) s ks"

partial_function (option) alloc_loop ::
    "vault_env \<Rightarrow> allocation_overview pubkey_hash_map \<Rightarrow> pubkey list \<Rightarrow> alloc_state \<Rightarrow> decimal pubkey_hash_map option" where
  "alloc_loop V allocs ks s =
     (if xgt (leftToInvest s) (Fin 1) then alloc_loop V allocs ks (alloc_pass V allocs ks s) else Some (distribution s))"

definition no_weights :: "vault_state \<Rightarrow> bool" where
  "no_weights st \<longleftrightarrow> (\<forall>k\<in>set (getVaultReserves st).
     case hm_get (getVaultAllocations st) k of None \<Rightarrow> False | Some a \<Rightarrow> xeq (targetWeight a) (Fin 0))"

definition getVaultComputedReservesAllocation ::
    "vault_env \<Rightarrow> vault_client \<Rightarrow> vault_state \<Rightarrow> nat option \<Rightarrow> kamino_reserve pubkey_hash_map option \<Rightarrow> nat option \<Rightarrow>
     decimal pubkey_hash_map result option" where
  "getVaultComputedReservesAllocation V C st slot vaultReserves currentSlot =
     (let L = vnum V; ks = getVaultReserves st; allocs = getVaultAllocations st in
      if ks = [] \<or> no_weights st then Some (Inr (foldl (\<lambda>m k. hm_set m k (Fin 0)) hm_empty ks))
      else
        bindO (Some (getVaultHoldings V C st slot vaultReserves currentSlot)) (\<lambda>h.
          let total = foldl (\<lambda>t a. dadd L t (targetWeight a)) (Fin 0) (hm_values allocs)
          in map_option Inr (alloc_loop V allocs ks
               \<lparr>leftToInvest = dsub L (totalAUMIncludingFees h) (pendingFees h), allocationSum = total, distribution = hm_empty\<rparr>)))"

end
