(* ===== verification/Vault_Yields.thy ===== *)
theory Vault_Yields
  imports Vault_Calcs
begin

text \<open>
  Utilization, yields, fees, collaterals and the shares of a user (\<open>src/ts-client/src/classes/vault.ts\<close>, with \<open>calculateAPYFromAPR\<close> of
  \<open>src/ts-client/src/classes/utils.ts\<close>, \<open>totalSupplyAPY\<close> of \<open>src/ts-client/src/classes/reserve.ts\<close> and
  \<open>src/ts-client/src/classes/farm_utils.ts\<close>).
\<close>

section \<open>Utilization and yields\<close>

record total_borrowed_and_invested =
  totalInvested :: decimal
  totalBorrowed :: decimal
  vt_utilizationRatio :: decimal

definition borrowed_step ::
    "vault_env \<Rightarrow> vault_state \<Rightarrow> nat \<Rightarrow> kamino_reserve pubkey_hash_map \<Rightarrow> decimal \<times> decimal \<Rightarrow> vault_allocation \<Rightarrow> (decimal \<times> decimal) result" where
  "borrowed_step V st slot m s a =
     (let L = vnum V in
      bindE (vault_reserve m (va_reserve a)) (\<lambda>r.
      bindE (getEstimatedCollateralExchangeRate L r slot 0) (\<lambda>rate.
      bindE (getEstimatedUtilizationRatio L r slot 0) (\<lambda>u.
        let amount = lamportsToDecimal L (ddiv L (dint (uint (va_ctokenAllocation a))) rate) (unat (vs_tokenMintDecimals st))
        in Inr (dadd L (fst s) amount, dadd L (snd s) (dmul L amount (dec_of_num u)))))))"

definition getTotalBorrowedAndInvested ::
    "vault_env \<Rightarrow> vault_client \<Rightarrow> vault_state \<Rightarrow> nat \<Rightarrow> kamino_reserve pubkey_hash_map option \<Rightarrow> total_borrowed_and_invested result" where
  "getTotalBorrowedAndInvested V C st slot vaultReserves =
     (let L = vnum V; available = lamportsToDecimal L (dint (uint (tokenAvailable st))) (unat (vs_tokenMintDecimals st)) in
      bindE (reserves_or_load V C st vaultReserves) (\<lambda>m.
      bindE (foldE (borrowed_step V st slot m) (Fin 0, Fin 0) (active_allocations st)) (\<lambda>(invested, borrowed).
        Inr \<lparr>totalInvested = invested, totalBorrowed = borrowed,
             vt_utilizationRatio = (if xeq invested (Fin 0) then Fin 0 else ddiv L borrowed (dadd L invested available))\<rparr>)))"

definition calculateAPYFromAPR :: "vault_env \<Rightarrow> number \<Rightarrow> number" where
  "calculateAPYFromAPR V apr =
     nsub (js_pow V (num_of_dec (dadd (vnum V) (Fin 1) (ddiv (vnum V) (dec_of_num apr) (dnat SLOTS_PER_YEAR)))) (dnat SLOTS_PER_YEAR)) (Fin 1)"

definition totalSupplyAPY :: "vault_env \<Rightarrow> kamino_reserve \<Rightarrow> nat \<Rightarrow> number result" where
  "totalSupplyAPY V r slot = bindE (calculateSupplyAPR (vnum V) r slot 0) (\<lambda>apr. Inr (calculateAPYFromAPR V apr))"

record reserve_overview =
  ro_supplyAPY :: decimal
  ro_utilizationRatio :: decimal
  ro_liquidationThresholdPct :: decimal
  totalBorrowedAmount :: decimal
  amountBorrowedFromSupplied :: decimal
  ro_market :: pubkey
  suppliedAmount :: decimal

definition details_step ::
    "vault_env \<Rightarrow> vault_state \<Rightarrow> nat \<Rightarrow> kamino_reserve pubkey_hash_map \<Rightarrow> reserve_overview pubkey_hash_map \<Rightarrow> vault_allocation \<Rightarrow>
     reserve_overview pubkey_hash_map result" where
  "details_step V st slot m acc a =
     (let L = vnum V in
      bindE (vault_reserve m (va_reserve a)) (\<lambda>r.
      bindE (getSuppliedInReserve V st slot r) (\<lambda>supplied.
      bindE (getEstimatedUtilizationRatio L r slot 0) (\<lambda>u.
      bindE (totalSupplyAPY V r slot) (\<lambda>apy.
        Inr (hm_set acc (va_reserve a)
          \<lparr>ro_supplyAPY = dec_of_num apy, ro_utilizationRatio = dec_of_num u,
           ro_liquidationThresholdPct = dnat (unat (liquidationThresholdPct (config (r_state r)))), totalBorrowedAmount = getBorrowedAmount L (r_state r),
           amountBorrowedFromSupplied = dmul L supplied (dec_of_num u), ro_market = r_lendingMarket (r_state r), suppliedAmount = supplied\<rparr>))))))"

definition getVaultReservesDetails ::
    "vault_env \<Rightarrow> vault_client \<Rightarrow> vault_state \<Rightarrow> nat \<Rightarrow> kamino_reserve pubkey_hash_map option \<Rightarrow> reserve_overview pubkey_hash_map result" where
  "getVaultReservesDetails V C st slot vaultReserves =
     bindE (reserves_or_load V C st vaultReserves) (\<lambda>m. foldE (details_step V st slot m) hm_empty (active_allocations st))"

record apys =
  grossAPY :: decimal
  netAPY :: decimal

definition apy_step ::
    "vault_env \<Rightarrow> nat \<Rightarrow> kamino_reserve pubkey_hash_map \<Rightarrow> decimal \<times> decimal \<Rightarrow> vault_allocation \<Rightarrow> (decimal \<times> decimal) result" where
  "apy_step V slot m s a =
     (let L = vnum V; weight = dint (uint (targetAllocationWeight a)) in
      bindE (vault_reserve m (va_reserve a)) (\<lambda>r.
      bindE (totalSupplyAPY V r slot) (\<lambda>apy.
        Inr (dadd L (fst s) (dmul L (dec_of_num apy) weight), dadd L (snd s) weight))))"

definition fee_share :: "vault_env \<Rightarrow> u64 \<Rightarrow> decimal" where
  "fee_share V bps = dsub (vnum V) (Fin 1) (ddiv (vnum V) (dint (uint bps)) (FullBPSDecimal V))"

definition getVaultTheoreticalAPY ::
    "vault_env \<Rightarrow> vault_client \<Rightarrow> vault_state \<Rightarrow> nat \<Rightarrow> kamino_reserve pubkey_hash_map option \<Rightarrow> apys result" where
  "getVaultTheoreticalAPY V C st slot vaultReserves =
     (let L = vnum V in
      bindE (reserves_or_load V C st vaultReserves) (\<lambda>m.
      bindE (foldE (apy_step V slot m) (Fin 0, Fin 0) (active_allocations st)) (\<lambda>(total, weights).
        if xeq weights (Fin 0) then Inr \<lparr>grossAPY = Fin 0, netAPY = Fin 0\<rparr>
        else
          let gross = ddiv L total weights
          in Inr \<lparr>grossAPY = gross, netAPY = dmul L (dmul L gross (fee_share V (performanceFeeBps st))) (fee_share V (managementFeeBps st))\<rparr>)))"

section \<open>Interest and fees\<close>

definition getVaultCumulativeInterest :: "vault_env \<Rightarrow> vault_state \<Rightarrow> (decimal \<times> int) result" where
  "getVaultCumulativeInterest V st =
     bindE (bn_toNumber (vnum V) (uint (lastFeeChargeTimestamp st))) (\<lambda>ts.
       Inr (lamportsToDecimal (vnum V) (sf_dec (vnum V) (cumulativeEarnedInterestSf st)) (unat (vs_tokenMintDecimals st)), ts))"

record simulated_holdings =
  sh_holdings :: vault_holdings
  earnedInterest :: decimal

definition calculateSimulatedHoldingsWithInterest ::
    "vault_env \<Rightarrow> vault_client \<Rightarrow> vault_state \<Rightarrow> kamino_reserve pubkey_hash_map option \<Rightarrow> nat option \<Rightarrow> decimal option \<Rightarrow> nat option \<Rightarrow>
     simulated_holdings result" where
  "calculateSimulatedHoldingsWithInterest V C st vaultReserves slot previousNetAUM currentSlot =
     (let L = vnum V in
      bindE (case previousNetAUM of
               Some x \<Rightarrow> Inr (x, kl_ZERO V)
             | None \<Rightarrow> bindE (token_decimals V st) (\<lambda>n.
                 Inr (lamportsToDecimal L (sf_dec L (prevAumSf st)) n, lamportsToDecimal L (sf_dec L (pendingFeesSf st)) n))) (\<lambda>(prevAUM, fees).
      bindE (getVaultHoldings V C st (Some (slot_or_current V slot)) vaultReserves currentSlot) (\<lambda>h.
        Inr \<lparr>sh_holdings = h, earnedInterest = dsub L (dsub L (totalAUMIncludingFees h) prevAUM) fees\<rparr>)))"

record vault_fees =
  managementFee :: decimal
  performanceFee :: decimal

definition calculateSimulatedFees ::
    "vault_env \<Rightarrow> vault_client \<Rightarrow> vault_state \<Rightarrow> simulated_holdings option \<Rightarrow> number option \<Rightarrow> vault_fees result" where
  "calculateSimulatedFees V C st simulated currentTimestamp =
     (let L = vnum V; now = (case currentTimestamp of Some t \<Rightarrow> t | None \<Rightarrow> now_seconds V) in
      bindE (bn_toNumber L (uint (lastFeeChargeTimestamp st))) (\<lambda>last.
      bindE (case simulated of Some s \<Rightarrow> Inr s | None \<Rightarrow> calculateSimulatedHoldingsWithInterest V C st None None None None) (\<lambda>s.
      bindE (token_decimals V st) (\<lambda>n.
        let elapsed = nsub now (dint last);
            factor = ddiv L (ddiv L (dmul L (dec_of_num elapsed) (dint (uint (managementFeeBps st)))) (dec_of_num SECONDS_PER_YEAR)) (FullBPSDecimal V)
        in Inr \<lparr>managementFee = dmul L (lamportsToDecimal L (sf_dec L (prevAumSf st)) n) factor,
                performanceFee = dmul L (earnedInterest s) (ddiv L (dint (uint (performanceFeeBps st))) (FullBPSDecimal V))\<rparr>))))"

section \<open>Collaterals\<close>

record reserve_as_collateral =
  rac_mint :: pubkey
  liquidationLTVPct :: decimal

record market_overview =
  mo_address :: pubkey
  reservesAsCollateral :: "reserve_as_collateral list"
  minLTVPct :: decimal
  maxLTVPct :: decimal

definition is_collateral_for :: "kamino_reserve \<Rightarrow> kamino_reserve \<Rightarrow> bool" where
  "is_collateral_for r x \<longleftrightarrow>
     liquidationThresholdPct (config (r_state x)) > 0 \<and> r_address x \<noteq> r_address r \<and> rc_status (config (r_state x)) = 0"

definition add_collateral :: "market_overview \<Rightarrow> kamino_reserve \<Rightarrow> market_overview" where
  "add_collateral ov x =
     (let ltv = dnat (unat (liquidationThresholdPct (config (r_state x))))
      in ov\<lparr>reservesAsCollateral := reservesAsCollateral ov @ [\<lparr>rac_mint = getLiquidityMint (r_state x), liquidationLTVPct = ltv\<rparr>],
           minLTVPct := (if xlt ltv (minLTVPct ov) \<or> xeq (minLTVPct ov) (Fin 0) then ltv else minLTVPct ov),
           maxLTVPct := (if xgt ltv (maxLTVPct ov) \<or> xeq (maxLTVPct ov) (Fin 0) then ltv else maxLTVPct ov)\<rparr>)"

definition market_for :: "vault_env \<Rightarrow> kamino_market list option \<Rightarrow> nat \<Rightarrow> pubkey \<Rightarrow> kamino_market result" where
  "market_for V markets slot address =
     (case (case markets of None \<Rightarrow> None | Some ms \<Rightarrow> List.find (\<lambda>mk. m_address mk = address) ms) of
        Some mk \<Rightarrow> Inr mk
      | None \<Rightarrow> need (loadMarket V address slot) ''Could not fetch lending market'')"

definition collaterals_of :: "kamino_reserve \<Rightarrow> kamino_market \<Rightarrow> market_overview" where
  "collaterals_of r mk =
     foldl add_collateral
       \<lparr>mo_address = r_lendingMarket (r_state r), reservesAsCollateral = [], minLTVPct = Fin 0, maxLTVPct = Fin 100\<rparr>
       (filter (is_collateral_for r) (getReserves mk))"

definition getVaultCollaterals ::
    "vault_env \<Rightarrow> vault_client \<Rightarrow> vault_state \<Rightarrow> nat \<Rightarrow> kamino_reserve pubkey_hash_map option \<Rightarrow> kamino_market list option \<Rightarrow>
     market_overview pubkey_hash_map result" where
  "getVaultCollaterals V C st slot vaultReserves markets =
     bindE (reserves_or_load V C st vaultReserves) (\<lambda>m.
       foldE (\<lambda>acc r. bindE (market_for V markets slot (r_lendingMarket (r_state r))) (\<lambda>mk. Inr (hm_set acc (r_address r) (collaterals_of r mk))))
         hm_empty (hm_values m))"

record vault_overview =
  holdingsUSD :: vault_holdings_usd
  reservesOverview :: "reserve_overview pubkey_hash_map"
  vaultCollaterals :: "market_overview pubkey_hash_map"
  theoreticalSupplyAPY :: apys
  vo_totalBorrowed :: decimal
  totalSupplied :: decimal
  vo_utilizationRatio :: decimal

definition getVaultOverview ::
    "vault_env \<Rightarrow> vault_client \<Rightarrow> vault_state \<Rightarrow> decimal \<Rightarrow> nat option \<Rightarrow> kamino_reserve pubkey_hash_map option \<Rightarrow> kamino_market list option \<Rightarrow>
     nat option \<Rightarrow> vault_overview result" where
  "getVaultOverview V C st price slot vaultReserves markets currentSlot =
     bindE (reserves_or_load V C st vaultReserves) (\<lambda>m.
     bindE (getVaultHoldingsWithPrice V C st price slot (Some m) currentSlot) (\<lambda>usd.
       let now = slot_or_current V slot in
       bindE (getVaultTheoreticalAPY V C st now (Some m)) (\<lambda>apy.
       bindE (getTotalBorrowedAndInvested V C st now (Some m)) (\<lambda>t.
       bindE (getVaultCollaterals V C st now (Some m) markets) (\<lambda>cs.
       bindE (getVaultReservesDetails V C st now (Some m)) (\<lambda>ds.
         Inr \<lparr>holdingsUSD = usd, reservesOverview = ds, vaultCollaterals = cs, theoreticalSupplyAPY = apy,
              vo_totalBorrowed = totalBorrowed t, totalSupplied = totalInvested t, vo_utilizationRatio = vt_utilizationRatio t\<rparr>))))))"

section \<open>Shares of a user\<close>

record user_shares =
  unstakedShares :: decimal
  stakedShares :: decimal
  totalShares :: decimal

definition shares_ata :: "vault_env \<Rightarrow> vault_state \<Rightarrow> pubkey \<Rightarrow> pubkey result" where
  "shares_ata V st user =
     (let S = sol (ve V) in getAssociatedTokenAddress S (vs_sharesMint st) user True (TOKEN_PROGRAM_ID S) (ASSOCIATED_TOKEN_PROGRAM_ID S))"

definition unstaked_in :: "vault_env \<Rightarrow> vault_state \<Rightarrow> pubkey \<Rightarrow> decimal" where
  "unstaked_in V st ata =
     (if getAccountInfo (ve V) ata = None then Fin 0
      else ddiv (vnum V) (dint (uint (tokenAccountAmount V ata))) (dpow (vnum V) 10 (unat (vs_sharesMintDecimals st))))"

definition getUserSharesBalanceSingleVault :: "vault_env \<Rightarrow> pubkey \<Rightarrow> kamino_vault \<Rightarrow> user_shares result" where
  "getUserSharesBalanceSingleVault V user v =
     bindE (getState V v) (\<lambda>st.
     bindE (shares_ata V st user) (\<lambda>ata.
     bindE (hasFarm V v) (\<lambda>farm.
     bindE (if farm then bindE (shares_decimals V st) (\<lambda>n. Inr (getUserTokensInUndelegatedFarm V user (vaultFarm st) n)) else Inr (Fin 0)) (\<lambda>staked.
       Inr \<lparr>unstakedShares = unstaked_in V st ata, stakedShares = staked, totalShares = dadd (vnum V) (unstaked_in V st ata) staked\<rparr>))))"

text \<open>
  Over several vaults the farm states are asked for before the first of the awaited callbacks has put one into the map: none is fetched, and the
  staked shares are 0. A vault that is not fetched rejects its own callback only, and the accounts after it are attributed to the vaults before.
\<close>

definition all_vaults_step ::
    "vault_env \<Rightarrow> user_shares pubkey_hash_map \<Rightarrow> kamino_vault \<times> pubkey \<Rightarrow> user_shares pubkey_hash_map result" where
  "all_vaults_step V acc p =
     (let (v, ata) = p; none = \<lparr>unstakedShares = Fin 0, stakedShares = Fin 0, totalShares = Fin 0\<rparr> in
      if getAccountInfo (ve V) ata = None then Inr (hm_set acc (v_address v) none)
      else
        bindE (deref (v_state v)) (\<lambda>st.
          let unstaked = unstaked_in V st ata
          in Inr (hm_set acc (v_address v) (none\<lparr>unstakedShares := unstaked, totalShares := dadd (vnum V) unstaked (Fin 0)\<rparr>))))"

definition getUserSharesBalanceAllVaults :: "vault_env \<Rightarrow> pubkey \<Rightarrow> kamino_vault list \<Rightarrow> user_shares pubkey_hash_map result" where
  "getUserSharesBalanceAllVaults V user vaults =
     bindE (mapE (\<lambda>st. shares_ata V st user) (List.map_filter v_state vaults)) (\<lambda>atas.
       foldE (all_vaults_step V) hm_empty (zip vaults atas))"

end
