(* ===== verification/Vault_Config.thy ===== *)
theory Vault_Config
  imports Vault_Yields
begin

text \<open>
  Creating and configuring a vault (\<open>src/ts-client/src/classes/vault.ts\<close>): the value of a configuration field arrives as text, which is sent as a
  number, a key or a name; lookup tables are filled in chunks.
\<close>

section \<open>Numbers in text\<close>

text \<open>
  JavaScript reads a text as a number, \<open>+value\<close>, after trimming white space: the empty text is 0, a decimal literal may have a sign, a
  fraction and an exponent, and there are binary, octal and hexadecimal integers. \<open>BigInt\<close> takes the integers only.
\<close>

definition js_space :: "char \<Rightarrow> bool" where
  "js_space c \<longleftrightarrow> (of_char c :: nat) \<in> {9, 10, 11, 12, 13, 32, 160}"

definition js_trim :: "string \<Rightarrow> string" where
  "js_trim s = rev (dropWhile js_space (rev (dropWhile js_space s)))"

definition digit_value :: "char \<Rightarrow> nat option" where
  "digit_value c =
     (let n = of_char c :: nat
      in if 48 \<le> n \<and> n \<le> 57 then Some (n - 48) else if 97 \<le> n \<and> n \<le> 102 then Some (n - 87)
         else if 65 \<le> n \<and> n \<le> 70 then Some (n - 55) else None)"

definition is_digit :: "nat \<Rightarrow> char \<Rightarrow> bool" where
  "is_digit base c = (case digit_value c of None \<Rightarrow> False | Some d \<Rightarrow> d < base)"

definition digits :: "nat \<Rightarrow> string \<Rightarrow> bool" where
  "digits base s \<longleftrightarrow> s \<noteq> [] \<and> list_all (is_digit base) s"

definition digits_value :: "nat \<Rightarrow> string \<Rightarrow> int" where
  "digits_value base s = foldl (\<lambda>v c. v * int base + int (the (digit_value c))) 0 s"

fun unsigned_part :: "string \<Rightarrow> string" where
  "unsigned_part (c # s) = (if c = CHR ''+'' \<or> c = CHR ''-'' then s else c # s)"
| "unsigned_part [] = []"

definition mantissa_ok :: "string \<Rightarrow> bool" where
  "mantissa_ok m =
     (let whole = takeWhile (is_digit 10) m; rest = dropWhile (is_digit 10) m
      in case rest of
           [] \<Rightarrow> whole \<noteq> []
         | c # fraction \<Rightarrow> c = CHR ''.'' \<and> list_all (is_digit 10) fraction \<and> (whole \<noteq> [] \<or> fraction \<noteq> []))"

definition decimal_literal :: "string \<Rightarrow> bool" where
  "decimal_literal t \<longleftrightarrow>
     (let u = unsigned_part t; isExp = (\<lambda>c. c = CHR ''e'' \<or> c = CHR ''E'')
      in u = ''Infinity'' \<or>
         mantissa_ok (takeWhile (\<lambda>c. \<not> isExp c) u) \<and>
         (case dropWhile (\<lambda>c. \<not> isExp c) u of [] \<Rightarrow> True | _ # e \<Rightarrow> digits 10 (unsigned_part e)))"

fun radix_literal :: "string \<Rightarrow> (nat \<times> string) option" where
  "radix_literal (z # x # s) =
     (if z \<noteq> CHR ''0'' then None
      else
        let base = (if x = CHR ''x'' \<or> x = CHR ''X'' then 16 else if x = CHR ''o'' \<or> x = CHR ''O'' then 8
                    else if x = CHR ''b'' \<or> x = CHR ''B'' then 2 else 0)
        in if base \<noteq> 0 \<and> digits base s then Some (base, s) else None)"
| "radix_literal _ = None"

definition is_NaN_text :: "string \<Rightarrow> bool" where
  "is_NaN_text s = (let t = js_trim s in \<not> (t = [] \<or> decimal_literal t \<or> radix_literal t \<noteq> None))"

definition js_BigInt :: "string \<Rightarrow> int result" where
  "js_BigInt s =
     (let t = js_trim s
      in if t = [] then Inr 0
         else case radix_literal t of
                Some (base, d) \<Rightarrow> Inr (digits_value base d)
              | None \<Rightarrow>
                  if digits 10 (unsigned_part t)
                  then Inr ((if hd t = CHR ''-'' then - 1 else 1) * digits_value 10 (unsigned_part t))
                  else Inl (Throw ''Cannot convert to a BigInt''))"

section \<open>Names\<close>

text \<open>\<open>TextEncoder\<close> writes UTF-8.\<close>

definition utf8 :: "char \<Rightarrow> byte list" where
  "utf8 c = (let n = of_char c :: nat in if n < 128 then [of_nat n] else [of_nat (192 + n div 64), of_nat (128 + n mod 64)])"

definition encodeVaultName :: "string \<Rightarrow> byte list result" where
  "encodeVaultName token = buf_write (alloc 40) 0 (concat (map utf8 token))"

text \<open>
  \<open>TextDecoder\<close> reads UTF-8 into code points: a byte outside the range its position allows ends the sequence with the replacement
  character and is read again, and a byte order mark at the start is dropped. \<open>pending\<close> is the number of bytes a sequence still needs.
\<close>

function utf8_read :: "nat \<Rightarrow> nat \<Rightarrow> nat \<Rightarrow> nat \<Rightarrow> nat list \<Rightarrow> nat list" where
  "utf8_read pending lower upper point [] = (if pending = 0 then [] else [65533])"
| "utf8_read pending lower upper point (b # bs) =
     (if pending = 0 then
        if b < 128 then b # utf8_read 0 128 191 0 bs
        else if 194 \<le> b \<and> b \<le> 223 then utf8_read 1 128 191 (b - 192) bs
        else if 224 \<le> b \<and> b \<le> 239 then utf8_read 2 (if b = 224 then 160 else 128) (if b = 237 then 159 else 191) (b - 224) bs
        else if 240 \<le> b \<and> b \<le> 244 then utf8_read 3 (if b = 240 then 144 else 128) (if b = 244 then 143 else 191) (b - 240) bs
        else 65533 # utf8_read 0 128 191 0 bs
      else if b < lower \<or> upper < b then 65533 # utf8_read 0 128 191 0 (b # bs)
      else if pending = 1 then (point * 64 + (b - 128)) # utf8_read 0 128 191 0 bs
      else utf8_read (pending - 1) 128 191 (point * 64 + (b - 128)) bs)"
  by pat_completeness auto
termination by (relation "measure (\<lambda>(pending, lower, upper, point, bs). 2 * length bs + (if pending = 0 then 0 else 1))") auto

definition utf8_decode :: "byte list \<Rightarrow> nat list" where
  "utf8_decode bytes =
     (let bs = map unat bytes in utf8_read 0 128 191 0 (if take 3 bs = [239, 187, 191] then drop 3 bs else bs))"

definition decodeVaultName :: "byte list \<Rightarrow> nat list" where
  "decodeVaultName token = rev (dropWhile (\<lambda>c. c = 0 \<or> c = 32) (rev (utf8_decode token)))"

section \<open>Lookup tables\<close>

definition getAccountsInLUT :: "vault_env \<Rightarrow> pubkey \<Rightarrow> pubkey list result" where
  "getAccountsInLUT V table = need (getAddressLookupTable V table) ''Lookup table not found''"

definition initLookupTableIx :: "vault_env \<Rightarrow> pubkey \<Rightarrow> nat \<Rightarrow> instruction \<times> pubkey" where
  "initLookupTableIx V payer slot = createLookupTable (ve V) payer payer slot"

function chunks :: "nat \<Rightarrow> 'a list \<Rightarrow> 'a list list" where
  "chunks n xs = (if xs = [] \<or> n = 0 then [] else take n xs # chunks n (drop n xs))"
  by pat_completeness auto
termination by (relation "measure (\<lambda>(n, xs). length xs)") auto

declare chunks.simps [simp del]

definition extendLookupTableChunkIx :: "vault_env \<Rightarrow> pubkey \<Rightarrow> pubkey \<Rightarrow> pubkey list \<Rightarrow> pubkey \<Rightarrow> instruction" where
  "extendLookupTableChunkIx V wallet table keys payer =
     extendLookupTable V table wallet (if payer = default_pubkey then wallet else payer) keys"

definition extendLookupTableIxs :: "vault_env \<Rightarrow> pubkey \<Rightarrow> pubkey \<Rightarrow> pubkey list \<Rightarrow> pubkey \<Rightarrow> instruction list" where
  "extendLookupTableIxs V wallet table keys payer = map (\<lambda>c. extendLookupTableChunkIx V wallet table c payer) (chunks 25 keys)"

text \<open>The keys the table misses, without the default key, each once.\<close>

definition missing_accounts :: "pubkey list \<Rightarrow> pubkey list \<Rightarrow> pubkey list" where
  "missing_accounts contents keys =
     pks_toArray (pks_new (filter (\<lambda>k. \<not> pks_contains (pks_new contents) k \<and> k \<noteq> default_pubkey) keys))"

definition insertIntoLookupTableIxs :: "vault_env \<Rightarrow> pubkey \<Rightarrow> pubkey \<Rightarrow> pubkey list \<Rightarrow> pubkey list option \<Rightarrow> instruction list result" where
  "insertIntoLookupTableIxs V payer table keys accountsInLUT =
     bindE (case accountsInLUT of Some ks \<Rightarrow> Inr ks | None \<Rightarrow> getAccountsInLUT V table) (\<lambda>contents.
       Inr (map (extendLookupTable V table payer payer) (chunks 20 (missing_accounts contents keys))))"

definition getReserveAccountsToInsertInLut :: "reserve \<Rightarrow> pubkey list" where
  "getReserveAccountsToInsertInLut st =
     [r_lendingMarket st, farmCollateral st, farmDebt st, rl_mintPubkey (liquidity st), rl_supplyVault (liquidity st), feeVault (liquidity st),
      rcol_mintPubkey (collateral st), rcol_supplyVault (collateral st)]"

section \<open>Configuration fields\<close>

definition field_data :: "vault_env \<Rightarrow> vault_config_field \<Rightarrow> string \<Rightarrow> byte list result" where
  "field_data V mode value =
     (if is_NaN_text value then
        if mode = Name then encodeVaultName value
        else bindE (new_PublicKey V value) (\<lambda>k. Inr (key_bytes (sol (ve V)) k))
      else bindE (js_BigInt value) (\<lambda>n. write_le 8 n 0 (alloc 8)))"

text \<open>The reserves of the vault, writable, and their lending markets, after the accounts of an instruction.\<close>

definition vault_reserve_metas :: "vault_state \<Rightarrow> kamino_reserve pubkey_hash_map \<Rightarrow> account_meta list result" where
  "vault_reserve_metas st m =
     bindE (mapE (\<lambda>k. bindE (vault_reserve m k) (\<lambda>r. Inr (r_lendingMarket (r_state r)))) (getVaultReserves st)) (\<lambda>markets.
       Inr (map (\<lambda>k. meta k False True) (getVaultReserves st) @ map (\<lambda>k. meta k False False) markets))"

definition with_reserves :: "vault_state \<Rightarrow> kamino_reserve pubkey_hash_map \<Rightarrow> instruction \<Rightarrow> instruction result" where
  "with_reserves st m ix = bindE (vault_reserve_metas st m) (\<lambda>ms. Inr (ix\<lparr>ix_keys := ix_keys ix @ ms\<rparr>))"

record update_config_ixs =
  updateVaultConfigIx :: instruction
  uc_updateLUTIxs :: "instruction list"

text \<open>A farm that cannot be fetched, or a table that cannot be read, is logged and adds nothing.\<close>

definition farm_lut_ixs :: "vault_env \<Rightarrow> vault_state \<Rightarrow> pubkey \<Rightarrow> instruction list" where
  "farm_lut_ixs V st farm =
     (case fetchFarm V farm of
        None \<Rightarrow> []
      | Some f \<Rightarrow>
          (case insertIntoLookupTableIxs V (vaultAdminAuthority st) (vaultLookupTable st)
                  [farm, farmVault f, farmVaultsAuthority f, fs_tokenMint f, scopePrices f, fs_globalConfig f] None of
             Inl e \<Rightarrow> [] | Inr ixs \<Rightarrow> ixs))"

definition updateVaultConfigIxs ::
    "vault_env \<Rightarrow> vault_client \<Rightarrow> kamino_vault \<Rightarrow> vault_config_field \<Rightarrow> string \<Rightarrow> pubkey option \<Rightarrow> update_config_ixs result" where
  "updateVaultConfigIxs V C v mode value signer =
     bindE (getState V v) (\<lambda>st.
       let accounts = \<lparr>uvc_vaultAdminAuthority = (case signer of Some s \<Rightarrow> s | None \<Rightarrow> vaultAdminAuthority st),
                       uvc_vaultState = v_address v, uvc_klendProgram = lendProgramId C\<rparr> in
       bindE (field_data V mode value) (\<lambda>bytes.
       bindE (loadVaultReserves V C st) (\<lambda>m.
       bindE (vault_reserve_metas st m) (\<lambda>ms.
       bindE (updateVaultConfig (borsh (ve V)) mode bytes accounts (vaultProgramId C)) (\<lambda>ix.
       bindE (if mode = PendingVaultAdmin then
                bindE (new_PublicKey V value) (\<lambda>k. insertIntoLookupTableIxs V (vaultAdminAuthority st) (vaultLookupTable st) [k] None)
              else if mode = Farm then bindE (new_PublicKey V value) (\<lambda>k. Inr (farm_lut_ixs V st k))
              else Inr []) (\<lambda>lut.
         Inr \<lparr>updateVaultConfigIx = ix\<lparr>ix_keys := ix_keys ix @ ms\<rparr>, uc_updateLUTIxs = lut\<rparr>))))))"

definition setVaultFarmIxs :: "vault_env \<Rightarrow> vault_client \<Rightarrow> kamino_vault \<Rightarrow> pubkey \<Rightarrow> bool \<Rightarrow> update_config_ixs result" where
  "setVaultFarmIxs V C v farm errorOnOverride =
     bindE (hasFarm V v) (\<lambda>has.
       if has \<and> errorOnOverride then Inl (Throw ''Vault already has a farm, if you want to override it set errorOnOverride to false'')
       else updateVaultConfigIxs V C v Farm (toBase58 (sol (ve V)) farm) None)"

definition updateUninitialisedVaultConfigIx ::
    "vault_env \<Rightarrow> vault_client \<Rightarrow> pubkey \<Rightarrow> pubkey \<Rightarrow> vault_config_field \<Rightarrow> string \<Rightarrow> instruction result" where
  "updateUninitialisedVaultConfigIx V C admin vault mode value =
     bindE (field_data V mode value) (\<lambda>bytes.
       updateVaultConfig (borsh (ve V)) mode bytes
         \<lparr>uvc_vaultAdminAuthority = admin, uvc_vaultState = vault, uvc_klendProgram = lendProgramId C\<rparr> (vaultProgramId C))"

end
