(* ===== verification/Vault_Flows.thy ===== *)
theory Vault_Flows
  imports Vault_Config
begin

text \<open>
  The operations of the vault client (\<open>src/ts-client/src/classes/vault.ts\<close>) that build transactions: creating a vault, changing its allocation and
  owner, its fees, deposits, withdrawals, investing and the lookup table; with the wrapped-SOL account of \<open>src/ts-client/src/utils/ata.ts\<close> and the
  farms of \<open>src/ts-client/src/classes/farm_utils.ts\<close>. The keypair a new vault gets is an argument.
\<close>

section \<open>Accounts\<close>

definition getAccountOwner :: "vault_env \<Rightarrow> pubkey \<Rightarrow> pubkey result" where
  "getAccountOwner V k = bindE (need (getAccountInfo (ve V) k) ''Could not fetch mint'') (\<lambda>acc. Inr (ai_owner acc))"

definition getCTokenVaultPda :: "vault_env \<Rightarrow> pubkey \<Rightarrow> pubkey \<Rightarrow> pubkey \<Rightarrow> pubkey" where
  "getCTokenVaultPda V vault reserveAddr programId =
     find_pda (sol (ve V)) [seed_text ''ctoken_vault'', key_bytes (sol (ve V)) vault, key_bytes (sol (ve V)) reserveAddr] programId"

definition vault_pda :: "vault_env \<Rightarrow> vault_client \<Rightarrow> string \<Rightarrow> pubkey \<Rightarrow> pubkey" where
  "vault_pda V C seed vault = find_pda (sol (ve V)) [seed_text seed, key_bytes (sol (ve V)) vault] (vaultProgramId C)"

text \<open>\<open>createAtasIdempotent\<close> for one mint.\<close>

definition one_ata :: "vault_env \<Rightarrow> pubkey \<Rightarrow> pubkey \<Rightarrow> pubkey \<Rightarrow> pubkey \<times> instruction" where
  "one_ata V user mint tokenProgram = hd (createAtasIdempotent (ve V) user [(mint, tokenProgram)])"

text \<open>An account with data that is empty is asked for \<open>owner.eq\<close>, which a public key does not have.\<close>

definition isWsolInfoInvalid :: "vault_env \<Rightarrow> pubkey \<Rightarrow> bool result" where
  "isWsolInfoInvalid V ata =
     (case getAccountInfo (ve V) ata of
        None \<Rightarrow> Inr True
      | Some acc \<Rightarrow> if accountDataEmpty V ata then Inl TypeError else Inr False)"

record wsol_ata_ixs =
  wsolAta :: pubkey
  wa_createAtaIxs :: "instruction list"
  wa_closeAtaIxs :: "instruction list"

definition wrap_ixs :: "vault_env \<Rightarrow> pubkey \<Rightarrow> pubkey \<Rightarrow> decimal \<Rightarrow> decimal \<Rightarrow> instruction list result" where
  "wrap_ixs V owner ata amount existing =
     (if xgt amount existing then
        case dfloor (dsub (vnum V) amount existing) of
          Fin q \<Rightarrow> if \<bar>q\<bar> < 10 ^ 21 then Inr [sys_transfer (ve V) owner ata (Fin q)] else Inl (Throw ''Cannot convert to a BigInt'')
        | _ \<Rightarrow> Inl (Throw ''Cannot convert to a BigInt'')
      else Inr [])"

definition createWsolAtaIfMissing :: "vault_env \<Rightarrow> decimal \<Rightarrow> pubkey \<Rightarrow> wsol_ata_ixs result" where
  "createWsolAtaIfMissing V amount owner =
     (let E = ve V; S = sol E in
      bindE (getAssociatedTokenAddressSync (lv V) (NATIVE_MINT S) owner True (TOKEN_PROGRAM_ID S)) (\<lambda>ata.
      bindE (isWsolInfoInvalid V ata) (\<lambda>invalid.
        let create = (if invalid then [createAssociatedTokenAccountInstruction V owner ata owner (NATIVE_MINT S) (TOKEN_PROGRAM_ID S)] else []);
            existing = (if getAccountInfo E ata \<noteq> None
                        then collToLamportsDecimal (lv V)
                               (dec_of_num (num_of_dec (getTokenAccountBalanceDecimal (lv V) (NATIVE_MINT S) owner))) 9
                        else Fin 0) in
        bindE (wrap_ixs V owner ata amount existing) (\<lambda>wrap.
          let ixs = create @ wrap;
              sync = (if ixs \<noteq> [] then [\<lparr>ix_keys = [meta ata False True], ix_programId = TOKEN_PROGRAM_ID S, ix_data = [17]\<rparr>] else [])
          in Inr \<lparr>wsolAta = ata, wa_createAtaIxs = ixs @ sync,
                  wa_closeAtaIxs = [createCloseAccountInstruction E ata owner owner (TOKEN_PROGRAM_ID S)]\<rparr>))))"

section \<open>Creating a vault\<close>

record vault_config =
  vcf_admin :: pubkey
  vcf_tokenMint :: pubkey
  vcf_tokenMintProgramId :: pubkey
  performanceFeeRatePercentage :: decimal
  managementFeeRatePercentage :: decimal
  vcf_name :: string

definition getPerformanceFeeBps :: "num_lib \<Rightarrow> vault_config \<Rightarrow> number" where
  "getPerformanceFeeBps L cfg = num_of_dec (dmul L (performanceFeeRatePercentage cfg) (Fin 100))"

definition getManagementFeeBps :: "num_lib \<Rightarrow> vault_config \<Rightarrow> number" where
  "getManagementFeeBps L cfg = num_of_dec (dmul L (managementFeeRatePercentage cfg) (Fin 100))"

text \<open>
  \<open>Number.toString\<close>: a natural number below \<open>10\<^sup>2\<^sup>1\<close> is its digits. Every other positive number has a point, an exponent or is \<open>Infinity\<close>, which is a number but no
  \<open>BigInt\<close>.
\<close>

fun nat_text :: "nat \<Rightarrow> string" where
  "nat_text n = (if n < 10 then [char_of (48 + n)] else nat_text (n div 10) @ [char_of (48 + n mod 10)])"

declare nat_text.simps [simp del]

definition fee_config_ix :: "vault_env \<Rightarrow> vault_client \<Rightarrow> pubkey \<Rightarrow> pubkey \<Rightarrow> vault_config_field \<Rightarrow> number \<Rightarrow> instruction list result" where
  "fee_config_ix V C admin vault mode bps =
     (if xgt bps (Fin 0) then
        case bps of
          Fin q \<Rightarrow>
            if of_int \<lfloor>q\<rfloor> = q \<and> q < 10 ^ 21
            then bindE (updateUninitialisedVaultConfigIx V C admin vault mode (nat_text (nat \<lfloor>q\<rfloor>))) (\<lambda>ix. Inr [ix])
            else Inl (Throw ''Cannot convert to a BigInt'')
        | _ \<Rightarrow> Inl (Throw ''Cannot convert to a BigInt'')
      else Inr [])"

definition VaultState_size :: nat where "VaultState_size = 62544 + 8"

definition VAULT_INITIAL_DEPOSIT :: decimal where "VAULT_INITIAL_DEPOSIT = Fin 1000"

record init_vault_ixs =
  createAtaIfNeededIxs :: "instruction list"
  iv_initVaultIxs :: "instruction list"
  createLUTIx :: instruction
  populateLUTIxs :: "instruction list"
  iv_cleanupIxs :: "instruction list"

definition admin_token_account :: "vault_env \<Rightarrow> vault_config \<Rightarrow> (pubkey \<times> instruction list \<times> instruction list) result" where
  "admin_token_account V cfg =
     (if vcf_tokenMint cfg = NATIVE_MINT (sol (ve V)) then
        bindE (createWsolAtaIfMissing V VAULT_INITIAL_DEPOSIT (vcf_admin cfg)) (\<lambda>w. Inr (wsolAta w, wa_createAtaIxs w, wa_closeAtaIxs w))
      else
        bindE (getAssociatedTokenAddressSync (lv V) (vcf_tokenMint cfg) (vcf_admin cfg) False (vcf_tokenMintProgramId cfg)) (\<lambda>ata.
          Inr (ata, [], [])))"

definition createVaultIxs :: "vault_env \<Rightarrow> vault_client \<Rightarrow> vault_config \<Rightarrow> pubkey \<Rightarrow> init_vault_ixs result" where
  "createVaultIxs V C cfg vault =
     (let E = ve V; S = sol E; L = num E; admin = vcf_admin cfg;
          createVaultIx = sys_createAccount V admin vault (getMinimumBalanceForRentExemption E VaultState_size) VaultState_size (vaultProgramId C);
          tokenVault = vault_pda V C ''token_vault'' vault;
          authority = vault_pda V C ''authority'' vault;
          sharesMint = vault_pda V C ''shares'' vault in
      bindE (admin_token_account V cfg) (\<lambda>(adminTokenAccount, prerequisiteIxs, cleanup).
        let initVaultIx = initVault
              \<lparr>ivt_adminAuthority = admin, ivt_vaultState = vault, ivt_baseVaultAuthority = authority, ivt_tokenVault = tokenVault,
               ivt_baseTokenMint = vcf_tokenMint cfg, ivt_sharesMint = sharesMint, ivt_adminTokenAccount = adminTokenAccount,
               ivt_systemProgram = SYSTEM_PROGRAM_ID S, ivt_rent = SYSVAR_RENT_PUBKEY S, ivt_tokenProgram = vcf_tokenMintProgramId cfg,
               ivt_sharesTokenProgram = TOKEN_PROGRAM_ID S\<rparr> (vaultProgramId C);
            (lutIx, lut) = initLookupTableIx V admin (getSlot E);
            keys = [admin, vault, vcf_tokenMint cfg, vcf_tokenMintProgramId cfg, authority, sharesMint, SYSTEM_PROGRAM_ID S, SYSVAR_RENT_PUBKEY S,
                    TOKEN_PROGRAM_ID S, lendProgramId C, SYSVAR_INSTRUCTIONS_PUBKEY S] in
        bindE (insertIntoLookupTableIxs V admin lut keys (Some [])) (\<lambda>populate.
        bindE (updateUninitialisedVaultConfigIx V C admin vault LookupTable (toBase58 S lut)) (\<lambda>setLUTIx.
        bindE (fee_config_ix V C admin vault PerformanceFeeBps (getPerformanceFeeBps L cfg)) (\<lambda>performanceIxs.
        bindE (fee_config_ix V C admin vault ManagementFeeBps (getManagementFeeBps L cfg)) (\<lambda>managementIxs.
        bindE (if vcf_name cfg \<noteq> [] then bindE (updateUninitialisedVaultConfigIx V C admin vault Name (vcf_name cfg)) (\<lambda>ix. Inr [ix])
               else Inr []) (\<lambda>nameIxs.
          Inr \<lparr>createAtaIfNeededIxs = prerequisiteIxs,
               iv_initVaultIxs = [createVaultIx, initVaultIx, setLUTIx] @ performanceIxs @ managementIxs @ nameIxs,
               createLUTIx = lutIx, populateLUTIxs = populate, iv_cleanupIxs = cleanup\<rparr>)))))))"

section \<open>Allocation and ownership\<close>

record allocation_config =
  rac_address :: pubkey
  rac_state :: reserve
  rac_targetAllocationWeight :: int
  allocationCapDecimal :: decimal

definition getAllocationCapLamports :: "num_lib \<Rightarrow> allocation_config \<Rightarrow> decimal result" where
  "getAllocationCapLamports L c =
     bindE (mint_decimals L (rac_state c)) (\<lambda>n. Inr (numberToLamportsDecimal L (allocationCapDecimal c) n))"

record update_allocation_ixs =
  updateReserveAllocationIx :: instruction
  ua_updateLUTIxs :: "instruction list"

text \<open>\<open>new BN(weight)\<close> takes integers below \<open>2\<^sup>5\<^sup>3\<close>.\<close>

definition updateReserveAllocationIxs :: "vault_env \<Rightarrow> vault_client \<Rightarrow> kamino_vault \<Rightarrow> allocation_config \<Rightarrow> update_allocation_ixs result" where
  "updateReserveAllocationIxs V C v c =
     (let S = sol (ve V); L = vnum V; st = rac_state c; ctokens = getCTokenVaultPda V (v_address v) (rac_address c) (vaultProgramId C) in
      bindE (getState V v) (\<lambda>vs.
      bindE (if \<bar>rac_targetAllocationWeight c\<bar> < 2 ^ 53 then Inr (rac_targetAllocationWeight c) else Inl BNError) (\<lambda>weight.
      bindE (getAllocationCapLamports L c) (\<lambda>cap.
      bindE (bn_of_dec L (dfloor cap)) (\<lambda>capBN.
      bindE (updateReserveAllocation (borsh (ve V)) weight capBN
               \<lparr>ura_signer = vaultAdminAuthority vs, ura_vaultState = v_address v, ura_baseVaultAuthority = baseVaultAuthority vs,
                ura_reserveCollateralMint = rcol_mintPubkey (collateral st), ura_reserve = rac_address c, ura_ctokenVault = ctokens,
                ura_reserveCollateralTokenProgram = TOKEN_PROGRAM_ID S, ura_systemProgram = SYSTEM_PROGRAM_ID S,
                ura_rent = SYSVAR_RENT_PUBKEY S\<rparr> (vaultProgramId C)) (\<lambda>ix.
      bindE (insertIntoLookupTableIxs V (vaultAdminAuthority vs) (vaultLookupTable vs)
               ([rac_address c, ctokens] @ getReserveAccountsToInsertInLut st @ [lendingMarketAuthPda S (r_lendingMarket st) (lendProgramId C)])
               None) (\<lambda>lut.
        Inr \<lparr>updateReserveAllocationIx = ix, ua_updateLUTIxs = lut\<rparr>)))))))"

text \<open>The instruction goes to the default program, not to the one of the client.\<close>

definition removeReserveFromAllocationIx :: "vault_env \<Rightarrow> pubkey \<Rightarrow> kamino_vault \<Rightarrow> pubkey \<Rightarrow> instruction option result" where
  "removeReserveFromAllocationIx V PROGRAM_ID v k =
     bindE (getState V v) (\<lambda>st.
       Inr (if list_ex (\<lambda>a. va_reserve a = k) (vaultAllocationStrategy st)
            then Some (removeAllocation
                   \<lparr>rma_vaultAdminAuthority = vaultAdminAuthority st, rma_vaultState = v_address v, rma_reserve = k\<rparr> PROGRAM_ID)
            else None))"

record accept_ownership_ixs =
  acceptVaultOwnershipIx :: instruction
  initNewLUTIx :: instruction
  ao_updateLUTIxs :: "instruction list"

definition acceptVaultOwnershipIxs :: "vault_env \<Rightarrow> vault_client \<Rightarrow> kamino_vault \<Rightarrow> accept_ownership_ixs result" where
  "acceptVaultOwnershipIxs V C v =
     bindE (getState V v) (\<lambda>st.
       let newAdmin = vs_pendingAdmin st;
           ix = updateAdmin \<lparr>uad_pendingAdmin = newAdmin, uad_vaultState = v_address v\<rparr> (vaultProgramId C) in
       bindE (getAccountsInLUT V (vaultLookupTable st)) (\<lambda>existing.
         let (newIx, newLUT) = initLookupTableIx V newAdmin (getSlot (ve V)) in
         bindE (insertIntoLookupTableIxs V newAdmin newLUT (filter (\<lambda>k. k \<noteq> vaultAdminAuthority st) existing) (Some [])) (\<lambda>insertIxs.
         bindE (updateVaultConfigIxs V C v LookupTable (toBase58 (sol (ve V)) newLUT) (Some newAdmin)) (\<lambda>upd.
           Inr \<lparr>acceptVaultOwnershipIx = ix, initNewLUTIx = newIx,
                ao_updateLUTIxs = insertIxs @ [updateVaultConfigIx upd] @ uc_updateLUTIxs upd\<rparr>))))"

section \<open>Fees\<close>

definition giveUpPendingFeesIx :: "vault_env \<Rightarrow> vault_client \<Rightarrow> kamino_vault \<Rightarrow> decimal \<Rightarrow> instruction result" where
  "giveUpPendingFeesIx V C v maxAmountToGiveUp =
     bindE (getState V v) (\<lambda>st.
     bindE (token_decimals V st) (\<lambda>n.
     bindE (bn_of_dec (vnum V) (numberToLamportsDecimal (vnum V) maxAmountToGiveUp n)) (\<lambda>amount.
       giveUpPendingFees (borsh (ve V)) amount
         \<lparr>gup_vaultAdminAuthority = vaultAdminAuthority st, gup_vaultState = v_address v, gup_klendProgram = lendProgramId C\<rparr>
         (vaultProgramId C))))"

definition withdrawPendingFeesIx ::
    "vault_env \<Rightarrow> vault_client \<Rightarrow> kamino_vault \<Rightarrow> vault_state \<Rightarrow> pubkey \<times> reserve \<Rightarrow> pubkey \<Rightarrow> instruction result" where
  "withdrawPendingFeesIx V C v st r adminTokenAta =
     (let S = sol (ve V); market = r_lendingMarket (snd r);
          ix = withdrawPendingFees
            \<lparr>wpe_vaultAdminAuthority = vaultAdminAuthority st, wpe_vaultState = v_address v, wpe_reserve = fst r,
             wpe_tokenVault = vs_tokenVault st, wpe_ctokenVault = getCTokenVaultPda V (v_address v) (fst r) (vaultProgramId C),
             wpe_baseVaultAuthority = baseVaultAuthority st, wpe_tokenAta = adminTokenAta, wpe_tokenMint = vs_tokenMint st,
             wpe_lendingMarket = market, wpe_lendingMarketAuthority = lendingMarketAuthPda S market (lendProgramId C),
             wpe_reserveLiquiditySupply = rl_supplyVault (liquidity (snd r)), wpe_reserveCollateralMint = rcol_mintPubkey (collateral (snd r)),
             wpe_klendProgram = lendProgramId C, wpe_tokenProgram = TOKEN_PROGRAM_ID S, wpe_reserveCollateralTokenProgram = TOKEN_PROGRAM_ID S,
             wpe_instructionSysvarAccount = SYSVAR_INSTRUCTIONS_PUBKEY S\<rparr> (vaultProgramId C) in
      bindE (loadVaultReserves V C st) (\<lambda>m. with_reserves st m ix))"

text \<open>
  Sorting by decreasing amount with a comparator that subtracts: the sort of JavaScript is stable.
\<close>

fun insert_desc :: "'a \<times> decimal \<Rightarrow> ('a \<times> decimal) list \<Rightarrow> ('a \<times> decimal) list" where
  "insert_desc p [] = [p]"
| "insert_desc p (q # qs) = (if xgt (snd q) (snd p) then q # insert_desc p qs else p # q # qs)"

definition sort_desc :: "('a \<times> decimal) list \<Rightarrow> ('a \<times> decimal) list" where
  "sort_desc ps = foldr insert_desc ps []"

definition fees_step :: "num_lib \<Rightarrow> decimal \<times> pubkey list \<Rightarrow> pubkey \<times> decimal \<Rightarrow> decimal \<times> pubkey list" where
  "fees_step L s p = (if xgt (fst s) (Fin 0) then (dsub L (fst s) (snd p), snd s @ [fst p]) else s)"

definition fee_reserves ::
    "vault_env \<Rightarrow> kamino_vault \<Rightarrow> vault_state \<Rightarrow> nat \<Rightarrow> kamino_reserve pubkey_hash_map \<Rightarrow> pubkey list result" where
  "fee_reserves V v st slot m =
     (let L = vnum V; left = dsub L (sf_dec L (pendingFeesSf st)) (dint (uint (tokenAvailable st))) in
      if xle left (Fin 0) then bindE (deref (arr_get (vaultAllocationStrategy st) 0)) (\<lambda>a. Inr [va_reserve a])
      else
        bindE (getReserveAllocationAvailableLiquidityToWithdraw V v slot m) (\<lambda>available.
          Inr (snd (foldl (fees_step L) (left, []) (hm_entries (hm_new (sort_desc (hm_entries available))))))))"

definition withdrawPendingFeesIxs ::
    "vault_env \<Rightarrow> vault_client \<Rightarrow> kamino_vault \<Rightarrow> nat \<Rightarrow> kamino_reserve pubkey_hash_map option \<Rightarrow> instruction list result" where
  "withdrawPendingFeesIxs V C v slot vaultReserves =
     bindE (getState V v) (\<lambda>st.
     bindE (reserves_or_load V C st vaultReserves) (\<lambda>m.
       let (ata, createIx) = one_ata V (vaultAdminAuthority st) (vs_tokenMint st) (TOKEN_PROGRAM_ID (sol (ve V))) in
       bindE (fee_reserves V v st slot m) (\<lambda>ks.
       bindE (mapE (\<lambda>k. bindE (need (fetchReserve V k) ''Reserve not found'') (\<lambda>r. withdrawPendingFeesIx V C v st (k, r) ata)) ks) (\<lambda>ixs.
         Inr (createIx # ixs)))))"

end
