(* ===== verification/Vault_Moves.thy ===== *)
theory Vault_Moves
  imports Vault_Flows
begin

text \<open>
  Moving tokens of a vault (\<open>src/ts-client/src/classes/vault.ts\<close>): deposits and staking, withdrawals from the available tokens and from
  the reserves, investing and the contents of the lookup table. The staking of shares is \<open>src/ts-client/src/classes/farm_utils.ts\<close>.
\<close>

section \<open>Farms\<close>

definition farm_or_fetch :: "vault_env \<Rightarrow> pubkey \<Rightarrow> farm_state option \<Rightarrow> farm_state result" where
  "farm_or_fetch V farm given = (case given of Some f \<Rightarrow> Inr f | None \<Rightarrow> need (fetchFarm V farm) ''Farm state not found'')"

definition scope_prices_arg :: "vault_env \<Rightarrow> farm_state \<Rightarrow> pubkey" where
  "scope_prices_arg V f = (if scopePrices f = default_pubkey then farmsId (sol (ve V)) else scopePrices f)"

definition getFarmStakeIxs :: "vault_env \<Rightarrow> pubkey \<Rightarrow> decimal \<Rightarrow> pubkey \<Rightarrow> farm_state option \<Rightarrow> instruction list result" where
  "getFarmStakeIxs V user lamportsToStake farm given =
     bindE (farm_or_fetch V farm given) (\<lambda>f.
       let create = (if getAccountInfo (ve V) (getUserStatePDA V (farmsId (sol (ve V))) farm user) = None then [createNewUserIx V user farm] else [])
       in Inr (create @ [stakeIx V user farm lamportsToStake (fs_tokenMint f) (scope_prices_arg V f)]))"

definition getFarmUnstakeIx :: "vault_env \<Rightarrow> pubkey \<Rightarrow> decimal \<Rightarrow> pubkey \<Rightarrow> farm_state option \<Rightarrow> instruction result" where
  "getFarmUnstakeIx V user lamportsToUnstake farm given =
     bindE (farm_or_fetch V farm given) (\<lambda>f.
       Inr (unstakeIx V user farm (dmul (vnum V) lamportsToUnstake (WAD V)) (scope_prices_arg V f)))"

definition getFarmWithdrawUnstakedDepositIx :: "vault_env \<Rightarrow> pubkey \<Rightarrow> pubkey \<Rightarrow> pubkey \<Rightarrow> instruction" where
  "getFarmWithdrawUnstakedDepositIx V user farm stakeTokenMint =
     withdrawUnstakedDepositIx V user (getUserStatePDA V (farmsId (sol (ve V))) farm user) farm stakeTokenMint"

definition getFarmUnstakeAndWithdrawIxs ::
    "vault_env \<Rightarrow> pubkey \<Rightarrow> decimal \<Rightarrow> pubkey \<Rightarrow> farm_state option \<Rightarrow> (instruction \<times> instruction) result" where
  "getFarmUnstakeAndWithdrawIxs V user lamportsToUnstake farm given =
     bindE (farm_or_fetch V farm given) (\<lambda>f.
     bindE (getFarmUnstakeIx V user lamportsToUnstake farm (Some f)) (\<lambda>unstake.
       Inr (unstake, getFarmWithdrawUnstakedDepositIx V user farm (fs_tokenMint f))))"

section \<open>Deposits\<close>

text \<open>The promise of \<open>hasFarm\<close> is not awaited: it is never false, so a vault without a farm goes on to the default farm key.\<close>

definition stakeSharesIxs :: "vault_env \<Rightarrow> pubkey \<Rightarrow> kamino_vault \<Rightarrow> decimal option \<Rightarrow> farm_state option \<Rightarrow> instruction list result" where
  "stakeSharesIxs V user v sharesAmount farm =
     bindE (getState V v) (\<lambda>st.
     bindE (case sharesAmount of
              Some amount \<Rightarrow> bindE (shares_decimals V st) (\<lambda>n. Inr (numberToLamportsDecimal (vnum V) amount n))
            | None \<Rightarrow> Inr (dint U64_MAX)) (\<lambda>lamports.
       if xle lamports (Fin 0) then Inr [] else getFarmStakeIxs V user lamports (vaultFarm st) farm))"

record deposit_ixs =
  dx_depositIxs :: "instruction list"
  stakeInFarmIfNeededIxs :: "instruction list"

definition wrap_deposit_ixs :: "vault_env \<Rightarrow> vault_state \<Rightarrow> pubkey \<Rightarrow> decimal \<Rightarrow> instruction list result" where
  "wrap_deposit_ixs V st user tokenAmount =
     (if vs_tokenMint st = NATIVE_MINT (sol (ve V)) then
        let (wsol, createIx) = one_ata V user (NATIVE_MINT (sol (ve V))) (TOKEN_PROGRAM_ID (sol (ve V))) in
        bindE (token_decimals V st) (\<lambda>n.
          Inr (createIx # getTransferWsolIxns (ve V) user wsol (dceil (numberToLamportsDecimal (vnum V) tokenAmount n))))
      else Inr [])"

definition depositIxs ::
    "vault_env \<Rightarrow> vault_client \<Rightarrow> pubkey \<Rightarrow> kamino_vault \<Rightarrow> decimal \<Rightarrow> kamino_reserve pubkey_hash_map option \<Rightarrow> farm_state option \<Rightarrow>
     deposit_ixs result" where
  "depositIxs V C user v tokenAmount vaultReserves farm =
     (let E = ve V; S = sol E in
      bindE (getState V v) (\<lambda>st.
      bindE (wrap_deposit_ixs V st user tokenAmount) (\<lambda>wrapIxs.
        let (sharesAta, createSharesIx) = one_ata V user (vs_sharesMint st) (TOKEN_PROGRAM_ID S) in
        bindE (token_decimals V st) (\<lambda>n.
        bindE (bn_of_dec (num E) (numberToLamportsDecimal (num E) tokenAmount n)) (\<lambda>amount.
        bindE (deposit (borsh E) amount
                 \<lparr>dpt_user = user, dpt_vaultState = v_address v, dpt_tokenVault = vs_tokenVault st, dpt_tokenMint = vs_tokenMint st,
                  dpt_baseVaultAuthority = baseVaultAuthority st, dpt_sharesMint = vs_sharesMint st,
                  dpt_userTokenAta = ata_address S (vs_tokenMint st) user (vs_tokenProgram st), dpt_userSharesAta = sharesAta,
                  dpt_klendProgram = lendProgramId C, dpt_tokenProgram = vs_tokenProgram st, dpt_sharesTokenProgram = TOKEN_PROGRAM_ID S\<rparr>
                 (vaultProgramId C)) (\<lambda>ix.
        bindE (reserves_or_load V C st vaultReserves) (\<lambda>m.
        bindE (with_reserves st m ix) (\<lambda>depositIx.
        bindE (hasFarm V v) (\<lambda>has.
        bindE (if has then stakeSharesIxs V user v None farm else Inr []) (\<lambda>stake.
          Inr \<lparr>dx_depositIxs = wrapIxs @ [createSharesIx, depositIx], stakeInFarmIfNeededIxs = stake\<rparr>))))))))))"

section \<open>Withdrawals\<close>

definition available_accounts :: "vault_env \<Rightarrow> vault_client \<Rightarrow> pubkey \<Rightarrow> kamino_vault \<Rightarrow> vault_state \<Rightarrow> pubkey \<Rightarrow> pubkey \<Rightarrow> withdraw_from_available_accounts" where
  "available_accounts V C user v st userSharesAta userTokenAta =
     \<lparr>wfa_user = user, wfa_vaultState = v_address v, wfa_tokenVault = vs_tokenVault st, wfa_baseVaultAuthority = baseVaultAuthority st,
      wfa_userTokenAta = userTokenAta, wfa_tokenMint = vs_tokenMint st, wfa_userSharesAta = userSharesAta, wfa_sharesMint = vs_sharesMint st,
      wfa_tokenProgram = vs_tokenProgram st, wfa_sharesTokenProgram = TOKEN_PROGRAM_ID (sol (ve V)), wfa_klendProgram = lendProgramId C\<rparr>"

definition withdrawFromAvailableIx ::
    "vault_env \<Rightarrow> vault_client \<Rightarrow> pubkey \<Rightarrow> kamino_vault \<Rightarrow> vault_state \<Rightarrow> pubkey \<Rightarrow> pubkey \<Rightarrow> decimal \<Rightarrow> instruction result" where
  "withdrawFromAvailableIx V C user v st userSharesAta userTokenAta shareAmountLamports =
     bindE (bn_of_dec (vnum V) shareAmountLamports) (\<lambda>shares.
       withdrawFromAvailable (borsh (ve V)) shares (available_accounts V C user v st userSharesAta userTokenAta) (vaultProgramId C))"

definition withdrawFromAvailableIxns :: "vault_env \<Rightarrow> vault_client \<Rightarrow> pubkey \<Rightarrow> kamino_vault \<Rightarrow> decimal \<Rightarrow> instruction list result" where
  "withdrawFromAvailableIxns V C user v shareAmount =
     bindE (getState V v) (\<lambda>st.
       let (tokenAta, createIx) = one_ata V user (vs_tokenMint st) (vs_tokenProgram st) in
       bindE (shares_decimals V st) (\<lambda>n.
       bindE (withdrawFromAvailableIx V C user v st (ata_address (sol (ve V)) (vs_sharesMint st) user (TOKEN_PROGRAM_ID (sol (ve V)))) tokenAta
                (collToLamportsDecimal (lv V) shareAmount n)) (\<lambda>ix.
         Inr [createIx, ix])))"

definition withdrawIx ::
    "vault_env \<Rightarrow> vault_client \<Rightarrow> pubkey \<Rightarrow> kamino_vault \<Rightarrow> vault_state \<Rightarrow> pubkey \<times> reserve \<Rightarrow> pubkey \<Rightarrow> pubkey \<Rightarrow> decimal \<Rightarrow>
     kamino_reserve pubkey_hash_map \<Rightarrow> instruction result" where
  "withdrawIx V C user v st r userSharesAta userTokenAta shareAmountLamports m =
     (let S = sol (ve V); market = r_lendingMarket (snd r) in
      bindE (bn_of_dec (vnum V) shareAmountLamports) (\<lambda>shares.
      bindE (withdraw (borsh (ve V)) shares
               \<lparr>wdr_withdrawFromAvailable = available_accounts V C user v st userSharesAta userTokenAta,
                wdr_withdrawFromReserveAccounts =
                  \<lparr>wdr_w_vaultState = v_address v, wdr_w_reserve = fst r,
                   wdr_w_ctokenVault = getCTokenVaultPda V (v_address v) (fst r) (vaultProgramId C), wdr_w_lendingMarket = market,
                   wdr_w_lendingMarketAuthority = lendingMarketAuthPda S market (lendProgramId C),
                   wdr_w_reserveLiquiditySupply = rl_supplyVault (liquidity (snd r)),
                   wdr_w_reserveCollateralMint = rcol_mintPubkey (collateral (snd r)), wdr_w_reserveCollateralTokenProgram = TOKEN_PROGRAM_ID S,
                   wdr_w_instructionSysvarAccount = SYSVAR_INSTRUCTIONS_PUBKEY S\<rparr>\<rparr> (vaultProgramId C)) (\<lambda>ix.
        with_reserves st m ix)))"

record withdraw_plan =
  wp_left :: decimal
  isFirstWithdraw :: bool
  wp_shares :: "(pubkey \<times> decimal) list"

definition plan_step :: "num_lib \<Rightarrow> decimal \<Rightarrow> decimal \<Rightarrow> withdraw_plan \<Rightarrow> pubkey \<times> decimal \<Rightarrow> withdraw_plan" where
  "plan_step L sharesPerToken availableTokens s p =
     (if xgt (wp_left s) (Fin 0) then
        let wanted = xmin (wp_left s) (snd p);
            tokens = (if isFirstWithdraw s then dadd L wanted availableTokens else wanted)
        in \<lparr>wp_left = dsub L (wp_left s) tokens, isFirstWithdraw = False,
            wp_shares = wp_shares s @ [(fst p, dceil (dmul L tokens sharesPerToken))]\<rparr>
      else s)"

definition reserve_plan :: "num_lib \<Rightarrow> decimal \<Rightarrow> decimal \<Rightarrow> decimal \<Rightarrow> (pubkey \<times> decimal) list \<Rightarrow> (pubkey \<times> decimal) list" where
  "reserve_plan L shareLamports tokensPerShare availableTokens liquidities =
     (let left = dsub L (dmul L shareLamports tokensPerShare) availableTokens
      in wp_shares (foldl (plan_step L (ddiv L (Fin 1) tokensPerShare) availableTokens)
           \<lparr>wp_left = left, isFirstWithdraw = True, wp_shares = []\<rparr> (sort_desc liquidities)))"

definition withdraw_amounts ::
    "vault_env \<Rightarrow> kamino_vault \<Rightarrow> vault_state \<Rightarrow> decimal \<Rightarrow> decimal \<Rightarrow> nat \<Rightarrow> kamino_reserve pubkey_hash_map \<Rightarrow> (pubkey \<times> decimal) list result" where
  "withdraw_amounts V v st shareLamports tokensPerShare slot m =
     (let L = vnum V; availableTokens = dint (uint (tokenAvailable st)) in
      if xle (dsub L (dmul L shareLamports tokensPerShare) availableTokens) (Fin 0)
      then bindE (deref (arr_get (vaultAllocationStrategy st) 0)) (\<lambda>a. Inr [(va_reserve a, shareLamports)])
      else
        bindE (getReserveAllocationAvailableLiquidityToWithdraw V v slot m) (\<lambda>available.
          Inr (reserve_plan L shareLamports tokensPerShare availableTokens (hm_entries available))))"

text \<open>Only the last instruction carries the computed shares; the others carry the amount the caller gave, in tokens.\<close>

definition shares_to_send :: "decimal \<Rightarrow> (pubkey \<times> decimal) list \<Rightarrow> (pubkey \<times> decimal) list" where
  "shares_to_send shareAmount ps =
     (if ps = [] then [] else map (\<lambda>(k, _). (k, shareAmount)) (butlast ps) @ [last ps])"

definition wihdrdrawWithReserveIxns ::
    "vault_env \<Rightarrow> vault_client \<Rightarrow> pubkey \<Rightarrow> kamino_vault \<Rightarrow> decimal \<Rightarrow> nat \<Rightarrow> kamino_reserve pubkey_hash_map option \<Rightarrow> instruction list result" where
  "wihdrdrawWithReserveIxns V C user v shareAmount slot vaultReserves =
     bindE (getState V v) (\<lambda>st.
     bindE (reserves_or_load V C st vaultReserves) (\<lambda>m.
       let (tokenAta, createIx) = one_ata V user (vs_tokenMint st) (vs_tokenProgram st);
           sharesAta = ata_address (sol (ve V)) (vs_sharesMint st) user (TOKEN_PROGRAM_ID (sol (ve V))) in
       bindE (shares_decimals V st) (\<lambda>n.
       bindE (getTokensPerShareSingleVault V C v (Some slot) None None) (\<lambda>tokensPerShare.
       bindE (withdraw_amounts V v st (collToLamportsDecimal (lv V) shareAmount n) tokensPerShare slot m) (\<lambda>ps.
       bindE (mapE (\<lambda>(k, shares).
                bindE (need (hm_get m k) ''Reserve not found in vault reserves map'') (\<lambda>r.
                  withdrawIx V C user v st (k, r_state r) sharesAta tokenAta shares m)) (shares_to_send shareAmount ps)) (\<lambda>ixs.
         Inr (createIx # ixs)))))))"

record withdraw_ixs =
  unstakeFromFarmIfNeededIxs :: "instruction list"
  wx_withdrawIxs :: "instruction list"

definition withdrawIxs ::
    "vault_env \<Rightarrow> vault_client \<Rightarrow> pubkey \<Rightarrow> kamino_vault \<Rightarrow> decimal \<Rightarrow> nat \<Rightarrow> kamino_reserve pubkey_hash_map option \<Rightarrow> farm_state option \<Rightarrow>
     withdraw_ixs result" where
  "withdrawIxs V C user v shareAmount slot vaultReserves farm =
     bindE (getState V v) (\<lambda>st.
       let kaminoVault = \<lparr>v_address = v_address v, v_state = Some st, v_programId = v_programId v\<rparr> in
       bindE (shares_decimals V st) (\<lambda>n.
       bindE (hasFarm V v) (\<lambda>has.
       bindE (if has then
                bindE (getFarmUnstakeAndWithdrawIxs V user (collToLamportsDecimal (lv V) shareAmount n) (vaultFarm st) farm) (\<lambda>(a, b). Inr [a, b])
              else Inr []) (\<lambda>unstake.
       bindE (if active_allocations st \<noteq> [] then wihdrdrawWithReserveIxns V C user kaminoVault shareAmount slot vaultReserves
              else withdrawFromAvailableIxns V C user kaminoVault shareAmount) (\<lambda>ixs.
         Inr \<lparr>unstakeFromFarmIfNeededIxs = unstake, wx_withdrawIxs = ixs\<rparr>)))))"

section \<open>Investing\<close>

text \<open>The instruction that creates the account is in the result whether it was asked for or not.\<close>

definition investSingleReserveIxs ::
    "vault_env \<Rightarrow> vault_client \<Rightarrow> pubkey \<Rightarrow> kamino_vault \<Rightarrow> pubkey \<times> reserve \<Rightarrow> kamino_reserve pubkey_hash_map option \<Rightarrow> bool \<Rightarrow>
     instruction list result" where
  "investSingleReserveIxs V C payer v r vaultReserves createAtaIfNeeded =
     (let S = sol (ve V); market = r_lendingMarket (snd r) in
      bindE (getState V v) (\<lambda>st.
      bindE (getAccountOwner V (vs_tokenMint st)) (\<lambda>tokenProgram.
        let (payerAta, createIx) = one_ata V payer (vs_tokenMint st) tokenProgram;
            ix = invest
              \<lparr>ivs_payer = payer, ivs_payerTokenAccount = payerAta, ivs_vaultState = v_address v, ivs_tokenVault = vs_tokenVault st,
               ivs_tokenMint = vs_tokenMint st, ivs_baseVaultAuthority = baseVaultAuthority st,
               ivs_ctokenVault = getCTokenVaultPda V (v_address v) (fst r) (vaultProgramId C), ivs_reserve = fst r, ivs_lendingMarket = market,
               ivs_lendingMarketAuthority = lendingMarketAuthPda S market (lendProgramId C),
               ivs_reserveLiquiditySupply = rl_supplyVault (liquidity (snd r)), ivs_reserveCollateralMint = rcol_mintPubkey (collateral (snd r)),
               ivs_klendProgram = lendProgramId C, ivs_reserveCollateralTokenProgram = TOKEN_PROGRAM_ID S, ivs_tokenProgram = tokenProgram,
               ivs_instructionSysvarAccount = SYSVAR_INSTRUCTIONS_PUBKEY S\<rparr> (vaultProgramId C) in
        bindE (reserves_or_load V C st vaultReserves) (\<lambda>m.
        bindE (with_reserves st m ix) (\<lambda>investIx.
          Inr [createIx, investIx])))))"

definition invest_step ::
    "vault_env \<Rightarrow> vault_state \<Rightarrow> kamino_reserve pubkey_hash_map \<Rightarrow> decimal pubkey_hash_map \<Rightarrow> pubkey list \<times> pubkey list \<Rightarrow> pubkey \<Rightarrow>
     (pubkey list \<times> pubkey list) result" where
  "invest_step V st m computed s k =
     (let L = vnum V in
      bindE (deref (hm_get (getVaultAllocations st) k)) (\<lambda>current.
      bindE (deref (hm_get m k)) (\<lambda>r.
      bindE (token_decimals V st) (\<lambda>n.
      bindE (deref (hm_get computed k)) (\<lambda>target.
        let held = lamportsToDecimal L (ddiv L (ctokenAllocation current) (getCollateralExchangeRate L (r_state r))) n;
            diff = collToLamportsDecimal (lv V) (dsub L target held) n
        in Inr (if xge (dabs diff) (dint (uint (minInvestAmount st)))
                then if xlt target held then (fst s @ [k], snd s) else (fst s, snd s @ [k])
                else s))))))"

definition investAllReservesIxs :: "vault_env \<Rightarrow> vault_client \<Rightarrow> pubkey \<Rightarrow> kamino_vault \<Rightarrow> instruction list result option" where
  "investAllReservesIxs V C payer v =
     bindO (Some (getState V v)) (\<lambda>st.
       if getVaultReserves st = [] then Some (Inl (Throw ''No reserves found for the vault, please select at least one reserve for the vault''))
       else
         bindO (Some (loadVaultReserves V C st)) (\<lambda>m.
         bindO (getVaultComputedReservesAllocation V C st None None None) (\<lambda>computed.
         bindO (Some (getAccountOwner V (vs_tokenMint st))) (\<lambda>tokenProgram.
         bindO (Some (foldE (invest_step V st m computed) ([], []) (getVaultReserves st))) (\<lambda>(disinvest, investInto).
           Some (bindE (mapE (\<lambda>k. bindE (deref (hm_get m k)) (\<lambda>r. investSingleReserveIxs V C payer v (k, r_state r) (Some m) False))
                   (disinvest @ investInto)) (\<lambda>ixs. Inr (concat ixs))))))))"

section \<open>The lookup table of a vault\<close>

definition reserve_lut_accounts :: "reserve \<Rightarrow> pubkey list" where
  "reserve_lut_accounts st =
     [r_lendingMarket st, farmCollateral st, farmDebt st, rl_supplyVault (liquidity st), feeVault (liquidity st),
      rcol_mintPubkey (collateral st), rcol_supplyVault (collateral st)]"

definition vault_lut_accounts :: "vault_client \<Rightarrow> kamino_vault \<Rightarrow> vault_state \<Rightarrow> kamino_reserve pubkey_hash_map \<Rightarrow> pubkey list" where
  "vault_lut_accounts C v st m =
     [v_address v, vaultAdminAuthority st, baseVaultAuthority st, vs_tokenMint st, vs_tokenVault st, vs_sharesMint st, vs_tokenProgram st,
      lendProgramId C] @
     concat (map (\<lambda>a. [va_reserve a, va_ctokenVault a]) (vaultAllocationStrategy st)) @
     concat (map (\<lambda>r. reserve_lut_accounts (r_state r)) (hm_values m)) @
     (if vaultFarm st \<noteq> default_pubkey then [vaultFarm st] else [])"

record sync_lut_ixs =
  setupLUTIfNeededIxs :: "instruction list"
  syncLUTIxs :: "instruction list"

definition syncVaultLookupTableIxs ::
    "vault_env \<Rightarrow> vault_client \<Rightarrow> kamino_vault \<Rightarrow> kamino_reserve pubkey_hash_map option \<Rightarrow> sync_lut_ixs result" where
  "syncVaultLookupTableIxs V C v vaultReserves =
     bindE (getState V v) (\<lambda>st.
     bindE (reserves_or_load V C st vaultReserves) (\<lambda>m.
       let fresh = (vaultLookupTable st = default_pubkey);
           (createIx, address) = initLookupTableIx V (vaultAdminAuthority st) (getSlot (ve V));
           lut = (if fresh then address else vaultLookupTable st) in
       bindE (if fresh then bindE (updateVaultConfigIxs V C v LookupTable (toBase58 (sol (ve V)) address) None)
                              (\<lambda>upd. Inr [createIx, updateVaultConfigIx upd])
              else Inr []) (\<lambda>setup.
       bindE (insertIntoLookupTableIxs V (vaultAdminAuthority st) lut (vault_lut_accounts C v st m) (if fresh then Some [] else None)) (\<lambda>ixs.
         Inr \<lparr>setupLUTIfNeededIxs = setup, syncLUTIxs = ixs\<rparr>))))"

end
