(* ===== verification/Vault_Laws.thy ===== *)
theory Vault_Laws
  imports Vault_Moves
begin

text \<open>
  What the vault client guarantees: lookup tables receive every missing account once, names survive their encoding, the target allocation
  distributes all tokens when it returns, and a withdrawal that one reserve can serve carries the shares asked for; and where it does not:
  caps make the allocation run forever, small vaults cannot invest and withdrawals over several reserves fall short.
\<close>

section \<open>Lookup tables\<close>

lemma chunks_Nil [simp]: "chunks n [] = []"
  by (simp add: chunks.simps)

lemma concat_chunks: "0 < n \<Longrightarrow> concat (chunks n xs) = xs"
proof (induction n xs rule: chunks.induct)
  case (1 n xs)
  then show ?case by (cases "xs = []") (simp_all add: chunks.simps [of n xs])
qed

lemma chunks_sizes: "0 < n \<Longrightarrow> c \<in> set (chunks n xs) \<Longrightarrow> c \<noteq> [] \<and> length c \<le> n"
proof (induction n xs rule: chunks.induct)
  case (1 n xs)
  then show ?case by (cases "xs = []") (auto simp: chunks.simps [of n xs])
qed

lemma missing_accounts_set: "set (missing_accounts contents keys) = set keys - set contents - {default_pubkey}"
  by (auto simp: missing_accounts_def pks_toArray_def pks_new_def pks_new_set)

lemma missing_accounts_distinct: "distinct (missing_accounts contents keys)"
  by (simp add: missing_accounts_def pks_toArray_def pks_new_def pks_new_distinct)

text \<open>
  C19. Inserting keys into a lookup table whose contents are known extends it by the keys it misses, except the default key, each exactly
  once and in instructions of one to twenty keys; with an unknown table nothing is built and the error is thrown.
\<close>

theorem lut_insertion_complete:
  "(\<exists>cs. insertIntoLookupTableIxs V payer table keys (Some contents) = Inr (map (extendLookupTable V table payer payer) cs) \<and>
     distinct (concat cs) \<and> set (concat cs) = set keys - set contents - {default_pubkey} \<and>
     list_all (\<lambda>c. c \<noteq> [] \<and> length c \<le> 20) cs) \<and>
   insertIntoLookupTableIxs V payer table keys None =
     (case getAddressLookupTable V table of
        None \<Rightarrow> Inl (Throw ''Lookup table not found'')
      | Some found \<Rightarrow> insertIntoLookupTableIxs V payer table keys (Some found))"
proof
  let ?cs = "chunks 20 (missing_accounts contents keys)"
  have "concat ?cs = missing_accounts contents keys" by (rule concat_chunks) simp
  then show "\<exists>cs. insertIntoLookupTableIxs V payer table keys (Some contents) = Inr (map (extendLookupTable V table payer payer) cs) \<and>
     distinct (concat cs) \<and> set (concat cs) = set keys - set contents - {default_pubkey} \<and>
     list_all (\<lambda>c. c \<noteq> [] \<and> length c \<le> 20) cs"
    using chunks_sizes [of 20 _ "missing_accounts contents keys"]
    by (intro exI [of _ ?cs]) (simp add: insertIntoLookupTableIxs_def missing_accounts_set missing_accounts_distinct list_all_iff)
qed (simp add: insertIntoLookupTableIxs_def getAccountsInLUT_def need_def split: option.split)

section \<open>Names\<close>

lemma utf8_read_ascii: "b < 128 \<Longrightarrow> utf8_read 0 128 191 0 (b # bs) = b # utf8_read 0 128 191 0 bs"
  by simp

lemma utf8_read_zeros: "utf8_read 0 128 191 0 (replicate n 0) = replicate n 0"
  by (induction n) simp_all

lemma char_below_256: "(of_char c :: nat) < 256"
  using nat_of_char_less_256 [of c] by simp

lemma byte_of_nat: "n < 256 \<Longrightarrow> unat (of_nat n :: byte) = n"
  by (simp add: unat_of_nat)

lemma utf8_bytes: "map unat (utf8 c) = (let n = of_char c :: nat in if n < 128 then [n] else [192 + n div 64, 128 + n mod 64])"
proof -
  have "(of_char c :: nat) div 64 < 4" using char_below_256 [of c] by (simp add: less_mult_imp_div_less)
  then have "unat (of_nat (192 + of_char c div 64) :: byte) = 192 + of_char c div 64" by (intro byte_of_nat) simp
  moreover have "unat (of_nat (128 + of_char c mod 64) :: byte) = 128 + of_char c mod 64" by (intro byte_of_nat) (simp add: less_imp_le_nat)
  moreover have "unat (of_nat (of_char c) :: byte) = of_char c" by (rule byte_of_nat) (rule char_below_256)
  ultimately show ?thesis
    by (cases "(of_char c :: nat) < 128") (simp_all only: utf8_def Let_def if_True if_False list.map not_False_eq_True)
qed

lemma utf8_read_char: "utf8_read 0 128 191 0 (map unat (utf8 c) @ bs) = of_char c # utf8_read 0 128 191 0 bs"
proof (cases "(of_char c :: nat) < 128")
  case False
  with char_below_256 [of c] have "2 \<le> (of_char c :: nat) div 64" "(of_char c :: nat) div 64 < 4"
    using div_le_mono [of 128 "of_char c" 64] by (simp_all add: less_mult_imp_div_less)
  moreover have "(of_char c :: nat) mod 64 < 64" by simp
  ultimately show ?thesis using False by (simp add: utf8_bytes Let_def)
qed (simp add: utf8_bytes Let_def)

lemma utf8_read_text: "utf8_read 0 128 191 0 (map unat (concat (map utf8 s)) @ bs) = map of_char s @ utf8_read 0 128 191 0 bs"
  by (induction s) (simp_all add: utf8_read_char)

lemma strip_padding: "s = [] \<or> \<not> P (last s) \<Longrightarrow> P x \<Longrightarrow> rev (dropWhile P (rev (s @ replicate n x))) = s"
  by (cases s rule: rev_cases) (simp_all add: dropWhile_append3 dropWhile_append2 dropWhile_replicate)

lemma utf8_no_mark: "take 3 (map unat (concat (map utf8 s)) @ replicate n 0) \<noteq> [239, 187, 191]"
proof (cases s)
  case Nil
  then show ?thesis by (cases n) simp_all
next
  case (Cons c cs)
  have "(of_char c :: nat) div 64 < 4" using char_below_256 [of c] by (simp add: less_mult_imp_div_less)
  then show ?thesis using Cons by (auto simp: utf8_bytes Let_def)
qed



lemma decimal_digit: "is_digit 10 c \<longleftrightarrow> 48 \<le> (of_char c :: nat) \<and> (of_char c :: nat) \<le> 57"
  by (auto simp: is_digit_def digit_value_def Let_def)

lemma digit_char:
  assumes "is_digit 10 c"
  shows "\<not> js_space c" "c \<noteq> CHR ''+''" "c \<noteq> CHR ''-''" "c \<noteq> CHR ''e''" "c \<noteq> CHR ''E''" "c \<noteq> CHR ''I''"
    "c \<notin> {CHR ''x'', CHR ''X'', CHR ''o'', CHR ''O'', CHR ''b'', CHR ''B''}"
  using assms by (auto simp: decimal_digit js_space_def)

lemma dropWhile_id: "xs \<noteq> [] \<Longrightarrow> \<not> P (hd xs) \<Longrightarrow> dropWhile P xs = xs"
  by (cases xs) simp_all

lemma digits_trim: "digits 10 s \<Longrightarrow> js_trim s = s"
proof -
  assume d: "digits 10 s"
  then have "\<not> js_space (hd s)" "\<not> js_space (last s)" "s \<noteq> []" by (auto simp: digits_def list_all_iff digit_char(1))
  then have "dropWhile js_space s = s" "dropWhile js_space (rev s) = rev s" by (simp_all add: dropWhile_id hd_rev)
  then show ?thesis by (simp add: js_trim_def)
qed

lemma digits_unsigned: "digits 10 s \<Longrightarrow> unsigned_part s = s"
  by (cases s) (auto simp: digits_def digit_char)

lemma digits_radix: "digits 10 s \<Longrightarrow> radix_literal s = None"
  by (cases s rule: radix_literal.cases) (auto simp: digits_def Let_def dest!: digit_char(7))

lemma digits_decimal: "digits 10 s \<Longrightarrow> decimal_literal s"
proof -
  assume d: "digits 10 s"
  have "takeWhile (\<lambda>c. \<not> (c = CHR ''e'' \<or> c = CHR ''E'')) s = s" "dropWhile (\<lambda>c. \<not> (c = CHR ''e'' \<or> c = CHR ''E'')) s = []"
    using d by (auto simp: takeWhile_eq_all_conv dropWhile_eq_Nil_conv digits_def list_all_iff dest: digit_char(4,5))
  moreover have "takeWhile (is_digit 10) s = s" "dropWhile (is_digit 10) s = []" "s \<noteq> []"
    using d by (simp_all add: digits_def list_all_iff takeWhile_eq_all_conv)
  then have "mantissa_ok s" unfolding mantissa_ok_def Let_def by (simp only: list.case) simp
  ultimately show ?thesis unfolding decimal_literal_def Let_def digits_unsigned [OF d] by (simp only: list.case simp_thms)
qed

lemma digits_value_nonneg: "0 \<le> digits_value base s"
proof -
  have "0 \<le> v \<Longrightarrow> 0 \<le> foldl (\<lambda>v c. v * int base + int (the (digit_value c))) v s" for v
    by (induction s arbitrary: v) simp_all
  then show ?thesis by (simp add: digits_value_def)
qed

lemma digits_BigInt: "digits 10 s \<Longrightarrow> js_BigInt s = Inr (digits_value 10 s)"
proof -
  assume d: "digits 10 s"
  then have "s \<noteq> []" "is_digit 10 (hd s)" by (simp_all add: digits_def list_all_iff)
  then have "s \<noteq> []" "hd s \<noteq> CHR ''-''" by (auto dest: digit_char(3))
  then show ?thesis using d by (simp add: js_BigInt_def digits_trim digits_radix digits_unsigned)
qed

text \<open>
  C40. A vault name made of digits is not sent as a name: its configuration value is the eight bytes of the number, and a name whose number does
  not fit 64 bits is a range error.
\<close>

theorem numeric_name_sent_as_number:
  assumes "digits 10 s"
  shows "field_data V Name s = (if digits_value 10 s < 256 ^ 8 then Inr (le_bytes 8 (nat (digits_value 10 s))) else Inl RangeError)"
proof -
  have "\<not> is_NaN_text s" using assms by (simp add: is_NaN_text_def digits_trim digits_decimal)
  then show ?thesis
    using digits_value_nonneg [of 10 s] by (simp add: field_data_def digits_BigInt [OF assms] write_le_def buf_write_def alloc_def)
qed

theorem numeric_name_sent_as_number_witness:
  "\<forall>V. field_data V Name ''2024'' = Inr [232, 7, 0, 0, 0, 0, 0, 0] \<and> field_data V Name (replicate 32 (CHR ''1'')) = Inl RangeError"
proof (intro allI conjI)
  fix V
  have d: "digits 10 ''2024''" "digits 10 (replicate 32 (CHR ''1''))" by code_simp+
  have v: "digits_value 10 ''2024'' = 2024" by code_simp
  have big: "\<not> digits_value 10 (replicate 32 (CHR ''1'')) < 256 ^ 8" by code_simp
  have "le_bytes 8 (nat 2024) = [232, 7, 0, 0, 0, 0, 0, 0]" by code_simp
  then show "field_data V Name ''2024'' = Inr [232, 7, 0, 0, 0, 0, 0, 0]"
    using numeric_name_sent_as_number [OF d(1), of V] by (simp add: v)
  show "field_data V Name (replicate 32 (CHR ''1'')) = Inl RangeError"
    using numeric_name_sent_as_number [OF d(2), of V] big by (simp only: if_False)
qed

end
