(* ===== verification/Vault_Withdraw.thy ===== *)
theory Vault_Withdraw
  imports Vault_Moves Leverage_Laws "HOL-Library.Multiset"
begin

text \<open>
  Which reserves a withdrawal takes its tokens from (\<open>wihdrdrawWithReserveIxns\<close>, modelled in \<open>Vault_Moves\<close>): the reserves are visited by decreasing
  liquidity. One reserve that is liquid enough serves the whole withdrawal; when none is, the plan falls short of the shares asked for, because the
  available tokens of the vault are subtracted twice.
\<close>

section \<open>Most liquid first\<close>

text \<open>What the plan relies on: the order lists the same reserves, and none that follows the first is more liquid.\<close>

locale best_first =
  fixes order :: "('a \<times> decimal) list \<Rightarrow> ('a \<times> decimal) list"
  assumes perm: "mset (order ps) = mset ps"
    and first: "\<forall>p\<in>set ps. isFinite (snd p) \<Longrightarrow> order ps = q # qs \<Longrightarrow> p \<in> set qs \<Longrightarrow> xle (snd p) (snd q)"
begin

lemma set_order: "set (order ps) = set ps"
  using perm [of ps] by (rule mset_eq_setD)

lemma best:
  assumes "\<forall>p\<in>set ps. isFinite (snd p)" "p \<in> set ps"
  obtains q qs where "order ps = q # qs" "q \<in> set ps" "xle (snd p) (snd q)"
proof -
  obtain q qs where q: "order ps = q # qs" using assms(2) set_order [of ps] by (cases "order ps") auto
  then have members: "q \<in> set ps" "p = q \<or> p \<in> set qs" using assms(2) set_order [of ps] by auto
  then have "xle (snd p) (snd q)"
  proof (cases "p = q")
    case True
    then show ?thesis using bspec [OF assms(1,2)] by (auto simp: isFinite_iff)
  qed (use first [OF assms(1) q, of p] members in blast)
  then show thesis using that q members(1) by blast
qed

end

lemma mset_insert_desc: "mset (insert_desc p qs) = add_mset p (mset qs)"
  by (induction qs) auto

lemma set_insert_desc: "set (insert_desc p qs) = insert p (set qs)"
  using arg_cong [OF mset_insert_desc [of p qs], of set_mset] by simp

lemma mset_sort_desc: "mset (sort_desc ps) = mset ps"
  by (induction ps) (simp_all add: sort_desc_def mset_insert_desc)

definition descending :: "('a \<times> decimal) list \<Rightarrow> bool" where
  "descending ps \<longleftrightarrow> sorted_wrt (\<lambda>p q. xle (snd q) (snd p)) ps"

lemma descending_insert:
  assumes "\<forall>q\<in>set (p # qs). isFinite (snd q)" "descending qs"
  shows "descending (insert_desc p qs)"
  using assms
proof (induction qs)
  case (Cons q qs)
  obtain x y where xy: "snd p = Fin x" "snd q = Fin y" using Cons.prems(1) by (auto simp: isFinite_iff)
  show ?case
  proof (cases "x < y")
    case True
    then have "descending (insert_desc p qs)" "\<forall>r\<in>set (insert_desc p qs). xle (snd r) (snd q)"
      using Cons xy by (auto simp: descending_def set_insert_desc)
    then show ?thesis using True xy by (simp add: descending_def)
  next
    case False
    then have "xle (snd r) (snd p)" if "r \<in> set (q # qs)" for r
      using that Cons.prems(2) xy xle_trans [of "snd r" "snd q" "snd p"] by (auto simp: descending_def)
    then show ?thesis using False Cons.prems(2) xy by (simp add: descending_def)
  qed
qed (simp add: descending_def)

lemma descending_sort: "\<forall>p\<in>set ps. isFinite (snd p) \<Longrightarrow> descending (sort_desc ps)"
proof (induction ps)
  case (Cons p ps)
  have "set (sort_desc ps) = set ps" by (rule mset_eq_setD [OF mset_sort_desc])
  then show ?case using Cons descending_insert [of p "sort_desc ps"] by (simp add: sort_desc_def)
qed (simp add: sort_desc_def descending_def)

interpretation sd: best_first sort_desc
proof
  fix ps q qs and p :: "'a \<times> decimal"
  assume "\<forall>p\<in>set ps. isFinite (snd p)" "sort_desc ps = q # qs" "p \<in> set qs"
  then show "xle (snd p) (snd q)" using descending_sort [of ps] by (simp add: descending_def)
qed (rule mset_sort_desc)

section \<open>One reserve\<close>

lemma plan_done: "\<not> xgt (wp_left s) (Fin 0) \<Longrightarrow> foldl (plan_step L r a) s ps = s"
  by (induction ps) (simp_all add: plan_step_def)



section \<open>Several reserves\<close>

lemma foldl_inv: "I s \<Longrightarrow> (\<And>s x. x \<in> set xs \<Longrightarrow> I s \<Longrightarrow> I (f s x)) \<Longrightarrow> I (foldl f s xs)"
  by (induction xs arbitrary: s) simp_all

abbreviation planned_shares :: "withdraw_plan \<Rightarrow> rat" where "planned_shares s \<equiv> (\<Sum>e\<leftarrow>wp_shares s. val (snd e))"

text \<open>After the first reserve: the planned shares and the rest add up to the shares without the available tokens.\<close>

definition short_plan :: "nat \<Rightarrow> nat \<Rightarrow> withdraw_plan \<Rightarrow> bool" where
  "short_plan n available s \<longleftrightarrow> (\<exists>l. wp_left s = Fin (of_int l) \<and> \<not> isFirstWithdraw s \<and>
     planned_shares s + of_int l = of_nat n - of_nat available \<and> (0 \<le> l \<or> planned_shares s < of_nat n))"

lemma short_plan_step:
  assumes "\<forall>x. d_round L x = x" "short_plan n available s" "snd e = Fin (of_nat m)"
  shows "short_plan n available (plan_step L (Fin 1) (Fin (of_nat available)) s e)"
proof -
  from assms(2) obtain l where l: "wp_left s = Fin (of_int l)" "\<not> isFirstWithdraw s" "planned_shares s + of_int l = of_nat n - of_nat available"
    "0 \<le> l \<or> planned_shares s < of_nat n" by (auto simp: short_plan_def)
  show ?thesis
  proof (cases "0 < l")
    case True
    have w: "min (of_int l) (of_nat m) = (of_int (min l (int m)) :: rat)" by (simp add: of_int_min)
    show ?thesis
      using True l assms(1) unfolding short_plan_def
      by (intro exI [of _ "l - min l (int m)"]) (simp add: plan_step_def assms(3) w del: of_int_min)
  next
    case False
    then show ?thesis using assms(2) l(1) by (simp add: plan_step_def)
  qed
qed



end
