(* ===== verification/Vault_Targets.thy ===== *)
theory Vault_Targets
  imports Vault_Laws Vault_Withdraw
begin

text \<open>
  The target allocation of a vault (\<open>getVaultComputedReservesAllocation\<close>, modelled in \<open>Vault_Calcs\<close>): the amounts add up to the tokens of the vault,
  without caps they are proportional to the weights, and with a cap below half of the tokens the loop never ends.
\<close>

section \<open>The loop\<close>

text \<open>An invariant of the passes holds when the loop returns, with at most one token left; the only proof by induction on the loop.\<close>

lemma alloc_loop_inv:
  assumes "alloc_loop V allocs ks s = Some d" and "I s"
    and "\<And>s. I s \<Longrightarrow> xgt (leftToInvest s) (Fin 1) \<Longrightarrow> I (alloc_pass V allocs ks s)"
  shows "\<exists>t. I t \<and> \<not> xgt (leftToInvest t) (Fin 1) \<and> d = distribution t"
proof -
  have "(\<forall>s. I s \<longrightarrow> xgt (leftToInvest s) (Fin 1) \<longrightarrow> I (alloc_pass V allocs ks s)) \<longrightarrow> I s \<longrightarrow>
    (\<exists>t. I t \<and> \<not> xgt (leftToInvest t) (Fin 1) \<and> d = distribution t)"
  proof (rule alloc_loop.raw_induct [where P = "\<lambda>V allocs ks s d. (\<forall>s. I s \<longrightarrow> xgt (leftToInvest s) (Fin 1) \<longrightarrow> I (alloc_pass V allocs ks s)) \<longrightarrow>
      I s \<longrightarrow> (\<exists>t. I t \<and> \<not> xgt (leftToInvest t) (Fin 1) \<and> d = distribution t)", OF _ assms(1)])
    fix loop :: "vault_env \<Rightarrow> allocation_overview pubkey_hash_map \<Rightarrow> pubkey list \<Rightarrow> alloc_state \<Rightarrow> decimal pubkey_hash_map option"
      and V allocs ks s d
    assume "\<And>V allocs ks s d. loop V allocs ks s = Some d \<Longrightarrow>
        (\<forall>s. I s \<longrightarrow> xgt (leftToInvest s) (Fin 1) \<longrightarrow> I (alloc_pass V allocs ks s)) \<longrightarrow> I s \<longrightarrow>
        (\<exists>t. I t \<and> \<not> xgt (leftToInvest t) (Fin 1) \<and> d = distribution t)"
      and "(if xgt (leftToInvest s) (Fin 1) then loop V allocs ks (alloc_pass V allocs ks s) else Some (distribution s)) = Some d"
    then show "(\<forall>s. I s \<longrightarrow> xgt (leftToInvest s) (Fin 1) \<longrightarrow> I (alloc_pass V allocs ks s)) \<longrightarrow> I s \<longrightarrow>
        (\<exists>t. I t \<and> \<not> xgt (leftToInvest t) (Fin 1) \<and> d = distribution t)"
      by (cases "xgt (leftToInvest s) (Fin 1)") auto
  qed
  then show ?thesis using assms(2,3) by blast
qed

section \<open>The allocations of a vault\<close>

lemma hm_get_foldl:
  "hm_get (foldl (\<lambda>m a. hm_set m (f a) (g a)) m0 as) k =
     (case List.find (\<lambda>a. f a = k) (rev as) of Some a \<Rightarrow> Some (g a) | None \<Rightarrow> hm_get m0 k)"
  by (induction as rule: rev_induct) (auto simp: hm_get_set)

lemma hm_inv_foldl: "hm_inv m0 \<Longrightarrow> hm_inv (foldl (\<lambda>m a. hm_set m (f a) (g a)) m0 as)"
  by (induction as arbitrary: m0) (simp_all add: hm_inv_set)

lemma vault_allocation_get:
  assumes "k \<in> set (getVaultReserves st)"
  shows "\<exists>a\<in>set (active_allocations st). va_reserve a = k \<and> hm_get (getVaultAllocations st) k = Some (overview_of a)"
proof -
  obtain a where "List.find (\<lambda>a. va_reserve a = k) (rev (active_allocations st)) = Some a"
    using assms by (cases "List.find (\<lambda>a. va_reserve a = k) (rev (active_allocations st))")
      (auto simp: getVaultReserves_def find_None_iff)
  moreover from this have "a \<in> set (active_allocations st)" "va_reserve a = k"
    by (auto simp: find_Some_iff) (metis length_rev nth_mem set_rev)
  ultimately show ?thesis by (auto simp: getVaultAllocations_def hm_get_foldl)
qed

definition weight :: "vault_allocation \<Rightarrow> rat" where "weight a = of_int (uint (targetAllocationWeight a))"
definition limit :: "vault_allocation \<Rightarrow> rat" where "limit a = of_int (uint (va_tokenAllocationCap a))"

lemma weight_nonneg: "0 \<le> weight a"
  by (simp only: weight_def of_int_0_le_iff) simp

lemma weights_nonneg: "0 \<le> (\<Sum>a\<leftarrow>as. weight a)"
  by (rule sum_list_nonneg) (auto simp only: set_map weight_nonneg)

lemma overview_simps [simp]:
  "targetWeight (overview_of a) = Fin (weight a)" "tokenAllocationCap (overview_of a) = Fin (limit a)"
  by (simp_all add: overview_of_def weight_def limit_def)

section \<open>Nothing is lost\<close>

definition placed :: "decimal pubkey_hash_map \<Rightarrow> pubkey \<Rightarrow> rat" where
  "placed d k = (case hm_get d k of Some x \<Rightarrow> val x | None \<Rightarrow> 0)"

definition finite_amounts :: "decimal pubkey_hash_map \<Rightarrow> bool" where
  "finite_amounts d \<longleftrightarrow> (\<forall>k x. hm_get d k = Some x \<longrightarrow> isFinite x)"

definition distributing :: "pubkey set \<Rightarrow> rat \<Rightarrow> alloc_state \<Rightarrow> bool" where
  "distributing K X s \<longleftrightarrow> (\<exists>q m. leftToInvest s = Fin q \<and> 0 \<le> q \<and> allocationSum s = Fin m \<and> finite_amounts (distribution s) \<and>
     q + (\<Sum>k\<in>K. placed (distribution s) k) = X)"

lemma placed_set: "placed (hm_set d k x) k' = (if k' = k then val x else placed d k')"
  by (simp add: placed_def hm_get_set)

lemma finite_amounts_set: "finite_amounts d \<Longrightarrow> isFinite x \<Longrightarrow> finite_amounts (hm_set d k x)"
  by (auto simp: finite_amounts_def hm_get_set)

text \<open>The amount a reserve gets in a step, in exact arithmetic: \<open>X\<close> is the leftover of the pass, \<open>q\<close> what is left now and \<open>m\<close> the sum of weights.\<close>

definition step_amount :: "vault_allocation \<Rightarrow> rat \<Rightarrow> rat \<Rightarrow> rat \<Rightarrow> rat" where
  "step_amount a X q m =
     (let target = (if m = 0 then q else min (weight a * X / m) q) in if 0 < limit a then min target (limit a) else target)"

lemma step_amount_le: "step_amount a X q m \<le> q"
  by (auto simp: step_amount_def Let_def min_def)

lemma alloc_step_exact:
  assumes exact: "\<forall>x. d_round (vnum V) x = x" and zero: "kl_ZERO V = Fin 0"
    and get: "hm_get allocs k = Some (overview_of a)" and w: "0 < weight a" and X: "0 < X"
    and s: "leftToInvest s = Fin q" "allocationSum s = Fin m" "finite_amounts (distribution s)"
  shows "alloc_step V allocs (Fin X) s k =
    \<lparr>leftToInvest = Fin (q - step_amount a X q m),
     allocationSum = Fin (if step_amount a X q m = limit a \<and> 0 < limit a then m - weight a else m),
     distribution = hm_set (distribution s) k (Fin (placed (distribution s) k + step_amount a X q m))\<rparr>"
proof -
  define target where "target = (if m = 0 then q else min (weight a * X / m) q)"
  let ?amount = "step_amount a X q m"
  have "0 < weight a * X" using w X by simp
  then have t: "xmin (ddiv (vnum V) (dmul (vnum V) (Fin (weight a)) (Fin X)) (Fin m)) (Fin q) = Fin target"
    by (cases "m = 0") (simp_all add: exact target_def inf_of_sign_def xmin_def)
  have am: "(if xgt (Fin (limit a)) (Fin 0) then xmin (Fin target) (Fin (limit a)) else Fin target) = Fin ?amount"
    by (simp add: step_amount_def target_def Let_def)
  have sum: "(case hm_get (distribution s) k of Some x \<Rightarrow> dadd (vnum V) x (Fin ?amount) | None \<Rightarrow> Fin ?amount) =
      Fin (placed (distribution s) k + ?amount)"
  proof (cases "hm_get (distribution s) k")
    case (Some x)
    with s(3) have "isFinite x" by (auto simp: finite_amounts_def)
    then show ?thesis using Some by (cases x) (simp_all add: exact placed_def)
  qed (simp add: placed_def)
  show ?thesis
    unfolding alloc_step_def Let_def get option.sel overview_simps zero s(1,2) t am sum by (simp add: exact)
qed

lemma distributing_step:
  assumes "\<forall>x. d_round (vnum V) x = x" "kl_ZERO V = Fin 0" "hm_get allocs k = Some (overview_of a)" "0 < weight a" "0 < X'"
    and K: "finite K" "k \<in> K" and "distributing K X s"
  shows "distributing K X (alloc_step V allocs (Fin X') s k)"
proof -
  from assms(8) obtain q m where s: "leftToInvest s = Fin q" "0 \<le> q" "allocationSum s = Fin m" "finite_amounts (distribution s)"
    "q + (\<Sum>k\<in>K. placed (distribution s) k) = X" by (auto simp: distributing_def)
  let ?amount = "step_amount a X' q m"
  let ?d = "hm_set (distribution s) k (Fin (placed (distribution s) k + ?amount))"
  have "(\<Sum>j\<in>K. placed ?d j) = (\<Sum>j\<in>K. placed (distribution s) j) + ?amount"
  proof -
    have "(\<Sum>j\<in>K. placed ?d j) = (placed (distribution s) k + ?amount) + (\<Sum>j\<in>K - {k}. placed (distribution s) j)"
      using K by (subst sum.remove [OF K]) (simp add: placed_set)
    then show ?thesis using sum.remove [OF K, of "placed (distribution s)"] by simp
  qed
  then show ?thesis
    unfolding distributing_def alloc_step_exact [OF assms(1-5) s(1,3,4)]
    using step_amount_le [of a X' q m] s(2,4,5) by (simp add: finite_amounts_set)
qed

lemma distributing_pass:
  assumes "\<forall>x. d_round (vnum V) x = x" "kl_ZERO V = Fin 0" "\<forall>a\<in>set (active_allocations st). 0 < weight a"
    and s: "distributing (set (getVaultReserves st)) X s" "xgt (leftToInvest s) (Fin 1)"
  shows "distributing (set (getVaultReserves st)) X (alloc_pass V (getVaultAllocations st) (getVaultReserves st) s)"
  unfolding alloc_pass_def
proof (rule foldl_inv [where I = "distributing (set (getVaultReserves st)) X", OF s(1)])
  fix t k
  assume k: "k \<in> set (getVaultReserves st)" and t: "distributing (set (getVaultReserves st)) X t"
  from s obtain X' where X': "leftToInvest s = Fin X'" "0 < X'" by (auto simp: distributing_def)
  obtain a where a: "a \<in> set (active_allocations st)" "hm_get (getVaultAllocations st) k = Some (overview_of a)"
    using vault_allocation_get [OF k] by blast
  then have "0 < weight a" using assms(3) by blast
  then show "distributing (set (getVaultReserves st)) X (alloc_step V (getVaultAllocations st) (leftToInvest s) t k)"
    unfolding X'(1) using distributing_step [OF assms(1,2) a(2) _ X'(2) _ k t] by simp
qed

lemma exact_total:
  assumes "\<forall>x. d_round L x = x" "\<And>x. x \<in> set xs \<Longrightarrow> isFinite (targetWeight x)"
  shows "foldl (\<lambda>t a. dadd L t (targetWeight a)) (Fin z) xs = Fin (z + (\<Sum>x\<leftarrow>xs. val (targetWeight x)))"
  using assms(2)
proof (induction xs arbitrary: z)
  case (Cons x xs)
  then have "isFinite (targetWeight x)" by simp
  then show ?case using Cons by (cases "targetWeight x") (simp_all add: assms(1) algebra_simps)
qed simp

lemma finite_weights: "x \<in> set (hm_values (getVaultAllocations st)) \<Longrightarrow> isFinite (targetWeight x)"
proof -
  assume "x \<in> set (hm_values (getVaultAllocations st))"
  moreover have "hm_inv (getVaultAllocations st)" by (simp add: getVaultAllocations_def hm_inv_foldl hm_inv_empty)
  ultimately show ?thesis by (auto simp: hm_values_iff getVaultAllocations_def hm_get_foldl hm.lookup_empty split: option.splits)
qed

lemma total_weight_finite:
  assumes "\<forall>x. d_round L x = x"
  shows "\<exists>m. foldl (\<lambda>t a. dadd L t (targetWeight a)) (Fin 0) (hm_values (getVaultAllocations st)) = Fin m"
  using exact_total [OF assms, of "hm_values (getVaultAllocations st)" 0] finite_weights [of _ st] by blast

abbreviation vault_weight :: "vault_env \<Rightarrow> vault_state \<Rightarrow> decimal" where
  "vault_weight V st \<equiv> foldl (\<lambda>t a. dadd (vnum V) t (targetWeight a)) (Fin 0) (hm_values (getVaultAllocations st))"

lemma computed_allocation_loop:
  assumes "active_allocations st \<noteq> []" "\<forall>a\<in>set (active_allocations st). 0 < weight a" "getVaultHoldings V C st slot given current = Inr h"
  shows "getVaultComputedReservesAllocation V C st slot given current =
    map_option Inr (alloc_loop V (getVaultAllocations st) (getVaultReserves st)
      \<lparr>leftToInvest = dsub (vnum V) (totalAUMIncludingFees h) (pendingFees h), allocationSum = vault_weight V st, distribution = hm_empty\<rparr>)"
proof -
  have ks: "getVaultReserves st \<noteq> []" using assms(1) by (simp add: getVaultReserves_def)
  then obtain a where a: "a \<in> set (active_allocations st)" "hm_get (getVaultAllocations st) (hd (getVaultReserves st)) = Some (overview_of a)"
    using vault_allocation_get [of "hd (getVaultReserves st)" st] by auto
  from bspec [OF assms(2) a(1)] have "\<not> xeq (targetWeight (overview_of a)) (Fin 0)" by auto
  then have "\<not> no_weights st" using hd_in_set [OF ks] a(2) unfolding no_weights_def by (metis option.simps(5))
  with ks show ?thesis by (simp add: getVaultComputedReservesAllocation_def assms(3) bindO_def Let_def)
qed

lemma distributing_start: "0 \<le> X \<Longrightarrow> distributing K X \<lparr>leftToInvest = Fin X, allocationSum = Fin m, distribution = hm_empty\<rparr>"
  by (simp add: distributing_def finite_amounts_def placed_def hm.lookup_empty)


section \<open>Without caps\<close>

lemma mset_vault_allocations:
  assumes "distinct (getVaultReserves st)"
  shows "mset (hm_values (getVaultAllocations st)) = mset (map overview_of (active_allocations st))"
proof -
  let ?p = "\<lambda>a. (va_reserve a, overview_of a)"
  have inv: "hm_inv (getVaultAllocations st)" by (simp add: getVaultAllocations_def hm_inv_foldl hm_inv_empty)
  have get: "hm_get (getVaultAllocations st) (va_reserve a) = Some (overview_of a)" if "a \<in> set (active_allocations st)" for a
  proof -
    obtain b where b: "b \<in> set (active_allocations st)" "va_reserve b = va_reserve a"
      "hm_get (getVaultAllocations st) (va_reserve a) = Some (overview_of b)"
      using vault_allocation_get [of "va_reserve a" st] \<open>a \<in> set (active_allocations st)\<close> by (auto simp: getVaultReserves_def)
    then have "b = a" using assms \<open>a \<in> set (active_allocations st)\<close> by (auto simp: getVaultReserves_def distinct_map dest: inj_onD)
    with b show ?thesis by simp
  qed
  have key: "k \<in> va_reserve ` set (active_allocations st)" if "hm_get (getVaultAllocations st) k = Some x" for k x
    using that by (auto simp: getVaultAllocations_def hm_get_foldl hm.lookup_empty find_Some_iff split: option.splits)
      (metis image_eqI length_rev nth_mem set_rev)
  have "set (hm_entries (getVaultAllocations st)) = set (map ?p (active_allocations st))"
  proof (intro equalityI subsetI)
    fix e assume "e \<in> set (hm_entries (getVaultAllocations st))"
    moreover obtain k x where e: "e = (k, x)" by (cases e)
    ultimately have g: "hm_get (getVaultAllocations st) k = Some x" using hm_entries_iff [OF inv] by simp
    from key [OF g] obtain a where "a \<in> set (active_allocations st)" "k = va_reserve a" by blast
    then show "e \<in> set (map ?p (active_allocations st))" using e g get by auto
  next
    fix e assume "e \<in> set (map ?p (active_allocations st))"
    then show "e \<in> set (hm_entries (getVaultAllocations st))" using get hm_entries_iff [OF inv] by auto
  qed
  moreover have "distinct (hm_entries (getVaultAllocations st))" "distinct (map ?p (active_allocations st))"
    using hm.entries_distinct [OF inv] assms by (auto simp: distinct_map getVaultReserves_def inj_on_def)
  ultimately have "mset (hm_entries (getVaultAllocations st)) = mset (map ?p (active_allocations st))"
    by (simp only: set_eq_iff_mset_eq_distinct [symmetric])
  then have "image_mset snd (mset (hm_entries (getVaultAllocations st))) = image_mset snd (mset (map ?p (active_allocations st)))" by (rule arg_cong)
  then show ?thesis by (simp add: hm_values_def image_mset.compositionality comp_def)
qed

lemma uncapped_pass:
  assumes exact: "\<forall>x. d_round (vnum V) x = x" and zero: "kl_ZERO V = Fin 0" and X: "0 < X" and W: "0 < W"
    and as: "distinct (map va_reserve as)"
      "\<And>a. a \<in> set as \<Longrightarrow> 0 < weight a \<and> limit a = 0 \<and> hm_get allocs (va_reserve a) = Some (overview_of a) \<and>
        hm_get (distribution s) (va_reserve a) = None"
    and s: "leftToInvest s = Fin q" "allocationSum s = Fin W" "finite_amounts (distribution s)" "(\<Sum>a\<leftarrow>as. weight a) * X / W \<le> q"
  shows "leftToInvest (foldl (alloc_step V allocs (Fin X)) s (map va_reserve as)) = Fin (q - (\<Sum>a\<leftarrow>as. weight a) * X / W) \<and>
    (\<forall>a\<in>set as. hm_get (distribution (foldl (alloc_step V allocs (Fin X)) s (map va_reserve as))) (va_reserve a) = Some (Fin (weight a * X / W))) \<and>
    (\<forall>k. k \<notin> va_reserve ` set as \<longrightarrow>
       hm_get (distribution (foldl (alloc_step V allocs (Fin X)) s (map va_reserve as))) k = hm_get (distribution s) k)"
  using as s
proof (induction as arbitrary: s q)
  case Nil
  then show ?case by simp
next
  case (Cons a as)
  have a: "0 < weight a" "limit a = 0" "hm_get allocs (va_reserve a) = Some (overview_of a)" "hm_get (distribution s) (va_reserve a) = None"
    using Cons.prems(2) [of a] by simp_all
  have rest: "0 \<le> (\<Sum>a\<leftarrow>as. weight a) * X / W" using X W weights_nonneg [of as] by simp
  have split: "(\<Sum>a\<leftarrow>a # as. weight a) * X / W = weight a * X / W + (\<Sum>a\<leftarrow>as. weight a) * X / W"
    by (simp add: add_divide_distrib distrib_right)
  then have le: "weight a * X / W + (\<Sum>a\<leftarrow>as. weight a) * X / W \<le> q" using Cons.prems(6) by simp
  then have amount: "step_amount a X q W = weight a * X / W" using rest W a(2) by (simp add: step_amount_def)
  let ?s = "alloc_step V allocs (Fin X) s (va_reserve a)"
  have step: "?s = \<lparr>leftToInvest = Fin (q - weight a * X / W), allocationSum = Fin W,
      distribution = hm_set (distribution s) (va_reserve a) (Fin (weight a * X / W))\<rparr>"
    unfolding alloc_step_exact [OF exact zero a(3,1) X Cons.prems(3-5)] amount using a(2,4) by (simp add: placed_def)
  have other: "va_reserve b \<noteq> va_reserve a" if "b \<in> set as" for b
    using Cons.prems(1) imageI [OF that, of va_reserve] by auto
  have IH: "leftToInvest (foldl (alloc_step V allocs (Fin X)) ?s (map va_reserve as)) = Fin (q - weight a * X / W - (\<Sum>a\<leftarrow>as. weight a) * X / W) \<and>
    (\<forall>a\<in>set as. hm_get (distribution (foldl (alloc_step V allocs (Fin X)) ?s (map va_reserve as))) (va_reserve a) = Some (Fin (weight a * X / W))) \<and>
    (\<forall>k. k \<notin> va_reserve ` set as \<longrightarrow>
       hm_get (distribution (foldl (alloc_step V allocs (Fin X)) ?s (map va_reserve as))) k = hm_get (distribution ?s) k)"
    using Cons.prems(1,2,5) le other by (intro Cons.IH) (auto simp: step hm_get_set finite_amounts_set)
  have fresh: "va_reserve a \<notin> va_reserve ` set as" using Cons.prems(1) by simp
  have own: "hm_get (distribution ?s) k = (if k = va_reserve a then Some (Fin (weight a * X / W)) else hm_get (distribution s) k)" for k
    by (simp add: step hm_get_set)
  show ?case using IH fresh by (auto simp: own split [simplified] diff_diff_eq)
qed

lemma alloc_loop_ends: "\<not> xgt (leftToInvest s) (Fin 1) \<Longrightarrow> alloc_loop V allocs ks s = Some (distribution s)"
  by (subst alloc_loop.simps) simp

lemma alloc_loop_again: "xgt (leftToInvest s) (Fin 1) \<Longrightarrow> alloc_loop V allocs ks s = alloc_loop V allocs ks (alloc_pass V allocs ks s)"
  by (subst alloc_loop.simps) simp


section \<open>A cap that does not fit\<close>

text \<open>
  Once the sum of weights is negative, a reserve gets a negative amount and the leftover grows. The sum becomes negative because the weight of a
  reserve is subtracted each time the reserve gets its cap, not only the first time.
\<close>

lemma negative_sum_diverges:
  assumes laws: "decimal_laws (vnum V)" and zero: "kl_ZERO V = Fin 0"
    and a: "hm_get allocs k = Some (overview_of a)" "0 < weight a" "0 < limit a"
    and s: "leftToInvest s = Fin q" "1 < q" "d_round (vnum V) q = q" "allocationSum s = Fin m" "m < 0"
  shows "alloc_loop V allocs [k] s = None"
proof (rule ccontr)
  let ?L = "vnum V"
  let ?I = "\<lambda>s :: alloc_state. \<exists>q m. leftToInvest s = Fin q \<and> 1 < q \<and> d_round ?L q = q \<and> allocationSum s = Fin m \<and> m < 0"
  assume "alloc_loop V allocs [k] s \<noteq> None"
  then obtain d where d: "alloc_loop V allocs [k] s = Some d" by blast
  have start: "?I s" using s by blast
  have step: "?I (alloc_pass V allocs [k] t)" if "?I t" "xgt (leftToInvest t) (Fin 1)" for t :: alloc_state
  proof -
    from \<open>?I t\<close> obtain q m where t: "leftToInvest t = Fin q" "1 < q" "d_round ?L q = q" "allocationSum t = Fin m" "m < 0" by blast
    define x where "x = d_round ?L (d_round ?L (weight a * q) / m)"
    have "0 \<le> d_round ?L (weight a * q)" using a(2) t(2) by (intro decimal_laws.d_nonneg [OF laws]) simp
    then have x: "x \<le> 0" unfolding x_def using t(5) by (intro decimal_laws.d_nonpos [OF laws]) (simp add: divide_nonneg_neg)
    then have "min x q = x" "min x (limit a) = x" "x \<noteq> limit a" using t(2) a(3) by auto
    then have pass: "alloc_pass V allocs [k] t = \<lparr>leftToInvest = Fin (d_round ?L (q - x)), allocationSum = Fin m,
        distribution = distribution (alloc_pass V allocs [k] t)\<rparr>"
      using t(5) a(3) by (simp add: alloc_pass_def alloc_step_def a(1) zero t(1,4) Let_def x_def [symmetric])
    have "q \<le> d_round ?L (q - x)" using x t(3) by (intro decimal_laws.d_ge_fixed [OF laws]) simp_all
    then show ?thesis using t(2,5) decimal_laws.d_idem [OF laws] by (subst pass, subst pass) simp
  qed
  have "\<exists>t. ?I t \<and> \<not> xgt (leftToInvest t) (Fin 1) \<and> d = distribution t"
    by (rule alloc_loop_inv [where I = ?I, OF d start]) (rule step)
  then show False by auto
qed

text \<open>A pass over one reserve that gets its cap.\<close>

lemma capped_pass:
  assumes zero: "kl_ZERO V = Fin 0" and a: "hm_get allocs k = Some (overview_of a)" "0 < limit a"
    and s: "leftToInvest s = Fin q" "allocationSum s = Fin m" "limit a \<le> q"
    and target: "xmin (ddiv (vnum V) (dmul (vnum V) (Fin (weight a)) (Fin q)) (Fin m)) (Fin q) = Fin y" "limit a \<le> y"
  shows "leftToInvest (alloc_pass V allocs [k] s) = Fin (d_round (vnum V) (q - limit a))"
    "allocationSum (alloc_pass V allocs [k] s) = Fin (d_round (vnum V) (m - weight a))"
  using target(2) a(2) by (simp_all add: alloc_pass_def alloc_step_def a(1) zero s(1,2) Let_def target(1) min_def del: dec_Fin(3,4))

lemma u64_below: "uint (w :: u64) < 10 ^ 20"
  using uint_lt2p [of w] by simp

lemma weight_exact: "decimal_laws L \<Longrightarrow> d_round L (weight a) = weight a"
  unfolding weight_def by (rule decimal_laws.d_int) (use u64_below [of "targetAllocationWeight a"] in simp_all)

lemma limit_exact: "decimal_laws L \<Longrightarrow> d_round L (limit a) = limit a"
  unfolding limit_def by (rule decimal_laws.d_int) (use u64_below [of "va_tokenAllocationCap a"] in simp_all)

lemma limit_plus_two_exact: "decimal_laws L \<Longrightarrow> d_round L (limit a + 2) = limit a + 2"
proof -
  assume laws: "decimal_laws L"
  have "uint (va_tokenAllocationCap a) < 2 ^ 64" using uint_lt2p [of "va_tokenAllocationCap a"] by simp
  then have "\<bar>uint (va_tokenAllocationCap a) + 2\<bar> \<le> 10 ^ 20" by simp
  then show ?thesis using decimal_laws.d_int [OF laws, of "uint (va_tokenAllocationCap a) + 2"] by (simp add: limit_def)
qed

lemma single_cap_loop:
  assumes laws: "decimal_laws (vnum V)" and zero: "kl_ZERO V = Fin 0"
    and a: "hm_get allocs k = Some (overview_of a)" "0 < weight a" "0 < limit a"
    and fits: "d_round (vnum V) (weight a * limit a) = weight a * limit a"
    and s: "leftToInvest s = Fin X" "allocationSum s = Fin (weight a)" "2 * limit a + 2 \<le> X"
  shows "alloc_loop V allocs [k] s = None"
proof -
  let ?L = "vnum V"
  have big: "weight a * limit a \<le> d_round ?L (weight a * q)" if "limit a \<le> q" for q
    using that a(2) fits by (intro decimal_laws.d_ge_fixed [OF laws]) simp_all
  define q1 where "q1 = d_round ?L (X - limit a)"
  have q1: "limit a + 2 \<le> q1" unfolding q1_def using s(3) a(3) limit_plus_two_exact [OF laws]
    by (intro decimal_laws.d_ge_fixed [OF laws]) simp_all
  define q2 where "q2 = d_round ?L (q1 - limit a)"
  have two: "d_round ?L 2 = 2" using decimal_laws.d_int [OF laws, of 2] by simp
  have q2: "2 \<le> q2" unfolding q2_def using q1 two by (intro decimal_laws.d_ge_fixed [OF laws]) simp_all
  let ?s1 = "alloc_pass V allocs [k] s" and ?s2 = "alloc_pass V allocs [k] (alloc_pass V allocs [k] s)"
  have le: "limit a \<le> X" using s(3) a(3) by simp
  have "weight a * limit a / weight a \<le> d_round ?L (weight a * X) / weight a" using big [OF le] a(2) by (intro divide_right_mono) simp_all
  then have "limit a \<le> d_round ?L (weight a * X) / weight a" using a(2) by simp
  then have "limit a \<le> d_round ?L (d_round ?L (weight a * X) / weight a)"
    using limit_exact [OF laws] by (intro decimal_laws.d_ge_fixed [OF laws])
  then have s1: "leftToInvest ?s1 = Fin q1" "allocationSum ?s1 = Fin 0"
    using capped_pass [OF zero a(1,3) s(1,2) le, of "min (d_round ?L (d_round ?L (weight a * X) / weight a)) X"] le a(2)
    by (simp_all add: q1_def decimal_laws.d_zero [OF laws])
  have le1: "limit a \<le> q1" using q1 by simp
  have "0 < d_round ?L (weight a * q1)" using big [OF le1] mult_pos_pos [OF a(2,3)] by linarith
  then have s2: "leftToInvest ?s2 = Fin q2" "allocationSum ?s2 = Fin (- weight a)"
    using capped_pass [OF zero a(1,3) s1 le1, of q1] le1 weight_exact [OF laws]
    by (simp_all add: q2_def inf_of_sign_def xmin_def decimal_laws.d_odd [OF laws])
  have "alloc_loop V allocs [k] s = alloc_loop V allocs [k] ?s1" using s(1,3) a(3) by (intro alloc_loop_again) simp
  also have "\<dots> = alloc_loop V allocs [k] ?s2" using s1(1) q1 a(3) by (intro alloc_loop_again) simp
  also have "\<dots> = None"
    using q2 a(2) decimal_laws.d_idem [OF laws] by (intro negative_sum_diverges [OF laws zero a s2(1) _ _ s2(2)]) (simp_all add: q2_def)
  finally show ?thesis .
qed


section \<open>A sample vault\<close>

text \<open>A vault whose tokens, of a mint without decimals, are all available: one reserve of weight 3 and a cap, no shares of the reserve yet.\<close>

definition sample_allocation :: "u64 \<Rightarrow> vault_allocation" where
  "sample_allocation cap =
     \<lparr>va_reserve = 101, va_ctokenVault = 61, targetAllocationWeight = 3, va_tokenAllocationCap = cap, ctokenVaultBump = 255,
      va_ctokenAllocation = 0, lastInvestSlot = 0, tokenTargetAllocationSf = 0\<rparr>"

definition sample_vault_state :: "u64 \<Rightarrow> u64 \<Rightarrow> vault_state" where
  "sample_vault_state cap tokens =
     \<lparr>vaultAdminAuthority = 62, baseVaultAuthority = 63, vs_tokenMint = 11, vs_tokenMintDecimals = 0, vs_tokenVault = 64, vs_tokenProgram = 5,
      vs_sharesMint = 65, vs_sharesMintDecimals = 6, tokenAvailable = tokens, vs_sharesIssued = 0, performanceFeeBps = 0, managementFeeBps = 0,
      lastFeeChargeTimestamp = 0, prevAumSf = 0, pendingFeesSf = 0, vaultAllocationStrategy = [sample_allocation cap], minInvestAmount = 1,
      vs_pendingAdmin = default_pubkey, cumulativeEarnedInterestSf = 0, vs_name = replicate 40 0, vaultLookupTable = default_pubkey,
      vaultFarm = default_pubkey\<rparr>"

definition sample_vault_env :: "num_lib \<Rightarrow> vault_env" where
  "sample_vault_env L =
     (let blank = \<lparr>ix_keys = [], ix_programId = 99, ix_data = []\<rparr>;
          account = \<lparr>ai_owner = 5, ai_obligation = None, ai_userMetadata = None\<rparr> in
      \<lparr>lv = sample_lev\<lparr>le := sample_env\<lparr>num := L, getAccountInfo := \<lambda>_. Some account\<rparr>\<rparr>,
       fetchVault = (\<lambda>_ _. None), fetchReserve = (\<lambda>k. if k = 101 then Some sample_state else None), tokenOraclePrice = (\<lambda>_. Some (Fin 1)),
       loadMarket = (\<lambda>_ _. None), tokenAccountAmount = (\<lambda>_. 0), accountDataEmpty = (\<lambda>_. False), new_PublicKey = (\<lambda>_. Inr 66),
       getAddressLookupTable = (\<lambda>_. None), extendLookupTable = (\<lambda>_ _ _ _. blank), sys_createAccount = (\<lambda>_ _ _ _ _. blank),
       createAssociatedTokenAccountInstruction = (\<lambda>_ _ _ _ _. blank), fetchFarm = (\<lambda>_. None), getUserStatePDA = (\<lambda>_ _ _. 67),
       createNewUserIx = (\<lambda>_ _. blank), stakeIx = (\<lambda>_ _ _ _ _. blank), unstakeIx = (\<lambda>_ _ _ _. blank),
       withdrawUnstakedDepositIx = (\<lambda>_ _ _ _. blank), getUserTokensInUndelegatedFarm = (\<lambda>_ _ _. Fin 0), WAD = Fin (10 ^ 18), kl_ZERO = Fin 0,
       FullBPSDecimal = Fin 10000, now_seconds = Fin 0, js_pow = (\<lambda>_ _. Fin 1)\<rparr>)"

definition sample_vault_client :: vault_client where
  "sample_vault_client = \<lparr>vaultProgramId = 68, lendProgramId = 69, vc_slotDurationMs = Fin 450\<rparr>"

text \<open>A reserve without collateral tokens: the exchange rate is the initial one.\<close>

definition fresh_reserve :: kamino_reserve where
  "fresh_reserve = sample_reserve\<lparr>r_state := sample_state\<lparr>collateral := (collateral sample_state)\<lparr>rcol_mintTotalSupply := 0\<rparr>\<rparr>\<rparr>"

abbreviation fresh_map :: "kamino_reserve pubkey_hash_map" where "fresh_map \<equiv> hm_set hm_empty 101 fresh_reserve"

lemma fresh_rate: "getCollateralExchangeRate L (r_state fresh_reserve) = Fin 1"
  by (simp add: getCollateralExchangeRate_def fresh_reserve_def INITIAL_COLLATERAL_RATE_def)

lemma sample_vault_simps [simp]:
  "vnum (sample_vault_env L) = L" "kl_ZERO (sample_vault_env L) = Fin 0"
  "fetchReserve (sample_vault_env L) k = (if k = 101 then Some sample_state else None)" "tokenOraclePrice (sample_vault_env L) st = Some (Fin 1)"
  "vc_slotDurationMs sample_vault_client = Fin 450"
  by (simp_all add: sample_vault_env_def sample_vault_client_def Let_def)

lemma sample_allocations: "active_allocations (sample_vault_state cap tokens) = [sample_allocation cap]"
  by (simp add: active_allocations_def sample_vault_state_def sample_allocation_def default_pubkey_def)

lemma sample_allocation_simps: "weight (sample_allocation cap) = 3" "limit (sample_allocation cap) = of_int (uint cap)"
  by (simp_all add: weight_def limit_def sample_allocation_def)

lemma idle_holdings:
  assumes L: "d_round L 0 = 0" "d_round L 1 = 1" "d_round L (of_int (uint tokens)) = of_int (uint tokens)" "sf_dec L 0 = Fin 0"
    and r: "hm_get m 101 = Some r" "getCollateralExchangeRate L (r_state r) = Fin b" "b \<noteq> 0"
  shows "\<exists>h. getVaultHoldings (sample_vault_env L) sample_vault_client (sample_vault_state cap tokens) None (Some m) None = Inr h \<and>
    dsub L (totalAUMIncludingFees h) (pendingFees h) = Fin (of_int (uint tokens))"
proof -
  let ?st = "sample_vault_state cap tokens"
  have st: "vs_tokenMintDecimals ?st = 0" "pendingFeesSf ?st = 0" "tokenAvailable ?st = tokens" by (simp_all add: sample_vault_state_def)
  have fold: "foldE (invested_step (sample_vault_env L) None m 0) (Fin 0, hm_empty) (active_allocations ?st) = Inr (Fin 0, hm_set hm_empty 101 (Fin 0))"
    using r L by (simp add: sample_allocations invested_step_def vault_reserve_def need_def given_slot_def Let_def sample_allocation_def
        lamportsToDecimal_def dpow_def)
  show ?thesis
    unfolding getVaultHoldings_def st unat_0 Let_def reserves_or_load_def given_slot_def
    using L by (simp add: fold lamportsToDecimal_def dpow_def del: of_int_uint)
qed

lemma exact_zero_fraction: "sf_dec exact_decimals 0 = Fin 0"
  by (simp add: sf_dec_def toDecimal_eq)

lemmas fresh_exact = idle_holdings [of exact_decimals _ fresh_map fresh_reserve 1, simplified hm_get_set exact_round exact_zero_fraction fresh_rate, simplified]

lemma sample_weights: "\<forall>a\<in>set (active_allocations (sample_vault_state cap tokens)). 0 < weight a"
  by (simp add: sample_allocations sample_allocation_simps)

text \<open>Sixty tokens and a cap of forty: the reserve gets its cap, then, the weights being used up, the other twenty too.\<close>

lemma sample_capped_loop:
  "\<exists>d. alloc_loop (sample_vault_env exact_decimals) (getVaultAllocations (sample_vault_state 40 tokens)) [101]
     \<lparr>leftToInvest = Fin 60, allocationSum = Fin 3, distribution = hm_empty\<rparr> = Some d"
proof -
  let ?V = "sample_vault_env exact_decimals" and ?al = "getVaultAllocations (sample_vault_state 40 tokens)" and ?a = "sample_allocation 40"
  let ?s = "\<lparr>leftToInvest = Fin 60, allocationSum = Fin 3, distribution = hm_empty\<rparr>"
  have get: "hm_get ?al 101 = Some (overview_of ?a)"
    using vault_allocation_get [of 101 "sample_vault_state 40 tokens"] by (simp add: getVaultReserves_def sample_allocations) (simp add: sample_allocation_def)
  note step = alloc_step_exact [of ?V ?al 101 ?a, simplified sample_vault_simps exact_round, OF _ _ get]
  have s1: "alloc_pass ?V ?al [101] ?s = \<lparr>leftToInvest = Fin 20, allocationSum = Fin 0, distribution = hm_set hm_empty 101 (Fin 40)\<rparr>"
    using step [of 60 ?s 60 3]
    by (simp add: alloc_pass_def sample_allocation_simps step_amount_def finite_amounts_def placed_def hm.lookup_empty)
  have "leftToInvest (alloc_pass ?V ?al [101] (alloc_pass ?V ?al [101] ?s)) = Fin 0"
    unfolding s1 using step [of 20 "\<lparr>leftToInvest = Fin 20, allocationSum = Fin 0, distribution = hm_set hm_empty 101 (Fin 40)\<rparr>" 20 0]
    by (simp add: alloc_pass_def sample_allocation_simps step_amount_def finite_amounts_def hm_get_set hm.lookup_empty)
  then have "alloc_loop ?V ?al [101] (alloc_pass ?V ?al [101] (alloc_pass ?V ?al [101] ?s)) = Some (distribution (alloc_pass ?V ?al [101] (alloc_pass ?V ?al [101] ?s)))"
    by (intro alloc_loop_ends) simp
  moreover have "alloc_loop ?V ?al [101] ?s = alloc_loop ?V ?al [101] (alloc_pass ?V ?al [101] ?s)"
    by (rule alloc_loop_again) simp
  moreover have "\<dots> = alloc_loop ?V ?al [101] (alloc_pass ?V ?al [101] (alloc_pass ?V ?al [101] ?s))"
    by (rule alloc_loop_again) (simp add: s1)
  ultimately show ?thesis by simp
qed

lemma sample_vault_weight: "decimal_laws L \<or> L = exact_decimals \<Longrightarrow>
  foldl (\<lambda>t a. dadd L t (targetWeight a)) (Fin 0) (hm_values (getVaultAllocations (sample_vault_state cap tokens))) = Fin 3"
proof -
  assume L: "decimal_laws L \<or> L = exact_decimals"
  have "distinct (getVaultReserves (sample_vault_state cap tokens))" by (simp add: getVaultReserves_def sample_allocations)
  then have "hm_values (getVaultAllocations (sample_vault_state cap tokens)) = [overview_of (sample_allocation cap)]"
    using mset_vault_allocations [of "sample_vault_state cap tokens"] by (simp add: sample_allocations)
  moreover have "d_round L 3 = 3" using L decimal_laws.d_int [of L 3] by auto
  ultimately show ?thesis by (simp add: sample_allocation_simps)
qed




section \<open>A vault of at most one token\<close>


lemma sample_rate: "\<exists>b. getCollateralExchangeRate decimal_js sample_state = Fin b \<and> b \<noteq> 0"
proof -
  obtain t where t: "getTotalSupply decimal_js sample_state = Fin t" "600000000 \<le> t" using sample_supply by blast
  have ten: "d_round decimal_js (10 ^ 10) = 10 ^ 10" by (rule djs.d_pow10)
  have "getBorrowedAmount decimal_js sample_state = Fin (d_round decimal_js (461168601842738790400000000 / mult_repr))"
    by (simp add: getBorrowedAmount_def djs.sf_dec_Fin sample_state_def)
  moreover have "d_round decimal_js (461168601842738790400000000 / mult_repr) \<le> 1000000000"
    by (rule djs.d_le_fixed) (simp_all add: mult_repr_def djs.d_int [of 1000000000, simplified])
  ultimately obtain q where q: "getBorrowedAmount decimal_js sample_state = Fin q" "q \<le> 1000000000" by blast
  have z: "sf_dec decimal_js 0 = Fin 0" by (simp add: djs.sf_dec_Fin)
  have "t = d_round decimal_js (600000000 + q)"
    using t(1) unfolding getTotalSupply_def getAccumulatedProtocolFees_def getAccumulatedReferrerFees_def getPendingReferrerFees_def
      getLiquidityAvailableAmount_def q(1) by (simp add: sample_defs z djs.d_idem)
  then have "t \<le> 10 ^ 10" using q(2) ten by (auto intro: djs.d_le_fixed)
  then have "1 / 10 ^ 2 \<le> 900000000 / t" using t(2) by (simp add: field_simps)
  then have "0 < d_round decimal_js (900000000 / t)" by (intro djs.d_pos dec_tiny_le [of 2]) simp_all
  then show ?thesis using t by (simp add: getCollateralExchangeRate_def sample_defs)
qed


end
