(* ===== verification/Market_Config.thy ===== *)
theory Market_Config
  imports Reserve_Config Instructions
begin

text \<open>
  Updating the configuration of a lending market (\<open>src/ts-client/src/classes/manager.ts\<close>, below the class \<open>KaminoManager\<close>):
  \<open>updateLendingMarketConfig\<close> compares one field of the account with the wanted market and queues an update,
  \<open>updateMarketConfigEncodedValue\<close> writes its payload of 72 bytes, and \<open>parseForChangesMarketConfigAndGetIxs\<close> visits the fields in the
  order of \<open>toJSON\<close> and builds one instruction for each update.
\<close>

section \<open>Update modes\<close>

datatype (plugins only: code) update_lending_market_mode =
    M_UpdateOwner | M_UpdateEmergencyMode | M_UpdateLiquidationCloseFactor | M_UpdateLiquidationMaxValue
  | M_DeprecatedUpdateGlobalUnhealthyBorrow | M_UpdateGlobalAllowedBorrow | M_UpdateRiskCouncil | M_UpdateMinFullLiquidationThreshold
  | M_UpdateInsolvencyRiskLtv | M_UpdateElevationGroup | M_UpdateReferralFeeBps | M_DeprecatedUpdateMultiplierPoints
  | M_UpdatePriceRefreshTriggerToMaxAgePct | M_UpdateAutodeleverageEnabled | M_UpdateBorrowingDisabled
  | M_UpdateMinNetValueObligationPostAction | M_UpdateMinValueLtvSkipPriorityLiqCheck | M_UpdateMinValueBfSkipPriorityLiqCheck
  | M_UpdatePaddingFields | M_UpdateName | M_UpdateIndividualAutodeleverageMarginCallPeriodSecs | M_UpdateInitialDepositAmount

primrec market_discriminator :: "update_lending_market_mode \<Rightarrow> nat" where
  "market_discriminator M_UpdateOwner = 0"
| "market_discriminator M_UpdateEmergencyMode = 1"
| "market_discriminator M_UpdateLiquidationCloseFactor = 2"
| "market_discriminator M_UpdateLiquidationMaxValue = 3"
| "market_discriminator M_DeprecatedUpdateGlobalUnhealthyBorrow = 4"
| "market_discriminator M_UpdateGlobalAllowedBorrow = 5"
| "market_discriminator M_UpdateRiskCouncil = 6"
| "market_discriminator M_UpdateMinFullLiquidationThreshold = 7"
| "market_discriminator M_UpdateInsolvencyRiskLtv = 8"
| "market_discriminator M_UpdateElevationGroup = 9"
| "market_discriminator M_UpdateReferralFeeBps = 10"
| "market_discriminator M_DeprecatedUpdateMultiplierPoints = 11"
| "market_discriminator M_UpdatePriceRefreshTriggerToMaxAgePct = 12"
| "market_discriminator M_UpdateAutodeleverageEnabled = 13"
| "market_discriminator M_UpdateBorrowingDisabled = 14"
| "market_discriminator M_UpdateMinNetValueObligationPostAction = 15"
| "market_discriminator M_UpdateMinValueLtvSkipPriorityLiqCheck = 16"
| "market_discriminator M_UpdateMinValueBfSkipPriorityLiqCheck = 17"
| "market_discriminator M_UpdatePaddingFields = 18"
| "market_discriminator M_UpdateName = 19"
| "market_discriminator M_UpdateIndividualAutodeleverageMarginCallPeriodSecs = 20"
| "market_discriminator M_UpdateInitialDepositAmount = 21"

text \<open>The keys of the market, in the order of \<open>LendingMarket.toJSON\<close>.\<close>

datatype (plugins only: code) lending_market_key =
    MK_version | MK_bumpSeed | MK_lendingMarketOwner | MK_lendingMarketOwnerCached | MK_quoteCurrency | MK_referralFeeBps
  | MK_emergencyMode | MK_autodeleverageEnabled | MK_borrowDisabled | MK_priceRefreshTriggerToMaxAgePct
  | MK_liquidationMaxDebtCloseFactorPct | MK_insolvencyRiskUnhealthyLtvPct | MK_minFullLiquidationValueThreshold
  | MK_maxLiquidatableDebtMarketValueAtOnce | MK_reserved0 | MK_globalAllowedBorrowValue | MK_riskCouncil | MK_reserved1
  | MK_elevationGroups | MK_elevationGroupPadding | MK_minNetValueInObligationSf | MK_minValueSkipLiquidationLtvChecks | MK_name
  | MK_minValueSkipLiquidationBfChecks | MK_individualAutodeleverageMarginCallPeriodSecs | MK_minInitialDepositAmount | MK_padding1

definition lending_market_keys :: "lending_market_key list" where
  "lending_market_keys =
     [MK_version, MK_bumpSeed, MK_lendingMarketOwner, MK_lendingMarketOwnerCached, MK_quoteCurrency, MK_referralFeeBps,
      MK_emergencyMode, MK_autodeleverageEnabled, MK_borrowDisabled, MK_priceRefreshTriggerToMaxAgePct,
      MK_liquidationMaxDebtCloseFactorPct, MK_insolvencyRiskUnhealthyLtvPct, MK_minFullLiquidationValueThreshold,
      MK_maxLiquidatableDebtMarketValueAtOnce, MK_reserved0, MK_globalAllowedBorrowValue, MK_riskCouncil, MK_reserved1,
      MK_elevationGroups, MK_elevationGroupPadding, MK_minNetValueInObligationSf, MK_minValueSkipLiquidationLtvChecks, MK_name,
      MK_minValueSkipLiquidationBfChecks, MK_individualAutodeleverageMarginCallPeriodSecs, MK_minInitialDepositAmount, MK_padding1]"

definition isExcludedLendingMarketKey :: "lending_market_key \<Rightarrow> bool" where
  "isExcludedLendingMarketKey k \<longleftrightarrow>
     k \<in> {MK_version, MK_bumpSeed, MK_reserved0, MK_reserved1, MK_padding1, MK_elevationGroupPadding, MK_quoteCurrency}"

section \<open>Payloads\<close>

text \<open>
  The argument of \<open>updateMarketConfigEncodedValue\<close>: a number, an array of numbers, a key, a group, or the decimal text of an integer,
  which \<open>BigInt\<close> reads back.
\<close>

datatype market_value = MNum int | MNums "int list" | MKey pubkey | MGroup elevation_group | MText int

fun market_number :: "market_value \<Rightarrow> int result" where
  "market_number (MNum n) = Inr n"
| "market_number _ = Inl TypeError"

text \<open>\<open>source.copy(target, offset)\<close> copies what fits.\<close>

definition buf_copy :: "byte list \<Rightarrow> nat \<Rightarrow> byte list \<Rightarrow> byte list" where
  "buf_copy src off buf = take off buf @ take (length buf - off) src @ drop (off + length src) buf"

definition serializeElevationGroup :: "borsh_lib \<Rightarrow> elevation_group \<Rightarrow> byte list result" where
  "serializeElevationGroup B g =
     bindE (write_le 2 (uint (eg_maxLiquidationBonusBps g)) 0 (alloc 72)) (\<lambda>b.
     bindE (write_le 1 (uint (eg_id g)) 2 b) (\<lambda>b.
     bindE (write_le 1 (uint (ltvPct g)) 3 b) (\<lambda>b.
     bindE (write_le 1 (uint (eg_liquidationThresholdPct g)) 4 b) (\<lambda>b.
     bindE (write_le 1 (uint (allowNewLoans g)) 5 b) (\<lambda>b.
     bindE (write_le 1 (uint (eg_maxReservesAsCollateral g)) 6 b) (\<lambda>b.
     bindE (write_le 1 (uint (eg_padding0 g)) 7 b) (\<lambda>b.
       Inr (buf_copy (bo_key B (eg_debtReserve g)) 8 b))))))))"

text \<open>The loop \<open>buffer[15 - i] = Number((valueBigInt >> BigInt(i * 8)) & BigInt(0xff))\<close> for \<open>i\<close> from 0 to 15.\<close>

definition write_be16 :: "int \<Rightarrow> byte list \<Rightarrow> byte list" where
  "write_be16 v buf = foldl (\<lambda>b i. b[15 - i := of_int (v div 256 ^ i mod 256)]) buf [0..<16]"

definition is_market_mode :: "nat \<Rightarrow> update_lending_market_mode list \<Rightarrow> bool" where
  "is_market_mode d ms \<longleftrightarrow> d \<in> set (map market_discriminator ms)"

definition updateMarketConfigEncodedValue :: "borsh_lib \<Rightarrow> nat \<Rightarrow> market_value \<Rightarrow> byte list result" where
  "updateMarketConfigEncodedValue B d value =
     (if is_market_mode d [M_UpdateEmergencyMode, M_UpdateLiquidationCloseFactor, M_UpdateInsolvencyRiskLtv,
          M_UpdatePriceRefreshTriggerToMaxAgePct, M_UpdateAutodeleverageEnabled, M_UpdateBorrowingDisabled]
      then bindE (market_number value) (\<lambda>n. write_le 1 n 0 (alloc 72))
      else if is_market_mode d [M_UpdateReferralFeeBps]
      then bindE (market_number value) (\<lambda>n. write_le 2 n 0 (alloc 72))
      else if is_market_mode d [M_UpdateLiquidationMaxValue, M_UpdateGlobalAllowedBorrow, M_UpdateMinFullLiquidationThreshold,
          M_UpdateMinValueBfSkipPriorityLiqCheck, M_UpdateMinValueLtvSkipPriorityLiqCheck,
          M_UpdateIndividualAutodeleverageMarginCallPeriodSecs, M_UpdateInitialDepositAmount]
      then bindE (market_number value) (\<lambda>n. write_le 8 n 0 (alloc 72))
      else if is_market_mode d [M_UpdateOwner, M_UpdateRiskCouncil]
      then (case value of MKey k \<Rightarrow> Inr (buf_copy (bo_key B k) 0 (alloc 72)) | _ \<Rightarrow> Inl TypeError)
      else if is_market_mode d [M_UpdateElevationGroup]
      then (case value of MGroup g \<Rightarrow> serializeElevationGroup B g | _ \<Rightarrow> Inl TypeError)
      else if is_market_mode d [M_UpdateMinNetValueObligationPostAction]
      then (case value of MText v \<Rightarrow> Inr (write_be16 v (alloc 72)) | _ \<Rightarrow> Inl TypeError)
      else if is_market_mode d [M_UpdateName]
      then (case value of MNums vs \<Rightarrow> write_all 1 vs 0 (alloc 72) | _ \<Rightarrow> Inl TypeError)
      else if is_market_mode d [M_UpdatePaddingFields, M_DeprecatedUpdateGlobalUnhealthyBorrow, M_DeprecatedUpdateMultiplierPoints]
      then Inr (alloc 72)
      else Inl (Throw ''Unexpected object''))"

section \<open>The cases of the switch\<close>

record market_update =
  mu_mode :: nat
  mu_value :: "byte list"

definition market_update_if :: "borsh_lib \<Rightarrow> bool \<Rightarrow> update_lending_market_mode \<Rightarrow> market_value result \<Rightarrow> market_update list result" where
  "market_update_if B changed m v =
     (if changed then
        bindE v (\<lambda>x.
        bindE (updateMarketConfigEncodedValue B (market_discriminator m) x) (\<lambda>bs.
          Inr [\<lparr>mu_mode = market_discriminator m, mu_value = bs\<rparr>]))
      else Inr [])"

definition market_num :: "'a::len word \<Rightarrow> market_value result" where
  "market_num w = Inr (MNum (uint w))"

definition market_bn :: "num_lib \<Rightarrow> 'a::len word \<Rightarrow> market_value result" where
  "market_bn L w = bindE (bn_toNumber L (uint w)) (\<lambda>n. Inr (MNum n))"

definition group_differs :: "elevation_group \<Rightarrow> elevation_group \<Rightarrow> bool" where
  "group_differs old new \<longleftrightarrow>
     eg_id old \<noteq> eg_id new \<or> eg_maxLiquidationBonusBps old \<noteq> eg_maxLiquidationBonusBps new \<or> ltvPct old \<noteq> ltvPct new \<or>
     eg_liquidationThresholdPct old \<noteq> eg_liquidationThresholdPct new \<or> allowNewLoans old \<noteq> allowNewLoans new \<or>
     eg_maxReservesAsCollateral old \<noteq> eg_maxReservesAsCollateral new \<or> eg_debtReserve old \<noteq> eg_debtReserve new"

text \<open>The loop over the groups of the account; a group the wanted market does not have is a type error.\<close>

fun group_updates :: "borsh_lib \<Rightarrow> elevation_group list \<Rightarrow> elevation_group list \<Rightarrow> market_update list result" where
  "group_updates B [] news = Inr []"
| "group_updates B (old # olds) [] = Inl TypeError"
| "group_updates B (old # olds) (new # news) =
     bindE (market_update_if B (group_differs old new) M_UpdateElevationGroup (Inr (MGroup new))) (\<lambda>u.
     bindE (group_updates B olds news) (\<lambda>us. Inr (u @ us)))"

text \<open>
  \<open>sameObject\<close> says whether the two markets hold the same BN object in \<open>individualAutodeleverageMarginCallPeriodSecs\<close>: that field
  is compared with \<open>!==\<close>, by identity. The reserved keys, which the caller skips, reach \<open>assertNever\<close>.
\<close>

primrec updateLendingMarketConfig ::
    "num_lib \<Rightarrow> borsh_lib \<Rightarrow> bool \<Rightarrow> lending_market_key \<Rightarrow> lending_market \<Rightarrow> lending_market \<Rightarrow> market_update list result" where
  "updateLendingMarketConfig L B sameObject MK_version = (\<lambda>m n. Inl (Throw ''Unexpected object''))"
| "updateLendingMarketConfig L B sameObject MK_bumpSeed = (\<lambda>m n. Inl (Throw ''Unexpected object''))"
| "updateLendingMarketConfig L B sameObject MK_lendingMarketOwner = (\<lambda>m n.
     market_update_if B (lendingMarketOwner m \<noteq> lendingMarketOwner n) M_UpdateOwner (Inr (MKey (lendingMarketOwner n))))"
| "updateLendingMarketConfig L B sameObject MK_lendingMarketOwnerCached = (\<lambda>m n.
     market_update_if B (lendingMarketOwnerCached m \<noteq> lendingMarketOwnerCached n) M_UpdateOwner (Inr (MKey (lendingMarketOwnerCached n))))"
| "updateLendingMarketConfig L B sameObject MK_quoteCurrency = (\<lambda>m n. Inl (Throw ''Unexpected object''))"
| "updateLendingMarketConfig L B sameObject MK_referralFeeBps = (\<lambda>m n.
     market_update_if B (referralFeeBps m \<noteq> referralFeeBps n) M_UpdateReferralFeeBps (market_num (referralFeeBps n)))"
| "updateLendingMarketConfig L B sameObject MK_emergencyMode = (\<lambda>m n.
     market_update_if B (emergencyMode m \<noteq> emergencyMode n) M_UpdateEmergencyMode (market_num (emergencyMode n)))"
| "updateLendingMarketConfig L B sameObject MK_autodeleverageEnabled = (\<lambda>m n.
     market_update_if B (lm_autodeleverageEnabled m \<noteq> lm_autodeleverageEnabled n) M_UpdateAutodeleverageEnabled
       (market_num (lm_autodeleverageEnabled n)))"
| "updateLendingMarketConfig L B sameObject MK_borrowDisabled = (\<lambda>m n.
     market_update_if B (borrowDisabled m \<noteq> borrowDisabled n) M_UpdateBorrowingDisabled (market_num (borrowDisabled n)))"
| "updateLendingMarketConfig L B sameObject MK_priceRefreshTriggerToMaxAgePct = (\<lambda>m n.
     market_update_if B (priceRefreshTriggerToMaxAgePct m \<noteq> priceRefreshTriggerToMaxAgePct n) M_UpdatePriceRefreshTriggerToMaxAgePct
       (market_num (priceRefreshTriggerToMaxAgePct n)))"
| "updateLendingMarketConfig L B sameObject MK_liquidationMaxDebtCloseFactorPct = (\<lambda>m n.
     market_update_if B (liquidationMaxDebtCloseFactorPct m \<noteq> liquidationMaxDebtCloseFactorPct n) M_UpdateLiquidationCloseFactor
       (market_num (liquidationMaxDebtCloseFactorPct n)))"
| "updateLendingMarketConfig L B sameObject MK_insolvencyRiskUnhealthyLtvPct = (\<lambda>m n.
     market_update_if B (insolvencyRiskUnhealthyLtvPct m \<noteq> insolvencyRiskUnhealthyLtvPct n) M_UpdateInsolvencyRiskLtv
       (market_num (insolvencyRiskUnhealthyLtvPct n)))"
| "updateLendingMarketConfig L B sameObject MK_minFullLiquidationValueThreshold = (\<lambda>m n.
     market_update_if B (minFullLiquidationValueThreshold m \<noteq> minFullLiquidationValueThreshold n) M_UpdateMinFullLiquidationThreshold
       (market_bn L (minFullLiquidationValueThreshold n)))"
| "updateLendingMarketConfig L B sameObject MK_maxLiquidatableDebtMarketValueAtOnce = (\<lambda>m n.
     market_update_if B (maxLiquidatableDebtMarketValueAtOnce m \<noteq> maxLiquidatableDebtMarketValueAtOnce n) M_UpdateLiquidationMaxValue
       (market_bn L (maxLiquidatableDebtMarketValueAtOnce n)))"
| "updateLendingMarketConfig L B sameObject MK_reserved0 = (\<lambda>m n. Inl (Throw ''Unexpected object''))"
| "updateLendingMarketConfig L B sameObject MK_globalAllowedBorrowValue = (\<lambda>m n.
     market_update_if B (globalAllowedBorrowValue m \<noteq> globalAllowedBorrowValue n) M_UpdateGlobalAllowedBorrow
       (market_bn L (globalAllowedBorrowValue n)))"
| "updateLendingMarketConfig L B sameObject MK_riskCouncil = (\<lambda>m n.
     market_update_if B (riskCouncil m \<noteq> riskCouncil n) M_UpdateRiskCouncil (Inr (MKey (riskCouncil n))))"
| "updateLendingMarketConfig L B sameObject MK_reserved1 = (\<lambda>m n. Inl (Throw ''Unexpected object''))"
| "updateLendingMarketConfig L B sameObject MK_elevationGroups = (\<lambda>m n.
     bindE (group_updates B (lm_elevationGroups m) (lm_elevationGroups n)) (\<lambda>us.
       if length us > 1 then Inl (Throw ''Can only update 1 elevation group at a time'') else Inr us))"
| "updateLendingMarketConfig L B sameObject MK_elevationGroupPadding = (\<lambda>m n. Inl (Throw ''Unexpected object''))"
| "updateLendingMarketConfig L B sameObject MK_minNetValueInObligationSf = (\<lambda>m n.
     market_update_if B (minNetValueInObligationSf m \<noteq> minNetValueInObligationSf n) M_UpdateMinNetValueObligationPostAction
       (Inr (MText (uint (minNetValueInObligationSf n)))))"
| "updateLendingMarketConfig L B sameObject MK_minValueSkipLiquidationLtvChecks = (\<lambda>m n.
     market_update_if B (minValueSkipLiquidationLtvChecks m \<noteq> minValueSkipLiquidationLtvChecks n) M_UpdateMinValueLtvSkipPriorityLiqCheck
       (market_bn L (minValueSkipLiquidationLtvChecks n)))"
| "updateLendingMarketConfig L B sameObject MK_name = (\<lambda>m n.
     bindE (sameLengthArrayEquals (=) (lm_name m) (lm_name n)) (\<lambda>same.
       market_update_if B (\<not> same) M_UpdateName (Inr (MNums (map uint (lm_name n))))))"
| "updateLendingMarketConfig L B sameObject MK_minValueSkipLiquidationBfChecks = (\<lambda>m n.
     market_update_if B (minValueSkipLiquidationBfChecks m \<noteq> minValueSkipLiquidationBfChecks n) M_UpdateMinValueBfSkipPriorityLiqCheck
       (market_bn L (minValueSkipLiquidationBfChecks n)))"
| "updateLendingMarketConfig L B sameObject MK_individualAutodeleverageMarginCallPeriodSecs = (\<lambda>m n.
     market_update_if B (\<not> sameObject) M_UpdateIndividualAutodeleverageMarginCallPeriodSecs
       (market_bn L (individualAutodeleverageMarginCallPeriodSecs n)))"
| "updateLendingMarketConfig L B sameObject MK_minInitialDepositAmount = (\<lambda>m n.
     market_update_if B (minInitialDepositAmount m \<noteq> minInitialDepositAmount n) M_UpdateInitialDepositAmount
       (market_bn L (minInitialDepositAmount n)))"
| "updateLendingMarketConfig L B sameObject MK_padding1 = (\<lambda>m n. Inl (Throw ''Unexpected object''))"

section \<open>The instructions\<close>

record update_lending_market_accounts =
  ulm_lendingMarketOwner :: pubkey
  ulm_lendingMarket :: pubkey

definition updateLendingMarket_identifier :: "byte list" where
  "updateLendingMarket_identifier = [209, 157, 53, 210, 97, 180, 31, 45]"

definition updateLendingMarket :: "borsh_lib \<Rightarrow> int \<Rightarrow> byte list \<Rightarrow> update_lending_market_accounts \<Rightarrow> pubkey \<Rightarrow> instruction result" where
  "updateLendingMarket B mode value accounts programId =
     ix_with_data [meta (ulm_lendingMarketOwner accounts) True False, meta (ulm_lendingMarket accounts) False True]
       programId updateLendingMarket_identifier (bo_bn B 8 mode @ value)"

definition updateMarketConfigIx :: "borsh_lib \<Rightarrow> pubkey \<Rightarrow> lending_market \<Rightarrow> nat \<Rightarrow> byte list \<Rightarrow> pubkey \<Rightarrow> instruction result" where
  "updateMarketConfigIx B address m mode value programId =
     updateLendingMarket B (int mode) value \<lparr>ulm_lendingMarketOwner = lendingMarketOwner m, ulm_lendingMarket = address\<rparr> programId"

definition market_updates :: "num_lib \<Rightarrow> borsh_lib \<Rightarrow> bool \<Rightarrow> lending_market \<Rightarrow> lending_market \<Rightarrow> market_update list result" where
  "market_updates L B sameObject m n =
     foldE (\<lambda>us k. if isExcludedLendingMarketKey k then Inr us
                    else bindE (updateLendingMarketConfig L B sameObject k m n) (\<lambda>u. Inr (us @ u))) [] lending_market_keys"

definition parseForChangesMarketConfigAndGetIxs ::
    "num_lib \<Rightarrow> borsh_lib \<Rightarrow> bool \<Rightarrow> pubkey \<Rightarrow> lending_market \<Rightarrow> lending_market \<Rightarrow> pubkey \<Rightarrow> instruction list result" where
  "parseForChangesMarketConfigAndGetIxs L B sameObject address m n programId =
     bindE (market_updates L B sameObject m n) (\<lambda>us.
       mapE (\<lambda>u. updateMarketConfigIx B address m (mu_mode u) (mu_value u) programId) us)"

definition updateLendingMarketIxs ::
    "num_lib \<Rightarrow> borsh_lib \<Rightarrow> pubkey \<Rightarrow> bool \<Rightarrow> pubkey \<Rightarrow> lending_market \<Rightarrow> lending_market \<Rightarrow> instruction list result" where
  "updateLendingMarketIxs L B kaminoLendProgramId sameObject address m n =
     parseForChangesMarketConfigAndGetIxs L B sameObject address m n kaminoLendProgramId"

definition updateLendingMarketOwnerIxs :: "pubkey \<Rightarrow> pubkey \<Rightarrow> lending_market \<Rightarrow> instruction" where
  "updateLendingMarketOwnerIxs kaminoLendProgramId address m =
     updateLendingMarketOwner \<lparr>ulo_lendingMarketOwnerCached = lendingMarketOwnerCached m, ulo_lendingMarket = address\<rparr> kaminoLendProgramId"

end
