(* ===== verification/Market_Program.thy ===== *)
theory Market_Program
  imports Market_Config
begin

text \<open>
  What the lending program does with an update of a market (\<open>src/programs/klend/src/handlers/handler_update_lending_market.rs\<close>), and the
  client and the program together: running the handler on the updates of \<open>parseForChangesMarketConfigAndGetIxs\<close>. An error of the program
  is a throw with its name. The borsh crate and the conversion of 32 bytes to a key are those of \<open>borsh_lib\<close>; the comparison of the
  liquidation bonus with the threshold, in the fixed-point numbers of the crate \<open>fixed\<close>, is the parameter \<open>bonus_exceeds\<close>.
\<close>

section \<open>The handler\<close>

definition all_modes :: "update_lending_market_mode list" where
  "all_modes =
     [M_UpdateOwner, M_UpdateEmergencyMode, M_UpdateLiquidationCloseFactor, M_UpdateLiquidationMaxValue,
      M_DeprecatedUpdateGlobalUnhealthyBorrow, M_UpdateGlobalAllowedBorrow, M_UpdateRiskCouncil, M_UpdateMinFullLiquidationThreshold,
      M_UpdateInsolvencyRiskLtv, M_UpdateElevationGroup, M_UpdateReferralFeeBps, M_DeprecatedUpdateMultiplierPoints,
      M_UpdatePriceRefreshTriggerToMaxAgePct, M_UpdateAutodeleverageEnabled, M_UpdateBorrowingDisabled,
      M_UpdateMinNetValueObligationPostAction, M_UpdateMinValueLtvSkipPriorityLiqCheck, M_UpdateMinValueBfSkipPriorityLiqCheck,
      M_UpdatePaddingFields, M_UpdateName, M_UpdateIndividualAutodeleverageMarginCallPeriodSecs, M_UpdateInitialDepositAmount]"

text \<open>\<open>u16::from_le_bytes\<close> and its siblings on the first bytes, and \<open>Pubkey::from\<close> on the first 32.\<close>

definition from_le :: "nat \<Rightarrow> byte list \<Rightarrow> 'a::len word" where
  "from_le n value = of_nat (le_value (take n value))"

definition key_from :: "borsh_lib \<Rightarrow> byte list \<Rightarrow> pubkey" where
  "key_from B value = fst (the (bo_key_dec B (take 32 value)))"

text \<open>\<open>std::str::from_utf8\<close> accepts exactly the well-formed sequences; \<open>pending\<close> is the number of bytes a character still needs.\<close>

fun utf8_scan :: "nat \<Rightarrow> nat \<Rightarrow> nat \<Rightarrow> nat list \<Rightarrow> bool" where
  "utf8_scan pending lower upper [] \<longleftrightarrow> pending = 0"
| "utf8_scan pending lower upper (b # bs) \<longleftrightarrow>
     (if pending = 0 then
        if b < 128 then utf8_scan 0 128 191 bs
        else if 194 \<le> b \<and> b \<le> 223 then utf8_scan 1 128 191 bs
        else if 224 \<le> b \<and> b \<le> 239 then utf8_scan 2 (if b = 224 then 160 else 128) (if b = 237 then 159 else 191) bs
        else if 240 \<le> b \<and> b \<le> 244 then utf8_scan 3 (if b = 240 then 144 else 128) (if b = 244 then 143 else 191) bs
        else False
      else lower \<le> b \<and> b \<le> upper \<and> utf8_scan (pending - 1) 128 191 bs)"

definition valid_utf8 :: "byte list \<Rightarrow> bool" where
  "valid_utf8 bs \<longleftrightarrow> utf8_scan 0 128 191 (map unat bs)"

text \<open>\<open>BorshDeserialize\<close> of an \<open>ElevationGroup\<close>; its second padding is read and not kept.\<close>

definition dec_ElevationGroup :: "borsh_lib \<Rightarrow> byte list \<Rightarrow> elevation_group option" where
  "dec_ElevationGroup B bs = do {
     (bonus, bs) \<leftarrow> bo_word_dec B bs;
     (ident, bs) \<leftarrow> bo_word_dec B bs;
     (ltv, bs) \<leftarrow> bo_word_dec B bs;
     (threshold, bs) \<leftarrow> bo_word_dec B bs;
     (allow, bs) \<leftarrow> bo_word_dec B bs;
     (maxReserves, bs) \<leftarrow> bo_word_dec B bs;
     (padding, bs) \<leftarrow> bo_word_dec B bs;
     (debt, bs) \<leftarrow> bo_key_dec B bs;
     (_, bs) \<leftarrow> bo_uint_dec B 8 bs;
     (_, bs) \<leftarrow> bo_uint_dec B 8 bs;
     (_, bs) \<leftarrow> bo_uint_dec B 8 bs;
     (_, bs) \<leftarrow> bo_uint_dec B 8 bs;
     Some \<lparr>eg_maxLiquidationBonusBps = bonus, eg_id = ident, ltvPct = ltv, eg_liquidationThresholdPct = threshold,
           allowNewLoans = allow, eg_maxReservesAsCollateral = maxReserves, eg_padding0 = padding, eg_debtReserve = debt\<rparr> }"

text \<open>The checks of the handler on a group, in the order of the code; all of them return the same error.\<close>

definition group_accepted :: "(u8 \<Rightarrow> u16 \<Rightarrow> bool) \<Rightarrow> elevation_group \<Rightarrow> bool" where
  "group_accepted bonus_exceeds g \<longleftrightarrow>
     eg_id g \<le> 32 \<and> \<not> (eg_id g \<noteq> 0 \<and> eg_liquidationThresholdPct g = 0) \<and>
     \<not> (eg_liquidationThresholdPct g \<ge> 100 \<or> ltvPct g \<ge> 100 \<or> ltvPct g > eg_liquidationThresholdPct g \<or> eg_maxLiquidationBonusBps g > 10000) \<and>
     \<not> (eg_id g \<noteq> 0 \<and> (eg_debtReserve g = default_pubkey \<or> eg_maxReservesAsCollateral g = 0)) \<and>
     \<not> bonus_exceeds (eg_liquidationThresholdPct g) (eg_maxLiquidationBonusBps g)"

definition set_elevation_group :: "elevation_group \<Rightarrow> lending_market \<Rightarrow> lending_market result" where
  "set_elevation_group g m =
     (if eg_id g = 0 then Inl (Throw ''InvalidElevationGroupConfig'')
      else if unat (eg_id g) - 1 < length (lm_elevationGroups m)
      then Inr (m\<lparr>lm_elevationGroups := (lm_elevationGroups m)[unat (eg_id g) - 1 := g]\<rparr>)
      else Inl (Throw ''panic''))"

definition checked :: "bool \<Rightarrow> string \<Rightarrow> lending_market \<Rightarrow> lending_market result" where
  "checked ok name m = (if ok then Inr m else Inl (Throw name))"

primrec process_mode :: "borsh_lib \<Rightarrow> (u8 \<Rightarrow> u16 \<Rightarrow> bool) \<Rightarrow> update_lending_market_mode \<Rightarrow> byte list \<Rightarrow> lending_market \<Rightarrow> lending_market result" where
  "process_mode B X M_UpdateOwner = (\<lambda>value m. Inr (m\<lparr>lendingMarketOwnerCached := key_from B value\<rparr>))"
| "process_mode B X M_UpdateEmergencyMode = (\<lambda>value m.
     checked (value ! 0 = 0 \<or> value ! 0 = 1) ''InvalidFlag'' (m\<lparr>emergencyMode := value ! 0\<rparr>))"
| "process_mode B X M_UpdateLiquidationCloseFactor = (\<lambda>value m.
     checked (5 \<le> value ! 0 \<and> value ! 0 \<le> 100) ''InvalidFlag'' (m\<lparr>liquidationMaxDebtCloseFactorPct := value ! 0\<rparr>))"
| "process_mode B X M_UpdateLiquidationMaxValue = (\<lambda>value m. let v = from_le 8 value in
     checked (v \<noteq> 0) ''InvalidFlag'' (m\<lparr>maxLiquidatableDebtMarketValueAtOnce := v\<rparr>))"
| "process_mode B X M_DeprecatedUpdateGlobalUnhealthyBorrow = (\<lambda>value m. Inl (Throw ''panic''))"
| "process_mode B X M_UpdateGlobalAllowedBorrow = (\<lambda>value m. Inr (m\<lparr>globalAllowedBorrowValue := from_le 8 value\<rparr>))"
| "process_mode B X M_UpdateRiskCouncil = (\<lambda>value m. Inr (m\<lparr>riskCouncil := key_from B value\<rparr>))"
| "process_mode B X M_UpdateMinFullLiquidationThreshold = (\<lambda>value m. let v = from_le 8 value in
     checked (v \<noteq> 0) ''InvalidFlag'' (m\<lparr>minFullLiquidationValueThreshold := v\<rparr>))"
| "process_mode B X M_UpdateInsolvencyRiskLtv = (\<lambda>value m.
     checked (5 \<le> value ! 0 \<and> value ! 0 \<le> 100) ''InvalidFlag'' (m\<lparr>insolvencyRiskUnhealthyLtvPct := value ! 0\<rparr>))"
| "process_mode B X M_UpdateElevationGroup = (\<lambda>value m. case dec_ElevationGroup B value of
       None \<Rightarrow> Inl (Throw ''panic'')
     | Some g \<Rightarrow> if group_accepted X g then set_elevation_group g m else Inl (Throw ''InvalidElevationGroupConfig''))"
| "process_mode B X M_UpdateReferralFeeBps = (\<lambda>value m. let v = from_le 2 value in
     checked (v \<le> 10000) ''InvalidConfig'' (m\<lparr>referralFeeBps := v\<rparr>))"
| "process_mode B X M_DeprecatedUpdateMultiplierPoints = (\<lambda>value m. Inl (Throw ''panic''))"
| "process_mode B X M_UpdatePriceRefreshTriggerToMaxAgePct = (\<lambda>value m.
     checked (value ! 0 \<le> 100) ''InvalidConfig'' (m\<lparr>priceRefreshTriggerToMaxAgePct := value ! 0\<rparr>))"
| "process_mode B X M_UpdateAutodeleverageEnabled = (\<lambda>value m.
     checked (value ! 0 = 0 \<or> value ! 0 = 1) ''InvalidFlag'' (m\<lparr>lm_autodeleverageEnabled := value ! 0\<rparr>))"
| "process_mode B X M_UpdateBorrowingDisabled = (\<lambda>value m.
     checked (value ! 0 = 0 \<or> value ! 0 = 1) ''InvalidFlag'' (m\<lparr>borrowDisabled := value ! 0\<rparr>))"
| "process_mode B X M_UpdateMinNetValueObligationPostAction = (\<lambda>value m. Inr (m\<lparr>minNetValueInObligationSf := from_le 16 value\<rparr>))"
| "process_mode B X M_UpdateMinValueLtvSkipPriorityLiqCheck = (\<lambda>value m. Inr (m\<lparr>minValueSkipLiquidationLtvChecks := from_le 8 value\<rparr>))"
| "process_mode B X M_UpdateMinValueBfSkipPriorityLiqCheck = (\<lambda>value m. Inr (m\<lparr>minValueSkipLiquidationBfChecks := from_le 8 value\<rparr>))"
| "process_mode B X M_UpdatePaddingFields = (\<lambda>value m. Inr m)"
| "process_mode B X M_UpdateName = (\<lambda>value m. let name = take (length (lm_name m)) value in
     checked (valid_utf8 name \<and> valid_utf8 (lm_name m)) ''panic'' (m\<lparr>lm_name := name\<rparr>))"
| "process_mode B X M_UpdateIndividualAutodeleverageMarginCallPeriodSecs = (\<lambda>value m. let v = from_le 8 value in
     checked (v \<noteq> 0) ''InvalidConfig'' (m\<lparr>individualAutodeleverageMarginCallPeriodSecs := v\<rparr>))"
| "process_mode B X M_UpdateInitialDepositAmount = (\<lambda>value m. let v = from_le 8 value in
     checked (1000 \<le> v) ''InvalidConfig'' (m\<lparr>minInitialDepositAmount := v\<rparr>))"

definition process :: "borsh_lib \<Rightarrow> (u8 \<Rightarrow> u16 \<Rightarrow> bool) \<Rightarrow> nat \<Rightarrow> byte list \<Rightarrow> lending_market \<Rightarrow> lending_market result" where
  "process B X mode value m = (case find (\<lambda>k. market_discriminator k = mode) all_modes of
      None \<Rightarrow> Inl (Throw ''InvalidInstructionData'')
    | Some k \<Rightarrow> process_mode B X k value m)"

definition run_updates :: "borsh_lib \<Rightarrow> (u8 \<Rightarrow> u16 \<Rightarrow> bool) \<Rightarrow> lending_market \<Rightarrow> market_update list \<Rightarrow> lending_market result" where
  "run_updates B X m us = foldE (\<lambda>m u. process B X (mu_mode u) (mu_value u) m) m us"

section \<open>Payloads the program reads\<close>

text \<open>The borsh crate reads its integers little endian, as the Buffer class writes them.\<close>

locale borsh_le_laws = borsh_laws +
  assumes uint_le: "length bs = n \<Longrightarrow> bo_uint_dec B n (bs @ rest) = Some (le_value bs, rest)"
begin

lemma word_dec_le:
  assumes "256 ^ n = (2 :: nat) ^ LENGTH('a::len)" "LENGTH('a) div 8 = n"
  shows "bo_word_dec B (le_bytes n (unat w) @ rest) = Some (w :: 'a word, rest)"
  using le_value_bytes_word [OF assms(1), of w] assms(2) by (simp add: bo_word_dec_def uint_le)

lemma key_from_copy: "key_from B (buf_copy (bo_key B k) 0 (alloc 72)) = k"
  using key_dec [of k "[]"] by (simp add: key_from_def buf_copy_def key_length)

end

interpretation bll: borsh_le_laws borsh_le
  by unfold_locales (simp add: borsh_le_def)

lemma process_discriminator: "process B X (market_discriminator k) value m = process_mode B X k value m"
  by (cases k) (simp_all add: process_def all_modes_def)

lemma write_word:
  assumes "256 ^ n = (2 :: nat) ^ LENGTH('a::len)" "n \<le> j"
  shows "write_le n (uint (w :: 'a word)) (length pre) (pre @ alloc j) = Inr (pre @ le_bytes n (unat w) @ alloc (j - n))"
proof -
  have "uint w < 2 ^ LENGTH('a)" by simp
  also have "\<dots> = int ((2 :: nat) ^ LENGTH('a))" by simp
  also have "\<dots> = 256 ^ n" using assms(1) [symmetric] by simp
  finally show ?thesis using write_le_alloc [of "uint w" n j pre] assms(2) by simp
qed

lemma from_le_word:
  assumes "256 ^ n = (2 :: nat) ^ LENGTH('a::len)"
  shows "from_le n (le_bytes n (unat (w :: 'a word)) @ rest) = w"
  using le_value_bytes_word [OF assms, of w] by (simp add: from_le_def)

lemma first_byte: "(le_bytes 1 (unat (w :: u8)) @ rest) ! 0 = w"
  using unsigned_less [where 'a = nat, of w] by simp

end
