(* ===== verification/Market_Laws.thy ===== *)
theory Market_Laws
  imports Market_Program
begin

text \<open>
  The client and the program together. \<open>stored\<close> is what the update of one key leaves in the account, \<open>update_ok\<close> the conditions under
  which the program takes every update; the first property puts them together over all keys. The others say which payload is read
  wrongly and when nothing is sent.
\<close>

section \<open>Payloads\<close>

lemma write_word_72:
  assumes "256 ^ n = (2 :: nat) ^ LENGTH('a::len)" "n \<le> 72"
  shows "write_le n (uint (w :: 'a word)) 0 (alloc 72) = Inr (le_bytes n (unat w) @ alloc (72 - n))"
  using write_word [OF assms, of w "[]"] by simp

lemma widths:
  "write_le 1 (uint (w8 :: u8)) 0 (alloc 72) = Inr (le_bytes 1 (unat w8) @ alloc 71)"
  "write_le 2 (uint (w16 :: u16)) 0 (alloc 72) = Inr (le_bytes 2 (unat w16) @ alloc 70)"
  "write_le 8 (uint (w64 :: u64)) 0 (alloc 72) = Inr (le_bytes 8 (unat w64) @ alloc 64)"
  using write_word_72 [where 'a = 8 and n = 1, of w8] write_word_72 [where 'a = 16 and n = 2, of w16]
    write_word_72 [where 'a = 64 and n = 8, of w64] by simp_all

lemma serialize_group:
  assumes "borsh_laws B"
  shows "serializeElevationGroup B g = Inr (le_bytes 2 (unat (eg_maxLiquidationBonusBps g)) @ le_bytes 1 (unat (eg_id g)) @
    le_bytes 1 (unat (ltvPct g)) @ le_bytes 1 (unat (eg_liquidationThresholdPct g)) @ le_bytes 1 (unat (allowNewLoans g)) @
    le_bytes 1 (unat (eg_maxReservesAsCollateral g)) @ le_bytes 1 (unat (eg_padding0 g)) @ bo_key B (eg_debtReserve g) @ alloc 32)"
proof -
  have byte: "write_le 1 (uint (w :: u8)) (length pre) (pre @ alloc j) = Inr (pre @ le_bytes 1 (unat w) @ alloc (j - 1))" if "1 \<le> j" for w pre j
    using write_word [where 'a = 8 and n = 1, OF _ that] by simp
  let ?b = "le_bytes 2 (unat (eg_maxLiquidationBonusBps g))"
  let ?p = "\<lambda>ws :: u8 list. ?b @ concat (map (\<lambda>w. le_bytes 1 (unat w)) ws)"
  have step: "write_le 1 (uint w) (2 + length ws) (?p ws @ alloc j) = Inr (?p (ws @ [w]) @ alloc (j - 1))" if "1 \<le> j" for w j and ws :: "u8 list"
    using byte [OF that, of w "?p ws"] by (simp add: length_concat comp_def sum_list_triv)
  have "length (bo_key B (eg_debtReserve g)) = 32" using assms by (rule borsh_laws.key_length)
  then have copy: "buf_copy (bo_key B (eg_debtReserve g)) 8 (?p ws @ alloc 64) = ?p ws @ bo_key B (eg_debtReserve g) @ alloc 32"
    if "length ws = 6" for ws :: "u8 list"
    using that by (simp add: buf_copy_def length_concat comp_def sum_list_triv alloc_def)
  show ?thesis
    using step [where ws = "[]" and j = 70 and w = "eg_id g"] step [where ws = "[eg_id g]" and j = 69 and w = "ltvPct g"]
      step [where ws = "[eg_id g, ltvPct g]" and j = 68 and w = "eg_liquidationThresholdPct g"]
      step [where ws = "[eg_id g, ltvPct g, eg_liquidationThresholdPct g]" and j = 67 and w = "allowNewLoans g"]
      step [where ws = "[eg_id g, ltvPct g, eg_liquidationThresholdPct g, allowNewLoans g]" and j = 66 and w = "eg_maxReservesAsCollateral g"]
      step [where ws = "[eg_id g, ltvPct g, eg_liquidationThresholdPct g, allowNewLoans g, eg_maxReservesAsCollateral g]" and j = 65
        and w = "eg_padding0 g"]
      copy [where ws = "[eg_id g, ltvPct g, eg_liquidationThresholdPct g, allowNewLoans g, eg_maxReservesAsCollateral g, eg_padding0 g]"]
    by (simp add: serializeElevationGroup_def widths del: One_nat_def)
qed


lemma group_payload:
  assumes "borsh_le_laws B"
  shows "\<exists>bs. serializeElevationGroup B g = Inr bs \<and> dec_ElevationGroup B bs = Some g"
proof -
  have laws: "borsh_laws B" using assms by (rule borsh_le_laws.axioms)
  have dec8: "bo_word_dec B (le_bytes 1 (unat w) @ rest) = Some (w :: u8, rest)" for w rest
    by (rule borsh_le_laws.word_dec_le [OF assms]) simp_all
  have dec16: "bo_word_dec B (le_bytes 2 (unat w) @ rest) = Some (w :: u16, rest)" for w rest
    by (rule borsh_le_laws.word_dec_le [OF assms]) simp_all
  have pad: "bo_uint_dec B 8 (alloc (8 + j)) = Some (le_value (alloc 8), alloc j)" for j
    using borsh_le_laws.uint_le [OF assms, of "alloc 8" 8 "alloc j"] by (simp add: alloc_def replicate_add)
  show ?thesis
    using pad [of 24] pad [of 16] pad [of 8] pad [of 0]
    by (simp add: serialize_group [OF laws] dec_ElevationGroup_def dec8 dec16 borsh_laws.key_dec [OF laws] del: One_nat_def)
qed

section \<open>The net value of an obligation\<close>

text \<open>The sixteen bytes are written most significant byte first and read least significant byte first.\<close>

definition byte_reversed :: "u128 \<Rightarrow> u128" where
  "byte_reversed v = of_nat (le_value (rev (le_bytes 16 (unat v))))"

lemma le_bytes_nth: "i < n \<Longrightarrow> le_bytes n v ! i = of_nat (v div 256 ^ i mod 256)"
proof (induction n arbitrary: v i)
  case (Suc n)
  then show ?case by (cases i) (simp_all add: div_mult2_eq)
qed simp

lemma foldl_put:
  "length buf = j + n \<Longrightarrow> foldl (\<lambda>b i. b[n - Suc i := f i]) buf [0..<n] = map (\<lambda>i. f (n - Suc i)) [0..<n] @ drop n buf"
proof (rule nth_equalityI)
  assume len: "length buf = j + n"
  have gen: "length (foldl (\<lambda>b i. b[n - Suc i := f i]) buf [0..<k]) = length buf \<and>
      (\<forall>x<length buf. foldl (\<lambda>b i. b[n - Suc i := f i]) buf [0..<k] ! x = (if n - k \<le> x \<and> x < n then f (n - Suc x) else buf ! x))"
    if "k \<le> n" for k
    using that
  proof (induction k)
    case (Suc k)
    then show ?case using len by (auto simp: nth_list_update)
  qed auto
  show "length (foldl (\<lambda>b i. b[n - Suc i := f i]) buf [0..<n]) = length (map (\<lambda>i. f (n - Suc i)) [0..<n] @ drop n buf)"
    using gen [of n] len by simp
  show "foldl (\<lambda>b i. b[n - Suc i := f i]) buf [0..<n] ! x = (map (\<lambda>i. f (n - Suc i)) [0..<n] @ drop n buf) ! x"
    if "x < length (foldl (\<lambda>b i. b[n - Suc i := f i]) buf [0..<n])" for x
    using gen [of n] len that by (auto simp: nth_append)
qed

lemma write_be16_alloc: "write_be16 (uint (v :: u128)) (alloc 72) = rev (le_bytes 16 (unat v)) @ alloc 56"
proof -
  have byte: "(of_int (uint v div 256 ^ i mod 256) :: byte) = of_nat (unat v div 256 ^ i mod 256)" for i
  proof -
    have "uint v div 256 ^ i mod 256 = int (unat v div 256 ^ i mod 256)" by (simp add: zdiv_int zmod_int)
    then show ?thesis by simp
  qed
  have "write_be16 (uint v) (alloc 72) = map (\<lambda>i. of_nat (unat v div 256 ^ (16 - Suc i) mod 256)) [0..<16] @ alloc 56"
    using foldl_put [of "alloc 72" 56 16 "\<lambda>i. of_nat (unat v div 256 ^ i mod 256)"]
    by (simp add: write_be16_def byte alloc_def del: upt_rec_numeral)
  also have "map (\<lambda>i. of_nat (unat v div 256 ^ (16 - Suc i) mod 256) :: byte) [0..<16] = rev (le_bytes 16 (unat v))"
    by (rule nth_equalityI) (simp_all add: rev_nth le_bytes_nth del: upt_rec_numeral)
  finally show ?thesis .
qed

lemma net_value_read: "from_le 16 (write_be16 (uint (v :: u128)) (alloc 72)) = byte_reversed v"
  by (simp add: write_be16_alloc from_le_def byte_reversed_def)

lemma byte_reversed_fixed: "byte_reversed v = v \<longleftrightarrow> rev (le_bytes 16 (unat v)) = le_bytes 16 (unat v)"
proof -
  let ?bs = "le_bytes 16 (unat v)"
  have "le_value (rev ?bs) < 2 ^ LENGTH(128)" using le_value_less [of "rev ?bs"] by simp
  then have "unat (byte_reversed v) = le_value (rev ?bs)" by (simp add: byte_reversed_def unat_of_nat)
  moreover have "unat v = le_value ?bs" using le_value_bytes_word [of 16 v] by simp
  ultimately have "byte_reversed v = v \<longleftrightarrow> le_value (rev ?bs) = le_value ?bs" by (auto simp: word_unat_eq_iff)
  also have "\<dots> \<longleftrightarrow> rev ?bs = ?bs" using le_bytes_value [of "rev ?bs"] le_bytes_value [of ?bs] by force
  finally show ?thesis .
qed

section \<open>What one key leaves in the account\<close>

definition kept :: "'a \<Rightarrow> 'a \<Rightarrow> 'b \<Rightarrow> 'b \<Rightarrow> 'b" where
  "kept old new written before = (if old \<noteq> new then written else before)"

lemma kept_same [simp]: "kept a b b a = b"
  by (simp add: kept_def)

primrec stored :: "bool \<Rightarrow> lending_market_key \<Rightarrow> lending_market \<Rightarrow> lending_market \<Rightarrow> lending_market \<Rightarrow> lending_market" where
  "stored same MK_lendingMarketOwner = (\<lambda>old n m.
     m\<lparr>lendingMarketOwnerCached := kept (lendingMarketOwner old) (lendingMarketOwner n) (lendingMarketOwner n) (lendingMarketOwnerCached m)\<rparr>)"
| "stored same MK_lendingMarketOwnerCached = (\<lambda>old n m.
     m\<lparr>lendingMarketOwnerCached := kept (lendingMarketOwnerCached old) (lendingMarketOwnerCached n) (lendingMarketOwnerCached n) (lendingMarketOwnerCached m)\<rparr>)"
| "stored same MK_minNetValueInObligationSf = (\<lambda>old n m.
     m\<lparr>minNetValueInObligationSf := kept (minNetValueInObligationSf old) (minNetValueInObligationSf n)
         (byte_reversed (minNetValueInObligationSf n)) (minNetValueInObligationSf m)\<rparr>)"
| "stored same MK_individualAutodeleverageMarginCallPeriodSecs = (\<lambda>old n m.
     m\<lparr>individualAutodeleverageMarginCallPeriodSecs :=
         (if same then individualAutodeleverageMarginCallPeriodSecs m else individualAutodeleverageMarginCallPeriodSecs n)\<rparr>)"
| "stored same MK_referralFeeBps = (\<lambda>old n m. m\<lparr>referralFeeBps := kept (referralFeeBps old) (referralFeeBps n) (referralFeeBps n) (referralFeeBps m)\<rparr>)"
| "stored same MK_emergencyMode = (\<lambda>old n m. m\<lparr>emergencyMode := kept (emergencyMode old) (emergencyMode n) (emergencyMode n) (emergencyMode m)\<rparr>)"
| "stored same MK_autodeleverageEnabled = (\<lambda>old n m. m\<lparr>lm_autodeleverageEnabled := kept (lm_autodeleverageEnabled old) (lm_autodeleverageEnabled n) (lm_autodeleverageEnabled n) (lm_autodeleverageEnabled m)\<rparr>)"
| "stored same MK_borrowDisabled = (\<lambda>old n m. m\<lparr>borrowDisabled := kept (borrowDisabled old) (borrowDisabled n) (borrowDisabled n) (borrowDisabled m)\<rparr>)"
| "stored same MK_priceRefreshTriggerToMaxAgePct = (\<lambda>old n m. m\<lparr>priceRefreshTriggerToMaxAgePct := kept (priceRefreshTriggerToMaxAgePct old) (priceRefreshTriggerToMaxAgePct n) (priceRefreshTriggerToMaxAgePct n) (priceRefreshTriggerToMaxAgePct m)\<rparr>)"
| "stored same MK_liquidationMaxDebtCloseFactorPct = (\<lambda>old n m. m\<lparr>liquidationMaxDebtCloseFactorPct := kept (liquidationMaxDebtCloseFactorPct old) (liquidationMaxDebtCloseFactorPct n) (liquidationMaxDebtCloseFactorPct n) (liquidationMaxDebtCloseFactorPct m)\<rparr>)"
| "stored same MK_insolvencyRiskUnhealthyLtvPct = (\<lambda>old n m. m\<lparr>insolvencyRiskUnhealthyLtvPct := kept (insolvencyRiskUnhealthyLtvPct old) (insolvencyRiskUnhealthyLtvPct n) (insolvencyRiskUnhealthyLtvPct n) (insolvencyRiskUnhealthyLtvPct m)\<rparr>)"
| "stored same MK_minFullLiquidationValueThreshold = (\<lambda>old n m. m\<lparr>minFullLiquidationValueThreshold := kept (minFullLiquidationValueThreshold old) (minFullLiquidationValueThreshold n) (minFullLiquidationValueThreshold n) (minFullLiquidationValueThreshold m)\<rparr>)"
| "stored same MK_maxLiquidatableDebtMarketValueAtOnce = (\<lambda>old n m. m\<lparr>maxLiquidatableDebtMarketValueAtOnce := kept (maxLiquidatableDebtMarketValueAtOnce old) (maxLiquidatableDebtMarketValueAtOnce n) (maxLiquidatableDebtMarketValueAtOnce n) (maxLiquidatableDebtMarketValueAtOnce m)\<rparr>)"
| "stored same MK_globalAllowedBorrowValue = (\<lambda>old n m. m\<lparr>globalAllowedBorrowValue := kept (globalAllowedBorrowValue old) (globalAllowedBorrowValue n) (globalAllowedBorrowValue n) (globalAllowedBorrowValue m)\<rparr>)"
| "stored same MK_riskCouncil = (\<lambda>old n m. m\<lparr>riskCouncil := kept (riskCouncil old) (riskCouncil n) (riskCouncil n) (riskCouncil m)\<rparr>)"
| "stored same MK_elevationGroups = (\<lambda>old n m. m\<lparr>lm_elevationGroups := kept (lm_elevationGroups old) (lm_elevationGroups n) (lm_elevationGroups n) (lm_elevationGroups m)\<rparr>)"
| "stored same MK_minValueSkipLiquidationLtvChecks = (\<lambda>old n m. m\<lparr>minValueSkipLiquidationLtvChecks := kept (minValueSkipLiquidationLtvChecks old) (minValueSkipLiquidationLtvChecks n) (minValueSkipLiquidationLtvChecks n) (minValueSkipLiquidationLtvChecks m)\<rparr>)"
| "stored same MK_name = (\<lambda>old n m. m\<lparr>lm_name := kept (lm_name old) (lm_name n) (lm_name n) (lm_name m)\<rparr>)"
| "stored same MK_minValueSkipLiquidationBfChecks = (\<lambda>old n m. m\<lparr>minValueSkipLiquidationBfChecks := kept (minValueSkipLiquidationBfChecks old) (minValueSkipLiquidationBfChecks n) (minValueSkipLiquidationBfChecks n) (minValueSkipLiquidationBfChecks m)\<rparr>)"
| "stored same MK_minInitialDepositAmount = (\<lambda>old n m. m\<lparr>minInitialDepositAmount := kept (minInitialDepositAmount old) (minInitialDepositAmount n) (minInitialDepositAmount n) (minInitialDepositAmount m)\<rparr>)"
| "stored same MK_version = (\<lambda>old n m. m)"
| "stored same MK_bumpSeed = (\<lambda>old n m. m)"
| "stored same MK_quoteCurrency = (\<lambda>old n m. m)"
| "stored same MK_reserved0 = (\<lambda>old n m. m)"
| "stored same MK_reserved1 = (\<lambda>old n m. m)"
| "stored same MK_elevationGroupPadding = (\<lambda>old n m. m)"
| "stored same MK_padding1 = (\<lambda>old n m. m)"

text \<open>The values the program takes, and the integers \<open>toNumber\<close> can return.\<close>

definition values_ok :: "lending_market \<Rightarrow> bool" where
  "values_ok n \<longleftrightarrow>
     referralFeeBps n \<le> 10000 \<and> emergencyMode n \<in> {0, 1} \<and> lm_autodeleverageEnabled n \<in> {0, 1} \<and> borrowDisabled n \<in> {0, 1} \<and>
     priceRefreshTriggerToMaxAgePct n \<le> 100 \<and> 5 \<le> liquidationMaxDebtCloseFactorPct n \<and> liquidationMaxDebtCloseFactorPct n \<le> 100 \<and>
     5 \<le> insolvencyRiskUnhealthyLtvPct n \<and> insolvencyRiskUnhealthyLtvPct n \<le> 100 \<and> minFullLiquidationValueThreshold n \<noteq> 0 \<and>
     maxLiquidatableDebtMarketValueAtOnce n \<noteq> 0 \<and> individualAutodeleverageMarginCallPeriodSecs n \<noteq> 0 \<and> 1000 \<le> minInitialDepositAmount n"

definition safe_market :: "lending_market \<Rightarrow> bool" where
  "safe_market n \<longleftrightarrow> list_all (\<lambda>w. uint w < 2 ^ 53)
     [minFullLiquidationValueThreshold n, maxLiquidatableDebtMarketValueAtOnce n, globalAllowedBorrowValue n,
      minValueSkipLiquidationLtvChecks n, minValueSkipLiquidationBfChecks n, individualAutodeleverageMarginCallPeriodSecs n,
      minInitialDepositAmount n]"

definition names_ok :: "u8 list \<Rightarrow> u8 list \<Rightarrow> bool" where
  "names_ok old new \<longleftrightarrow> length old = 32 \<and> length new = 32 \<and> valid_utf8 old \<and> valid_utf8 new"

text \<open>At most one group changes, it stands at the position its number names, and no padding differs.\<close>

definition groups_ok :: "(u8 \<Rightarrow> u16 \<Rightarrow> bool) \<Rightarrow> elevation_group list \<Rightarrow> elevation_group list \<Rightarrow> bool" where
  "groups_ok X olds news \<longleftrightarrow> length olds = length news \<and> map eg_padding0 olds = map eg_padding0 news \<and>
     length (filter (\<lambda>(old, new). group_differs old new) (zip olds news)) \<le> 1 \<and>
     (\<forall>i<length olds. group_differs (olds ! i) (news ! i) \<longrightarrow> unat (eg_id (news ! i)) = Suc i \<and> group_accepted X (news ! i))"

definition update_ok :: "(u8 \<Rightarrow> u16 \<Rightarrow> bool) \<Rightarrow> lending_market \<Rightarrow> lending_market \<Rightarrow> bool" where
  "update_ok X old n \<longleftrightarrow> values_ok n \<and> safe_market n \<and> names_ok (lm_name old) (lm_name n) \<and>
     groups_ok X (lm_elevationGroups old) (lm_elevationGroups n)"

text \<open>An update of one key: the client writes a payload, and the program leaves \<open>m'\<close>.\<close>

definition effect :: "borsh_lib \<Rightarrow> (u8 \<Rightarrow> u16 \<Rightarrow> bool) \<Rightarrow> market_update list result \<Rightarrow> lending_market \<Rightarrow> lending_market \<Rightarrow> bool" where
  "effect B X us m m' \<longleftrightarrow> (\<exists>u. us = Inr u \<and> run_updates B X m u = Inr m')"

lemma effect_same: "effect B X (market_update_if B False k v) m m"
  by (simp add: effect_def market_update_if_def run_updates_def)

lemma effect_written:
  assumes "v = Inr x" "updateMarketConfigEncodedValue B (market_discriminator k) x = Inr bs" "process_mode B X k bs m = Inr m'"
  shows "effect B X (market_update_if B True k v) m m'"
  using assms by (simp add: effect_def market_update_if_def run_updates_def process_discriminator)

lemma effect_if:
  assumes "c \<Longrightarrow> effect B X (market_update_if B True k v) m m'" "\<not> c \<Longrightarrow> m = m'"
  shows "effect B X (market_update_if B c k v) m m'"
  using assms effect_same by (cases c) auto

lemmas encoded_value = updateMarketConfigEncodedValue_def is_market_mode_def widths

abbreviation byte_modes :: "update_lending_market_mode list" where
  "byte_modes \<equiv> [M_UpdateEmergencyMode, M_UpdateLiquidationCloseFactor, M_UpdateInsolvencyRiskLtv,
      M_UpdatePriceRefreshTriggerToMaxAgePct, M_UpdateAutodeleverageEnabled, M_UpdateBorrowingDisabled]"

abbreviation u64_modes :: "update_lending_market_mode list" where
  "u64_modes \<equiv> [M_UpdateLiquidationMaxValue, M_UpdateGlobalAllowedBorrow, M_UpdateMinFullLiquidationThreshold,
      M_UpdateMinValueBfSkipPriorityLiqCheck, M_UpdateMinValueLtvSkipPriorityLiqCheck,
      M_UpdateIndividualAutodeleverageMarginCallPeriodSecs, M_UpdateInitialDepositAmount]"

lemma encoded_byte:
  "list_all (\<lambda>k. updateMarketConfigEncodedValue B (market_discriminator k) (MNum n) = write_le 1 n 0 (alloc 72)) byte_modes"
  by (simp add: updateMarketConfigEncodedValue_def is_market_mode_def)

lemma encoded_u64:
  "list_all (\<lambda>k. updateMarketConfigEncodedValue B (market_discriminator k) (MNum n) = write_le 8 n 0 (alloc 72)) u64_modes"
  by (simp add: updateMarketConfigEncodedValue_def is_market_mode_def)

lemma byte_effect:
  assumes "k \<in> set byte_modes" "c \<Longrightarrow> process_mode B X k (le_bytes 1 (unat w) @ alloc 71) m = Inr m'" "\<not> c \<Longrightarrow> m = m'"
  shows "effect B X (market_update_if B c k (market_num (w :: u8))) m m'"
proof (rule effect_if)
  have "updateMarketConfigEncodedValue B (market_discriminator k) (MNum (uint w)) = Inr (le_bytes 1 (unat w) @ alloc 71)"
    using encoded_byte [of B "uint w"] assms(1) unfolding list_all_iff widths(1) by blast
  then show "effect B X (market_update_if B True k (market_num w)) m m'" if c
    by (rule effect_written [rotated]) (use assms(2) that in \<open>simp_all add: market_num_def\<close>)
qed (use assms(3) in simp)

lemma u64_effect:
  assumes "bn_laws L" "uint w < 2 ^ 53" "k \<in> set u64_modes"
    and "c \<Longrightarrow> process_mode B X k (le_bytes 8 (unat w) @ alloc 64) m = Inr m'" "\<not> c \<Longrightarrow> m = m'"
  shows "effect B X (market_update_if B c k (market_bn L (w :: u64))) m m'"
proof (rule effect_if)
  have "updateMarketConfigEncodedValue B (market_discriminator k) (MNum (uint w)) = Inr (le_bytes 8 (unat w) @ alloc 64)"
    using encoded_u64 [of B "uint w"] assms(3) unfolding list_all_iff widths(3) by blast
  moreover have "market_bn L w = Inr (MNum (uint w))"
    using bn_laws.toNumber_safe [OF assms(1), of "uint w"] assms(2) by (simp add: market_bn_def)
  ultimately show "effect B X (market_update_if B True k (market_bn L w)) m m'" if c
    using assms(4) [OF that] by (intro effect_written)
qed (use assms(5) in simp)

lemma key_effect:
  assumes "borsh_le_laws B" "k \<in> {M_UpdateOwner, M_UpdateRiskCouncil}"
    and "\<And>value. key_from B value = x \<Longrightarrow> process_mode B X k value m = Inr m'"
  shows "effect B X (market_update_if B True k (Inr (MKey x))) m m'"
  by (rule effect_written [where bs = "buf_copy (bo_key B x) 0 (alloc 72)"])
    (use assms borsh_le_laws.key_from_copy [OF assms(1), of x] in \<open>auto simp: encoded_value\<close>)

section \<open>Groups and names\<close>

abbreviation group_update :: "borsh_lib \<Rightarrow> elevation_group \<Rightarrow> market_update" where
  "group_update B g \<equiv> \<lparr>mu_mode = 9, mu_value = projr (serializeElevationGroup B g)\<rparr>"

lemma group_updates_changed:
  assumes "borsh_le_laws B"
  shows "length olds = length news \<Longrightarrow>
    group_updates B olds news = Inr (map (group_update B) (map snd (filter (\<lambda>(old, new). group_differs old new) (zip olds news))))"
proof (induction olds news rule: list_induct2)
  case (Cons old olds new news)
  obtain bs where "serializeElevationGroup B new = Inr bs" using group_payload [OF assms] by blast
  then show ?case using Cons.IH by (simp add: market_update_if_def encoded_value)
qed simp

lemma same_group: "\<not> group_differs old new \<Longrightarrow> eg_padding0 old = eg_padding0 new \<Longrightarrow> old = new"
  by (rule elevation_group.equality) (simp_all add: group_differs_def)

lemma only_element: "\<forall>a\<in>S. \<forall>b\<in>S. a = b \<Longrightarrow> x \<in> S \<Longrightarrow> S = {x}"
  by blast

lemma one_changed:
  assumes "groups_ok X olds news" "i < length olds" "group_differs (olds ! i) (news ! i)"
  shows "filter (\<lambda>(old, new). group_differs old new) (zip olds news) = [(olds ! i, news ! i)]" "olds[i := news ! i] = news"
proof -
  let ?P = "\<lambda>(old, new). group_differs old new" and ?z = "zip olds news"
  let ?I = "{j. j < length ?z \<and> ?P (?z ! j)}"
  have len: "length olds = length news" and pad: "map eg_padding0 olds = map eg_padding0 news" using assms(1) by (simp_all add: groups_ok_def)
  have i: "i \<in> ?I" using assms(2,3) len by simp
  have "length (filter ?P ?z) \<le> 1" using assms(1) by (simp add: groups_ok_def)
  then have "card ?I \<le> 1" unfolding length_filter_conv_card .
  moreover have "finite ?I" by simp
  ultimately have "\<forall>a\<in>?I. \<forall>b\<in>?I. a = b" by (simp only: One_nat_def card_le_Suc0_iff_eq)
  then have I: "?I = {i}" using i by (rule only_element)
  have others: "\<not> group_differs (olds ! j) (news ! j)" if "j < length olds" "j \<noteq> i" for j
  proof -
    have "j \<notin> ?I" unfolding I using that(2) by simp
    then show ?thesis using that(1) len by simp
  qed
  show "olds[i := news ! i] = news"
  proof (rule nth_equalityI)
    fix j assume j: "j < length (olds[i := news ! i])"
    then have "eg_padding0 (olds ! j) = eg_padding0 (news ! j)" using pad len by (metis length_list_update nth_map)
    then show "olds[i := news ! i] ! j = news ! j" using j others [of j] same_group by (cases "j = i") auto
  qed (use len in simp)
  have "length (filter ?P ?z) = 1" unfolding length_filter_conv_card I by simp
  moreover have "(olds ! i, news ! i) \<in> set (filter ?P ?z)" using assms(2,3) len by (auto simp: set_zip)
  ultimately show "filter ?P ?z = [(olds ! i, news ! i)]" by (cases "filter ?P ?z") auto
qed

lemma none_changed:
  assumes "groups_ok X olds news" "\<And>i. i < length olds \<Longrightarrow> \<not> group_differs (olds ! i) (news ! i)"
  shows "filter (\<lambda>(old, new). group_differs old new) (zip olds news) = []" "olds = news"
proof -
  have len: "length olds = length news" and pad: "map eg_padding0 olds = map eg_padding0 news" using assms(1) by (simp_all add: groups_ok_def)
  show "filter (\<lambda>(old, new). group_differs old new) (zip olds news) = []" using assms(2) len by (auto simp: filter_empty_conv set_zip)
  show "olds = news"
  proof (rule nth_equalityI)
    fix j assume j: "j < length olds"
    then have "eg_padding0 (olds ! j) = eg_padding0 (news ! j)" using pad len by (metis nth_map)
    then show "olds ! j = news ! j" using assms(2) [OF j] by (intro same_group)
  qed (use len in simp)
qed

lemma groups_effect:
  assumes "borsh_le_laws B" "groups_ok X (lm_elevationGroups old) (lm_elevationGroups n)" "lm_elevationGroups m = lm_elevationGroups old"
  shows "effect B X (updateLendingMarketConfig L B same MK_elevationGroups old n) m (m\<lparr>lm_elevationGroups := lm_elevationGroups n\<rparr>)"
proof -
  let ?o = "lm_elevationGroups old" and ?n = "lm_elevationGroups n"
  have len: "length ?o = length ?n" using assms(2) by (simp add: groups_ok_def)
  show ?thesis
  proof (cases "\<exists>i<length ?o. group_differs (?o ! i) (?n ! i)")
    case True
    then obtain i where i: "i < length ?o" "group_differs (?o ! i) (?n ! i)" by blast
    note one = one_changed [OF assms(2) i]
    obtain bs where bs: "serializeElevationGroup B (?n ! i) = Inr bs" "dec_ElevationGroup B bs = Some (?n ! i)"
      using group_payload [OF assms(1)] by blast
    have acc: "unat (eg_id (?n ! i)) = Suc i" "group_accepted X (?n ! i)" using assms(2) i by (simp_all add: groups_ok_def)
    then have "eg_id (?n ! i) \<noteq> 0" by auto
    then have "set_elevation_group (?n ! i) m = Inr (m\<lparr>lm_elevationGroups := ?n\<rparr>)"
      using acc(1) i(1) one(2) assms(3) by (simp add: set_elevation_group_def)
    then have "process B X 9 bs m = Inr (m\<lparr>lm_elevationGroups := ?n\<rparr>)"
      using process_discriminator [of B X M_UpdateElevationGroup bs m] bs(2) acc(2) by simp
    then show ?thesis by (simp add: effect_def group_updates_changed [OF assms(1) len] one(1) bs(1) run_updates_def)
  next
    case False
    then have none: "filter (\<lambda>(old, new). group_differs old new) (zip ?o ?n) = []" "?o = ?n"
      using none_changed [OF assms(2)] by blast+
    have "m\<lparr>lm_elevationGroups := ?n\<rparr> = m" using none(2) assms(3) by (metis lending_market.surjective lending_market.update_convs(17))
    then show ?thesis by (simp add: effect_def group_updates_changed [OF assms(1) len] none(1) run_updates_def)
  qed
qed

lemma name_effect:
  assumes "names_ok (lm_name old) (lm_name n)" "lm_name m = lm_name old"
  shows "effect B X (updateLendingMarketConfig L B same MK_name old n) m (m\<lparr>lm_name := lm_name n\<rparr>)"
proof -
  have len: "length (lm_name old) = 32" "length (lm_name n) = 32" using assms(1) by (simp_all add: names_ok_def)
  have bytes: "concat (map (le_int 1) (map uint ws)) = ws" for ws :: "u8 list"
    using first_byte [of _ "[]"] by (induction ws) simp_all
  have w: "write_all 1 (map uint (lm_name n)) 0 (alloc 72) = Inr (lm_name n @ alloc 40)"
  proof -
    have "fits 1 v" if "v \<in> set (map uint (lm_name n))" for v
      using that unsigned_less [where 'a = int and 'b = 8] by auto
    then show ?thesis using write_all_alloc [of "map uint (lm_name n)" 1 72 "[]"] len(2) bytes [of "lm_name n"] by simp
  qed
  have "effect B X (market_update_if B True M_UpdateName (Inr (MNums (map uint (lm_name n))))) m (m\<lparr>lm_name := lm_name n\<rparr>)"
    by (rule effect_written [where bs = "lm_name n @ alloc 40"])
      (use assms len w in \<open>auto simp: encoded_value names_ok_def checked_def Let_def simp del: One_nat_def\<close>)
  then have "effect B X (market_update_if B (lm_name old \<noteq> lm_name n) M_UpdateName (Inr (MNums (map uint (lm_name n))))) m (m\<lparr>lm_name := lm_name n\<rparr>)"
    by (rule effect_if) (use assms(2) in \<open>auto intro!: lending_market.equality\<close>)
  then show ?thesis using len by (simp add: sameLengthArrayEquals_eq list_all2_eq [symmetric])
qed

section \<open>All keys\<close>

lemma read_u64: "from_le 8 (le_bytes 8 (unat (w :: u64)) @ rest) = w"
  by (rule from_le_word) simp

lemma read_u16: "from_le 2 (le_bytes 2 (unat (w :: u16)) @ rest) = w"
  by (rule from_le_word) simp

lemmas taken = checked_def Let_def kept_def first_byte read_u64 read_u16 values_ok_def

lemma byte_key:
  assumes "update_ok X old n"
  shows "list_all (\<lambda>k. effect B X (updateLendingMarketConfig L B same k old n) m (stored same k old n m))
    [MK_emergencyMode, MK_autodeleverageEnabled, MK_borrowDisabled, MK_priceRefreshTriggerToMaxAgePct,
     MK_liquidationMaxDebtCloseFactorPct, MK_insolvencyRiskUnhealthyLtvPct]"
proof -
  have ok: "values_ok n" using assms by (simp add: update_ok_def)
  show ?thesis unfolding list.pred_inject updateLendingMarketConfig.simps stored.simps
    by (intro conjI TrueI byte_effect) (use ok in \<open>simp_all add: taken del: One_nat_def\<close>)
qed

lemma u64_key:
  assumes "bn_laws L" "update_ok X old n"
  shows "list_all (\<lambda>k. effect B X (updateLendingMarketConfig L B same k old n) m (stored same k old n m))
    [MK_minFullLiquidationValueThreshold, MK_maxLiquidatableDebtMarketValueAtOnce,
      MK_globalAllowedBorrowValue, MK_minValueSkipLiquidationLtvChecks, MK_minValueSkipLiquidationBfChecks,
      MK_individualAutodeleverageMarginCallPeriodSecs, MK_minInitialDepositAmount]"
proof -
  have ok: "values_ok n" "safe_market n" using assms(2) by (simp_all add: update_ok_def)
  show ?thesis unfolding list.pred_inject updateLendingMarketConfig.simps stored.simps
    by (intro conjI TrueI u64_effect [OF assms(1)]) (use ok in \<open>simp_all add: taken safe_market_def\<close>)
qed

lemma owner_key:
  assumes "borsh_le_laws B" "k \<in> {MK_lendingMarketOwner, MK_lendingMarketOwnerCached, MK_riskCouncil}"
  shows "effect B X (updateLendingMarketConfig L B same k old n) m (stored same k old n m)"
  using assms(2) by (elim insertE emptyE) (auto intro!: effect_if key_effect [OF assms(1)] simp: kept_def)

lemma fee_key:
  assumes "update_ok X old n"
  shows "effect B X (updateLendingMarketConfig L B same MK_referralFeeBps old n) m (stored same MK_referralFeeBps old n m)"
proof -
  have "effect B X (market_update_if B True M_UpdateReferralFeeBps (market_num (referralFeeBps n))) m (m\<lparr>referralFeeBps := referralFeeBps n\<rparr>)"
    by (rule effect_written [where bs = "le_bytes 2 (unat (referralFeeBps n)) @ alloc 70"])
      (use assms in \<open>auto simp: market_num_def encoded_value taken update_ok_def\<close>)
  then show ?thesis by (auto intro!: effect_if simp: kept_def)
qed

lemma net_value_key: "effect B X (updateLendingMarketConfig L B same MK_minNetValueInObligationSf old n) m (stored same MK_minNetValueInObligationSf old n m)"
proof -
  have "effect B X (market_update_if B True M_UpdateMinNetValueObligationPostAction (Inr (MText (uint (minNetValueInObligationSf n))))) m
      (m\<lparr>minNetValueInObligationSf := byte_reversed (minNetValueInObligationSf n)\<rparr>)"
    by (rule effect_written [where bs = "write_be16 (uint (minNetValueInObligationSf n)) (alloc 72)"])
      (auto simp: encoded_value net_value_read)
  then show ?thesis by (auto intro!: effect_if simp: kept_def)
qed

definition visited_market_keys :: "lending_market_key list" where
  "visited_market_keys = filter (\<lambda>k. \<not> isExcludedLendingMarketKey k) lending_market_keys"

lemma key_step:
  assumes "bn_laws L" "borsh_le_laws B" "update_ok X old n" "k \<in> set visited_market_keys"
    and "k = MK_name \<Longrightarrow> lm_name m = lm_name old" "k = MK_elevationGroups \<Longrightarrow> lm_elevationGroups m = lm_elevationGroups old"
  shows "effect B X (updateLendingMarketConfig L B same k old n) m (stored same k old n m)"
proof -
  have ok: "names_ok (lm_name old) (lm_name n)" "groups_ok X (lm_elevationGroups old) (lm_elevationGroups n)"
    using assms(3) by (simp_all add: update_ok_def)
  have visible: "\<not> isExcludedLendingMarketKey k" using assms(4) by (simp add: visited_market_keys_def)
  consider "k = MK_name" | "k = MK_elevationGroups" | "k = MK_referralFeeBps" | "k = MK_minNetValueInObligationSf"
    | "k \<in> {MK_lendingMarketOwner, MK_lendingMarketOwnerCached, MK_riskCouncil}"
    | "k \<in> set [MK_emergencyMode, MK_autodeleverageEnabled, MK_borrowDisabled, MK_priceRefreshTriggerToMaxAgePct,
        MK_liquidationMaxDebtCloseFactorPct, MK_insolvencyRiskUnhealthyLtvPct]"
    | "k \<in> set [MK_minFullLiquidationValueThreshold, MK_maxLiquidatableDebtMarketValueAtOnce,
        MK_globalAllowedBorrowValue, MK_minValueSkipLiquidationLtvChecks, MK_minValueSkipLiquidationBfChecks,
        MK_individualAutodeleverageMarginCallPeriodSecs, MK_minInitialDepositAmount]"
    by (cases k) (use visible in \<open>simp_all add: isExcludedLendingMarketKey_def\<close>)
  then show ?thesis
  proof cases
    case 1
    then show ?thesis using name_effect [OF ok(1) assms(5)] assms(5) by simp
  next
    case 2
    then show ?thesis using groups_effect [OF assms(2) ok(2) assms(6)] assms(6) by simp
  next
    case 3
    then show ?thesis using fee_key [OF assms(3)] by simp
  next
    case 4
    then show ?thesis using net_value_key by simp
  next
    case 5
    then show ?thesis by (rule owner_key [OF assms(2)])
  next
    case 6
    then show ?thesis using byte_key [OF assms(3), unfolded list_all_iff, rule_format] by blast
  next
    case 7
    then show ?thesis using u64_key [OF assms(1,3), unfolded list_all_iff, rule_format] by blast
  qed
qed

lemma market_updates_visited:
  assumes "\<And>k. k \<in> set visited_market_keys \<Longrightarrow> updateLendingMarketConfig L B same k old n = Inr (U k)"
  shows "market_updates L B same old n = Inr (concat (map U visited_market_keys))"
proof -
  have "foldE (\<lambda>us k. if isExcludedLendingMarketKey k then Inr us
      else bindE (updateLendingMarketConfig L B same k old n) (\<lambda>u. Inr (us @ u))) us ks =
    Inr (us @ concat (map U (filter (\<lambda>k. \<not> isExcludedLendingMarketKey k) ks)))"
    if "set ks \<subseteq> set lending_market_keys" for us ks
    using that
  proof (induction ks arbitrary: us)
    case (Cons k ks)
    then show ?case using assms [of k] by (simp add: visited_market_keys_def)
  qed simp
  then show ?thesis by (simp add: market_updates_def visited_market_keys_def)
qed

text \<open>What each field holds after one key.\<close>

lemma stored_fields:
  "lm_version (stored same k old n m) = lm_version m"
  "bumpSeed (stored same k old n m) = bumpSeed m"
  "lendingMarketOwner (stored same k old n m) = lendingMarketOwner m"
  "quoteCurrency (stored same k old n m) = quoteCurrency m"
  "referralFeeBps (stored same k old n m) = (if k = MK_referralFeeBps then kept (referralFeeBps old) (referralFeeBps n) (referralFeeBps n) (referralFeeBps m) else referralFeeBps m)"
  "emergencyMode (stored same k old n m) = (if k = MK_emergencyMode then kept (emergencyMode old) (emergencyMode n) (emergencyMode n) (emergencyMode m) else emergencyMode m)"
  "lm_autodeleverageEnabled (stored same k old n m) = (if k = MK_autodeleverageEnabled then kept (lm_autodeleverageEnabled old) (lm_autodeleverageEnabled n) (lm_autodeleverageEnabled n) (lm_autodeleverageEnabled m) else lm_autodeleverageEnabled m)"
  "borrowDisabled (stored same k old n m) = (if k = MK_borrowDisabled then kept (borrowDisabled old) (borrowDisabled n) (borrowDisabled n) (borrowDisabled m) else borrowDisabled m)"
  "priceRefreshTriggerToMaxAgePct (stored same k old n m) = (if k = MK_priceRefreshTriggerToMaxAgePct then kept (priceRefreshTriggerToMaxAgePct old) (priceRefreshTriggerToMaxAgePct n) (priceRefreshTriggerToMaxAgePct n) (priceRefreshTriggerToMaxAgePct m) else priceRefreshTriggerToMaxAgePct m)"
  "liquidationMaxDebtCloseFactorPct (stored same k old n m) = (if k = MK_liquidationMaxDebtCloseFactorPct then kept (liquidationMaxDebtCloseFactorPct old) (liquidationMaxDebtCloseFactorPct n) (liquidationMaxDebtCloseFactorPct n) (liquidationMaxDebtCloseFactorPct m) else liquidationMaxDebtCloseFactorPct m)"
  "insolvencyRiskUnhealthyLtvPct (stored same k old n m) = (if k = MK_insolvencyRiskUnhealthyLtvPct then kept (insolvencyRiskUnhealthyLtvPct old) (insolvencyRiskUnhealthyLtvPct n) (insolvencyRiskUnhealthyLtvPct n) (insolvencyRiskUnhealthyLtvPct m) else insolvencyRiskUnhealthyLtvPct m)"
  "minFullLiquidationValueThreshold (stored same k old n m) = (if k = MK_minFullLiquidationValueThreshold then kept (minFullLiquidationValueThreshold old) (minFullLiquidationValueThreshold n) (minFullLiquidationValueThreshold n) (minFullLiquidationValueThreshold m) else minFullLiquidationValueThreshold m)"
  "maxLiquidatableDebtMarketValueAtOnce (stored same k old n m) = (if k = MK_maxLiquidatableDebtMarketValueAtOnce then kept (maxLiquidatableDebtMarketValueAtOnce old) (maxLiquidatableDebtMarketValueAtOnce n) (maxLiquidatableDebtMarketValueAtOnce n) (maxLiquidatableDebtMarketValueAtOnce m) else maxLiquidatableDebtMarketValueAtOnce m)"
  "globalAllowedBorrowValue (stored same k old n m) = (if k = MK_globalAllowedBorrowValue then kept (globalAllowedBorrowValue old) (globalAllowedBorrowValue n) (globalAllowedBorrowValue n) (globalAllowedBorrowValue m) else globalAllowedBorrowValue m)"
  "riskCouncil (stored same k old n m) = (if k = MK_riskCouncil then kept (riskCouncil old) (riskCouncil n) (riskCouncil n) (riskCouncil m) else riskCouncil m)"
  "lm_elevationGroups (stored same k old n m) = (if k = MK_elevationGroups then kept (lm_elevationGroups old) (lm_elevationGroups n) (lm_elevationGroups n) (lm_elevationGroups m) else lm_elevationGroups m)"
  "minValueSkipLiquidationLtvChecks (stored same k old n m) = (if k = MK_minValueSkipLiquidationLtvChecks then kept (minValueSkipLiquidationLtvChecks old) (minValueSkipLiquidationLtvChecks n) (minValueSkipLiquidationLtvChecks n) (minValueSkipLiquidationLtvChecks m) else minValueSkipLiquidationLtvChecks m)"
  "lm_name (stored same k old n m) = (if k = MK_name then kept (lm_name old) (lm_name n) (lm_name n) (lm_name m) else lm_name m)"
  "minValueSkipLiquidationBfChecks (stored same k old n m) = (if k = MK_minValueSkipLiquidationBfChecks then kept (minValueSkipLiquidationBfChecks old) (minValueSkipLiquidationBfChecks n) (minValueSkipLiquidationBfChecks n) (minValueSkipLiquidationBfChecks m) else minValueSkipLiquidationBfChecks m)"
  "minInitialDepositAmount (stored same k old n m) = (if k = MK_minInitialDepositAmount then kept (minInitialDepositAmount old) (minInitialDepositAmount n) (minInitialDepositAmount n) (minInitialDepositAmount m) else minInitialDepositAmount m)"
  "lendingMarketOwnerCached (stored same k old n m) =
     (if k = MK_lendingMarketOwner then kept (lendingMarketOwner old) (lendingMarketOwner n) (lendingMarketOwner n) (lendingMarketOwnerCached m)
      else if k = MK_lendingMarketOwnerCached
      then kept (lendingMarketOwnerCached old) (lendingMarketOwnerCached n) (lendingMarketOwnerCached n) (lendingMarketOwnerCached m)
      else lendingMarketOwnerCached m)"
  "minNetValueInObligationSf (stored same k old n m) =
     (if k = MK_minNetValueInObligationSf
      then kept (minNetValueInObligationSf old) (minNetValueInObligationSf n) (byte_reversed (minNetValueInObligationSf n)) (minNetValueInObligationSf m)
      else minNetValueInObligationSf m)"
  "individualAutodeleverageMarginCallPeriodSecs (stored same k old n m) =
     (if k = MK_individualAutodeleverageMarginCallPeriodSecs \<and> \<not> same then individualAutodeleverageMarginCallPeriodSecs n
      else individualAutodeleverageMarginCallPeriodSecs m)"
  "lending_market.more (stored same k old n m) = lending_market.more m"
  by (cases k; simp)+

lemma run_keys:
  assumes laws: "bn_laws L" "borsh_le_laws B" "update_ok X old n"
    and U: "\<And>k. k \<in> set visited_market_keys \<Longrightarrow> updateLendingMarketConfig L B same k old n = Inr (U k)"
  shows "distinct ks \<Longrightarrow> set ks \<subseteq> set visited_market_keys \<Longrightarrow>
    (MK_name \<in> set ks \<Longrightarrow> lm_name m = lm_name old) \<Longrightarrow> (MK_elevationGroups \<in> set ks \<Longrightarrow> lm_elevationGroups m = lm_elevationGroups old) \<Longrightarrow>
    run_updates B X m (concat (map U ks)) = Inr (foldl (\<lambda>m k. stored same k old n m) m ks)"
proof (induction ks arbitrary: m)
  case (Cons k ks)
  have "effect B X (Inr (U k)) m (stored same k old n m)"
    using key_step [OF laws, where k = k and m = m and same = same] U [of k] Cons.prems by auto
  then have k: "run_updates B X m (U k) = Inr (stored same k old n m)" by (simp add: effect_def)
  have "run_updates B X (stored same k old n m) (concat (map U ks)) = Inr (foldl (\<lambda>m k. stored same k old n m) (stored same k old n m) ks)"
    using Cons.prems by (intro Cons.IH) (auto simp: stored_fields simp del: stored.simps)
  then show ?case using k by (simp add: run_updates_def foldE_append)
qed (simp add: run_updates_def)

lemma visited_market_keys_eq: "visited_market_keys =
    [MK_lendingMarketOwner, MK_lendingMarketOwnerCached, MK_referralFeeBps, MK_emergencyMode, MK_autodeleverageEnabled, MK_borrowDisabled,
     MK_priceRefreshTriggerToMaxAgePct, MK_liquidationMaxDebtCloseFactorPct, MK_insolvencyRiskUnhealthyLtvPct,
     MK_minFullLiquidationValueThreshold, MK_maxLiquidatableDebtMarketValueAtOnce, MK_globalAllowedBorrowValue, MK_riskCouncil,
     MK_elevationGroups, MK_minNetValueInObligationSf, MK_minValueSkipLiquidationLtvChecks, MK_name, MK_minValueSkipLiquidationBfChecks,
     MK_individualAutodeleverageMarginCallPeriodSecs, MK_minInitialDepositAmount]"
  by (simp add: visited_market_keys_def lending_market_keys_def isExcludedLendingMarketKey_def)

text \<open>The market the updates leave in the account.\<close>

definition updated_market :: "lending_market \<Rightarrow> lending_market \<Rightarrow> lending_market" where
  "updated_market old n = n\<lparr>
     lm_version := lm_version old, bumpSeed := bumpSeed old, quoteCurrency := quoteCurrency old, lendingMarketOwner := lendingMarketOwner old,
     lendingMarketOwnerCached :=
       (if lendingMarketOwnerCached old = lendingMarketOwnerCached n \<and> lendingMarketOwner old \<noteq> lendingMarketOwner n
        then lendingMarketOwner n else lendingMarketOwnerCached n),
     minNetValueInObligationSf :=
       (if minNetValueInObligationSf old = minNetValueInObligationSf n then minNetValueInObligationSf n
        else byte_reversed (minNetValueInObligationSf n))\<rparr>"

lemma stored_all:
  assumes "same \<Longrightarrow> individualAutodeleverageMarginCallPeriodSecs old = individualAutodeleverageMarginCallPeriodSecs n"
  shows "foldl (\<lambda>m k. stored same k old n m) old visited_market_keys = updated_market old n"
  by (rule lending_market.equality) (use assms in \<open>simp_all add: visited_market_keys_eq updated_market_def stored_fields kept_def del: stored.simps\<close>)

section \<open>The instructions\<close>

lemma write_le_length: "write_le n v off buf = Inr buf' \<Longrightarrow> length buf' = length buf"
  by (auto simp: write_le_def buf_write_def split: if_splits)

lemma buf_copy_length: "off \<le> length buf \<Longrightarrow> length (buf_copy src off buf) = length buf"
  by (auto simp: buf_copy_def)

lemma write_be16_length: "length (write_be16 v buf) = length buf"
proof -
  have "length (foldl (\<lambda>b i. b[15 - i := of_int (v div 256 ^ i mod 256)]) buf is) = length buf" for "is"
    by (induction "is" arbitrary: buf) simp_all
  then show ?thesis by (simp add: write_be16_def)
qed

lemma serialize_length: "serializeElevationGroup B g = Inr bs \<Longrightarrow> length bs = 72"
  by (auto simp: serializeElevationGroup_def bindE_Inr_iff buf_copy_length dest!: write_le_length)

lemma payload_length:
  assumes "updateMarketConfigEncodedValue B d x = Inr bs"
  shows "length bs = 72"
proof -
  have num: "length bs = 72" if "bindE (market_number x) (\<lambda>n. write_le j n 0 (alloc 72)) = Inr bs" for j
    using that write_le_length by (fastforce simp: bindE_Inr_iff)
  show ?thesis using assms unfolding updateMarketConfigEncodedValue_def
    by (auto split: if_splits market_value.splits dest: num serialize_length write_all_length simp: buf_copy_length write_be16_length)
qed

lemma market_updates_shape:
  assumes "updateLendingMarketConfig L B same k old n = Inr us" "u \<in> set us"
  shows "length (mu_value u) = 72 \<and> mu_mode u \<le> 21"
proof -
  have small: "market_discriminator j \<le> 21" for j by (cases j) simp_all
  have one: "length (mu_value u) = 72 \<and> mu_mode u \<le> 21" if "market_update_if B c j v = Inr us" "u \<in> set us" for B c j v us
    using that payload_length small by (auto simp: market_update_if_def bindE_Inr_iff split: if_splits)
  have groups: "length (mu_value u) = 72 \<and> mu_mode u \<le> 21" if "group_updates B olds news = Inr us" "u \<in> set us" for B olds news us
    using that by (induction B olds news arbitrary: us rule: group_updates.induct) (auto simp: bindE_Inr_iff dest: one)
  show ?thesis using assms by (cases k) (auto simp: bindE_Inr_iff dest: one groups split: if_splits)
qed

text \<open>Every update becomes an instruction that carries its mode and its payload.\<close>

definition carries :: "borsh_lib \<Rightarrow> instruction \<Rightarrow> market_update \<Rightarrow> bool" where
  "carries B ix u \<longleftrightarrow> ix_data ix = updateLendingMarket_identifier @ bo_uint B 8 (mu_mode u) @ mu_value u"

lemma update_instruction:
  assumes "borsh_laws B" "length (mu_value u) = 72" "mu_mode u \<le> 21"
  shows "\<exists>ix. updateMarketConfigIx B address m (mu_mode u) (mu_value u) programId = Inr ix \<and> carries B ix u"
  using assms(2,3) borsh_laws.uint_length [OF assms(1), of "mu_mode u" 8]
  by (simp add: updateMarketConfigIx_def updateLendingMarket_def ix_with_data_def encode_into_def bo_bn_def carries_def)

lemma update_instructions:
  assumes "borsh_laws B" "\<And>u. u \<in> set us \<Longrightarrow> length (mu_value u) = 72 \<and> mu_mode u \<le> 21"
  shows "\<exists>ixs. mapE (\<lambda>u. updateMarketConfigIx B address m (mu_mode u) (mu_value u) programId) us = Inr ixs \<and> list_all2 (carries B) ixs us"
  using assms(2)
proof (induction us)
  case (Cons u us)
  then obtain ixs where "mapE (\<lambda>u. updateMarketConfigIx B address m (mu_mode u) (mu_value u) programId) us = Inr ixs" "list_all2 (carries B) ixs us"
    by auto
  moreover obtain ix where "updateMarketConfigIx B address m (mu_mode u) (mu_value u) programId = Inr ix" "carries B ix u"
    using update_instruction [OF assms(1), of u address m programId] Cons.prems by auto
  ultimately show ?case by simp
qed simp

text \<open>
  C3. For a market the program accepts and integers that \<open>toNumber\<close> can return, the client builds one instruction for each queued
  update, and when the program runs them in order the account holds the wanted market, with three exceptions: the fields the client
  never updates, the owner, which is only proposed in the cached owner, and a changed net value, which arrives with its bytes reversed.
\<close>

theorem market_update_applied:
  assumes "bn_laws L" "borsh_le_laws B" "update_ok X old n"
    and "same \<Longrightarrow> individualAutodeleverageMarginCallPeriodSecs old = individualAutodeleverageMarginCallPeriodSecs n"
  shows "\<exists>us ixs. market_updates L B same old n = Inr us \<and>
    parseForChangesMarketConfigAndGetIxs L B same address old n programId = Inr ixs \<and> list_all2 (carries B) ixs us \<and>
    run_updates B X old us = Inr (updated_market old n)"
proof -
  define U where "U k = projr (updateLendingMarketConfig L B same k old n)" for k
  have U: "updateLendingMarketConfig L B same k old n = Inr (U k)" if "k \<in> set visited_market_keys" for k
    using key_step [OF assms(1-3) that, where m = old and same = same] by (auto simp: effect_def U_def)
  let ?us = "concat (map U visited_market_keys)"
  have us: "market_updates L B same old n = Inr ?us" using U by (rule market_updates_visited)
  have "length (mu_value u) = 72 \<and> mu_mode u \<le> 21" if "u \<in> set ?us" for u
    using that market_updates_shape [OF U] by auto
  then obtain ixs where ixs: "mapE (\<lambda>u. updateMarketConfigIx B address old (mu_mode u) (mu_value u) programId) ?us = Inr ixs"
      "list_all2 (carries B) ixs ?us"
    using update_instructions [OF borsh_le_laws.axioms(1) [OF assms(2)], of ?us address old programId] by blast
  have "run_updates B X old ?us = Inr (foldl (\<lambda>m k. stored same k old n m) old visited_market_keys)"
    using run_keys [OF assms(1-3) U, where ks = visited_market_keys and m = old] by (simp add: visited_market_keys_eq)
  then show ?thesis using us ixs by (auto simp: parseForChangesMarketConfigAndGetIxs_def stored_all [OF assms(4)])
qed

text \<open>
  C26. A changed minimal net value is sent most significant byte first and read least significant byte first: the program stores the
  number with the reversed bytes, which is the wanted one only if its sixteen bytes read the same from both ends.
\<close>

theorem net_value_stored_reversed:
  assumes "minNetValueInObligationSf old \<noteq> minNetValueInObligationSf n"
  shows "\<exists>u. updateLendingMarketConfig L B same MK_minNetValueInObligationSf old n = Inr [u] \<and>
    process B X (mu_mode u) (mu_value u) m = Inr (m\<lparr>minNetValueInObligationSf := byte_reversed (minNetValueInObligationSf n)\<rparr>) \<and>
    (byte_reversed (minNetValueInObligationSf n) = minNetValueInObligationSf n \<longleftrightarrow>
      rev (le_bytes 16 (unat (minNetValueInObligationSf n))) = le_bytes 16 (unat (minNetValueInObligationSf n)))"
proof -
  let ?v = "minNetValueInObligationSf n"
  let ?u = "\<lparr>mu_mode = 15, mu_value = write_be16 (uint ?v) (alloc 72)\<rparr>"
  have "updateLendingMarketConfig L B same MK_minNetValueInObligationSf old n = Inr [?u]"
    using assms by (simp add: market_update_if_def encoded_value)
  moreover have "process B X (mu_mode ?u) (mu_value ?u) m = Inr (m\<lparr>minNetValueInObligationSf := byte_reversed ?v\<rparr>)"
    using process_discriminator [of B X M_UpdateMinNetValueObligationPostAction "mu_value ?u" m] by (simp add: net_value_read)
  ultimately show ?thesis using byte_reversed_fixed by blast
qed

section \<open>When nothing is sent\<close>

lemma market_update_if_Nil: "market_update_if B c k v = Inr [] \<longleftrightarrow> \<not> c"
  by (simp add: market_update_if_def bindE_Inr_iff)

lemma group_updates_Nil:
  "group_updates B olds news = Inr [] \<longleftrightarrow>
    length olds \<le> length news \<and> list_all (\<lambda>(old, new). \<not> group_differs old new) (zip olds news)"
  by (induction B olds news rule: group_updates.induct) (auto simp: bindE_Inr_iff market_update_if_Nil)

lemma updates_Nil:
  "foldE (\<lambda>us k. if isExcludedLendingMarketKey k then Inr us
      else bindE (updateLendingMarketConfig L B same k old n) (\<lambda>u. Inr (us @ u))) us ks = Inr [] \<longleftrightarrow>
    us = [] \<and> (\<forall>k\<in>set ks. \<not> isExcludedLendingMarketKey k \<longrightarrow> updateLendingMarketConfig L B same k old n = Inr [])"
proof (induction ks arbitrary: us)
  case (Cons k ks)
  then show ?case by (cases "updateLendingMarketConfig L B same k old n") auto
qed auto

text \<open>The settings of a market that an update can change, without the padding of its groups.\<close>

definition same_market_settings :: "lending_market \<Rightarrow> lending_market \<Rightarrow> bool" where
  "same_market_settings m n \<longleftrightarrow>
     lendingMarketOwner m = lendingMarketOwner n \<and> lendingMarketOwnerCached m = lendingMarketOwnerCached n \<and>
     referralFeeBps m = referralFeeBps n \<and> emergencyMode m = emergencyMode n \<and> lm_autodeleverageEnabled m = lm_autodeleverageEnabled n \<and>
     borrowDisabled m = borrowDisabled n \<and> priceRefreshTriggerToMaxAgePct m = priceRefreshTriggerToMaxAgePct n \<and>
     liquidationMaxDebtCloseFactorPct m = liquidationMaxDebtCloseFactorPct n \<and>
     insolvencyRiskUnhealthyLtvPct m = insolvencyRiskUnhealthyLtvPct n \<and>
     minFullLiquidationValueThreshold m = minFullLiquidationValueThreshold n \<and>
     maxLiquidatableDebtMarketValueAtOnce m = maxLiquidatableDebtMarketValueAtOnce n \<and>
     globalAllowedBorrowValue m = globalAllowedBorrowValue n \<and> riskCouncil m = riskCouncil n \<and>
     minNetValueInObligationSf m = minNetValueInObligationSf n \<and> minValueSkipLiquidationLtvChecks m = minValueSkipLiquidationLtvChecks n \<and>
     lm_name m = lm_name n \<and> minValueSkipLiquidationBfChecks m = minValueSkipLiquidationBfChecks n \<and>
     minInitialDepositAmount m = minInitialDepositAmount n \<and> length (lm_elevationGroups m) \<le> length (lm_elevationGroups n) \<and>
     list_all (\<lambda>(old, new). \<not> group_differs old new) (zip (lm_elevationGroups m) (lm_elevationGroups n))"

text \<open>
  C27. Nothing is sent exactly when every setting is the same and both markets hold the same object as margin call period. Two equal
  markets read separately hold different objects, so an update of that period is always sent for them.
\<close>

theorem no_market_update_iff:
  "parseForChangesMarketConfigAndGetIxs L B sameObject address old n programId = Inr [] \<longleftrightarrow> sameObject \<and> same_market_settings old n"
proof -
  have name: "bindE (sameLengthArrayEquals (=) (lm_name old) (lm_name n)) (\<lambda>same.
      market_update_if B (\<not> same) M_UpdateName v) = Inr [] \<longleftrightarrow> lm_name old = lm_name n" for v
    by (auto simp: bindE_Inr_iff market_update_if_Nil sameLengthArrayEquals_def list_all_iff intro: nth_equalityI)
  have groups: "bindE (group_updates B os ns) (\<lambda>us. if 1 < length us then Inl e else Inr us) = Inr [] \<longleftrightarrow>
      group_updates B os ns = Inr []" for os ns e
    by (cases "group_updates B os ns") auto
  have "parseForChangesMarketConfigAndGetIxs L B sameObject address old n programId = Inr [] \<longleftrightarrow> market_updates L B sameObject old n = Inr []"
    unfolding parseForChangesMarketConfigAndGetIxs_def
  proof (cases "market_updates L B sameObject old n")
    case (Inr us)
    then show "bindE (market_updates L B sameObject old n)
        (\<lambda>us. mapE (\<lambda>u. updateMarketConfigIx B address old (mu_mode u) (mu_value u) programId) us) = Inr [] \<longleftrightarrow>
      market_updates L B sameObject old n = Inr []"
      by (cases us) (auto simp: bindE_Inr_iff)
  qed simp
  also have "\<dots> \<longleftrightarrow> (\<forall>k\<in>set visited_market_keys. updateLendingMarketConfig L B sameObject k old n = Inr [])"
    unfolding market_updates_def updates_Nil by (auto simp: visited_market_keys_def)
  also have "\<dots> \<longleftrightarrow> sameObject \<and> same_market_settings old n"
    unfolding visited_market_keys_eq list.set ball_simps updateLendingMarketConfig.simps market_update_if_Nil groups group_updates_Nil name
      same_market_settings_def by blast
  finally show ?thesis .
qed

section \<open>A market\<close>

definition fixed_bonus_exceeds :: "u8 \<Rightarrow> u16 \<Rightarrow> bool" where
  "fixed_bonus_exceeds threshold bonus \<longleftrightarrow> uint threshold * (10000 + uint bonus) > 1000000"

definition account_market :: lending_market where
  "account_market = \<lparr>lm_version = 1, bumpSeed = 255, lendingMarketOwner = 11, lendingMarketOwnerCached = 11, quoteCurrency = replicate 32 0,
     referralFeeBps = 0, emergencyMode = 0, lm_autodeleverageEnabled = 0, borrowDisabled = 0, priceRefreshTriggerToMaxAgePct = 0,
     liquidationMaxDebtCloseFactorPct = 20, insolvencyRiskUnhealthyLtvPct = 95, minFullLiquidationValueThreshold = 2,
     maxLiquidatableDebtMarketValueAtOnce = 500000, globalAllowedBorrowValue = 45000000, riskCouncil = 12,
     lm_elevationGroups =
       [\<lparr>eg_maxLiquidationBonusBps = 300, eg_id = 1, ltvPct = 90, eg_liquidationThresholdPct = 92, allowNewLoans = 1,
         eg_maxReservesAsCollateral = 2, eg_padding0 = 0, eg_debtReserve = 101\<rparr>,
        \<lparr>eg_maxLiquidationBonusBps = 0, eg_id = 0, ltvPct = 0, eg_liquidationThresholdPct = 0, allowNewLoans = 0,
         eg_maxReservesAsCollateral = 0, eg_padding0 = 0, eg_debtReserve = 0\<rparr>],
     minNetValueInObligationSf = 0, minValueSkipLiquidationLtvChecks = 0, lm_name = [77, 97, 105, 110] @ replicate 28 0,
     minValueSkipLiquidationBfChecks = 0, individualAutodeleverageMarginCallPeriodSecs = 259200, minInitialDepositAmount = 100000\<rparr>"

definition wanted_market :: lending_market where
  "wanted_market = account_market\<lparr>lendingMarketOwner := 13, referralFeeBps := 2000, borrowDisabled := 1, minNetValueInObligationSf := 1,
     lm_name := [65, 108, 116] @ replicate 29 0,
     lm_elevationGroups := (lm_elevationGroups account_market)[1 :=
       \<lparr>eg_maxLiquidationBonusBps = 200, eg_id = 2, ltvPct = 85, eg_liquidationThresholdPct = 88, allowNewLoans = 1,
        eg_maxReservesAsCollateral = 3, eg_padding0 = 0, eg_debtReserve = 102\<rparr>]\<rparr>"

lemma ascii_name: "list_all (\<lambda>b. unat b < 128) bs \<Longrightarrow> valid_utf8 bs"
  unfolding valid_utf8_def by (induction bs) simp_all

lemma wanted_ok: "update_ok fixed_bonus_exceeds account_market wanted_market"
proof -
  have "values_ok wanted_market" by (simp add: values_ok_def wanted_market_def account_market_def)
  moreover have "safe_market wanted_market" by (simp add: safe_market_def wanted_market_def account_market_def)
  moreover have "names_ok (lm_name account_market) (lm_name wanted_market)"
    by (auto simp: names_ok_def wanted_market_def account_market_def list_all_iff intro!: ascii_name)
  moreover have "groups_ok fixed_bonus_exceeds (lm_elevationGroups account_market) (lm_elevationGroups wanted_market)"
    by (simp add: groups_ok_def wanted_market_def account_market_def group_differs_def group_accepted_def fixed_bonus_exceeds_def
      default_pubkey_def All_less_Suc)
  ultimately show ?thesis by (simp add: update_ok_def)
qed

theorem market_update_applied_witness:
  "\<exists>us ixs. market_updates decimal_js borsh_le False account_market wanted_market = Inr us \<and>
    parseForChangesMarketConfigAndGetIxs decimal_js borsh_le False 1 account_market wanted_market 4 = Inr ixs \<and>
    list_all2 (carries borsh_le) ixs us \<and> run_updates borsh_le fixed_bonus_exceeds account_market us =
      Inr (wanted_market\<lparr>lendingMarketOwner := 11, lendingMarketOwnerCached := 13, minNetValueInObligationSf := byte_reversed 1\<rparr>)"
proof -
  have "updated_market account_market wanted_market =
      wanted_market\<lparr>lendingMarketOwner := 11, lendingMarketOwnerCached := 13, minNetValueInObligationSf := byte_reversed 1\<rparr>"
    by (simp add: updated_market_def wanted_market_def account_market_def)
  then show ?thesis
    using market_update_applied [OF djs.bn_laws_axioms bll.borsh_le_laws_axioms wanted_ok, of False 1 4] by simp
qed

theorem net_value_stored_reversed_witness:
  "minNetValueInObligationSf account_market \<noteq> minNetValueInObligationSf wanted_market \<and>
   (\<exists>u. updateLendingMarketConfig decimal_js borsh_le False MK_minNetValueInObligationSf account_market wanted_market = Inr [u] \<and>
     process borsh_le fixed_bonus_exceeds (mu_mode u) (mu_value u) account_market =
       Inr (account_market\<lparr>minNetValueInObligationSf := 2 ^ 120\<rparr>))"
proof -
  have differ: "minNetValueInObligationSf account_market \<noteq> minNetValueInObligationSf wanted_market"
    and one: "minNetValueInObligationSf wanted_market = 1" by (simp_all add: wanted_market_def account_market_def)
  have step: "le_bytes j v = of_nat (v mod 256) # le_bytes (j - 1) (v div 256)" if "0 < j" for j v using that by (cases j) simp_all
  have "byte_reversed 1 = 2 ^ 120" by (simp add: byte_reversed_def step)
  then show ?thesis using net_value_stored_reversed [OF differ, where L = decimal_js and B = borsh_le and same = False and X = fixed_bonus_exceeds
      and m = account_market] differ one by force
qed

end
