(* ===== verification/Asset_Config.thy ===== *)
theory Asset_Config
  imports Vault_Config Reserve_Config
begin

text \<open>
  New reserves and their configuration: \<open>src/ts-client/src/utils/managerTypes.ts\<close> and the class \<open>KaminoManager\<close> of
  \<open>src/ts-client/src/classes/manager.ts\<close>. The constructors of the asset configurations take the object \<open>DefaultConfigParams\<close> itself and
  write into it, so parameter objects live in a store (\<open>param_store\<close>), and an asset configuration holds the address of its object.
\<close>

section \<open>Price feeds\<close>

record price_feed =
  pf_scopePriceConfigAddress :: "pubkey option"
  pf_scopeChain :: "u16 list option"
  pf_scopeTwapChain :: "u16 list option"
  pf_pythPrice :: "pubkey option"
  pf_switchboardPrice :: "pubkey option"
  pf_switchboardTwapPrice :: "pubkey option"

record oracle_configs =
  oc_pythPrice :: pubkey
  oc_switchboard :: switchboard_configuration
  oc_scope :: scope_configuration

text \<open>\<open>chain!.concat(Array(4 - chain!.length).fill(U16_MAX))\<close>: a missing chain has no \<open>concat\<close>, and no array has a negative length.\<close>

definition pad_chain :: "u16 list option \<Rightarrow> u16 list result" where
  "pad_chain chain =
     bindE (deref chain) (\<lambda>c. if length c \<le> 4 then Inr (c @ replicate (4 - length c) U16_MAX) else Inl RangeError)"

definition getReserveOracleConfigs :: "price_feed option \<Rightarrow> oracle_configs result" where
  "getReserveOracleConfigs feed =
     (let pyth = NULL_PUBKEY;
          switchboard = \<lparr>priceAggregator = NULL_PUBKEY, twapAggregator = NULL_PUBKEY\<rparr>;
          scope = \<lparr>priceFeed = NULL_PUBKEY, priceChain = replicate 4 65535, twapChain = replicate 4 65535\<rparr>
      in case feed of
           None \<Rightarrow> Inr \<lparr>oc_pythPrice = pyth, oc_switchboard = switchboard, oc_scope = scope\<rparr>
         | Some f \<Rightarrow>
             let pyth = (case pf_pythPrice f of None \<Rightarrow> pyth | Some k \<Rightarrow> k);
                 switchboard = (case pf_switchboardPrice f of
                     None \<Rightarrow> switchboard
                   | Some k \<Rightarrow> \<lparr>priceAggregator = k,
                       twapAggregator = (case pf_switchboardTwapPrice f of None \<Rightarrow> NULL_PUBKEY | Some t \<Rightarrow> t)\<rparr>)
             in bindE (case pf_scopePriceConfigAddress f of
                    None \<Rightarrow> Inr scope
                  | Some k \<Rightarrow>
                      bindE (pad_chain (pf_scopeChain f)) (\<lambda>prices.
                      bindE (pad_chain (pf_scopeTwapChain f)) (\<lambda>twaps.
                        Inr \<lparr>priceFeed = k, priceChain = prices, twapChain = twaps\<rparr>)))
                  (\<lambda>scope. Inr \<lparr>oc_pythPrice = pyth, oc_switchboard = switchboard, oc_scope = scope\<rparr>))"

section \<open>Parameters of an asset\<close>

record asset_params =
  ap_loanToValuePct :: u8
  ap_depositLimit :: decimal
  ap_borrowLimit :: decimal
  ap_maxLiquidationBonusBps :: u16
  ap_minLiquidationBonusBps :: u16
  ap_badDebtLiquidationBonusBps :: u16
  ap_liquidationThresholdPct :: u8
  ap_borrowFeeSf :: fraction
  ap_flashLoanFeeSf :: fraction
  ap_protocolTakeRate :: u8
  ap_elevationGroups :: "u8 list"
  ap_priceFeed :: "price_feed option"
  ap_maxAgePriceSeconds :: u64
  ap_maxAgeTwapSeconds :: u64
  ap_borrowRateCurve :: "curve_point list"

type_synonym param_store = "nat \<Rightarrow> asset_params"

text \<open>The address of the object \<open>DefaultConfigParams\<close>, and what it holds when the module is loaded.\<close>

definition DefaultConfigParams :: nat where
  "DefaultConfigParams = 0"

definition default_params :: asset_params where
  "default_params =
     \<lparr>ap_loanToValuePct = 70, ap_depositLimit = Fin 1000, ap_borrowLimit = Fin 1000, ap_maxLiquidationBonusBps = 500,
      ap_minLiquidationBonusBps = 200, ap_badDebtLiquidationBonusBps = 10, ap_liquidationThresholdPct = 75, ap_borrowFeeSf = ZERO_FRACTION,
      ap_flashLoanFeeSf = ZERO_FRACTION, ap_protocolTakeRate = 0, ap_elevationGroups = [0, 0, 0, 0, 0], ap_priceFeed = None,
      ap_maxAgePriceSeconds = 180, ap_maxAgeTwapSeconds = 240,
      ap_borrowRateCurve = \<lparr>utilizationRateBps = 0, borrowRateBps = 1000\<rparr> # replicate 10 \<lparr>utilizationRateBps = 10000, borrowRateBps = 1000\<rparr>\<rparr>"

record asset_config =
  ac_mint :: pubkey
  ac_tokenName :: string
  ac_mintDecimals :: nat
  ac_mintTokenProgram :: pubkey
  assetReserveConfigParams :: nat
  ac_reserveConfig :: "reserve_config option"

definition new_AssetReserveConfig ::
    "pubkey \<Rightarrow> pubkey \<Rightarrow> string \<Rightarrow> nat \<Rightarrow> price_feed \<Rightarrow> u8 \<Rightarrow> u8 \<Rightarrow> curve_point list \<Rightarrow> decimal \<Rightarrow> decimal \<Rightarrow> param_store \<Rightarrow>
     asset_config \<times> param_store" where
  "new_AssetReserveConfig mint tokenProgram name decimals feed ltv threshold curve depositLim borrowLim h =
     (\<lparr>ac_mint = mint, ac_tokenName = name, ac_mintDecimals = decimals, ac_mintTokenProgram = tokenProgram,
       assetReserveConfigParams = DefaultConfigParams, ac_reserveConfig = None\<rparr>,
      h(DefaultConfigParams := (h DefaultConfigParams)\<lparr>ap_priceFeed := Some feed, ap_loanToValuePct := ltv,
          ap_liquidationThresholdPct := threshold, ap_borrowRateCurve := curve, ap_depositLimit := depositLim, ap_borrowLimit := borrowLim\<rparr>))"

definition new_AssetReserveConfigCli :: "pubkey \<Rightarrow> pubkey \<Rightarrow> reserve_config option \<Rightarrow> asset_config" where
  "new_AssetReserveConfigCli mint tokenProgram given =
     \<lparr>ac_mint = mint, ac_tokenName = [], ac_mintDecimals = 0, ac_mintTokenProgram = tokenProgram,
      assetReserveConfigParams = DefaultConfigParams, ac_reserveConfig = given\<rparr>"

definition new_CollateralConfig ::
    "pubkey \<Rightarrow> pubkey \<Rightarrow> string \<Rightarrow> nat \<Rightarrow> price_feed \<Rightarrow> u8 \<Rightarrow> u8 \<Rightarrow> param_store \<Rightarrow> asset_config \<times> param_store" where
  "new_CollateralConfig mint tokenProgram name decimals feed ltv threshold h =
     (\<lparr>ac_mint = mint, ac_tokenName = name, ac_mintDecimals = decimals, ac_mintTokenProgram = tokenProgram,
       assetReserveConfigParams = DefaultConfigParams, ac_reserveConfig = None\<rparr>,
      h(DefaultConfigParams := (h DefaultConfigParams)\<lparr>ap_priceFeed := Some feed, ap_loanToValuePct := ltv,
          ap_liquidationThresholdPct := threshold, ap_borrowLimit := Fin 0\<rparr>))"

definition new_DebtConfig ::
    "pubkey \<Rightarrow> pubkey \<Rightarrow> string \<Rightarrow> nat \<Rightarrow> price_feed \<Rightarrow> curve_point list \<Rightarrow> param_store \<Rightarrow> asset_config \<times> param_store" where
  "new_DebtConfig mint tokenProgram name decimals feed curve h =
     (\<lparr>ac_mint = mint, ac_tokenName = name, ac_mintDecimals = decimals, ac_mintTokenProgram = tokenProgram,
       assetReserveConfigParams = DefaultConfigParams, ac_reserveConfig = None\<rparr>,
      h(DefaultConfigParams := (h DefaultConfigParams)\<lparr>ap_priceFeed := Some feed, ap_borrowRateCurve := curve\<rparr>))"

definition setAssetConfigParams :: "nat \<Rightarrow> asset_config \<Rightarrow> asset_config" where
  "setAssetConfigParams params a = a\<lparr>assetReserveConfigParams := params\<rparr>"

definition setReserveConfig :: "reserve_config \<Rightarrow> asset_config \<Rightarrow> asset_config" where
  "setReserveConfig given a = a\<lparr>ac_reserveConfig := Some given\<rparr>"

section \<open>The configuration of a new reserve\<close>

definition encodeTokenName :: "string \<Rightarrow> byte list result" where
  "encodeTokenName name = buf_write (alloc 32) 0 (concat (map utf8 name))"

text \<open>A BN as a field of 64 bits; a number that needs more is refused when the configuration is encoded.\<close>

definition bn_u64 :: "int \<Rightarrow> u64 result" where
  "bn_u64 v = (if 0 \<le> v \<and> v < 2 ^ 64 then Inr (of_int v) else Inl BNError)"

definition limit_lamports :: "num_lib \<Rightarrow> decimal \<Rightarrow> nat \<Rightarrow> u64 result" where
  "limit_lamports L limit decimals = bindE (bn_of_dec L (dfloor (numberToLamportsDecimal L limit decimals))) bn_u64"

definition no_cap :: withdrawal_caps where
  "no_cap = \<lparr>configCapacity = 0, currentTotal = 0, lastIntervalStartTimestamp = 0, configIntervalLengthSeconds = 0\<rparr>"

text \<open>The token information has no \<open>blockPriceUsage\<close> and no \<open>reserved\<close>: the layout leaves zero bytes for a missing field.\<close>

definition buildReserveConfig :: "num_lib \<Rightarrow> asset_params \<Rightarrow> nat \<Rightarrow> string \<Rightarrow> reserve_config result" where
  "buildReserveConfig L p decimals name =
     bindE (bn_u64 (getValue (ap_borrowFeeSf p))) (\<lambda>borrowFee.
     bindE (bn_u64 (getValue (ap_flashLoanFeeSf p))) (\<lambda>flashFee.
     bindE (limit_lamports L (ap_depositLimit p) decimals) (\<lambda>depositLim.
     bindE (limit_lamports L (ap_borrowLimit p) decimals) (\<lambda>borrowLim.
     bindE (encodeTokenName name) (\<lambda>nameBytes.
     bindE (getReserveOracleConfigs (ap_priceFeed p)) (\<lambda>oracles.
       Inr \<lparr>rc_status = 0, assetTier = 0, hostFixedInterestRateBps = 0, reserved2 = replicate 2 0, reserved3 = replicate 8 0,
         protocolTakeRatePct = ap_protocolTakeRate p, protocolLiquidationFeePct = 0, loanToValuePct = ap_loanToValuePct p,
         liquidationThresholdPct = ap_liquidationThresholdPct p, minLiquidationBonusBps = ap_minLiquidationBonusBps p,
         maxLiquidationBonusBps = ap_maxLiquidationBonusBps p, badDebtLiquidationBonusBps = ap_badDebtLiquidationBonusBps p,
         deleveragingMarginCallPeriodSecs = 0, deleveragingThresholdDecreaseBpsPerDay = 24,
         rc_fees = \<lparr>borrowFeeSf = borrowFee, flashLoanFeeSf = flashFee, rf_padding = replicate 6 0\<rparr>,
         borrowRateCurve = ap_borrowRateCurve p, borrowFactorPct = 100, depositLimit = depositLim, borrowLimit = borrowLim,
         tokenInfo = \<lparr>ti_name = nameBytes, heuristic = \<lparr>ph_lower = 0, ph_upper = 0, ph_exp = 0\<rparr>, maxTwapDivergenceBps = 0,
           maxAgePriceSeconds = ap_maxAgePriceSeconds p, maxAgeTwapSeconds = ap_maxAgeTwapSeconds p, scopeConfiguration = oc_scope oracles,
           switchboardConfiguration = oc_switchboard oracles, pythPrice = oc_pythPrice oracles, blockPriceUsage = 0, ti_reserved = [],
           ti_padding = replicate 20 0\<rparr>,
         depositWithdrawalCap = no_cap, debtWithdrawalCap = no_cap, rc_elevationGroups = ap_elevationGroups p,
         disableUsageAsCollOutsideEmode = 0, utilizationLimitBlockBorrowingAbovePct = 0, autodeleverageEnabled = 0, reserved1 = [0],
         borrowLimitOutsideElevationGroup = 0, borrowLimitAgainstThisCollateralInElevationGroup = replicate 32 0,
         deleveragingBonusIncreaseBpsPerDay = 100\<rparr>))))))"

definition getReserveConfig :: "num_lib \<Rightarrow> asset_config \<Rightarrow> param_store \<Rightarrow> reserve_config result" where
  "getReserveConfig L a h = (case ac_reserveConfig a of
      Some c \<Rightarrow> Inr c
    | None \<Rightarrow> buildReserveConfig L (h (assetReserveConfigParams a)) (ac_mintDecimals a) (ac_tokenName a))"

section \<open>Instructions of the manager\<close>

definition LendingMarket_size :: nat where
  "LendingMarket_size = 4656 + 8"

definition Reserve_size :: nat where
  "Reserve_size = 8616 + 8"

text \<open>\<open>Keypair.generate\<close> gives the address of the new account, an argument here.\<close>

definition createMarketIxs :: "vault_env \<Rightarrow> pubkey \<Rightarrow> pubkey \<Rightarrow> pubkey \<Rightarrow> instruction list result" where
  "createMarketIxs V kaminoLendProgramId admin market =
     (let E = ve V; S = sol E in
      bindE (initLendingMarket (borsh E) (replicate 32 0)
          \<lparr>ilm_lendingMarketOwner = admin, ilm_lendingMarket = market,
           ilm_lendingMarketAuthority = lendingMarketAuthPda S market kaminoLendProgramId,
           ilm_systemProgram = SYSTEM_PROGRAM_ID S, ilm_rent = SYSVAR_RENT_PUBKEY S\<rparr> kaminoLendProgramId) (\<lambda>ix.
        Inr [sys_createAccount V admin market (getMinimumBalanceForRentExemption E LendingMarket_size) LendingMarket_size kaminoLendProgramId,
             ix]))"

definition createReserveIxs :: "vault_env \<Rightarrow> pubkey \<Rightarrow> pubkey \<Rightarrow> pubkey \<Rightarrow> pubkey \<Rightarrow> pubkey \<Rightarrow> pubkey \<Rightarrow> instruction list" where
  "createReserveIxs V owner ownerLiquiditySource market mint reserve programId =
     (let E = ve V; S = sol E; pdas = reservePdas S programId market mint in
      [sys_createAccount V owner reserve (getMinimumBalanceForRentExemption E Reserve_size) Reserve_size programId,
       initReserve
         \<lparr>inr_lendingMarketOwner = owner, inr_lendingMarket = market, inr_lendingMarketAuthority = lendingMarketAuthPda S market programId,
          inr_reserve = reserve, inr_reserveLiquidityMint = mint, inr_reserveLiquiditySupply = rp_liquiditySupplyVault pdas,
          inr_feeReceiver = rp_feeVault pdas, inr_reserveCollateralMint = rp_collateralMint pdas,
          inr_reserveCollateralSupply = rp_collateralSupplyVault pdas, inr_initialLiquiditySource = ownerLiquiditySource,
          inr_rent = SYSVAR_RENT_PUBKEY S, inr_liquidityTokenProgram = TOKEN_PROGRAM_ID S, inr_collateralTokenProgram = TOKEN_PROGRAM_ID S,
          inr_systemProgram = SYSTEM_PROGRAM_ID S\<rparr> programId])"

definition updateReserveIxs ::
    "vault_env \<Rightarrow> pubkey \<Rightarrow> pubkey \<Rightarrow> pubkey \<Rightarrow> pubkey \<Rightarrow> reserve_config \<Rightarrow> reserve option \<Rightarrow> bool \<Rightarrow> instruction list result" where
  "updateReserveIxs V kaminoLendProgramId marketOwner market reserve wanted stateOverride updateEntireConfig =
     (let E = ve V; state = (case stateOverride of Some st \<Rightarrow> Some st | None \<Rightarrow> fetchReserve V reserve) in
      if state = None \<or> updateEntireConfig
      then bindE (updateEntireReserveConfigIx (borsh E) marketOwner market reserve wanted kaminoLendProgramId) (\<lambda>ix. Inr [ix])
      else parseForChangesReserveConfigAndGetIxs (num E) (borsh E) marketOwner market state reserve wanted kaminoLendProgramId)"

definition manager_getReserveConfig :: "vault_env \<Rightarrow> pubkey \<Rightarrow> reserve_config result" where
  "manager_getReserveConfig V reserve = bindE (need (fetchReserve V reserve) ''Reserve not found'') (\<lambda>st. Inr (config st))"

record scope_oracle_config =
  soc_scopePriceConfigAddress :: pubkey
  soc_oracleId :: u16
  soc_max_age :: nat

definition updateReserveScopeOracleConfigurationIxs ::
    "vault_env \<Rightarrow> pubkey \<Rightarrow> pubkey \<Rightarrow> pubkey \<Rightarrow> pubkey \<Rightarrow> reserve \<Rightarrow> scope_oracle_config \<Rightarrow> scope_oracle_config option \<Rightarrow> nat \<Rightarrow>
     instruction list result" where
  "updateReserveScopeOracleConfigurationIxs V kaminoLendProgramId marketOwner market reserve st oracle twap maxAgeBufferSeconds =
     (let twapId = (case twap of None \<Rightarrow> U16_MAX | Some t \<Rightarrow> soc_oracleId t) in
      bindE (getReserveOracleConfigs (Some \<lparr>pf_scopePriceConfigAddress = Some (soc_scopePriceConfigAddress oracle),
          pf_scopeChain = Some [soc_oracleId oracle], pf_scopeTwapChain = Some [twapId], pf_pythPrice = None, pf_switchboardPrice = None,
          pf_switchboardTwapPrice = None\<rparr>)) (\<lambda>oracles.
        let info = tokenInfo (config st);
            new = (config st)\<lparr>tokenInfo := info\<lparr>scopeConfiguration := oc_scope oracles,
              maxAgeTwapSeconds := (case twap of None \<Rightarrow> maxAgeTwapSeconds info | Some t \<Rightarrow> of_nat (soc_max_age t + maxAgeBufferSeconds)),
              maxAgePriceSeconds := of_nat (soc_max_age oracle + maxAgeBufferSeconds)\<rparr>\<rparr>
        in updateReserveIxs V kaminoLendProgramId marketOwner market reserve new (Some st) False))"

section \<open>Shared parameters\<close>

text \<open>
  C28. A collateral configuration and a debt configuration built after it share the default parameters. What both then return has the
  price feed, the borrow curve, the loan to value ratio and the liquidation threshold of one and the other, and nothing can be borrowed
  from either reserve: the collateral is priced by the feed of the debt token, and the debt reserve has a borrow limit of zero.
\<close>

theorem asset_configs_share_defaults:
  assumes laws: "decimal_laws L" "bn_laws L" and decimals: "decimals \<le> 22" "decimals' \<le> 22"
    and coll: "new_CollateralConfig mint prog name decimals feed ltv threshold h = (c, h1)"
    and debt: "new_DebtConfig mint' prog' name' decimals' feed' curve h1 = (d, h2)"
    and built: "getReserveConfig L c h2 = Inr cc" "getReserveConfig L d h2 = Inr dc"
  shows "borrowLimit cc = 0 \<and> borrowLimit dc = 0 \<and> borrowRateCurve cc = curve \<and>
    loanToValuePct dc = ltv \<and> liquidationThresholdPct dc = threshold \<and>
    (\<exists>oracles. getReserveOracleConfigs (Some feed') = Inr oracles \<and> scopeConfiguration (tokenInfo cc) = oc_scope oracles \<and>
      switchboardConfiguration (tokenInfo cc) = oc_switchboard oracles \<and> pythPrice (tokenInfo cc) = oc_pythPrice oracles)"
proof -
  have zero: "limit_lamports L (Fin 0) j = Inr 0" if "j \<le> 22" for j
  proof -
    have "d_round L 0 = 0" using laws(1) by (rule decimal_laws.d_zero)
    moreover have "d_toBN L 0 = Inr 0" using bn_laws.toBN_small [OF laws(2), of 0] by simp
    ultimately show ?thesis by (simp add: limit_lamports_def numberToLamportsDecimal_def dec_of_npow10 [OF that] bn_u64_def)
  qed
  show ?thesis using built coll debt zero [OF decimals(1)] zero [OF decimals(2)]
    by (auto simp: getReserveConfig_def buildReserveConfig_def new_CollateralConfig_def new_DebtConfig_def bindE_Inr_iff)
qed

definition sol_feed :: price_feed where
  "sol_feed = \<lparr>pf_scopePriceConfigAddress = Some 7, pf_scopeChain = Some [1], pf_scopeTwapChain = Some [2], pf_pythPrice = None,
     pf_switchboardPrice = None, pf_switchboardTwapPrice = None\<rparr>"

definition usd_feed :: price_feed where
  "usd_feed = sol_feed\<lparr>pf_scopeChain := Some [5], pf_scopeTwapChain := Some [6]\<rparr>"

lemma asset_limits: "limit_lamports decimal_js (Fin 0) 9 = Inr 0" "limit_lamports decimal_js (Fin 0) 6 = Inr 0"
    "limit_lamports decimal_js (Fin 1000) 9 = Inr (10 ^ 12)" "limit_lamports decimal_js (Fin 1000) 6 = Inr (10 ^ 9)"
proof -
  have int: "d_round decimal_js (of_int m) = of_int m" if "\<bar>m\<bar> \<le> 10 ^ 20" for m using that by (rule djs.d_int)
  have "d_round decimal_js (10 ^ 12) = 10 ^ 12" "d_round decimal_js (10 ^ 9) = 10 ^ 9"
    using int [of "10 ^ 12"] int [of "10 ^ 9"] by simp_all
  moreover have "d_toBN decimal_js m = Inr m" if "\<bar>m\<bar> < 10 ^ 21" for m using that by (rule djs.toBN_small)
  ultimately show "limit_lamports decimal_js (Fin 0) 9 = Inr 0" "limit_lamports decimal_js (Fin 0) 6 = Inr 0"
    "limit_lamports decimal_js (Fin 1000) 9 = Inr (10 ^ 12)" "limit_lamports decimal_js (Fin 1000) 6 = Inr (10 ^ 9)"
    by (simp_all add: limit_lamports_def numberToLamportsDecimal_def dec_of_npow10 bn_u64_def)
qed

theorem asset_configs_share_defaults_witness:
  "\<exists>c h1 d h2 cc dc. new_CollateralConfig 21 6 ''SOL'' 9 sol_feed 70 75 (\<lambda>_. default_params) = (c, h1) \<and>
     new_DebtConfig 22 6 ''USDC'' 6 usd_feed (ap_borrowRateCurve default_params) h1 = (d, h2) \<and>
     getReserveConfig decimal_js c h2 = Inr cc \<and> getReserveConfig decimal_js d h2 = Inr dc \<and>
     borrowLimit dc = 0 \<and> priceChain (scopeConfiguration (tokenInfo cc)) = [5, 65535, 65535, 65535]"
proof -
  define c h1 where "c = fst (new_CollateralConfig 21 6 ''SOL'' 9 sol_feed 70 75 (\<lambda>_. default_params))"
    and "h1 = snd (new_CollateralConfig 21 6 ''SOL'' 9 sol_feed 70 75 (\<lambda>_. default_params))"
  define d h2 where "d = fst (new_DebtConfig 22 6 ''USDC'' 6 usd_feed (ap_borrowRateCurve default_params) h1)"
    and "h2 = snd (new_DebtConfig 22 6 ''USDC'' 6 usd_feed (ap_borrowRateCurve default_params) h1)"
  have coll: "new_CollateralConfig 21 6 ''SOL'' 9 sol_feed 70 75 (\<lambda>_. default_params) = (c, h1)" by (simp add: c_def h1_def)
  have debt: "new_DebtConfig 22 6 ''USDC'' 6 usd_feed (ap_borrowRateCurve default_params) h1 = (d, h2)" by (simp add: d_def h2_def)
  have feed: "\<exists>oracles. getReserveOracleConfigs (Some usd_feed) = Inr oracles \<and> priceChain (oc_scope oracles) = [5, 65535, 65535, 65535]"
  proof -
    have "replicate 3 (65535 :: u16) = [65535, 65535, 65535]" by (simp add: numeral_3_eq_3)
    then show ?thesis by (simp add: getReserveOracleConfigs_def usd_feed_def sol_feed_def pad_chain_def U16_MAX_def)
  qed
  then obtain cc where cc: "getReserveConfig decimal_js c h2 = Inr cc"
    by (auto simp: getReserveConfig_def buildReserveConfig_def c_def h1_def h2_def new_CollateralConfig_def new_DebtConfig_def
      default_params_def asset_limits encodeTokenName_def utf8_def buf_write_def getValue_def ZERO_FRACTION_def bn_u64_def)
  obtain dc where dc: "getReserveConfig decimal_js d h2 = Inr dc"
    using feed by (auto simp: getReserveConfig_def buildReserveConfig_def d_def h1_def h2_def new_CollateralConfig_def new_DebtConfig_def
      default_params_def asset_limits encodeTokenName_def utf8_def buf_write_def getValue_def ZERO_FRACTION_def bn_u64_def)
  show ?thesis
    using asset_configs_share_defaults [OF djs.decimal_laws_axioms djs.bn_laws_axioms _ _ coll debt cc dc] coll debt cc dc feed by auto
qed

end
