(* ===== verification/Spec2Isabelle.thy ===== *)
theory Spec2Isabelle
  imports Obligation_Limits Config_Updates Addresses Leverage_Laws Vault_Targets Market_Laws Asset_Config
begin

text \<open>
  A verification development of the TypeScript client of the Kamino lending protocol (\<open>src/ts-client/src\<close>). The client reads the
  accounts of a lending market, computes limits, rates and values from them, and builds the instructions of the lending program; a second
  group of classes does the same for the vault program, which spreads the tokens of its depositors over reserves.

  \<^bold>\<open>Conventions.\<close> A throw is a value of \<open>error\<close>; a function that can throw returns \<open>'a result = error + 'a\<close> and is composed with \<open>bindE\<close>;
  reading through a null or undefined value is \<open>deref\<close>. A function that may not return has type \<open>'a result option\<close>, composed with
  \<open>bindO\<close>, where \<open>None\<close> is not returning: this happens only through \<open>chain_loop\<close> and \<open>alloc_loop\<close>, the \<open>partial_function\<close>s for the
  price chain loop of \<open>classes/market.ts\<close> and the allocation loop of \<open>classes/vault.ts\<close>, so no fuel is chosen anywhere. Integers of the accounts are words of their width, BN values are \<open>int\<close>. A Decimal or
  a JavaScript number is an \<open>xnum\<close> (finite rational, infinities, NaN).

  \<^bold>\<open>Packages outside the repository\<close> are parameters. \<open>num_lib\<close> is decimal.js and bn.js: the rounding of each operation, with the laws
  the code relies on in the locales \<open>decimal_laws\<close> and \<open>bn_laws\<close>, interpreted on \<open>decimal_js\<close>, 20 digits rounded half up. The borsh
  package is a record with the locale \<open>borsh_laws\<close>, interpreted on little endian bytes. \<open>solana\<close> has the program address derivation and the
  program ids, \<open>env\<close> the connection (accounts, slot) and the spl-token and scope instruction builders, \<open>lev\<close> the kliquidity package,
  token balances and \<open>Decimal.valueOf\<close>; quoters and swappers are arguments, as in the code.

  \<^bold>\<open>Theories, in the order they build on each other.\<close>

  \<^item> \<open>Prelude\<close>: results, options, \<open>xnum\<close>, arrays. \<open>Rounding\<close>: rounding to significant digits in any base, binary64 numbers and their
    shortest decimal text. \<open>Decimal_Lib\<close>: \<open>num_lib\<close>, its laws and \<open>decimal_js\<close>.
  \<^item> \<open>Fraction\<close> (\<open>classes/fraction.ts\<close>): scaled fractions; the round trip through Decimal and its error.
  \<^item> \<open>Pubkey\<close> (\<open>utils/pubkey.ts\<close>): the key set, key map and bucketed hash map; the hash map refines the mathematical map.
  \<^item> \<open>Utils\<close> (\<open>classes/utils.ts\<close>, \<open>classes/curve.ts\<close>, \<open>utils/slots.ts\<close>): lamport conversions, the borrow rate curve, farm scores.
  \<^item> \<open>Reserve\<close>, \<open>Reserve_Rates\<close> (\<open>classes/reserve.ts\<close>): balances, interest, utilization, fees, caps; bounds and totality of the rates.
  \<^item> \<open>Market\<close> (\<open>classes/market.ts\<close> and the limits of \<open>classes/reserve.ts\<close> that read the market): lookup, elevation groups, borrow limits
    and the scope price chains.
  \<^item> \<open>Obligation\<close>, \<open>Obligation_Limits\<close> (\<open>classes/obligation.ts\<close>): positions, statistics, simulations and limits of a loan.
  \<^item> \<open>Bytes\<close>, \<open>Config_Layout\<close>: little endian bytes, the borsh layouts of the reserve configuration and their round trip.
  \<^item> \<open>Reserve_Config\<close>, \<open>Config_Updates\<close> (second half of \<open>classes/reserve.ts\<close>): which settings differ, the payload of each update, the order
    of the instructions and the validation flags.
  \<^item> \<open>Addresses\<close> (\<open>utils/seeds.ts\<close>, \<open>utils/ObligationType.ts\<close>): derived addresses and obligation ids.
  \<^item> \<open>Instructions\<close> (\<open>idl_codegen/instructions\<close>): accounts, discriminator and arguments of 42 instructions.
  \<^item> \<open>Action_State\<close>, \<open>Action_Lending\<close>, \<open>Action_Support\<close>, \<open>Action_Build\<close> (\<open>classes/action.ts\<close>): the state of an action, the methods that add
    lending instructions, those that add what must surround them, and the build functions. \<open>Action_Steps\<close> and \<open>Action_Order\<close>: every build
    function as a sequence of steps on the state; refresh before lending, labels, order, and that a deposit can be built.
  \<^item> \<open>Leverage_Calcs\<close>, \<open>Repay_Calcs\<close> (\<open>leverage/calcs.ts\<close>, \<open>lending_operations/repay_with_collateral_calcs.ts\<close>): amounts.
    \<open>Flash_Loans\<close>, \<open>Ktoken_Swaps\<close> (\<open>leverage/instructions.ts\<close>, \<open>leverage/utils.ts\<close>, \<open>utils/ata.ts\<close>, \<open>utils/instruction.ts\<close>): what the operations
    share. \<open>Leverage_Ops\<close>, \<open>Leverage_Flows\<close> (\<open>leverage/operations.ts\<close>), \<open>Collateral_Ops\<close>, \<open>Swap_Collateral\<close>
    (\<open>lending_operations\<close>): the operations around a flash loan.
  \<^item> \<open>Flash_Safety\<close>, \<open>Leverage_Laws\<close>: the flash loan index of every operation, the leverage a deposit reaches, the group and the
    arguments of a collateral swap, the collateral that can be withdrawn.
  \<^item> \<open>Vault_Instructions\<close> (\<open>idl_codegen_kamino_vault/instructions\<close>): the instructions of the vault program. \<open>Vault_State\<close>, \<open>Vault_Calcs\<close>,
    \<open>Vault_Yields\<close>, \<open>Vault_Config\<close>, \<open>Vault_Flows\<close>, \<open>Vault_Moves\<close> (\<open>classes/vault.ts\<close>, \<open>classes/farm_utils.ts\<close>, \<open>utils/lookupTable.ts\<close>): the
    vault account and its allocations; token totals, shares and the target allocation; weighted yields; configuration values and
    names as bytes; the instructions that create, update, invest, deposit to and withdraw from a vault.
  \<^item> \<open>Vault_Withdraw\<close>, \<open>Vault_Laws\<close>, \<open>Vault_Targets\<close>: how a withdrawal is split over the reserves, lookup table insertion and name encoding,
    and what the allocation loop distributes and when it never ends. The locale \<open>best_first\<close> holds what the split needs of the sorted
    reserves and is interpreted on the sort of the code.
  \<^item> \<open>Market_Config\<close> (\<open>classes/manager.ts\<close>): the updates of a lending market. \<open>Market_Program\<close>: the handler of the lending program that
    receives them (\<open>programs/klend/src/handlers/handler_update_lending_market.rs\<close>), with the locale \<open>borsh_le_laws\<close> that extends
    \<open>borsh_laws\<close>. \<open>Market_Laws\<close>: client and program together, over every setting, and when nothing is sent.
  \<^item> \<open>Asset_Config\<close> (\<open>utils/managerTypes.ts\<close>, \<open>classes/manager.ts\<close>): new markets and reserves, and the asset configurations, whose
    parameter objects live in a store because the constructors share and overwrite one of them.

  \<^bold>\<open>What the lemmas show.\<close> Round trips: fractions, lamports, configuration layout, payloads, vault names. Refinement and equivalence: the hash map
  against a map, the market in the account after the program ran the updates of the client, no update exactly for equal settings, the
  group request of a swap, transactions against the list of instructions.
  Invariants: the totals of a loan, untouched slots in simulations, labels beside instructions. Bounds: rates, debts, borrow amounts,
  available liquidity, vault allocations. Safety: refreshes before lending, flash loan index, order of configuration updates. Liveness: configuration
  updates and deposits are built. Errors: which calls throw, also where they should not; the theorems named in the findings of the
  manifest prove those.

  \<^bold>\<open>Not modelled.\<close> Fetching, sending and simulating (network), logging, command line clients, the JSON conversions and error tables of
  generated code, farm reward yields and APYs (\<open>Math.pow\<close> with a fractional exponent), oracle accounts of other programs, the
  methods of \<open>classes/manager.ts\<close> that forward to the vault client or list accounts, \<open>addAssetToMarketIxs\<close> (its configuration has arrays
  shorter than the layout, which the borsh package pads), the vault holders that \<open>classes/vault.ts\<close> reads from scans of all program
  accounts, and, but for the handler above, the Rust program and client.
\<close>

end
